(* ===== verification/Prelude.thy ===== *)
theory Prelude
  imports Main "HOL-Library.AList" "HOL-Library.Char_ord" "HOL-Library.List_Lexorder"
    "HOL-Library.Product_Lexorder" "HOL-Library.Option_ord"
begin

text \<open>
  Shared vocabulary of the development: errors as values, Python dictionaries as
  association lists, Python strings as character lists (ASCII), and the relational tables
  of the database as lists of rows.  The lemmas here carry the component proofs.
\<close>

section \<open>Errors and results\<close>

datatype py_error =
    ValueError
  | TypeError
  | KeyError
  | RuntimeError
  | InvalidOperation
  | MultipleResultsFound
  | IntegrityError
  | HTTPException int
  | ProviderError string

type_synonym 'a result = "py_error + 'a"

definition is_ok :: "'a result \<Rightarrow> bool" where
  "is_ok r = (case r of Inl _ \<Rightarrow> False | Inr _ \<Rightarrow> True)"

lemma is_ok_simps [simp]: "is_ok (Inl e) = False" "is_ok (Inr x) = True"
  by (simp_all add: is_ok_def)

text \<open>Sequencing: the first error ends the computation, as an uncaught exception does.\<close>

definition and_then :: "'a result \<Rightarrow> ('a \<Rightarrow> 'b result) \<Rightarrow> 'b result" where
  "and_then r f = (case r of Inl e \<Rightarrow> Inl e | Inr x \<Rightarrow> f x)"

lemma and_then_simps [simp]:
  "and_then (Inl e) f = Inl e"
  "and_then (Inr x) f = f x"
  by (simp_all add: and_then_def)

lemma and_then_Inr_iff: "and_then r f = Inr y \<longleftrightarrow> (\<exists>x. r = Inr x \<and> f x = Inr y)"
  by (cases r) auto

lemma and_then_Inl_iff: "and_then r f = Inl e \<longleftrightarrow> r = Inl e \<or> (\<exists>x. r = Inr x \<and> f x = Inl e)"
  by (cases r) auto

text \<open>A list of fallible computations, left to right.\<close>

fun map_result :: "('a \<Rightarrow> 'b result) \<Rightarrow> 'a list \<Rightarrow> 'b list result" where
  "map_result f [] = Inr []"
| "map_result f (x # xs) = and_then (f x) (\<lambda>y. and_then (map_result f xs) (\<lambda>ys. Inr (y # ys)))"

lemma map_result_cong [fundef_cong]:
  "xs = ys \<Longrightarrow> (\<And>x. x \<in> set ys \<Longrightarrow> f x = g x) \<Longrightarrow> map_result f xs = map_result g ys"
  by (induction ys arbitrary: xs) auto

lemma map_result_Inr: "(\<And>x. x \<in> set xs \<Longrightarrow> f x = Inr (g x)) \<Longrightarrow> map_result f xs = Inr (map g xs)"
  by (induction xs) auto

lemma map_result_map_Inr: "(\<And>x. x \<in> set xs \<Longrightarrow> f (g x) = Inr x) \<Longrightarrow> map_result f (map g xs) = Inr xs"
  by (induction xs) auto

lemma map_result_length: "map_result f xs = Inr ys \<Longrightarrow> length ys = length xs"
  by (induction xs arbitrary: ys) (auto simp: and_then_Inr_iff)

lemma map_result_total: "(\<And>x. x \<in> set xs \<Longrightarrow> is_ok (f x)) \<Longrightarrow> is_ok (map_result f xs)"
proof (induction xs)
  case Nil
  then show ?case by simp
next
  case (Cons x xs)
  then have "is_ok (f x)" and "is_ok (map_result f xs)" by simp_all
  then show ?case by (auto simp: is_ok_def split: sum.splits)
qed

text \<open>A loop over a state that stops at the first error.\<close>

fun fold_result :: "('i \<Rightarrow> 's \<Rightarrow> 's result) \<Rightarrow> 'i list \<Rightarrow> 's \<Rightarrow> 's result" where
  "fold_result f [] s = Inr s"
| "fold_result f (i # is) s = and_then (f i s) (fold_result f is)"

lemma fold_result_invariant:
  assumes "fold_result f is s = Inr s'" "P s"
    and "\<And>i s s'. i \<in> set is \<Longrightarrow> P s \<Longrightarrow> f i s = Inr s' \<Longrightarrow> P s'"
  shows "P s'"
  using assms
proof (induction "is" arbitrary: s)
  case Nil
  then show ?case by simp
next
  case (Cons i "is")
  then obtain s1 where "f i s = Inr s1" "fold_result f is s1 = Inr s'" by (auto simp: and_then_Inr_iff)
  with Cons.IH [of s1] Cons.prems show ?case by auto
qed

lemma fold_result_total:
  assumes "P s" "\<And>i s. P s \<Longrightarrow> \<exists>s'. f i s = Inr s' \<and> P s'"
  shows "\<exists>s'. fold_result f is s = Inr s' \<and> P s'"
  using assms(1)
proof (induction "is" arbitrary: s)
  case Nil
  then show ?case by simp
next
  case (Cons i "is")
  from assms(2) [OF Cons.prems] obtain s1 where "f i s = Inr s1" "P s1" by auto
  with Cons.IH show ?case by auto
qed

lemma fold_result_establishes:
  assumes "fold_result f is s = Inr s'" "P s"
    and step: "\<And>i s s'. P s \<Longrightarrow> f i s = Inr s' \<Longrightarrow> P s' \<and> Q i s' \<and> (\<forall>j. Q j s \<longrightarrow> Q j s')"
  shows "P s' \<and> (\<forall>j. (j \<in> set is \<or> Q j s) \<longrightarrow> Q j s')"
  using assms(1,2)
proof (induction "is" arbitrary: s)
  case Nil
  then show ?case by simp
next
  case (Cons i "is")
  then obtain s1 where s1: "f i s = Inr s1" "fold_result f is s1 = Inr s'" by (auto simp: and_then_Inr_iff)
  from step [OF Cons.prems(2) s1(1)] Cons.IH [OF s1(2)] show ?case by auto
qed

text \<open>An outbox: a queue that is worked off item by item and logs what it sends.  When an item is
  sent only under a guard, and working on an item never opens what is guarded, everything a
  run sends was allowed at its start.  When the work does not close it either, the guard is the same afterwards.\<close>

locale guarded_queue =
  fixes step :: "'i \<Rightarrow> 'w \<Rightarrow> 'w result" and sent :: "'w \<Rightarrow> 's list" and guard :: "'w \<Rightarrow> 's \<Rightarrow> bool"
  assumes never_opens: "step i w = Inr w' \<Longrightarrow> guard w' s \<Longrightarrow> guard w s"
    and guarded: "step i w = Inr w' \<Longrightarrow> \<exists>new. sent w' = sent w @ new \<and> (\<forall>s \<in> set new. guard w s)"
begin

lemma run_guarded:
  "fold_result step is w = Inr w' \<Longrightarrow> \<exists>new. sent w' = sent w @ new \<and> (\<forall>s \<in> set new. guard w s)"
proof (induction "is" arbitrary: w)
  case Nil
  then show ?case by simp
next
  case (Cons i "is")
  then obtain w1 where w1: "step i w = Inr w1" "fold_result step is w1 = Inr w'"
    by (auto simp: and_then_Inr_iff)
  from Cons.IH [OF w1(2)] obtain new where new: "sent w' = sent w1 @ new" "\<forall>s \<in> set new. guard w1 s" by auto
  from guarded [OF w1(1)] obtain first where f: "sent w1 = sent w @ first" "\<forall>s \<in> set first. guard w s" by auto
  have "\<forall>s \<in> set (first @ new). guard w s" using f(2) new(2) never_opens [OF w1(1)] by auto
  with new(1) f(1) show ?case by (intro exI [of _ "first @ new"]) simp
qed

end

locale outbox =
  fixes step :: "'i \<Rightarrow> 'w \<Rightarrow> 'w result" and sent :: "'w \<Rightarrow> 's list" and guard :: "'w \<Rightarrow> 's \<Rightarrow> bool"
  assumes stable: "step i w = Inr w' \<Longrightarrow> guard w' s = guard w s"
    and logged: "step i w = Inr w' \<Longrightarrow> \<exists>new. sent w' = sent w @ new \<and> (\<forall>s \<in> set new. guard w s)"
begin

lemma run_stable: "fold_result step is w = Inr w' \<Longrightarrow> guard w' s = guard w s"
  by (rule fold_result_invariant [of step "is" w w' "\<lambda>v. guard v s = guard w s"]) (auto simp: stable)

end

sublocale outbox \<subseteq> guarded_queue
  by unfold_locales (simp_all add: stable logged)

text \<open>A queue whose items are rows of a table: working on an item changes no row but its own, and leaves that row
  and the log in a state that fits the item.  Then every item of a run ends in a state that fits it.\<close>

locale row_queue =
  fixes step :: "'i \<Rightarrow> 'w \<Rightarrow> 'w result" and key :: "'i \<Rightarrow> int" and row :: "'w \<Rightarrow> int \<Rightarrow> 'i option"
    and sent :: "'w \<Rightarrow> 's list" and fits :: "'i \<Rightarrow> 'i option \<Rightarrow> 's list \<Rightarrow> bool"
  assumes only_own: "step i w = Inr w' \<Longrightarrow> k \<noteq> key i \<Longrightarrow> row w' k = row w k"
    and fitting: "step i w = Inr w' \<Longrightarrow> row w (key i) = Some i \<Longrightarrow> \<exists>new. sent w' = sent w @ new \<and> fits i (row w' (key i)) new"
begin

lemma run_other: "fold_result step is w = Inr w' \<Longrightarrow> k \<notin> key ` set is \<Longrightarrow> row w' k = row w k"
  by (induction "is" arbitrary: w) (auto simp: and_then_Inr_iff only_own)

lemma run_fits:
  assumes "fold_result step is w = Inr w'" "distinct (map key is)" "\<And>i. i \<in> set is \<Longrightarrow> row w (key i) = Some i"
  shows "\<exists>logs. length logs = length is \<and> sent w' = sent w @ concat logs \<and>
    (\<forall>n < length is. fits (is ! n) (row w' (key (is ! n))) (logs ! n))"
  using assms
proof (induction "is" arbitrary: w)
  case Nil
  then show ?case by simp
next
  case (Cons i "is")
  then obtain w1 where w1: "step i w = Inr w1" "fold_result step is w1 = Inr w'" by (auto simp: and_then_Inr_iff)
  obtain new where new: "sent w1 = sent w @ new" "fits i (row w1 (key i)) new" using fitting [OF w1(1)] Cons.prems(3) by auto
  have "row w1 (key j) = Some j" if "j \<in> set is" for j
    using only_own [OF w1(1), of "key j"] Cons.prems(2) Cons.prems(3) [of j] that by (auto simp: image_iff)
  from Cons.IH [OF w1(2) _ this] Cons.prems(2) obtain logs where logs: "length logs = length is" "sent w' = sent w1 @ concat logs"
    "\<forall>n < length is. fits (is ! n) (row w' (key (is ! n))) (logs ! n)" by auto
  have "row w' (key i) = row w1 (key i)" using run_other [OF w1(2)] Cons.prems(2) by simp
  then have "\<forall>n < length (i # is). fits ((i # is) ! n) (row w' (key ((i # is) ! n))) ((new # logs) ! n)"
    using new(2) logs(3) by (auto simp: nth_Cons split: nat.split)
  with new(1) logs(1,2) show ?case by (intro exI [of _ "new # logs"]) simp
qed

end

section \<open>Rows and tables\<close>

text \<open>
  A table is the list of its rows in primary-key order of insertion.  \<open>next_id\<close> is the
  serial primary key of an inserted row, \<open>update_where\<close> the effect of assigning to the
  attributes of the selected rows, \<open>scalar_one_or_none\<close> the query method of that name.
\<close>

named_theorems table_simps "facts about rows, tables and dictionaries"

definition next_id :: "('r \<Rightarrow> int) \<Rightarrow> 'r list \<Rightarrow> int" where
  "next_id key rows = 1 + foldr max (map key rows) 0"

definition update_where :: "('r \<Rightarrow> bool) \<Rightarrow> ('r \<Rightarrow> 'r) \<Rightarrow> 'r list \<Rightarrow> 'r list" where
  "update_where P f rows = map (\<lambda>r. if P r then f r else r) rows"

fun scalar_one_or_none :: "'r list \<Rightarrow> 'r option result" where
  "scalar_one_or_none [] = Inr None"
| "scalar_one_or_none [r] = Inr (Some r)"
| "scalar_one_or_none (r # r' # rs) = Inl MultipleResultsFound"

fun first_row :: "'r list \<Rightarrow> 'r option" where
  "first_row [] = None"
| "first_row (r # rs) = Some r"

lemma next_id_fresh: "r \<in> set rows \<Longrightarrow> key r < next_id key rows"
  by (induction rows) (fastforce simp: next_id_def)+

lemma next_id_not_in: "next_id key rows \<notin> key ` set rows"
proof
  assume "next_id key rows \<in> key ` set rows"
  then obtain r where "r \<in> set rows" and "next_id key rows = key r" by auto
  with next_id_fresh [of r rows key] show False by simp
qed

lemma next_id_pos: "0 < next_id key rows"
  by (induction rows) (auto simp: next_id_def)

lemma length_update_where [simp]: "length (update_where P f rows) = length rows"
  by (simp add: update_where_def)

lemma update_where_append [simp]:
  "update_where P f (xs @ ys) = update_where P f xs @ update_where P f ys"
  by (simp add: update_where_def)

lemma update_where_Nil [simp]: "update_where P f [] = []"
  by (simp add: update_where_def)

lemma update_where_Cons [simp]:
  "update_where P f (r # rs) = (if P r then f r else r) # update_where P f rs"
  by (simp add: update_where_def)

lemma set_update_where:
  "set (update_where P f rows) = f ` {r \<in> set rows. P r} \<union> {r \<in> set rows. \<not> P r}"
  by (auto simp: update_where_def)

lemma update_where_none: "(\<And>r. r \<in> set rows \<Longrightarrow> \<not> P r) \<Longrightarrow> update_where P f rows = rows"
  by (induction rows) auto

lemma map_update_where:
  "(\<And>r. r \<in> set rows \<Longrightarrow> P r \<Longrightarrow> g (f r) = g r) \<Longrightarrow> map g (update_where P f rows) = map g rows"
  by (induction rows) auto

lemma filter_update_where:
  "(\<And>r. r \<in> set rows \<Longrightarrow> P r \<Longrightarrow> Q (f r) = Q r) \<Longrightarrow>
   filter Q (update_where P f rows) = update_where P f (filter Q rows)"
  by (induction rows) auto

lemma filter_update_where_disjoint:
  "(\<And>r. r \<in> set rows \<Longrightarrow> P r \<Longrightarrow> \<not> Q r \<and> \<not> Q (f r)) \<Longrightarrow>
   filter Q (update_where P f rows) = filter Q rows"
  by (induction rows) auto

lemma list_ex_update_where:
  "(\<And>r. r \<in> set rows \<Longrightarrow> P r \<Longrightarrow> Q (f r) = Q r) \<Longrightarrow> list_ex Q (update_where P f rows) = list_ex Q rows"
  by (induction rows) auto

lemma in_update_where:
  "r' \<in> set (update_where P f rows) \<Longrightarrow> \<exists>r \<in> set rows. r' = (if P r then f r else r)"
  by (auto simp: update_where_def)

lemma scalar_one_or_none_ok: "is_ok (scalar_one_or_none rows) \<longleftrightarrow> length rows \<le> 1"
  by (cases rows rule: scalar_one_or_none.cases) auto

lemma scalar_one_or_none_first:
  "scalar_one_or_none rows = Inr r \<Longrightarrow> r = first_row rows"
  by (cases rows rule: scalar_one_or_none.cases) auto

lemma scalar_one_or_none_None [simp]: "scalar_one_or_none rows = Inr None \<longleftrightarrow> rows = []"
  by (cases rows rule: scalar_one_or_none.cases) auto

lemma scalar_one_or_none_Some: "scalar_one_or_none rows = Inr (Some r) \<longleftrightarrow> rows = [r]"
  by (cases rows rule: scalar_one_or_none.cases) auto

lemma first_row_None [simp]: "first_row rows = None \<longleftrightarrow> rows = []"
  by (cases rows) auto

lemma first_row_in: "first_row rows = Some r \<Longrightarrow> r \<in> set rows"
  by (cases rows) auto

lemmas [table_simps] = set_update_where filter_update_where scalar_one_or_none_Some

text \<open>Unique keys: at most one row of a table per key.\<close>

definition unique_on :: "('r \<Rightarrow> 'k) \<Rightarrow> 'r list \<Rightarrow> bool" where
  "unique_on key rows = distinct (map key rows)"

lemma unique_on_Nil [simp]: "unique_on key []"
  by (simp add: unique_on_def)

lemma unique_on_append_row:
  "unique_on key (rows @ [r]) \<longleftrightarrow> unique_on key rows \<and> key r \<notin> key ` set rows"
  by (auto simp: unique_on_def)

lemma unique_on_update:
  "(\<And>r. r \<in> set rows \<Longrightarrow> P r \<Longrightarrow> key (f r) = key r) \<Longrightarrow>
   unique_on key (update_where P f rows) = unique_on key rows"
  by (simp add: unique_on_def map_update_where)

lemma unique_on_inj: "unique_on key rows \<Longrightarrow> r \<in> set rows \<Longrightarrow> r' \<in> set rows \<Longrightarrow> key r = key r' \<Longrightarrow> r = r'"
  by (simp add: unique_on_def distinct_map inj_on_def)

lemma unique_on_filter_le_one:
  "unique_on key rows \<Longrightarrow> length (filter (\<lambda>r. key r = k) rows) \<le> 1"
proof (induction rows)
  case Nil
  then show ?case by simp
next
  case (Cons r rows)
  have "filter (\<lambda>r. key r = k) rows = []" if "key r = k"
    using Cons.prems that by (auto simp: unique_on_def filter_empty_conv image_iff)
  with Cons show ?case by (auto simp: unique_on_def)
qed

section \<open>Dictionaries\<close>

text \<open>
  A Python dictionary is an association list with distinct keys, in insertion order:
  assigning to a present key keeps its position, a new key goes last.  This is exactly
  \<^const>\<open>AList.update\<close>; reading is \<^const>\<open>map_of\<close>.
\<close>

abbreviation dict_set :: "'k \<Rightarrow> 'v \<Rightarrow> ('k \<times> 'v) list \<Rightarrow> ('k \<times> 'v) list" where
  "dict_set \<equiv> AList.update"

definition dict_get :: "('k \<times> 'v) list \<Rightarrow> 'k \<Rightarrow> 'v \<Rightarrow> 'v" where
  "dict_get d k def = (case map_of d k of None \<Rightarrow> def | Some v \<Rightarrow> v)"

definition dict_pop :: "'k \<Rightarrow> ('k \<times> 'v) list \<Rightarrow> ('k \<times> 'v) list" where
  "dict_pop k d = filter (\<lambda>(k', _). k' \<noteq> k) d"

text \<open>\<open>{**a, **b}\<close>: the entries of \<open>b\<close> assigned over \<open>a\<close> in order.\<close>

definition dict_merge :: "('k \<times> 'v) list \<Rightarrow> ('k \<times> 'v) list \<Rightarrow> ('k \<times> 'v) list" where
  "dict_merge a b = foldl (\<lambda>d (k, v). dict_set k v d) a b"

text \<open>\<open>d.setdefault(k, v0)\<close> followed by an update of the stored value.\<close>

definition dict_alter :: "'k \<Rightarrow> 'v \<Rightarrow> ('v \<Rightarrow> 'v) \<Rightarrow> ('k \<times> 'v) list \<Rightarrow> ('k \<times> 'v) list" where
  "dict_alter k v0 f d = dict_set k (f (dict_get d k v0)) d"

lemma map_of_dict_set [simp]: "map_of (dict_set k v d) = (map_of d)(k \<mapsto> v)"
  by (rule update_conv')

lemma keys_dict_set: "fst ` set (dict_set k v d) = insert k (fst ` set d)"
proof -
  have "dom (map_of (dict_set k v d)) = insert k (dom (map_of d))" by simp
  then show ?thesis by (simp only: dom_map_of_conv_image_fst)
qed

lemma set_dict_set_subset: "set (dict_set k v d) \<subseteq> insert (k, v) (set d)"
  by (induction d) auto

lemma distinct_dict_set: "distinct (map fst d) \<Longrightarrow> distinct (map fst (dict_set k v d))"
  by (rule distinct_update)

lemma map_of_dict_pop [simp]: "map_of (dict_pop k d) = (map_of d)(k := None)"
  by (induction d) (auto simp: dict_pop_def fun_eq_iff)

lemma map_of_dict_merge: "map_of (dict_merge a b) = map_of a ++ map_of (rev b)"
proof (induction b arbitrary: a)
  case Nil
  then show ?case by (simp add: dict_merge_def)
next
  case (Cons p b)
  obtain k v where p: "p = (k, v)" by (cases p)
  have "dict_merge a (p # b) = dict_merge (dict_set k v a) b"
    by (simp add: dict_merge_def p)
  with Cons.IH show ?case by (simp add: p fun_eq_iff map_add_def split: option.splits)
qed

lemma map_of_dict_alter: "map_of (dict_alter k v0 f d) = (map_of d)(k \<mapsto> f (dict_get d k v0))"
  by (simp add: dict_alter_def)

lemma dict_get_set [simp]:
  "dict_get (dict_set k v d) k' x = (if k' = k then v else dict_get d k' x)"
  by (simp add: dict_get_def)

lemma dict_get_Nil [simp]: "dict_get [] k x = x"
  by (simp add: dict_get_def)

lemma dict_get_alter:
  "dict_get (dict_alter k v0 f d) k' x = (if k' = k then f (dict_get d k v0) else dict_get d k' x)"
  by (simp add: dict_alter_def)

text \<open>The items of a dictionary held as a map, in key order.\<close>

definition map_items :: "('k :: linorder \<rightharpoonup> 'v) \<Rightarrow> ('k \<times> 'v) list" where
  "map_items m = map (\<lambda>k. (k, the (m k))) (sorted_list_of_set (dom m))"

lemma map_fst_map_items: "map fst (map_items m) = sorted_list_of_set (dom m)"
  by (simp add: map_items_def comp_def)

lemma distinct_map_items [simp]: "distinct (map fst (map_items m))"
  by (simp add: map_fst_map_items)

lemma map_of_map_items [simp]: "finite (dom m) \<Longrightarrow> map_of (map_items m) = m"
  by (auto simp: map_items_def map_of_map_restrict restrict_map_def fun_eq_iff dom_def)

lemma set_map_items: "finite (dom m) \<Longrightarrow> (k, v) \<in> set (map_items m) \<longleftrightarrow> m k = Some v"
  by (auto simp: map_items_def dom_def image_iff)

lemma map_items_empty [simp]: "map_items Map.empty = []"
  by (simp add: map_items_def)

text \<open>A dictionary of sets that is extended for the keys in a set: the effect of
  \<open>for k in keys: d.setdefault(k, ...)\<close> with an update of the stored value, whatever the
  order of the iteration.\<close>

definition alter_keys :: "'k set \<Rightarrow> 'v \<Rightarrow> ('v \<Rightarrow> 'v) \<Rightarrow> ('k \<rightharpoonup> 'v) \<Rightarrow> ('k \<rightharpoonup> 'v)" where
  "alter_keys ks v0 f m = (\<lambda>k. if k \<in> ks then Some (f (case m k of None \<Rightarrow> v0 | Some v \<Rightarrow> v)) else m k)"

lemma dom_alter_keys [simp]: "dom (alter_keys ks v0 f m) = dom m \<union> ks"
  by (auto simp: alter_keys_def dom_def)

lemma alter_keys_commute:
  assumes "\<And>v. f (g v) = g (f v)"
  shows "alter_keys ks v0 f (alter_keys ls v0 g m) = alter_keys ls v0 g (alter_keys ks v0 f m)"
  using assms by (auto simp: alter_keys_def fun_eq_iff)

lemma alter_keys_invariant:
  "\<forall>k v. m k = Some v \<longrightarrow> P v \<Longrightarrow> P v0 \<Longrightarrow> (\<And>v. P v \<Longrightarrow> P (f v)) \<Longrightarrow>
   alter_keys ks v0 f m k = Some v \<Longrightarrow> P v"
  by (auto simp: alter_keys_def split: if_splits option.splits)

section \<open>Grouping\<close>

definition first_seen :: "'a list \<Rightarrow> 'a list" where
  "first_seen xs = rev (remdups (rev xs))"

lemma set_first_seen [simp]: "set (first_seen xs) = set xs"
  by (simp add: first_seen_def)

lemma distinct_first_seen [simp]: "distinct (first_seen xs)"
  by (simp add: first_seen_def)

text \<open>\<open>for x in xs: groups.setdefault(f(x), []).append(x)\<close>.\<close>

definition group_by :: "('a \<Rightarrow> 'k) \<Rightarrow> 'a list \<Rightarrow> ('k \<times> 'a list) list" where
  "group_by f xs = map (\<lambda>k. (k, filter (\<lambda>x. f x = k) xs)) (first_seen (map f xs))"

lemma map_fst_group_by [simp]: "map fst (group_by f xs) = first_seen (map f xs)"
  by (simp add: group_by_def comp_def)

lemma in_group_by: "(k, g) \<in> set (group_by f xs) \<longleftrightarrow> k \<in> f ` set xs \<and> g = filter (\<lambda>x. f x = k) xs"
  by (auto simp: group_by_def)

lemma group_by_covers: "x \<in> set xs \<Longrightarrow> \<exists>g. (f x, g) \<in> set (group_by f xs) \<and> x \<in> set g"
  by (auto simp: in_group_by)

lemma group_by_unique:
  "(k, g) \<in> set (group_by f xs) \<Longrightarrow> x \<in> set g \<Longrightarrow> k = f x"
  by (auto simp: in_group_by)

end
