(* ===== verification/PyText.thy ===== *)
theory PyText
  imports Prelude
begin

text \<open>
  The part of Python's \<open>str\<close> and \<open>datetime.date\<close> the modelled code uses: decimal
  printing and parsing, prefix and separator operations, ISO dates
  (\<open>date.fromisoformat\<close>, \<open>isoformat\<close>, ordinals).  Strings are ASCII character
  lists, ordered lexicographically as Python orders them.
\<close>

section \<open>Decimal numerals\<close>

definition digit_char :: "nat \<Rightarrow> char" where
  "digit_char n = char_of (48 + n)"

definition is_digit :: "char \<Rightarrow> bool" where
  "is_digit c \<longleftrightarrow> 48 \<le> (of_char c :: nat) \<and> (of_char c :: nat) \<le> 57"

definition digit_val :: "char \<Rightarrow> nat" where
  "digit_val c = of_char c - 48"

fun show_nat :: "nat \<Rightarrow> string" where
  "show_nat n = (if n < 10 then [digit_char n] else show_nat (n div 10) @ [digit_char (n mod 10)])"

declare show_nat.simps [simp del]

definition show_int :: "int \<Rightarrow> string" where
  "show_int i = (if i < 0 then CHR ''-'' # show_nat (nat (- i)) else show_nat (nat i))"

definition nat_of_digits :: "string \<Rightarrow> nat" where
  "nat_of_digits s = foldl (\<lambda>n c. 10 * n + digit_val c) 0 s"

text \<open>\<open>str.isdigit\<close>: non-empty and digits only.\<close>

definition isdigit :: "string \<Rightarrow> bool" where
  "isdigit s \<longleftrightarrow> s \<noteq> [] \<and> list_all is_digit s"

lemma of_digit_char: "n < 10 \<Longrightarrow> of_char (digit_char n) = (48 + n :: nat)"
  by (simp add: digit_char_def of_char_of)

lemma digit_val_char [simp]: "n < 10 \<Longrightarrow> digit_val (digit_char n) = n"
  by (simp add: digit_val_def of_digit_char)

lemma is_digit_char [simp]: "n < 10 \<Longrightarrow> is_digit (digit_char n)"
  by (simp add: is_digit_def of_digit_char)

lemma digit_char_inj: "n < 10 \<Longrightarrow> m < 10 \<Longrightarrow> digit_char n = digit_char m \<longleftrightarrow> n = m"
  by (metis digit_val_char)

lemma digit_char_less: "n < 10 \<Longrightarrow> m < 10 \<Longrightarrow> digit_char n < digit_char m \<longleftrightarrow> n < m"
  by (simp add: less_char_def of_digit_char)

lemma digit_char_le: "n < 10 \<Longrightarrow> m < 10 \<Longrightarrow> digit_char n \<le> digit_char m \<longleftrightarrow> n \<le> m"
  by (simp add: less_eq_char_def of_digit_char)

lemma is_digit_not_special [simp]:
  "\<not> is_digit CHR ''-''" "\<not> is_digit CHR '':''" "\<not> is_digit CHR ''W''" "\<not> is_digit CHR '' ''"
  by (simp_all add: is_digit_def)

lemma nat_of_digits_snoc [simp]: "nat_of_digits (s @ [c]) = 10 * nat_of_digits s + digit_val c"
  by (simp add: nat_of_digits_def)

lemma nat_of_show_nat [simp]: "nat_of_digits (show_nat n) = n"
proof (induction n rule: show_nat.induct)
  case (1 n)
  show ?case
  proof (cases "n < 10")
    case True
    then show ?thesis by (simp add: show_nat.simps [of n] nat_of_digits_def)
  next
    case False
    with 1 show ?thesis by (simp add: show_nat.simps [of n])
  qed
qed

lemma show_nat_digits: "list_all is_digit (show_nat n)"
proof (induction n rule: show_nat.induct)
  case (1 n)
  then show ?case by (simp add: show_nat.simps [of n])
qed

lemma show_nat_nonempty [simp]: "show_nat n \<noteq> []"
  by (subst show_nat.simps) simp

lemma isdigit_show_nat [simp]: "isdigit (show_nat n)"
  by (simp add: isdigit_def show_nat_digits)

lemma show_nat_inj [simp]: "show_nat n = show_nat m \<longleftrightarrow> n = m"
  by (metis nat_of_show_nat)

lemma show_nat_no_special:
  "CHR '':'' \<notin> set (show_nat n)" "CHR ''-'' \<notin> set (show_nat n)"
  using show_nat_digits [of n] by (auto simp: list_all_iff)

lemma show_int_inj [simp]: "show_int i = show_int j \<longleftrightarrow> i = j"
proof
  assume eq: "show_int i = show_int j"
  have minus: "CHR ''-'' # s \<noteq> show_nat n" for s n
    using show_nat_no_special(2) [of n] by (metis list.set_intros(1))
  show "i = j"
  proof (cases "i < 0"; cases "j < 0")
    assume "i < 0" "j < 0"
    with eq show ?thesis by (simp add: show_int_def)
  next
    assume "i < 0" "\<not> j < 0"
    with eq minus show ?thesis by (auto simp: show_int_def)
  next
    assume "\<not> i < 0" "j < 0"
    with eq minus show ?thesis by (auto simp: show_int_def dest: sym)
  next
    assume "\<not> i < 0" "\<not> j < 0"
    with eq show ?thesis by (simp add: show_int_def)
  qed
qed simp

lemma show_int_no_colon: "CHR '':'' \<notin> set (show_int i)"
  by (simp add: show_int_def show_nat_no_special)

text \<open>\<open>int(s)\<close> for text: optional surrounding blanks and sign, ASCII digits with single
  underscores between them; anything else raises \<open>ValueError\<close> (here \<^const>\<open>None\<close>).\<close>

definition is_space :: "char \<Rightarrow> bool" where
  "is_space c \<longleftrightarrow> c = CHR '' '' \<or> (9 \<le> (of_char c :: nat) \<and> (of_char c :: nat) \<le> 13)
     \<or> (28 \<le> (of_char c :: nat) \<and> (of_char c :: nat) \<le> 31)"

definition strip :: "string \<Rightarrow> string" where
  "strip s = rev (dropWhile is_space (rev (dropWhile is_space s)))"

fun int_digits :: "string \<Rightarrow> string option" where
  "int_digits [] = None"
| "int_digits [c] = (if is_digit c then Some [c] else None)"
| "int_digits (c # d # s) =
     (if \<not> is_digit c then None
      else if d = CHR ''_'' then map_option ((#) c) (int_digits s)
      else map_option ((#) c) (int_digits (d # s)))"

definition int_of_str :: "string \<Rightarrow> int option" where
  "int_of_str s =
     (case strip s of
        [] \<Rightarrow> None
      | c # cs \<Rightarrow>
          if c = CHR ''-'' then map_option (\<lambda>ds. - int (nat_of_digits ds)) (int_digits cs)
          else if c = CHR ''+'' then map_option (\<lambda>ds. int (nat_of_digits ds)) (int_digits cs)
          else map_option (\<lambda>ds. int (nat_of_digits ds)) (int_digits (c # cs)))"

lemma int_digits_digits: "s \<noteq> [] \<Longrightarrow> list_all is_digit s \<Longrightarrow> int_digits s = Some s"
proof (induction s rule: int_digits.induct)
  case (3 c d s)
  have "d \<noteq> CHR ''_''" using 3(4) by (auto simp: is_digit_def)
  with 3 show ?case by simp
qed auto

lemma is_digit_not_space: "is_digit c \<Longrightarrow> \<not> is_space c"
  by (auto simp: is_digit_def is_space_def)

lemma dropWhile_digits: "list_all is_digit s \<Longrightarrow> dropWhile is_space s = s"
  by (cases s) (auto simp: is_digit_not_space)

lemma strip_digits: "list_all is_digit s \<Longrightarrow> strip s = s"
  by (simp add: strip_def dropWhile_digits list_all_rev)

lemma int_of_str_digits:
  assumes "isdigit s"
  shows "int_of_str s = Some (int (nat_of_digits s))"
proof -
  obtain c cs where s: "s = c # cs" and dig: "list_all is_digit s"
    using assms by (cases s) (auto simp: isdigit_def)
  then have "c \<noteq> CHR ''-''" and "c \<noteq> CHR ''+''" by (auto simp: is_digit_def)
  with s dig show ?thesis
    using strip_digits [OF dig] int_digits_digits [of s] by (simp add: int_of_str_def)
qed

lemma int_of_show_nat [simp]: "int_of_str (show_nat n) = Some (int n)"
  by (simp add: int_of_str_digits)

lemma strip_show_int: "strip (show_int i) = show_int i"
proof (cases "i < 0")
  case True
  have "\<not> is_space CHR ''-''" by (simp add: is_space_def)
  moreover have "dropWhile is_space (rev (show_nat (nat (- i))) @ [CHR ''-'']) =
      rev (show_nat (nat (- i))) @ [CHR ''-'']"
    by (cases "rev (show_nat (nat (- i)))")
      (use show_nat_digits [of "nat (- i)"] in \<open>auto simp: is_digit_not_space list_all_iff
        dest!: arg_cong [of "rev _" _ set]\<close>)
  ultimately show ?thesis using True by (simp add: show_int_def strip_def)
next
  case False
  then show ?thesis by (simp add: show_int_def strip_digits show_nat_digits)
qed

lemma int_of_show_int [simp]: "int_of_str (show_int i) = Some i"
proof (cases "i < 0")
  case True
  then have "show_int i = CHR ''-'' # show_nat (nat (- i))" by (simp add: show_int_def)
  with strip_show_int [of i] have "strip (show_int i) = CHR ''-'' # show_nat (nat (- i))" by simp
  with True show ?thesis
    by (simp add: int_of_str_def int_digits_digits show_nat_digits)
next
  case False
  then show ?thesis by (simp add: show_int_def)
qed

section \<open>Prefixes and separators\<close>

definition starts_with :: "string \<Rightarrow> string \<Rightarrow> bool" where
  "starts_with p s \<longleftrightarrow> take (length p) s = p"

text \<open>\<open>s.split(c, 1)\<close>: the text before the first \<open>c\<close> and, if there is one, the rest.\<close>

fun split_once :: "char \<Rightarrow> string \<Rightarrow> string \<times> string option" where
  "split_once c [] = ([], None)"
| "split_once c (d # s) =
     (if d = c then ([], Some s)
      else (case split_once c s of (a, b) \<Rightarrow> (d # a, b)))"

text \<open>\<open>s.rsplit(c, 2)\<close> when it yields three parts; \<^const>\<open>None\<close> when there are fewer.\<close>

definition rsplit3 :: "char \<Rightarrow> string \<Rightarrow> (string \<times> string \<times> string) option" where
  "rsplit3 c s =
     (case split_once c (rev s) of
        (_, None) \<Rightarrow> None
      | (z, Some rest) \<Rightarrow>
          (case split_once c rest of
             (_, None) \<Rightarrow> None
           | (y, Some x) \<Rightarrow> Some (rev x, rev y, rev z)))"

lemma split_once_sep: "c \<notin> set a \<Longrightarrow> split_once c (a @ c # b) = (a, Some b)"
  by (induction a) auto

lemma split_once_none: "c \<notin> set a \<Longrightarrow> split_once c a = (a, None)"
  by (induction a) auto

lemma split_once_parts:
  "split_once c s = (a, b) \<Longrightarrow> s = a @ (case b of None \<Rightarrow> [] | Some r \<Rightarrow> c # r) \<and> c \<notin> set a"
  by (induction s arbitrary: a) (auto split: if_splits prod.splits option.splits)

lemma rsplit3_join:
  assumes "c \<notin> set y" "c \<notin> set z"
  shows "rsplit3 c (x @ c # y @ c # z) = Some (x, y, z)"
proof -
  have "split_once c (rev (x @ c # y @ c # z)) = (rev z, Some (rev y @ c # rev x))"
    using assms split_once_sep [of c "rev z" "rev y @ c # rev x"] by simp
  moreover have "split_once c (rev y @ c # rev x) = (rev y, Some (rev x))"
    using assms split_once_sep [of c "rev y" "rev x"] by simp
  ultimately show ?thesis by (simp add: rsplit3_def)
qed

lemma starts_with_append [simp]: "starts_with p (p @ s)"
  by (simp add: starts_with_def)

lemma starts_with_iff: "starts_with p s \<longleftrightarrow> (\<exists>r. s = p @ r)"
  unfolding starts_with_def by (metis append_take_drop_id append_eq_conv_conj)

definition str_join :: "string \<Rightarrow> string list \<Rightarrow> string" where
  "str_join sep ps = concat (case ps of [] \<Rightarrow> [] | p # qs \<Rightarrow> p # map ((@) sep) qs)"

text \<open>Lower case (ASCII).\<close>

definition lower_char :: "char \<Rightarrow> char" where
  "lower_char c = (if 65 \<le> (of_char c :: nat) \<and> (of_char c :: nat) \<le> 90
     then char_of (of_char c + 32 :: nat) else c)"

definition lower :: "string \<Rightarrow> string" where
  "lower s = map lower_char s"

end
