(* ===== verification/PyDate.thy ===== *)
theory PyDate
  imports PyText
begin

text \<open>
  \<open>datetime.date\<close> as the proleptic Gregorian calendar of the Python library: the date
  type with its order, \<open>toordinal\<close>, \<open>fromordinal\<close>, \<open>isoformat\<close> and
  \<open>fromisoformat\<close> (calendar and ISO week forms), and naive UTC \<open>datetime\<close> values as
  microseconds since the epoch.
\<close>

section \<open>Dates\<close>

datatype date = Date (year: nat) (month: nat) (day: nat)

instantiation date :: linorder
begin

definition less_eq_date :: "date \<Rightarrow> date \<Rightarrow> bool" where
  "less_eq_date a b \<longleftrightarrow> (year a, month a, day a) \<le> (year b, month b, day b)"

definition less_date :: "date \<Rightarrow> date \<Rightarrow> bool" where
  "less_date a b \<longleftrightarrow> (year a, month a, day a) < (year b, month b, day b)"

instance
  by standard (auto simp: less_eq_date_def less_date_def date.expand)

end

definition is_leap :: "nat \<Rightarrow> bool" where
  "is_leap y \<longleftrightarrow> y mod 4 = 0 \<and> (y mod 100 \<noteq> 0 \<or> y mod 400 = 0)"

definition days_in_month :: "nat \<Rightarrow> nat \<Rightarrow> nat" where
  "days_in_month y m =
     (if m = 2 then (if is_leap y then 29 else 28)
      else if m \<in> {4, 6, 9, 11} then 30 else 31)"

definition valid_date :: "date \<Rightarrow> bool" where
  "valid_date d \<longleftrightarrow> 1 \<le> year d \<and> year d \<le> 9999 \<and> 1 \<le> month d \<and> month d \<le> 12
     \<and> 1 \<le> day d \<and> day d \<le> days_in_month (year d) (month d)"

definition mk_date :: "nat \<Rightarrow> nat \<Rightarrow> nat \<Rightarrow> date option" where
  "mk_date y m d = (if valid_date (Date y m d) then Some (Date y m d) else None)"

lemma mk_date_valid: "mk_date y m d = Some x \<Longrightarrow> valid_date x"
  by (auto simp: mk_date_def split: if_splits)

lemma days_in_month_bounds: "28 \<le> days_in_month y m" "days_in_month y m \<le> 31"
  by (auto simp: days_in_month_def)

lemma valid_date_bounds: "valid_date d \<Longrightarrow> year d < 10000 \<and> month d < 13 \<and> day d < 32"
  using days_in_month_bounds(2) [of "year d" "month d"] by (auto simp: valid_date_def)

subsection \<open>Ordinals\<close>

definition days_before_year :: "nat \<Rightarrow> nat" where
  "days_before_year y = (let z = y - 1 in z * 365 + z div 4 - z div 100 + z div 400)"

fun days_before_month :: "nat \<Rightarrow> nat \<Rightarrow> nat" where
  "days_before_month y m = sum_list (map (days_in_month y) [1..<m])"

declare days_before_month.simps [simp del]

definition toordinal :: "date \<Rightarrow> nat" where
  "toordinal d = days_before_year (year d) + days_before_month (year d) (month d) + day d"

fun month_of_day :: "nat \<Rightarrow> nat \<Rightarrow> nat list \<Rightarrow> nat \<times> nat" where
  "month_of_day y n [] = (12, n + 1)"
| "month_of_day y n (m # ms) =
     (if n < days_in_month y m then (m, n + 1) else month_of_day y (n - days_in_month y m) ms)"

definition fromordinal :: "nat \<Rightarrow> date" where
  "fromordinal ordinal =
     (let n = ordinal - 1;
          n400 = n div 146097; n = n mod 146097;
          n100 = n div 36524; n = n mod 36524;
          n4 = n div 1461; n = n mod 1461;
          n1 = n div 365; n = n mod 365;
          y = n400 * 400 + n100 * 100 + n4 * 4 + n1 + 1
      in if n1 = 4 \<or> n100 = 4 then Date (y - 1) 12 31
         else (case month_of_day y n [1..<13] of (m, d) \<Rightarrow> Date y m d))"

definition weekday :: "date \<Rightarrow> nat" where
  "weekday d = (toordinal d + 6) mod 7"

text \<open>Subtracting days from a date; the code only compares the result, so it stays an
  ordinal.\<close>

definition days_before :: "date \<Rightarrow> int \<Rightarrow> int" where
  "days_before d n = int (toordinal d) - n"

section \<open>ISO format\<close>

definition two_digits :: "nat \<Rightarrow> string" where
  "two_digits n = [digit_char (n div 10 mod 10), digit_char (n mod 10)]"

definition four_digits :: "nat \<Rightarrow> string" where
  "four_digits n = two_digits (n div 100) @ two_digits (n mod 100)"

definition isoformat :: "date \<Rightarrow> string" where
  "isoformat d = four_digits (year d) @ ''-'' @ two_digits (month d) @ ''-'' @ two_digits (day d)"

text \<open>The C library's \<open>parse_digits\<close>: exactly \<open>n\<close> digits, or failure.\<close>

definition parse_digits :: "nat \<Rightarrow> string \<Rightarrow> (nat \<times> string) option" where
  "parse_digits n s =
     (if length (take n s) = n \<and> list_all is_digit (take n s)
      then Some (nat_of_digits (take n s), drop n s) else None)"

definition iso_week1_monday :: "nat \<Rightarrow> nat" where
  "iso_week1_monday y =
     (let first = toordinal (Date y 1 1); wd = (first + 6) mod 7
      in if 3 < wd then first - wd + 7 else first - wd)"

definition iso_week_date :: "nat \<Rightarrow> nat \<Rightarrow> nat \<Rightarrow> date option" where
  "iso_week_date y week d =
     (let first = weekday (Date y 1 1)
      in if y < 1 \<or> 9999 < y then None
         else if week = 0 \<or> 53 < week then None
         else if week = 53 \<and> \<not> (first = 3 \<or> (first = 2 \<and> is_leap y)) then None
         else if d = 0 \<or> 7 < d then None
         else (let r = fromordinal (iso_week1_monday y + (week - 1) * 7 + (d - 1))
               in mk_date (year r) (month r) (day r)))"

definition fromisoformat :: "string \<Rightarrow> date option" where
  "fromisoformat s =
     (if length s \<noteq> 7 \<and> length s \<noteq> 8 \<and> length s \<noteq> 10 then None else
      case parse_digits 4 s of None \<Rightarrow> None
      | Some (y, s1) \<Rightarrow>
        (let sep = starts_with ''-'' s1; s2 = (if sep then drop 1 s1 else s1)
         in if starts_with ''W'' s2 then
              (case parse_digits 2 (drop 1 s2) of None \<Rightarrow> None
               | Some (w, s3) \<Rightarrow>
                 if s3 = [] then iso_week_date y w 1
                 else if sep \<and> \<not> starts_with ''-'' s3 then None
                 else (case parse_digits 1 (if sep then drop 1 s3 else s3) of None \<Rightarrow> None
                       | Some (d, _) \<Rightarrow> iso_week_date y w d))
            else
              (case parse_digits 2 s2 of None \<Rightarrow> None
               | Some (m, s3) \<Rightarrow>
                 if sep \<and> \<not> starts_with ''-'' s3 then None
                 else (case parse_digits 2 (if sep then drop 1 s3 else s3) of None \<Rightarrow> None
                       | Some (d, rest) \<Rightarrow> if rest = [] then mk_date y m d else None))))"

lemma two_digits_props:
  assumes "n < 100"
  shows "length (two_digits n) = 2" "list_all is_digit (two_digits n)"
    "nat_of_digits (two_digits n) = n"
  using assms by (simp_all add: two_digits_def nat_of_digits_def)

lemma length_four_digits [simp]: "length (four_digits n) = 4"
  by (simp add: four_digits_def two_digits_def)

lemma four_digits_props:
  assumes "n < 10000"
  shows "list_all is_digit (four_digits n)" "nat_of_digits (four_digits n) = n"
proof -
  show "list_all is_digit (four_digits n)"
    by (simp add: four_digits_def two_digits_def)
  have split: "nat_of_digits (s @ t) = 100 * nat_of_digits s + nat_of_digits t" if "length t = 2" for s t
  proof -
    from that obtain a b where "t = [a, b]"
      by (auto simp: length_Suc_conv numeral_2_eq_2)
    then show ?thesis by (simp add: nat_of_digits_def)
  qed
  show "nat_of_digits (four_digits n) = n"
    using assms by (simp add: four_digits_def split two_digits_props)
qed

lemma parse_digits_append:
  "length s = n \<Longrightarrow> list_all is_digit s \<Longrightarrow> parse_digits n (s @ t) = Some (nat_of_digits s, t)"
  by (simp add: parse_digits_def)

lemma parse_digits_exact:
  "length s = n \<Longrightarrow> list_all is_digit s \<Longrightarrow> parse_digits n s = Some (nat_of_digits s, [])"
  using parse_digits_append [of s n "[]"] by simp

lemma length_isoformat [simp]: "length (isoformat d) = 10"
  by (simp add: isoformat_def two_digits_def)

lemma mk_date_self: "valid_date d \<Longrightarrow> mk_date (year d) (month d) (day d) = Some d"
  by (simp add: mk_date_def)

theorem fromisoformat_isoformat:
  assumes "valid_date d"
  shows "fromisoformat (isoformat d) = Some d"
proof -
  have b: "year d < 10000" "month d < 100" "day d < 100"
    using valid_date_bounds [OF assms] by auto
  have y: "parse_digits 4 (isoformat d) =
      Some (year d, ''-'' @ two_digits (month d) @ ''-'' @ two_digits (day d))"
    unfolding isoformat_def
    using parse_digits_append [of "four_digits (year d)" 4] four_digits_props [OF b(1)] by simp
  have m: "parse_digits 2 (two_digits (month d) @ ''-'' @ two_digits (day d)) =
      Some (month d, ''-'' @ two_digits (day d))"
    using parse_digits_append [of "two_digits (month d)" 2] two_digits_props [OF b(2)] by simp
  have dd: "parse_digits 2 (two_digits (day d)) = Some (day d, [])"
    using parse_digits_exact [of "two_digits (day d)" 2] two_digits_props [OF b(3)] by simp
  have w: "\<not> starts_with ''W'' (two_digits (month d) @ ''-'' @ two_digits (day d))"
    using is_digit_char [of "month d div 10 mod 10"] is_digit_not_special(3)
    by (auto simp: starts_with_def two_digits_def simp del: is_digit_char)
  show ?thesis
    using w m dd mk_date_self [OF assms] by (simp add: fromisoformat_def y Let_def starts_with_def)
qed

lemma append_less_iff:
  "length a = length b \<Longrightarrow> (a @ x < b @ (y :: string)) \<longleftrightarrow> a < b \<or> (a = b \<and> x < y)"
  by (induction a b rule: list_induct2) (auto simp: Cons_less_Cons)

lemma div_mod_less:
  "(n :: nat) < m \<longleftrightarrow> n div k < m div k \<or> (n div k = m div k \<and> n mod k < m mod k)"
proof
  assume less: "n < m"
  then have "n div k \<le> m div k" by (simp add: div_le_mono)
  moreover have "n mod k < m mod k" if "n div k = m div k"
    using less that by (metis add_less_cancel_left div_mult_mod_eq)
  ultimately show "n div k < m div k \<or> (n div k = m div k \<and> n mod k < m mod k)" by linarith
next
  assume "n div k < m div k \<or> (n div k = m div k \<and> n mod k < m mod k)"
  then show "n < m"
  proof
    assume "n div k < m div k"
    then show "n < m" by (meson div_le_mono leD leI)
  next
    assume "n div k = m div k \<and> n mod k < m mod k"
    then show "n < m" by (metis add_less_cancel_left div_mult_mod_eq)
  qed
qed

lemma two_digits_less: "n < 100 \<Longrightarrow> m < 100 \<Longrightarrow> two_digits n < two_digits m \<longleftrightarrow> n < m"
  by (subst div_mod_less [of n m 10])
    (simp add: two_digits_def Cons_less_Cons digit_char_less digit_char_inj)

lemma two_digits_inj: "n < 100 \<Longrightarrow> m < 100 \<Longrightarrow> two_digits n = two_digits m \<longleftrightarrow> n = m"
  by (metis two_digits_props(3))

lemma four_digits_less: "n < 10000 \<Longrightarrow> m < 10000 \<Longrightarrow> four_digits n < four_digits m \<longleftrightarrow> n < m"
  by (subst div_mod_less [of n m 100], unfold four_digits_def, subst append_less_iff)
    (simp_all add: two_digits_def [THEN arg_cong [of _ _ length]] two_digits_less two_digits_inj)

lemma four_digits_inj: "n < 10000 \<Longrightarrow> m < 10000 \<Longrightarrow> four_digits n = four_digits m \<longleftrightarrow> n = m"
  by (metis four_digits_props(2))

text \<open>ISO dates compare as text exactly as they compare as dates.\<close>

theorem isoformat_less_iff:
  assumes "valid_date a" "valid_date b"
  shows "isoformat a < isoformat b \<longleftrightarrow> a < b"
proof -
  have ba: "year a < 10000" "month a < 100" "day a < 100"
    using valid_date_bounds [OF assms(1)] by auto
  have bb: "year b < 10000" "month b < 100" "day b < 100"
    using valid_date_bounds [OF assms(2)] by auto
  have len2: "length (two_digits n) = length (two_digits m)" for n m
    by (simp add: two_digits_def)
  show ?thesis
    by (simp add: isoformat_def append_less_iff len2 four_digits_less four_digits_inj two_digits_less
        two_digits_inj ba bb less_date_def Cons_less_Cons) auto
qed

lemma isoformat_inj: "valid_date a \<Longrightarrow> valid_date b \<Longrightarrow> isoformat a = isoformat b \<longleftrightarrow> a = b"
  by (metis fromisoformat_isoformat option.inject)

lemma isoformat_le_iff:
  "valid_date a \<Longrightarrow> valid_date b \<Longrightarrow> isoformat a \<le> isoformat b \<longleftrightarrow> a \<le> b"
  by (simp add: isoformat_less_iff flip: not_less)

lemma fromisoformat_valid: "fromisoformat s = Some d \<Longrightarrow> valid_date d"
  by (auto simp: fromisoformat_def iso_week_date_def Let_def mk_date_valid
      split: if_splits option.splits prod.splits)

section \<open>Naive UTC datetimes\<close>

text \<open>
  A naive UTC \<open>datetime\<close> is its number of microseconds since 1970-01-01T00:00.  The
  order of datetimes is the order of these numbers and a \<open>timedelta\<close> is a difference.
\<close>

type_synonym datetime = int

definition us_per_day :: int where
  "us_per_day = 86400 * 1000000"

definition minutes :: "int \<Rightarrow> int" where
  "minutes n = n * 60 * 1000000"

definition epoch_ordinal :: int where
  "epoch_ordinal = 719163"

definition date_of :: "datetime \<Rightarrow> date" where
  "date_of t = fromordinal (nat (t div us_per_day + epoch_ordinal))"

definition midnight :: "date \<Rightarrow> datetime" where
  "midnight d = (int (toordinal d) - epoch_ordinal) * us_per_day"

end
