(* ===== verification/PyValue.thy ===== *)
theory PyValue
  imports PyDate Complex_Main
begin

text \<open>
  JSON values as the code receives them from providers and from JSONB columns, with
  Python's truth value, \<open>dict.get\<close>, \<open>or\<close> and \<open>isinstance\<close> tests.  A Python
  \<open>float\<close> is the rational number its decimal representation denotes (the code itself
  goes through \<open>Decimal(str(x))\<close>); \<open>bool\<close> is an \<open>int\<close>, as in Python.
\<close>

datatype pyval =
    VNone
  | VBool bool
  | VInt int
  | VFloat rat
  | VStr string
  | VList "pyval list"
  | VDict "(string \<times> pyval) list"

type_synonym pydict = "(string \<times> pyval) list"

fun truthy :: "pyval \<Rightarrow> bool" where
  "truthy VNone = False"
| "truthy (VBool b) = b"
| "truthy (VInt i) = (i \<noteq> 0)"
| "truthy (VFloat r) = (r \<noteq> 0)"
| "truthy (VStr s) = (s \<noteq> [])"
| "truthy (VList xs) = (xs \<noteq> [])"
| "truthy (VDict d) = (d \<noteq> [])"

definition py_or :: "pyval \<Rightarrow> pyval \<Rightarrow> pyval" where
  "py_or a b = (if truthy a then a else b)"

definition get :: "pydict \<Rightarrow> string \<Rightarrow> pyval" where
  "get d k = dict_get d k VNone"

fun as_dict :: "pyval \<Rightarrow> pydict option" where
  "as_dict (VDict d) = Some d"
| "as_dict _ = None"

fun as_list :: "pyval \<Rightarrow> pyval list option" where
  "as_list (VList xs) = Some xs"
| "as_list _ = None"

fun as_str :: "pyval \<Rightarrow> string option" where
  "as_str (VStr s) = Some s"
| "as_str _ = None"

text \<open>\<open>isinstance(v, int)\<close>, with the integer: booleans qualify.\<close>

fun as_int :: "pyval \<Rightarrow> int option" where
  "as_int (VInt i) = Some i"
| "as_int (VBool b) = Some (if b then 1 else 0)"
| "as_int _ = None"

fun is_bool :: "pyval \<Rightarrow> bool" where
  "is_bool (VBool _) = True"
| "is_bool _ = False"

text \<open>\<open>x or {}\<close> and \<open>x or []\<close> where the value is known to be a dictionary, a list or
  missing; other values have no items.\<close>

definition dict_or_empty :: "pyval \<Rightarrow> pydict" where
  "dict_or_empty v = (case as_dict v of None \<Rightarrow> [] | Some d \<Rightarrow> d)"

definition list_or_empty :: "pyval \<Rightarrow> pyval list" where
  "list_or_empty v = (case as_list v of None \<Rightarrow> [] | Some xs \<Rightarrow> xs)"

definition opt_or :: "'a option \<Rightarrow> 'a option \<Rightarrow> 'a option" where
  "opt_or a b = (case a of None \<Rightarrow> b | Some x \<Rightarrow> Some x)"

section \<open>Numbers in JSON\<close>

fun number_of :: "pyval \<Rightarrow> rat option" where
  "number_of (VBool b) = Some (if b then 1 else 0)"
| "number_of (VInt i) = Some (of_int i)"
| "number_of (VFloat r) = Some r"
| "number_of _ = None"

text \<open>\<open>a == b\<close> on scalars: numbers compare by value, whatever their type.\<close>

definition py_eq :: "pyval \<Rightarrow> pyval \<Rightarrow> bool" where
  "py_eq a b \<longleftrightarrow> (case (number_of a, number_of b) of (Some x, Some y) \<Rightarrow> x = y | _ \<Rightarrow> a = b)"

text \<open>\<open>repr\<close> of a float in the range where Python does not use an exponent: the digits after
  the point, at least one and at most seventeen.\<close>

fun fraction_digits :: "nat \<Rightarrow> rat \<Rightarrow> string" where
  "fraction_digits 0 r = []"
| "fraction_digits (Suc n) r =
     (let d = \<lfloor>r * 10\<rfloor>; rest = r * 10 - of_int d
      in digit_char (nat d) # (if rest = 0 then [] else fraction_digits n rest))"

definition show_float :: "rat \<Rightarrow> string" where
  "show_float r =
     (if r < 0 then ''-'' else []) @ show_int \<lfloor>\<bar>r\<bar>\<rfloor> @ ''.'' @ fraction_digits 17 (\<bar>r\<bar> - of_int \<lfloor>\<bar>r\<bar>\<rfloor>)"

text \<open>\<open>str(v)\<close>; the elements of a container are shown by \<open>repr\<close>, without its escapes.\<close>

fun py_repr :: "pyval \<Rightarrow> string" where
  "py_repr VNone = ''None''"
| "py_repr (VBool b) = (if b then ''True'' else ''False'')"
| "py_repr (VInt i) = show_int i"
| "py_repr (VFloat r) = show_float r"
| "py_repr (VStr s) = [CHR 39] @ s @ [CHR 39]"
| "py_repr (VList xs) = ''['' @ str_join '', '' (map py_repr xs) @ '']''"
| "py_repr (VDict d) = ''{'' @ str_join '', '' (map (\<lambda>(k, v). [CHR 39] @ k @ [CHR 39] @ '': '' @ py_repr v) d) @ ''}''"

definition py_str :: "pyval \<Rightarrow> string" where
  "py_str v = (case v of VStr s \<Rightarrow> s | _ \<Rightarrow> py_repr v)"

text \<open>\<open>float(s)\<close> for decimal notation, with an optional sign, fraction and exponent; infinities
  and NaN are not rational numbers and are refused like any other text.\<close>

definition exponent_value :: "string option \<Rightarrow> rat option" where
  "exponent_value e =
     (case e of None \<Rightarrow> Some 1
      | Some s \<Rightarrow> (case int_of_str s of None \<Rightarrow> None | Some n \<Rightarrow> Some (if 0 \<le> n then 10 ^ nat n else 1 / 10 ^ nat (- n))))"

definition mantissa_value :: "string \<Rightarrow> rat option" where
  "mantissa_value s =
     (case split_once (CHR ''.'') s of (whole, rest) \<Rightarrow>
        (let frac = (case rest of None \<Rightarrow> [] | Some f \<Rightarrow> f) in
         if whole @ frac \<noteq> [] \<and> list_all is_digit (whole @ frac)
         then Some (of_nat (nat_of_digits (whole @ frac)) / 10 ^ length frac) else None))"

definition float_of_str :: "string \<Rightarrow> rat option" where
  "float_of_str text =
     (let s = strip text;
          negative = (s \<noteq> [] \<and> hd s = CHR ''-'');
          body = (if s \<noteq> [] \<and> hd s \<in> {CHR ''-'', CHR ''+''} then tl s else s)
      in case split_once (CHR ''e'') (lower body) of (m, e) \<Rightarrow>
         (case (mantissa_value m, exponent_value e) of
            (Some x, Some y) \<Rightarrow> Some (if negative then - (x * y) else x * y) | _ \<Rightarrow> None))"

text \<open>\<open>float(v)\<close>.\<close>

definition to_float :: "pyval \<Rightarrow> rat result" where
  "to_float v =
     (case number_of v of Some r \<Rightarrow> Inr r
      | None \<Rightarrow> (case v of VStr s \<Rightarrow> (case float_of_str s of Some r \<Rightarrow> Inr r | None \<Rightarrow> Inl ValueError) | _ \<Rightarrow> Inl TypeError))"

lemma to_float_simps [simp]:
  "to_float (VInt i) = Inr (of_int i)" "to_float (VFloat r) = Inr r" "to_float VNone = Inl TypeError"
  by (simp_all add: to_float_def)

lemma py_eq_refl [simp]: "py_eq a a"
  by (simp add: py_eq_def split: option.split)

section \<open>Reading dictionaries\<close>

lemma get_set [simp]: "get (dict_set k v d) k' = (if k' = k then v else get d k')"
  by (simp add: get_def)

lemma get_Nil [simp]: "get [] k = VNone"
  by (simp add: get_def)

lemma get_Cons [simp]: "get ((k, v) # d) k' = (if k' = k then v else get d k')"
  by (simp add: get_def dict_get_def)

lemma py_or_truthy [simp]: "truthy a \<Longrightarrow> py_or a b = a" "\<not> truthy a \<Longrightarrow> py_or a b = b"
  by (simp_all add: py_or_def)

lemma opt_or_simps [simp]: "opt_or None b = b" "opt_or (Some x) b = Some x"
  by (simp_all add: opt_or_def)

end
