(* ===== verification/Models.thy ===== *)
theory Models
  imports PyValue
begin

text \<open>
  The database schema (\<open>backend/models\<close>): one record per mapped class, one field per
  column, in column order.  Field names carry a prefix for their table; nullable columns are
  options, JSONB columns are \<^typ>\<open>pyval\<close> dictionaries or typed lists, \<open>Float\<close>
  columns are rationals and \<open>DateTime\<close> columns are naive UTC datetimes.
\<close>

section \<open>Timestamp precision\<close>

text \<open>\<open>milliseconds\<close> truncates; every mapped \<open>DateTime\<close> attribute goes through it.\<close>

definition milliseconds :: "datetime option \<Rightarrow> datetime option" where
  "milliseconds value = map_option (\<lambda>t. t div 1000 * 1000) value"

lemma milliseconds_idem [simp]: "milliseconds (milliseconds v) = milliseconds v"
  by (cases v) (simp_all add: milliseconds_def)

lemma milliseconds_None [simp]: "milliseconds None = None"
  by (simp add: milliseconds_def)

section \<open>Enumerations\<close>

datatype media_type = Movie | Series | Episode | Person

datatype collection_source =
    Jellyfin | Emby | Plex | Nuvio | Stremio | Arvio | Trakt | Simkl | Mdblist | Bingebase
  | Manual | Tmdb | Yamtrack

datatype privacy_level = Public | FriendsOnly | Private

datatype sync_status = Pending | Running | Completed | Failed | Cancelled

fun media_type_value :: "media_type \<Rightarrow> string" where
  "media_type_value Movie = ''movie''"
| "media_type_value Series = ''series''"
| "media_type_value Episode = ''episode''"
| "media_type_value Person = ''person''"

fun source_value :: "collection_source \<Rightarrow> string" where
  "source_value Jellyfin = ''jellyfin''"
| "source_value Emby = ''emby''"
| "source_value Plex = ''plex''"
| "source_value Nuvio = ''nuvio''"
| "source_value Stremio = ''stremio''"
| "source_value Arvio = ''arvio''"
| "source_value Trakt = ''trakt''"
| "source_value Simkl = ''simkl''"
| "source_value Mdblist = ''mdblist''"
| "source_value Bingebase = ''bingebase''"
| "source_value Manual = ''manual''"
| "source_value Tmdb = ''tmdb''"
| "source_value Yamtrack = ''yamtrack''"

definition all_sources :: "collection_source list" where
  "all_sources = [Jellyfin, Emby, Plex, Nuvio, Stremio, Arvio, Trakt, Simkl, Mdblist, Bingebase,
     Manual, Tmdb, Yamtrack]"

text \<open>\<open>CollectionSource(value)\<close>: the member with that value, or \<open>ValueError\<close>.\<close>

definition source_of_value :: "string \<Rightarrow> collection_source option" where
  "source_of_value s = find (\<lambda>c. source_value c = s) all_sources"

lemma source_of_value_value [simp]: "source_of_value (source_value c) = Some c"
  by (cases c) (simp_all add: source_of_value_def all_sources_def)

lemma source_value_inj [simp]: "source_value a = source_value b \<longleftrightarrow> a = b"
  by (metis option.inject source_of_value_value)

text \<open>The enumeration is ordered by its values, so that its sets have a canonical listing.\<close>

instantiation collection_source :: linorder
begin

definition less_eq_collection_source :: "collection_source \<Rightarrow> collection_source \<Rightarrow> bool" where
  "less_eq_collection_source a b \<longleftrightarrow> source_value a \<le> source_value b"

definition less_collection_source :: "collection_source \<Rightarrow> collection_source \<Rightarrow> bool" where
  "less_collection_source a b \<longleftrightarrow> source_value a < source_value b"

instance
  by standard (auto simp: less_eq_collection_source_def less_collection_source_def order.strict_iff_order)

end

text \<open>\<open>int(source.split(":")[1])\<close> of a source key that starts with \<open>connection:\<close>.\<close>

definition is_connection_source :: "string \<Rightarrow> bool" where
  "is_connection_source source = starts_with ''connection:'' source"

definition connection_id_of :: "string \<Rightarrow> int result" where
  "connection_id_of source =
     (case int_of_str (takeWhile (\<lambda>c. c \<noteq> CHR '':'') (drop 11 source)) of
        None \<Rightarrow> Inl ValueError | Some n \<Rightarrow> Inr n)"

definition connection_key :: "int \<Rightarrow> string" where
  "connection_key cid = ''connection:'' @ show_int cid"

lemma is_connection_key [simp]: "is_connection_source (connection_key cid)"
  by (simp add: is_connection_source_def connection_key_def starts_with_def)

lemma connection_id_of_key [simp]: "connection_id_of (connection_key cid) = Inr cid"
proof -
  have "takeWhile (\<lambda>c. c \<noteq> CHR '':'') (show_int cid) = show_int cid"
    unfolding takeWhile_eq_all_conv using show_int_no_colon by blast
  then show ?thesis by (simp add: connection_id_of_def connection_key_def del: takeWhile_eq_all_conv)
qed

lemma int_of_str_drop_key [simp]: "int_of_str (drop 11 (connection_key cid)) = Some cid"
  by (simp add: connection_key_def)

lemma connection_key_inj [simp]: "connection_key a = connection_key b \<longleftrightarrow> a = b"
  by (metis connection_id_of_key sum.inject(2))

section \<open>Titles\<close>

record media =
  m_id :: int
  m_tmdb_id :: "int option"
  m_tvdb_id :: "int option"
  m_imdb_id :: "string option"
  m_media_type :: media_type
  m_title :: string
  m_original_title :: "string option"
  m_overview :: "string option"
  m_poster_path :: "string option"
  m_backdrop_path :: "string option"
  m_release_date :: "string option"
  m_runtime :: "int option"
  m_tmdb_rating :: "rat option"
  m_imdb_rating :: "rat option"
  m_rt_critic_score :: "rat option"
  m_rt_audience_score :: "rat option"
  m_external_scores_updated_at :: "datetime option"
  m_tagline :: "string option"
  m_status :: "string option"
  m_tmdb_data :: "pydict option"
  m_adult :: bool
  m_show_id :: "int option"
  m_season_number :: "int option"
  m_episode_number :: "int option"
  m_created_at :: datetime
  m_updated_at :: datetime

record show_row =
  s_id :: int
  s_tmdb_id :: "int option"
  s_tvdb_id :: "int option"
  s_canonical_source :: string
  s_title :: string
  s_original_title :: "string option"
  s_overview :: "string option"
  s_poster_path :: "string option"
  s_backdrop_path :: "string option"
  s_tmdb_rating :: "rat option"
  s_status :: "string option"
  s_tagline :: "string option"
  s_first_air_date :: "string option"
  s_last_air_date :: "string option"
  s_tmdb_data :: "pydict option"
  s_created_at :: datetime
  s_updated_at :: datetime

section \<open>Tracking\<close>

text \<open>\<open>season_scores\<close> maps the season number, as text, to a score or null.\<close>

record tracked_entry =
  te_id :: int
  te_user_id :: int
  te_media_id :: int
  te_status :: string
  te_rating_mode :: string
  te_manual_score :: "rat option"
  te_season_scores :: "(string \<times> rat option) list"
  te_progress :: int
  te_favorite :: bool
  te_notes :: "string option"
  te_start_date :: "date option"
  te_finish_date :: "date option"
  te_rewatch_count :: int
  te_status_source :: "string option"
  te_status_changed_at :: "datetime option"
  te_initial_import_completed_at :: "datetime option"
  te_updated_at :: datetime

record tracking_deletion =
  td_id :: int
  td_user_id :: int
  td_media_id :: int
  td_deleted_at :: datetime
  td_pending_connections :: "string list"

record season_observation =
  so_id :: int
  so_user_id :: int
  so_media_id :: int
  so_season_number :: int
  so_release_date :: "string option"
  so_seen_upcoming :: bool
  so_release_processed :: bool
  so_updated_at :: datetime

record sync_review =
  sr_id :: int
  sr_user_id :: int
  sr_media_id :: "int option"
  sr_connection_id :: "int option"
  sr_provider :: "string option"
  sr_kind :: string
  sr_state :: string
  sr_previous_status :: "string option"
  sr_proposed_status :: "string option"
  sr_previous_score :: "rat option"
  sr_proposed_score :: "rat option"
  sr_season_number :: "int option"
  sr_season_event_key :: "string option"
  sr_message :: string
  sr_priority :: string
  sr_payload :: pydict
  sr_seen_at :: "datetime option"
  sr_dismissed_at :: "datetime option"
  sr_created_at :: datetime

record stream_baseline =
  sb_connection_id :: int
  sb_user_id :: int
  sb_snapshot :: pydict
  sb_approved :: bool
  sb_observed_at :: datetime

record cloud_baseline =
  cb_id :: int
  cb_user_id :: int
  cb_provider :: string
  cb_snapshot :: pydict
  cb_approved :: bool
  cb_observed_at :: datetime

record stream_action =
  sa_id :: int
  sa_user_id :: int
  sa_connection_id :: int
  sa_media_id :: int
  sa_action :: string
  sa_payload :: pydict
  sa_state :: string
  sa_attempts :: int
  sa_last_error :: "string option"
  sa_created_at :: datetime

record cloud_action =
  ca_id :: int
  ca_user_id :: int
  ca_provider :: string
  ca_media_id :: int
  ca_action :: string
  ca_payload :: pydict
  ca_state :: string
  ca_attempts :: int
  ca_last_error :: "string option"
  ca_created_at :: datetime

section \<open>History and ratings\<close>

type_synonym rating_key = "int \<times> int option"

type_synonym rating_changes = "rating_key \<rightharpoonup> rat"

record rating =
  r_id :: int
  r_user_id :: int
  r_media_id :: int
  r_season_number :: "int option"
  r_episode_order :: "string option"
  r_rating :: "rat option"
  r_review :: "string option"
  r_rated_at :: datetime

record watch_event =
  we_id :: int
  we_user_id :: int
  we_media_id :: int
  we_watched_at :: "datetime option"
  we_created_at :: datetime
  we_progress_seconds :: "int option"
  we_progress_percent :: "rat option"
  we_completed :: bool
  we_play_count :: int
  we_provisional :: bool
  we_date_inferred :: bool
  we_date_shared :: bool

record watch_intent =
  wi_id :: int
  wi_user_id :: int
  wi_connection_id :: int
  wi_media_id :: int
  wi_desired_watched :: bool
  wi_state :: string
  wi_attempts :: int
  wi_last_error :: "string option"
  wi_created_at :: datetime
  wi_updated_at :: datetime

record playback_progress =
  pp_id :: int
  pp_user_id :: int
  pp_media_id :: int
  pp_progress_percent :: rat
  pp_progress_seconds :: int
  pp_updated_at :: "datetime option"

record show_rewatch =
  rw_id :: int
  rw_user_id :: int
  rw_show_id :: int
  rw_started_at :: datetime

record rewatch_progress =
  rp_id :: int
  rp_rewatch_id :: int
  rp_media_id :: int
  rp_watch_event_id :: int

text \<open>A completed event always gets a usable date before it is inserted.\<close>

definition infer_missing_completed_watch_date :: "datetime \<Rightarrow> watch_event \<Rightarrow> watch_event" where
  "infer_missing_completed_watch_date now target =
     (if we_completed target \<and> we_watched_at target = None
      then target\<lparr>we_watched_at := milliseconds (Some now), we_date_inferred := True\<rparr> else target)"

text \<open>\<open>Collection\<close>: one row per user and title in the library.\<close>

record collection_row =
  cl_id :: int
  cl_user_id :: int
  cl_media_id :: int
  cl_added_at :: datetime

text \<open>\<open>CollectionFile\<close>: a source of a collected title; the last seven columns before the date describe the
  file as its server reported it.\<close>

record collection_file =
  cf_id :: int
  cf_collection_id :: int
  cf_connection_id :: "int option"
  cf_source :: collection_source
  cf_source_id :: "string option"
  cf_resolution :: pyval
  cf_video_codec :: pyval
  cf_audio_codec :: pyval
  cf_audio_channels :: pyval
  cf_audio_languages :: pyval
  cf_subtitle_languages :: pyval
  cf_file_path :: pyval
  cf_added_at :: datetime

text \<open>\<open>StreamingLibraryIntent\<close>: the membership an account has settled on for a title.\<close>

record library_intent =
  li_id :: int
  li_user_id :: int
  li_media_id :: int
  li_desired :: bool
  li_updated_at :: datetime

text \<open>\<open>StreamingLibraryDelivery\<close>: whether an account has what an intent wants.\<close>

record library_delivery =
  ld_id :: int
  ld_intent_id :: int
  ld_connection_id :: int
  ld_desired :: bool
  ld_state :: string
  ld_attempts :: int
  ld_last_error :: "string option"
  ld_updated_at :: datetime

text \<open>\<open>TrackingDeliveryJob\<close>: the receipt of one edit of an entry.\<close>

record tracking_job =
  tj_id :: int
  tj_user_id :: int
  tj_media_id :: int
  tj_state :: string
  tj_changes :: pydict
  tj_detail :: "string option"
  tj_created_at :: datetime
  tj_updated_at :: datetime

text \<open>\<open>TrackingActivity\<close>: a card of the activity feed.\<close>

record tracking_activity =
  ta_id :: int
  ta_user_id :: int
  ta_media_id :: int
  ta_status :: string
  ta_score :: "rat option"
  ta_payload :: pydict
  ta_created_at :: datetime

record tracking_preferences =
  tp_user_id :: int
  tp_auto_confirm :: bool
  tp_combine_lists :: bool
  tp_default_sort :: string
  tp_low_priority_notifications :: bool
  tp_low_priority_retention_days :: int
  tp_show_new_ratings_popup :: bool
  tp_new_season_release_dates :: bool
  tp_new_season_releases :: bool
  tp_remove_specials_seasons :: bool
  tp_favorite_order :: "pyval list"

section \<open>Connections, settings and jobs\<close>

record connection =
  c_id :: int
  c_user_id :: int
  c_type :: string
  c_name :: string
  c_url :: string
  c_token :: string
  c_server_user_id :: "string option"
  c_provider_account_id :: "string option"
  c_identity_version :: int
  c_server_username :: "string option"
  c_plex_auth_token :: "string option"
  c_plex_account_id :: "string option"
  c_plex_machine_identifier :: "string option"
  c_sync_collection :: bool
  c_sync_watched :: bool
  c_sync_ratings :: bool
  c_sync_playback :: bool
  c_libraries_confirmed :: bool
  c_push_watched :: bool
  c_push_collection :: bool
  c_push_playback :: bool
  c_push_ratings :: bool
  c_auto_sync_interval :: "rat option"
  c_auto_push_interval :: "rat option"
  c_watchlist_to_radarr :: bool
  c_watchlist_to_sonarr :: bool
  c_watchlist_all_users :: bool
  c_watchlist_monitored_users :: "pyval list option"
  c_watchlist_synced_ids :: "pyval list option"
  c_stremio_pull_cursor_at :: "datetime option"
  c_stremio_full_sync_done :: bool
  c_stremio_pushed_library_ids :: "pyval list option"
  c_plex_sync_watchlist :: bool
  c_plex_push_watchlist :: bool
  c_plex_watchlist_synced_keys :: "string list option"
  c_plex_history_cursor_at :: "datetime option"
  c_created_at :: datetime

definition plex_account_token :: "connection \<Rightarrow> string" where
  "plex_account_token c =
     (case c_plex_auth_token c of None \<Rightarrow> c_token c | Some t \<Rightarrow> if t = [] then c_token c else t)"

definition push_enabled :: "connection \<Rightarrow> bool" where
  "push_enabled c \<longleftrightarrow> c_push_collection c \<or> c_push_watched c \<or> c_push_playback c
     \<or> c_push_ratings c \<or> c_plex_push_watchlist c"

definition scheduled_auto_push_interval :: "connection \<Rightarrow> rat option" where
  "scheduled_auto_push_interval c =
     (if c_type c \<in> {''nuvio'', ''stremio''} then None else c_auto_push_interval c)"

text \<open>The provider blocks of \<open>UserSettings\<close>.\<close>

record trakt_settings =
  trakt_client_id :: "string option"
  trakt_client_secret :: "string option"
  trakt_access_token :: "string option"
  trakt_refresh_token :: "string option"
  trakt_token_expires_at :: "int option"
  trakt_device_code :: "string option"
  trakt_sync_watched :: bool
  trakt_sync_ratings :: bool
  trakt_sync_dropped :: bool
  trakt_history_cursor_at :: "datetime option"
  pull_sync_interval :: "rat option"
  trakt_push_watched :: bool
  trakt_push_ratings :: bool
  trakt_push_collection :: bool
  trakt_push_dropped :: bool
  trakt_scrobble :: bool
  trakt_sync_lists :: bool
  trakt_push_lists :: bool
  trakt_watchlist_split :: bool
  trakt_auto_sync_interval :: "rat option"
  trakt_auto_push_interval :: "rat option"

record simkl_settings =
  simkl_client_id :: "string option"
  simkl_access_token :: "string option"
  simkl_device_code :: "string option"
  simkl_sync_watched :: bool
  simkl_sync_ratings :: bool
  simkl_sync_lists :: bool
  simkl_push_watched :: bool
  simkl_push_ratings :: bool
  simkl_scrobble :: bool
  simkl_auto_sync_interval :: "rat option"
  simkl_auto_push_interval :: "rat option"

record mdblist_settings =
  mdblist_api_key :: "string option"
  mdblist_sync_watched :: bool
  mdblist_sync_ratings :: bool
  mdblist_sync_watchlist :: bool
  mdblist_sync_dropped :: bool
  mdblist_push_watched :: bool
  mdblist_push_ratings :: bool
  mdblist_push_watchlist :: bool
  mdblist_push_collection :: bool
  mdblist_push_dropped :: bool
  mdblist_scrobble :: bool
  mdblist_auto_sync_interval :: "rat option"
  mdblist_auto_push_interval :: "rat option"

record bingebase_settings =
  bingebase_webhook_url :: "string option"
  bingebase_api_key :: "string option"
  bingebase_scrobble :: bool
  bingebase_push_watched :: bool
  bingebase_push_ratings :: bool

record user_settings =
  us_user_id :: int
  us_trakt :: trakt_settings
  us_simkl :: simkl_settings
  us_mdblist :: mdblist_settings
  us_bingebase :: bingebase_settings
  us_duplicate_watch_window_minutes :: "int option"

record sync_job =
  sj_id :: int
  sj_user_id :: int
  sj_source :: collection_source
  sj_status :: sync_status
  sj_total_items :: int
  sj_processed_items :: int
  sj_errors :: int
  sj_error_message :: "string option"
  sj_stats :: "pydict option"
  sj_warnings :: "pyval list option"
  sj_current_step :: "string option"
  sj_connection_id :: "int option"
  sj_job_type :: string
  sj_created_at :: datetime
  sj_updated_at :: datetime

text \<open>Rows with the column defaults.\<close>

definition new_connection :: "int \<Rightarrow> int \<Rightarrow> string \<Rightarrow> string \<Rightarrow> string \<Rightarrow> string \<Rightarrow> datetime \<Rightarrow> connection" where
  "new_connection cid user kind name url token now =
     \<lparr>c_id = cid, c_user_id = user, c_type = kind, c_name = name, c_url = url, c_token = token,
      c_server_user_id = None, c_provider_account_id = None, c_identity_version = 0,
      c_server_username = None, c_plex_auth_token = None, c_plex_account_id = None,
      c_plex_machine_identifier = None, c_sync_collection = True, c_sync_watched = True,
      c_sync_ratings = True, c_sync_playback = True, c_libraries_confirmed = True,
      c_push_watched = False, c_push_collection = False, c_push_playback = False,
      c_push_ratings = False, c_auto_sync_interval = None, c_auto_push_interval = None,
      c_watchlist_to_radarr = False, c_watchlist_to_sonarr = False, c_watchlist_all_users = False,
      c_watchlist_monitored_users = None, c_watchlist_synced_ids = None,
      c_stremio_pull_cursor_at = None, c_stremio_full_sync_done = False,
      c_stremio_pushed_library_ids = None, c_plex_sync_watchlist = False,
      c_plex_push_watchlist = False, c_plex_watchlist_synced_keys = None,
      c_plex_history_cursor_at = None, c_created_at = now\<rparr>"

definition new_trakt_settings :: trakt_settings where
  "new_trakt_settings =
     \<lparr>trakt_client_id = None, trakt_client_secret = None, trakt_access_token = None,
      trakt_refresh_token = None, trakt_token_expires_at = None, trakt_device_code = None,
      trakt_sync_watched = True, trakt_sync_ratings = True, trakt_sync_dropped = False,
      trakt_history_cursor_at = None, pull_sync_interval = None, trakt_push_watched = False,
      trakt_push_ratings = False, trakt_push_collection = False, trakt_push_dropped = False,
      trakt_scrobble = False, trakt_sync_lists = False, trakt_push_lists = False,
      trakt_watchlist_split = False, trakt_auto_sync_interval = None, trakt_auto_push_interval = None\<rparr>"

definition new_simkl_settings :: simkl_settings where
  "new_simkl_settings =
     \<lparr>simkl_client_id = None, simkl_access_token = None, simkl_device_code = None,
      simkl_sync_watched = True, simkl_sync_ratings = True, simkl_sync_lists = True,
      simkl_push_watched = False, simkl_push_ratings = False, simkl_scrobble = False,
      simkl_auto_sync_interval = None, simkl_auto_push_interval = None\<rparr>"

definition new_mdblist_settings :: mdblist_settings where
  "new_mdblist_settings =
     \<lparr>mdblist_api_key = None, mdblist_sync_watched = True, mdblist_sync_ratings = True,
      mdblist_sync_watchlist = True, mdblist_sync_dropped = False, mdblist_push_watched = False,
      mdblist_push_ratings = False, mdblist_push_watchlist = False, mdblist_push_collection = False,
      mdblist_push_dropped = False, mdblist_scrobble = False, mdblist_auto_sync_interval = None,
      mdblist_auto_push_interval = None\<rparr>"

definition new_bingebase_settings :: bingebase_settings where
  "new_bingebase_settings =
     \<lparr>bingebase_webhook_url = None, bingebase_api_key = None, bingebase_scrobble = True,
      bingebase_push_watched = False, bingebase_push_ratings = False\<rparr>"

definition new_settings :: "int \<Rightarrow> user_settings" where
  "new_settings user =
     \<lparr>us_user_id = user, us_trakt = new_trakt_settings, us_simkl = new_simkl_settings,
      us_mdblist = new_mdblist_settings, us_bingebase = new_bingebase_settings,
      us_duplicate_watch_window_minutes = None\<rparr>"

definition new_sync_job :: "int \<Rightarrow> int \<Rightarrow> collection_source \<Rightarrow> datetime \<Rightarrow> sync_job" where
  "new_sync_job jid user source now =
     \<lparr>sj_id = jid, sj_user_id = user, sj_source = source, sj_status = Pending, sj_total_items = 0,
      sj_processed_items = 0, sj_errors = 0, sj_error_message = None, sj_stats = None,
      sj_warnings = None, sj_current_step = None, sj_connection_id = None, sj_job_type = ''pull'',
      sj_created_at = now, sj_updated_at = now\<rparr>"

definition new_watch_event :: "int \<Rightarrow> int \<Rightarrow> int \<Rightarrow> datetime option \<Rightarrow> bool \<Rightarrow> datetime \<Rightarrow> watch_event" where
  "new_watch_event wid user mid watched_at completed now =
     \<lparr>we_id = wid, we_user_id = user, we_media_id = mid, we_watched_at = watched_at, we_created_at = now,
      we_progress_seconds = None, we_progress_percent = None, we_completed = completed, we_play_count = 1,
      we_provisional = False, we_date_inferred = False, we_date_shared = False\<rparr>"

definition new_media :: "int \<Rightarrow> media_type \<Rightarrow> string \<Rightarrow> int option \<Rightarrow> datetime \<Rightarrow> media" where
  "new_media mid kind title tmdb now =
     \<lparr>m_id = mid, m_tmdb_id = tmdb, m_tvdb_id = None, m_imdb_id = None, m_media_type = kind, m_title = title,
      m_original_title = None, m_overview = None, m_poster_path = None, m_backdrop_path = None,
      m_release_date = None, m_runtime = None, m_tmdb_rating = None, m_imdb_rating = None,
      m_rt_critic_score = None, m_rt_audience_score = None, m_external_scores_updated_at = None,
      m_tagline = None, m_status = None, m_tmdb_data = None, m_adult = False, m_show_id = None,
      m_season_number = None, m_episode_number = None, m_created_at = now, m_updated_at = now\<rparr>"

definition new_show :: "int \<Rightarrow> string \<Rightarrow> int option \<Rightarrow> datetime \<Rightarrow> show_row" where
  "new_show sid title tmdb now =
     \<lparr>s_id = sid, s_tmdb_id = tmdb, s_tvdb_id = None, s_canonical_source = ''tmdb'', s_title = title,
      s_original_title = None, s_overview = None, s_poster_path = None, s_backdrop_path = None,
      s_tmdb_rating = None, s_status = None, s_tagline = None, s_first_air_date = None,
      s_last_air_date = None, s_tmdb_data = None, s_created_at = now, s_updated_at = now\<rparr>"

definition new_entry :: "int \<Rightarrow> int \<Rightarrow> int \<Rightarrow> datetime \<Rightarrow> tracked_entry" where
  "new_entry eid user mid now =
     \<lparr>te_id = eid, te_user_id = user, te_media_id = mid, te_status = ''planning'',
      te_rating_mode = ''manual'', te_manual_score = None, te_season_scores = [], te_progress = 0,
      te_favorite = False, te_notes = None, te_start_date = None, te_finish_date = None,
      te_rewatch_count = 0, te_status_source = None, te_status_changed_at = None,
      te_initial_import_completed_at = None, te_updated_at = now\<rparr>"

section \<open>The database\<close>

record db =
  settings_table :: "user_settings list"
  media_table :: "media list"
  show_table :: "show_row list"
  connection_table :: "connection list"
  entry_table :: "tracked_entry list"
  deletion_table :: "tracking_deletion list"
  observation_table :: "season_observation list"
  review_table :: "sync_review list"
  stream_baseline_table :: "stream_baseline list"
  cloud_baseline_table :: "cloud_baseline list"
  stream_action_table :: "stream_action list"
  cloud_action_table :: "cloud_action list"
  rating_table :: "rating list"
  watch_event_table :: "watch_event list"
  watch_intent_table :: "watch_intent list"
  progress_table :: "playback_progress list"
  collection_table :: "collection_row list"
  collection_file_table :: "collection_file list"
  library_intent_table :: "library_intent list"
  rewatch_table :: "show_rewatch list"
  rewatch_progress_table :: "rewatch_progress list"
  job_table :: "sync_job list"
  library_delivery_table :: "library_delivery list"
  tracking_job_table :: "tracking_job list"
  activity_table :: "tracking_activity list"
  preference_table :: "tracking_preferences list"

definition empty_db :: db where
  "empty_db = \<lparr>settings_table = [], media_table = [], show_table = [], connection_table = [],
     entry_table = [], deletion_table = [], observation_table = [], review_table = [],
     stream_baseline_table = [], cloud_baseline_table = [], stream_action_table = [],
     cloud_action_table = [], rating_table = [], watch_event_table = [], watch_intent_table = [], progress_table = [], collection_table = [],
     collection_file_table = [], library_intent_table = [],
     rewatch_table = [], rewatch_progress_table = [], job_table = [],
     library_delivery_table = [], tracking_job_table = [],
     activity_table = [], preference_table = []\<rparr>"

text \<open>Assigning to a row whose class has \<open>onupdate=func.now()\<close> stamps \<open>updated_at\<close>,
  and an assignment that changes nothing writes nothing.\<close>

definition touch_entry :: "datetime \<Rightarrow> (tracked_entry \<Rightarrow> tracked_entry) \<Rightarrow> tracked_entry \<Rightarrow> tracked_entry" where
  "touch_entry now f e = (if f e = e then e else (f e)\<lparr>te_updated_at := now\<rparr>)"

definition touch_intent :: "datetime \<Rightarrow> (watch_intent \<Rightarrow> watch_intent) \<Rightarrow> watch_intent \<Rightarrow> watch_intent" where
  "touch_intent now f i = (if f i = i then i else (f i)\<lparr>wi_updated_at := now\<rparr>)"

text \<open>An update that assigns \<open>updated_at\<close> itself keeps that value.\<close>

definition touch_delivery :: "datetime \<Rightarrow> (library_delivery \<Rightarrow> library_delivery) \<Rightarrow> library_delivery \<Rightarrow> library_delivery" where
  "touch_delivery now f d =
     (if f d = d then d else if ld_updated_at (f d) \<noteq> ld_updated_at d then f d else (f d)\<lparr>ld_updated_at := now\<rparr>)"

definition touch_job :: "datetime \<Rightarrow> (tracking_job \<Rightarrow> tracking_job) \<Rightarrow> tracking_job \<Rightarrow> tracking_job" where
  "touch_job now f j =
     (if f j = j then j else if tj_updated_at (f j) \<noteq> tj_updated_at j then f j else (f j)\<lparr>tj_updated_at := now\<rparr>)"

definition touch_media :: "datetime \<Rightarrow> (media \<Rightarrow> media) \<Rightarrow> media \<Rightarrow> media" where
  "touch_media now f m = (if f m = m then m else (f m)\<lparr>m_updated_at := now\<rparr>)"

definition touch_show :: "datetime \<Rightarrow> (show_row \<Rightarrow> show_row) \<Rightarrow> show_row \<Rightarrow> show_row" where
  "touch_show now f s = (if f s = s then s else (f s)\<lparr>s_updated_at := now\<rparr>)"

end
