(* ===== verification/TrackingRules.thy ===== *)
theory TrackingRules
  imports Models
begin

text \<open>
  \<open>core/tracking_rules.py\<close> and \<open>core/rating_projection.py\<close>: score validation, the
  effective score of an entry, the projection of a precise local score onto a provider's grid,
  the status lattice and default dates.  Scores are exact rationals: the code computes them in
  \<open>Decimal(str(x))\<close>; the only step that is not exact there is the 28-digit quotient of a
  season average.
\<close>

section \<open>Scores\<close>

text \<open>\<open>TrackingStatus\<close> and its values.\<close>

datatype tracking_status = Planning | Watching | Paused | Dropped | CompletedStatus

fun status_value :: "tracking_status \<Rightarrow> string" where
  "status_value Planning = ''planning''"
| "status_value Watching = ''watching''"
| "status_value Paused = ''paused''"
| "status_value Dropped = ''dropped''"
| "status_value CompletedStatus = ''completed''"

text \<open>A float argument that need not be finite.\<close>

datatype pyfloat = Finite rat | Infinite bool | NotANumber

definition is_multiple :: "rat \<Rightarrow> rat \<Rightarrow> bool" where
  "is_multiple x step \<longleftrightarrow> x / step = of_int \<lfloor>x / step\<rfloor>"

definition normalize_score :: "pyfloat option \<Rightarrow> rat \<Rightarrow> rat option result" where
  "normalize_score value increment =
     (case value of
        None \<Rightarrow> Inr None
      | Some (Finite v) \<Rightarrow>
          if v = 0 then Inr None
          else if \<not> (increment \<le> v \<and> v \<le> 10) then Inl ValueError
          else if increment = 0 then Inl InvalidOperation
          else if \<not> is_multiple v increment then Inl ValueError
          else Inr (Some v)
      | Some _ \<Rightarrow> Inl ValueError)"

fun positive_scores :: "(string \<times> rat option) list \<Rightarrow> rat list result" where
  "positive_scores [] = Inr []"
| "positive_scores ((k, v) # rest) =
     (case int_of_str k of
        None \<Rightarrow> Inl ValueError
      | Some n \<Rightarrow>
          and_then (positive_scores rest) (\<lambda>scores.
            Inr (case v of
                   None \<Rightarrow> scores
                 | Some s \<Rightarrow> if 0 < n \<and> 0 < s then s # scores else scores)))"

definition mean :: "rat list \<Rightarrow> rat" where
  "mean scores = sum_list scores / of_nat (length scores)"

definition effective_score ::
  "string \<Rightarrow> rat option \<Rightarrow> (string \<times> rat option) list \<Rightarrow> rat option result" where
  "effective_score mode manual seasons =
     (if mode = ''manual'' then
        Inr (case manual of None \<Rightarrow> None | Some m \<Rightarrow> if 0 < m then Some m else None)
      else and_then (positive_scores seasons)
        (\<lambda>scores. Inr (if scores = [] then None else Some (mean scores))))"

text \<open>\<open>quantize(Decimal("1"), ROUND_HALF_UP)\<close>: ties away from zero.\<close>

definition round_half_up :: "rat \<Rightarrow> int" where
  "round_half_up x = (if 0 \<le> x then \<lfloor>x + 1 / 2\<rfloor> else - \<lfloor>- x + 1 / 2\<rfloor>)"

text \<open>\<open>tracking_rules.project_score\<close>: the scale of the entry editor.\<close>

definition editor_project_score :: "rat option \<Rightarrow> rat \<Rightarrow> rat option result" where
  "editor_project_score score increment =
     (case score of
        None \<Rightarrow> Inr None
      | Some s \<Rightarrow>
          if increment \<le> 0 then Inl ValueError
          else Inr (Some (of_int (round_half_up (s / increment)) * increment)))"

text \<open>\<open>rating_projection.project_score\<close>: the scale of a provider, clamped.\<close>

definition project_score :: "rat \<Rightarrow> rat \<Rightarrow> rat result" where
  "project_score value increment =
     (if increment = 0 then Inl InvalidOperation
      else Inr (max 0 (min 10 (of_int (round_half_up (value / increment)) * increment))))"

text \<open>\<open>int(x)\<close> of a float truncates towards zero.\<close>

definition trunc :: "rat \<Rightarrow> int" where
  "trunc x = (if 0 \<le> x then \<lfloor>x\<rfloor> else - \<lfloor>- x\<rfloor>)"

definition integer_provider_score :: "rat \<Rightarrow> int" where
  "integer_provider_score value =
     (case project_score value 1 of Inl _ \<Rightarrow> 0 | Inr p \<Rightarrow> max 1 (min 10 (trunc p)))"

definition is_projected_echo :: "rat option \<Rightarrow> rat option \<Rightarrow> bool" where
  "is_projected_echo local_value remote_value =
     (case (local_value, remote_value) of
        (Some l, Some r) \<Rightarrow> integer_provider_score l = trunc r
      | _ \<Rightarrow> False)"

section \<open>Statuses, dates and removals\<close>

definition observed_status :: "string option \<Rightarrow> bool \<Rightarrow> bool \<Rightarrow> string" where
  "observed_status previous completed playing =
     (if previous = Some ''completed'' \<or> completed then ''completed''
      else if playing then ''watching''
      else (case previous of None \<Rightarrow> ''planning'' | Some p \<Rightarrow> if p = [] then ''planning'' else p))"

definition default_dates ::
  "string option \<Rightarrow> string \<Rightarrow> date option \<Rightarrow> date option \<Rightarrow> date \<Rightarrow> date option \<times> date option" where
  "default_dates previous status start finish today =
     (if Some status \<noteq> previous then
        (if status = ''watching'' \<and> start = None then Some today else start,
         if status = ''completed'' \<and> finish = None then Some today else finish)
      else (start, finish))"

definition removed_keys :: "'k set option \<Rightarrow> 'k set \<Rightarrow> bool \<Rightarrow> 'k set" where
  "removed_keys baseline snapshot is_complete =
     (case baseline of None \<Rightarrow> {} | Some b \<Rightarrow> if is_complete then b - snapshot else {})"

section \<open>Rounding\<close>

lemma floor_half_near: "\<bar>of_int \<lfloor>x + 1 / 2 :: rat\<rfloor> - x\<bar> \<le> 1 / 2"
proof (rule abs_leI)
  have "of_int \<lfloor>x + 1 / 2\<rfloor> \<le> x + 1 / 2" by (rule of_int_floor_le)
  then show "of_int \<lfloor>x + 1 / 2\<rfloor> - x \<le> 1 / 2" by linarith
  have "x + 1 / 2 < of_int \<lfloor>x + 1 / 2\<rfloor> + 1" using floor_correct [of "x + 1 / 2"] by simp
  then show "- (of_int \<lfloor>x + 1 / 2\<rfloor> - x) \<le> 1 / 2" by linarith
qed

lemma round_half_up_near: "\<bar>of_int (round_half_up x) - x\<bar> \<le> 1 / 2"
proof (cases "0 \<le> x")
  case True
  then show ?thesis using floor_half_near [of x] by (simp only: round_half_up_def if_True)
next
  case False
  have "\<bar>of_int (- \<lfloor>- x + 1 / 2\<rfloor>) - x\<bar> = \<bar>of_int \<lfloor>- x + 1 / 2\<rfloor> - (- x)\<bar>" by simp
  with False show ?thesis using floor_half_near [of "- x"] by (simp only: round_half_up_def if_False)
qed

lemma round_half_up_of_int [simp]: "round_half_up (of_int k) = k"
proof -
  have fl: "\<lfloor>of_int j + 1 / 2 :: rat\<rfloor> = j" for j
    by (rule floor_unique) simp_all
  show ?thesis using fl [of k] fl [of "- k"] by (simp add: round_half_up_def)
qed

lemma round_half_up_nonneg: "0 \<le> x \<Longrightarrow> 0 \<le> round_half_up x"
  by (simp add: round_half_up_def)

lemma trunc_of_int [simp]: "trunc (of_int k) = k"
  by (simp add: trunc_def)

lemma project_score_unit: "project_score v 1 = Inr (of_int (max 0 (min 10 (round_half_up v))))"
  by (simp add: project_score_def of_int_max of_int_min)

lemma integer_provider_score_eq: "integer_provider_score v = max 1 (min 10 (round_half_up v))"
  by (simp add: integer_provider_score_def project_score_unit)

lemma integer_provider_score_bounds: "1 \<le> integer_provider_score v" "integer_provider_score v \<le> 10"
  by (simp_all add: integer_provider_score_eq)

section \<open>Properties\<close>

text \<open>With the default half-point increment, validation accepts exactly the twenty scores
  0.5, 1, ..., 10 and returns them unchanged; every other finite non-zero value is rejected.\<close>

lemma normalize_score_half_points:
  "normalize_score (Some (Finite v)) (1 / 2) = Inr (Some w) \<longleftrightarrow>
   w = v \<and> (\<exists>k :: int. 1 \<le> k \<and> k \<le> 20 \<and> v = of_int k / 2)"
proof
  assume ok: "normalize_score (Some (Finite v)) (1 / 2) = Inr (Some w)"
  then have w: "w = v" and range: "1 / 2 \<le> v" "v \<le> 10" and grid: "v * 2 = of_int \<lfloor>v * 2\<rfloor>"
    by (simp_all add: normalize_score_def is_multiple_def split: if_splits)
  let ?k = "\<lfloor>v * 2\<rfloor>"
  have "v = of_int ?k / 2" using grid by simp
  moreover have "1 \<le> ?k" using range(1) by (simp add: le_floor_iff)
  moreover have "?k \<le> 20" using range(2) by (simp add: floor_le_iff)
  ultimately show "w = v \<and> (\<exists>k :: int. 1 \<le> k \<and> k \<le> 20 \<and> v = of_int k / 2)"
    using w by blast
next
  assume "w = v \<and> (\<exists>k :: int. 1 \<le> k \<and> k \<le> 20 \<and> v = of_int k / 2)"
  then obtain k :: int where "w = v" "1 \<le> k" "k \<le> 20" "v = of_int k / 2" by blast
  then show "normalize_score (Some (Finite v)) (1 / 2) = Inr (Some w)"
    by (simp add: normalize_score_def is_multiple_def)
qed

lemma positive_scores_mem:
  "positive_scores seasons = Inr scores \<Longrightarrow> s \<in> set scores \<Longrightarrow>
   0 < s \<and> (\<exists>k n. (k, Some s) \<in> set seasons \<and> int_of_str k = Some n \<and> 0 < n)"
proof (induction seasons arbitrary: scores rule: positive_scores.induct)
  case 1
  then show ?case by simp
next
  case (2 k v rest)
  from 2(2) obtain n tail where n: "int_of_str k = Some n" and tail: "positive_scores rest = Inr tail"
    and sc: "scores = (case v of None \<Rightarrow> tail | Some x \<Rightarrow> if 0 < n \<and> 0 < x then x # tail else tail)"
    by (auto simp: and_then_Inr_iff split: option.splits)
  show ?case
  proof (cases "s \<in> set tail")
    case True
    with 2(1) [OF n tail] show ?thesis by auto
  next
    case False
    with sc 2(3) have "v = Some s" "0 < n" "0 < s" by (auto split: option.splits if_splits)
    with n show ?thesis by auto
  qed
qed

lemma mean_bounds:
  assumes "scores \<noteq> []" and "\<forall>s \<in> set scores. lo \<le> s \<and> s \<le> hi"
  shows "lo \<le> mean scores \<and> mean scores \<le> hi"
proof -
  have sums: "lo * of_nat (length scores) \<le> sum_list scores \<and> sum_list scores \<le> hi * of_nat (length scores)"
    using assms(2) by (induction scores) (auto simp: algebra_simps add_mono)
  have "0 < (of_nat (length scores) :: rat)" using assms(1) by simp
  with sums show ?thesis by (simp add: mean_def pos_le_divide_eq pos_divide_le_eq)
qed

text \<open>The calculated score of a show in average mode lies between the least and the
  greatest of its rated regular seasons.\<close>

lemma effective_score_average_within:
  assumes "mode \<noteq> ''manual''"
    and "effective_score mode manual seasons = Inr (Some s)"
    and "\<forall>(k, v) \<in> set seasons. \<forall>n x. int_of_str k = Some n \<longrightarrow> 0 < n \<longrightarrow> v = Some x \<longrightarrow> 0 < x \<longrightarrow> lo \<le> x \<and> x \<le> hi"
  shows "lo \<le> s \<and> s \<le> hi"
proof -
  obtain scores where sc: "positive_scores seasons = Inr scores"
    and ne: "scores \<noteq> []" and s: "s = mean scores"
    using assms(1,2) by (auto simp: effective_score_def and_then_Inr_iff split: if_splits)
  have "\<forall>x \<in> set scores. lo \<le> x \<and> x \<le> hi"
    using positive_scores_mem [OF sc] assms(3) by fastforce
  then show ?thesis using mean_bounds [OF ne] s by blast
qed

lemma effective_score_average_within_witness:
  "effective_score ''average'' None [(''1'', Some 2), (''2'', Some 4), (''0'', Some 9)] = Inr (Some 3)
   \<and> (2 :: rat) \<le> 3 \<and> (3 :: rat) \<le> 4"
proof -
  have parse: "int_of_str ''1'' = Some 1" "int_of_str ''2'' = Some 2" "int_of_str ''0'' = Some 0"
    by (simp_all add: int_of_str_def strip_def is_space_def is_digit_def nat_of_digits_def digit_val_def)
  have ev: "effective_score ''average'' None [(''1'', Some 2), (''2'', Some 4), (''0'', Some 9)] =
      Inr (Some 3)"
    by (simp add: effective_score_def mean_def parse)
  have "(2 :: rat) \<le> 3 \<and> (3 :: rat) \<le> 4"
    by (rule effective_score_average_within [OF _ ev]) (auto simp: parse)
  with ev show ?thesis by simp
qed

text \<open>A provider's integer score of any local score is between 1 and 10, within half a point
  of a local score that is itself a legal one, and when the provider returns it, it is
  recognised as an echo of the local score.\<close>

lemma integer_provider_score_echo:
  "1 \<le> integer_provider_score v \<and> integer_provider_score v \<le> 10 \<and>
   (1 / 2 \<le> v \<and> v \<le> 10 \<longrightarrow> \<bar>of_int (integer_provider_score v) - v\<bar> \<le> 1 / 2) \<and>
   is_projected_echo (Some v) (Some (of_int (integer_provider_score v)))"
proof -
  have "\<bar>of_int (integer_provider_score v) - v\<bar> \<le> 1 / 2" if "1 / 2 \<le> v" "v \<le> 10"
  proof -
    have "1 \<le> round_half_up v"
      using that(1) by (simp add: round_half_up_def le_floor_iff)
    moreover have "round_half_up v \<le> 10"
      using that by (simp add: round_half_up_def floor_le_iff)
    ultimately show ?thesis
      using round_half_up_near [of v] by (simp add: integer_provider_score_eq)
  qed
  then show ?thesis by (simp add: integer_provider_score_bounds is_projected_echo_def)
qed

lemma integer_provider_score_echo_witness:
  "\<bar>of_int (integer_provider_score (17 / 2)) - 17 / 2 :: rat\<bar> \<le> 1 / 2"
  using integer_provider_score_echo [of "17 / 2"] by simp

end
