(* ===== verification/SyncResolve.thy ===== *)
theory SyncResolve
  imports TrackingRules
begin

text \<open>
  The decision core of \<open>core/sync_reconciliation.py\<close>: provider observations, the
  three-way \<open>resolve\<close>, the collection of evidence during an account pull, and the merge of
  completions over resume positions; with \<open>core/status_provenance.py\<close>.  Python's
  \<open>None\<close> as a value is \<^const>\<open>None\<close>, the sentinel \<open>_MISSING\<close> an outer option.
\<close>

section \<open>Status provenance\<close>

definition naive_utc :: "datetime option \<Rightarrow> datetime option" where
  "naive_utc value = milliseconds value"

definition status_changed_at :: "tracked_entry \<Rightarrow> datetime option" where
  "status_changed_at entry =
     naive_utc (opt_or (te_status_changed_at entry) (Some (te_updated_at entry)))"

definition mark_status_change ::
  "datetime \<Rightarrow> string \<Rightarrow> datetime option \<Rightarrow> tracked_entry \<Rightarrow> tracked_entry" where
  "mark_status_change now source changed_at entry =
     entry\<lparr>te_status_source := Some (take 64 source),
           te_status_changed_at := naive_utc (opt_or changed_at (Some now))\<rparr>"

section \<open>Observations and decisions\<close>

record 'v observation =
  o_source :: string
  o_value :: "'v option"
  o_changed_at :: "datetime option"
  o_previous :: "'v option option"
  o_observed_after :: "datetime option"
  o_inferred :: bool

record 'v decision =
  d_value :: "'v option"
  d_sources :: "string set"
  d_changed_at :: "datetime option"
  d_conflict :: bool
  d_stale :: bool

definition keep_local :: "'v option \<Rightarrow> 'v decision" where
  "keep_local local = \<lparr>d_value = local, d_sources = {}, d_changed_at = None, d_conflict = False, d_stale = False\<rparr>"

definition observe ::
  "string \<Rightarrow> 'v option \<Rightarrow> datetime option \<Rightarrow> 'v option option \<Rightarrow> datetime option \<Rightarrow> 'v observation" where
  "observe source val changed_at previous observed_after =
     \<lparr>o_source = source, o_value = val, o_changed_at = changed_at, o_previous = previous,
      o_observed_after = observed_after, o_inferred = False\<rparr>"

text \<open>The clock a candidate is compared with.\<close>

definition clock :: "'v observation \<Rightarrow> datetime option" where
  "clock ob = naive_utc (o_changed_at ob)"

definition is_delta :: "'v observation \<Rightarrow> bool" where
  "is_delta ob \<longleftrightarrow> o_previous ob = None \<or> o_previous ob \<noteq> Some (o_value ob)"

definition infer_clock :: "datetime option \<Rightarrow> 'v observation \<Rightarrow> 'v observation" where
  "infer_clock started_at ob =
     (if started_at \<noteq> None \<and> o_changed_at ob = None \<and> o_previous ob \<noteq> None
      then ob\<lparr>o_changed_at := started_at, o_inferred := True\<rparr> else ob)"

definition superseded :: "datetime option \<Rightarrow> 'v observation \<Rightarrow> bool" where
  "superseded local_at ob =
     (case (local_at, clock ob) of (Some l, Some c) \<Rightarrow> c < l | _ \<Rightarrow> False)"

definition ordered_after ::
  "'v option \<Rightarrow> datetime option \<Rightarrow> 'v observation \<Rightarrow> bool" where
  "ordered_after local local_at ob \<longleftrightarrow>
     (case clock ob of None \<Rightarrow> False
      | Some c \<Rightarrow> (case local_at of None \<Rightarrow> True | Some l \<Rightarrow> l < c))
     \<or> (o_previous ob = Some local
        \<and> (case local_at of None \<Rightarrow> True
           | Some l \<Rightarrow> (case naive_utc (o_observed_after ob) of None \<Rightarrow> False | Some a \<Rightarrow> l \<le> a)))"

definition clocks :: "'v observation list \<Rightarrow> datetime list" where
  "clocks obs = List.map_filter clock obs"

definition latest :: "datetime list \<Rightarrow> datetime option" where
  "latest ts = (if ts = [] then None else Some (Max (set ts)))"

definition sources_of :: "'v observation list \<Rightarrow> string set" where
  "sources_of obs = o_source ` set obs"

definition agree_on :: "'v option \<Rightarrow> datetime option \<Rightarrow> 'v observation list \<Rightarrow> 'v decision" where
  "agree_on val tm obs =
     \<lparr>d_value = val, d_sources = sources_of obs, d_changed_at = tm, d_conflict = False, d_stale = False\<rparr>"

text \<open>The candidates after the deltas are selected and their clocks inferred.\<close>

definition deltas :: "datetime option \<Rightarrow> 'v observation list \<Rightarrow> 'v observation list" where
  "deltas started_at observations = map (infer_clock started_at) (filter is_delta observations)"

definition clocked_winner :: "'v option \<Rightarrow> 'v observation list \<Rightarrow> 'v decision" where
  "clocked_winner local candidates =
     (let tm = latest (clocks candidates);
          winners = filter (\<lambda>ob. clock ob = tm) candidates in
      if list_all (\<lambda>ob. clock ob \<noteq> None \<and> \<not> o_inferred ob) candidates
         \<and> list_all (\<lambda>ob. o_value ob = o_value (hd winners)) winners
      then agree_on (o_value (hd winners)) tm winners
      else (keep_local local)\<lparr>d_conflict := True\<rparr>)"

definition resolve_values ::
  "'v option \<Rightarrow> datetime option \<Rightarrow> ('v option list \<Rightarrow> 'v option option) option
   \<Rightarrow> 'v observation list \<Rightarrow> 'v decision" where
  "resolve_values local local_at compatible candidates =
     (let vals = first_seen (map o_value candidates) in
      if length vals = 1 then
        (let v = hd vals in
         if v \<noteq> local \<and> local \<noteq> None \<and> \<not> list_ex (ordered_after local local_at) candidates
         then (keep_local local)\<lparr>d_conflict := True\<rparr>
         else agree_on v (latest (clocks candidates)) candidates)
      else
        (case (case compatible of None \<Rightarrow> None | Some merge \<Rightarrow> merge vals) of
           Some merged \<Rightarrow> agree_on merged (latest (clocks candidates)) candidates
         | None \<Rightarrow> clocked_winner local candidates))"

definition resolve ::
  "'v option \<Rightarrow> datetime option \<Rightarrow> 'v observation list \<Rightarrow> datetime option
   \<Rightarrow> ('v option list \<Rightarrow> 'v option option) option \<Rightarrow> 'v decision" where
  "resolve local local_at0 observations started_at compatible =
     (let local_at = naive_utc local_at0 in
      if (case (started_at, local_at) of (Some s, Some l) \<Rightarrow> s < l | _ \<Rightarrow> False)
      then (keep_local local)\<lparr>d_stale := True\<rparr>
      else
        let changed = deltas started_at observations in
        if changed = [] then keep_local local
        else
          let candidates = filter (\<lambda>ob. \<not> superseded local_at ob) changed in
          if candidates = [] then (keep_local local)\<lparr>d_stale := True\<rparr>
          else resolve_values local local_at compatible candidates)"

section \<open>The order of observations does not matter\<close>

lemma length_first_seen: "length (first_seen xs) = card (set xs)"
  by (metis distinct_card distinct_first_seen set_first_seen)

lemma set_clocks: "set (clocks obs) = {c. \<exists>ob \<in> set obs. clock ob = Some c}"
  by (force simp: clocks_def map_filter_def)

lemma latest_cong: "set ts = set us \<Longrightarrow> latest ts = latest us"
  by (auto simp: latest_def)

lemma latest_clocks_cong: "set xs = set ys \<Longrightarrow> latest (clocks xs) = latest (clocks ys)"
  by (intro latest_cong) (simp add: set_clocks)

lemma hd_first_seen_cong:
  assumes "set xs = set ys" and "length (first_seen xs) = 1"
  shows "hd (first_seen xs) = hd (first_seen ys)"
proof -
  obtain x where "first_seen xs = [x]"
    using assms(2) by (cases "first_seen xs") auto
  moreover have "length (first_seen ys) = 1"
    using assms by (simp add: length_first_seen)
  moreover obtain y where "first_seen ys = [y]"
    using calculation(2) by (cases "first_seen ys") auto
  ultimately show ?thesis
    using assms(1) by (metis list.sel(1) list.set(1,2) set_first_seen singleton_inject)
qed

lemma agree_on_cong: "set xs = set ys \<Longrightarrow> agree_on v tm xs = agree_on v tm ys"
  by (simp add: agree_on_def sources_of_def)

lemma unanimous_cong:
  assumes same: "set xs = set ys" and ne: "xs \<noteq> []"
  shows "list_all (\<lambda>x. f x = f (hd xs)) xs = list_all (\<lambda>x. f x = f (hd ys)) ys"
    and "list_all (\<lambda>x. f x = f (hd xs)) xs \<Longrightarrow> f (hd xs) = f (hd ys)"
proof -
  have "ys \<noteq> []" using assms by auto
  then have y: "hd ys \<in> set xs" and x: "hd xs \<in> set ys" using same ne by (metis hd_in_set)+
  have all: "list_all P xs = list_all P ys" for P by (simp add: list_all_iff same)
  show "list_all (\<lambda>x. f x = f (hd xs)) xs \<Longrightarrow> f (hd xs) = f (hd ys)"
    using y by (simp add: list_all_iff)
  show "list_all (\<lambda>x. f x = f (hd xs)) xs = list_all (\<lambda>x. f x = f (hd ys)) ys"
  proof
    assume a: "list_all (\<lambda>x. f x = f (hd xs)) xs"
    with y have "f (hd ys) = f (hd xs)" by (simp add: list_all_iff)
    with a all show "list_all (\<lambda>x. f x = f (hd ys)) ys" by simp
  next
    assume b: "list_all (\<lambda>x. f x = f (hd ys)) ys"
    with x have "f (hd xs) = f (hd ys)" by (simp add: list_all_iff)
    with b all show "list_all (\<lambda>x. f x = f (hd xs)) xs" by simp
  qed
qed

lemma latest_clock_attained:
  assumes "xs \<noteq> []" and "list_all (\<lambda>ob. clock ob \<noteq> None) xs"
  shows "\<exists>ob \<in> set xs. clock ob = latest (clocks xs)"
proof -
  have "clock (hd xs) \<noteq> None" using assms by (auto simp: list_all_iff)
  then obtain c where "clock (hd xs) = Some c" by auto
  then have "c \<in> set (clocks xs)" using assms(1) hd_in_set [of xs] by (auto simp: set_clocks)
  then have ne: "clocks xs \<noteq> []" by auto
  then have "Max (set (clocks xs)) \<in> set (clocks xs)" by simp
  then show ?thesis using ne by (auto simp: set_clocks latest_def)
qed

lemma clocked_winner_cong:
  assumes same: "set xs = set ys" and ne: "xs \<noteq> []"
  shows "clocked_winner local xs = clocked_winner local ys"
proof -
  define tm where "tm = latest (clocks xs)"
  have tm: "latest (clocks ys) = tm" unfolding tm_def by (rule latest_clocks_cong [OF same, symmetric])
  define wx where "wx = filter (\<lambda>ob. clock ob = tm) xs"
  define wy where "wy = filter (\<lambda>ob. clock ob = tm) ys"
  have w: "set wx = set wy" using same by (simp add: wx_def wy_def)
  have all: "list_all P xs = list_all P ys" for P by (simp add: list_all_iff same)
  have X: "clocked_winner local xs =
      (if list_all (\<lambda>ob. clock ob \<noteq> None \<and> \<not> o_inferred ob) xs
          \<and> list_all (\<lambda>ob. o_value ob = o_value (hd wx)) wx
       then agree_on (o_value (hd wx)) tm wx else (keep_local local)\<lparr>d_conflict := True\<rparr>)"
    by (simp add: clocked_winner_def Let_def wx_def tm_def)
  have Y: "clocked_winner local ys =
      (if list_all (\<lambda>ob. clock ob \<noteq> None \<and> \<not> o_inferred ob) ys
          \<and> list_all (\<lambda>ob. o_value ob = o_value (hd wy)) wy
       then agree_on (o_value (hd wy)) tm wy else (keep_local local)\<lparr>d_conflict := True\<rparr>)"
    by (simp add: clocked_winner_def Let_def wy_def tm)
  show ?thesis
  proof (cases "list_all (\<lambda>ob. clock ob \<noteq> None \<and> \<not> o_inferred ob) xs")
    case True
    then have "list_all (\<lambda>ob. clock ob \<noteq> None) xs" by (simp add: list_all_iff)
    then obtain ob where "ob \<in> set xs" "clock ob = tm"
      using latest_clock_attained [OF ne] by (auto simp: tm_def)
    then have wne: "wx \<noteq> []" by (auto simp: wx_def filter_empty_conv)
    show ?thesis
    proof (cases "list_all (\<lambda>ob. o_value ob = o_value (hd wx)) wx")
      case agree: True
      have agree': "list_all (\<lambda>ob. o_value ob = o_value (hd wy)) wy"
        using unanimous_cong(1) [OF w wne] agree by (rule iffD1)
      have True': "list_all (\<lambda>ob. clock ob \<noteq> None \<and> \<not> o_inferred ob) ys"
        using True by (simp only: all)
      have "clocked_winner local xs = agree_on (o_value (hd wx)) tm wx"
        unfolding X using True agree by (simp only: if_True simp_thms)
      also have "\<dots> = agree_on (o_value (hd wy)) tm wy"
        unfolding unanimous_cong(2) [OF w wne agree] by (rule agree_on_cong [OF w])
      also have "\<dots> = clocked_winner local ys"
        unfolding Y using True' agree' by (simp only: if_True simp_thms)
      finally show ?thesis .
    next
      case split: False
      then have "\<not> list_all (\<lambda>ob. o_value ob = o_value (hd wy)) wy"
        using unanimous_cong(1) [OF w wne, of o_value] by (simp only: simp_thms)
      with split show ?thesis unfolding X Y by (simp only: if_False simp_thms)
    qed
  next
    case False
    then show ?thesis unfolding X Y by (simp add: all)
  qed
qed

lemma resolve_values_cong:
  assumes same: "set xs = set ys" and ne: "xs \<noteq> []"
  shows "resolve_values local local_at None xs = resolve_values local local_at None ys"
proof -
  have vals: "length (first_seen (map o_value xs)) = length (first_seen (map o_value ys))"
    using same by (simp add: length_first_seen)
  have hd: "hd (first_seen (map o_value xs)) = hd (first_seen (map o_value ys))"
    if "length (first_seen (map o_value xs)) = 1"
    using hd_first_seen_cong [OF _ that, of "map o_value ys"] same by simp
  have ex: "list_ex p xs = list_ex p ys" for p using same by (simp add: list_ex_iff)
  show ?thesis
  proof (cases "length (first_seen (map o_value xs)) = 1")
    case True
    then show ?thesis
      unfolding resolve_values_def Let_def vals [symmetric] hd [OF True] ex
        agree_on_cong [OF same] latest_clocks_cong [OF same] by simp
  next
    case False
    then show ?thesis
      by (simp add: resolve_values_def Let_def vals [symmetric] clocked_winner_cong [OF assms])
  qed
qed

lemma deltas_cong: "set xs = set ys \<Longrightarrow> set (deltas started xs) = set (deltas started ys)"
  by (simp add: deltas_def)

text \<open>C1: Without a domain-specific merge, the decision depends only on which observations were
  collected, not on the order in which the providers were fetched.\<close>

theorem resolve_fetch_order_irrelevant:
  assumes "set observations = set observations'"
  shows "resolve local local_at observations started_at None =
    resolve local local_at observations' started_at None"
proof -
  have d: "set (deltas started_at observations) = set (deltas started_at observations')"
    by (rule deltas_cong [OF assms])
  then have e: "(deltas started_at observations = []) = (deltas started_at observations' = [])"
    by (metis set_empty)
  have f: "set (filter P (deltas started_at observations)) = set (filter P (deltas started_at observations'))" for P
    using d by simp
  then have g: "(filter P (deltas started_at observations) = []) = (filter P (deltas started_at observations') = [])" for P
    by (metis set_empty)
  show ?thesis
    unfolding resolve_def Let_def using e g resolve_values_cong [OF f] by simp
qed

lemma resolve_fetch_order_irrelevant_witness:
  "resolve (Some (4 :: int)) (Some 0)
     [observe ''trakt'' (Some 5) (Some 7000) None None, observe ''simkl'' (Some 6) (Some 9000) None None]
     None None =
   resolve (Some 4) (Some 0)
     [observe ''simkl'' (Some 6) (Some 9000) None None, observe ''trakt'' (Some 5) (Some 7000) None None]
     None None"
  by (rule resolve_fetch_order_irrelevant) auto

section \<open>What a decision may change\<close>

lemma keep_local_simps [simp]:
  "d_value (keep_local v) = v" "d_sources (keep_local v) = {}"
  "\<not> d_conflict (keep_local v)" "\<not> d_stale (keep_local v)"
  by (simp_all add: keep_local_def)

lemma agree_on_simps [simp]:
  "d_value (agree_on v tm obs) = v" "d_sources (agree_on v tm obs) = sources_of obs"
  "\<not> d_conflict (agree_on v tm obs)" "\<not> d_stale (agree_on v tm obs)"
  by (simp_all add: agree_on_def)

text \<open>A decision that changes the value is supported: it is no conflict, names a source, and
  every source it names observed exactly that value.\<close>

definition supported :: "'v observation list \<Rightarrow> 'v option \<Rightarrow> 'v decision \<Rightarrow> bool" where
  "supported obs local d \<longleftrightarrow> d_value d = local \<or>
     (\<not> d_conflict d \<and> \<not> d_stale d \<and> d_sources d \<noteq> {} \<and>
      (\<forall>s \<in> d_sources d. \<exists>ob \<in> set obs. o_source ob = s \<and> o_value ob = d_value d))"

lemma supported_keep: "d_value d = local \<Longrightarrow> supported obs local d"
  by (simp add: supported_def)

lemma supported_agree:
  assumes "obs' \<noteq> []" "set obs' \<subseteq> set obs" "\<forall>ob \<in> set obs'. o_value ob = v"
  shows "supported obs local (agree_on v tm obs')"
  using assms by (auto simp: supported_def sources_of_def)

lemma clocked_winner_supported:
  assumes "candidates \<noteq> []"
  shows "supported candidates local (clocked_winner local candidates)"
proof -
  define winners where "winners = filter (\<lambda>ob. clock ob = latest (clocks candidates)) candidates"
  have eq: "clocked_winner local candidates =
      (if list_all (\<lambda>ob. clock ob \<noteq> None \<and> \<not> o_inferred ob) candidates
          \<and> list_all (\<lambda>ob. o_value ob = o_value (hd winners)) winners
       then agree_on (o_value (hd winners)) (latest (clocks candidates)) winners
       else (keep_local local)\<lparr>d_conflict := True\<rparr>)"
    by (simp add: clocked_winner_def Let_def winners_def)
  show ?thesis
  proof (cases "list_all (\<lambda>ob. clock ob \<noteq> None \<and> \<not> o_inferred ob) candidates
          \<and> list_all (\<lambda>ob. o_value ob = o_value (hd winners)) winners")
    case True
    then have "list_all (\<lambda>ob. clock ob \<noteq> None) candidates" by (simp add: list_all_iff)
    then have "winners \<noteq> []"
      using latest_clock_attained [OF assms] by (auto simp: winners_def filter_empty_conv)
    moreover have "set winners \<subseteq> set candidates" by (auto simp: winners_def)
    moreover have "\<forall>ob \<in> set winners. o_value ob = o_value (hd winners)"
      using True by (simp add: list_all_iff)
    ultimately have "supported candidates local (agree_on (o_value (hd winners)) (latest (clocks candidates)) winners)"
      by (rule supported_agree)
    then show ?thesis unfolding eq by (simp only: True if_True simp_thms)
  next
    case False
    have "clocked_winner local candidates = (keep_local local)\<lparr>d_conflict := True\<rparr>"
      unfolding eq by (simp only: False if_False)
    then show ?thesis by (simp add: supported_def)
  qed
qed

lemma first_seen_single:
  "length (first_seen (map f xs)) = 1 \<Longrightarrow> \<forall>x \<in> set xs. f x = hd (first_seen (map f xs))"
proof -
  assume "length (first_seen (map f xs)) = 1"
  then obtain v where v: "first_seen (map f xs) = [v]" by (cases "first_seen (map f xs)") auto
  then have "f ` set xs = {v}" by (metis list.set(1,2) set_first_seen set_map)
  with v show ?thesis by auto
qed

lemma resolve_values_supported:
  assumes "candidates \<noteq> []"
  shows "supported candidates local (resolve_values local local_at None candidates)"
proof (cases "length (first_seen (map o_value candidates)) = 1")
  case True
  define v where "v = hd (first_seen (map o_value candidates))"
  have all: "\<forall>ob \<in> set candidates. o_value ob = v"
    unfolding v_def by (rule first_seen_single [OF True])
  have eq: "resolve_values local local_at None candidates =
      (if v \<noteq> local \<and> local \<noteq> None \<and> \<not> list_ex (ordered_after local local_at) candidates
       then (keep_local local)\<lparr>d_conflict := True\<rparr> else agree_on v (latest (clocks candidates)) candidates)"
    using True by (simp add: resolve_values_def Let_def v_def)
  show ?thesis
    unfolding eq using supported_agree [OF assms _ all] by (simp add: supported_keep)
next
  case False
  then have "resolve_values local local_at None candidates = clocked_winner local candidates"
    by (simp add: resolve_values_def Let_def)
  then show ?thesis by (simp add: clocked_winner_supported [OF assms])
qed

lemma supported_flags: "supported obs local d \<Longrightarrow> d_conflict d \<or> d_stale d \<Longrightarrow> d_value d = local"
  by (auto simp: supported_def)

lemma resolve_cases:
  "resolve local local_at observations started_at compatible = (keep_local local)\<lparr>d_stale := True\<rparr> \<or>
   resolve local local_at observations started_at compatible = keep_local local \<or>
   (\<exists>candidates. candidates \<noteq> [] \<and>
      candidates = filter (\<lambda>ob. \<not> superseded (naive_utc local_at) ob) (deltas started_at observations) \<and>
      resolve local local_at observations started_at compatible =
        resolve_values local (naive_utc local_at) compatible candidates)"
  by (simp add: resolve_def Let_def)

lemma infer_clock_simps [simp]:
  "o_source (infer_clock st ob) = o_source ob" "o_value (infer_clock st ob) = o_value ob"
  "o_previous (infer_clock st ob) = o_previous ob"
  by (simp_all add: infer_clock_def)

lemma resolve_keeps_flags:
  assumes "d_value (resolve local local_at observations started_at None) \<noteq> local"
  shows "\<not> d_conflict (resolve local local_at observations started_at None) \<and>
    \<not> d_stale (resolve local local_at observations started_at None)"
proof -
  obtain candidates where ne: "candidates \<noteq> []"
    and d: "resolve local local_at observations started_at None =
      resolve_values local (naive_utc local_at) None candidates"
    using resolve_cases [of local local_at observations started_at None] assms by auto
  show ?thesis
    using supported_flags [OF resolve_values_supported [OF ne]] assms unfolding d by blast
qed



text \<open>A conflict or stale decision never changes the local value, and a local edit made after
  the pull started always wins.\<close>

lemma resolve_protects_local:
  "(d_conflict (resolve local local_at observations started_at None) \<or>
    d_stale (resolve local local_at observations started_at None) \<longrightarrow>
    d_value (resolve local local_at observations started_at None) = local) \<and>
   (\<forall>s l. started_at = Some s \<longrightarrow> naive_utc local_at = Some l \<longrightarrow> s < l \<longrightarrow>
    resolve local local_at observations started_at compatible = (keep_local local)\<lparr>d_stale := True\<rparr>)"
proof (intro conjI allI impI)
  show "d_value (resolve local local_at observations started_at None) = local"
    if flags: "d_conflict (resolve local local_at observations started_at None) \<or>
      d_stale (resolve local local_at observations started_at None)"
  proof (rule ccontr)
    assume "d_value (resolve local local_at observations started_at None) \<noteq> local"
    from resolve_keeps_flags [OF this] flags show False by blast
  qed
  show "resolve local local_at observations started_at compatible = (keep_local local)\<lparr>d_stale := True\<rparr>"
    if "started_at = Some s" "naive_utc local_at = Some l" "s < l" for s l
    using that by (simp add: resolve_def)
qed

lemma resolve_protects_local_witness:
  "resolve (Some (4 :: int)) (Some 9000) [observe ''trakt'' (Some 5) (Some 7000) None None] (Some 1000) None
   = (keep_local (Some 4))\<lparr>d_stale := True\<rparr>"
proof -
  have "naive_utc (Some 9000) = Some 9000" by (simp add: naive_utc_def milliseconds_def)
  then show ?thesis
    using resolve_protects_local [of "Some (4 :: int)" "Some 9000"
        "[observe ''trakt'' (Some 5) (Some 7000) None None]" "Some 1000" None] by simp
qed

text \<open>A provider whose snapshot did not change since its baseline never proposes its old value
  again: the local value stands, without a conflict.\<close>

lemma resolve_unchanged_snapshot:
  assumes "\<forall>ob \<in> set observations. o_previous ob = Some (o_value ob)"
  shows "d_value (resolve local local_at observations started_at compatible) = local \<and>
    \<not> d_conflict (resolve local local_at observations started_at compatible) \<and>
    d_sources (resolve local local_at observations started_at compatible) = {}"
proof -
  have "deltas started_at observations = []"
    using assms by (auto simp: deltas_def is_delta_def filter_empty_conv)
  then show ?thesis by (simp add: resolve_def Let_def)
qed

lemma resolve_unchanged_snapshot_witness:
  "d_value (resolve (Some (4 :: int)) (Some 0)
     [observe ''connection:1'' (Some 5) (Some 7000) (Some (Some 5)) None] (Some 1) None) = Some 4"
  using resolve_unchanged_snapshot [of "[observe ''connection:1'' (Some (5 :: int)) (Some 7000) (Some (Some 5)) None]"
      "Some 4" "Some 0" "Some 1" None]
  by (simp add: observe_def)

text \<open>An observation with neither a clock nor a baseline cannot defeat a different known local
  value.\<close>

lemma resolve_unordered_cannot_defeat_local:
  assumes "\<forall>ob \<in> set observations. o_changed_at ob = None \<and> o_previous ob = None"
    and "local \<noteq> None"
  shows "d_value (resolve local local_at observations started_at None) = local"
proof (rule ccontr)
  assume changed: "\<not> ?thesis"
  obtain candidates where ne: "candidates \<noteq> []"
    and cand: "candidates = filter (\<lambda>ob. \<not> superseded (naive_utc local_at) ob) (deltas started_at observations)"
    and d: "resolve local local_at observations started_at None =
      resolve_values local (naive_utc local_at) None candidates"
    using resolve_cases [of local local_at observations started_at None] changed by auto
  have none: "clock ob = None \<and> o_previous ob = None" if "ob \<in> set candidates" for ob
    using that assms(1) unfolding cand deltas_def
    by (auto simp: infer_clock_def clock_def naive_utc_def)
  have "\<not> list_ex (ordered_after local (naive_utc local_at)) candidates"
    using none by (auto simp: list_ex_iff ordered_after_def)
  moreover have "\<not> list_all (\<lambda>ob. clock ob \<noteq> None \<and> \<not> o_inferred ob) candidates"
    using none ne by (cases candidates) auto
  ultimately have "d_value (resolve_values local (naive_utc local_at) None candidates) = local"
    using assms(2) by (simp add: resolve_values_def clocked_winner_def Let_def)
  with d changed show False by simp
qed

lemma resolve_unordered_cannot_defeat_local_witness:
  "d_value (resolve (Some (4 :: int)) (Some 0) [observe ''simkl'' (Some 5) None None None] None None) = Some 4"
  by (rule resolve_unordered_cannot_defeat_local) (simp_all add: observe_def)

section \<open>Completions and resume positions\<close>

text \<open>
  \<open>reconcile_completions\<close>: a playback value is a status with a season and an episode (and
  the position and duration behind them).  Comparing a resume position with a completion whose
  season or episode is missing raises \<open>TypeError\<close>, as comparing with \<open>None\<close> does.
\<close>

record playback_value =
  pv_status :: string
  pv_season :: "int option"
  pv_episode :: "int option"
  pv_position :: pyval
  pv_duration :: pyval

type_synonym playback = "playback_value observation"

fun pos_le :: "int \<times> int \<Rightarrow> int option \<times> int option \<Rightarrow> bool result" where
  "pos_le (s, e) (cs, ce) =
     (case cs of None \<Rightarrow> Inl TypeError
      | Some c \<Rightarrow> if s = c then (case ce of None \<Rightarrow> Inl TypeError | Some d \<Rightarrow> Inr (e \<le> d)) else Inr (s < c))"

fun pos_gt :: "int \<times> int \<Rightarrow> int option \<times> int option \<Rightarrow> bool result" where
  "pos_gt (s, e) (cs, ce) =
     (case cs of None \<Rightarrow> Inl TypeError
      | Some c \<Rightarrow> if s = c then (case ce of None \<Rightarrow> Inl TypeError | Some d \<Rightarrow> Inr (d < e)) else Inr (c < s))"

definition value_of :: "playback \<Rightarrow> playback_value" where
  "value_of ob = the (o_value ob)"

definition position_of :: "playback_value \<Rightarrow> int option \<times> int option" where
  "position_of v = (pv_season v, pv_episode v)"

text \<open>The position of an active resume, when it has one.\<close>

definition resume_position :: "playback_value \<Rightarrow> (int \<times> int) option" where
  "resume_position v =
     (if pv_status v = ''watching''
      then (case (pv_season v, pv_episode v) of (Some s, Some e) \<Rightarrow> Some (s, e) | _ \<Rightarrow> None)
      else None)"

definition covers :: "playback_value \<Rightarrow> playback_value \<Rightarrow> bool result" where
  "covers completion v =
     (if pv_status completion = ''completed'' then Inr True
      else (case resume_position v of None \<Rightarrow> Inr False | Some p \<Rightarrow> pos_le p (position_of completion)))"

fun any_later_resume :: "playback_value \<Rightarrow> playback list \<Rightarrow> bool result" where
  "any_later_resume completion [] = Inr False"
| "any_later_resume completion (ob # obs) =
     (case resume_position (value_of ob) of
        None \<Rightarrow> any_later_resume completion obs
      | Some p \<Rightarrow> and_then (pos_gt p (position_of completion))
          (\<lambda>later. if later then Inr True else any_later_resume completion obs))"

text \<open>The clock part of the condition that drops an observation.\<close>

definition not_newer :: "playback \<Rightarrow> playback \<Rightarrow> bool" where
  "not_newer completion ob \<longleftrightarrow>
     (case (o_changed_at ob, o_changed_at completion) of (Some t, Some c) \<Rightarrow> t < c | _ \<Rightarrow> False)
      \<or> (o_source ob = o_source completion \<and>
         (case (o_changed_at ob, o_changed_at completion) of (Some t, Some c) \<Rightarrow> t \<le> c | _ \<Rightarrow> True))"

fun drop_covered :: "playback \<Rightarrow> playback list \<Rightarrow> playback list result" where
  "drop_covered completion [] = Inr []"
| "drop_covered completion (ob # obs) =
     and_then (covers (value_of completion) (value_of ob)) (\<lambda>c.
       and_then (drop_covered completion obs) (\<lambda>rest.
         Inr (if c \<and> not_newer completion ob then rest else ob # rest)))"

definition apply_completion :: "playback list \<Rightarrow> playback \<Rightarrow> playback list result" where
  "apply_completion acc completion =
     and_then (if pv_status (value_of completion) = ''completed'' then Inr False
               else any_later_resume (value_of completion) acc)
       (\<lambda>skip. if skip then Inr acc
         else and_then (drop_covered completion acc) (\<lambda>kept. Inr (kept @ [completion])))"

fun reconcile_completions :: "playback list \<Rightarrow> playback list \<Rightarrow> playback list result" where
  "reconcile_completions observations [] = Inr observations"
| "reconcile_completions observations (c # completions) =
     and_then (apply_completion observations c) (\<lambda>acc. reconcile_completions acc completions)"

text \<open>A completion of a known episode: a position, and not a whole-title completion.\<close>

definition episode_completion :: "int \<times> int \<Rightarrow> playback \<Rightarrow> bool" where
  "episode_completion q c \<longleftrightarrow> pv_status (value_of c) \<noteq> ''completed'' \<and>
     position_of (value_of c) = (Some (fst q), Some (snd q))"

lemma pos_le_some: "pos_le p (Some c, Some d) = Inr (p \<le> (c, d))"
  by (cases p) (auto simp: less_eq_prod_def)

lemma pos_gt_some: "pos_gt p (Some c, Some d) = Inr ((c, d) < p)"
  by (cases p) (auto simp: less_prod_def)

lemma any_later_resume_episode:
  "episode_completion q c \<Longrightarrow> any_later_resume (value_of c) obs =
     Inr (\<exists>ob \<in> set obs. \<exists>p. resume_position (value_of ob) = Some p \<and> q < p)"
  by (induction obs) (auto simp: episode_completion_def pos_gt_some split: option.splits)

lemma drop_covered_episode:
  "episode_completion q c \<Longrightarrow> drop_covered c obs =
     Inr (filter (\<lambda>ob. \<not> ((\<exists>p. resume_position (value_of ob) = Some p \<and> p \<le> q) \<and> not_newer c ob)) obs)"
  by (induction obs) (auto simp: episode_completion_def covers_def pos_le_some split: option.splits)

lemma apply_completion_keeps_resume:
  assumes "episode_completion q c" "ob \<in> set acc" "resume_position (value_of ob) = Some p" "q < p"
  shows "apply_completion acc c = Inr acc"
proof -
  have "any_later_resume (value_of c) acc = Inr True"
    using assms by (simp only: any_later_resume_episode [OF assms(1)]) blast
  moreover have "pv_status (value_of c) \<noteq> ''completed''"
    using assms(1) by (simp add: episode_completion_def)
  ultimately show ?thesis by (simp add: apply_completion_def)
qed

text \<open>Episode completions never disturb a resume position that lies beyond all of them: the
  merge of earlier history succeeds and leaves the observations, with the viewer's furthest
  resume point, as they were.\<close>

lemma reconcile_completions_keeps_later_resume:
  assumes "ob \<in> set observations" "resume_position (value_of ob) = Some p"
    and "\<forall>c \<in> set completions. \<exists>q. episode_completion q c \<and> q < p"
  shows "reconcile_completions observations completions = Inr observations"
  using assms
proof (induction completions)
  case Nil
  then show ?case by simp
next
  case (Cons c completions)
  then obtain q where "episode_completion q c" "q < p" by auto
  with Cons.prems have "apply_completion observations c = Inr observations"
    by (intro apply_completion_keeps_resume)
  with Cons show ?case by simp
qed

lemma reconcile_completions_keeps_later_resume_witness:
  "reconcile_completions
     [observe ''nuvio'' (Some \<lparr>pv_status = ''watching'', pv_season = Some 2, pv_episode = Some 3,
        pv_position = VInt 5, pv_duration = VInt 9\<rparr>) None None None]
     [observe ''nuvio'' (Some \<lparr>pv_status = ''watching'', pv_season = Some 2, pv_episode = Some 2,
        pv_position = VNone, pv_duration = VNone\<rparr>) (Some 4) None None]
   = Inr [observe ''nuvio'' (Some \<lparr>pv_status = ''watching'', pv_season = Some 2, pv_episode = Some 3,
        pv_position = VInt 5, pv_duration = VInt 9\<rparr>) None None None]"
  by (rule reconcile_completions_keeps_later_resume [of _ _ "(2, 3)"])
    (auto simp: observe_def value_of_def resume_position_def episode_completion_def
      position_of_def intro!: exI [of _ 2])

end
