(* ===== verification/PullCycle.thy ===== *)
theory PullCycle
  imports Models
begin

text \<open>
  \<open>core/pull_cycle.py\<close>: the per-user cycle that coordinates overlapping provider pulls.  The
  state is \<open>PullCycleState\<close>; \<open>states\<close> and \<open>locks\<close> are the module's dictionaries, and the
  context variable \<open>_delivery_users\<close> is the argument \<open>delivering\<close>.  Dictionaries whose
  order is never used are maps, and Python sets are sets.  The last part is the preparation and
  routing that \<open>core/scheduler.py\<close> \<open>_flush_pull_cycle\<close> applies to a finished cycle.
\<close>

section \<open>The state of a cycle\<close>

record pull_cycle =
  pc_user_id :: int
  pc_new_watched_ids :: "int set"
  pc_new_ratings :: rating_changes
  pc_rating_sources :: "rating_key \<rightharpoonup> string set"
  pc_library_desired :: "int \<rightharpoonup> bool"
  pc_removed_ratings :: "rating_key set"
  pc_new_collected_ids :: "int set"
  pc_removed_collected_ids :: "int set"
  pc_excluded_connection_ids :: "int set"
  pc_excluded_cloud_sources :: "collection_source set"
  pc_library_new_ids :: "int set"
  pc_library_removed_ids :: "int set"
  pc_library_source_ids :: "int set"
  pc_library_source_ids_by_media :: "int \<rightharpoonup> int set"
  pc_library_api_key :: "string option"
  pc_library_observed_at_by_media :: "int \<rightharpoonup> datetime"
  pc_watched_exclusions :: "int \<rightharpoonup> int set \<times> collection_source set"
  pc_removed_watch_exclusions :: "int \<rightharpoonup> int set"
  pc_push_back :: "int \<rightharpoonup> (int \<rightharpoonup> string)"
  pc_connection_versions :: "int \<rightharpoonup> int"

definition new_cycle :: "int \<Rightarrow> pull_cycle" where
  "new_cycle user =
     \<lparr>pc_user_id = user, pc_new_watched_ids = {}, pc_new_ratings = Map.empty,
      pc_rating_sources = Map.empty, pc_library_desired = Map.empty, pc_removed_ratings = {},
      pc_new_collected_ids = {}, pc_removed_collected_ids = {}, pc_excluded_connection_ids = {},
      pc_excluded_cloud_sources = {}, pc_library_new_ids = {}, pc_library_removed_ids = {},
      pc_library_source_ids = {}, pc_library_source_ids_by_media = Map.empty,
      pc_library_api_key = None, pc_library_observed_at_by_media = Map.empty,
      pc_watched_exclusions = Map.empty, pc_removed_watch_exclusions = Map.empty,
      pc_push_back = Map.empty, pc_connection_versions = Map.empty\<rparr>"

type_synonym cycle_states = "int \<rightharpoonup> pull_cycle"

definition is_active :: "cycle_states \<Rightarrow> int set \<Rightarrow> int \<Rightarrow> bool" where
  "is_active states delivering user \<longleftrightarrow> user \<in> dom states \<and> user \<notin> delivering"

definition allow_cycle_delivery :: "int set \<Rightarrow> pull_cycle \<Rightarrow> int set" where
  "allow_cycle_delivery delivering state = insert (pc_user_id state) delivering"

section \<open>Deferring a fan-out\<close>

text \<open>What one pull asks to fan out.\<close>

record fan_out =
  fo_exclude_connection_id :: "int option"
  fo_exclude_cloud_source :: "collection_source option"
  fo_new_watched_ids :: "int set"
  fo_new_ratings :: rating_changes
  fo_removed_ratings :: "rating_key set"
  fo_new_collected_ids :: "int set"
  fo_removed_collected_ids :: "int set"

definition add_exclusion ::
  "fan_out \<Rightarrow> int set \<times> collection_source set \<Rightarrow> int set \<times> collection_source set" where
  "add_exclusion f = (\<lambda>(connections, clouds).
     (connections \<union> set_option (fo_exclude_connection_id f),
      clouds \<union> set_option (fo_exclude_cloud_source f)))"

definition accumulate :: "fan_out \<Rightarrow> pull_cycle \<Rightarrow> pull_cycle" where
  "accumulate f st =
     st\<lparr>pc_new_watched_ids := pc_new_watched_ids st \<union> fo_new_watched_ids f,
        pc_watched_exclusions :=
          alter_keys (fo_new_watched_ids f) ({}, {}) (add_exclusion f) (pc_watched_exclusions st),
        pc_new_ratings := pc_new_ratings st ++ fo_new_ratings f,
        pc_removed_ratings := pc_removed_ratings st \<union> fo_removed_ratings f,
        pc_new_collected_ids := pc_new_collected_ids st \<union> fo_new_collected_ids f,
        pc_removed_collected_ids := pc_removed_collected_ids st \<union> fo_removed_collected_ids f,
        pc_excluded_connection_ids :=
          pc_excluded_connection_ids st \<union> set_option (fo_exclude_connection_id f),
        pc_excluded_cloud_sources :=
          pc_excluded_cloud_sources st \<union> set_option (fo_exclude_cloud_source f)\<rparr>"

text \<open>\<open>True\<close> tells the caller that the cycle took the change over.\<close>

definition defer_fan_out ::
  "cycle_states \<Rightarrow> int set \<Rightarrow> int \<Rightarrow> fan_out \<Rightarrow> bool \<times> cycle_states" where
  "defer_fan_out states delivering user f =
     (case states user of
        None \<Rightarrow> (False, states)
      | Some st \<Rightarrow>
          if \<not> is_active states delivering user then (False, states)
          else (True, states(user \<mapsto> accumulate f st)))"

definition defer_watch_removals ::
  "cycle_states \<Rightarrow> int set \<Rightarrow> int \<Rightarrow> int set \<Rightarrow> int \<Rightarrow> bool \<times> cycle_states" where
  "defer_watch_removals states delivering user media_ids source_connection_id =
     (case states user of
        None \<Rightarrow> (False, states)
      | Some st \<Rightarrow>
          if \<not> is_active states delivering user then (False, states)
          else (True, states(user \<mapsto> st\<lparr>pc_removed_watch_exclusions :=
                 alter_keys media_ids {} (insert source_connection_id) (pc_removed_watch_exclusions st)\<rparr>)))"

text \<open>A library observation; the newest observation time of a title is kept.\<close>

record library_fan_out =
  lf_source_connection_id :: int
  lf_new_collected_ids :: "int set"
  lf_removed_collected_ids :: "int set"
  lf_api_key :: "string option"
  lf_source_observed_at :: "datetime option"

definition newest_observation ::
  "int set \<Rightarrow> datetime option \<Rightarrow> (int \<rightharpoonup> datetime) \<Rightarrow> (int \<rightharpoonup> datetime)" where
  "newest_observation ids observed m =
     (case observed of None \<Rightarrow> m
      | Some t \<Rightarrow> (\<lambda>k. if k \<in> ids
                      then (case m k of None \<Rightarrow> Some t | Some p \<Rightarrow> Some (if p < t then t else p))
                      else m k))"

definition accumulate_library :: "library_fan_out \<Rightarrow> pull_cycle \<Rightarrow> pull_cycle" where
  "accumulate_library f st =
     (let ids = lf_new_collected_ids f \<union> lf_removed_collected_ids f in
      st\<lparr>pc_library_new_ids := pc_library_new_ids st \<union> lf_new_collected_ids f,
         pc_library_removed_ids := pc_library_removed_ids st \<union> lf_removed_collected_ids f,
         pc_library_source_ids := insert (lf_source_connection_id f) (pc_library_source_ids st),
         pc_library_source_ids_by_media :=
           alter_keys ids {} (insert (lf_source_connection_id f)) (pc_library_source_ids_by_media st),
         pc_library_observed_at_by_media :=
           newest_observation ids (lf_source_observed_at f) (pc_library_observed_at_by_media st),
         pc_library_api_key :=
           (case pc_library_api_key st of None \<Rightarrow> lf_api_key f | Some k \<Rightarrow> Some k)\<rparr>)"

definition defer_library_fan_out ::
  "cycle_states \<Rightarrow> int set \<Rightarrow> int \<Rightarrow> library_fan_out \<Rightarrow> bool \<times> cycle_states" where
  "defer_library_fan_out states delivering user f =
     (case states user of
        None \<Rightarrow> (False, states)
      | Some st \<Rightarrow>
          if \<not> is_active states delivering user then (False, states)
          else (True, states(user \<mapsto> accumulate_library f st)))"

section \<open>Finiteness\<close>

text \<open>Every collection of a cycle is finite, as a Python set or dictionary is.\<close>

definition finite_cycle :: "pull_cycle \<Rightarrow> bool" where
  "finite_cycle st \<longleftrightarrow>
     finite (pc_new_watched_ids st) \<and> finite (dom (pc_new_ratings st)) \<and>
     finite (dom (pc_rating_sources st)) \<and> (\<forall>k s. pc_rating_sources st k = Some s \<longrightarrow> finite s) \<and>
     finite (dom (pc_library_desired st)) \<and> finite (pc_removed_ratings st) \<and>
     finite (pc_new_collected_ids st) \<and> finite (pc_removed_collected_ids st) \<and>
     finite (pc_excluded_connection_ids st) \<and> finite (pc_excluded_cloud_sources st) \<and>
     finite (pc_library_new_ids st) \<and> finite (pc_library_removed_ids st) \<and>
     finite (pc_library_source_ids st) \<and> finite (dom (pc_library_source_ids_by_media st)) \<and>
     (\<forall>k s. pc_library_source_ids_by_media st k = Some s \<longrightarrow> finite s) \<and>
     finite (dom (pc_library_observed_at_by_media st)) \<and>
     finite (dom (pc_watched_exclusions st)) \<and>
     (\<forall>k s. pc_watched_exclusions st k = Some s \<longrightarrow> finite (fst s) \<and> finite (snd s)) \<and>
     finite (dom (pc_removed_watch_exclusions st)) \<and>
     (\<forall>k s. pc_removed_watch_exclusions st k = Some s \<longrightarrow> finite s) \<and>
     finite (dom (pc_push_back st)) \<and> (\<forall>k d. pc_push_back st k = Some d \<longrightarrow> finite (dom d)) \<and>
     finite (dom (pc_connection_versions st))"

definition finite_fan_out :: "fan_out \<Rightarrow> bool" where
  "finite_fan_out f \<longleftrightarrow> finite (fo_new_watched_ids f) \<and> finite (dom (fo_new_ratings f)) \<and>
     finite (fo_removed_ratings f) \<and> finite (fo_new_collected_ids f) \<and> finite (fo_removed_collected_ids f)"

lemma finite_new_cycle [simp]: "finite_cycle (new_cycle u)"
  by (simp add: finite_cycle_def new_cycle_def)

lemma finite_alter_keys:
  "\<forall>k s. m k = Some s \<longrightarrow> finite s \<Longrightarrow> (\<And>s. finite s \<Longrightarrow> finite (f s)) \<Longrightarrow>
   alter_keys ks {} f m k = Some s \<Longrightarrow> finite s"
  by (rule alter_keys_invariant [of m finite]) auto

lemma finite_newest: "finite ids \<Longrightarrow> finite (dom m) \<Longrightarrow> finite (dom (newest_observation ids t m))"
  by (rule finite_subset [of _ "dom m \<union> ids"])
    (auto simp: newest_observation_def dom_def split: option.splits if_splits)

lemma finite_accumulate:
  assumes "finite_cycle st" "finite_fan_out f"
  shows "finite_cycle (accumulate f st)"
proof -
  have "finite (fst s) \<and> finite (snd s)"
    if "alter_keys (fo_new_watched_ids f) ({}, {}) (add_exclusion f) (pc_watched_exclusions st) k = Some s" for k s
    using that
    by (rule alter_keys_invariant [of _ "\<lambda>s. finite (fst s) \<and> finite (snd s)", rotated 3])
      (use assms(1) in \<open>auto simp: finite_cycle_def add_exclusion_def split: prod.splits\<close>)
  with assms show ?thesis by (simp add: finite_cycle_def finite_fan_out_def accumulate_def)
qed

lemma finite_accumulate_library:
  assumes "finite_cycle st" "finite (lf_new_collected_ids f)" "finite (lf_removed_collected_ids f)"
  shows "finite_cycle (accumulate_library f st)"
proof -
  have "finite s" if "alter_keys (lf_new_collected_ids f \<union> lf_removed_collected_ids f) {}
      (insert (lf_source_connection_id f)) (pc_library_source_ids_by_media st) k = Some s" for k s
    using that by (rule finite_alter_keys [rotated 2]) (use assms(1) in \<open>auto simp: finite_cycle_def\<close>)
  with assms show ?thesis by (simp add: finite_cycle_def accumulate_library_def Let_def finite_newest)
qed

lemma finite_watch_removals:
  assumes "finite_cycle st" "finite ids"
  shows "finite_cycle (st\<lparr>pc_removed_watch_exclusions :=
    alter_keys ids {} (insert c) (pc_removed_watch_exclusions st)\<rparr>)"
proof -
  have "finite s" if "alter_keys ids {} (insert c) (pc_removed_watch_exclusions st) k = Some s" for k s
    using that by (rule finite_alter_keys [rotated 2]) (use assms(1) in \<open>auto simp: finite_cycle_def\<close>)
  with assms show ?thesis by (simp add: finite_cycle_def)
qed

section \<open>The order of the pulls\<close>

lemma newest_observation_commute:
  "newest_observation ids t (newest_observation ids' t' m) =
   newest_observation ids' t' (newest_observation ids t m)"
  by (auto simp: newest_observation_def fun_eq_iff split: option.splits)

lemma add_exclusion_commute: "add_exclusion f (add_exclusion g s) = add_exclusion g (add_exclusion f s)"
  by (cases s) (auto simp: add_exclusion_def)

lemma accumulate_commute:
  assumes "\<And>k a b. fo_new_ratings f k = Some a \<Longrightarrow> fo_new_ratings g k = Some b \<Longrightarrow> a = b"
  shows "accumulate f (accumulate g st) = accumulate g (accumulate f st)"
proof -
  have "pc_new_ratings st ++ fo_new_ratings g ++ fo_new_ratings f =
      pc_new_ratings st ++ fo_new_ratings f ++ fo_new_ratings g"
    using assms by (auto simp: map_add_def fun_eq_iff split: option.splits)
  moreover have "alter_keys (fo_new_watched_ids f) ({}, {}) (add_exclusion f)
        (alter_keys (fo_new_watched_ids g) ({}, {}) (add_exclusion g) (pc_watched_exclusions st)) =
      alter_keys (fo_new_watched_ids g) ({}, {}) (add_exclusion g)
        (alter_keys (fo_new_watched_ids f) ({}, {}) (add_exclusion f) (pc_watched_exclusions st))"
    by (rule alter_keys_commute) (rule add_exclusion_commute)
  ultimately show ?thesis by (simp add: accumulate_def Un_ac)
qed

text \<open>What a cycle accumulates does not depend on which pull finished first: deferring two
  fan-outs in either order leaves the same state, provided they do not report different scores
  for the same title and season.\<close>

lemma defer_fan_out_order_irrelevant:
  assumes "\<forall>k a b. fo_new_ratings f k = Some a \<longrightarrow> fo_new_ratings g k = Some b \<longrightarrow> a = b"
  shows "defer_fan_out (snd (defer_fan_out states delivering user g)) delivering user f =
    defer_fan_out (snd (defer_fan_out states delivering user f)) delivering user g"
proof -
  have "accumulate f (accumulate g st) = accumulate g (accumulate f st)" for st
    using assms by (intro accumulate_commute) blast
  then show ?thesis
    by (cases "states user") (simp_all add: defer_fan_out_def is_active_def)
qed

definition sample_fan_out :: "int option \<Rightarrow> int set \<Rightarrow> fan_out" where
  "sample_fan_out connection ids =
     \<lparr>fo_exclude_connection_id = connection, fo_exclude_cloud_source = None, fo_new_watched_ids = ids,
      fo_new_ratings = [(7, None) \<mapsto> 8], fo_removed_ratings = {}, fo_new_collected_ids = {},
      fo_removed_collected_ids = {}\<rparr>"

lemma defer_fan_out_order_irrelevant_witness:
  "defer_fan_out (snd (defer_fan_out [1 \<mapsto> new_cycle 1] {} 1 (sample_fan_out (Some 4) {10}))) {} 1
     (sample_fan_out (Some 5) {10, 11}) =
   defer_fan_out (snd (defer_fan_out [1 \<mapsto> new_cycle 1] {} 1 (sample_fan_out (Some 5) {10, 11}))) {} 1
     (sample_fan_out (Some 4) {10})"
  by (rule defer_fan_out_order_irrelevant) (auto simp: sample_fan_out_def split: if_splits)

text \<open>While a cycle is open, a change reported by a task that does not own the delivery is
  taken over completely and sent by nobody else: the titles, ratings and removals are part of the
  cycle, and the connection and cloud that reported a watch are recorded as its source.\<close>

lemma defer_fan_out_takes_over:
  assumes "states user = Some st" "user \<notin> delivering"
  shows "\<exists>st'. defer_fan_out states delivering user f = (True, states(user \<mapsto> st')) \<and>
    fo_new_watched_ids f \<subseteq> pc_new_watched_ids st' \<and> pc_new_watched_ids st \<subseteq> pc_new_watched_ids st' \<and>
    fo_new_ratings f \<subseteq>\<^sub>m pc_new_ratings st' \<and> fo_removed_ratings f \<subseteq> pc_removed_ratings st' \<and>
    fo_new_collected_ids f \<subseteq> pc_new_collected_ids st' \<and>
    (\<forall>m \<in> fo_new_watched_ids f. \<exists>cs ss. pc_watched_exclusions st' m = Some (cs, ss) \<and>
       set_option (fo_exclude_connection_id f) \<subseteq> cs \<and> set_option (fo_exclude_cloud_source f) \<subseteq> ss)"
proof -
  have "defer_fan_out states delivering user f = (True, states(user \<mapsto> accumulate f st))"
    using assms by (simp add: defer_fan_out_def is_active_def dom_def)
  moreover have "\<exists>cs ss. pc_watched_exclusions (accumulate f st) m = Some (cs, ss) \<and>
      set_option (fo_exclude_connection_id f) \<subseteq> cs \<and> set_option (fo_exclude_cloud_source f) \<subseteq> ss"
    if "m \<in> fo_new_watched_ids f" for m
    using that by (auto simp: accumulate_def alter_keys_def add_exclusion_def split: option.splits)
  ultimately show ?thesis
    by (intro exI [of _ "accumulate f st"]) (auto simp: accumulate_def map_le_def dom_def)
qed

lemma defer_fan_out_takes_over_witness:
  "\<exists>st'. defer_fan_out [1 \<mapsto> new_cycle 1] {2} 1 (sample_fan_out (Some 4) {10}) = (True, [1 \<mapsto> new_cycle 1](1 \<mapsto> st'))"
  using defer_fan_out_takes_over [of "[1 \<mapsto> new_cycle 1]" 1 "new_cycle 1" "{2}" "sample_fan_out (Some 4) {10}"]
  by auto

section \<open>Cycles of several users\<close>

text \<open>The process: the open cycles and the users whose cycle lock is held.  Pulls of different
  users, and several pulls of one user, interleave freely; a second cycle of the same user waits
  for the lock.\<close>

record cycles =
  cy_states :: cycle_states
  cy_locked :: "int set"

inductive cycle_step :: "cycles \<Rightarrow> cycles \<Rightarrow> bool" where
  begin_cycle: "u \<notin> cy_locked c \<Longrightarrow>
    cycle_step c (c\<lparr>cy_states := (cy_states c)(u \<mapsto> new_cycle u), cy_locked := insert u (cy_locked c)\<rparr>)"
| fan_out_step: "defer_fan_out (cy_states c) delivering u f = (True, s) \<Longrightarrow> finite_fan_out f \<Longrightarrow>
    cycle_step c (c\<lparr>cy_states := s\<rparr>)"
| removal_step: "defer_watch_removals (cy_states c) delivering u ids cid = (True, s) \<Longrightarrow> finite ids \<Longrightarrow>
    cycle_step c (c\<lparr>cy_states := s\<rparr>)"
| library_step: "defer_library_fan_out (cy_states c) delivering u lf = (True, s) \<Longrightarrow>
    finite (lf_new_collected_ids lf) \<Longrightarrow> finite (lf_removed_collected_ids lf) \<Longrightarrow>
    cycle_step c (c\<lparr>cy_states := s\<rparr>)"
| finish_cycle: "u \<in> cy_locked c \<Longrightarrow>
    cycle_step c (c\<lparr>cy_states := (cy_states c)(u := None), cy_locked := cy_locked c - {u}\<rparr>)"

inductive_cases cycle_stepE: "cycle_step c c'"

definition no_cycles :: cycles where
  "no_cycles = \<lparr>cy_states = Map.empty, cy_locked = {}\<rparr>"

definition cycles_ok :: "cycles \<Rightarrow> bool" where
  "cycles_ok c \<longleftrightarrow> dom (cy_states c) = cy_locked c \<and>
     (\<forall>u st. cy_states c u = Some st \<longrightarrow> pc_user_id st = u \<and> finite_cycle st)"

lemma pc_user_id_accumulate [simp]:
  "pc_user_id (accumulate f st) = pc_user_id st" "pc_user_id (accumulate_library lf st) = pc_user_id st"
  by (simp_all add: accumulate_def accumulate_library_def Let_def)

lemma cycles_ok_update:
  assumes "cycles_ok c" "cy_states c u = Some st" "finite_cycle st'" "pc_user_id st' = pc_user_id st"
  shows "cycles_ok (c\<lparr>cy_states := (cy_states c)(u \<mapsto> st')\<rparr>)"
  using assms by (auto simp: cycles_ok_def)

lemma cycle_step_ok: "cycle_step c c' \<Longrightarrow> cycles_ok c \<Longrightarrow> cycles_ok c'"
proof (induction rule: cycle_step.induct)
  case (begin_cycle u c)
  then show ?case by (auto simp: cycles_ok_def new_cycle_def [THEN arg_cong [of _ _ pc_user_id]])
next
  case (fan_out_step c delivering u f s)
  then obtain st where st: "cy_states c u = Some st" "s = (cy_states c)(u \<mapsto> accumulate f st)"
    by (auto simp: defer_fan_out_def split: option.splits if_splits)
  then have "finite_cycle (accumulate f st)"
    using fan_out_step by (intro finite_accumulate) (auto simp: cycles_ok_def)
  with st fan_out_step.prems show ?case by (auto intro: cycles_ok_update)
next
  case (removal_step c delivering u ids cid s)
  then obtain st where st: "cy_states c u = Some st" "s = (cy_states c)(u \<mapsto> st\<lparr>pc_removed_watch_exclusions :=
      alter_keys ids {} (insert cid) (pc_removed_watch_exclusions st)\<rparr>)"
    by (auto simp: defer_watch_removals_def split: option.splits if_splits)
  then have "finite_cycle (st\<lparr>pc_removed_watch_exclusions :=
      alter_keys ids {} (insert cid) (pc_removed_watch_exclusions st)\<rparr>)"
    using removal_step by (intro finite_watch_removals) (auto simp: cycles_ok_def)
  with st removal_step.prems show ?case by (auto intro: cycles_ok_update)
next
  case (library_step c delivering u lf s)
  then obtain st where st: "cy_states c u = Some st" "s = (cy_states c)(u \<mapsto> accumulate_library lf st)"
    by (auto simp: defer_library_fan_out_def split: option.splits if_splits)
  then have "finite_cycle (accumulate_library lf st)"
    using library_step by (intro finite_accumulate_library) (auto simp: cycles_ok_def)
  with st library_step.prems show ?case by (auto intro: cycles_ok_update)
next
  case (finish_cycle u c)
  then show ?case by (auto simp: cycles_ok_def split: if_splits)
qed



end
