(* ===== verification/PyClock.thy ===== *)
theory PyClock
  imports PyDate
begin

text \<open>
  Naive UTC \<open>datetime\<close> values as text.  \<open>datetime_isoformat\<close> is the library's
  \<open>isoformat()\<close>; \<open>parse_stamp\<close> reads back the two shapes it prints (with and without
  microseconds).  The stored stamps the program parses are all of its own printing.
\<close>

section \<open>Ordinals and dates are inverse\<close>

lemma days_before_month_append:
  "1 \<le> m \<Longrightarrow> days_before_month y (Suc m) = days_before_month y m + days_in_month y m"
  by (simp add: days_before_month.simps)

lemma month_of_day_sound:
  assumes "month_of_day y n [k..<13] = (m, d)" "1 \<le> k" "k \<le> 13"
    and "n < sum_list (map (days_in_month y) [k..<13])"
  shows "k \<le> m \<and> m \<le> 12 \<and> 1 \<le> d \<and> d \<le> days_in_month y m \<and>
    days_before_month y m + d = days_before_month y k + n + 1"
  using assms
proof (induction "13 - k" arbitrary: k n)
  case 0
  then show ?case by simp
next
  case (Suc x)
  then have k: "k < 13" by simp
  then have upt: "[k..<13] = k # [Suc k..<13]" by (simp add: upt_conv_Cons)
  show ?case
  proof (cases "n < days_in_month y k")
    case True
    with Suc.prems k show ?thesis by (auto simp: upt)
  next
    case False
    have "x = 13 - Suc k" using Suc.hyps(2) by simp
    moreover have "month_of_day y (n - days_in_month y k) [Suc k..<13] = (m, d)"
      using Suc.prems(1) False by (simp add: upt)
    moreover have "n - days_in_month y k < sum_list (map (days_in_month y) [Suc k..<13])"
      using Suc.prems(4) False by (simp add: upt)
    ultimately have "Suc k \<le> m \<and> m \<le> 12 \<and> 1 \<le> d \<and> d \<le> days_in_month y m \<and>
        days_before_month y m + d = days_before_month y (Suc k) + (n - days_in_month y k) + 1"
      using Suc.hyps(1) [of "Suc k"] k by simp
    with False Suc.prems(2) show ?thesis by (auto simp: days_before_month_append)
  qed
qed

lemma year_length: "sum_list (map (days_in_month y) [1..<13]) = (if is_leap y then 366 else 365)"
  by (simp add: upt_rec days_in_month_def)

lemma days_before_december: "days_before_month y 12 + 31 = (if is_leap y then 366 else 365)"
  by (simp add: days_before_month.simps upt_rec days_in_month_def)

lemma days_before_year_cycle:
  assumes "b \<le> 3" "c \<le> 24" "d \<le> 3"
  shows "days_before_year (a * 400 + b * 100 + c * 4 + d + 1) = 146097 * a + 36524 * b + 1461 * c + 365 * d"
proof -
  let ?z = "a * 400 + b * 100 + c * 4 + d"
  have "?z div 4 = 100 * a + 25 * b + c" using assms by simp
  moreover have "?z div 100 = 4 * a + b" using assms by simp
  moreover have "?z div 400 = a" using assms by simp
  ultimately show ?thesis by (simp add: days_before_year_def Let_def)
qed

lemma is_leap_cycle:
  assumes "b \<le> 3" "c \<le> 24" "d \<le> 3"
  shows "is_leap (a * 400 + b * 100 + c * 4 + d + 1) \<longleftrightarrow> d = 3 \<and> (c \<noteq> 24 \<or> b = 3)"
proof -
  let ?y = "a * 400 + b * 100 + c * 4 + d + 1"
  have zero: "k mod m = 0 \<longleftrightarrow> k = m" if "0 < k" "k \<le> m" for k m :: nat
    using that by (cases "k = m") auto
  have "?y = (d + 1) + (a * 100 + b * 25 + c) * 4" by simp
  then have "?y mod 4 = (d + 1) mod 4" by (simp only: mod_mult_self1)
  moreover have "(d + 1) mod 4 = 0 \<longleftrightarrow> d = 3" using zero [of "d + 1" 4] assms(3) by simp
  moreover have "?y = (c * 4 + d + 1) + (a * 4 + b) * 100" by simp
  then have "?y mod 100 = (c * 4 + d + 1) mod 100" by (simp only: mod_mult_self1)
  moreover have "(c * 4 + d + 1) mod 100 = 0 \<longleftrightarrow> c * 4 + d + 1 = 100"
    using assms by (intro zero) auto
  moreover have "?y = (b * 100 + c * 4 + d + 1) + a * 400" by simp
  then have "?y mod 400 = (b * 100 + c * 4 + d + 1) mod 400" by (simp only: mod_mult_self1)
  moreover have "(b * 100 + c * 4 + d + 1) mod 400 = 0 \<longleftrightarrow> b * 100 + c * 4 + d + 1 = 400"
    using assms by (intro zero) auto
  moreover have "c * 4 + d + 1 = 100 \<longleftrightarrow> c = 24 \<and> d = 3"
    using assms by (intro iffI conjI; linarith)
  moreover have "b * 100 + c * 4 + d + 1 = 400 \<longleftrightarrow> b = 3 \<and> c = 24 \<and> d = 3"
    using assms by (intro iffI conjI; linarith)
  ultimately show ?thesis by (simp only: is_leap_def) auto
qed

lemma toordinal_fromordinal:
  assumes "1 \<le> n"
  shows "toordinal (fromordinal n) = n" "1 \<le> month (fromordinal n)" "month (fromordinal n) \<le> 12"
    "1 \<le> day (fromordinal n)" "day (fromordinal n) \<le> days_in_month (year (fromordinal n)) (month (fromordinal n))"
    "1 \<le> year (fromordinal n)"
proof -
  define a where "a = (n - 1) div 146097"
  define r1 where "r1 = (n - 1) mod 146097"
  define b where "b = r1 div 36524"
  define r2 where "r2 = r1 mod 36524"
  define c where "c = r2 div 1461"
  define r3 where "r3 = r2 mod 1461"
  define d where "d = r3 div 365"
  define r4 where "r4 = r3 mod 365"
  have r1: "n - 1 = 146097 * a + r1" "r1 < 146097" by (simp_all add: a_def r1_def)
  have r2: "r1 = 36524 * b + r2" "r2 < 36524" by (simp_all add: b_def r2_def)
  have r3: "r2 = 1461 * c + r3" "r3 < 1461" by (simp_all add: c_def r3_def)
  have r4: "r3 = 365 * d + r4" "r4 < 365" by (simp_all add: d_def r4_def)
  have b4: "b \<le> 4" using r1(2) r2 by linarith
  have c24: "c \<le> 24" using r2(2) r3 by linarith
  have d4: "d \<le> 4" using r3(2) r4 by linarith
  let ?y = "a * 400 + b * 100 + c * 4 + d + 1"
  have unfold: "fromordinal n = (if d = 4 \<or> b = 4 then Date (?y - 1) 12 31
      else (case month_of_day ?y r4 [1..<13] of (m, k) \<Rightarrow> Date ?y m k))"
    by (simp add: fromordinal_def Let_def a_def r1_def b_def r2_def c_def r3_def d_def r4_def)
  have "toordinal (fromordinal n) = n \<and> 1 \<le> month (fromordinal n) \<and> month (fromordinal n) \<le> 12
    \<and> 1 \<le> day (fromordinal n)
    \<and> day (fromordinal n) \<le> days_in_month (year (fromordinal n)) (month (fromordinal n)) \<and> 1 \<le> year (fromordinal n)"
  proof (cases "d = 4 \<or> b = 4")
    case False
    then have le: "b \<le> 3" "d \<le> 3" using b4 d4 by auto
    obtain m k where mk: "month_of_day ?y r4 [1..<13] = (m, k)" by fastforce
    have "r4 < sum_list (map (days_in_month ?y) [1..<13])" using r4(2) by (simp only: year_length) simp
    from month_of_day_sound [OF mk _ _ this] have sound: "1 \<le> m" "m \<le> 12" "1 \<le> k" "k \<le> days_in_month ?y m"
      "days_before_month ?y m + k = days_before_month ?y 1 + r4 + 1" by auto
    have "days_before_month ?y 1 = 0" by (simp add: days_before_month.simps)
    then have "toordinal (Date ?y m k) = n"
      using sound(5) days_before_year_cycle [OF le(1) c24 le(2), of a] r1(1) r2(1) r3(1) r4(1) assms
      by (simp add: toordinal_def)
    with False mk sound show ?thesis by (simp add: unfold)
  next
    case True
    then obtain b' c' d' where y: "?y - 1 = a * 400 + b' * 100 + c' * 4 + d' + 1"
      and le: "b' \<le> 3" "c' \<le> 24" "d' = 3" "c' \<noteq> 24 \<or> b' = 3"
      and n: "n = 146097 * a + 36524 * b' + 1461 * c' + 365 * 3 + 366"
    proof (cases "b = 4")
      case True
      then have "r2 = 0" using r1(2) r2 by linarith
      then have "c = 0" "r3 = 0" using r3 by simp_all
      then have "d = 0" "r4 = 0" using r4 by simp_all
      show ?thesis
        by (rule that [of 3 24 3]) (use True \<open>c = 0\<close> \<open>d = 0\<close> \<open>r2 = 0\<close> r1 r2 assms in auto)
    next
      case no4: False
      with True have d: "d = 4" by simp
      then have "r3 = 1460" using r3(2) r4 by linarith
      then have "c \<noteq> 24" using r2(2) r3 by auto
      show ?thesis
        by (rule that [of b c 3]) (use no4 b4 c24 d \<open>c \<noteq> 24\<close> \<open>r3 = 1460\<close> r1 r2 r3 assms in auto)
    qed
    have leap: "is_leap (?y - 1)" unfolding y using is_leap_cycle [OF le(1,2), of d' a] le by simp
    have "days_before_year (?y - 1) = 146097 * a + 36524 * b' + 1461 * c' + 365 * 3"
      unfolding y using days_before_year_cycle [OF le(1,2), of d' a] le(3) by simp
    then have "toordinal (Date (?y - 1) 12 31) = n"
      using days_before_december [of "?y - 1"] leap n by (simp add: toordinal_def)
    moreover have "1 \<le> ?y - 1" using y by simp
    ultimately show ?thesis using True by (simp add: unfold days_in_month_def)
  qed
  then show "toordinal (fromordinal n) = n" "1 \<le> month (fromordinal n)" "month (fromordinal n) \<le> 12"
    "1 \<le> day (fromordinal n)" "day (fromordinal n) \<le> days_in_month (year (fromordinal n)) (month (fromordinal n))"
    "1 \<le> year (fromordinal n)" by auto
qed

lemma year_fromordinal:
  assumes "1 \<le> n" "n \<le> 3652059"
  shows "year (fromordinal n) \<le> 9999"
proof (rule ccontr)
  let ?z = "year (fromordinal n) - 1"
  assume "\<not> ?thesis"
  then have z: "9999 \<le> ?z" by simp
  have "3652059 \<le> days_before_year (year (fromordinal n))"
  proof (cases "?z = 9999")
    case True
    then show ?thesis by (simp add: days_before_year_def)
  next
    case False
    then have "10000 \<le> ?z" using z by simp
    moreover have "?z \<le> 4 * (?z div 4) + 3" by simp
    moreover have "100 * (?z div 100) \<le> ?z" by simp
    ultimately have "3652059 + ?z div 100 \<le> ?z * 365 + ?z div 4" by linarith
    then have "3652059 \<le> ?z * 365 + ?z div 4 - ?z div 100 + ?z div 400" by linarith
    then show ?thesis by (simp only: days_before_year_def Let_def)
  qed
  moreover have "days_before_year (year (fromordinal n)) + day (fromordinal n) \<le> n"
    using toordinal_fromordinal(1) [OF assms(1)] by (simp add: toordinal_def)
  ultimately show False using toordinal_fromordinal(4) [OF assms(1)] assms(2) by simp
qed

lemma fromordinal_valid: "1 \<le> n \<Longrightarrow> n \<le> 3652059 \<Longrightarrow> valid_date (fromordinal n)"
  using toordinal_fromordinal [of n] year_fromordinal [of n] by (simp add: valid_date_def)

section \<open>Datetimes as text\<close>

definition valid_datetime :: "datetime \<Rightarrow> bool" where
  "valid_datetime t \<longleftrightarrow> 1 \<le> t div us_per_day + epoch_ordinal \<and> t div us_per_day + epoch_ordinal \<le> 3652059"

definition six_digits :: "nat \<Rightarrow> string" where
  "six_digits n = two_digits (n div 10000) @ four_digits (n mod 10000)"

definition time_text :: "nat \<Rightarrow> string" where
  "time_text us =
     (let s = us div 1000000 in
      two_digits (s div 3600) @ '':'' @ two_digits (s div 60 mod 60) @ '':'' @ two_digits (s mod 60)
        @ (if us mod 1000000 = 0 then [] else ''.'' @ six_digits (us mod 1000000)))"

definition datetime_isoformat :: "datetime \<Rightarrow> string" where
  "datetime_isoformat t = isoformat (date_of t) @ ''T'' @ time_text (nat (t mod us_per_day))"

definition parse_time :: "string \<Rightarrow> nat option" where
  "parse_time s =
     (case parse_digits 2 s of None \<Rightarrow> None
      | Some (h, r1) \<Rightarrow>
        if \<not> starts_with '':'' r1 then None else
        (case parse_digits 2 (drop 1 r1) of None \<Rightarrow> None
         | Some (m, r2) \<Rightarrow>
           if \<not> starts_with '':'' r2 then None else
           (case parse_digits 2 (drop 1 r2) of None \<Rightarrow> None
            | Some (sec, r3) \<Rightarrow>
              if \<not> (h < 24 \<and> m < 60 \<and> sec < 60) then None
              else if r3 = [] then Some (((h * 60 + m) * 60 + sec) * 1000000)
              else if \<not> starts_with ''.'' r3 then None
              else (case parse_digits 6 (drop 1 r3) of
                      Some (us, []) \<Rightarrow> Some (((h * 60 + m) * 60 + sec) * 1000000 + us)
                    | _ \<Rightarrow> None))))"

definition parse_stamp :: "string \<Rightarrow> datetime option" where
  "parse_stamp s =
     (case fromisoformat (take 10 s) of None \<Rightarrow> None
      | Some d \<Rightarrow>
        if \<not> starts_with ''T'' (drop 10 s) then None
        else (case parse_time (drop 11 s) of None \<Rightarrow> None
              | Some us \<Rightarrow> Some (midnight d + int us)))"

lemma nat_of_digits_append:
  "nat_of_digits (s @ t) = nat_of_digits s * 10 ^ length t + nat_of_digits t"
proof (induction t rule: rev_induct)
  case Nil
  then show ?case by (simp add: nat_of_digits_def)
next
  case (snoc c t)
  have step: "nat_of_digits (u @ [c]) = nat_of_digits u * 10 + digit_val c" for u
    by (simp add: nat_of_digits_def)
  have "nat_of_digits (s @ t @ [c]) = nat_of_digits (s @ t) * 10 + digit_val c"
    using step [of "s @ t"] by simp
  then show ?case by (simp add: step snoc.IH algebra_simps)
qed

lemma six_digits_props:
  assumes "n < 1000000"
  shows "length (six_digits n) = 6" "list_all is_digit (six_digits n)" "nat_of_digits (six_digits n) = n"
proof -
  have "n div 10000 < 100" "n mod 10000 < 10000" using assms by simp_all
  then show "length (six_digits n) = 6" "list_all is_digit (six_digits n)" "nat_of_digits (six_digits n) = n"
    by (simp_all add: six_digits_def two_digits_props four_digits_props nat_of_digits_append)
qed

lemma parse_time_text:
  assumes "us < 86400000000"
  shows "parse_time (time_text us) = Some us"
proof -
  define s where "s = us div 1000000"
  have s: "s < 86400" using assms by (simp add: s_def)
  then have b: "s div 3600 < 100" "s div 60 mod 60 < 100" "s mod 60 < 100" "s div 3600 < 24"
    "s div 60 mod 60 < 60" "s mod 60 < 60" "us mod 1000000 < 1000000" by simp_all
  have total: "((s div 3600 * 60 + s div 60 mod 60) * 60 + s mod 60) = s"
  proof -
    have "s div 3600 = s div 60 div 60" by (simp add: div_mult2_eq [of s 60 60, simplified])
    then have "s div 3600 * 60 + s div 60 mod 60 = s div 60" by simp
    then show ?thesis by simp
  qed
  have us: "s * 1000000 + us mod 1000000 = us" by (simp add: s_def)
  have two: "parse_digits 2 (two_digits k @ r) = Some (k, r)" if "k < 100" for k r
    using parse_digits_append [of "two_digits k" 2 r] two_digits_props [OF that] by simp
  have six: "parse_digits 6 (six_digits (us mod 1000000)) = Some (us mod 1000000, [])"
    using six_digits_props [OF b(7)] by (intro parse_digits_exact [THEN trans]) simp_all
  show ?thesis
    using b(4-6) total us
    by (simp add: parse_time_def time_text_def Let_def s_def [symmetric] two [OF b(1)] two [OF b(2)]
        two [OF b(3)] two [OF b(3), of "[]", simplified] six starts_with_def)
qed

lemma parse_stamp_isoformat [simp]:
  assumes "valid_datetime t"
  shows "parse_stamp (datetime_isoformat t) = Some t"
proof -
  let ?n = "nat (t div us_per_day + epoch_ordinal)"
  have n: "1 \<le> ?n" "?n \<le> 3652059" using assms by (auto simp: valid_datetime_def le_nat_iff nat_le_iff)
  have valid: "valid_date (date_of t)" using fromordinal_valid [OF n] by (simp add: date_of_def)
  have "int (toordinal (date_of t)) = t div us_per_day + epoch_ordinal"
    using toordinal_fromordinal(1) [OF n(1)] assms by (simp add: date_of_def valid_datetime_def)
  then have mid: "midnight (date_of t) = t div us_per_day * us_per_day" by (simp add: midnight_def)
  have r: "0 \<le> t mod us_per_day" "t mod us_per_day < 86400000000" by (simp_all add: us_per_day_def)
  then have "parse_time (time_text (nat (t mod us_per_day))) = Some (nat (t mod us_per_day))"
    by (intro parse_time_text) simp
  then show ?thesis
    using r(1) fromisoformat_isoformat [OF valid]
    by (simp add: parse_stamp_def datetime_isoformat_def mid starts_with_def)
qed

lemma datetime_isoformat_inj:
  "valid_datetime t \<Longrightarrow> valid_datetime u \<Longrightarrow> datetime_isoformat t = datetime_isoformat u \<longleftrightarrow> t = u"
  using parse_stamp_isoformat by fastforce

end
