(* ===== verification/Codec.thy ===== *)
theory Codec
  imports PullCycle PyClock PyValue
begin

text \<open>
  \<open>core/sync_delivery.py\<close>, the persisted form of a cycle: \<open>_encode\<close> and \<open>_decode\<close> between
  Python objects and JSON, \<open>delivery_payload\<close>, and the reconstruction
  \<open>PullCycleState(**decoded)\<close>.  The locale \<open>codec\<close> states what an encoder and a decoder of
  one type promise each other; codecs of sets and dictionaries are built from codecs of their
  elements, and the model's own readers and writers interpret it.
\<close>

section \<open>Encoding\<close>

text \<open>The Python objects a cycle is made of.  \<open>OAtom\<close> is a value that \<open>_encode\<close> returns as it
  is; a set is given by the order of its iteration.\<close>

datatype pyobj =
    OAtom pyval
  | OSource collection_source
  | ODatetime datetime
  | OSet "pyobj list"
  | OTuple "pyobj list"
  | OMap "(pyobj \<times> pyobj) list"

fun encode :: "pyobj \<Rightarrow> pyval" where
  "encode (OAtom v) = v"
| "encode (OSource c) = VDict [(''source'', VStr (source_value c))]"
| "encode (ODatetime t) = VDict [(''datetime'', VStr (datetime_isoformat t))]"
| "encode (OSet xs) = VDict [(''set'', VList (map encode xs))]"
| "encode (OTuple xs) = VDict [(''tuple'', VList (map encode xs))]"
| "encode (OMap kvs) = VDict [(''map'', VList (map (\<lambda>(k, v). VList [encode k, encode v]) kvs))]"

section \<open>Decoding\<close>

definition list_of :: "pyval \<Rightarrow> pyval list result" where
  "list_of v = (case v of VList xs \<Rightarrow> Inr xs | _ \<Rightarrow> Inl TypeError)"

lemma list_of_Inr [simp]: "list_of v = Inr xs \<longleftrightarrow> v = VList xs"
  by (cases v) (simp_all add: list_of_def)

definition decode_source :: "pyval \<Rightarrow> pyobj result" where
  "decode_source v =
     (case v of VStr s \<Rightarrow> (case source_of_value s of None \<Rightarrow> Inl ValueError | Some c \<Rightarrow> Inr (OSource c))
      | _ \<Rightarrow> Inl ValueError)"

definition decode_datetime :: "pyval \<Rightarrow> pyobj result" where
  "decode_datetime v =
     (case v of VStr s \<Rightarrow> (case parse_stamp s of None \<Rightarrow> Inl ValueError | Some t \<Rightarrow> Inr (ODatetime t))
      | _ \<Rightarrow> Inl TypeError)"

lemma size_map_of:
  "map_of d k = Some v \<Longrightarrow> size v < Suc (size_list (size_prod (\<lambda>_. 0) size) d)"
  by (induction d) (auto split: if_splits)

lemma size_in_list: "x \<in> set xs \<Longrightarrow> size x < Suc (size_list size xs)"
  by (induction xs) auto

function decode :: "pyval \<Rightarrow> pyobj result" where
  "decode v =
     (case v of
        VDict d \<Rightarrow>
          (case map_of d ''source'' of Some s \<Rightarrow> decode_source s | None \<Rightarrow>
           (case map_of d ''datetime'' of Some t \<Rightarrow> decode_datetime t | None \<Rightarrow>
            (case map_of d ''set'' of
               Some (VList xs) \<Rightarrow> and_then (map_result decode xs) (\<lambda>ys. Inr (OSet (first_seen ys)))
             | Some _ \<Rightarrow> Inl TypeError
             | None \<Rightarrow>
               (case map_of d ''tuple'' of
                  Some (VList xs) \<Rightarrow> and_then (map_result decode xs) (\<lambda>ys. Inr (OTuple ys))
                | Some _ \<Rightarrow> Inl TypeError
                | None \<Rightarrow>
                  (case map_of d ''map'' of
                     Some (VList xs) \<Rightarrow>
                       and_then (map_result (\<lambda>p. case p of
                           VList [k, v] \<Rightarrow> and_then (decode k) (\<lambda>k'. and_then (decode v) (\<lambda>v'. Inr (k', v')))
                         | _ \<Rightarrow> Inl ValueError) xs)
                       (\<lambda>kvs. Inr (OMap (foldl (\<lambda>m (k, v). dict_set k v m) [] kvs)))
                   | Some _ \<Rightarrow> Inl TypeError
                   | None \<Rightarrow> Inl KeyError)))))
      | _ \<Rightarrow> Inr (OAtom v))"
  by pat_completeness auto

termination
proof (relation "measure size", goal_cases)
  case 1
  then show ?case by simp
qed (auto dest!: size_map_of size_in_list)

declare decode.simps [simp del]

text \<open>What \<open>_encode\<close> can represent: no bare dictionary, distinct members and keys, datetimes
  of the years 1 to 9999.\<close>

fun wf_obj :: "pyobj \<Rightarrow> bool" where
  "wf_obj (OAtom v) \<longleftrightarrow> as_dict v = None"
| "wf_obj (OSource c) \<longleftrightarrow> True"
| "wf_obj (ODatetime t) \<longleftrightarrow> valid_datetime t"
| "wf_obj (OSet xs) \<longleftrightarrow> distinct xs \<and> list_all wf_obj xs"
| "wf_obj (OTuple xs) \<longleftrightarrow> list_all wf_obj xs"
| "wf_obj (OMap kvs) \<longleftrightarrow> distinct (map fst kvs) \<and> list_all (\<lambda>(k, v). wf_obj k \<and> wf_obj v) kvs"

lemma first_seen_distinct [simp]: "distinct xs \<Longrightarrow> first_seen xs = xs"
  by (simp add: first_seen_def distinct_remdups_id)

lemma dict_set_new: "k \<notin> fst ` set m \<Longrightarrow> dict_set k v m = m @ [(k, v)]"
  by (induction m) auto

lemma foldl_dict_set_distinct:
  "distinct (map fst (m @ kvs)) \<Longrightarrow> foldl (\<lambda>m (k, v). dict_set k v m) m kvs = m @ kvs"
proof (induction kvs arbitrary: m)
  case Nil
  then show ?case by simp
next
  case (Cons p kvs)
  obtain k v where p: "p = (k, v)" by (cases p)
  have "dict_set k v m = m @ [(k, v)]" using Cons.prems by (intro dict_set_new) (auto simp: p)
  with Cons show ?case by (simp add: p)
qed

lemma decode_encode_obj: "wf_obj x \<Longrightarrow> decode (encode x) = Inr x"
proof (induction x)
  case (OAtom v)
  then show ?case by (cases v) (simp_all add: decode.simps)
next
  case (OSource c)
  then show ?case by (simp add: decode.simps decode_source_def)
next
  case (ODatetime t)
  then show ?case by (simp add: decode.simps [of "VDict _"] decode_datetime_def)
next
  case (OSet xs)
  have "map_result decode (map encode xs) = Inr xs"
    using OSet by (intro map_result_map_Inr) (auto simp: list_all_iff)
  with OSet show ?case by (simp add: decode.simps [of "VDict _"])
next
  case (OTuple xs)
  have "map_result decode (map encode xs) = Inr xs"
    using OTuple by (intro map_result_map_Inr) (auto simp: list_all_iff)
  then show ?case by (simp add: decode.simps [of "VDict _"])
next
  case (OMap kvs)
  have items: "decode (encode k) = Inr k \<and> decode (encode v) = Inr v" if "(k, v) \<in> set kvs" for k v
    using OMap.IH(1) [OF that, of k] OMap.IH(2) [OF that, of v] OMap.prems that
    by (auto simp: list_all_iff)
  have "map_result (\<lambda>p. case p of
        VList [k, v] \<Rightarrow> and_then (decode k) (\<lambda>k'. and_then (decode v) (\<lambda>v'. Inr (k', v')))
      | _ \<Rightarrow> Inl ValueError) (map (\<lambda>(k, v). VList [encode k, encode v]) kvs) = Inr kvs"
    using items by (intro map_result_map_Inr) auto
  with OMap.prems show ?case
    by (simp add: decode.simps [of "VDict _"] foldl_dict_set_distinct [of "[]"])
qed

text \<open>Decoding what \<open>_encode\<close> produced gives the object back, for every object built from
  plain values, sources, datetimes, sets, tuples and dictionaries.\<close>

lemma decode_encode:
  assumes "wf_obj x"
  shows "decode (encode x) = Inr x"
  by (rule decode_encode_obj [OF assms])

lemma decode_encode_witness:
  "decode (encode (OMap [(OAtom (VInt 7), OTuple [OSet [OSource Trakt], ODatetime 0])])) =
   Inr (OMap [(OAtom (VInt 7), OTuple [OSet [OSource Trakt], ODatetime 0])])"
  by (rule decode_encode) (simp add: valid_datetime_def us_per_day_def epoch_ordinal_def)

section \<open>Codecs of typed values\<close>

definition write_set :: "('a :: linorder \<Rightarrow> pyobj) \<Rightarrow> 'a set \<Rightarrow> pyobj" where
  "write_set w S = OSet (map w (sorted_list_of_set S))"

definition read_set :: "(pyobj \<Rightarrow> 'a option) \<Rightarrow> pyobj \<Rightarrow> 'a set option" where
  "read_set r ob = (case ob of OSet xs \<Rightarrow> map_option set (those (map r xs)) | _ \<Rightarrow> None)"

definition write_map :: "('k :: linorder \<Rightarrow> pyobj) \<Rightarrow> ('v \<Rightarrow> pyobj) \<Rightarrow> ('k \<rightharpoonup> 'v) \<Rightarrow> pyobj" where
  "write_map wk wv m = OMap (map (\<lambda>(k, v). (wk k, wv v)) (map_items m))"

definition read_item :: "(pyobj \<Rightarrow> 'k option) \<Rightarrow> (pyobj \<Rightarrow> 'v option) \<Rightarrow> pyobj \<times> pyobj \<Rightarrow> ('k \<times> 'v) option" where
  "read_item rk rv = (\<lambda>(k, v). case (rk k, rv v) of (Some a, Some b) \<Rightarrow> Some (a, b) | _ \<Rightarrow> None)"

definition read_map :: "(pyobj \<Rightarrow> 'k option) \<Rightarrow> (pyobj \<Rightarrow> 'v option) \<Rightarrow> pyobj \<Rightarrow> ('k \<rightharpoonup> 'v) option" where
  "read_map rk rv ob =
     (case ob of OMap kvs \<Rightarrow> map_option map_of (those (map (read_item rk rv) kvs)) | _ \<Rightarrow> None)"

lemma those_map: "(\<And>x. x \<in> set xs \<Longrightarrow> f x = Some (g x)) \<Longrightarrow> those (map f xs) = Some (map g xs)"
  by (induction xs) auto

locale codec =
  fixes w :: "'a \<Rightarrow> pyobj" and r :: "pyobj \<Rightarrow> 'a option" and ok :: "'a \<Rightarrow> bool"
  assumes read_write: "ok x \<Longrightarrow> r (w x) = Some x"
    and wf_write: "ok x \<Longrightarrow> wf_obj (w x)"
begin

lemma write_inj:
  assumes "ok x" "ok y" "w x = w y"
  shows "x = y"
proof -
  have "Some x = r (w x)" by (rule read_write [OF assms(1), symmetric])
  also have "\<dots> = r (w y)" by (simp only: assms(3))
  also have "\<dots> = Some y" by (rule read_write [OF assms(2)])
  finally show ?thesis by simp
qed

lemma stored: "ok x \<Longrightarrow> decode (encode (w x)) = Inr (w x)"
  by (simp add: decode_encode_obj wf_write)

end

definition storable_map :: "('k \<Rightarrow> bool) \<Rightarrow> ('v \<Rightarrow> bool) \<Rightarrow> ('k \<rightharpoonup> 'v) \<Rightarrow> bool" where
  "storable_map okk okv m \<longleftrightarrow> finite (dom m) \<and> (\<forall>k v. m k = Some v \<longrightarrow> okk k \<and> okv v)"

text \<open>A codec of keys lists sets; with a codec of values it stores dictionaries.\<close>

locale key_codec = codec w r ok
  for w :: "'a :: linorder \<Rightarrow> pyobj" and r :: "pyobj \<Rightarrow> 'a option" and ok :: "'a \<Rightarrow> bool"
begin

lemma those_read: "\<forall>x \<in> set xs. ok x \<Longrightarrow> those (map r (map w xs)) = Some xs"
  by (induction xs) (simp_all add: read_write)

lemma read_write_set: "finite S \<and> (\<forall>x \<in> S. ok x) \<Longrightarrow> read_set r (write_set w S) = Some S"
  using those_read [of "sorted_list_of_set S"] by (simp add: read_set_def write_set_def del: map_map)

lemma wf_write_set: "finite S \<and> (\<forall>x \<in> S. ok x) \<Longrightarrow> wf_obj (write_set w S)"
  by (auto simp: write_set_def distinct_map list_all_iff inj_on_def wf_write intro: write_inj)

end

sublocale key_codec \<subseteq> sets: codec "write_set w" "read_set r" "\<lambda>S. finite S \<and> (\<forall>x \<in> S. ok x)"
  by unfold_locales (fact read_write_set, fact wf_write_set)

locale dict_codec = keys: key_codec wk rk okk + vals: codec wv rv okv
  for wk :: "'k :: linorder \<Rightarrow> pyobj" and rk :: "pyobj \<Rightarrow> 'k option" and okk :: "'k \<Rightarrow> bool"
    and wv :: "'v \<Rightarrow> pyobj" and rv :: "pyobj \<Rightarrow> 'v option" and okv :: "'v \<Rightarrow> bool"
begin

lemma read_items:
  "\<forall>(k, v) \<in> set kvs. okk k \<and> okv v \<Longrightarrow>
   those (map (read_item rk rv) (map (\<lambda>(k, v). (wk k, wv v)) kvs)) = Some kvs"
  by (induction kvs) (auto simp: read_item_def keys.read_write vals.read_write)

lemma read_write_map: "storable_map okk okv m \<Longrightarrow> read_map rk rv (write_map wk wv m) = Some m"
proof -
  assume ok: "storable_map okk okv m"
  then have "\<forall>(k, v) \<in> set (map_items m). okk k \<and> okv v"
    by (auto simp: storable_map_def set_map_items)
  from read_items [OF this] ok show "read_map rk rv (write_map wk wv m) = Some m"
    by (simp add: storable_map_def read_map_def write_map_def del: map_map)
qed

lemma wf_write_map: "storable_map okk okv m \<Longrightarrow> wf_obj (write_map wk wv m)"
  by (auto simp: storable_map_def write_map_def list_all_iff set_map_items keys.wf_write vals.wf_write
      distinct_map comp_def split_beta inj_on_def map_items_def intro: keys.write_inj)

end

sublocale dict_codec \<subseteq> dicts: codec "write_map wk wv" "read_map rk rv" "storable_map okk okv"
  by unfold_locales (fact read_write_map, fact wf_write_map)

end
