(* ===== verification/CycleFlush.thy ===== *)
theory CycleFlush
  imports PullCycle
begin

text \<open>
  \<open>core/sync_delivery_targets.py\<close> and \<open>core/scheduler.py\<close> \<open>_flush_pull_cycle\<close>: what a
  finished cycle delivers, and to whom.  A flush is the list of calls it makes, in order, each
  with the arguments the code passes; \<open>run_calls\<close> says which of them are made when some fail.
  The context variable \<open>_destination\<close> is the argument \<open>destination\<close>.
\<close>

section \<open>Destinations\<close>

type_synonym destination = "string option"

definition connection_matches :: "destination \<Rightarrow> int \<Rightarrow> bool" where
  "connection_matches destination cid \<longleftrightarrow>
     (case destination of None \<Rightarrow> True | Some t \<Rightarrow> t = connection_key cid)"

text \<open>\<open>connection_clause\<close>: the condition it adds to a query, as a predicate on the column.\<close>

definition connection_clause :: "destination \<Rightarrow> (int \<Rightarrow> bool) result" where
  "connection_clause destination =
     (case destination of
        None \<Rightarrow> Inr (\<lambda>_. True)
      | Some t \<Rightarrow>
          if is_connection_source t
          then (case int_of_str (drop 11 t) of None \<Rightarrow> Inl ValueError | Some n \<Rightarrow> Inr (\<lambda>c. c = n))
          else Inr (\<lambda>_. False))"

definition cloud_matches :: "destination \<Rightarrow> collection_source \<Rightarrow> bool" where
  "cloud_matches destination provider \<longleftrightarrow>
     (case destination of None \<Rightarrow> True | Some t \<Rightarrow> t = source_value provider)"

definition dispatch_queues :: "destination \<Rightarrow> bool" where
  "dispatch_queues destination \<longleftrightarrow> destination = None \<or> destination = Some ''queues''"

definition queue_handoff :: "destination \<Rightarrow> bool" where
  "queue_handoff destination \<longleftrightarrow> destination = Some ''queues''"

lemma connection_clause_matches:
  "connection_clause (Some (connection_key t)) = Inr P \<Longrightarrow> P c \<longleftrightarrow> connection_matches (Some (connection_key t)) c"
  by (auto simp: connection_clause_def connection_matches_def)

section \<open>Bringing the cycle up to date\<close>

text \<open>The present score of every rating the cycle mentions.\<close>

definition current_ratings :: "db \<Rightarrow> pull_cycle \<Rightarrow> rating_key \<rightharpoonup> rat option" where
  "current_ratings db st =
     (let titles = fst ` (dom (pc_new_ratings st) \<union> pc_removed_ratings st);
          rows = filter (\<lambda>r. r_user_id r = pc_user_id st \<and> r_media_id r \<in> titles \<and> r_episode_order r = None)
            (rating_table db)
      in map_of (rev (map (\<lambda>r. ((r_media_id r, r_season_number r), r_rating r)) rows)))"

definition keep_current :: "(rating_key \<rightharpoonup> rat option) \<Rightarrow> rating_changes \<Rightarrow> rating_changes" where
  "keep_current current ratings =
     (\<lambda>k. case ratings k of None \<Rightarrow> None
          | Some score \<Rightarrow> if current k = Some (Some score) then Some score else None)"

definition collected_ids :: "db \<Rightarrow> int \<Rightarrow> int set" where
  "collected_ids db user = cl_media_id ` {c \<in> set (collection_table db). cl_user_id c = user}"

definition watched_ids :: "db \<Rightarrow> int \<Rightarrow> int set" where
  "watched_ids db user =
     we_media_id ` {e \<in> set (watch_event_table db). we_user_id e = user \<and> we_completed e}"

definition refresh_cycle :: "db \<Rightarrow> pull_cycle \<Rightarrow> pull_cycle" where
  "refresh_cycle db st =
     (let current = current_ratings db st;
          changed = pc_new_collected_ids st \<union> pc_removed_collected_ids st;
          present = collected_ids db (pc_user_id st)
      in st\<lparr>pc_new_ratings := keep_current current (pc_new_ratings st),
            pc_removed_ratings := pc_removed_ratings st - dom current,
            pc_new_collected_ids := changed \<inter> present,
            pc_removed_collected_ids := changed - present\<rparr>)"

section \<open>Routing\<close>

type_synonym exclusions = "int set \<times> collection_source set"

text \<open>The accounts and providers a rating came from; the cycle's own exclusions when no source
  was recorded.\<close>

fun parse_rating_source :: "string \<Rightarrow> (int + collection_source) result" where
  "parse_rating_source s =
     (if is_connection_source s then (case connection_id_of s of Inl e \<Rightarrow> Inl e | Inr n \<Rightarrow> Inr (Inl n))
      else (case source_of_value s of None \<Rightarrow> Inl ValueError | Some c \<Rightarrow> Inr (Inr c)))"

declare parse_rating_source.simps [simp del]

definition rating_exclusions :: "pull_cycle \<Rightarrow> rating_key \<Rightarrow> exclusions result" where
  "rating_exclusions st key =
     (case pc_rating_sources st key of
        None \<Rightarrow> Inr (pc_excluded_connection_ids st, pc_excluded_cloud_sources st)
      | Some sources \<Rightarrow>
          and_then (map_result parse_rating_source (sorted_list_of_set sources)) (\<lambda>parsed.
            Inr ({c. Inl c \<in> set parsed}, {p. Inr p \<in> set parsed})))"

fun rating_groups ::
  "pull_cycle \<Rightarrow> (rating_key \<times> rat) list \<Rightarrow> (exclusions \<times> rating_changes) list \<Rightarrow>
   (exclusions \<times> rating_changes) list result" where
  "rating_groups st [] groups = Inr groups"
| "rating_groups st ((key, score) # rest) groups =
     and_then (rating_exclusions st key) (\<lambda>ex.
       rating_groups st rest (dict_alter ex Map.empty (\<lambda>m. m(key \<mapsto> score)) groups))"

definition watched_groups :: "pull_cycle \<Rightarrow> int set \<Rightarrow> (exclusions \<times> int list) list" where
  "watched_groups st ids =
     group_by (\<lambda>m. case pc_watched_exclusions st m of None \<Rightarrow> ({}, {}) | Some ex \<Rightarrow> ex)
       (sorted_list_of_set ids)"

definition removal_groups :: "pull_cycle \<Rightarrow> int set \<Rightarrow> (int set \<times> int list) list" where
  "removal_groups st ids =
     group_by (\<lambda>m. case pc_removed_watch_exclusions st m of None \<Rightarrow> {} | Some ex \<Rightarrow> ex)
       (sorted_list_of_set ids)"

section \<open>The calls of a flush\<close>

datatype flush_call =
    QueueWatchIntents "int set" "int set"
  | DispatchWatchIntents
  | DispatchLibraryDeliveries
  | DispatchStreamActions
  | DispatchCloudActions
  | FanOut "int set" rating_changes "rating_key set" "int set" "int set" exclusions
  | PushUnwatched "int list" "int set"
  | FanOutLibrary "int set" "int set" "string option" "int \<rightharpoonup> datetime" "int \<rightharpoonup> int set" "int \<rightharpoonup> bool"
  | PushBack int "int \<rightharpoonup> string"
  | Abort py_error

definition no_ratings :: rating_changes where
  "no_ratings = Map.empty"

definition watch_calls :: "destination \<Rightarrow> pull_cycle \<Rightarrow> int set \<Rightarrow> flush_call list" where
  "watch_calls destination st ids =
     (let groups = watched_groups st ids in
      map (\<lambda>(ex, ms). QueueWatchIntents (set ms) (fst ex)) groups
      @ (if groups \<noteq> [] \<and> dispatch_queues destination then [DispatchWatchIntents] else [])
      @ map (\<lambda>(ex, ms). FanOut (set ms) no_ratings {} {} {} ex) groups)"

definition removal_calls :: "destination \<Rightarrow> pull_cycle \<Rightarrow> int set \<Rightarrow> flush_call list" where
  "removal_calls destination st ids =
     (let groups = removal_groups st ids in
      map (\<lambda>(ex, ms). QueueWatchIntents (set ms) ex) groups
      @ (if groups \<noteq> [] \<and> dispatch_queues destination then [DispatchWatchIntents] else [])
      @ map (\<lambda>(ex, ms). PushUnwatched ms ex) groups)"

definition library_calls :: "string option \<Rightarrow> pull_cycle \<Rightarrow> flush_call list" where
  "library_calls tmdb_key st =
     (if pc_library_new_ids st = {} \<and> pc_library_removed_ids st = {} then []
      else [FanOutLibrary (pc_library_new_ids st) (pc_library_removed_ids st) tmdb_key
              (pc_library_observed_at_by_media st) (pc_library_source_ids_by_media st) (pc_library_desired st)])"

definition rating_calls :: "pull_cycle \<Rightarrow> flush_call list" where
  "rating_calls st =
     (case rating_groups st (map_items (pc_new_ratings st)) [] of
        Inl e \<Rightarrow> [Abort e]
      | Inr groups \<Rightarrow> map (\<lambda>(ex, m). FanOut {} m {} {} {} ex) groups)"

definition rest_calls :: "destination \<Rightarrow> pull_cycle \<Rightarrow> flush_call list" where
  "rest_calls destination st =
     FanOut {} no_ratings (pc_removed_ratings st) (pc_new_collected_ids st) (pc_removed_collected_ids st)
       (pc_excluded_connection_ids st, pc_excluded_cloud_sources st)
     # (if dispatch_queues destination then [DispatchStreamActions, DispatchCloudActions] else [])"

text \<open>A push back to the account the plays came from needs the account to be unchanged.\<close>

definition push_back_valid :: "db \<Rightarrow> destination \<Rightarrow> pull_cycle \<Rightarrow> int \<Rightarrow> bool" where
  "push_back_valid db destination st cid \<longleftrightarrow>
     connection_matches destination cid \<and>
     (case find (\<lambda>c. c_id c = cid) (connection_table db) of
        None \<Rightarrow> False
      | Some c \<Rightarrow> c_user_id c = pc_user_id st \<and> pc_connection_versions st cid = Some (c_identity_version c))"

definition push_back_calls :: "db \<Rightarrow> destination \<Rightarrow> pull_cycle \<Rightarrow> flush_call list" where
  "push_back_calls db destination st =
     map (\<lambda>(cid, items). PushBack cid items)
       (filter (\<lambda>(cid, _). push_back_valid db destination st cid) (map_items (pc_push_back st)))"

definition flush_pull_cycle :: "db \<Rightarrow> destination \<Rightarrow> string option \<Rightarrow> pull_cycle \<Rightarrow> flush_call list" where
  "flush_pull_cycle db destination tmdb_key st0 =
     (if queue_handoff destination
      then [DispatchWatchIntents, DispatchLibraryDeliveries, DispatchStreamActions, DispatchCloudActions]
      else
        let st = refresh_cycle db st0;
            watched = watched_ids db (pc_user_id st);
            rating = rating_calls st
        in watch_calls destination st (pc_new_watched_ids st \<inter> watched)
           @ removal_calls destination st (dom (pc_removed_watch_exclusions st) - watched)
           @ library_calls tmdb_key st @ rating
           @ rest_calls destination st @ push_back_calls db destination st)"

text \<open>The failures of \<open>fan_out_changes\<close> and of a push back are collected and raised at the end;
  any other failure ends the flush.\<close>

fun collected :: "flush_call \<Rightarrow> bool" where
  "collected (FanOut w r rr n m ex) = True"
| "collected (PushBack c items) = True"
| "collected _ = False"

fun run_calls :: "(flush_call \<Rightarrow> bool) \<Rightarrow> flush_call list \<Rightarrow> flush_call list \<times> bool" where
  "run_calls succeeds [] = ([], True)"
| "run_calls succeeds (c # cs) =
     (if \<not> succeeds c \<and> \<not> collected c then ([c], False)
      else let (made, ok) = run_calls succeeds cs in (c # made, succeeds c \<and> ok))"

section \<open>A retry never replays an old rating\<close>

lemma rating_groups_sound:
  assumes "rating_groups st items groups = Inr groups'" "(ex, m) \<in> set groups'" "m k = Some x"
    "distinct (map fst groups)"
  shows "(k, x) \<in> set items \<or> (\<exists>ex' m'. (ex', m') \<in> set groups \<and> m' k = Some x)"
  using assms
proof (induction items arbitrary: groups)
  case Nil
  then have "(ex, m) \<in> set groups \<and> m k = Some x" by simp
  then show ?case by blast
next
  case (Cons item items)
  obtain key score where item: "item = (key, score)" by (cases item)
  from Cons.prems(1) obtain ex' where
    rest: "rating_groups st items (dict_alter ex' Map.empty (\<lambda>m. m(key \<mapsto> score)) groups) = Inr groups'"
    by (auto simp: item and_then_Inr_iff)
  let ?g = "dict_alter ex' Map.empty (\<lambda>m. m(key \<mapsto> score)) groups"
  have d: "distinct (map fst ?g)"
    using Cons.prems(4) by (simp add: dict_alter_def distinct_dict_set del: distinct_map)
  from Cons.IH [OF rest Cons.prems(2,3) d] show ?case
  proof
    assume "\<exists>ex' m'. (ex', m') \<in> set ?g \<and> m' k = Some x"
    then obtain ex2 m2 where m2: "(ex2, m2) \<in> set ?g" "m2 k = Some x" by auto
    then have "map_of ?g ex2 = Some m2" using d by simp
    then have "m2 = (dict_get groups ex' Map.empty)(key \<mapsto> score) \<or> map_of groups ex2 = Some m2"
      by (auto simp: map_of_dict_alter split: if_splits)
    then show ?thesis
    proof
      assume "m2 = (dict_get groups ex' Map.empty)(key \<mapsto> score)"
      with m2(2) have "(k = key \<and> x = score) \<or> dict_get groups ex' Map.empty k = Some x"
        by (auto split: if_splits)
      then show ?thesis
      proof
        assume "k = key \<and> x = score"
        then show ?thesis by (simp add: item)
      next
        assume "dict_get groups ex' Map.empty k = Some x"
        then obtain m' where "map_of groups ex' = Some m'" "m' k = Some x"
          by (auto simp: dict_get_def split: option.splits)
        then show ?thesis by (blast dest: map_of_SomeD)
      qed
    next
      assume "map_of groups ex2 = Some m2"
      with m2(2) show ?thesis by (blast dest: map_of_SomeD)
    qed
  qed (auto simp: item)
qed

lemma rating_calls_current:
  assumes "finite (dom (pc_new_ratings st))" "FanOut w m rr n c ex \<in> set (rating_calls st)" "m k = Some x"
  shows "pc_new_ratings st k = Some x"
proof -
  obtain groups where g: "rating_groups st (map_items (pc_new_ratings st)) [] = Inr groups"
    "(ex, m) \<in> set groups"
    using assms(2) by (auto simp: rating_calls_def split: sum.splits)
  have "(k, x) \<in> set (map_items (pc_new_ratings st))"
    using rating_groups_sound [OF g assms(3)] by simp
  with assms(1) show ?thesis by (simp add: set_map_items)
qed

lemma fan_out_of_flush:
  assumes "FanOut w m rr n c ex \<in> set (flush_pull_cycle db destination tmdb_key st)"
  shows "m = no_ratings \<or> FanOut w m rr n c ex \<in> set (rating_calls (refresh_cycle db st))"
  using assms
  by (auto simp: flush_pull_cycle_def Let_def watch_calls_def removal_calls_def library_calls_def
      rest_calls_def push_back_calls_def split: if_splits)

lemma finite_refresh: "finite (dom (pc_new_ratings st)) \<Longrightarrow> finite (dom (pc_new_ratings (refresh_cycle db st)))"
  by (rule finite_subset [of _ "dom (pc_new_ratings st)"])
    (auto simp: refresh_cycle_def Let_def keep_current_def split: option.splits if_splits)

lemma current_ratings_row:
  assumes "current_ratings db st k = Some v"
  shows "\<exists>r \<in> set (rating_table db). r_user_id r = pc_user_id st \<and> (r_media_id r, r_season_number r) = k
    \<and> r_episode_order r = None \<and> r_rating r = v"
  using map_of_SomeD [OF assms [unfolded current_ratings_def Let_def]] by auto

text \<open>Every score that any call of a flush sends is the score the user's rating row holds at
  that moment, so a retried or delayed delivery never replays a rating over a newer local edit.\<close>

lemma flush_sends_current_ratings:
  assumes "finite_cycle st"
    and "FanOut w m rr n c ex \<in> set (flush_pull_cycle db destination tmdb_key st)"
    and "m (mid, season) = Some score"
  shows "\<exists>r \<in> set (rating_table db). r_user_id r = pc_user_id st \<and> r_media_id r = mid \<and>
    r_season_number r = season \<and> r_episode_order r = None \<and> r_rating r = Some score"
proof -
  have "m \<noteq> no_ratings" using assms(3) by (auto simp: no_ratings_def)
  with fan_out_of_flush [OF assms(2)]
  have "FanOut w m rr n c ex \<in> set (rating_calls (refresh_cycle db st))" by simp
  moreover have "finite (dom (pc_new_ratings (refresh_cycle db st)))"
    using assms(1) by (intro finite_refresh) (simp add: finite_cycle_def)
  ultimately have "pc_new_ratings (refresh_cycle db st) (mid, season) = Some score"
    using rating_calls_current assms(3) by blast
  then have "current_ratings db st (mid, season) = Some (Some score)"
    by (auto simp: refresh_cycle_def Let_def keep_current_def split: option.splits if_splits)
  then show ?thesis using current_ratings_row by fastforce
qed

definition sample_rating :: rating where
  "sample_rating = \<lparr>r_id = 1, r_user_id = 1, r_media_id = 7, r_season_number = None,
     r_episode_order = None, r_rating = Some 8, r_review = None, r_rated_at = 0\<rparr>"

definition sample_rated_db :: db where
  "sample_rated_db = empty_db\<lparr>rating_table := [sample_rating]\<rparr>"

definition sample_rated_cycle :: pull_cycle where
  "sample_rated_cycle = (new_cycle 1)\<lparr>pc_new_ratings := [(7, None) \<mapsto> 8]\<rparr>"

lemma sample_current: "current_ratings sample_rated_db sample_rated_cycle = [(7, None) \<mapsto> Some 8]"
  by (simp add: current_ratings_def sample_rated_db_def sample_rated_cycle_def sample_rating_def
      new_cycle_def empty_db_def)

lemma sample_refresh: "pc_new_ratings (refresh_cycle sample_rated_db sample_rated_cycle) = [(7, None) \<mapsto> 8]"
proof -
  have "pc_new_ratings sample_rated_cycle = [(7, None) \<mapsto> 8]" by (simp add: sample_rated_cycle_def)
  then show ?thesis
    by (simp add: refresh_cycle_def Let_def sample_current keep_current_def fun_eq_iff)
qed

lemma sample_refresh_sources:
  "pc_rating_sources (refresh_cycle sample_rated_db sample_rated_cycle) = Map.empty"
  "pc_excluded_connection_ids (refresh_cycle sample_rated_db sample_rated_cycle) = {}"
  "pc_excluded_cloud_sources (refresh_cycle sample_rated_db sample_rated_cycle) = {}"
  by (simp_all add: refresh_cycle_def Let_def sample_rated_cycle_def new_cycle_def)

lemma sample_rating_calls:
  "rating_calls (refresh_cycle sample_rated_db sample_rated_cycle) = [FanOut {} [(7, None) \<mapsto> 8] {} {} {} ({}, {})]"
  by (simp add: rating_calls_def sample_refresh map_items_def rating_exclusions_def sample_refresh_sources
      and_then_def dict_alter_def)

lemma flush_sends_current_ratings_witness:
  "\<exists>r \<in> set (rating_table sample_rated_db). r_user_id r = 1 \<and> r_media_id r = 7 \<and>
     r_season_number r = None \<and> r_episode_order r = None \<and> r_rating r = Some 8"
proof -
  have "FanOut {} [(7, None) \<mapsto> 8] {} {} {} ({}, {}) \<in>
      set (flush_pull_cycle sample_rated_db None None sample_rated_cycle)"
    by (simp add: flush_pull_cycle_def queue_handoff_def Let_def sample_rating_calls)
  moreover have "finite_cycle sample_rated_cycle"
    by (simp add: finite_cycle_def sample_rated_cycle_def new_cycle_def)
  ultimately show ?thesis
    using flush_sends_current_ratings [of sample_rated_cycle "{}" "[(7, None) \<mapsto> 8]" "{}" "{}" "{}" "({}, {})"
        sample_rated_db None None 7 None 8]
    by (simp add: sample_rated_cycle_def new_cycle_def)
qed

section \<open>A watch goes to every account but its own\<close>

definition recorded_exclusions :: "pull_cycle \<Rightarrow> int \<Rightarrow> exclusions" where
  "recorded_exclusions st m = (case pc_watched_exclusions st m of None \<Rightarrow> ({}, {}) | Some ex \<Rightarrow> ex)"

lemma watched_groups_iff:
  "finite ids \<Longrightarrow> (ex, ms) \<in> set (watched_groups st ids) \<longleftrightarrow>
     ex \<in> recorded_exclusions st ` ids \<and> ms = filter (\<lambda>m. recorded_exclusions st m = ex) (sorted_list_of_set ids)"
  by (simp add: watched_groups_def in_group_by recorded_exclusions_def)

lemma refresh_watches [simp]:
  "pc_new_watched_ids (refresh_cycle db st) = pc_new_watched_ids st"
  "pc_watched_exclusions (refresh_cycle db st) = pc_watched_exclusions st"
  "pc_user_id (refresh_cycle db st) = pc_user_id st"
  "pc_removed_watch_exclusions (refresh_cycle db st) = pc_removed_watch_exclusions st"
  by (simp_all add: refresh_cycle_def Let_def)

lemma recorded_refresh [simp]: "recorded_exclusions (refresh_cycle db st) = recorded_exclusions st"
  by (simp add: recorded_exclusions_def fun_eq_iff)

lemma fan_out_watched_origin:
  assumes "FanOut ids r rr n c ex \<in> set (flush_pull_cycle db destination tmdb_key st)" "m \<in> ids"
  shows "\<exists>ms. (ex, ms) \<in> set (watched_groups (refresh_cycle db st)
      (pc_new_watched_ids st \<inter> watched_ids db (pc_user_id st))) \<and> ids = set ms"
  using assms
  by (auto simp: flush_pull_cycle_def Let_def watch_calls_def removal_calls_def library_calls_def
      rest_calls_def push_back_calls_def rating_calls_def split: if_splits sum.splits)

text \<open>A title that is newly watched, and still is when the cycle is flushed, is queued and
  fanned out with exactly the exclusions recorded for it: to every account and provider except the
  ones that reported it.  A title that is no longer watched is not sent at all.\<close>

lemma flush_routes_watches:
  assumes "finite_cycle st" "\<not> queue_handoff destination" "m \<in> pc_new_watched_ids st"
  shows "(m \<in> watched_ids db (pc_user_id st) \<longrightarrow>
      (\<exists>ids. m \<in> ids \<and>
         QueueWatchIntents ids (fst (recorded_exclusions st m)) \<in> set (flush_pull_cycle db destination tmdb_key st) \<and>
         FanOut ids no_ratings {} {} {} (recorded_exclusions st m) \<in> set (flush_pull_cycle db destination tmdb_key st))) \<and>
    (\<forall>ids r rr n c ex. FanOut ids r rr n c ex \<in> set (flush_pull_cycle db destination tmdb_key st) \<longrightarrow> m \<in> ids \<longrightarrow>
       ex = recorded_exclusions st m \<and> m \<in> watched_ids db (pc_user_id st))"
proof (intro conjI impI allI)
  let ?ids = "pc_new_watched_ids st \<inter> watched_ids db (pc_user_id st)"
  let ?ex = "recorded_exclusions st m"
  let ?ms = "filter (\<lambda>x. recorded_exclusions st x = ?ex) (sorted_list_of_set ?ids)"
  have fin: "finite ?ids" using assms(1) by (simp add: finite_cycle_def)
  show "\<exists>ids. m \<in> ids \<and> QueueWatchIntents ids (fst ?ex) \<in> set (flush_pull_cycle db destination tmdb_key st) \<and>
      FanOut ids no_ratings {} {} {} ?ex \<in> set (flush_pull_cycle db destination tmdb_key st)"
    if w: "m \<in> watched_ids db (pc_user_id st)"
  proof (intro exI [of _ "set ?ms"] conjI)
    have g: "(?ex, ?ms) \<in> set (watched_groups (refresh_cycle db st) ?ids)"
      using w assms(3) by (simp add: watched_groups_iff [OF fin])
    show "m \<in> set ?ms" using w assms(3) fin by simp
    have "QueueWatchIntents (set ?ms) (fst ?ex) \<in> set (watch_calls destination (refresh_cycle db st) ?ids)"
      using g by (force simp: watch_calls_def Let_def image_iff)
    then show "QueueWatchIntents (set ?ms) (fst ?ex) \<in> set (flush_pull_cycle db destination tmdb_key st)"
      using assms(2) by (simp add: flush_pull_cycle_def Let_def)
    have "FanOut (set ?ms) no_ratings {} {} {} ?ex \<in> set (watch_calls destination (refresh_cycle db st) ?ids)"
      using g by (force simp: watch_calls_def Let_def image_iff)
    then show "FanOut (set ?ms) no_ratings {} {} {} ?ex \<in> set (flush_pull_cycle db destination tmdb_key st)"
      using assms(2) by (simp add: flush_pull_cycle_def Let_def)
  qed
  fix ids r rr n c ex
  assume "FanOut ids r rr n c ex \<in> set (flush_pull_cycle db destination tmdb_key st)" "m \<in> ids"
  from fan_out_watched_origin [OF this] obtain ms where
    "(ex, ms) \<in> set (watched_groups (refresh_cycle db st) ?ids)" "m \<in> set ms"
    using \<open>m \<in> ids\<close> by auto
  then have "recorded_exclusions st m = ex \<and> m \<in> ?ids"
    by (auto simp: watched_groups_iff [OF fin] fin)
  then show "ex = ?ex" "m \<in> watched_ids db (pc_user_id st)" by auto
qed

definition sample_watch :: watch_event where
  "sample_watch = new_watch_event 1 1 10 (Some 0) True 0"

lemma flush_routes_watches_witness:
  "\<exists>ids. 10 \<in> ids \<and> QueueWatchIntents ids {4} \<in> set (flush_pull_cycle
     (empty_db\<lparr>watch_event_table := [sample_watch]\<rparr>) None None (accumulate (sample_fan_out (Some 4) {10}) (new_cycle 1)))"
proof -
  let ?st = "accumulate (sample_fan_out (Some 4) {10}) (new_cycle 1)"
  have "finite_cycle ?st"
    by (rule finite_accumulate) (simp_all add: finite_fan_out_def sample_fan_out_def)
  moreover have "recorded_exclusions ?st 10 = ({4}, {})" "10 \<in> pc_new_watched_ids ?st" "pc_user_id ?st = 1"
    by (simp_all add: recorded_exclusions_def accumulate_def sample_fan_out_def new_cycle_def alter_keys_def
        add_exclusion_def)
  moreover have "10 \<in> watched_ids (empty_db\<lparr>watch_event_table := [sample_watch]\<rparr>) 1"
    by (auto simp: watched_ids_def sample_watch_def new_watch_event_def intro!: image_eqI [of _ _ sample_watch])
  ultimately show ?thesis
    using flush_routes_watches [of ?st None 10 "empty_db\<lparr>watch_event_table := [sample_watch]\<rparr>" None]
    by (auto simp: queue_handoff_def)
qed

lemma run_calls_all: "snd (run_calls succeeds cs) \<longleftrightarrow> (\<forall>c \<in> set cs. succeeds c)"
  by (induction cs) (auto split: prod.splits)

lemma run_calls_made: "snd (run_calls succeeds cs) \<Longrightarrow> fst (run_calls succeeds cs) = cs"
  by (induction cs) (auto split: prod.splits if_splits)

lemma run_calls_prefix: "\<exists>rest. cs = fst (run_calls succeeds cs) @ rest"
  by (induction cs) (auto split: prod.splits)

end
