(* ===== verification/Gates.thy ===== *)
theory Gates
  imports Models
begin

text \<open>
  The gates every outbound write passes: \<open>require_stream_reconciliation\<close>
  (\<open>core/tracking_snapshot.py\<close>) with \<open>onboarding_pending\<close> (\<open>core/connection_imports.py\<close>)
  for media servers and streaming accounts, and \<open>core/cloud_reconciliation.py\<close> for Trakt,
  Simkl and MDBList.  Row locks have no effect on a single transaction and are not modelled;
  the context variable \<open>handoff_connection\<close> is the argument \<open>handoff\<close>.
\<close>

section \<open>Streaming accounts and media servers\<close>

definition stream_baseline_of :: "db \<Rightarrow> int \<Rightarrow> stream_baseline option" where
  "stream_baseline_of db cid = find (\<lambda>b. sb_connection_id b = cid) (stream_baseline_table db)"

definition baseline_snapshot :: "stream_baseline option \<Rightarrow> pydict" where
  "baseline_snapshot b = (case b of None \<Rightarrow> [] | Some x \<Rightarrow> sb_snapshot x)"

definition onboarding_pending ::
  "db \<Rightarrow> int option \<Rightarrow> connection \<Rightarrow> bool \<Rightarrow> bool \<Rightarrow> bool" where
  "onboarding_pending db handoff conn require_snapshot require_approval \<longleftrightarrow>
     (if c_type conn \<notin> {''stremio'', ''nuvio''} then False
      else
        let baseline = stream_baseline_of db (c_id conn); snapshot = baseline_snapshot baseline in
        if require_snapshot \<and> c_sync_watched conn \<and> baseline = None then True
        else if require_approval \<and> (case baseline of None \<Rightarrow> True | Some b \<Rightarrow> \<not> sb_approved b) then True
        else truthy (get snapshot ''import_session_id'')
          \<or> (truthy (get snapshot ''import_handoff'') \<and> handoff \<noteq> Some (c_id conn)))"

definition release_handoff :: "int option \<Rightarrow> string \<Rightarrow> db \<Rightarrow> db" where
  "release_handoff connection_id session_id db =
     (case connection_id of None \<Rightarrow> db
      | Some cid \<Rightarrow>
        (case stream_baseline_of db cid of None \<Rightarrow> db
         | Some b \<Rightarrow>
           if get (sb_snapshot b) ''import_handoff'' = VStr session_id
           then db\<lparr>stream_baseline_table := update_where (\<lambda>r. sb_connection_id r = cid)
                  (\<lambda>r. r\<lparr>sb_snapshot := dict_pop ''import_handoff'' (sb_snapshot r)\<rparr>) (stream_baseline_table db)\<rparr>
           else db))"

definition active_clear :: "db \<Rightarrow> int \<Rightarrow> bool" where
  "active_clear db cid \<longleftrightarrow>
     list_ex (\<lambda>j. sj_connection_id j = Some cid \<and> sj_job_type j = ''clear'' \<and> sj_status j \<in> {Pending, Running})
       (job_table db)"

definition stream_conflict :: "db \<Rightarrow> connection \<Rightarrow> bool" where
  "stream_conflict db conn \<longleftrightarrow>
     list_ex (\<lambda>r. sr_user_id r = c_user_id conn \<and> sr_connection_id r = Some (c_id conn) \<and> sr_state r = ''pending''
         \<and> sr_kind r \<in> {''conflict'', ''uncertain_removal'', ''deletion_conflict'', ''rating_conflict''})
       (review_table db)"

definition require_stream_reconciliation :: "db \<Rightarrow> int option \<Rightarrow> connection \<Rightarrow> unit result" where
  "require_stream_reconciliation db handoff conn =
     (if c_type conn \<notin> {''stremio'', ''nuvio'', ''jellyfin'', ''emby'', ''plex''} then Inr ()
      else if active_clear db (c_id conn) then Inl (HTTPException 409)
      else
        let baseline = stream_baseline_of db (c_id conn) in
        if truthy (get (baseline_snapshot baseline) ''clear_guard'') then Inl (HTTPException 409)
        else if onboarding_pending db handoff conn False False then Inl (HTTPException 409)
        else if (case baseline of None \<Rightarrow> True | Some b \<Rightarrow> \<not> sb_approved b) then Inl (HTTPException 409)
        else if stream_conflict db conn then Inl (HTTPException 409)
        else Inr ())"

text \<open>C38: A connection passes the gate only when it needs none, or when nothing is being cleared,
  its first import is complete and its baseline approved, and none of its conflicts is open; a
  refusal is always an HTTP 409.\<close>

theorem require_stream_reconciliation_gate:
  "(require_stream_reconciliation db handoff conn = Inr () \<longleftrightarrow>
      c_type conn \<notin> {''stremio'', ''nuvio'', ''jellyfin'', ''emby'', ''plex''} \<or>
      (\<not> active_clear db (c_id conn) \<and> \<not> stream_conflict db conn \<and>
       (\<exists>b. stream_baseline_of db (c_id conn) = Some b \<and> sb_approved b \<and>
          \<not> truthy (get (sb_snapshot b) ''clear_guard'') \<and>
          (c_type conn \<in> {''stremio'', ''nuvio''} \<longrightarrow> \<not> truthy (get (sb_snapshot b) ''import_session_id'') \<and>
             (truthy (get (sb_snapshot b) ''import_handoff'') \<longrightarrow> handoff = Some (c_id conn)))))) \<and>
   (require_stream_reconciliation db handoff conn \<noteq> Inr () \<longrightarrow>
      require_stream_reconciliation db handoff conn = Inl (HTTPException 409))"
  by (cases "stream_baseline_of db (c_id conn)")
    (auto simp: require_stream_reconciliation_def onboarding_pending_def baseline_snapshot_def Let_def)

lemma require_stream_reconciliation_gate_witness:
  "require_stream_reconciliation empty_db None (new_connection 1 1 ''plex'' [] [] [] 0) = Inl (HTTPException 409)"
  using require_stream_reconciliation_gate [of empty_db None "new_connection 1 1 ''plex'' [] [] [] 0"]
  by (simp add: new_connection_def stream_baseline_of_def empty_db_def)

section \<open>Cloud trackers\<close>

definition settings_of :: "db \<Rightarrow> int \<Rightarrow> user_settings option result" where
  "settings_of db user = scalar_one_or_none (filter (\<lambda>s. us_user_id s = user) (settings_table db))"

definition supported_clouds :: "string list" where
  "supported_clouds = [''trakt'', ''simkl'', ''mdblist'']"

definition cloud_baseline_of :: "db \<Rightarrow> int \<Rightarrow> string \<Rightarrow> cloud_baseline option result" where
  "cloud_baseline_of db user provider =
     scalar_one_or_none (filter (\<lambda>b. cb_user_id b = user \<and> cb_provider b = provider) (cloud_baseline_table db))"

definition provider_label :: "string \<Rightarrow> string" where
  "provider_label p =
     (if p = ''trakt'' then ''Trakt'' else if p = ''simkl'' then ''Simkl''
      else if p = ''mdblist'' then ''MDBList'' else p)"

text \<open>A new review with the column defaults.\<close>

definition new_review :: "db \<Rightarrow> datetime \<Rightarrow> int \<Rightarrow> string \<Rightarrow> string option \<Rightarrow> string \<Rightarrow> sync_review" where
  "new_review db now user kind provider message =
     \<lparr>sr_id = next_id sr_id (review_table db), sr_user_id = user, sr_media_id = None, sr_connection_id = None,
      sr_provider = provider, sr_kind = kind, sr_state = ''pending'', sr_previous_status = None,
      sr_proposed_status = None, sr_previous_score = None, sr_proposed_score = None,
      sr_season_number = None, sr_season_event_key = None, sr_message = message, sr_priority = ''low'',
      sr_payload = [], sr_seen_at = None, sr_dismissed_at = None, sr_created_at = now\<rparr>"

definition add_review :: "sync_review \<Rightarrow> db \<Rightarrow> db" where
  "add_review r db = db\<lparr>review_table := review_table db @ [r]\<rparr>"

definition import_message :: "string \<Rightarrow> string" where
  "import_message provider =
     provider_label provider @ '': initial import completed. Review your merged lists and confirm this summary before any outbound synchronization.''"

text \<open>\<open>{**summary, "rating_observations": ..., "watch_observations": ...}\<close>: what was observed of
  the provider survives a new summary.\<close>

definition import_snapshot :: "pydict \<Rightarrow> pydict \<Rightarrow> pydict" where
  "import_snapshot summary old =
     dict_set ''watch_observations'' (VDict (dict_or_empty (get old ''watch_observations'')))
       (dict_set ''rating_observations'' (VDict (dict_or_empty (get old ''rating_observations''))) summary)"

definition record_cloud_import ::
  "datetime \<Rightarrow> int \<Rightarrow> string \<Rightarrow> pydict \<Rightarrow> db \<Rightarrow> db result" where
  "record_cloud_import now user provider summary db =
     (if provider \<notin> set supported_clouds then Inl ValueError
      else and_then (cloud_baseline_of db user provider) (\<lambda>found.
        case found of
          None \<Rightarrow>
            Inr (add_review (new_review db now user ''initial_cloud_import'' (Some provider) (import_message provider))
              (db\<lparr>cloud_baseline_table := cloud_baseline_table db @
                [\<lparr>cb_id = next_id cb_id (cloud_baseline_table db), cb_user_id = user, cb_provider = provider,
                  cb_snapshot = import_snapshot summary [], cb_approved = False, cb_observed_at = now\<rparr>]\<rparr>))
        | Some b \<Rightarrow>
            Inr (db\<lparr>cloud_baseline_table := update_where (\<lambda>r. cb_user_id r = user \<and> cb_provider r = provider)
              (\<lambda>r. r\<lparr>cb_snapshot := import_snapshot summary (cb_snapshot r), cb_observed_at := now\<rparr>)
              (cloud_baseline_table db)\<rparr>)))"

definition cloud_conflict :: "db \<Rightarrow> int \<Rightarrow> string \<Rightarrow> bool" where
  "cloud_conflict db user provider \<longleftrightarrow>
     list_ex (\<lambda>r. sr_user_id r = user \<and> sr_provider r = Some provider \<and> sr_state r = ''pending''
         \<and> sr_kind r \<in> {''rating_conflict'', ''cloud_conflict'', ''unmatched_import''}) (review_table db)"

definition require_cloud_reconciliation :: "db \<Rightarrow> int \<Rightarrow> string \<Rightarrow> cloud_baseline result" where
  "require_cloud_reconciliation db user provider =
     and_then (cloud_baseline_of db user provider) (\<lambda>found.
       case found of
         None \<Rightarrow> Inl (HTTPException 409)
       | Some b \<Rightarrow>
           if \<not> cb_approved b then Inl (HTTPException 409)
           else if cloud_conflict db user provider then Inl (HTTPException 409) else Inr b)"

text \<open>Only \<open>HTTPException\<close> is caught.\<close>

definition cloud_push_is_approved :: "db \<Rightarrow> int \<Rightarrow> string \<Rightarrow> bool result" where
  "cloud_push_is_approved db user provider =
     (case require_cloud_reconciliation db user provider of
        Inr _ \<Rightarrow> Inr True
      | Inl (HTTPException _) \<Rightarrow> Inr False
      | Inl e \<Rightarrow> Inl e)"

definition cloud_baselines_unique :: "db \<Rightarrow> bool" where
  "cloud_baselines_unique db \<longleftrightarrow> unique_on (\<lambda>b. (cb_user_id b, cb_provider b)) (cloud_baseline_table db)"

lemma cloud_baseline_of_ok:
  assumes "cloud_baselines_unique db"
  shows "is_ok (cloud_baseline_of db user provider)"
proof -
  have "length (filter (\<lambda>b. (cb_user_id b, cb_provider b) = (user, provider)) (cloud_baseline_table db)) \<le> 1"
    using assms by (intro unique_on_filter_le_one) (simp add: cloud_baselines_unique_def)
  then show ?thesis by (simp add: cloud_baseline_of_def scalar_one_or_none_ok)
qed

lemma cloud_baseline_of_Some:
  assumes "cloud_baseline_of db user provider = Inr (Some b)"
  shows "b \<in> set (cloud_baseline_table db) \<and> cb_user_id b = user \<and> cb_provider b = provider"
proof -
  let ?P = "\<lambda>b. cb_user_id b = user \<and> cb_provider b = provider"
  from assms have "filter ?P (cloud_baseline_table db) = [b]"
    by (simp only: cloud_baseline_of_def scalar_one_or_none_Some)
  then have "b \<in> set (filter ?P (cloud_baseline_table db))" by simp
  then show ?thesis by simp
qed

definition baselines_of :: "db \<Rightarrow> int \<Rightarrow> string \<Rightarrow> cloud_baseline list" where
  "baselines_of db user provider =
     filter (\<lambda>b. cb_user_id b = user \<and> cb_provider b = provider) (cloud_baseline_table db)"

text \<open>Only the approvals of the provider's rows and its open conflicts decide.\<close>

lemma cloud_push_is_approved_eq:
  "cloud_push_is_approved db user provider =
     (case map cb_approved (baselines_of db user provider) of
        [] \<Rightarrow> Inr False
      | [approved] \<Rightarrow> Inr (approved \<and> \<not> cloud_conflict db user provider)
      | _ \<Rightarrow> Inl MultipleResultsFound)"
  by (cases "baselines_of db user provider" rule: scalar_one_or_none.cases)
    (simp_all add: cloud_push_is_approved_def require_cloud_reconciliation_def cloud_baseline_of_def
      baselines_of_def)

text \<open>Recording an import never approves a provider for pushing and never makes it lose what it
  was approved for: whichever provider is asked about afterwards, a push is allowed exactly when it
  was allowed before, the first import of a provider asks for a review, and the table keeps one
  baseline per provider.\<close>

lemma record_cloud_import_keeps_approval:
  assumes "cloud_baselines_unique db" "record_cloud_import now user provider summary db = Inr db'"
  shows "cloud_push_is_approved db' u p = cloud_push_is_approved db u p \<and> cloud_baselines_unique db' \<and>
    (cloud_baseline_of db user provider = Inr None \<longrightarrow>
      (\<exists>r \<in> set (review_table db') - set (review_table db).
         sr_kind r = ''initial_cloud_import'' \<and> sr_provider r = Some provider \<and> sr_state r = ''pending''))"
proof -
  from assms(2) obtain found where f: "cloud_baseline_of db user provider = Inr found"
    by (auto simp: record_cloud_import_def and_then_Inr_iff split: if_splits)
  show ?thesis
  proof (cases found)
    case None
    let ?r = "new_review db now user ''initial_cloud_import'' (Some provider) (import_message provider)"
    let ?b = "\<lparr>cb_id = next_id cb_id (cloud_baseline_table db), cb_user_id = user, cb_provider = provider,
                  cb_snapshot = import_snapshot summary [], cb_approved = False, cb_observed_at = now\<rparr>"
    have db': "db' = add_review ?r (db\<lparr>cloud_baseline_table := cloud_baseline_table db @ [?b]\<rparr>)"
      using assms(2) f None by (auto simp: record_cloud_import_def split: if_splits)
    have none: "filter (\<lambda>b. cb_user_id b = user \<and> cb_provider b = provider) (cloud_baseline_table db) = []"
      using f None by (simp add: cloud_baseline_of_def)
    have fresh: "?r \<notin> set (review_table db)"
      using next_id_not_in [of sr_id "review_table db"] by (force simp: new_review_def)
    have "cloud_conflict db' u p = cloud_conflict db u p"
      by (simp add: cloud_conflict_def db' add_review_def new_review_def)
    moreover have "baselines_of db' u p = (if u = user \<and> p = provider then [?b] else baselines_of db u p)"
      using none by (auto simp: baselines_of_def db' add_review_def)
    moreover have "baselines_of db user provider = []" using none by (simp add: baselines_of_def)
    ultimately have "cloud_push_is_approved db' u p = cloud_push_is_approved db u p"
      by (simp add: cloud_push_is_approved_eq split: list.splits)
    moreover have "cloud_baselines_unique db'"
      using assms(1) none
      by (auto simp: cloud_baselines_unique_def db' add_review_def unique_on_append_row filter_empty_conv)
    moreover have "?r \<in> set (review_table db') - set (review_table db)"
      using fresh by (simp add: db' add_review_def)
    moreover have "sr_kind ?r = ''initial_cloud_import'' \<and> sr_provider ?r = Some provider \<and> sr_state ?r = ''pending''"
      by (simp add: new_review_def)
    ultimately show ?thesis by blast
  next
    case (Some b)
    let ?f = "\<lambda>r. r\<lparr>cb_snapshot := import_snapshot summary (cb_snapshot r), cb_observed_at := now\<rparr>"
    have db': "db' = db\<lparr>cloud_baseline_table := update_where (\<lambda>r. cb_user_id r = user \<and> cb_provider r = provider)
        ?f (cloud_baseline_table db)\<rparr>"
      using assms(2) f Some by (auto simp: record_cloud_import_def split: if_splits)
    have "baselines_of db' u p =
        update_where (\<lambda>r. cb_user_id r = user \<and> cb_provider r = provider) ?f (baselines_of db u p)"
      by (simp add: db' baselines_of_def) (rule filter_update_where, simp)
    then have "map cb_approved (baselines_of db' u p) = map cb_approved (baselines_of db u p)"
      by (simp add: map_update_where)
    moreover have "cloud_conflict db' u p = cloud_conflict db u p"
      by (simp add: cloud_conflict_def db')
    ultimately have "cloud_push_is_approved db' u p = cloud_push_is_approved db u p"
      by (simp add: cloud_push_is_approved_eq split: list.splits)
    moreover have "cloud_baselines_unique db'"
      using assms(1) by (simp add: cloud_baselines_unique_def db' unique_on_update)
    ultimately show ?thesis by (simp add: f Some)
  qed
qed

definition sample_cloud_db :: db where
  "sample_cloud_db = empty_db\<lparr>cloud_baseline_table := [\<lparr>cb_id = 1, cb_user_id = 1, cb_provider = ''trakt'',
     cb_snapshot = [], cb_approved = True, cb_observed_at = 0\<rparr>]\<rparr>"

lemma record_cloud_import_keeps_approval_witness:
  "\<exists>db'. record_cloud_import 5 1 ''simkl'' [] sample_cloud_db = Inr db' \<and>
     cloud_push_is_approved db' 1 ''trakt'' = Inr True"
proof -
  obtain db' where db': "record_cloud_import 5 1 ''simkl'' [] sample_cloud_db = Inr db'"
    by (simp add: record_cloud_import_def supported_clouds_def cloud_baseline_of_def sample_cloud_db_def)
  have "cloud_push_is_approved db' 1 ''trakt'' = cloud_push_is_approved sample_cloud_db 1 ''trakt''"
    using record_cloud_import_keeps_approval [OF _ db', of 1 "''trakt''"]
    by (simp add: cloud_baselines_unique_def unique_on_def sample_cloud_db_def)
  also have "\<dots> = Inr True"
    by (simp add: cloud_push_is_approved_def require_cloud_reconciliation_def cloud_baseline_of_def
        cloud_conflict_def sample_cloud_db_def empty_db_def)
  finally show ?thesis by (simp add: db')
qed

end
