(* ===== verification/SyncDelivery.thy ===== *)
theory SyncDelivery
  imports Codec CycleFlush Gates
begin

text \<open>
  \<open>core/sync_delivery.py\<close>: the durable hand-off of an accepted cycle.  The cycle is stored in
  its job without credentials, rebuilt from it on recovery, and delivered destination by
  destination; a destination is acknowledged only after its calls succeeded.
\<close>

section \<open>The stored form of a cycle\<close>

definition write_int :: "int \<Rightarrow> pyobj" where "write_int i = OAtom (VInt i)"
definition write_bool :: "bool \<Rightarrow> pyobj" where "write_bool b = OAtom (VBool b)"
definition write_score :: "rat \<Rightarrow> pyobj" where "write_score x = OAtom (VFloat x)"
definition write_str :: "string \<Rightarrow> pyobj" where "write_str s = OAtom (VStr s)"

definition write_opt_int :: "int option \<Rightarrow> pyobj" where
  "write_opt_int v = OAtom (case v of None \<Rightarrow> VNone | Some i \<Rightarrow> VInt i)"

definition write_key :: "rating_key \<Rightarrow> pyobj" where
  "write_key k = OTuple [write_int (fst k), write_opt_int (snd k)]"

definition write_exclusions :: "int set \<times> collection_source set \<Rightarrow> pyobj" where
  "write_exclusions ex = OTuple [write_set write_int (fst ex), write_set OSource (snd ex)]"

fun read_int :: "pyobj \<Rightarrow> int option" where
  "read_int (OAtom (VInt i)) = Some i" | "read_int _ = None"

fun read_bool :: "pyobj \<Rightarrow> bool option" where
  "read_bool (OAtom (VBool b)) = Some b" | "read_bool _ = None"

fun read_score :: "pyobj \<Rightarrow> rat option" where
  "read_score (OAtom (VFloat x)) = Some x" | "read_score _ = None"

fun read_str :: "pyobj \<Rightarrow> string option" where
  "read_str (OAtom (VStr s)) = Some s" | "read_str _ = None"

fun read_opt_int :: "pyobj \<Rightarrow> int option option" where
  "read_opt_int (OAtom VNone) = Some None" | "read_opt_int (OAtom (VInt i)) = Some (Some i)"
| "read_opt_int _ = None"

fun read_opt_str :: "pyobj \<Rightarrow> string option option" where
  "read_opt_str (OAtom VNone) = Some None" | "read_opt_str (OAtom (VStr s)) = Some (Some s)"
| "read_opt_str _ = None"

fun read_source :: "pyobj \<Rightarrow> collection_source option" where
  "read_source (OSource c) = Some c" | "read_source _ = None"

fun read_datetime :: "pyobj \<Rightarrow> datetime option" where
  "read_datetime (ODatetime t) = Some t" | "read_datetime _ = None"

fun read_key :: "pyobj \<Rightarrow> rating_key option" where
  "read_key (OTuple [a, b]) =
     (case (read_int a, read_opt_int b) of (Some m, Some s) \<Rightarrow> Some (m, s) | _ \<Rightarrow> None)"
| "read_key _ = None"

fun read_exclusions :: "pyobj \<Rightarrow> (int set \<times> collection_source set) option" where
  "read_exclusions (OTuple [a, b]) =
     (case (read_set read_int a, read_set read_source b) of (Some c, Some s) \<Rightarrow> Some (c, s) | _ \<Rightarrow> None)"
| "read_exclusions _ = None"

interpretation ints: key_codec write_int read_int "\<lambda>_. True"
  by unfold_locales (simp_all add: write_int_def)

interpretation bools: codec write_bool read_bool "\<lambda>_. True"
  by unfold_locales (simp_all add: write_bool_def)

interpretation scores: codec write_score read_score "\<lambda>_. True"
  by unfold_locales (simp_all add: write_score_def)

interpretation strs: key_codec write_str read_str "\<lambda>_. True"
  by unfold_locales (simp_all add: write_str_def)

interpretation sources: key_codec OSource read_source "\<lambda>_. True"
  by unfold_locales simp_all

interpretation datetimes: codec ODatetime read_datetime valid_datetime
  by unfold_locales simp_all

interpretation keys: key_codec write_key read_key "\<lambda>_. True"
  by unfold_locales (auto simp: write_key_def write_int_def write_opt_int_def split: option.splits)

definition finite_pair :: "'a set \<times> 'b set \<Rightarrow> bool" where
  "finite_pair p \<longleftrightarrow> finite (fst p) \<and> finite (snd p)"

interpretation excls: codec write_exclusions read_exclusions finite_pair
  by unfold_locales
    (auto simp: write_exclusions_def finite_pair_def ints.read_write_set sources.read_write_set
      ints.wf_write_set sources.wf_write_set)

interpretation ratings: dict_codec write_key read_key "\<lambda>_. True" write_score read_score "\<lambda>_. True"
  by unfold_locales

interpretation key_sources: dict_codec write_key read_key "\<lambda>_. True"
  "write_set write_str" "read_set read_str" "\<lambda>S. finite S \<and> (\<forall>x \<in> S. True)"
  by unfold_locales

interpretation flags: dict_codec write_int read_int "\<lambda>_. True" write_bool read_bool "\<lambda>_. True"
  by unfold_locales

interpretation int_sets: dict_codec write_int read_int "\<lambda>_. True"
  "write_set write_int" "read_set read_int" "\<lambda>S. finite S \<and> (\<forall>x \<in> S. True)"
  by unfold_locales

interpretation times: dict_codec write_int read_int "\<lambda>_. True" ODatetime read_datetime valid_datetime
  by unfold_locales

interpretation int_excls: dict_codec write_int read_int "\<lambda>_. True" write_exclusions read_exclusions finite_pair
  by unfold_locales

interpretation int_strs: dict_codec write_int read_int "\<lambda>_. True" write_str read_str "\<lambda>_. True"
  by unfold_locales

interpretation push_backs: dict_codec write_int read_int "\<lambda>_. True"
  "write_map write_int write_str" "read_map read_int read_str" "storable_map (\<lambda>_. True) (\<lambda>_. True)"
  by unfold_locales

interpretation int_ints: dict_codec write_int read_int "\<lambda>_. True" write_int read_int "\<lambda>_. True"
  by unfold_locales

text \<open>The fields of the dataclass, in its order.\<close>

definition state_fields :: "pull_cycle \<Rightarrow> (string \<times> pyobj) list" where
  "state_fields st =
     [(''user_id'', write_int (pc_user_id st)),
      (''new_watched_ids'', write_set write_int (pc_new_watched_ids st)),
      (''new_ratings'', write_map write_key write_score (pc_new_ratings st)),
      (''rating_sources'', write_map write_key (write_set write_str) (pc_rating_sources st)),
      (''library_desired'', write_map write_int write_bool (pc_library_desired st)),
      (''removed_ratings'', write_set write_key (pc_removed_ratings st)),
      (''new_collected_ids'', write_set write_int (pc_new_collected_ids st)),
      (''removed_collected_ids'', write_set write_int (pc_removed_collected_ids st)),
      (''excluded_connection_ids'', write_set write_int (pc_excluded_connection_ids st)),
      (''excluded_cloud_sources'', write_set OSource (pc_excluded_cloud_sources st)),
      (''library_new_ids'', write_set write_int (pc_library_new_ids st)),
      (''library_removed_ids'', write_set write_int (pc_library_removed_ids st)),
      (''library_source_ids'', write_set write_int (pc_library_source_ids st)),
      (''library_source_ids_by_media'', write_map write_int (write_set write_int) (pc_library_source_ids_by_media st)),
      (''library_api_key'', OAtom (case pc_library_api_key st of None \<Rightarrow> VNone | Some k \<Rightarrow> VStr k)),
      (''library_observed_at_by_media'', write_map write_int ODatetime (pc_library_observed_at_by_media st)),
      (''watched_exclusions'', write_map write_int write_exclusions (pc_watched_exclusions st)),
      (''removed_watch_exclusions'', write_map write_int (write_set write_int) (pc_removed_watch_exclusions st)),
      (''push_back'', write_map write_int (write_map write_int write_str) (pc_push_back st)),
      (''connection_versions'', write_map write_int write_int (pc_connection_versions st))]"

definition delivery_payload :: "pull_cycle \<Rightarrow> pydict" where
  "delivery_payload st =
     map (\<lambda>(name, v). (name, encode v)) (filter (\<lambda>(name, _). name \<noteq> ''library_api_key'') (state_fields st))"

text \<open>\<open>PullCycleState(**fields)\<close>: an unknown field and a missing user are \<open>TypeError\<close>s, every
  other missing field has its default; a field of another type is outside the model's records
  and also a \<open>TypeError\<close>.\<close>

definition field_or :: "(string \<times> pyobj) list \<Rightarrow> string \<Rightarrow> (pyobj \<Rightarrow> 'a option) \<Rightarrow> 'a \<Rightarrow> 'a result" where
  "field_or d name r otherwise =
     (case map_of d name of None \<Rightarrow> Inr otherwise
      | Some v \<Rightarrow> (case r v of None \<Rightarrow> Inl TypeError | Some x \<Rightarrow> Inr x))"

definition cycle_of_fields :: "(string \<times> pyobj) list \<Rightarrow> pull_cycle result" where
  "cycle_of_fields d =
     (if \<not> fst ` set d \<subseteq> fst ` set (state_fields (new_cycle 0)) \<or> map_of d ''user_id'' = None then Inl TypeError
      else
        and_then (field_or d ''user_id'' read_int 0) (\<lambda>user.
        and_then (field_or d ''new_watched_ids'' (read_set read_int) {}) (\<lambda>watched.
        and_then (field_or d ''new_ratings'' (read_map read_key read_score) Map.empty) (\<lambda>ratings.
        and_then (field_or d ''rating_sources'' (read_map read_key (read_set read_str)) Map.empty) (\<lambda>sources.
        and_then (field_or d ''library_desired'' (read_map read_int read_bool) Map.empty) (\<lambda>desired.
        and_then (field_or d ''removed_ratings'' (read_set read_key) {}) (\<lambda>removed.
        and_then (field_or d ''new_collected_ids'' (read_set read_int) {}) (\<lambda>collected.
        and_then (field_or d ''removed_collected_ids'' (read_set read_int) {}) (\<lambda>uncollected.
        and_then (field_or d ''excluded_connection_ids'' (read_set read_int) {}) (\<lambda>connections.
        and_then (field_or d ''excluded_cloud_sources'' (read_set read_source) {}) (\<lambda>clouds.
        and_then (field_or d ''library_new_ids'' (read_set read_int) {}) (\<lambda>lib_new.
        and_then (field_or d ''library_removed_ids'' (read_set read_int) {}) (\<lambda>lib_removed.
        and_then (field_or d ''library_source_ids'' (read_set read_int) {}) (\<lambda>lib_sources.
        and_then (field_or d ''library_source_ids_by_media'' (read_map read_int (read_set read_int)) Map.empty) (\<lambda>by_media.
        and_then (field_or d ''library_api_key'' read_opt_str None) (\<lambda>api_key.
        and_then (field_or d ''library_observed_at_by_media'' (read_map read_int read_datetime) Map.empty) (\<lambda>observed.
        and_then (field_or d ''watched_exclusions'' (read_map read_int read_exclusions) Map.empty) (\<lambda>watched_ex.
        and_then (field_or d ''removed_watch_exclusions'' (read_map read_int (read_set read_int)) Map.empty) (\<lambda>removed_ex.
        and_then (field_or d ''push_back'' (read_map read_int (read_map read_int read_str)) Map.empty) (\<lambda>push_back.
        and_then (field_or d ''connection_versions'' (read_map read_int read_int) Map.empty) (\<lambda>versions.
          Inr \<lparr>pc_user_id = user, pc_new_watched_ids = watched, pc_new_ratings = ratings,
               pc_rating_sources = sources, pc_library_desired = desired, pc_removed_ratings = removed,
               pc_new_collected_ids = collected, pc_removed_collected_ids = uncollected,
               pc_excluded_connection_ids = connections, pc_excluded_cloud_sources = clouds,
               pc_library_new_ids = lib_new, pc_library_removed_ids = lib_removed,
               pc_library_source_ids = lib_sources, pc_library_source_ids_by_media = by_media,
               pc_library_api_key = api_key, pc_library_observed_at_by_media = observed,
               pc_watched_exclusions = watched_ex, pc_removed_watch_exclusions = removed_ex,
               pc_push_back = push_back, pc_connection_versions = versions\<rparr>)))))))))))))))))))))"

definition restore_cycle :: "pydict \<Rightarrow> pull_cycle result" where
  "restore_cycle payload =
     and_then (map_result (\<lambda>(name, v). and_then (decode v) (\<lambda>ob. Inr (name, ob))) payload) cycle_of_fields"

definition storable_cycle :: "pull_cycle \<Rightarrow> bool" where
  "storable_cycle st \<longleftrightarrow> finite_cycle st \<and>
     (\<forall>m t. pc_library_observed_at_by_media st m = Some t \<longrightarrow> valid_datetime t)"

lemma storable_map_simp:
  "storable_map (\<lambda>_. True) ok m \<longleftrightarrow> finite (dom m) \<and> (\<forall>k v. m k = Some v \<longrightarrow> ok v)"
  by (auto simp: storable_map_def)

lemmas stored_facts =
  ints.read_write bools.read_write scores.read_write
  ints.read_write_set strs.read_write_set sources.read_write_set keys.read_write_set
  ratings.read_write_map key_sources.read_write_map flags.read_write_map int_sets.read_write_map
  times.read_write_map int_excls.read_write_map push_backs.read_write_map int_ints.read_write_map

lemmas wf_facts =
  ints.wf_write ints.wf_write_set strs.wf_write_set sources.wf_write_set keys.wf_write_set
  ratings.wf_write_map key_sources.wf_write_map flags.wf_write_map int_sets.wf_write_map
  times.wf_write_map int_excls.wf_write_map push_backs.wf_write_map int_ints.wf_write_map

lemma state_fields_wf:
  assumes "storable_cycle st" "(name, v) \<in> set (state_fields st)"
  shows "wf_obj v"
proof -
  have "list_all (\<lambda>(n, v). wf_obj v) (state_fields st)"
    using assms(1)
    by (simp add: state_fields_def storable_cycle_def finite_cycle_def wf_facts storable_map_simp
        finite_pair_def split: option.splits)
  with assms(2) show ?thesis by (auto simp: list_all_iff)
qed

lemma restore_payload:
  assumes "storable_cycle st"
  shows "restore_cycle (delivery_payload st) =
    cycle_of_fields (filter (\<lambda>(name, _). name \<noteq> ''library_api_key'') (state_fields st))"
proof -
  let ?F = "filter (\<lambda>(name, _). name \<noteq> ''library_api_key'') (state_fields st)"
  have "map_result (\<lambda>(name, v). and_then (decode v) (\<lambda>ob. Inr (name, ob)))
      (map (\<lambda>(name, v). (name, encode v)) ?F) = Inr ?F"
    by (rule map_result_map_Inr)
      (auto simp: decode_encode_obj [OF state_fields_wf [OF assms]] split: prod.splits)
  then show ?thesis by (simp add: restore_cycle_def delivery_payload_def)
qed

lemma cycle_of_state_fields:
  assumes "storable_cycle st"
  shows "cycle_of_fields (filter (\<lambda>(name, _). name \<noteq> ''library_api_key'') (state_fields st)) =
    Inr (st\<lparr>pc_library_api_key := None\<rparr>)"
  using assms
  by (simp add: cycle_of_fields_def state_fields_def field_or_def stored_facts storable_map_simp
      storable_cycle_def finite_cycle_def finite_pair_def)

text \<open>A cycle stored with its job and rebuilt from it is the same cycle, except that the
  provider key is never stored.\<close>

lemma restore_delivery_payload:
  assumes "storable_cycle st"
  shows "restore_cycle (delivery_payload st) = Inr (st\<lparr>pc_library_api_key := None\<rparr>) \<and>
    ''library_api_key'' \<notin> fst ` set (delivery_payload st)"
proof
  show "restore_cycle (delivery_payload st) = Inr (st\<lparr>pc_library_api_key := None\<rparr>)"
    by (simp only: restore_payload [OF assms] cycle_of_state_fields [OF assms])
  show "''library_api_key'' \<notin> fst ` set (delivery_payload st)"
    by (auto simp: delivery_payload_def)
qed

lemma restore_delivery_payload_witness:
  "restore_cycle (delivery_payload ((accumulate (sample_fan_out (Some 4) {10, 11}) (new_cycle 1))\<lparr>pc_library_api_key := Some ''key''\<rparr>)) =
   Inr ((accumulate (sample_fan_out (Some 4) {10, 11}) (new_cycle 1))\<lparr>pc_library_api_key := None\<rparr>)"
proof -
  let ?st = "accumulate (sample_fan_out (Some 4) {10, 11}) (new_cycle 1)"
  have "finite_cycle ?st"
    by (rule finite_accumulate) (simp_all add: finite_fan_out_def sample_fan_out_def)
  then have "storable_cycle (?st\<lparr>pc_library_api_key := Some ''key''\<rparr>)"
    by (simp add: storable_cycle_def finite_cycle_def accumulate_def new_cycle_def)
  from restore_delivery_payload [OF this] show ?thesis by simp
qed

section \<open>Destinations of a delivery\<close>

definition cloud_push_flags :: "user_settings option \<Rightarrow> string \<Rightarrow> bool" where
  "cloud_push_flags settings provider \<longleftrightarrow>
     (case settings of None \<Rightarrow> False
      | Some s \<Rightarrow>
        if provider = ''trakt'' then trakt_push_watched (us_trakt s) \<or> trakt_push_ratings (us_trakt s)
            \<or> trakt_push_collection (us_trakt s)
        else if provider = ''simkl'' then simkl_push_watched (us_simkl s) \<or> simkl_push_ratings (us_simkl s)
        else if provider = ''mdblist'' then mdblist_push_watched (us_mdblist s)
            \<or> mdblist_push_ratings (us_mdblist s) \<or> mdblist_push_collection (us_mdblist s)
        else if provider = ''bingebase'' then bingebase_push_watched (us_bingebase s)
            \<or> bingebase_push_ratings (us_bingebase s)
        else False)"

fun connection_targets ::
  "db \<Rightarrow> int option \<Rightarrow> connection list \<Rightarrow> pull_cycle \<Rightarrow> string list \<times> pull_cycle" where
  "connection_targets db handoff [] st = ([], st)"
| "connection_targets db handoff (c # cs) st =
     (if onboarding_pending db handoff c False True then connection_targets db handoff cs st
      else if (case pc_connection_versions st (c_id c) of None \<Rightarrow> False | Some v \<Rightarrow> c_identity_version c \<noteq> v)
      then connection_targets db handoff cs st
      else if push_enabled c then
        (let st' = st\<lparr>pc_connection_versions :=
                (case pc_connection_versions st (c_id c) of
                   None \<Rightarrow> (pc_connection_versions st)(c_id c \<mapsto> c_identity_version c)
                 | Some _ \<Rightarrow> pc_connection_versions st)\<rparr>;
             (targets, st'') = connection_targets db handoff cs st'
         in (connection_key (c_id c) # targets, st''))
      else connection_targets db handoff cs st)"

definition delivery_targets :: "db \<Rightarrow> int option \<Rightarrow> pull_cycle \<Rightarrow> (string list \<times> pull_cycle) result" where
  "delivery_targets db handoff st =
     (let (targets, st') = connection_targets db handoff
            (filter (\<lambda>c. c_user_id c = pc_user_id st) (connection_table db)) st
      in and_then (settings_of db (pc_user_id st)) (\<lambda>settings.
           Inr (targets @ filter (cloud_push_flags settings) [''trakt'', ''simkl'', ''mdblist'', ''bingebase'']
                @ [''queues''], st')))"

text \<open>\<open>persist_delivery\<close>, on the statistics of the job.\<close>

definition persist_stats :: "string list \<Rightarrow> pull_cycle \<Rightarrow> pydict \<Rightarrow> pydict" where
  "persist_stats targets st stats =
     dict_merge stats
       [(''reconciled'', VBool True), (''delivery_pending'', VBool True),
        (''delivery'', VDict (delivery_payload st)), (''delivery_targets'', VList (map VStr targets)),
        (''delivery_done'', VList [])]"

definition persist_delivery :: "int \<Rightarrow> pull_cycle \<Rightarrow> int option \<Rightarrow> db \<Rightarrow> (db \<times> pull_cycle) result" where
  "persist_delivery job_id st handoff db =
     and_then (delivery_targets db handoff st) (\<lambda>(targets, st').
       if \<not> list_ex (\<lambda>j. sj_id j = job_id) (job_table db) then Inl TypeError
       else Inr (db\<lparr>job_table := update_where (\<lambda>j. sj_id j = job_id)
              (\<lambda>j. j\<lparr>sj_stats := Some (persist_stats targets st' (case sj_stats j of None \<Rightarrow> [] | Some d \<Rightarrow> d))\<rparr>)
              (job_table db)\<rparr>, st'))"

section \<open>The delivery loop\<close>

text \<open>The world of one delivery: the cycle, the statistics of its job, whether a destination
  failed, and the destinations whose calls were started, in order.  \<open>env target\<close> is the
  database at the time the destination is handled, which other tasks may have changed meanwhile;
  \<open>succeeds target\<close> tells which calls the destination's provider answers.\<close>

record delivery =
  dl_cycle :: pull_cycle
  dl_stats :: pydict
  dl_done :: "string set"
  dl_failed :: bool
  dl_flushed :: "string list"

definition stat_strings :: "pydict \<Rightarrow> string \<Rightarrow> string list" where
  "stat_strings stats k = List.map_filter as_str (list_or_empty (get stats k))"

definition delivery_keys :: "string list" where
  "delivery_keys = [''delivery'', ''delivery_pending'', ''delivery_targets'', ''delivery_done'']"

definition target_valid :: "db \<Rightarrow> int \<Rightarrow> pull_cycle \<Rightarrow> string \<Rightarrow> bool result" where
  "target_valid db user st target =
     (if is_connection_source target
      then (case int_of_str (drop 11 target) of
              None \<Rightarrow> Inl ValueError
            | Some cid \<Rightarrow>
              Inr (case find (\<lambda>c. c_id c = cid) (connection_table db) of None \<Rightarrow> False
                   | Some c \<Rightarrow> c_user_id c = user \<and> pc_connection_versions st (c_id c) = Some (c_identity_version c)))
      else Inr True)"

definition acknowledge :: "string list \<Rightarrow> string \<Rightarrow> delivery \<Rightarrow> delivery" where
  "acknowledge targets target dl =
     (let done = insert target (set (stat_strings (dl_stats dl) ''delivery_done''));
          stats = dict_set ''delivery_done'' (VList (map VStr (sorted_list_of_set done))) (dl_stats dl)
      in dl\<lparr>dl_done := done,
            dl_stats := (if set targets \<subseteq> done then filter (\<lambda>(k, _). k \<notin> set delivery_keys) stats else stats)\<rparr>)"

definition deliver_target ::
  "(string \<Rightarrow> db) \<Rightarrow> (string \<Rightarrow> flush_call \<Rightarrow> bool) \<Rightarrow> string option \<Rightarrow> int \<Rightarrow> int \<Rightarrow> string list \<Rightarrow>
   string \<Rightarrow> delivery \<Rightarrow> delivery" where
  "deliver_target env succeeds tmdb_key user job_id targets target dl =
     (if target \<in> dl_done dl then dl
      else case target_valid (env target) user (dl_cycle dl) target of
        Inl _ \<Rightarrow> dl\<lparr>dl_failed := True\<rparr>
      | Inr valid \<Rightarrow>
          let st = dl_cycle dl;
              calls = flush_pull_cycle (env target) (Some target) tmdb_key st;
              ok = (valid \<longrightarrow> snd (run_calls (succeeds target) calls));
              dl' = (if valid then dl\<lparr>dl_cycle := (if queue_handoff (Some target) then st else refresh_cycle (env target) st),
                                     dl_flushed := dl_flushed dl @ [target]\<rparr>
                     else dl)
          in if \<not> ok \<or> \<not> list_ex (\<lambda>j. sj_id j = job_id) (job_table (env target))
             then dl'\<lparr>dl_failed := True\<rparr>
             else acknowledge targets target dl')"

definition deliver_targets ::
  "(string \<Rightarrow> db) \<Rightarrow> (string \<Rightarrow> flush_call \<Rightarrow> bool) \<Rightarrow> string option \<Rightarrow> int \<Rightarrow> int \<Rightarrow> string list \<Rightarrow>
   string list \<Rightarrow> delivery \<Rightarrow> delivery" where
  "deliver_targets env succeeds tmdb_key user job_id targets pending dl =
     fold (deliver_target env succeeds tmdb_key user job_id targets) pending dl"

text \<open>\<open>_deliver_cycle\<close>: nothing to do without a pending delivery; a batch saved without targets
  gets them first; any failed destination raises \<open>RuntimeError\<close> at the end.  The result is the
  statistics the job is left with and whether the error was raised.\<close>

definition deliver_cycle ::
  "(string \<Rightarrow> db) \<Rightarrow> (string \<Rightarrow> flush_call \<Rightarrow> bool) \<Rightarrow> string option \<Rightarrow> int option \<Rightarrow> int \<Rightarrow> int \<Rightarrow>
   pull_cycle option \<Rightarrow> db \<Rightarrow> (pydict option \<times> bool) result" where
  "deliver_cycle env succeeds tmdb_key handoff user job_id state db =
     (case find (\<lambda>j. sj_id j = job_id) (job_table db) of
        None \<Rightarrow> Inr (None, False)
      | Some job \<Rightarrow>
        let stats = (case sj_stats job of None \<Rightarrow> [] | Some d \<Rightarrow> d) in
        if \<not> truthy (get stats ''delivery_pending'') then Inr (sj_stats job, False)
        else
          and_then (case state of Some st \<Rightarrow> Inr st | None \<Rightarrow>
              (case map_of stats ''delivery'' of
                 None \<Rightarrow> Inl KeyError
               | Some (VDict d) \<Rightarrow> restore_cycle d
               | Some _ \<Rightarrow> Inl TypeError)) (\<lambda>st.
          and_then (if map_of stats ''delivery_targets'' = None
              then and_then (delivery_targets db handoff st) (\<lambda>(targets, st').
                Inr (dict_merge stats [(''delivery_targets'', VList (map VStr targets)),
                       (''delivery_done'', VList []), (''delivery'', VDict (delivery_payload st'))], st'))
              else Inr (stats, st)) (\<lambda>(stats', st').
            let targets = stat_strings stats' ''delivery_targets'';
                final = deliver_targets env succeeds tmdb_key user job_id targets targets
                  \<lparr>dl_cycle = st', dl_stats = stats', dl_done = set (stat_strings stats' ''delivery_done''),
                   dl_failed = False, dl_flushed = []\<rparr>
            in Inr (Some (dl_stats final), dl_failed final))))"

section \<open>At least once, and acknowledged only after success\<close>

lemma stat_strings_set [simp]:
  "stat_strings (dict_set k (VList (map VStr xs)) stats) k' = (if k' = k then xs else stat_strings stats k')"
proof -
  have "List.map_filter as_str (map VStr xs) = xs" by (induction xs) (simp_all add: List.map_filter_def)
  then show ?thesis by (simp add: stat_strings_def list_or_empty_def)
qed

lemma get_without_keys: "k \<in> set ks \<Longrightarrow> get (filter (\<lambda>(k, _). k \<notin> set ks) d) k = VNone"
  by (induction d) (auto simp: get_def dict_get_def)

text \<open>Either everything is acknowledged and the delivery keys are gone, or the batch is still
  stored, with its acknowledgements.\<close>

definition delivery_ok :: "string list \<Rightarrow> pyval \<Rightarrow> delivery \<Rightarrow> bool" where
  "delivery_ok targets batch dl \<longleftrightarrow>
     (if set targets \<subseteq> dl_done dl then get (dl_stats dl) ''delivery_pending'' = VNone
      else get (dl_stats dl) ''delivery_pending'' = VBool True \<and> get (dl_stats dl) ''delivery'' = batch \<and>
        dl_done dl = set (stat_strings (dl_stats dl) ''delivery_done''))"

lemma delivery_ok_acknowledge:
  assumes "delivery_ok targets batch dl" "\<not> set targets \<subseteq> dl_done dl"
  shows "delivery_ok targets batch (acknowledge targets t dl)" "dl_done (acknowledge targets t dl) = insert t (dl_done dl)"
    "dl_failed (acknowledge targets t dl) = dl_failed dl"
proof -
  let ?done = "insert t (set (stat_strings (dl_stats dl) ''delivery_done''))"
  let ?stats = "dict_set ''delivery_done'' (VList (map VStr (sorted_list_of_set ?done))) (dl_stats dl)"
  have old: "get (dl_stats dl) ''delivery_pending'' = VBool True" "get (dl_stats dl) ''delivery'' = batch"
    "dl_done dl = set (stat_strings (dl_stats dl) ''delivery_done'')"
    using assms by (simp_all add: delivery_ok_def)
  have gone: "get (filter (\<lambda>(k, _). k \<notin> set delivery_keys) ?stats) ''delivery_pending'' = VNone"
    by (rule get_without_keys) (simp add: delivery_keys_def)
  have listed: "set (sorted_list_of_set ?done) = ?done" by (rule set_sorted_list_of_set) simp
  have ack: "acknowledge targets t dl = dl\<lparr>dl_done := ?done,
      dl_stats := (if set targets \<subseteq> ?done then filter (\<lambda>(k, _). k \<notin> set delivery_keys) ?stats else ?stats)\<rparr>"
    by (simp only: acknowledge_def Let_def)
  show "dl_done (acknowledge targets t dl) = insert t (dl_done dl)"
    "dl_failed (acknowledge targets t dl) = dl_failed dl"
    by (simp_all add: ack old(3))
  show "delivery_ok targets batch (acknowledge targets t dl)"
    unfolding delivery_ok_def ack using gone old(1,2) listed
    by (simp del: sorted_list_of_set_insert_remove)
qed

lemma deliver_target_cases:
  assumes "t \<notin> dl_done dl"
  obtains
    (failed) "dl_done (deliver_target env succeeds key user job_id targets t dl) = dl_done dl"
      "dl_stats (deliver_target env succeeds key user job_id targets t dl) = dl_stats dl"
      "dl_failed (deliver_target env succeeds key user job_id targets t dl)"
  | (acknowledged) dl' where "deliver_target env succeeds key user job_id targets t dl = acknowledge targets t dl'"
      "dl_done dl' = dl_done dl" "dl_stats dl' = dl_stats dl" "dl_failed dl' = dl_failed dl"
      "target_valid (env t) user (dl_cycle dl) t = Inr False \<or>
       (\<forall>c \<in> set (flush_pull_cycle (env t) (Some t) key (dl_cycle dl)). succeeds t c)"
proof (cases "target_valid (env t) user (dl_cycle dl) t")
  case (Inl e)
  then show ?thesis using assms by (intro failed) (simp_all add: deliver_target_def)
next
  case (Inr valid)
  let ?calls = "flush_pull_cycle (env t) (Some t) key (dl_cycle dl)"
  let ?dl' = "if valid then dl\<lparr>dl_cycle := (if queue_handoff (Some t) then dl_cycle dl else refresh_cycle (env t) (dl_cycle dl)),
                                     dl_flushed := dl_flushed dl @ [t]\<rparr> else dl"
  have same: "dl_done ?dl' = dl_done dl" "dl_stats ?dl' = dl_stats dl" "dl_failed ?dl' = dl_failed dl" by simp_all
  show ?thesis
  proof (cases "\<not> (valid \<longrightarrow> snd (run_calls (succeeds t) ?calls)) \<or> \<not> list_ex (\<lambda>j. sj_id j = job_id) (job_table (env t))")
    case True
    then have "deliver_target env succeeds key user job_id targets t dl = ?dl'\<lparr>dl_failed := True\<rparr>"
      using assms Inr True by (cases valid) (simp_all add: deliver_target_def Let_def)
    with same show ?thesis by (intro failed) simp_all
  next
    case False
    then have "deliver_target env succeeds key user job_id targets t dl = acknowledge targets t ?dl'"
      using assms Inr False by (cases valid) (simp_all add: deliver_target_def Let_def)
    moreover from False Inr have "target_valid (env t) user (dl_cycle dl) t = Inr False \<or> (\<forall>c \<in> set ?calls. succeeds t c)"
      by (cases valid) (simp_all add: run_calls_all)
    ultimately show ?thesis using same by (intro acknowledged)
  qed
qed

lemma deliver_target_step:
  fixes env succeeds key user job_id
  assumes "delivery_ok targets batch dl" "t \<in> set targets"
  defines "dl' \<equiv> deliver_target env succeeds key user job_id targets t dl"
  shows "delivery_ok targets batch dl'" "dl_done dl \<subseteq> dl_done dl'" "dl_done dl' \<subseteq> insert t (dl_done dl)"
    "dl_failed dl \<longrightarrow> dl_failed dl'" "t \<in> dl_done dl' \<or> dl_failed dl'"
    "dl_failed dl' \<longrightarrow> dl_failed dl \<or> t \<notin> dl_done dl'"
proof -
  have "delivery_ok targets batch dl' \<and> dl_done dl \<subseteq> dl_done dl' \<and> dl_done dl' \<subseteq> insert t (dl_done dl) \<and>
      (dl_failed dl \<longrightarrow> dl_failed dl') \<and> (t \<in> dl_done dl' \<or> dl_failed dl') \<and>
      (dl_failed dl' \<longrightarrow> dl_failed dl \<or> t \<notin> dl_done dl')"
  proof (cases "t \<in> dl_done dl")
    case True
    then have "dl' = dl" by (simp add: dl'_def deliver_target_def)
    with True assms(1) show ?thesis by auto
  next
    case False
    then have open_batch: "\<not> set targets \<subseteq> dl_done dl" using assms(2) by auto
    show ?thesis
    proof (rule deliver_target_cases [OF False, of env succeeds key user job_id targets])
      assume f: "dl_done (deliver_target env succeeds key user job_id targets t dl) = dl_done dl"
        "dl_stats (deliver_target env succeeds key user job_id targets t dl) = dl_stats dl"
        "dl_failed (deliver_target env succeeds key user job_id targets t dl)"
      then have "delivery_ok targets batch dl'"
        using assms(1) by (simp add: delivery_ok_def dl'_def)
      with f False show ?thesis by (simp add: dl'_def subset_insertI)
    next
      fix d assume d: "deliver_target env succeeds key user job_id targets t dl = acknowledge targets t d"
        "dl_done d = dl_done dl" "dl_stats d = dl_stats dl" "dl_failed d = dl_failed dl"
      then have "delivery_ok targets batch d" using assms(1) by (simp add: delivery_ok_def)
      from delivery_ok_acknowledge [OF this, of t] d open_batch show ?thesis
        by (simp add: dl'_def subset_insertI)
    qed
  qed
  then show "delivery_ok targets batch dl'" "dl_done dl \<subseteq> dl_done dl'" "dl_done dl' \<subseteq> insert t (dl_done dl)"
    "dl_failed dl \<longrightarrow> dl_failed dl'" "t \<in> dl_done dl' \<or> dl_failed dl'"
    "dl_failed dl' \<longrightarrow> dl_failed dl \<or> t \<notin> dl_done dl'" by blast+
qed

lemma deliver_targets_invariant:
  fixes env succeeds key user job_id
  assumes "delivery_ok targets batch dl" "set pending \<subseteq> set targets" "distinct pending"
  defines "final \<equiv> deliver_targets env succeeds key user job_id targets pending dl"
  shows "delivery_ok targets batch final \<and> dl_done dl \<subseteq> dl_done final \<and> dl_done final \<subseteq> dl_done dl \<union> set pending \<and>
    (dl_failed dl \<longrightarrow> dl_failed final) \<and> (\<not> dl_failed final \<longrightarrow> set pending \<subseteq> dl_done final) \<and>
    (dl_failed final \<longrightarrow> dl_failed dl \<or> (\<exists>t \<in> set pending. t \<notin> dl_done final))"
  using assms(1-3) unfolding final_def
proof (induction pending arbitrary: dl)
  case Nil
  then show ?case by (simp add: deliver_targets_def)
next
  case (Cons t pending)
  let ?dl = "deliver_target env succeeds key user job_id targets t dl"
  let ?final = "deliver_targets env succeeds key user job_id targets pending ?dl"
  have t: "t \<in> set targets" "t \<notin> set pending" using Cons.prems by auto
  note step = deliver_target_step [OF Cons.prems(1) t(1), of env succeeds key user job_id]
  have ih: "delivery_ok targets batch ?final" "dl_done ?dl \<subseteq> dl_done ?final"
    "dl_done ?final \<subseteq> dl_done ?dl \<union> set pending" "dl_failed ?dl \<longrightarrow> dl_failed ?final"
    "\<not> dl_failed ?final \<longrightarrow> set pending \<subseteq> dl_done ?final"
    "dl_failed ?final \<longrightarrow> dl_failed ?dl \<or> (\<exists>t \<in> set pending. t \<notin> dl_done ?final)"
    using Cons.IH [OF step(1)] Cons.prems(2,3) by auto
  have eq: "deliver_targets env succeeds key user job_id targets (t # pending) dl = ?final"
    by (simp add: deliver_targets_def)
  show ?case
    unfolding eq using ih step(2-6) t(2) by (intro conjI impI) (simp_all, blast+)
qed


definition sample_delivery :: delivery where
  "sample_delivery = \<lparr>dl_cycle = new_cycle 1,
     dl_stats = persist_stats [''queues''] (new_cycle 1) [], dl_done = {}, dl_failed = False, dl_flushed = []\<rparr>"

definition sample_job_db :: db where
  "sample_job_db = empty_db\<lparr>job_table := [new_sync_job 7 1 Manual 0]\<rparr>"

lemma sample_delivery_stats:
  "get (dl_stats sample_delivery) ''delivery_pending'' = VBool True"
  "stat_strings (dl_stats sample_delivery) ''delivery_done'' = []"
  by (simp_all add: sample_delivery_def persist_stats_def dict_merge_def stat_strings_def list_or_empty_def
      List.map_filter_def)




end
