(* ===== verification/CloudActions.thy ===== *)
theory CloudActions
  imports Gates PullCycle
begin

text \<open>
  \<open>core/cloud_actions.py\<close> and \<open>core/deletion_markers.py\<close>: the durable destructive writes to
  cloud trackers.  A reset is queued by an explicit local deletion, sent only while the title
  stays deleted and the provider's import is approved, and retried until it is acknowledged.  The
  provider clients are a parameter: \<open>outcome action call\<close> is the error a call raises, if any.
\<close>

section \<open>Deletion markers\<close>

definition marker_of :: "db \<Rightarrow> int \<Rightarrow> int \<Rightarrow> tracking_deletion option result" where
  "marker_of db user mid =
     scalar_one_or_none (filter (\<lambda>d. td_user_id d = user \<and> td_media_id d = mid) (deletion_table db))"

definition entry_of :: "db \<Rightarrow> int \<Rightarrow> int \<Rightarrow> tracked_entry option result" where
  "entry_of db user mid =
     scalar_one_or_none (filter (\<lambda>e. te_user_id e = user \<and> te_media_id e = mid) (entry_table db))"

text \<open>Whether a reset of the title for this target can still be delivered.\<close>

definition live_reset :: "db \<Rightarrow> int \<Rightarrow> int \<Rightarrow> string \<Rightarrow> bool result" where
  "live_reset db user mid target =
     (if is_connection_source target
      then (case int_of_str (drop 11 target) of
              None \<Rightarrow> Inl ValueError
            | Some cid \<Rightarrow> Inr (list_ex (\<lambda>a. sa_user_id a = user \<and> sa_media_id a = mid \<and> sa_connection_id a = cid
                \<and> sa_action a = ''reset'' \<and> sa_state a \<in> {''pending'', ''conflict''}) (stream_action_table db)))
      else Inr (list_ex (\<lambda>a. ca_user_id a = user \<and> ca_media_id a = mid \<and> ca_provider a = target
                \<and> ca_action a = ''reset'' \<and> ca_state a \<in> {''pending'', ''conflict''}) (cloud_action_table db)))"

definition remove_target :: "int \<Rightarrow> int \<Rightarrow> string \<Rightarrow> db \<Rightarrow> db" where
  "remove_target user mid target db =
     db\<lparr>deletion_table := update_where (\<lambda>d. td_user_id d = user \<and> td_media_id d = mid)
        (\<lambda>d. d\<lparr>td_pending_connections := filter (\<lambda>t. t \<noteq> target) (td_pending_connections d)\<rparr>) (deletion_table db)\<rparr>"

definition settle_reviews :: "int \<Rightarrow> int \<Rightarrow> (sync_review \<Rightarrow> bool) \<Rightarrow> string \<Rightarrow> db \<Rightarrow> db" where
  "settle_reviews user mid P state db =
     db\<lparr>review_table := update_where (\<lambda>r. sr_user_id r = user \<and> sr_media_id r = Some mid
            \<and> sr_kind r = ''outbound_pending'' \<and> P r)
        (\<lambda>r. r\<lparr>sr_state := state\<rparr>) (review_table db)\<rparr>"

definition settle_marker_target :: "int \<Rightarrow> int \<Rightarrow> string \<Rightarrow> db \<Rightarrow> db result" where
  "settle_marker_target user mid target db =
     and_then (live_reset db user mid target) (\<lambda>live.
       if live then Inr db
       else and_then (marker_of db user mid) (\<lambda>marker.
         case marker of None \<Rightarrow> Inr db
         | Some d \<Rightarrow>
           (let db' = remove_target user mid target db in
            if filter (\<lambda>t. t \<noteq> target) (td_pending_connections d) \<noteq> [] then Inr db'
            else Inr (settle_reviews user mid (\<lambda>r. sr_state r = ''pending'') ''corrected'' db'))))"

section \<open>Queueing a reset\<close>

definition episode_rows :: "media list \<Rightarrow> pyval list" where
  "episode_rows episodes =
     List.map_filter (\<lambda>row. case (m_season_number row, m_episode_number row) of
         (Some s, Some e) \<Rightarrow> if 0 < s then Some (VDict [(''season'', VInt s), (''episode'', VInt e)]) else None
       | _ \<Rightarrow> None) episodes"

definition opt_int_value :: "int option \<Rightarrow> pyval" where
  "opt_int_value v = (case v of None \<Rightarrow> VNone | Some i \<Rightarrow> VInt i)"

definition deletion_payload :: "media \<Rightarrow> media list \<Rightarrow> pydict" where
  "deletion_payload m episodes =
     [(''media_type'', VStr (media_type_value (m_media_type m))), (''tmdb_id'', opt_int_value (m_tmdb_id m))]
     @ (if m_media_type m = Series then [(''episodes'', VList (episode_rows episodes))] else [])"

definition nonempty :: "string option \<Rightarrow> bool" where
  "nonempty s \<longleftrightarrow> s \<noteq> None \<and> s \<noteq> Some []"

definition reset_providers :: "user_settings \<Rightarrow> string list" where
  "reset_providers s =
     (if nonempty (trakt_access_token (us_trakt s)) \<and> nonempty (trakt_client_id (us_trakt s))
         \<and> (trakt_push_watched (us_trakt s) \<or> trakt_push_ratings (us_trakt s)
            \<or> trakt_push_collection (us_trakt s) \<or> trakt_push_dropped (us_trakt s)) then [''trakt''] else [])
     @ (if nonempty (simkl_access_token (us_simkl s)) \<and> nonempty (simkl_client_id (us_simkl s))
         \<and> (simkl_push_watched (us_simkl s) \<or> simkl_push_ratings (us_simkl s)) then [''simkl''] else [])
     @ (if nonempty (mdblist_api_key (us_mdblist s))
         \<and> (mdblist_push_watched (us_mdblist s) \<or> mdblist_push_ratings (us_mdblist s)
            \<or> mdblist_push_watchlist (us_mdblist s) \<or> mdblist_push_dropped (us_mdblist s)) then [''mdblist''] else [])"

definition add_cloud_action :: "datetime \<Rightarrow> int \<Rightarrow> int \<Rightarrow> pydict \<Rightarrow> string \<Rightarrow> db \<Rightarrow> db" where
  "add_cloud_action now user mid payload provider db =
     db\<lparr>cloud_action_table := cloud_action_table db @
        [\<lparr>ca_id = next_id ca_id (cloud_action_table db), ca_user_id = user, ca_provider = provider,
          ca_media_id = mid, ca_action = ''reset'', ca_payload = payload, ca_state = ''pending'',
          ca_attempts = 0, ca_last_error = None, ca_created_at = now\<rparr>]\<rparr>"

definition queue_cloud_resets ::
  "datetime \<Rightarrow> int \<Rightarrow> media \<Rightarrow> media list \<Rightarrow> db \<Rightarrow> (string list \<times> db) result" where
  "queue_cloud_resets now user m episodes db =
     and_then (settings_of db user) (\<lambda>settings.
       case settings of None \<Rightarrow> Inr ([], db)
       | Some s \<Rightarrow> Inr (reset_providers s,
           fold (add_cloud_action now user (m_id m) (deletion_payload m episodes)) (reset_providers s) db))"

section \<open>The calls of a reset\<close>

datatype reset_call =
    RemoveMovieHistory string pyval
  | RemoveMovieRating string pyval
  | RemoveFromWatchlist string string pyval
  | RemoveEpisodeHistory string pyval pyval pyval
  | RemoveShowRating string pyval
  | RemoveFromHidden string pyval
  | MdblistRemove string pydict
  | MdblistRemoveDropped pyval
  | RaiseError py_error

text \<open>\<open>row["season"]\<close> and \<open>row["episode"]\<close>.\<close>

definition position_in :: "pyval \<Rightarrow> (pyval \<times> pyval) result" where
  "position_in row =
     (case as_dict row of None \<Rightarrow> Inl TypeError
      | Some d \<Rightarrow> (case (map_of d ''season'', map_of d ''episode'') of
                    (Some s, Some e) \<Rightarrow> Inr (s, e) | _ \<Rightarrow> Inl KeyError))"

definition episode_call :: "string \<Rightarrow> pyval \<Rightarrow> pyval \<Rightarrow> reset_call" where
  "episode_call provider tmdb_id row =
     (case position_in row of Inl e \<Rightarrow> RaiseError e | Inr (s, n) \<Rightarrow> RemoveEpisodeHistory provider tmdb_id s n)"

text \<open>\<open>sorted(seasons.items())\<close> over the integer season numbers.\<close>

definition season_groups :: "(int \<times> int) list \<Rightarrow> (int \<times> int list) list" where
  "season_groups rows = map (\<lambda>s. (s, map snd (filter (\<lambda>r. fst r = s) rows))) (sorted_list_of_set (fst ` set rows))"

definition int_position :: "pyval \<Rightarrow> (int \<times> int) result" where
  "int_position row =
     and_then (position_in row) (\<lambda>(s, e).
       case (as_int s, as_int e) of (Some i, Some j) \<Rightarrow> Inr (i, j) | _ \<Rightarrow> Inl TypeError)"

definition mdblist_payload :: "pydict \<Rightarrow> pydict result" where
  "mdblist_payload payload =
     (let ids = (''ids'', VDict [(''tmdb'', get payload ''tmdb_id'')]) in
      if get payload ''media_type'' = VStr ''movie'' then Inr [(''movies'', VList [VDict [ids]])]
      else and_then (map_result int_position (list_or_empty (get payload ''episodes''))) (\<lambda>rows.
        Inr [(''shows'', VList [VDict ([ids] @
          (if rows = [] then []
           else [(''seasons'', VList (map (\<lambda>(s, es). VDict [(''number'', VInt s),
                    (''episodes'', VList (map (\<lambda>e. VDict [(''number'', VInt e)]) es))]) (season_groups rows)))]))])]))"

definition reset_calls :: "string \<Rightarrow> pydict \<Rightarrow> reset_call list" where
  "reset_calls provider payload =
     (let tmdb = get payload ''tmdb_id''; is_movie = (get payload ''media_type'' = VStr ''movie'');
          episodes = list_or_empty (get payload ''episodes'') in
      if \<not> truthy tmdb then [RaiseError ValueError]
      else if provider = ''trakt'' then
        (if is_movie
         then [RemoveMovieHistory provider tmdb, RemoveMovieRating provider tmdb, RemoveFromWatchlist provider ''movies'' tmdb]
         else map (episode_call provider tmdb) episodes
              @ [RemoveShowRating provider tmdb, RemoveFromWatchlist provider ''shows'' tmdb, RemoveFromHidden ''dropped'' tmdb])
      else if provider = ''simkl'' then
        (if is_movie then [RemoveMovieHistory provider tmdb, RemoveMovieRating provider tmdb]
         else map (episode_call provider tmdb) episodes @ [RemoveShowRating provider tmdb])
      else if provider = ''mdblist'' then
        (case mdblist_payload payload of
           Inl e \<Rightarrow> [RaiseError e]
         | Inr body \<Rightarrow> [MdblistRemove ''watched'' body, MdblistRemove ''ratings'' body, MdblistRemove ''watchlist'' body]
                      @ (if is_movie then [] else [MdblistRemoveDropped tmdb]))
      else [RaiseError ValueError])"

text \<open>The calls are made in order; the first error ends the reset.\<close>

fun run_reset :: "(reset_call \<Rightarrow> py_error option) \<Rightarrow> reset_call list \<Rightarrow> reset_call list \<times> py_error option" where
  "run_reset outcome [] = ([], None)"
| "run_reset outcome (RaiseError e # calls) = ([], Some e)"
| "run_reset outcome (c # calls) =
     (case outcome c of Some e \<Rightarrow> ([c], Some e)
      | None \<Rightarrow> (let (made, err) = run_reset outcome calls in (c # made, err)))"

section \<open>Cancelling what can no longer be sent\<close>

definition push_flags :: "user_settings \<Rightarrow> string \<Rightarrow> bool" where
  "push_flags s provider \<longleftrightarrow>
     (if provider = ''trakt'' then trakt_push_watched (us_trakt s) \<or> trakt_push_ratings (us_trakt s)
         \<or> trakt_push_collection (us_trakt s) \<or> trakt_push_dropped (us_trakt s)
      else if provider = ''simkl'' then simkl_push_watched (us_simkl s) \<or> simkl_push_ratings (us_simkl s)
      else if provider = ''mdblist'' then mdblist_push_watched (us_mdblist s) \<or> mdblist_push_ratings (us_mdblist s)
         \<or> mdblist_push_watchlist (us_mdblist s) \<or> mdblist_push_collection (us_mdblist s) \<or> mdblist_push_dropped (us_mdblist s)
      else False)"

definition can_push :: "user_settings option \<Rightarrow> string \<Rightarrow> bool" where
  "can_push settings provider \<longleftrightarrow> (case settings of None \<Rightarrow> False | Some s \<Rightarrow> push_flags s provider)"

definition update_action :: "int \<Rightarrow> (cloud_action \<Rightarrow> cloud_action) \<Rightarrow> db \<Rightarrow> db" where
  "update_action aid f db = db\<lparr>cloud_action_table := update_where (\<lambda>a. ca_id a = aid) f (cloud_action_table db)\<rparr>"

text \<open>Rows in the order of their primary key.\<close>

definition by_id :: "cloud_action list \<Rightarrow> cloud_action list" where
  "by_id rows = sort_key ca_id rows"

definition cancel_disabled :: "int \<Rightarrow> user_settings option \<Rightarrow> cloud_action \<Rightarrow> db \<Rightarrow> db result" where
  "cancel_disabled user settings a db =
     (if can_push settings (ca_provider a) then Inr db
      else settle_marker_target user (ca_media_id a) (ca_provider a)
        (update_action (ca_id a) (\<lambda>r. r\<lparr>ca_state := ''cancelled'', ca_payload := [], ca_last_error := None\<rparr>) db))"

definition settle_disabled :: "int \<Rightarrow> user_settings option \<Rightarrow> int \<Rightarrow> string \<Rightarrow> db \<Rightarrow> db result" where
  "settle_disabled user settings mid provider db =
     (if provider \<in> set supported_clouds \<and> \<not> can_push settings provider
      then settle_marker_target user mid provider db else Inr db)"

definition pending_of :: "db \<Rightarrow> int \<Rightarrow> string list" where
  "pending_of db did = (case find (\<lambda>d. td_id d = did) (deletion_table db) of None \<Rightarrow> [] | Some d \<Rightarrow> td_pending_connections d)"

definition settle_marker :: "int \<Rightarrow> user_settings option \<Rightarrow> tracking_deletion \<Rightarrow> db \<Rightarrow> db result" where
  "settle_marker user settings d db =
     fold_result (settle_disabled user settings (td_media_id d)) (pending_of db (td_id d)) db"

definition cleanup_disabled_cloud_actions :: "int \<Rightarrow> user_settings option \<Rightarrow> db \<Rightarrow> db result" where
  "cleanup_disabled_cloud_actions user given db =
     and_then (case given of Some s \<Rightarrow> Inr (Some s) | None \<Rightarrow> settings_of db user) (\<lambda>settings.
     and_then (fold_result (cancel_disabled user settings)
         (by_id (filter (\<lambda>a. ca_user_id a = user \<and> ca_action a = ''reset'' \<and> ca_state a \<in> {''pending'', ''conflict''})
           (cloud_action_table db))) db) (\<lambda>db1.
       fold_result (settle_marker user settings)
         (filter (\<lambda>d. td_user_id d = user) (deletion_table db1)) db1))"

section \<open>Dispatch\<close>

text \<open>\<open>type(error).__name__\<close>.\<close>

fun error_name :: "py_error \<Rightarrow> string" where
  "error_name ValueError = ''ValueError''"
| "error_name TypeError = ''TypeError''"
| "error_name KeyError = ''KeyError''"
| "error_name RuntimeError = ''RuntimeError''"
| "error_name InvalidOperation = ''InvalidOperation''"
| "error_name MultipleResultsFound = ''MultipleResultsFound''"
| "error_name IntegrityError = ''IntegrityError''"
| "error_name (HTTPException n) = ''HTTPException''"
| "error_name (ProviderError s) = s"

type_synonym action_world = "db \<times> (cloud_action \<times> reset_call list) list"

definition acknowledge_reset :: "int \<Rightarrow> cloud_action \<Rightarrow> tracking_deletion \<Rightarrow> db \<Rightarrow> db" where
  "acknowledge_reset user a marker db =
     (let db1 = remove_target user (ca_media_id a) (ca_provider a)
            (update_action (ca_id a) (\<lambda>r. r\<lparr>ca_state := ''applied'', ca_last_error := None, ca_payload := []\<rparr>) db)
      in if filter (\<lambda>t. t \<noteq> ca_provider a) (td_pending_connections marker) = []
         then settle_reviews user (ca_media_id a) (\<lambda>_. True) ''confirmed'' db1 else db1)"

definition dispatch_action ::
  "(cloud_action \<Rightarrow> reset_call \<Rightarrow> py_error option) \<Rightarrow> int \<Rightarrow> user_settings option \<Rightarrow> cloud_action \<Rightarrow>
   action_world \<Rightarrow> action_world result" where
  "dispatch_action outcome user settings a w =
     (case w of (db, sent) \<Rightarrow>
      and_then (entry_of db user (ca_media_id a)) (\<lambda>entry.
      and_then (marker_of db user (ca_media_id a)) (\<lambda>marker.
        case marker of
          None \<Rightarrow> Inr (update_action (ca_id a) (\<lambda>r. r\<lparr>ca_state := ''cancelled'', ca_payload := []\<rparr>) db, sent)
        | Some d \<Rightarrow>
          if entry \<noteq> None \<or> ca_action a \<noteq> ''reset''
          then Inr (update_action (ca_id a) (\<lambda>r. r\<lparr>ca_state := ''cancelled'', ca_payload := []\<rparr>) db, sent)
          else case require_cloud_reconciliation db user (ca_provider a) of
            Inl (HTTPException n) \<Rightarrow> Inr (db, sent)
          | Inl e \<Rightarrow> Inl e
          | Inr _ \<Rightarrow>
              let db1 = update_action (ca_id a) (\<lambda>r. r\<lparr>ca_attempts := ca_attempts r + 1\<rparr>) db;
                  (made, err) = (if settings = None then ([], Some ValueError)
                                 else run_reset (outcome a) (reset_calls (ca_provider a) (ca_payload a)))
              in Inr (case err of
                        None \<Rightarrow> acknowledge_reset user a d db1
                      | Some e \<Rightarrow> update_action (ca_id a) (\<lambda>r. r\<lparr>ca_last_error := Some (error_name e)\<rparr>) db1,
                      sent @ [(a, made)]))))"

definition pending_actions :: "db \<Rightarrow> int \<Rightarrow> cloud_action list" where
  "pending_actions db user =
     take 25 (by_id (filter (\<lambda>a. ca_user_id a = user \<and> ca_state a = ''pending'') (cloud_action_table db)))"

definition dispatch_cloud_actions ::
  "(cloud_action \<Rightarrow> reset_call \<Rightarrow> py_error option) \<Rightarrow> cycle_states \<Rightarrow> int set \<Rightarrow> int \<Rightarrow> db \<Rightarrow> action_world result" where
  "dispatch_cloud_actions outcome states delivering user db =
     (if is_active states delivering user then Inr (db, [])
      else and_then (settings_of db user) (\<lambda>settings.
           and_then (cleanup_disabled_cloud_actions user settings db) (\<lambda>db1.
             fold_result (dispatch_action outcome user settings) (pending_actions db1 user) (db1, []))))"

section \<open>What a dispatch may send\<close>

text \<open>The tables the gates read are untouched by the work on actions, markers and their reviews.\<close>

definition same_gates :: "db \<Rightarrow> db \<Rightarrow> bool" where
  "same_gates db db' \<longleftrightarrow> entry_table db' = entry_table db \<and>
     cloud_baseline_table db' = cloud_baseline_table db \<and>
     map (\<lambda>d. (td_user_id d, td_media_id d)) (deletion_table db') = map (\<lambda>d. (td_user_id d, td_media_id d)) (deletion_table db) \<and>
     (\<forall>u p. cloud_conflict db' u p = cloud_conflict db u p)"

lemma same_gates_refl [simp]: "same_gates db db"
  by (simp add: same_gates_def)

lemma same_gates_trans: "same_gates a b \<Longrightarrow> same_gates b c \<Longrightarrow> same_gates a c"
  by (simp add: same_gates_def)

lemma same_gates_update_action [simp]: "same_gates db (update_action aid f db)"
  by (simp add: same_gates_def update_action_def cloud_conflict_def)

lemma same_gates_remove_target [simp]: "same_gates db (remove_target user mid target db)"
  by (simp add: same_gates_def remove_target_def cloud_conflict_def map_update_where)

lemma same_gates_settle_reviews [simp]: "same_gates db (settle_reviews user mid P state db)"
proof -
  have "cloud_conflict (settle_reviews user mid P state db) u p = cloud_conflict db u p" for u p
    unfolding cloud_conflict_def settle_reviews_def
    by (simp, rule list_ex_update_where) auto
  then show ?thesis by (simp add: same_gates_def settle_reviews_def)
qed

lemma settle_marker_target_result:
  assumes "settle_marker_target user mid target db = Inr db'"
  shows "db' = db \<or> db' = remove_target user mid target db \<or>
    db' = settle_reviews user mid (\<lambda>r. sr_state r = ''pending'') ''corrected'' (remove_target user mid target db)"
proof -
  from assms obtain live where live: "live_reset db user mid target = Inr live"
    by (auto simp: settle_marker_target_def and_then_Inr_iff)
  show ?thesis
  proof (cases live)
    case True
    with assms live show ?thesis by (simp add: settle_marker_target_def)
  next
    case False
    with assms live obtain marker where m: "marker_of db user mid = Inr marker"
      by (auto simp: settle_marker_target_def and_then_Inr_iff)
    with assms live False show ?thesis
      by (cases marker) (simp_all add: settle_marker_target_def Let_def split: if_splits)
  qed
qed

lemma same_gates_settle: "settle_marker_target user mid target db = Inr db' \<Longrightarrow> same_gates db db'"
  using settle_marker_target_result [of user mid target db db']
    same_gates_trans [OF same_gates_remove_target same_gates_settle_reviews] by auto

lemma same_gates_acknowledge: "same_gates db (acknowledge_reset user a marker db)"
  by (simp add: acknowledge_reset_def Let_def)
    (blast intro: same_gates_trans same_gates_update_action same_gates_remove_target same_gates_settle_reviews)

lemma same_gates_cleanup:
  assumes "cleanup_disabled_cloud_actions user given db = Inr db'"
  shows "same_gates db db'"
proof -
  from assms obtain settings db1 rows markers where
    one: "fold_result (cancel_disabled user settings) rows db = Inr db1" and
    two: "fold_result (settle_marker user settings) markers db1 = Inr db'"
    by (auto simp: cleanup_disabled_cloud_actions_def and_then_Inr_iff)
  have "same_gates db db1"
  proof (rule fold_result_invariant [OF one])
    fix a s s' assume "same_gates db s" and c: "cancel_disabled user settings a s = Inr s'"
    have "same_gates s s'"
    proof (cases "can_push settings (ca_provider a)")
      case False
      with c have "same_gates (update_action (ca_id a)
          (\<lambda>r. r\<lparr>ca_state := ''cancelled'', ca_payload := [], ca_last_error := None\<rparr>) s) s'"
        by (intro same_gates_settle) (simp add: cancel_disabled_def)
      with same_gates_update_action show ?thesis by (rule same_gates_trans)
    qed (use c in \<open>simp add: cancel_disabled_def\<close>)
    with \<open>same_gates db s\<close> show "same_gates db s'" by (rule same_gates_trans)
  qed simp
  moreover have "same_gates db1 db'"
  proof (rule fold_result_invariant [OF two])
    fix d s s' assume "same_gates db1 s" and m: "settle_marker user settings d s = Inr s'"
    have "same_gates s s'"
      by (rule fold_result_invariant [OF m [unfolded settle_marker_def]])
        (auto simp: settle_disabled_def split: if_splits intro: same_gates_trans same_gates_settle)
    with \<open>same_gates db1 s\<close> show "same_gates db1 s'" by (rule same_gates_trans)
  qed simp
  ultimately show ?thesis by (rule same_gates_trans)
qed

definition reset_allowed :: "db \<Rightarrow> int \<Rightarrow> cloud_action \<Rightarrow> bool" where
  "reset_allowed db user a \<longleftrightarrow> ca_action a = ''reset'' \<and>
     \<not> list_ex (\<lambda>e. te_user_id e = user \<and> te_media_id e = ca_media_id a) (entry_table db) \<and>
     (user, ca_media_id a) \<in> set (map (\<lambda>d. (td_user_id d, td_media_id d)) (deletion_table db)) \<and>
     cloud_push_is_approved db user (ca_provider a) = Inr True"

lemma reset_allowed_same_gates:
  assumes "same_gates db db'"
  shows "reset_allowed db' user a = reset_allowed db user a"
proof -
  have "cloud_push_is_approved db' u p = cloud_push_is_approved db u p" for u p
    using assms by (simp add: cloud_push_is_approved_eq baselines_of_def same_gates_def split: list.splits)
  with assms show ?thesis by (simp only: reset_allowed_def same_gates_def)
qed

lemma dispatch_action_cases:
  assumes "dispatch_action outcome user settings a (db, sent) = Inr (db', sent')"
  obtains (skipped) "sent' = sent" "db' = db \<or> db' = update_action (ca_id a) (\<lambda>r. r\<lparr>ca_state := ''cancelled'', ca_payload := []\<rparr>) db"
  | (tried) made err d where "sent' = sent @ [(a, made)]" "reset_allowed db user a"
      "(made, err) = (if settings = None then ([], Some ValueError)
                      else run_reset (outcome a) (reset_calls (ca_provider a) (ca_payload a)))"
      "db' = (let db1 = update_action (ca_id a) (\<lambda>r. r\<lparr>ca_attempts := ca_attempts r + 1\<rparr>) db in
              case err of None \<Rightarrow> acknowledge_reset user a d db1
              | Some e \<Rightarrow> update_action (ca_id a) (\<lambda>r. r\<lparr>ca_last_error := Some (error_name e)\<rparr>) db1)"
proof -
  from assms obtain entry marker where e: "entry_of db user (ca_media_id a) = Inr entry"
    and m: "marker_of db user (ca_media_id a) = Inr marker"
    by (auto simp: dispatch_action_def and_then_Inr_iff)
  show ?thesis
  proof (cases "marker = None \<or> entry \<noteq> None \<or> ca_action a \<noteq> ''reset''")
    case True
    with assms e m show ?thesis
      by (intro skipped) (auto simp: dispatch_action_def split: option.splits)
  next
    case False
    then obtain d where d: "marker = Some d" and none: "entry = None" and r: "ca_action a = ''reset''" by auto
    have noentry: "\<not> list_ex (\<lambda>e. te_user_id e = user \<and> te_media_id e = ca_media_id a) (entry_table db)"
      using e none by (auto simp: entry_of_def list_ex_iff filter_empty_conv)
    have "filter (\<lambda>d. td_user_id d = user \<and> td_media_id d = ca_media_id a) (deletion_table db) = [d]"
      using m d by (simp add: marker_of_def scalar_one_or_none_Some)
    then have "d \<in> set (filter (\<lambda>d. td_user_id d = user \<and> td_media_id d = ca_media_id a) (deletion_table db))"
      by simp
    then have hasmarker: "(user, ca_media_id a) \<in> set (map (\<lambda>d. (td_user_id d, td_media_id d)) (deletion_table db))"
      by force
    show ?thesis
    proof (cases "require_cloud_reconciliation db user (ca_provider a)")
      case (Inl err)
      then show ?thesis
        using assms e m d none r by (intro skipped) (cases err; simp add: dispatch_action_def)+
    next
      case (Inr b)
      then have allowed: "reset_allowed db user a"
        using r noentry hasmarker by (simp add: reset_allowed_def cloud_push_is_approved_def)
      obtain made err where me: "(made, err) = (if settings = None then ([], Some ValueError)
          else run_reset (outcome a) (reset_calls (ca_provider a) (ca_payload a)))" by (metis surj_pair)
      show ?thesis
        using assms Inr e m d none r
        by (intro tried [OF _ allowed me, of d]) (simp_all add: dispatch_action_def me [symmetric] Let_def)
    qed
  qed
qed

lemma dispatch_action_same_gates:
  assumes "dispatch_action outcome user settings a (db, sent) = Inr (db', sent')"
  shows "same_gates db db'"
  using assms
proof (cases rule: dispatch_action_cases)
  case skipped
  then show ?thesis by auto
next
  case (tried made err d)
  then show ?thesis
    by (auto simp: Let_def split: option.splits
        intro: same_gates_trans same_gates_update_action same_gates_acknowledge)
qed

interpretation resets: outbox "dispatch_action outcome user settings" snd "\<lambda>w s. reset_allowed (fst w) user (fst s)"
proof
  fix a and w w' :: action_world and s :: "cloud_action \<times> reset_call list"
  assume step: "dispatch_action outcome user settings a w = Inr w'"
  obtain db sent where w: "w = (db, sent)" by (cases w)
  obtain db' sent' where w': "w' = (db', sent')" by (cases w')
  show "reset_allowed (fst w') user (fst s) = reset_allowed (fst w) user (fst s)"
    using reset_allowed_same_gates [OF dispatch_action_same_gates [OF step [unfolded w w']]] by (simp add: w w')
  show "\<exists>new. snd w' = snd w @ new \<and> (\<forall>s \<in> set new. reset_allowed (fst w) user (fst s))"
    using step unfolding w w' by (cases rule: dispatch_action_cases) auto
qed


section \<open>An action is applied only when its provider did everything\<close>

lemma run_reset_complete:
  "run_reset outcome calls = (made, None) \<Longrightarrow> made = calls \<and> (\<forall>c \<in> set calls. outcome c = None)"
  by (induction outcome calls arbitrary: made rule: run_reset.induct)
    (auto split: option.splits prod.splits)

definition fully_sent :: "(cloud_action \<Rightarrow> reset_call \<Rightarrow> py_error option) \<Rightarrow> cloud_action \<times> reset_call list \<Rightarrow> bool" where
  "fully_sent outcome s \<longleftrightarrow> snd s = reset_calls (ca_provider (fst s)) (ca_payload (fst s)) \<and>
     (\<forall>c \<in> set (snd s). outcome (fst s) c = None)"

definition applied_ids :: "db \<Rightarrow> int set" where
  "applied_ids db = ca_id ` {a \<in> set (cloud_action_table db). ca_state a = ''applied''}"

lemma applied_ids_other:
  "(\<And>r. ca_id (f r) = ca_id r) \<Longrightarrow> (\<And>r. ca_state (f r) = ''applied'' \<Longrightarrow> ca_state r = ''applied'') \<Longrightarrow>
   applied_ids (update_action aid f db) \<subseteq> applied_ids db"
  by (auto simp: applied_ids_def update_action_def dest!: in_update_where split: if_splits)

lemma applied_ids_acknowledge: "applied_ids (acknowledge_reset user a marker db) \<subseteq> insert (ca_id a) (applied_ids db)"
  by (auto simp: applied_ids_def acknowledge_reset_def Let_def settle_reviews_def remove_target_def
      update_action_def dest!: in_update_where split: if_splits)

lemma applied_ids_settle: "settle_marker_target user mid target db = Inr db' \<Longrightarrow> applied_ids db' = applied_ids db"
  using settle_marker_target_result [of user mid target db db']
  by (auto simp: remove_target_def settle_reviews_def applied_ids_def)

lemma applied_ids_cleanup:
  assumes "cleanup_disabled_cloud_actions user given db = Inr db'"
  shows "applied_ids db' \<subseteq> applied_ids db"
proof -
  from assms obtain settings db1 rows markers where
    one: "fold_result (cancel_disabled user settings) rows db = Inr db1" and
    two: "fold_result (settle_marker user settings) markers db1 = Inr db'"
    by (auto simp: cleanup_disabled_cloud_actions_def and_then_Inr_iff)
  have "applied_ids db1 \<subseteq> applied_ids db"
  proof (rule fold_result_invariant [OF one])
    fix a s s' assume le: "applied_ids s \<subseteq> applied_ids db" and c: "cancel_disabled user settings a s = Inr s'"
    let ?u = "update_action (ca_id a) (\<lambda>r. r\<lparr>ca_state := ''cancelled'', ca_payload := [], ca_last_error := None\<rparr>) s"
    have "applied_ids ?u \<subseteq> applied_ids s" by (rule applied_ids_other) simp_all
    with le c show "applied_ids s' \<subseteq> applied_ids db"
      by (auto simp: cancel_disabled_def split: if_splits dest: applied_ids_settle)
  qed simp
  moreover have "applied_ids db' = applied_ids db1"
  proof (rule fold_result_invariant [OF two])
    fix d s s' assume le: "applied_ids s = applied_ids db1" and m: "settle_marker user settings d s = Inr s'"
    have "applied_ids s' = applied_ids s"
      by (rule fold_result_invariant [OF m [unfolded settle_marker_def]])
        (auto simp: settle_disabled_def split: if_splits dest: applied_ids_settle)
    with le show "applied_ids s' = applied_ids db1" by simp
  qed simp
  ultimately show ?thesis by simp
qed

lemma dispatch_action_applied:
  assumes "dispatch_action outcome user settings a (db, sent) = Inr (db', sent')"
    and "applied_ids db \<subseteq> old \<union> (\<lambda>s. ca_id (fst s)) ` {s \<in> set sent. fully_sent outcome s}"
  shows "applied_ids db' \<subseteq> old \<union> (\<lambda>s. ca_id (fst s)) ` {s \<in> set sent'. fully_sent outcome s}"
  using assms(1)
proof (cases rule: dispatch_action_cases)
  case skipped
  have "applied_ids (update_action (ca_id a) (\<lambda>r. r\<lparr>ca_state := ''cancelled'', ca_payload := []\<rparr>) db) \<subseteq> applied_ids db"
    by (rule applied_ids_other) simp_all
  with skipped assms(2) show ?thesis by auto
next
  case (tried made err d)
  let ?db1 = "update_action (ca_id a) (\<lambda>r. r\<lparr>ca_attempts := ca_attempts r + 1\<rparr>) db"
  have one: "applied_ids ?db1 \<subseteq> applied_ids db" by (rule applied_ids_other) simp_all
  show ?thesis
  proof (cases err)
    case None
    with tried(3) have "run_reset (outcome a) (reset_calls (ca_provider a) (ca_payload a)) = (made, None)"
      by (cases settings) simp_all
    from run_reset_complete [OF this] have "fully_sent outcome (a, made)" by (simp add: fully_sent_def)
    moreover have "applied_ids db' \<subseteq> insert (ca_id a) (applied_ids db)"
      using tried(4) None one applied_ids_acknowledge by (fastforce simp: Let_def)
    ultimately have "{s \<in> set sent'. fully_sent outcome s} = insert (a, made) {s \<in> set sent. fully_sent outcome s}"
      "applied_ids db' \<subseteq> insert (ca_id a) (applied_ids db)"
      using tried(1) by auto
    with assms(2) show ?thesis by auto
  next
    case (Some e)
    have "applied_ids (update_action (ca_id a) (\<lambda>r. r\<lparr>ca_last_error := Some (error_name e)\<rparr>) ?db1) \<subseteq> applied_ids ?db1"
      by (rule applied_ids_other) simp_all
    with one tried(1,4) Some assms(2) show ?thesis by (auto simp: Let_def)
  qed
qed

text \<open>An action that a dispatch turns into an applied one was sent completely: every call of its
  reset was made and none failed.\<close>

lemma dispatch_cloud_actions_applied:
  assumes "dispatch_cloud_actions outcome states delivering user db = Inr (db', sent)"
  shows "applied_ids db' \<subseteq> applied_ids db \<union> (\<lambda>s. ca_id (fst s)) ` {s \<in> set sent. fully_sent outcome s}"
proof (cases "is_active states delivering user")
  case True
  with assms show ?thesis by (simp add: dispatch_cloud_actions_def)
next
  case False
  with assms obtain settings db1 where
    clean: "cleanup_disabled_cloud_actions user settings db = Inr db1" and
    run: "fold_result (dispatch_action outcome user settings) (pending_actions db1 user) (db1, []) = Inr (db', sent)"
    by (auto simp: dispatch_cloud_actions_def and_then_Inr_iff)
  have "case (db', sent) of (d, s) \<Rightarrow>
      applied_ids d \<subseteq> applied_ids db \<union> (\<lambda>s. ca_id (fst s)) ` {x \<in> set s. fully_sent outcome x}"
  proof (rule fold_result_invariant [OF run])
    show "case (db1, []) of (d, s) \<Rightarrow>
        applied_ids d \<subseteq> applied_ids db \<union> (\<lambda>s. ca_id (fst s)) ` {x \<in> set s. fully_sent outcome x}"
      using applied_ids_cleanup [OF clean] by simp
    fix a and w w' :: action_world
    assume "case w of (d, s) \<Rightarrow>
        applied_ids d \<subseteq> applied_ids db \<union> (\<lambda>s. ca_id (fst s)) ` {x \<in> set s. fully_sent outcome x}"
      and "dispatch_action outcome user settings a w = Inr w'"
    then show "case w' of (d, s) \<Rightarrow>
        applied_ids d \<subseteq> applied_ids db \<union> (\<lambda>s. ca_id (fst s)) ` {x \<in> set s. fully_sent outcome x}"
      by (cases w, cases w') (simp only: prod.case dispatch_action_applied)
  qed
  then show ?thesis by simp
qed

text \<open>A deleted film of user 1, queued for an approved Trakt account.\<close>

definition sample_reset :: cloud_action where
  "sample_reset = \<lparr>ca_id = 1, ca_user_id = 1, ca_provider = ''trakt'', ca_media_id = 9, ca_action = ''reset'',
     ca_payload = [(''media_type'', VStr ''movie''), (''tmdb_id'', VInt 603)], ca_state = ''pending'',
     ca_attempts = 0, ca_last_error = None, ca_created_at = 0\<rparr>"

definition sample_reset_settings :: user_settings where
  "sample_reset_settings = (new_settings 1)\<lparr>us_trakt := new_trakt_settings\<lparr>trakt_push_watched := True\<rparr>\<rparr>"

definition sample_reset_db :: db where
  "sample_reset_db = sample_cloud_db\<lparr>settings_table := [sample_reset_settings],
     deletion_table := [\<lparr>td_id = 1, td_user_id = 1, td_media_id = 9, td_deleted_at = 0, td_pending_connections = [''trakt'']\<rparr>],
     cloud_action_table := [sample_reset]\<rparr>"

definition sample_reset_run :: "action_world result" where
  "sample_reset_run = dispatch_cloud_actions (\<lambda>_ _. None) Map.empty {} 1 sample_reset_db"

lemma sample_reset_runs: "\<exists>db'. sample_reset_run = Inr (db', [(sample_reset, reset_calls ''trakt'' (ca_payload sample_reset))])"
  by (simp add: sample_reset_run_def dispatch_cloud_actions_def is_active_def settings_of_def sample_reset_db_def
      sample_cloud_db_def empty_db_def sample_reset_settings_def new_settings_def new_trakt_settings_def
      cleanup_disabled_cloud_actions_def by_id_def sample_reset_def cancel_disabled_def can_push_def push_flags_def
      settle_marker_def pending_of_def settle_disabled_def pending_actions_def dispatch_action_def entry_of_def
      marker_of_def require_cloud_reconciliation_def cloud_baseline_of_def cloud_conflict_def reset_calls_def Let_def)


lemma dispatch_cloud_actions_applied_witness:
  "\<exists>db' sent. sample_reset_run = Inr (db', sent) \<and>
     applied_ids db' \<subseteq> applied_ids sample_reset_db \<union> (\<lambda>s. ca_id (fst s)) ` {s \<in> set sent. fully_sent (\<lambda>_ _. None) s}"
proof -
  from sample_reset_runs obtain db' sent where run: "sample_reset_run = Inr (db', sent)" by auto
  then have "dispatch_cloud_actions (\<lambda>_ _. None) Map.empty {} 1 sample_reset_db = Inr (db', sent)"
    by (simp add: sample_reset_run_def)
  from dispatch_cloud_actions_applied [OF this] run show ?thesis by blast
qed

section \<open>The body of an MDBList removal\<close>

definition season_value :: "int \<times> int list \<Rightarrow> pyval" where
  "season_value = (\<lambda>(s, es). VDict [(''number'', VInt s), (''episodes'', VList (map (\<lambda>e. VDict [(''number'', VInt e)]) es))])"

definition positions :: "media list \<Rightarrow> (int \<times> int) list" where
  "positions rows = List.map_filter (\<lambda>row. case (m_season_number row, m_episode_number row) of
     (Some s, Some e) \<Rightarrow> if 0 < s then Some (s, e) else None | _ \<Rightarrow> None) rows"

lemma episode_rows_positions: "map_result int_position (episode_rows rows) = Inr (positions rows)"
  by (induction rows)
    (auto simp: episode_rows_def positions_def List.map_filter_def int_position_def position_in_def split: option.splits)

lemma season_groups_complete:
  "(\<exists>es. (s, es) \<in> set (season_groups rows) \<and> e \<in> set es) \<longleftrightarrow> (s, e) \<in> set rows"
  by (force simp: season_groups_def image_iff)

lemma season_groups_sorted: "sorted_wrt (<) (map fst (season_groups rows))"
  by (simp add: season_groups_def comp_def strict_sorted_list_of_set)

text \<open>The body that removes a series from MDBList lists every regular episode of the deletion, each
  under its season, in ascending season order, and no special.\<close>

lemma mdblist_payload_of_series:
  assumes "m_media_type m = Series"
  shows "\<exists>groups. mdblist_payload (deletion_payload m rows) =
      Inr [(''shows'', VList [VDict ((''ids'', VDict [(''tmdb'', opt_int_value (m_tmdb_id m))]) #
        (if groups = [] then [] else [(''seasons'', VList (map season_value groups))]))])] \<and>
    sorted_wrt (<) (map fst groups) \<and>
    (\<forall>s e. (\<exists>es. (s, es) \<in> set groups \<and> e \<in> set es) \<longleftrightarrow>
       (\<exists>row \<in> set rows. m_season_number row = Some s \<and> m_episode_number row = Some e \<and> 0 < s))"
proof (intro exI [of _ "season_groups (positions rows)"] conjI allI)
  have "season_groups (positions rows) = [] \<longleftrightarrow> positions rows = []"
    by (simp add: season_groups_def)
  then show "mdblist_payload (deletion_payload m rows) =
      Inr [(''shows'', VList [VDict ((''ids'', VDict [(''tmdb'', opt_int_value (m_tmdb_id m))]) #
        (if season_groups (positions rows) = [] then []
         else [(''seasons'', VList (map season_value (season_groups (positions rows))))]))])]"
    using assms
    by (simp add: mdblist_payload_def deletion_payload_def Let_def list_or_empty_def episode_rows_positions
        season_value_def)
  show "sorted_wrt (<) (map fst (season_groups (positions rows)))" by (rule season_groups_sorted)
  fix s e
  have "(s, e) \<in> set (positions rows) \<longleftrightarrow>
      (\<exists>row \<in> set rows. m_season_number row = Some s \<and> m_episode_number row = Some e \<and> 0 < s)"
    by (induction rows) (auto simp: positions_def List.map_filter_def split: option.splits)
  then show "(\<exists>es. (s, es) \<in> set (season_groups (positions rows)) \<and> e \<in> set es) \<longleftrightarrow>
      (\<exists>row \<in> set rows. m_season_number row = Some s \<and> m_episode_number row = Some e \<and> 0 < s)"
    by (simp only: season_groups_complete)
qed

lemma mdblist_payload_of_series_witness:
  "\<exists>groups. mdblist_payload (deletion_payload (new_media 1 Series ''Show'' (Some 7) 0)
      [(new_media 2 Episode ''E'' None 0)\<lparr>m_season_number := Some 1, m_episode_number := Some 3\<rparr>]) =
    Inr [(''shows'', VList [VDict ((''ids'', VDict [(''tmdb'', opt_int_value (Some 7))]) #
      (if groups = [] then [] else [(''seasons'', VList (map season_value groups))]))])]"
  using mdblist_payload_of_series [of "new_media 1 Series ''Show'' (Some 7) 0"
      "[(new_media 2 Episode ''E'' None 0)\<lparr>m_season_number := Some 1, m_episode_number := Some 3\<rparr>]"]
  by (auto simp: new_media_def)

end
