(* ===== verification/WatchIntents.thy ===== *)
theory WatchIntents
  imports CloudActions CycleFlush
begin

text \<open>
  \<open>core/watch_intents.py\<close>: the durable queue of watched-state writes to Nuvio and Stremio.  One
  row per connection and title carries what should be true there; the dispatcher re-reads the
  viewing history before every write.  What a provider answers is the parameter \<open>outcome\<close>; the
  writes themselves (\<open>_write_provider_watch_state\<close>, \<open>stremio_delivery\<close>, \<open>nuvio_visibility\<close>)
  appear as the calls the dispatcher makes.
\<close>

section \<open>The canonical watched state\<close>

definition completed_events :: "db \<Rightarrow> int \<Rightarrow> int \<Rightarrow> watch_event list" where
  "completed_events db user mid =
     filter (\<lambda>e. we_user_id e = user \<and> we_media_id e = mid \<and> we_completed e) (watch_event_table db)"

text \<open>\<open>order_by(watched_at.desc().nulls_last(), id.desc()).limit(1)\<close>: without a date is least.\<close>

definition current_watch_event :: "db \<Rightarrow> int \<Rightarrow> int \<Rightarrow> watch_event option" where
  "current_watch_event db user mid =
     (let rows = sort_key (\<lambda>e. (we_watched_at e, we_id e)) (completed_events db user mid)
      in if rows = [] then None else Some (last rows))"

definition watched_time :: "watch_event option \<Rightarrow> datetime option" where
  "watched_time e = (case e of None \<Rightarrow> None | Some x \<Rightarrow> opt_or (we_watched_at x) (Some (we_created_at x)))"

section \<open>Queueing\<close>

text \<open>The effect of \<open>_refresh_intent\<close> on a row.\<close>

definition refresh_intent :: "bool \<Rightarrow> watch_intent \<Rightarrow> watch_intent" where
  "refresh_intent desired r =
     r\<lparr>wi_desired_watched := desired, wi_state := ''pending'', wi_attempts := 0, wi_last_error := None\<rparr>"

definition suppressed_ids :: "pydict \<Rightarrow> int set" where
  "suppressed_ids snapshot =
     set (List.map_filter (\<lambda>v. case as_int v of Some i \<Rightarrow> if 0 \<le> i \<and> \<not> is_bool v then Some i else None
         | None \<Rightarrow> (case as_str v of Some s \<Rightarrow> if isdigit s then int_of_str s else None | None \<Rightarrow> None))
       (list_or_empty (get snapshot ''playback_clear_watch_visibility_suppressed'')))"

definition unsuppress :: "int set \<Rightarrow> stream_baseline \<Rightarrow> stream_baseline" where
  "unsuppress ids b =
     (let suppressed = suppressed_ids (sb_snapshot b) in
      if suppressed \<inter> ids = {} then b
      else b\<lparr>sb_snapshot := dict_set ''playback_clear_watch_visibility_suppressed''
              (VList (map VInt (sorted_list_of_set (suppressed - ids)))) (sb_snapshot b)\<rparr>)"

definition unsuppress_baseline :: "int \<Rightarrow> int set \<Rightarrow> db \<Rightarrow> db" where
  "unsuppress_baseline cid ids db =
     db\<lparr>stream_baseline_table := update_where (\<lambda>b. sb_connection_id b = cid) (unsuppress ids) (stream_baseline_table db)\<rparr>"

definition new_intent :: "datetime \<Rightarrow> int \<Rightarrow> int \<Rightarrow> int \<Rightarrow> bool \<Rightarrow> db \<Rightarrow> watch_intent" where
  "new_intent now user cid mid desired db =
     \<lparr>wi_id = next_id wi_id (watch_intent_table db), wi_user_id = user, wi_connection_id = cid, wi_media_id = mid,
      wi_desired_watched = desired, wi_state = ''pending'', wi_attempts = 0, wi_last_error = None,
      wi_created_at = now, wi_updated_at = now\<rparr>"

definition intents_for :: "db \<Rightarrow> int \<Rightarrow> int \<Rightarrow> watch_intent list" where
  "intents_for db cid mid =
     filter (\<lambda>r. wi_connection_id r = cid \<and> wi_media_id r = mid) (watch_intent_table db)"

definition queue_intent :: "datetime \<Rightarrow> int \<Rightarrow> int set \<Rightarrow> int \<Rightarrow> int \<Rightarrow> db \<Rightarrow> db result" where
  "queue_intent now user watched cid mid db =
     and_then (scalar_one_or_none (intents_for db cid mid)) (\<lambda>found.
       case found of
         None \<Rightarrow> Inr (db\<lparr>watch_intent_table := watch_intent_table db @ [new_intent now user cid mid (mid \<in> watched) db]\<rparr>)
       | Some r \<Rightarrow> Inr (db\<lparr>watch_intent_table := update_where
             (\<lambda>r. wi_connection_id r = cid \<and> wi_media_id r = mid)
             (touch_intent now (refresh_intent (mid \<in> watched))) (watch_intent_table db)\<rparr>))"

definition intent_connections :: "db \<Rightarrow> destination \<Rightarrow> int \<Rightarrow> int set \<Rightarrow> connection list result" where
  "intent_connections db destination user excluded =
     and_then (connection_clause destination) (\<lambda>clause.
       Inr (filter (\<lambda>c. c_user_id c = user \<and> c_type c \<in> {''nuvio'', ''stremio''} \<and> c_push_watched c
              \<and> clause (c_id c) \<and> c_id c \<notin> excluded) (connection_table db)))"

definition queue_connection :: "datetime \<Rightarrow> int \<Rightarrow> int set \<Rightarrow> int set \<Rightarrow> connection \<Rightarrow> db \<Rightarrow> db result" where
  "queue_connection now user watched ids conn db =
     fold_result (queue_intent now user watched (c_id conn)) (sorted_list_of_set ids)
       (unsuppress_baseline (c_id conn) ids db)"

text \<open>The number of queued rows and the database.\<close>

definition queue_watch_intents ::
  "datetime \<Rightarrow> destination \<Rightarrow> int \<Rightarrow> int set \<Rightarrow> int set \<Rightarrow> db \<Rightarrow> (nat \<times> db) result" where
  "queue_watch_intents now destination user ids excluded db =
     (if ids = {} then Inr (0, db)
      else and_then (intent_connections db destination user excluded) (\<lambda>conns.
           and_then (fold_result (queue_connection now user (watched_ids db user \<inter> ids) ids) conns db) (\<lambda>db'.
             Inr (length conns * card ids, db'))))"

section \<open>Dispatch\<close>

datatype intent_call =
    StremioPush int "(int \<times> bool) list"
  | NuvioWrite int int bool "datetime option"
  | NuvioVisibility int "int list"

record intent_world =
  iw_db :: db
  iw_sent :: "intent_call list"
  iw_processed :: "int set"
  iw_visible :: "(int \<times> int list) list"

definition update_intent :: "datetime \<Rightarrow> int \<Rightarrow> (watch_intent \<Rightarrow> watch_intent) \<Rightarrow> db \<Rightarrow> db" where
  "update_intent now wid f db =
     db\<lparr>watch_intent_table := update_where (\<lambda>r. wi_id r = wid) (touch_intent now f) (watch_intent_table db)\<rparr>"

definition cancel_intent :: "watch_intent \<Rightarrow> watch_intent" where
  "cancel_intent r = r\<lparr>wi_state := ''cancelled'', wi_last_error := None\<rparr>"

definition apply_intent :: "watch_intent \<Rightarrow> watch_intent" where
  "apply_intent r = r\<lparr>wi_state := ''applied'', wi_last_error := None\<rparr>"

definition fail_intent :: "py_error \<Rightarrow> watch_intent \<Rightarrow> watch_intent" where
  "fail_intent e r = r\<lparr>wi_last_error := Some (error_name e)\<rparr>"

definition find_connection :: "db \<Rightarrow> int \<Rightarrow> connection option" where
  "find_connection db cid = find (\<lambda>c. c_id c = cid) (connection_table db)"

definition find_media :: "db \<Rightarrow> int \<Rightarrow> media option" where
  "find_media db mid = find (\<lambda>m. m_id m = mid) (media_table db)"

definition is_watched :: "db \<Rightarrow> int \<Rightarrow> int \<Rightarrow> bool" where
  "is_watched db user mid \<longleftrightarrow> current_watch_event db user mid \<noteq> None"

text \<open>The pending delta of one Stremio account is written as a whole.\<close>

definition prepare_row :: "datetime \<Rightarrow> int \<Rightarrow> watch_intent \<Rightarrow> db \<Rightarrow> db" where
  "prepare_row now user row db =
     (case find_media db (wi_media_id row) of
        None \<Rightarrow> update_intent now (wi_id row) cancel_intent db
      | Some _ \<Rightarrow> update_intent now (wi_id row)
          (\<lambda>r. r\<lparr>wi_desired_watched := is_watched db user (wi_media_id row), wi_attempts := wi_attempts r + 1\<rparr>) db)"

definition stremio_overrides :: "db \<Rightarrow> int \<Rightarrow> watch_intent list \<Rightarrow> (int \<times> bool) list" where
  "stremio_overrides db user batch =
     map (\<lambda>row. (wi_media_id row, is_watched db user (wi_media_id row)))
       (filter (\<lambda>row. find_media db (wi_media_id row) \<noteq> None) batch)"

definition dispatch_stremio ::
  "(intent_call \<Rightarrow> py_error option) \<Rightarrow> datetime \<Rightarrow> int \<Rightarrow> watch_intent list \<Rightarrow> int \<Rightarrow> intent_world \<Rightarrow> intent_world" where
  "dispatch_stremio outcome now user intents cid w =
     (let batch = filter (\<lambda>r. wi_connection_id r = cid) intents;
          overrides = stremio_overrides (iw_db w) user batch;
          call = StremioPush cid overrides;
          finish = (case outcome call of Some e \<Rightarrow> fail_intent e | None \<Rightarrow> apply_intent);
          db1 = fold (prepare_row now user) batch (iw_db w);
          db2 = fold (\<lambda>r. update_intent now (wi_id r) finish)
                  (filter (\<lambda>r. wi_media_id r \<in> fst ` set overrides) batch) db1
      in w\<lparr>iw_db := db2, iw_sent := iw_sent w @ [call], iw_processed := iw_processed w \<union> wi_id ` set batch\<rparr>)"

definition dispatch_nuvio ::
  "(intent_call \<Rightarrow> py_error option) \<Rightarrow> datetime \<Rightarrow> int \<Rightarrow> watch_intent \<Rightarrow> intent_world \<Rightarrow> intent_world" where
  "dispatch_nuvio outcome now user intent w =
     (let db = iw_db w; mid = wi_media_id intent; cid = wi_connection_id intent;
          event = current_watch_event db user mid;
          call = NuvioWrite cid mid (event \<noteq> None) (watched_time event);
          tried = update_intent now (wi_id intent) (\<lambda>r. r\<lparr>wi_attempts := wi_attempts r + 1\<rparr>) db
      in case outcome call of
           Some e \<Rightarrow> w\<lparr>iw_db := update_intent now (wi_id intent) (fail_intent e) tried, iw_sent := iw_sent w @ [call]\<rparr>
         | None \<Rightarrow>
             w\<lparr>iw_db := update_intent now (wi_id intent) apply_intent tried, iw_sent := iw_sent w @ [call],
               iw_visible := (if mid \<in> suppressed_ids (baseline_snapshot (stream_baseline_of db cid)) then iw_visible w
                              else dict_alter cid [] (\<lambda>ids. ids @ [wi_id intent]) (iw_visible w))\<rparr>)"

definition dispatch_intent ::
  "(intent_call \<Rightarrow> py_error option) \<Rightarrow> datetime \<Rightarrow> int option \<Rightarrow> int \<Rightarrow> watch_intent list \<Rightarrow>
   watch_intent \<Rightarrow> intent_world \<Rightarrow> intent_world result" where
  "dispatch_intent outcome now handoff user intents intent w =
     (let db = iw_db w; cancelled = w\<lparr>iw_db := update_intent now (wi_id intent) cancel_intent db\<rparr> in
      if wi_id intent \<in> iw_processed w then Inr w
      else case find_connection db (wi_connection_id intent) of
        None \<Rightarrow> Inr cancelled
      | Some conn \<Rightarrow>
        if c_type conn \<notin> {''nuvio'', ''stremio''} \<or> \<not> c_push_watched conn then Inr cancelled
        else if find_media db (wi_media_id intent) = None then Inr cancelled
        else
          let w1 = w\<lparr>iw_db := update_intent now (wi_id intent)
                (\<lambda>r. r\<lparr>wi_desired_watched := is_watched db user (wi_media_id intent)\<rparr>) db\<rparr>
          in case require_stream_reconciliation (iw_db w1) handoff conn of
               Inl (HTTPException n) \<Rightarrow> Inr w1
             | Inl e \<Rightarrow> Inl e
             | Inr _ \<Rightarrow>
                 Inr (if c_type conn = ''stremio''
                      then dispatch_stremio outcome now user intents (wi_connection_id intent) w1
                      else dispatch_nuvio outcome now user intent w1))"

text \<open>A failed visibility update puts the writes it belongs to back into the queue.\<close>

definition publish_visibility ::
  "(intent_call \<Rightarrow> py_error option) \<Rightarrow> datetime \<Rightarrow> int \<times> int list \<Rightarrow> intent_world \<Rightarrow> intent_world" where
  "publish_visibility outcome now batch w =
     (let call = NuvioVisibility (fst batch) (snd batch);
          sent = w\<lparr>iw_sent := iw_sent w @ [call]\<rparr>
      in case outcome call of
           None \<Rightarrow> sent
         | Some e \<Rightarrow> sent\<lparr>iw_db := fold (\<lambda>wid. update_intent now wid
               (\<lambda>r. r\<lparr>wi_state := ''pending'', wi_last_error := Some (error_name e)\<rparr>)) (snd batch) (iw_db w)\<rparr>)"

definition pending_intents :: "db \<Rightarrow> int \<Rightarrow> watch_intent list" where
  "pending_intents db user =
     sort_key (\<lambda>r. (wi_attempts r, - wi_updated_at r, - wi_id r))
       (filter (\<lambda>r. wi_user_id r = user \<and> wi_state r = ''pending'') (watch_intent_table db))"

definition dispatch_watch_intents ::
  "(intent_call \<Rightarrow> py_error option) \<Rightarrow> datetime \<Rightarrow> int option \<Rightarrow> cycle_states \<Rightarrow> int set \<Rightarrow> int \<Rightarrow> db \<Rightarrow>
   intent_world result" where
  "dispatch_watch_intents outcome now handoff states delivering user db =
     (let start = \<lparr>iw_db = db, iw_sent = [], iw_processed = {}, iw_visible = []\<rparr> in
      if is_active states delivering user then Inr start
      else
        let intents = take 100 (pending_intents db user) in
        and_then (fold_result (dispatch_intent outcome now handoff user intents) intents start) (\<lambda>w.
          Inr (fold (publish_visibility outcome now) (iw_visible w) w)))"

section \<open>Writes project the latest local truth\<close>

definition only_intents :: "db \<Rightarrow> db \<Rightarrow> bool" where
  "only_intents db db' \<longleftrightarrow> db' = db\<lparr>watch_intent_table := watch_intent_table db'\<rparr>"

lemma only_intents_refl [simp]: "only_intents db db"
  by (simp add: only_intents_def)

lemma only_intents_trans: "only_intents a b \<Longrightarrow> only_intents b c \<Longrightarrow> only_intents a c"
  unfolding only_intents_def by (metis db.surjective db.update_convs(15))

lemma only_intents_update [simp]: "only_intents db (update_intent now wid f db)"
  by (simp add: only_intents_def update_intent_def)

lemma only_intents_prepare [simp]: "only_intents db (prepare_row now user row db)"
  by (simp add: prepare_row_def split: option.split)

lemma only_intents_fold: "(\<And>x d. only_intents d (f x d)) \<Longrightarrow> only_intents db (fold f xs db)"
  by (induction xs arbitrary: db) (auto intro: only_intents_trans)

text \<open>What a call of the dispatcher must be: through the gate of its connection, and with the state
  the viewing history shows.\<close>

definition connection_open :: "db \<Rightarrow> int option \<Rightarrow> string \<Rightarrow> int \<Rightarrow> bool" where
  "connection_open db handoff kind cid \<longleftrightarrow>
     (\<exists>conn. find_connection db cid = Some conn \<and> c_type conn = kind \<and> c_push_watched conn \<and>
        require_stream_reconciliation db handoff conn = Inr ())"

fun call_ok :: "db \<Rightarrow> int option \<Rightarrow> int \<Rightarrow> intent_call \<Rightarrow> bool" where
  "call_ok db handoff user (StremioPush cid overrides) \<longleftrightarrow> connection_open db handoff ''stremio'' cid \<and>
     (\<forall>(mid, watched) \<in> set overrides. watched = is_watched db user mid)"
| "call_ok db handoff user (NuvioWrite cid mid watched at_time) \<longleftrightarrow> connection_open db handoff ''nuvio'' cid \<and>
     watched = is_watched db user mid \<and> at_time = watched_time (current_watch_event db user mid)"
| "call_ok db handoff user (NuvioVisibility cid ids) \<longleftrightarrow> True"

declare call_ok.simps [simp del]

lemma gate_of_intents:
  assumes "db' = db\<lparr>watch_intent_table := rows\<rparr>"
  shows "require_stream_reconciliation db' handoff conn = require_stream_reconciliation db handoff conn"
    "find_connection db' cid = find_connection db cid"
    "current_watch_event db' user mid = current_watch_event db user mid"
    "find_media db' mid = find_media db mid"
  by (simp_all add: assms require_stream_reconciliation_def active_clear_def stream_conflict_def
      stream_baseline_of_def onboarding_pending_def Let_def find_connection_def current_watch_event_def
      completed_events_def find_media_def)

lemma call_ok_intents:
  assumes "only_intents db db'"
  shows "call_ok db' handoff user call = call_ok db handoff user call"
proof -
  have "db' = db\<lparr>watch_intent_table := watch_intent_table db'\<rparr>" using assms by (simp add: only_intents_def)
  note same = gate_of_intents [OF this]
  show ?thesis by (cases call) (simp_all only: call_ok.simps connection_open_def is_watched_def same)
qed

lemma dispatch_stremio_effect:
  "only_intents (iw_db w) (iw_db (dispatch_stremio outcome now user intents cid w))"
  "iw_sent (dispatch_stremio outcome now user intents cid w) =
     iw_sent w @ [StremioPush cid (stremio_overrides (iw_db w) user (filter (\<lambda>r. wi_connection_id r = cid) intents))]"
  by (auto simp: dispatch_stremio_def Let_def intro!: only_intents_trans [OF only_intents_fold only_intents_fold])

lemma dispatch_nuvio_effect:
  "only_intents (iw_db w) (iw_db (dispatch_nuvio outcome now user intent w))"
  "iw_sent (dispatch_nuvio outcome now user intent w) = iw_sent w @
     [NuvioWrite (wi_connection_id intent) (wi_media_id intent) (is_watched (iw_db w) user (wi_media_id intent))
       (watched_time (current_watch_event (iw_db w) user (wi_media_id intent)))]"
  by (auto simp: dispatch_nuvio_def Let_def is_watched_def split: option.splits
      intro: only_intents_trans [OF only_intents_update only_intents_update])

lemma dispatch_intent_effect:
  assumes "dispatch_intent outcome now handoff user intents intent w = Inr w'"
  shows "only_intents (iw_db w) (iw_db w') \<and>
    (\<exists>new. iw_sent w' = iw_sent w @ new \<and> (\<forall>c \<in> set new. call_ok (iw_db w) handoff user c))"
proof -
  let ?cid = "wi_connection_id intent"
  let ?w1 = "w\<lparr>iw_db := update_intent now (wi_id intent)
      (\<lambda>r. r\<lparr>wi_desired_watched := is_watched (iw_db w) user (wi_media_id intent)\<rparr>) (iw_db w)\<rparr>"
  have stay: ?thesis if "only_intents (iw_db w) (iw_db w')" "iw_sent w' = iw_sent w"
    using that by auto
  show ?thesis
  proof (cases "wi_id intent \<in> iw_processed w \<or> find_connection (iw_db w) ?cid = None \<or>
      find_media (iw_db w) (wi_media_id intent) = None")
    case True
    with assms show ?thesis
      by (intro stay) (auto simp: dispatch_intent_def Let_def split: option.splits if_splits)
  next
    case False
    then obtain conn where conn: "find_connection (iw_db w) ?cid = Some conn" by auto
    show ?thesis
    proof (cases "c_type conn \<notin> {''nuvio'', ''stremio''} \<or> \<not> c_push_watched conn \<or>
        require_stream_reconciliation (iw_db ?w1) handoff conn \<noteq> Inr ()")
      case True
      with assms False conn show ?thesis
        by (intro stay) (auto simp: dispatch_intent_def Let_def split: if_splits sum.splits py_error.splits)
    next
      case go: False
      have w': "w' = (if c_type conn = ''stremio'' then dispatch_stremio outcome now user intents ?cid ?w1
                      else dispatch_nuvio outcome now user intent ?w1)"
      proof -
        have "c_type conn = ''nuvio'' \<or> c_type conn = ''stremio''" using go by simp
        then show ?thesis
          by (elim disjE) (use assms False conn go in \<open>auto simp: dispatch_intent_def Let_def\<close>)
      qed
      have one: "only_intents (iw_db w) (iw_db ?w1)" by simp
      have sent1: "iw_sent ?w1 = iw_sent w" by simp
      have open1: "connection_open (iw_db ?w1) handoff (c_type conn) ?cid"
      proof -
        have "find_connection (iw_db ?w1) ?cid = Some conn"
          using gate_of_intents(2) [OF one [unfolded only_intents_def]] conn by (rule trans)
        with go show ?thesis unfolding connection_open_def by blast
      qed
      have call: "call_ok (iw_db w) handoff user c" if "call_ok (iw_db ?w1) handoff user c" for c
        using that call_ok_intents [OF one] by simp
      show ?thesis
      proof (cases "c_type conn = ''stremio''")
        case True
        let ?call = "StremioPush ?cid
            (stremio_overrides (iw_db ?w1) user (filter (\<lambda>r. wi_connection_id r = ?cid) intents))"
        have "call_ok (iw_db ?w1) handoff user ?call"
          using open1 True by (auto simp: stremio_overrides_def call_ok.simps)
        then have ok: "call_ok (iw_db w) handoff user ?call" by (rule call)
        have w'': "w' = dispatch_stremio outcome now user intents ?cid ?w1" using w' True by simp
        have "only_intents (iw_db w) (iw_db w')"
          unfolding w'' by (rule only_intents_trans [OF one dispatch_stremio_effect(1)])
        moreover have "iw_sent w' = iw_sent w @ [?call]"
          unfolding w'' by (simp only: dispatch_stremio_effect(2) sent1)
        ultimately show ?thesis using ok by (intro conjI exI [of _ "[?call]"]) simp_all
      next
        case nuvio: False
        let ?call = "NuvioWrite ?cid (wi_media_id intent) (is_watched (iw_db ?w1) user (wi_media_id intent))
            (watched_time (current_watch_event (iw_db ?w1) user (wi_media_id intent)))"
        from nuvio go open1 have "connection_open (iw_db ?w1) handoff ''nuvio'' ?cid" by auto
        then have "call_ok (iw_db ?w1) handoff user ?call" by (simp only: call_ok.simps simp_thms)
        then have ok: "call_ok (iw_db w) handoff user ?call" by (rule call)
        have w'': "w' = dispatch_nuvio outcome now user intent ?w1" using w' nuvio by simp
        have "only_intents (iw_db w) (iw_db w')"
          unfolding w'' by (rule only_intents_trans [OF one dispatch_nuvio_effect(1)])
        moreover have "iw_sent w' = iw_sent w @ [?call]"
          unfolding w'' by (simp only: dispatch_nuvio_effect(2) sent1)
        ultimately show ?thesis using ok by (intro conjI exI [of _ "[?call]"]) simp_all
      qed
    qed
  qed
qed

interpretation intents: outbox "dispatch_intent outcome now handoff user queue" iw_sent
    "\<lambda>w c. call_ok (iw_db w) handoff user c"
  by unfold_locales (use dispatch_intent_effect call_ok_intents in blast)+

lemma publish_sent:
  "c \<in> set (iw_sent (fold (publish_visibility outcome now) batches w)) \<Longrightarrow>
   c \<in> set (iw_sent w) \<or> (\<exists>cid ids. c = NuvioVisibility cid ids)"
proof (induction batches arbitrary: w)
  case Nil
  then show ?case by simp
next
  case (Cons b batches)
  then have "c \<in> set (iw_sent (publish_visibility outcome now b w)) \<or> (\<exists>cid ids. c = NuvioVisibility cid ids)"
    by simp
  then show ?case by (auto simp: publish_visibility_def Let_def split: option.splits)
qed


text \<open>A watched film with a queued write to an approved Nuvio account.\<close>

definition sample_nuvio :: connection where
  "sample_nuvio = (new_connection 4 1 ''nuvio'' [] [] [] 0)\<lparr>c_push_watched := True\<rparr>"

definition sample_intent :: watch_intent where
  "sample_intent = \<lparr>wi_id = 1, wi_user_id = 1, wi_connection_id = 4, wi_media_id = 10,
       wi_desired_watched = False, wi_state = ''pending'', wi_attempts = 3, wi_last_error = None,
       wi_created_at = 0, wi_updated_at = 0\<rparr>"

definition sample_intent_db :: db where
  "sample_intent_db = empty_db\<lparr>
     media_table := [new_media 10 Movie ''Film'' (Some 603) 0],
     connection_table := [sample_nuvio],
     stream_baseline_table := [\<lparr>sb_connection_id = 4, sb_user_id = 1, sb_snapshot = [], sb_approved = True, sb_observed_at = 0\<rparr>],
     watch_event_table := [new_watch_event 1 1 10 (Some 5) True 0],
     watch_intent_table := [sample_intent]\<rparr>"

lemma sample_nuvio_fields [simp]:
  "c_id sample_nuvio = 4" "c_user_id sample_nuvio = 1" "c_type sample_nuvio = ''nuvio''" "c_push_watched sample_nuvio"
  by (simp_all add: sample_nuvio_def new_connection_def)

lemma sample_intent_facts:
  "find_connection sample_intent_db 4 = Some sample_nuvio"
  "find_media sample_intent_db 10 \<noteq> None"
  "current_watch_event sample_intent_db 1 10 = Some (new_watch_event 1 1 10 (Some 5) True 0)"
  "require_stream_reconciliation sample_intent_db None sample_nuvio = Inr ()"
  "take 100 (pending_intents sample_intent_db 1) = [sample_intent]"
  by (simp_all add: sample_intent_db_def empty_db_def find_connection_def find_media_def new_media_def
      current_watch_event_def completed_events_def new_watch_event_def require_stream_reconciliation_def
      active_clear_def stream_baseline_of_def baseline_snapshot_def onboarding_pending_def stream_conflict_def
      pending_intents_def sample_intent_def)

lemma sample_intent_fields [simp]:
  "wi_id sample_intent = 1" "wi_connection_id sample_intent = 4" "wi_media_id sample_intent = 10"
  by (simp_all add: sample_intent_def)

lemma dispatch_intent_nuvio:
  assumes "wi_id intent \<notin> iw_processed w" "find_connection (iw_db w) (wi_connection_id intent) = Some conn"
    "find_media (iw_db w) (wi_media_id intent) \<noteq> None" "c_type conn = ''nuvio''" "c_push_watched conn"
    "require_stream_reconciliation (update_intent now (wi_id intent)
        (\<lambda>r. r\<lparr>wi_desired_watched := is_watched (iw_db w) user (wi_media_id intent)\<rparr>) (iw_db w)) handoff conn = Inr ()"
  shows "dispatch_intent outcome now handoff user queue intent w = Inr (dispatch_nuvio outcome now user intent
      (w\<lparr>iw_db := update_intent now (wi_id intent)
        (\<lambda>r. r\<lparr>wi_desired_watched := is_watched (iw_db w) user (wi_media_id intent)\<rparr>) (iw_db w)\<rparr>))"
  using assms by (auto simp: dispatch_intent_def Let_def)

lemma is_active_none: "is_active Map.empty {} user = False"
  by (simp add: is_active_def)


section \<open>Queued changes coalesce\<close>

definition intents_unique :: "db \<Rightarrow> bool" where
  "intents_unique db \<longleftrightarrow> unique_on (\<lambda>r. (wi_connection_id r, wi_media_id r)) (watch_intent_table db)"

definition intent_ready :: "int set \<Rightarrow> int \<Rightarrow> int \<Rightarrow> db \<Rightarrow> bool" where
  "intent_ready watched cid mid db \<longleftrightarrow>
     (\<exists>r \<in> set (watch_intent_table db). wi_connection_id r = cid \<and> wi_media_id r = mid \<and>
        wi_desired_watched r = (mid \<in> watched) \<and> wi_state r = ''pending'' \<and> wi_attempts r = 0 \<and> wi_last_error r = None)"

lemma touch_intent_fields [simp]:
  "wi_connection_id (touch_intent now f r) = wi_connection_id (f r)"
  "wi_media_id (touch_intent now f r) = wi_media_id (f r)"
  "wi_desired_watched (touch_intent now f r) = wi_desired_watched (f r)"
  "wi_state (touch_intent now f r) = wi_state (f r)"
  "wi_attempts (touch_intent now f r) = wi_attempts (f r)"
  "wi_last_error (touch_intent now f r) = wi_last_error (f r)"
  by (simp_all add: touch_intent_def)

lemma intent_ready_member:
  "r \<in> set (watch_intent_table db) \<Longrightarrow> wi_connection_id r = cid \<Longrightarrow> wi_media_id r = mid \<Longrightarrow>
   wi_desired_watched r = (mid \<in> watched) \<Longrightarrow> wi_state r = ''pending'' \<Longrightarrow> wi_attempts r = 0 \<Longrightarrow>
   wi_last_error r = None \<Longrightarrow> intent_ready watched cid mid db"
  by (auto simp: intent_ready_def)

lemma queue_intent_step:
  assumes "intents_unique db" "queue_intent now user watched cid mid db = Inr db'"
  shows "intents_unique db' \<and> intent_ready watched cid mid db' \<and>
    (\<forall>c m. intent_ready watched c m db \<longrightarrow> intent_ready watched c m db')"
proof (cases "intents_for db cid mid = []")
  case True
  let ?r = "new_intent now user cid mid (mid \<in> watched) db"
  have db': "watch_intent_table db' = watch_intent_table db @ [?r]"
    using assms(2) True by (auto simp: queue_intent_def)
  have "intents_unique db'"
    using assms(1) True
    by (auto simp: intents_unique_def db' unique_on_append_row intents_for_def filter_empty_conv new_intent_def)
  moreover have "intent_ready watched cid mid db'"
    by (rule intent_ready_member [of ?r]) (simp_all add: db' new_intent_def)
  moreover have "intent_ready watched c m db'" if "intent_ready watched c m db" for c m
    using that by (auto simp: intent_ready_def db')
  ultimately show ?thesis by blast
next
  case False
  let ?P = "\<lambda>r. wi_connection_id r = cid \<and> wi_media_id r = mid"
  let ?f = "touch_intent now (refresh_intent (mid \<in> watched))"
  have "db' = db\<lparr>watch_intent_table := update_where ?P ?f (watch_intent_table db)\<rparr>"
  proof -
    from assms(2) obtain found where found: "scalar_one_or_none (intents_for db cid mid) = Inr found"
      unfolding queue_intent_def and_then_Inr_iff by blast
    with False obtain r where "found = Some r"
      by (cases found) (auto simp: scalar_one_or_none_None)
    with assms(2) found show ?thesis by (simp add: queue_intent_def)
  qed
  then have db': "watch_intent_table db' = update_where ?P ?f (watch_intent_table db)" by simp
  obtain r where r: "r \<in> set (watch_intent_table db)" "?P r"
    using False by (auto simp: intents_for_def filter_empty_conv)
  have "intents_unique db'"
    using assms(1) by (simp add: intents_unique_def db' unique_on_update refresh_intent_def)
  moreover have "intent_ready watched cid mid db'"
    by (rule intent_ready_member [of "?f r"]) (use r in \<open>auto simp: db' set_update_where refresh_intent_def\<close>)
  moreover have "intent_ready watched c m db'" if ready: "intent_ready watched c m db" for c m
  proof -
    from ready obtain q where q: "q \<in> set (watch_intent_table db)" "wi_connection_id q = c" "wi_media_id q = m"
      "wi_desired_watched q = (m \<in> watched)" "wi_state q = ''pending''" "wi_attempts q = 0" "wi_last_error q = None"
      by (auto simp: intent_ready_def)
    show ?thesis
      by (rule intent_ready_member [of "if ?P q then ?f q else q"])
        (use q in \<open>auto simp: db' set_update_where refresh_intent_def\<close>)
  qed
  ultimately show ?thesis by blast
qed

lemma queue_connection_step:
  assumes "intents_unique db" "queue_connection now user watched ids conn db = Inr db'" "finite ids"
  shows "intents_unique db' \<and> (\<forall>m \<in> ids. intent_ready watched (c_id conn) m db') \<and>
    (\<forall>c m. intent_ready watched c m db \<longrightarrow> intent_ready watched c m db')"
proof -
  let ?db = "unsuppress_baseline (c_id conn) ids db"
  have same: "watch_intent_table ?db = watch_intent_table db" by (simp add: unsuppress_baseline_def)
  have run: "fold_result (queue_intent now user watched (c_id conn)) (sorted_list_of_set ids) ?db = Inr db'"
    using assms(2) by (simp add: queue_connection_def)
  have one: "intents_unique db' \<and> (\<forall>m. m \<in> set (sorted_list_of_set ids) \<or> intent_ready watched (c_id conn) m ?db \<longrightarrow>
      intent_ready watched (c_id conn) m db')"
    by (rule fold_result_establishes [OF run, where Q = "\<lambda>m. intent_ready watched (c_id conn) m"])
      (use assms(1) same queue_intent_step in \<open>auto simp: intents_unique_def\<close>)
  have two: "intents_unique db' \<and> (\<forall>c m. intent_ready watched c m ?db \<longrightarrow> intent_ready watched c m db')"
    by (rule fold_result_invariant [OF run])
      (use assms(1) same queue_intent_step in \<open>auto simp: intents_unique_def\<close>)
  have "intent_ready watched c m ?db = intent_ready watched c m db" for c m
    by (simp add: intent_ready_def same)
  with one two assms(3) show ?thesis by auto
qed

text \<open>Queueing leaves exactly one row per connection and title, and for every streaming account of
  the user with watched pushes on, that the destination admits and that is not excluded, each
  queued title has a fresh pending row with the state its viewing history shows.\<close>

lemma queue_watch_intents_coalesces:
  assumes "intents_unique db" "finite ids" "queue_watch_intents now destination user ids excluded db = Inr (n, db')"
  shows "intents_unique db' \<and>
    (\<forall>conns c m. intent_connections db destination user excluded = Inr conns \<longrightarrow> c \<in> set conns \<longrightarrow> m \<in> ids \<longrightarrow>
       (\<exists>!r. r \<in> set (watch_intent_table db') \<and> wi_connection_id r = c_id c \<and> wi_media_id r = m) \<and>
       intent_ready (watched_ids db user) (c_id c) m db')"
proof (cases "ids = {}")
  case True
  with assms show ?thesis by (simp add: queue_watch_intents_def)
next
  case False
  let ?watched = "watched_ids db user \<inter> ids"
  from assms(3) False obtain conns where conns: "intent_connections db destination user excluded = Inr conns"
    and run: "fold_result (queue_connection now user ?watched ids) conns db = Inr db'"
    by (auto simp: queue_watch_intents_def and_then_Inr_iff)
  have all: "intents_unique db' \<and> (\<forall>c. c \<in> set conns \<or> (\<forall>m \<in> ids. intent_ready ?watched (c_id c) m db) \<longrightarrow>
      (\<forall>m \<in> ids. intent_ready ?watched (c_id c) m db'))"
    by (rule fold_result_establishes [OF run, where P = intents_unique
          and Q = "\<lambda>c db. \<forall>m \<in> ids. intent_ready ?watched (c_id c) m db"])
      (use assms(1,2) queue_connection_step in blast)+
  have ready: "intent_ready (watched_ids db user) (c_id c) m db'" if "c \<in> set conns" "m \<in> ids" for c m
    using all that by (auto simp: intent_ready_def)
  have "\<exists>!r. r \<in> set (watch_intent_table db') \<and> wi_connection_id r = c_id c \<and> wi_media_id r = m"
    if "c \<in> set conns" "m \<in> ids" for c m
  proof -
    from ready [OF that] obtain r where "r \<in> set (watch_intent_table db')" "wi_connection_id r = c_id c" "wi_media_id r = m"
      by (auto simp: intent_ready_def)
    moreover have "q = r" if "q \<in> set (watch_intent_table db')" "wi_connection_id q = c_id c" "wi_media_id q = m" for q
      using unique_on_inj [of "\<lambda>r. (wi_connection_id r, wi_media_id r)" "watch_intent_table db'" q r] all calculation that
      by (simp add: intents_unique_def)
    ultimately show ?thesis by blast
  qed
  with all ready conns show ?thesis by auto
qed

lemma queue_intent_total: "intents_unique db \<Longrightarrow> \<exists>db'. queue_intent now user watched cid mid db = Inr db'"
  using unique_on_filter_le_one [of "\<lambda>r. (wi_connection_id r, wi_media_id r)" "watch_intent_table db" "(cid, mid)"]
  by (cases "intents_for db cid mid" rule: scalar_one_or_none.cases)
    (auto simp: intents_unique_def queue_intent_def intents_for_def)

lemma queue_watch_intents_total:
  assumes "intents_unique db" "finite ids" "intent_connections db destination user excluded = Inr conns"
  shows "\<exists>n db'. queue_watch_intents now destination user ids excluded db = Inr (n, db')"
proof -
  have conn: "\<exists>s'. queue_connection now user w ids c s = Inr s' \<and> intents_unique s'" if u: "intents_unique s" for w c s
  proof -
    have "intents_unique (unsuppress_baseline (c_id c) ids s)"
      using u by (simp add: intents_unique_def unsuppress_baseline_def)
    then have "\<exists>s'. fold_result (queue_intent now user w (c_id c)) (sorted_list_of_set ids)
        (unsuppress_baseline (c_id c) ids s) = Inr s' \<and> intents_unique s'"
      by (rule fold_result_total) (use queue_intent_total queue_intent_step in blast)
    then show ?thesis by (simp add: queue_connection_def)
  qed
  from fold_result_total [of intents_unique db "queue_connection now user (watched_ids db user \<inter> ids) ids" conns,
      OF assms(1) conn]
  show ?thesis by (auto simp: queue_watch_intents_def assms(3))
qed

lemma queue_watch_intents_coalesces_witness:
  "\<exists>n db'. queue_watch_intents 7 None 1 {10} {} sample_intent_db = Inr (n, db') \<and>
     intent_ready (watched_ids sample_intent_db 1) 4 10 db'"
proof -
  have conns: "intent_connections sample_intent_db None 1 {} = Inr [sample_nuvio]"
    by (simp add: intent_connections_def connection_clause_def sample_intent_db_def)
  have unique: "intents_unique sample_intent_db"
    by (simp add: intents_unique_def unique_on_def sample_intent_db_def)
  from queue_watch_intents_total [OF unique _ conns, of "{10}" 7] obtain n db' where
    run: "queue_watch_intents 7 None 1 {10} {} sample_intent_db = Inr (n, db')" by auto
  from queue_watch_intents_coalesces [OF unique _ run] conns run show ?thesis by auto
qed

section \<open>No starvation\<close>

text \<open>A batch of intents is chosen fairly: an intent that is left out has been attempted at least as
  often as every one that is chosen, so failing writes never keep a fresh change waiting.\<close>

lemma pending_intents_fair:
  assumes "r \<in> set (take 100 (pending_intents db user))"
    and "q \<in> set (pending_intents db user)" "q \<notin> set (take 100 (pending_intents db user))"
  shows "wi_attempts r \<le> wi_attempts q"
proof -
  let ?key = "\<lambda>r. (wi_attempts r, - wi_updated_at r, - wi_id r)"
  let ?rows = "pending_intents db user"
  have "sorted (map ?key ?rows)" by (simp add: pending_intents_def)
  then have "sorted (map ?key (take 100 ?rows) @ map ?key (drop 100 ?rows))"
    by (simp flip: map_append)
  moreover have "q \<in> set (drop 100 ?rows)"
    using assms(2,3) append_take_drop_id [of 100 ?rows] by (metis Un_iff set_append)
  ultimately have "?key r \<le> ?key q"
    using assms(1) by (auto simp: sorted_append)
  then show ?thesis by (auto simp: less_eq_prod_def)
qed

lemma pending_intents_fair_witness:
  "\<not> (sample_intent \<in> set (take 100 (pending_intents sample_intent_db 1)) \<and>
      sample_intent\<lparr>wi_attempts := 2\<rparr> \<in> set (pending_intents sample_intent_db 1) \<and>
      sample_intent\<lparr>wi_attempts := 2\<rparr> \<notin> set (take 100 (pending_intents sample_intent_db 1)))"
  using pending_intents_fair [of sample_intent sample_intent_db 1 "sample_intent\<lparr>wi_attempts := 2\<rparr>"]
  by (auto simp: sample_intent_def)

end
