(* ===== verification/ReconState.thy ===== *)
theory ReconState
  imports SyncResolve PullCycle Gates PyClock
begin

text \<open>
  The account reconciliation of \<open>core/sync_reconciliation.py\<close> while providers are being read:
  the state \<open>Reconciliation\<close> with its evidence, the operations that collect observations
  instead of applying them, and the fence that drops what a replaced connection reported.  The
  context variables \<open>_current\<close> and \<open>_source\<close> are the arguments \<open>current\<close> and \<open>source\<close>.
  Dictionaries whose order decides the order of later writes are association lists.
\<close>

section \<open>The state\<close>

type_synonym watch_evidence = "(int \<times> (string \<times> datetime option) list) list"

text \<open>The fields of a list entry a reconciliation can find changed under it.\<close>

record entry_fields =
  ef_status :: string
  ef_progress :: int
  ef_start_date :: "date option"
  ef_finish_date :: "date option"

text \<open>A file that an import has staged, and a report that sources of a connection have gone: those
  named, and when the report was complete all that it does not expect.\<close>

record staged_file =
  sf_connection_id :: int
  sf_media_id :: int
  sf_source_id :: string
  sf_source :: collection_source
  sf_added_at :: "datetime option"
  sf_quality :: pydict

record membership_removal =
  mr_connection_id :: int
  mr_source :: collection_source
  mr_removed_ids :: "string set"
  mr_expected :: "string set option"

record reconciliation =
  rc_user_id :: int
  rc_started_at :: datetime
  rc_collecting :: bool
  rc_ratings :: "(rating_key \<times> rat observation list) list"
  rc_raw_progress :: "(int \<times> (int \<times> rat) observation list) list"
  rc_playback :: "int \<rightharpoonup> playback_value decision"
  rc_entries_before :: "int \<rightharpoonup> entry_fields"
  rc_watch_before :: "int set"
  rc_staged_watches :: "(string \<times> watch_event) list"
  rc_watch_confirmations :: "(string \<times> int \<times> int \<times> datetime option \<times> datetime option) list"
  rc_date_corrections :: "(string \<times> int \<times> int \<times> datetime option \<times> datetime) list"
  rc_watch_evidence :: watch_evidence
  rc_watch_previous :: "string \<rightharpoonup> pydict"
  rc_watch_decisions :: "int \<rightharpoonup> bool decision"
  rc_deferred_push_back :: "int \<rightharpoonup> (int \<rightharpoonup> string)"
  rc_cloud_rating_baselines :: "string \<rightharpoonup> pydict \<times> datetime option"
  rc_source_approvals :: "string \<rightharpoonup> bool"
  rc_protected_fields :: "int \<rightharpoonup> string set"
  rc_connection_versions :: "int \<rightharpoonup> int"
  rc_tracking_roots :: "int \<rightharpoonup> int"
  rc_library_before :: "(int \<times> int) set"
  rc_library_local :: "int \<rightharpoonup> bool \<times> datetime option"
  rc_library_observed :: "int \<rightharpoonup> datetime"
  rc_collection_files :: "((int \<times> int \<times> string) \<times> staged_file) list"
  rc_collection_removals :: "membership_removal list"
  rc_collection_deleted :: "int set"

definition new_reconciliation :: "int \<Rightarrow> datetime \<Rightarrow> reconciliation" where
  "new_reconciliation user now =
     \<lparr>rc_user_id = user, rc_started_at = now, rc_collecting = True, rc_ratings = [], rc_raw_progress = [],
      rc_playback = Map.empty, rc_entries_before = Map.empty, rc_watch_before = {}, rc_staged_watches = [],
      rc_watch_confirmations = [], rc_date_corrections = [], rc_watch_evidence = [],
      rc_watch_previous = Map.empty, rc_watch_decisions = Map.empty, rc_deferred_push_back = Map.empty,
      rc_cloud_rating_baselines = Map.empty, rc_source_approvals = Map.empty,
      rc_protected_fields = Map.empty, rc_connection_versions = Map.empty, rc_tracking_roots = Map.empty,
      rc_library_before = {}, rc_library_local = Map.empty, rc_library_observed = Map.empty,
      rc_collection_files = [], rc_collection_removals = [], rc_collection_deleted = {}\<rparr>"

definition collecting :: "reconciliation option \<Rightarrow> int \<Rightarrow> reconciliation option" where
  "collecting current user =
     (case current of None \<Rightarrow> None
      | Some st \<Rightarrow> if rc_user_id st = user \<and> rc_collecting st then Some st else None)"

definition replaying :: "reconciliation option \<Rightarrow> int \<Rightarrow> reconciliation option" where
  "replaying current user =
     (case current of None \<Rightarrow> None
      | Some st \<Rightarrow> if rc_user_id st = user \<and> \<not> rc_collecting st then Some st else None)"

definition changed_local_fields :: "reconciliation option \<Rightarrow> int \<Rightarrow> tracked_entry \<Rightarrow> string set" where
  "changed_local_fields current user entry =
     (case replaying current user of None \<Rightarrow> {}
      | Some st \<Rightarrow> (case rc_protected_fields st (te_media_id entry) of None \<Rightarrow> {} | Some fs \<Rightarrow> fs))"

text \<open>A connection identifier of 0 or none names the provider itself.\<close>

definition source_key :: "string \<Rightarrow> int option \<Rightarrow> string" where
  "source_key provider cid =
     (case cid of None \<Rightarrow> provider | Some c \<Rightarrow> if c = 0 then provider else connection_key c)"

section \<open>Collecting evidence\<close>

definition collect_watch ::
  "string \<Rightarrow> int \<Rightarrow> datetime option \<Rightarrow> reconciliation option \<Rightarrow> reconciliation option" where
  "collect_watch source mid changed_at current =
     (case current of None \<Rightarrow> None
      | Some st \<Rightarrow>
        if \<not> rc_collecting st \<or> source = [] then Some st
        else
          let tm = naive_utc changed_at;
              newer = (\<lambda>saved. case map_of saved source of
                 None \<Rightarrow> True
               | Some old \<Rightarrow> (case tm of None \<Rightarrow> False
                              | Some t \<Rightarrow> (case old of None \<Rightarrow> True | Some v \<Rightarrow> v < t)))
          in Some (st\<lparr>rc_watch_evidence := dict_alter mid []
               (\<lambda>saved. if newer saved then dict_set source tm saved else saved) (rc_watch_evidence st)\<rparr>))"

text \<open>An imported play is kept aside while the account is being read, and added otherwise.\<close>

definition add_watch_event ::
  "string \<Rightarrow> watch_event \<Rightarrow> reconciliation option \<times> db \<Rightarrow> reconciliation option \<times> db" where
  "add_watch_event source row w =
     (case w of (current, db) \<Rightarrow>
        case collecting current (we_user_id row) of
          Some st \<Rightarrow>
            if source \<noteq> []
            then (let staged = Some (st\<lparr>rc_staged_watches := rc_staged_watches st @ [(source, row)]\<rparr>)
                  in (if we_completed row
                      then collect_watch source (we_media_id row) (if we_date_inferred row then None else we_watched_at row) staged
                      else staged, db))
            else (current, db\<lparr>watch_event_table := watch_event_table db @ [row]\<rparr>)
        | None \<Rightarrow> (current, db\<lparr>watch_event_table := watch_event_table db @ [row]\<rparr>))"

text \<open>The slot of a score in a stored observation dictionary.\<close>

definition rating_slot :: "rating_key \<Rightarrow> string" where
  "rating_slot key = show_int (fst key) @ '':'' @ (case snd key of None \<Rightarrow> ''None'' | Some s \<Rightarrow> show_int s)"

definition snapshot_dict :: "pydict \<Rightarrow> string \<Rightarrow> pydict" where
  "snapshot_dict snapshot field = dict_or_empty (get snapshot field)"

definition load_rating_baseline :: "db \<Rightarrow> int \<Rightarrow> string \<Rightarrow> (pydict \<times> datetime option) result" where
  "load_rating_baseline db user provider =
     and_then (cloud_baseline_of db user provider) (\<lambda>found.
       Inr (case found of None \<Rightarrow> ([], None)
            | Some b \<Rightarrow> (snapshot_dict (cb_snapshot b) ''rating_observations'', Some (cb_observed_at b))))"

text \<open>The score a cloud reported last: \<open>saved["value"]\<close> as the persisting side writes it, a
  number or null.\<close>

definition saved_score :: "pydict \<Rightarrow> rating_key \<Rightarrow> rat option option result" where
  "saved_score values key =
     (case get values (rating_slot key) of
        VNone \<Rightarrow> Inr None
      | VDict saved \<Rightarrow> (case map_of saved ''value'' of None \<Rightarrow> Inl KeyError | Some v \<Rightarrow> Inr (Some (number_of v)))
      | _ \<Rightarrow> Inl TypeError)"

definition add_rating :: "rating_key \<Rightarrow> rat observation \<Rightarrow> reconciliation \<Rightarrow> reconciliation" where
  "add_rating key ob st = st\<lparr>rc_ratings := dict_alter key [] (\<lambda>obs. obs @ [ob]) (rc_ratings st)\<rparr>"

text \<open>Whether the score was taken over, and the state after it.\<close>

definition collect_rating ::
  "db \<Rightarrow> int \<Rightarrow> string \<Rightarrow> int \<Rightarrow> int option \<Rightarrow> rat \<Rightarrow> datetime option \<Rightarrow> int option \<Rightarrow>
   rat option option \<Rightarrow> datetime option \<Rightarrow> reconciliation option \<Rightarrow> (bool \<times> reconciliation option) result" where
  "collect_rating db user provider mid season score rated_at conn previous observed_after current =
     (case collecting current user of
        None \<Rightarrow> Inr (False, current)
      | Some st \<Rightarrow>
        let source = source_key provider conn; key = (mid, season) in
        if conn \<noteq> None
        then Inr (True, Some (add_rating key (observe source (Some score) (naive_utc rated_at) previous observed_after) st))
        else
          and_then (case rc_cloud_rating_baselines st provider of
                      Some b \<Rightarrow> Inr b | None \<Rightarrow> load_rating_baseline db user provider) (\<lambda>baseline.
          let st1 = st\<lparr>rc_cloud_rating_baselines := (rc_cloud_rating_baselines st)(provider \<mapsto> baseline)\<rparr> in
          and_then (saved_score (fst baseline) key) (\<lambda>saved.
            Inr (True, Some (add_rating key (observe source (Some score) (naive_utc rated_at)
              (opt_or saved previous) (snd baseline)) st1)))))"

text \<open>A resume position read from a server: seconds and percent.  The stored pair is read back
  as the persisting side wrote it.\<close>

definition saved_position :: "pydict \<Rightarrow> int \<Rightarrow> (int \<times> rat) option option" where
  "saved_position snapshot mid =
     (case get (snapshot_dict snapshot ''raw_progress_observations'') (show_int mid) of
        VList [s, p] \<Rightarrow> Some (case (as_int s, number_of p) of (Some i, Some r) \<Rightarrow> Some (i, r) | _ \<Rightarrow> None)
      | _ \<Rightarrow> None)"

definition collect_raw_progress ::
  "db \<Rightarrow> string \<Rightarrow> int \<Rightarrow> int \<Rightarrow> int \<Rightarrow> rat \<Rightarrow> datetime option \<Rightarrow> reconciliation option \<Rightarrow>
   (bool \<times> reconciliation option) result" where
  "collect_raw_progress db source user mid seconds percent tm current =
     (case collecting current user of
        None \<Rightarrow> Inr (False, current)
      | Some st \<Rightarrow>
        and_then (if is_connection_source source
                  then and_then (connection_id_of source) (\<lambda>cid. Inr (stream_baseline_of db cid))
                  else Inr None) (\<lambda>baseline.
          let ob = observe source (Some (seconds, percent)) (naive_utc tm)
                (saved_position (baseline_snapshot baseline) mid)
                (case baseline of None \<Rightarrow> None | Some b \<Rightarrow> Some (sb_observed_at b))
          in Inr (True, Some (st\<lparr>rc_raw_progress := dict_alter mid [] (\<lambda>obs. obs @ [ob]) (rc_raw_progress st)\<rparr>))))"

section \<open>The start and the fence of a round\<close>

definition fields_of :: "tracked_entry \<Rightarrow> entry_fields" where
  "fields_of e = \<lparr>ef_status = te_status e, ef_progress = te_progress e,
     ef_start_date = te_start_date e, ef_finish_date = te_finish_date e\<rparr>"

definition entries_of :: "db \<Rightarrow> int \<Rightarrow> tracked_entry list" where
  "entries_of db user = filter (\<lambda>e. te_user_id e = user) (entry_table db)"

definition versions_of :: "db \<Rightarrow> int \<Rightarrow> (int \<rightharpoonup> int)" where
  "versions_of db user =
     map_of (rev (map (\<lambda>c. (c_id c, c_identity_version c)) (filter (\<lambda>c. c_user_id c = user) (connection_table db))))"

definition previous_watches :: "db \<Rightarrow> int \<Rightarrow> (string \<rightharpoonup> pydict)" where
  "previous_watches db user =
     map_of (rev (map (\<lambda>b. (cb_provider b, snapshot_dict (cb_snapshot b) ''watch_observations''))
                   (filter (\<lambda>b. cb_user_id b = user) (cloud_baseline_table db))
              @ map (\<lambda>b. (source_key [] (Some (sb_connection_id b)), snapshot_dict (sb_snapshot b) ''watch_observations''))
                   (filter (\<lambda>b. sb_user_id b = user) (stream_baseline_table db))))"

text \<open>The sources of the account's library: connection and title.\<close>

definition library_pairs :: "db \<Rightarrow> int \<Rightarrow> (int \<times> int) list" where
  "library_pairs db user =
     List.map_filter (\<lambda>f. case cf_connection_id f of
         None \<Rightarrow> None
       | Some cid \<Rightarrow> map_option (\<lambda>c. (cid, cl_media_id c))
           (find (\<lambda>c. cl_id c = cf_collection_id f \<and> cl_user_id c = user) (collection_table db)))
       (collection_file_table db)"

text \<open>A number, or any other value that Python compares with the column.\<close>

definition mapped_tmdb :: "pydict \<Rightarrow> string \<Rightarrow> int option" where
  "mapped_tmdb snapshot key = as_int (get (snapshot_dict snapshot ''mappings'') key)"

definition library_kind :: "pydict \<Rightarrow> string \<Rightarrow> pyval" where
  "library_kind snapshot key =
     (let rows = List.map_filter as_dict (list_or_empty (get (snapshot_dict snapshot ''records'') ''library'')) in
      case filter (\<lambda>r. py_str (get r ''content_id'') = key) rows of [] \<Rightarrow> VNone | rs \<Rightarrow> get (last rs) ''content_type'')"

definition library_keys :: "pydict \<Rightarrow> string list" where
  "library_keys snapshot =
     (case get snapshot ''library'' of
        VDict d \<Rightarrow> map fst d | VList xs \<Rightarrow> map py_str xs | _ \<Rightarrow> [])"

text \<open>The titles a saved snapshot lists.\<close>

definition prior_library :: "db \<Rightarrow> stream_baseline \<Rightarrow> (int \<times> int) list" where
  "prior_library db b =
     concat (map (\<lambda>key. map (\<lambda>m. (sb_connection_id b, m_id m))
         (filter (\<lambda>m. m_media_type m \<in> {Movie, Series} \<and> m_tmdb_id m \<noteq> None \<and> m_tmdb_id m = mapped_tmdb (sb_snapshot b) key
            \<and> (\<not> truthy (library_kind (sb_snapshot b) key)
               \<or> library_kind (sb_snapshot b) key = VStr (media_type_value (m_media_type m)))) (media_table db)))
       (library_keys (sb_snapshot b)))"

definition keep_first :: "int \<Rightarrow> 'v \<Rightarrow> (int \<rightharpoonup> 'v) \<Rightarrow> (int \<rightharpoonup> 'v)" where
  "keep_first k v m = (case m k of None \<Rightarrow> m(k \<mapsto> v) | Some _ \<Rightarrow> m)"

text \<open>The delta base of a connection is its last successful snapshot, not the physical rows.\<close>

definition load_library :: "db \<Rightarrow> stream_baseline \<Rightarrow> reconciliation \<Rightarrow> reconciliation" where
  "load_library db b st =
     (let st1 = st\<lparr>rc_library_observed := (rc_library_observed st)(sb_connection_id b \<mapsto> sb_observed_at b)\<rparr> in
      if map_of (sb_snapshot b) ''library'' = None then st1
      else (let prior = prior_library db b in
        st1\<lparr>rc_library_before := {p \<in> rc_library_before st1. fst p \<noteq> sb_connection_id b} \<union> set prior,
            rc_library_local := fold (\<lambda>p. keep_first (snd p) (True, None)) prior (rc_library_local st1)\<rparr>))"

definition load_intent :: "library_intent \<Rightarrow> reconciliation \<Rightarrow> reconciliation" where
  "load_intent i st = st\<lparr>rc_library_local := (rc_library_local st)(li_media_id i \<mapsto> (li_desired i, Some (li_updated_at i)))\<rparr>"

definition initialize_library :: "db \<Rightarrow> reconciliation \<Rightarrow> reconciliation" where
  "initialize_library db st =
     (let user = rc_user_id st; pairs = library_pairs db user;
          st1 = st\<lparr>rc_library_before := set pairs,
                   rc_library_local := (\<lambda>m. if m \<in> snd ` set pairs then Some (True, None) else None)\<rparr>;
          st2 = fold (load_library db) (filter (\<lambda>b. sb_user_id b = user) (stream_baseline_table db)) st1
      in fold load_intent (filter (\<lambda>i. li_user_id i = user) (library_intent_table db)) st2)"

definition initialize_account :: "db \<Rightarrow> reconciliation \<Rightarrow> reconciliation" where
  "initialize_account db st =
     (let user = rc_user_id st in
      st\<lparr>rc_connection_versions := versions_of db user,
         rc_entries_before := map_of (rev (map (\<lambda>e. (te_media_id e, fields_of e)) (entries_of db user))),
         rc_watch_before := we_media_id ` set (filter (\<lambda>e. we_user_id e = user \<and> we_completed e) (watch_event_table db)),
         rc_watch_previous := rc_watch_previous st ++ previous_watches db user,
         rc_cloud_rating_baselines := rc_cloud_rating_baselines st ++
           map_of (rev (map (\<lambda>b. (cb_provider b, (snapshot_dict (cb_snapshot b) ''rating_observations'', Some (cb_observed_at b))))
             (filter (\<lambda>b. cb_user_id b = user) (cloud_baseline_table db))))\<rparr>)"

definition initialize :: "db \<Rightarrow> reconciliation \<Rightarrow> reconciliation" where
  "initialize db st = initialize_library db (initialize_account db st)"

definition changed_fields :: "entry_fields \<Rightarrow> tracked_entry \<Rightarrow> string set" where
  "changed_fields before e =
     (if te_status e \<noteq> ef_status before then {''status''} else {})
     \<union> (if te_progress e \<noteq> ef_progress before then {''progress''} else {})
     \<union> (if te_start_date e \<noteq> ef_start_date before then {''start_date''} else {})
     \<union> (if te_finish_date e \<noteq> ef_finish_date before then {''finish_date''} else {})"

definition protect_entry :: "reconciliation \<Rightarrow> tracked_entry \<Rightarrow> (int \<rightharpoonup> string set) \<Rightarrow> (int \<rightharpoonup> string set)" where
  "protect_entry st e m =
     (case rc_entries_before st (te_media_id e) of
        Some before \<Rightarrow> m(te_media_id e \<mapsto> changed_fields before e)
      | None \<Rightarrow> if te_status_source e = Some ''local''
                then m(te_media_id e \<mapsto> {''status'', ''progress'', ''start_date'', ''finish_date''}) else m)"

text \<open>A source is valid while its connection still has the identity the round started with.\<close>

definition source_valid :: "(int \<rightharpoonup> int) \<Rightarrow> (int \<rightharpoonup> int) \<Rightarrow> string \<Rightarrow> bool" where
  "source_valid versions started source \<longleftrightarrow>
     \<not> is_connection_source source \<or>
     (case connection_id_of source of Inl _ \<Rightarrow> False | Inr cid \<Rightarrow> versions cid = started cid)"

definition keep_valid :: "(string \<Rightarrow> bool) \<Rightarrow> ('k \<times> 'v observation list) list \<Rightarrow> ('k \<times> 'v observation list) list" where
  "keep_valid valid d = map (\<lambda>(k, obs). (k, filter (\<lambda>ob. valid (o_source ob)) obs)) d"

definition fence :: "db \<Rightarrow> reconciliation \<Rightarrow> reconciliation" where
  "fence db st =
     (let valid = source_valid (versions_of db (rc_user_id st)) (rc_connection_versions st) in
      st\<lparr>rc_protected_fields := fold (protect_entry st) (entries_of db (rc_user_id st)) (rc_protected_fields st),
         rc_staged_watches := filter (\<lambda>(s, _). valid s) (rc_staged_watches st),
         rc_watch_confirmations := filter (\<lambda>(s, _). valid s) (rc_watch_confirmations st),
         rc_date_corrections := filter (\<lambda>(s, _). valid s) (rc_date_corrections st),
         rc_ratings := keep_valid valid (rc_ratings st),
         rc_raw_progress := keep_valid valid (rc_raw_progress st),
         rc_watch_evidence := map (\<lambda>(m, d). (m, filter (\<lambda>(s, _). valid s) d)) (rc_watch_evidence st),
         rc_collecting := False\<rparr>)"

section \<open>Who may be echoed\<close>

definition approved_source :: "db \<Rightarrow> int \<Rightarrow> string \<Rightarrow> reconciliation option \<Rightarrow> (bool \<times> reconciliation option) result" where
  "approved_source db user source current =
     (case (case replaying current user of None \<Rightarrow> None | Some st \<Rightarrow> rc_source_approvals st source) of
        Some known \<Rightarrow> Inr (known, current)
      | None \<Rightarrow>
        and_then (if is_connection_source source
                  then and_then (connection_id_of source) (\<lambda>cid.
                    Inr (case stream_baseline_of db cid of None \<Rightarrow> False | Some b \<Rightarrow> sb_approved b))
                  else and_then (cloud_baseline_of db user source) (\<lambda>found.
                    Inr (case found of None \<Rightarrow> False | Some b \<Rightarrow> cb_approved b))) (\<lambda>approved.
          Inr (approved, case replaying current user of
                 None \<Rightarrow> current
               | Some st \<Rightarrow> Some (st\<lparr>rc_source_approvals := (rc_source_approvals st)(source \<mapsto> approved)\<rparr>))))"

text \<open>Whether a resume record may still be imported after the shared decision: \<open>None\<close> is no opinion.\<close>

definition playback_allowed ::
  "reconciliation option \<Rightarrow> int \<Rightarrow> int \<Rightarrow> int \<Rightarrow> pydict \<Rightarrow> bool option result" where
  "playback_allowed current user cid mid row =
     (case replaying current user of
        None \<Rightarrow> Inr None
      | Some st \<Rightarrow>
        (case rc_playback st mid of
           None \<Rightarrow>
             Inr (case rc_watch_decisions st mid of
                    Some w \<Rightarrow> if d_conflict w \<or> d_stale w then Some False else None
                  | None \<Rightarrow> None)
         | Some d \<Rightarrow>
             if source_key [] (Some cid) \<notin> d_sources d \<or> d_conflict d \<or> d_stale d then Inr (Some False)
             else if row = [] \<or> \<not> truthy (get row ''duration'') then Inr (Some True)
             else
               and_then (to_float (py_or (get row ''position'') (VInt 0))) (\<lambda>position.
               and_then (to_float (get row ''duration'')) (\<lambda>duration.
                 if duration = 0 then Inl (ProviderError ''ZeroDivisionError'')
                 else if 0 < position / duration \<and> position / duration < 9 / 10
                 then Inr (Some (case d_value d of None \<Rightarrow> False
                   | Some v \<Rightarrow> pv_status v = ''watching'' \<and> py_eq (case pv_season v of None \<Rightarrow> VNone | Some n \<Rightarrow> VInt n) (get row ''season'')
                       \<and> py_eq (case pv_episode v of None \<Rightarrow> VNone | Some n \<Rightarrow> VInt n) (get row ''episode'')
                       \<and> py_eq (pv_position v) (get row ''position'') \<and> py_eq (pv_duration v) (get row ''duration'')))
                 else Inr (Some True)))))"

section \<open>Evidence does not depend on the order of arrival\<close>

definition evidence_of :: "reconciliation option \<Rightarrow> int \<Rightarrow> string \<Rightarrow> datetime option option" where
  "evidence_of current mid source =
     (case current of None \<Rightarrow> None | Some st \<Rightarrow> map_of (dict_get (rc_watch_evidence st) mid []) source)"

text \<open>The newer of two clocks; a missing clock is older than every other.\<close>

definition newer_clock :: "datetime option \<Rightarrow> datetime option option \<Rightarrow> datetime option" where
  "newer_clock tm old = (case old of None \<Rightarrow> tm | Some v \<Rightarrow> if v < tm then tm else v)"

lemma newer_clock_max: "newer_clock tm old = (case old of None \<Rightarrow> tm | Some v \<Rightarrow> max v tm)"
  by (auto simp: newer_clock_def max_def split: option.split)

lemma evidence_of_collect:
  assumes "current = Some st" "rc_collecting st" "source \<noteq> []"
  shows "evidence_of (collect_watch source mid t current) m s =
    (if m = mid \<and> s = source then Some (newer_clock (naive_utc t) (evidence_of current m s)) else evidence_of current m s)"
proof -
  have "(case naive_utc t of None \<Rightarrow> False | Some x \<Rightarrow> (case old of None \<Rightarrow> True | Some v \<Rightarrow> v < x)) \<longleftrightarrow> old < naive_utc t" for old
    by (cases "naive_utc t"; cases old) auto
  then show ?thesis
    using assms
    by (auto simp: evidence_of_def collect_watch_def Let_def dict_get_alter newer_clock_def split: option.split)
qed

lemma collect_watch_collecting:
  assumes "current = Some st" "rc_collecting st" "source \<noteq> []"
  obtains st' where "collect_watch source mid t current = Some st'" "rc_collecting st'"
  using assms by (auto simp: collect_watch_def Let_def)

text \<open>Two pieces of viewing evidence leave the same evidence behind in whichever order their
  sources deliver them; the newest clock of a source wins and a missing one never does.\<close>

lemma collect_watch_order_irrelevant:
  assumes "rc_collecting st" "a \<noteq> []" "b \<noteq> []"
  shows "evidence_of (collect_watch a m t (collect_watch b n u (Some st))) mid source =
         evidence_of (collect_watch b n u (collect_watch a m t (Some st))) mid source"
proof -
  obtain s1 where s1: "collect_watch b n u (Some st) = Some s1" "rc_collecting s1"
    using collect_watch_collecting [OF refl assms(1,3)] by blast
  obtain s2 where s2: "collect_watch a m t (Some st) = Some s2" "rc_collecting s2"
    using collect_watch_collecting [OF refl assms(1,2)] by blast
  have left: "evidence_of (collect_watch a m t (Some s1)) mid source =
      (if mid = m \<and> source = a then Some (newer_clock (naive_utc t) (evidence_of (Some s1) mid source))
       else evidence_of (Some s1) mid source)"
    by (rule evidence_of_collect [OF refl s1(2) assms(2)])
  have right: "evidence_of (collect_watch b n u (Some s2)) mid source =
      (if mid = n \<and> source = b then Some (newer_clock (naive_utc u) (evidence_of (Some s2) mid source))
       else evidence_of (Some s2) mid source)"
    by (rule evidence_of_collect [OF refl s2(2) assms(3)])
  have e1: "evidence_of (Some s1) mid source =
      (if mid = n \<and> source = b then Some (newer_clock (naive_utc u) (evidence_of (Some st) mid source))
       else evidence_of (Some st) mid source)"
    using evidence_of_collect [OF refl assms(1,3), of n u mid source] s1(1) by simp
  have e2: "evidence_of (Some s2) mid source =
      (if mid = m \<and> source = a then Some (newer_clock (naive_utc t) (evidence_of (Some st) mid source))
       else evidence_of (Some st) mid source)"
    using evidence_of_collect [OF refl assms(1,2), of m t mid source] s2(1) by simp
  show ?thesis
    unfolding s1(1) s2(1) left right e1 e2
    by (auto simp: newer_clock_max ac_simps split: option.split)
qed

lemma collect_watch_order_irrelevant_witness:
  "evidence_of (collect_watch ''trakt'' 7 (Some 5000) (collect_watch ''trakt'' 7 None (Some (new_reconciliation 1 0)))) 7 ''trakt'' =
   evidence_of (collect_watch ''trakt'' 7 None (collect_watch ''trakt'' 7 (Some 5000) (Some (new_reconciliation 1 0)))) 7 ''trakt''"
  by (rule collect_watch_order_irrelevant) (simp_all add: new_reconciliation_def)

section \<open>The fence\<close>

definition fenced_sources :: "reconciliation \<Rightarrow> string set" where
  "fenced_sources st = fst ` set (rc_staged_watches st) \<union> fst ` set (rc_watch_confirmations st)
     \<union> fst ` set (rc_date_corrections st)
     \<union> (\<Union>(k, obs) \<in> set (rc_ratings st). o_source ` set obs)
     \<union> (\<Union>(k, obs) \<in> set (rc_raw_progress st). o_source ` set obs)
     \<union> (\<Union>(m, d) \<in> set (rc_watch_evidence st). fst ` set d)"

text \<open>Behind the fence nothing a replaced, removed or new connection reported is left, and
  every cloud source and every unchanged connection keeps all of its staged plays.\<close>

lemma fence_drops_replaced:
  "(connection_key cid \<in> fenced_sources (fence db st) \<longrightarrow>
      versions_of db (rc_user_id st) cid = rc_connection_versions st cid) \<and>
   (\<forall>source row. (source, row) \<in> set (rc_staged_watches st) \<longrightarrow>
      source_valid (versions_of db (rc_user_id st)) (rc_connection_versions st) source \<longrightarrow>
      (source, row) \<in> set (rc_staged_watches (fence db st))) \<and>
   collecting (Some (fence db st)) user = None"
proof -
  have "source_valid (versions_of db (rc_user_id st)) (rc_connection_versions st) source"
    if "source \<in> fenced_sources (fence db st)" for source
    using that by (fastforce simp: fenced_sources_def fence_def Let_def keep_valid_def)
  from this [of "connection_key cid"] show ?thesis
    by (auto simp: source_valid_def fence_def Let_def collecting_def)
qed

lemma fence_drops_replaced_witness:
  "connection_key 4 \<notin> fenced_sources (fence empty_db ((new_reconciliation 1 0)
     \<lparr>rc_connection_versions := [4 \<mapsto> 2], rc_staged_watches := [(connection_key 4, new_watch_event 1 1 10 None True 0)]\<rparr>))"
  using fence_drops_replaced [of 4 empty_db "(new_reconciliation 1 0)
     \<lparr>rc_connection_versions := [4 \<mapsto> 2], rc_staged_watches := [(connection_key 4, new_watch_event 1 1 10 None True 0)]\<rparr>"]
  by (auto simp: versions_of_def empty_db_def)

end
