(* ===== verification/RatingRound.thy ===== *)
theory RatingRound
  imports ReconState "HOL-Library.Multiset"
begin

text \<open>
  Imported scores.  \<open>_ratings\<close> of \<open>core/sync_reconciliation.py\<close> decides the scores a round of
  pulls has collected; \<open>core/cloud_rating_reconciliation.py\<close>, \<open>core/import_ratings.py\<close> and
  \<open>core/media_server_reconciliation.py\<close> apply single scores outside of a round.  The
  dictionaries of loaded \<open>Rating\<close> and \<open>TrackedEntry\<close> objects are the rows of the database;
  a dictionary handed in by the caller maps a key to the identifier of its row.
\<close>

section \<open>The score of a list entry\<close>

definition entry_score :: "tracked_entry option \<Rightarrow> int option \<Rightarrow> rat option result" where
  "entry_score entry season =
     (case entry of None \<Rightarrow> Inr None
      | Some e \<Rightarrow>
        (case season of
           None \<Rightarrow> effective_score (te_rating_mode e) (te_manual_score e) (te_season_scores e)
         | Some n \<Rightarrow> Inr (dict_get (te_season_scores e) (show_int n) None)))"

definition set_entry_score :: "int option \<Rightarrow> rat \<Rightarrow> tracked_entry \<Rightarrow> tracked_entry" where
  "set_entry_score season score e =
     (case season of
        None \<Rightarrow> e\<lparr>te_manual_score := Some score, te_rating_mode := ''manual''\<rparr>
      | Some n \<Rightarrow> e\<lparr>te_season_scores := dict_set (show_int n) (Some score) (te_season_scores e)\<rparr>)"

section \<open>Rows by key\<close>

text \<open>\<open>{key(row): row for row in rows}\<close>: the last row of a key.\<close>

definition last_row :: "('r \<Rightarrow> bool) \<Rightarrow> 'r list \<Rightarrow> 'r option" where
  "last_row P rows = (case filter P rows of [] \<Rightarrow> None | xs \<Rightarrow> Some (last xs))"

definition rating_row :: "db \<Rightarrow> int \<Rightarrow> rating_key \<Rightarrow> rating option" where
  "rating_row db user key =
     last_row (\<lambda>r. r_user_id r = user \<and> (r_media_id r, r_season_number r) = key \<and> r_episode_order r = None)
       (rating_table db)"

definition entry_row :: "db \<Rightarrow> int \<Rightarrow> int \<Rightarrow> tracked_entry option" where
  "entry_row db user mid = last_row (\<lambda>e. te_user_id e = user \<and> te_media_id e = mid) (entry_table db)"

definition new_rating :: "db \<Rightarrow> int \<Rightarrow> rating_key \<Rightarrow> rat \<Rightarrow> datetime \<Rightarrow> rating" where
  "new_rating db user key score rated_at =
     \<lparr>r_id = next_id r_id (rating_table db), r_user_id = user, r_media_id = fst key, r_season_number = snd key,
      r_episode_order = None, r_rating = Some score, r_review = None, r_rated_at = rated_at\<rparr>"

definition add_rating_row :: "rating \<Rightarrow> db \<Rightarrow> db" where
  "add_rating_row r db = db\<lparr>rating_table := rating_table db @ [r]\<rparr>"

definition update_rating :: "int \<Rightarrow> (rating \<Rightarrow> rating) \<Rightarrow> db \<Rightarrow> db" where
  "update_rating rid f db = db\<lparr>rating_table := update_where (\<lambda>r. r_id r = rid) f (rating_table db)\<rparr>"

definition update_entry :: "datetime \<Rightarrow> int \<Rightarrow> (tracked_entry \<Rightarrow> tracked_entry) \<Rightarrow> db \<Rightarrow> db" where
  "update_entry now eid f db =
     db\<lparr>entry_table := update_where (\<lambda>e. te_id e = eid) (touch_entry now f) (entry_table db)\<rparr>"

definition score_entry :: "datetime \<Rightarrow> tracked_entry option \<Rightarrow> int option \<Rightarrow> rat \<Rightarrow> db \<Rightarrow> db" where
  "score_entry now entry season score db =
     (case entry of None \<Rightarrow> db | Some e \<Rightarrow> update_entry now (te_id e) (set_entry_score season score) db)"

section \<open>Combined reviews\<close>

definition conflict_kind :: "string \<Rightarrow> string" where
  "conflict_kind category =
     (if category = ''rating'' then ''rating_conflict'' else if category = ''library'' then ''library_conflict''
      else if category = ''watched state'' then ''watch_conflict''
      else if category = ''progress'' then ''progress_conflict'' else ''conflict'')"

definition combined_pending :: "int \<Rightarrow> int \<Rightarrow> string \<Rightarrow> int option \<Rightarrow> sync_review \<Rightarrow> bool" where
  "combined_pending user mid kind season r \<longleftrightarrow>
     sr_user_id r = user \<and> sr_media_id r = Some mid \<and> sr_provider r = Some ''combined'' \<and> sr_kind r = kind
     \<and> sr_season_number r = season \<and> sr_state r = ''pending''"

text \<open>How a value is stored (\<open>json\<close>) and shown (\<open>text\<close>) depends on the category.\<close>

definition observation_json :: "('v option \<Rightarrow> pyval) \<Rightarrow> 'v observation \<Rightarrow> pyval" where
  "observation_json json ob =
     VDict [(''source'', VStr (o_source ob)), (''value'', json (o_value ob)),
       (''changed_at'', case o_changed_at ob of None \<Rightarrow> VNone | Some t \<Rightarrow> VStr (datetime_isoformat t @ ''Z''))]"

definition review_payload ::
  "('v option \<Rightarrow> pyval) \<Rightarrow> ('v option \<Rightarrow> string) \<Rightarrow> string \<Rightarrow> 'v decision \<Rightarrow> 'v observation list \<Rightarrow> pydict" where
  "review_payload json shown category decision observations =
     [(''category'', VStr category), (''observations'', VList (map (observation_json json) observations)),
      (''changes'', VList [VDict [(''field'', VStr category), (''previous'', VStr (shown (d_value decision))),
         (''proposed'', VStr (str_join ''; '' (map (\<lambda>ob. o_source ob @ '': '' @ shown (o_value ob)) observations)))]])]"

definition disagreement :: "string \<Rightarrow> string" where
  "disagreement category =
     ''Connected providers disagree about '' @ category @ ''; the current value was preserved.''"

definition record_conflict ::
  "datetime \<Rightarrow> int \<Rightarrow> int \<Rightarrow> string \<Rightarrow> int option \<Rightarrow> pydict \<Rightarrow> (sync_review \<Rightarrow> sync_review) \<Rightarrow> db \<Rightarrow> db result" where
  "record_conflict now user mid category season payload fill db =
     (let kind = conflict_kind category; P = combined_pending user mid kind season;
          complete = (\<lambda>r. fill (r\<lparr>sr_payload := payload\<rparr>)) in
      and_then (scalar_one_or_none (filter P (review_table db))) (\<lambda>found.
        case found of
          None \<Rightarrow> Inr (add_review (complete ((new_review db now user kind (Some ''combined'') (disagreement category))
                    \<lparr>sr_media_id := Some mid, sr_season_number := season\<rparr>)) db)
        | Some _ \<Rightarrow> Inr (db\<lparr>review_table := update_where P complete (review_table db)\<rparr>)))"

definition retire_review :: "int \<Rightarrow> int \<Rightarrow> string \<Rightarrow> int option \<Rightarrow> db \<Rightarrow> db" where
  "retire_review user mid kind season db =
     db\<lparr>review_table := update_where (combined_pending user mid kind season)
        (\<lambda>r. r\<lparr>sr_state := ''dismissed''\<rparr>) (review_table db)\<rparr>"

section \<open>Remembering what was observed\<close>

definition merge_observed :: "string \<Rightarrow> pydict \<Rightarrow> pydict \<Rightarrow> pydict" where
  "merge_observed category values snapshot =
     dict_set category (VDict (dict_merge (snapshot_dict snapshot category) values)) snapshot"

definition persist_one :: "int \<Rightarrow> string \<Rightarrow> string \<times> pydict \<Rightarrow> db \<Rightarrow> db" where
  "persist_one user category item db =
     (case item of (source, values) \<Rightarrow>
        if is_connection_source source
        then db\<lparr>stream_baseline_table := update_where
               (\<lambda>b. sb_user_id b = user \<and> source_key [] (Some (sb_connection_id b)) = source)
               (\<lambda>b. b\<lparr>sb_snapshot := merge_observed category values (sb_snapshot b)\<rparr>) (stream_baseline_table db)\<rparr>
        else db\<lparr>cloud_baseline_table := update_where (\<lambda>b. cb_user_id b = user \<and> cb_provider b = source)
               (\<lambda>b. b\<lparr>cb_snapshot := merge_observed category values (cb_snapshot b)\<rparr>) (cloud_baseline_table db)\<rparr>)"

definition persist_observations :: "int \<Rightarrow> string \<Rightarrow> (string \<times> pydict) list \<Rightarrow> db \<Rightarrow> db result" where
  "persist_observations user category updates db =
     and_then (map_result connection_id_of (filter is_connection_source (map fst updates))) (\<lambda>_.
       Inr (fold (persist_one user category) updates db))"

section \<open>The scores of a round\<close>

record rating_round =
  rr_db :: db
  rr_cycle :: pull_cycle
  rr_current :: "reconciliation option"
  rr_updates :: "(string \<times> pydict) list"

text \<open>A projected echo of the local score is the local score, and what a source reported before is
  what it reports now.\<close>

definition as_local :: "rat option \<Rightarrow> rat observation \<Rightarrow> rat observation" where
  "as_local local ob =
     (let v = (if local \<noteq> None \<and> is_projected_echo local (o_value ob) then local else o_value ob);
          previous = (if o_previous ob = Some (o_value ob) then Some v else o_previous ob)
      in observe (o_source ob) v (o_changed_at ob) previous (o_observed_after ob))"

definition score_json :: "rat option \<Rightarrow> pyval" where
  "score_json v = (case v of None \<Rightarrow> VNone | Some r \<Rightarrow> VFloat r)"

definition score_text :: "rat option \<Rightarrow> string" where
  "score_text v = (case v of None \<Rightarrow> ''None'' | Some r \<Rightarrow> show_float r)"

definition local_score :: "tracked_entry option \<Rightarrow> rating option \<Rightarrow> int option \<Rightarrow> rat option result" where
  "local_score entry row season =
     and_then (entry_score entry season) (\<lambda>score.
       Inr (if score = None then (case row of None \<Rightarrow> None | Some r \<Rightarrow> r_rating r) else score))"

definition score_clock :: "tracked_entry option \<Rightarrow> rating option \<Rightarrow> datetime option" where
  "score_clock entry row =
     (case row of Some r \<Rightarrow> Some (r_rated_at r)
      | None \<Rightarrow> (case entry of Some e \<Rightarrow> Some (te_updated_at e) | None \<Rightarrow> None))"

text \<open>A calculated average is never replaced without the owner.\<close>

definition rating_decision ::
  "datetime \<Rightarrow> tracked_entry option \<Rightarrow> rating option \<Rightarrow> int option \<Rightarrow> rat option \<Rightarrow> rat observation list \<Rightarrow> rat decision" where
  "rating_decision started entry row season local observations =
     (let d = resolve local (score_clock entry row) observations (Some started) None in
      if season = None \<and> (case entry of None \<Rightarrow> False | Some e \<Rightarrow> te_rating_mode e = ''average'') \<and> d_value d \<noteq> local
      then (keep_local local)\<lparr>d_conflict := True\<rparr> else d)"

definition fill_scores :: "rat decision \<Rightarrow> rat observation list \<Rightarrow> sync_review \<Rightarrow> sync_review" where
  "fill_scores d observations r =
     r\<lparr>sr_previous_score := d_value d, sr_proposed_score := o_value (hd observations)\<rparr>"

definition approve_one :: "int \<Rightarrow> db \<Rightarrow> string \<Rightarrow> bool \<times> reconciliation option \<Rightarrow> (bool \<times> reconciliation option) result" where
  "approve_one user db source acc =
     and_then (approved_source db user source (snd acc)) (\<lambda>(ok, current). Inr (fst acc \<or> ok, current))"

definition any_approved ::
  "int \<Rightarrow> db \<Rightarrow> string set \<Rightarrow> reconciliation option \<Rightarrow> (bool \<times> reconciliation option) result" where
  "any_approved user db sources current =
     fold_result (approve_one user db) (sorted_list_of_set sources) (False, current)"

text \<open>The accepted score becomes the row's and the entry's.\<close>

definition accept_score ::
  "datetime \<Rightarrow> int \<Rightarrow> datetime \<Rightarrow> rating_key \<Rightarrow> tracked_entry option \<Rightarrow> rating option \<Rightarrow> rat decision \<Rightarrow> db \<Rightarrow> db" where
  "accept_score now user started key entry row d db =
     (let score = the (d_value d);
          at_time = (case d_changed_at d of None \<Rightarrow> started | Some t \<Rightarrow> t);
          db1 = (case row of
                   None \<Rightarrow> add_rating_row (new_rating db user key score at_time) db
                 | Some r \<Rightarrow> update_rating (r_id r) (\<lambda>x. x\<lparr>r_rating := Some score, r_rated_at := at_time\<rparr>) db)
      in score_entry now entry (snd key) score db1)"

definition deliver_score :: "rating_key \<Rightarrow> rat decision \<Rightarrow> pull_cycle \<Rightarrow> pull_cycle" where
  "deliver_score key d cycle =
     cycle\<lparr>pc_new_ratings := (pc_new_ratings cycle)(key \<mapsto> the (d_value d)),
           pc_rating_sources := (pc_rating_sources cycle)(key \<mapsto> d_sources d)\<rparr>"

definition observed_scores :: "rating_key \<Rightarrow> rat observation list \<Rightarrow> (string \<times> pydict) list \<Rightarrow> (string \<times> pydict) list" where
  "observed_scores key observations updates =
     fold (\<lambda>ob. dict_alter (o_source ob) [] (dict_set (rating_slot key) (VDict [(''value'', score_json (o_value ob))])))
       (filter (\<lambda>ob. \<not> is_connection_source (o_source ob)) observations) updates"

definition apply_rating_decision ::
  "datetime \<Rightarrow> int \<Rightarrow> datetime \<Rightarrow> rating_key \<Rightarrow> tracked_entry option \<Rightarrow> rating option \<Rightarrow> rat option \<Rightarrow>
   rat decision \<Rightarrow> rat observation list \<Rightarrow> rating_round \<Rightarrow> rating_round result" where
  "apply_rating_decision now user started key entry row local d observations s =
     (if d_conflict d
      then and_then (record_conflict now user (fst key) ''rating'' (snd key)
             (review_payload score_json score_text ''rating'' d observations) (fill_scores d observations) (rr_db s))
             (\<lambda>db. Inr (s\<lparr>rr_db := db\<rparr>))
      else if d_sources d \<noteq> {} \<and> d_value d \<noteq> local
      then (let db = accept_score now user started key entry row d
                  (retire_review user (fst key) ''rating_conflict'' (snd key) (rr_db s))
            in and_then (any_approved user db (d_sources d) (rr_current s)) (\<lambda>(ok, current).
                 Inr (s\<lparr>rr_db := db, rr_current := current,
                        rr_cycle := (if ok then deliver_score key d (rr_cycle s) else rr_cycle s)\<rparr>)))
      else Inr s)"

definition rating_step ::
  "datetime \<Rightarrow> int \<Rightarrow> datetime \<Rightarrow> rating_key \<times> rat observation list \<Rightarrow> rating_round \<Rightarrow> rating_round result" where
  "rating_step now user started item s =
     (case item of (key, collected) \<Rightarrow>
        let raw = sort_key o_source collected;
            row = rating_row (rr_db s) user key; entry = entry_row (rr_db s) user (fst key) in
        and_then (local_score entry row (snd key)) (\<lambda>local.
          let observations = map (as_local local) raw;
              d = rating_decision started entry row (snd key) local observations in
          and_then (apply_rating_decision now user started key entry row local d observations s) (\<lambda>s1.
            Inr (s1\<lparr>rr_updates := observed_scores key raw (rr_updates s1)\<rparr>))))"

definition decide_ratings ::
  "datetime \<Rightarrow> reconciliation \<Rightarrow> pull_cycle \<Rightarrow> db \<Rightarrow> (db \<times> pull_cycle \<times> reconciliation option) result" where
  "decide_ratings now st cycle db =
     (if rc_ratings st = [] then Inr (db, cycle, Some st)
      else and_then (fold_result (rating_step now (rc_user_id st) (rc_started_at st)) (rc_ratings st)
               \<lparr>rr_db = db, rr_cycle = cycle, rr_current = Some st, rr_updates = []\<rparr>) (\<lambda>s.
           and_then (persist_observations (rc_user_id st) ''rating_observations'' (rr_updates s) (rr_db s)) (\<lambda>db'.
             Inr (db', rr_cycle s, rr_current s))))"

section \<open>One score of a cloud tracker\<close>

datatype rating_outcome = Applied | Skipped | Conflict

record cloud_rating_world =
  cw_db :: db
  cw_current :: "reconciliation option"
  cw_existing :: "rating_key \<rightharpoonup> int"
  cw_changed :: rating_changes

definition existing_rating :: "cloud_rating_world \<Rightarrow> rating_key \<Rightarrow> rating option" where
  "existing_rating w key =
     (case cw_existing w key of None \<Rightarrow> None | Some rid \<Rightarrow> find (\<lambda>r. r_id r = rid) (rating_table (cw_db w)))"

definition pending_conflict :: "db \<Rightarrow> int \<Rightarrow> string \<Rightarrow> int \<Rightarrow> int option \<Rightarrow> sync_review option result" where
  "pending_conflict db user provider mid season =
     scalar_one_or_none (filter (\<lambda>r. sr_user_id r = user \<and> sr_provider r = Some provider \<and> sr_media_id r = Some mid
        \<and> sr_kind r = ''rating_conflict'' \<and> sr_state r = ''pending'' \<and> sr_season_number r = season) (review_table db))"

definition scope_text :: "int option \<Rightarrow> string" where
  "scope_text season = (case season of None \<Rightarrow> ''title'' | Some n \<Rightarrow> ''season '' @ show_int n)"

definition put_rating :: "int \<Rightarrow> rating_key \<Rightarrow> rat \<Rightarrow> datetime \<Rightarrow> cloud_rating_world \<Rightarrow> cloud_rating_world" where
  "put_rating user key score rated_at w =
     (let r = new_rating (cw_db w) user key score rated_at in
      w\<lparr>cw_db := add_rating_row r (cw_db w), cw_existing := (cw_existing w)(key \<mapsto> r_id r)\<rparr>)"

text \<open>The provider row is put back to the local score before the disagreement is recorded.\<close>

definition restore_local ::
  "datetime \<Rightarrow> int \<Rightarrow> rating_key \<Rightarrow> rat \<Rightarrow> datetime option \<Rightarrow> rating option \<Rightarrow> cloud_rating_world \<Rightarrow> cloud_rating_world" where
  "restore_local now user key score rated_at current w =
     (case current of
        None \<Rightarrow> put_rating user key score (case rated_at of None \<Rightarrow> now | Some t \<Rightarrow> t) w
      | Some r \<Rightarrow> w\<lparr>cw_db := update_rating (r_id r) (\<lambda>x. x\<lparr>r_rating := Some score\<rparr>) (cw_db w)\<rparr>)"

definition record_rating_conflict ::
  "datetime \<Rightarrow> int \<Rightarrow> string \<Rightarrow> rating_key \<Rightarrow> rat \<Rightarrow> rat \<Rightarrow> db \<Rightarrow> db result" where
  "record_rating_conflict now user provider key local remote db =
     and_then (pending_conflict db user provider (fst key) (snd key)) (\<lambda>found.
       let intro = provider_label provider @ '': the imported '' @ scope_text (snd key) in
       case found of
         None \<Rightarrow> Inr (add_review ((new_review db now user ''rating_conflict'' (Some provider)
              (intro @ '' rating differs from your local rating, and their order cannot be established reliably. Your local value was kept.''))
              \<lparr>sr_media_id := Some (fst key), sr_previous_score := Some local, sr_proposed_score := Some remote,
               sr_season_number := snd key\<rparr>) db)
       | Some found \<Rightarrow> Inr (db\<lparr>review_table := update_where (\<lambda>r. sr_id r = sr_id found)
            (\<lambda>r. r\<lparr>sr_proposed_score := Some remote,
                    sr_message := intro @ '' rating still differs from your local rating. Your local value was kept.''\<rparr>)
            (review_table db)\<rparr>))"

definition apply_remote ::
  "datetime \<Rightarrow> int \<Rightarrow> rating_key \<Rightarrow> tracked_entry option \<Rightarrow> rating option \<Rightarrow> rat \<Rightarrow> datetime option \<Rightarrow>
   cloud_rating_world \<Rightarrow> cloud_rating_world" where
  "apply_remote now user key entry current remote rated_at w =
     (let at_time = (case rated_at of None \<Rightarrow> now | Some t \<Rightarrow> t);
          w1 = (case current of
                  None \<Rightarrow> put_rating user key remote at_time w
                | Some r \<Rightarrow> w\<lparr>cw_db := update_rating (r_id r) (\<lambda>x. x\<lparr>r_rating := Some remote, r_rated_at := at_time\<rparr>) (cw_db w)\<rparr>)
      in w1\<lparr>cw_db := score_entry now entry (snd key) remote (cw_db w1), cw_changed := (cw_changed w)(key \<mapsto> remote)\<rparr>)"

definition calculated_show :: "tracked_entry option \<Rightarrow> int option \<Rightarrow> bool" where
  "calculated_show entry season \<longleftrightarrow>
     season = None \<and> (case entry of None \<Rightarrow> False | Some e \<Rightarrow> te_rating_mode e = ''average'')"

fun strictly_before :: "datetime option \<Rightarrow> datetime option \<Rightarrow> bool" where
  "strictly_before (Some a) (Some b) = (a < b)"
| "strictly_before _ _ = False"

definition settle_cloud_rating ::
  "datetime \<Rightarrow> int \<Rightarrow> string \<Rightarrow> rating_key \<Rightarrow> rat \<Rightarrow> datetime option \<Rightarrow> tracked_entry option \<Rightarrow> cloud_rating_world \<Rightarrow>
   (rating_outcome \<times> cloud_rating_world) result" where
  "settle_cloud_rating now user provider key remote rated_at entry w =
     (let current = existing_rating w key in
      and_then (local_score entry current (snd key)) (\<lambda>local.
        if local \<noteq> None \<and> (local = Some remote \<or> is_projected_echo local (Some remote))
        then Inr (Skipped, (case current of
               None \<Rightarrow> w
             | Some r \<Rightarrow> if r_rating r = local then w
                         else w\<lparr>cw_db := update_rating (r_id r) (\<lambda>x. x\<lparr>r_rating := local\<rparr>) (cw_db w)\<rparr>))
        else
          let local_at = score_clock entry current in
          if local \<noteq> None \<and> (calculated_show entry (snd key) \<or> \<not> strictly_before local_at rated_at)
          then (let w1 = restore_local now user key (the local) local_at current w in
                if strictly_before rated_at local_at then Inr (Skipped, w1)
                else and_then (record_rating_conflict now user provider key (the local) remote (cw_db w1)) (\<lambda>db.
                  Inr (Conflict, w1\<lparr>cw_db := db\<rparr>)))
          else Inr (Applied, apply_remote now user key entry current remote rated_at w)))"

definition reconcile_cloud_rating ::
  "datetime \<Rightarrow> int \<Rightarrow> string \<Rightarrow> rating_key \<Rightarrow> rat \<Rightarrow> datetime option \<Rightarrow> cloud_rating_world \<Rightarrow>
   (rating_outcome \<times> cloud_rating_world) result" where
  "reconcile_cloud_rating now user provider key remote rated_at w =
     and_then (collect_rating (cw_db w) user provider (fst key) (snd key) remote rated_at None None None (cw_current w))
       (\<lambda>(taken, current).
         if taken then Inr (Skipped, w\<lparr>cw_current := current\<rparr>)
         else if \<not> (0 < remote \<and> remote \<le> 10) then Inl ValueError
         else and_then (scalar_one_or_none (filter (\<lambda>e. te_user_id e = user \<and> te_media_id e = fst key)
                (entry_table (cw_db w)))) (\<lambda>entry.
           settle_cloud_rating now user provider key remote rated_at entry w))"

section \<open>Scores of a file import\<close>

text \<open>\<open>isoparse\<close> is the date parser of \<open>dateutil\<close>, already converted to naive UTC.\<close>

definition imported_rated_at :: "(string \<Rightarrow> datetime option) \<Rightarrow> datetime \<Rightarrow> pyval \<Rightarrow> datetime result" where
  "imported_rated_at isoparse now v =
     (if \<not> truthy v then Inr now
      else case v of VStr s \<Rightarrow> (case isoparse s of None \<Rightarrow> Inl ValueError | Some t \<Rightarrow> Inr t) | _ \<Rightarrow> Inl TypeError)"

definition optional_imported_rated_at :: "(string \<Rightarrow> datetime option) \<Rightarrow> datetime \<Rightarrow> pyval \<Rightarrow> datetime option result" where
  "optional_imported_rated_at isoparse now v =
     (if \<not> truthy v then Inr None else and_then (imported_rated_at isoparse now v) (\<lambda>t. Inr (Some t)))"

definition apply_imported_rating ::
  "(string \<Rightarrow> datetime option) \<Rightarrow> datetime \<Rightarrow> int \<Rightarrow> rating_key \<Rightarrow> pydict \<Rightarrow> cloud_rating_world \<Rightarrow>
   (bool \<times> cloud_rating_world) result" where
  "apply_imported_rating isoparse now user key item w =
     and_then (case map_of item ''rating'' of None \<Rightarrow> Inl KeyError | Some v \<Rightarrow> to_float v) (\<lambda>score.
     and_then (imported_rated_at isoparse now (get item ''rated_at'')) (\<lambda>rated_at.
       let current = existing_rating w key in
       if (case current of None \<Rightarrow> False
           | Some r \<Rightarrow> r_rating r = Some score \<or> is_projected_echo (r_rating r) (Some score))
       then Inr (False, w)
       else
         let w1 = (case current of
                None \<Rightarrow> put_rating user key score rated_at w
              | Some r \<Rightarrow> w\<lparr>cw_db := update_rating (r_id r) (\<lambda>x. x\<lparr>r_rating := Some score, r_rated_at := rated_at\<rparr>) (cw_db w)\<rparr>)
         in Inr (True, w1\<lparr>cw_changed := (cw_changed w)(key \<mapsto> score)\<rparr>)))"

section \<open>What a round of scores does\<close>

lemma sort_by_source_cong:
  assumes "mset xs = mset ys" "distinct (map o_source xs)"
  shows "sort_key o_source xs = sort_key o_source ys"
  by (rule sort_key_inj_key_eq) (use assms in \<open>simp_all add: distinct_map\<close>)

text \<open>The outcome of a score does not depend on the order in which the providers delivered
  their observations of it.\<close>

lemma rating_step_order_irrelevant:
  assumes "mset xs = mset ys" "distinct (map o_source xs)"
  shows "rating_step now user started (key, xs) s = rating_step now user started (key, ys) s"
  by (simp only: rating_step_def prod.case sort_by_source_cong [OF assms])

text \<open>A round over an empty database.\<close>

definition empty_round :: rating_round where
  "empty_round = \<lparr>rr_db = empty_db, rr_cycle = new_cycle 1, rr_current = None, rr_updates = []\<rparr>"

lemma rating_step_order_irrelevant_witness:
  "rating_step 9 1 5 ((10, None), [observe ''trakt'' (Some 8) (Some 3) None None, observe ''simkl'' (Some 7) (Some 4) None None]) empty_round =
   rating_step 9 1 5 ((10, None), [observe ''simkl'' (Some 7) (Some 4) None None, observe ''trakt'' (Some 8) (Some 3) None None]) empty_round"
  by (rule rating_step_order_irrelevant) (simp_all add: observe_def)

lemma approve_one_Inr_iff:
  "approve_one user db source acc = Inr r \<longleftrightarrow>
     (\<exists>b c. approved_source db user source (snd acc) = Inr (b, c) \<and> r = (fst acc \<or> b, c))"
  by (auto simp: approve_one_def and_then_Inr_iff)

text \<open>The approval of a source as the database has it.\<close>

definition is_approved :: "db \<Rightarrow> int \<Rightarrow> string \<Rightarrow> bool" where
  "is_approved db user source \<longleftrightarrow> fst (case approved_source db user source None of Inl _ \<Rightarrow> (False, None) | Inr r \<Rightarrow> r)"

definition approvals_known :: "db \<Rightarrow> int \<Rightarrow> reconciliation option \<Rightarrow> bool" where
  "approvals_known db user current \<longleftrightarrow>
     (\<forall>st source b. current = Some st \<longrightarrow> rc_source_approvals st source = Some b \<longrightarrow> b = is_approved db user source)"

lemma approved_source_known:
  assumes "approved_source db user source current = Inr (ok, current')" "approvals_known db user current"
  shows "ok = is_approved db user source \<and> approvals_known db user current'"
proof (cases "case replaying current user of None \<Rightarrow> None | Some st \<Rightarrow> rc_source_approvals st source")
  case (Some known)
  with assms(1) have same: "ok = known" "current' = current" by (simp_all add: approved_source_def)
  from Some obtain st where "replaying current user = Some st" "rc_source_approvals st source = Some known"
    by (auto split: option.splits)
  then have "current = Some st" by (auto simp: replaying_def split: option.splits if_splits)
  with \<open>rc_source_approvals st source = Some known\<close> assms(2) same show ?thesis
    by (auto simp: approvals_known_def)
next
  case None
  then have ok: "ok = is_approved db user source"
    and cur: "current' = (case replaying current user of None \<Rightarrow> current
               | Some st \<Rightarrow> Some (st\<lparr>rc_source_approvals := (rc_source_approvals st)(source \<mapsto> ok)\<rparr>))"
    using assms(1)
    by (auto simp: approved_source_def is_approved_def and_then_Inr_iff replaying_def split: option.splits if_splits)
  have "approvals_known db user current'"
    using assms(2) ok unfolding cur
    by (auto simp: approvals_known_def replaying_def split: option.splits if_splits)
  with ok show ?thesis by simp
qed

lemma fold_approve_known:
  "fold_result (approve_one user db) sources (acc, current) = Inr (ok, current') \<Longrightarrow> approvals_known db user current \<Longrightarrow>
   approvals_known db user current' \<and> (ok \<longleftrightarrow> acc \<or> (\<exists>s \<in> set sources. is_approved db user s))"
proof (induction sources arbitrary: acc current)
  case Nil
  then show ?case by simp
next
  case (Cons s sources)
  then obtain b c where one: "approved_source db user s current = Inr (b, c)"
    and rest: "fold_result (approve_one user db) sources (acc \<or> b, c) = Inr (ok, current')"
    by (auto simp: approve_one_Inr_iff and_then_Inr_iff)
  from approved_source_known [OF one Cons.prems(2)] Cons.IH [OF rest] show ?case by auto
qed

lemma any_approved_known:
  assumes "any_approved user db sources current = Inr (ok, current')" "approvals_known db user current" "finite sources"
  shows "approvals_known db user current' \<and> (ok \<longleftrightarrow> (\<exists>s \<in> sources. is_approved db user s))"
  using fold_approve_known [OF assms(1) [unfolded any_approved_def] assms(2)] assms(3) by simp

lemma baselines_is_approved:
  assumes "stream_baseline_table db' = stream_baseline_table db" "cloud_baseline_table db' = cloud_baseline_table db"
  shows "approved_source db' user source current = approved_source db user source current"
  unfolding approved_source_def stream_baseline_of_def cloud_baseline_of_def assms ..

lemma accept_score_tables:
  "stream_baseline_table (accept_score now user started key entry row d db) = stream_baseline_table db"
  "cloud_baseline_table (accept_score now user started key entry row d db) = cloud_baseline_table db"
  by (simp_all add: accept_score_def score_entry_def add_rating_row_def update_rating_def update_entry_def Let_def
      split: option.split)

lemma retire_review_tables [simp]:
  "stream_baseline_table (retire_review user mid kind season db) = stream_baseline_table db"
  "cloud_baseline_table (retire_review user mid kind season db) = cloud_baseline_table db"
  "entry_table (retire_review user mid kind season db) = entry_table db"
  "rating_table (retire_review user mid kind season db) = rating_table db"
  by (simp_all add: retire_review_def)

lemma record_conflict_tables:
  assumes "record_conflict now user mid category season payload fill db = Inr db'"
  shows "db' = db\<lparr>review_table := review_table db'\<rparr>"
proof -
  from assms obtain found where
    "scalar_one_or_none (filter (combined_pending user mid (conflict_kind category) season) (review_table db)) = Inr found"
    unfolding record_conflict_def Let_def and_then_Inr_iff by blast
  with assms show ?thesis by (cases found) (auto simp: record_conflict_def Let_def add_review_def)
qed

text \<open>A step either keeps what is delivered or adds the decided score of its key, and then only with
  an approved source behind it.\<close>

lemma rating_step_result:
  assumes "rating_step now user started (key, collected) s = Inr s'"
  shows "\<exists>d local entry row. entry = entry_row (rr_db s) user (fst key) \<and> row = rating_row (rr_db s) user key \<and>
    local_score entry row (snd key) = Inr local \<and>
    d = rating_decision started entry row (snd key) local (map (as_local local) (sort_key o_source collected)) \<and>
    (\<exists>s1. apply_rating_decision now user started key entry row local d
        (map (as_local local) (sort_key o_source collected)) s = Inr s1 \<and>
      rr_db s' = rr_db s1 \<and> rr_cycle s' = rr_cycle s1 \<and> rr_current s' = rr_current s1)"
  using assms unfolding rating_step_def prod.case Let_def and_then_Inr_iff by fastforce

lemma finite_sources_resolve: "finite (d_sources (resolve local tm obs started compatible))"
proof -
  have "finite (d_sources (resolve_values local at_time compatible candidates))" for at_time candidates
    by (simp add: resolve_values_def clocked_winner_def agree_on_def keep_local_def sources_of_def Let_def
        split: option.split)
  then show ?thesis by (simp add: resolve_def keep_local_def Let_def split: option.split)
qed

lemma finite_sources_decision: "finite (d_sources (rating_decision started entry row season local obs))"
  by (auto simp: rating_decision_def Let_def keep_local_def finite_sources_resolve)

definition delivered_ok :: "db \<Rightarrow> int \<Rightarrow> pull_cycle \<Rightarrow> rating_round \<Rightarrow> bool" where
  "delivered_ok db user cycle s \<longleftrightarrow>
     stream_baseline_table (rr_db s) = stream_baseline_table db \<and>
     cloud_baseline_table (rr_db s) = cloud_baseline_table db \<and>
     approvals_known db user (rr_current s) \<and>
     (\<forall>key score. pc_new_ratings (rr_cycle s) key = Some score \<longrightarrow>
        pc_new_ratings cycle key = Some score \<or>
        (\<exists>sources. pc_rating_sources (rr_cycle s) key = Some sources \<and> (\<exists>src \<in> sources. is_approved db user src)))"

lemma is_approved_baselines:
  assumes "stream_baseline_table db' = stream_baseline_table db" "cloud_baseline_table db' = cloud_baseline_table db"
  shows "is_approved db' user source = is_approved db user source"
  unfolding is_approved_def baselines_is_approved [OF assms] ..

lemma apply_rating_decision_delivers:
  assumes "apply_rating_decision now user started key entry row local d obs s = Inr s1" "finite (d_sources d)"
    and ok: "delivered_ok db user cycle s"
  shows "delivered_ok db user cycle s1"
proof (cases "d_conflict d")
  case True
  with assms(1) obtain db1 where rc: "record_conflict now user (fst key) ''rating'' (snd key)
       (review_payload score_json score_text ''rating'' d obs) (fill_scores d obs) (rr_db s) = Inr db1"
    and s1: "s1 = s\<lparr>rr_db := db1\<rparr>"
    by (auto simp: apply_rating_decision_def and_then_Inr_iff)
  from record_conflict_tables [OF rc] have "stream_baseline_table db1 = stream_baseline_table (rr_db s)"
    "cloud_baseline_table db1 = cloud_baseline_table (rr_db s)"
    by (metis db.select_convs(9) db.surjective db.update_convs(8), metis db.select_convs(10) db.surjective db.update_convs(8))
  with ok s1 show ?thesis by (simp add: delivered_ok_def)
next
  case no_conflict: False
  show ?thesis
  proof (cases "d_sources d \<noteq> {} \<and> d_value d \<noteq> local")
    case False
    with assms(1) no_conflict have "s1 = s" by (auto simp: apply_rating_decision_def)
    with ok show ?thesis by simp
  next
    case True
    let ?db = "accept_score now user started key entry row d
        (retire_review user (fst key) ''rating_conflict'' (snd key) (rr_db s))"
    from assms(1) True no_conflict obtain yes current where
      any: "any_approved user ?db (d_sources d) (rr_current s) = Inr (yes, current)"
      and s1: "s1 = s\<lparr>rr_db := ?db, rr_current := current,
                      rr_cycle := (if yes then deliver_score key d (rr_cycle s) else rr_cycle s)\<rparr>"
      unfolding apply_rating_decision_def Let_def by (auto simp: and_then_Inr_iff)
    have tables: "stream_baseline_table ?db = stream_baseline_table db" "cloud_baseline_table ?db = cloud_baseline_table db"
      using ok by (simp_all only: accept_score_tables retire_review_tables delivered_ok_def)
    note approved = is_approved_baselines [OF tables, of user]
    have known: "approvals_known ?db user (rr_current s)"
      using ok by (simp add: approvals_known_def approved delivered_ok_def)
    from any_approved_known [OF any known assms(2)]
    have yes: "approvals_known db user current" "yes \<longleftrightarrow> (\<exists>src \<in> d_sources d. is_approved db user src)"
      by (simp_all add: approvals_known_def approved)
    then show ?thesis
      using ok tables by (auto simp: delivered_ok_def s1 deliver_score_def)
  qed
qed

lemma rating_step_delivers:
  assumes "rating_step now user started item s = Inr s'" "delivered_ok db user cycle s"
  shows "delivered_ok db user cycle s'"
proof -
  obtain key collected where item: "item = (key, collected)" by (cases item)
  from rating_step_result [OF assms(1) [unfolded item]] obtain local s1 where
    "apply_rating_decision now user started key (entry_row (rr_db s) user (fst key)) (rating_row (rr_db s) user key) local
       (rating_decision started (entry_row (rr_db s) user (fst key)) (rating_row (rr_db s) user key) (snd key) local
          (map (as_local local) (sort_key o_source collected)))
       (map (as_local local) (sort_key o_source collected)) s = Inr s1"
    and same: "rr_db s' = rr_db s1" "rr_cycle s' = rr_cycle s1" "rr_current s' = rr_current s1" by blast
  from apply_rating_decision_delivers [OF this(1) finite_sources_decision assms(2)] same
  show ?thesis by (simp add: delivered_ok_def)
qed

text \<open>C12: A round of pulls only hands a score on for delivery when at least one of the sources it
  was decided from has an approved import; the provider that reported it is recorded with it.\<close>

theorem decide_ratings_delivers_approved:
  assumes "decide_ratings now st cycle db = Inr (db', cycle', current)"
    and "rc_source_approvals st = Map.empty"
    and "pc_new_ratings cycle' key = Some score"
  shows "pc_new_ratings cycle key = Some score \<or>
    (\<exists>sources. pc_rating_sources cycle' key = Some sources \<and> (\<exists>src \<in> sources. is_approved db (rc_user_id st) src))"
proof (cases "rc_ratings st = []")
  case True
  with assms(1,3) show ?thesis by (simp add: decide_ratings_def)
next
  case False
  let ?s = "\<lparr>rr_db = db, rr_cycle = cycle, rr_current = Some st, rr_updates = []\<rparr>"
  from assms(1) False obtain s where
    run: "fold_result (rating_step now (rc_user_id st) (rc_started_at st)) (rc_ratings st) ?s = Inr s"
    and s: "rr_cycle s = cycle'"
    by (auto simp: decide_ratings_def and_then_Inr_iff)
  have start: "delivered_ok db (rc_user_id st) cycle ?s"
    using assms(2) by (simp add: delivered_ok_def approvals_known_def)
  have "delivered_ok db (rc_user_id st) cycle s"
    by (rule fold_result_invariant [OF run, where P = "delivered_ok db (rc_user_id st) cycle"])
      (use start rating_step_delivers in blast)+
  with assms(3) s show ?thesis unfolding delivered_ok_def by (cases key) blast
qed

text \<open>A new score of an approved Trakt import.\<close>

definition sample_trakt :: cloud_baseline where
  "sample_trakt = \<lparr>cb_id = 1, cb_user_id = 1, cb_provider = ''trakt'', cb_snapshot = [], cb_approved = True, cb_observed_at = 0\<rparr>"

definition sample_rating_db :: db where
  "sample_rating_db = empty_db\<lparr>cloud_baseline_table := [sample_trakt]\<rparr>"

definition sample_round :: reconciliation where
  "sample_round = (new_reconciliation 1 9000)
     \<lparr>rc_collecting := False, rc_ratings := [((10, None), [observe ''trakt'' (Some 8) (Some 3000) None None])]\<rparr>"

lemma sample_round_fields [simp]:
  "rc_user_id sample_round = 1" "rc_started_at sample_round = 9000" "rc_collecting sample_round = False"
  "rc_source_approvals sample_round = Map.empty"
  "rc_ratings sample_round = [((10, None), [observe ''trakt'' (Some 8) (Some 3000) None None])]"
  by (simp_all add: sample_round_def new_reconciliation_def)

lemma sample_decision:
  "rating_decision 9000 None None None None [observe ''trakt'' (Some 8) (Some 3000) None None] =
     \<lparr>d_value = Some 8, d_sources = {''trakt''}, d_changed_at = Some 3000, d_conflict = False, d_stale = False\<rparr>"
  by (simp add: rating_decision_def resolve_def score_clock_def naive_utc_def milliseconds_def deltas_def
      is_delta_def infer_clock_def observe_def superseded_def clock_def resolve_values_def first_seen_def agree_on_def
      sources_of_def latest_def clocks_def keep_local_def Let_def map_filter_simps)

lemma decide_ratings_delivers_approved_witness:
  "\<exists>db' cycle' current. decide_ratings 9001 sample_round (new_cycle 1) sample_rating_db = Inr (db', cycle', current) \<and>
     pc_new_ratings cycle' (10, None) = Some 8 \<and>
     (\<exists>sources. pc_rating_sources cycle' (10, None) = Some sources \<and> (\<exists>src \<in> sources. is_approved sample_rating_db 1 src))"
proof -
  let ?s = "\<lparr>rr_db = sample_rating_db, rr_cycle = new_cycle 1, rr_current = Some sample_round, rr_updates = []\<rparr>"
  have no_rows: "rating_row sample_rating_db 1 (10, None) = None" "entry_row sample_rating_db 1 10 = None"
    by (simp_all add: sample_rating_db_def empty_db_def rating_row_def entry_row_def last_row_def)
  have loc: "local_score None None None = Inr None"
    by (simp add: local_score_def entry_score_def)
  have same: "as_local None (observe ''trakt'' (Some 8) (Some 3000) None None) = observe ''trakt'' (Some 8) (Some 3000) None None"
    by (simp add: as_local_def observe_def)
  have "\<exists>s1. apply_rating_decision 9001 1 9000 (10, None) None None None
      (rating_decision 9000 None None None None [observe ''trakt'' (Some 8) (Some 3000) None None])
      [observe ''trakt'' (Some 8) (Some 3000) None None] ?s = Inr s1 \<and> pc_new_ratings (rr_cycle s1) (10, None) = Some 8
      \<and> rr_updates s1 = []"
    by (simp add: sample_decision apply_rating_decision_def any_approved_def approve_one_def approved_source_def replaying_def
        cloud_baseline_of_def accept_score_def retire_review_def score_entry_def add_rating_row_def Let_def
        sample_rating_db_def empty_db_def sample_trakt_def is_connection_source_def starts_with_def deliver_score_def)
  then obtain s1 where s1: "apply_rating_decision 9001 1 9000 (10, None) None None None
      (rating_decision 9000 None None None None [observe ''trakt'' (Some 8) (Some 3000) None None])
      [observe ''trakt'' (Some 8) (Some 3000) None None] ?s = Inr s1"
    "pc_new_ratings (rr_cycle s1) (10, None) = Some 8" "rr_updates s1 = []" by blast
  define s2 where "s2 = s1\<lparr>rr_updates := observed_scores (10, None) [observe ''trakt'' (Some 8) (Some 3000) None None] []\<rparr>"
  have "rating_step 9001 1 9000 ((10, None), [observe ''trakt'' (Some 8) (Some 3000) None None]) ?s = Inr s2"
    using s1(1,3) by (simp add: rating_step_def no_rows loc same s2_def)
  moreover have "pc_new_ratings (rr_cycle s2) (10, None) = Some 8"
    "rr_updates s2 = observed_scores (10, None) [observe ''trakt'' (Some 8) (Some 3000) None None] []"
    using s1(2) by (simp_all add: s2_def)
  moreover have "persist_observations 1 ''rating_observations'' (rr_updates s2) db = Inr (fold (persist_one 1 ''rating_observations'') (rr_updates s2) db)" for db
    by (simp add: persist_observations_def calculation(3) observed_scores_def observe_def is_connection_source_def starts_with_def dict_alter_def)
  ultimately obtain db' current where run: "decide_ratings 9001 sample_round (new_cycle 1) sample_rating_db = Inr (db', rr_cycle s2, current)"
    by (simp add: decide_ratings_def)
  from decide_ratings_delivers_approved [OF run _ \<open>pc_new_ratings (rr_cycle s2) (10, None) = Some 8\<close>] run
    \<open>pc_new_ratings (rr_cycle s2) (10, None) = Some 8\<close>
  show ?thesis by (auto simp: new_cycle_def)
qed

section \<open>A single cloud score keeps the owner's\<close>

lemma find_update_where_id:
  "(\<And>r. key (f r) = key r) \<Longrightarrow>
   find (\<lambda>r. key r = k) (update_where P f rows) = map_option (\<lambda>r. if P r then f r else r) (find (\<lambda>r. key r = k) rows)"
  by (induction rows) (auto simp: update_where_def)

lemma find_append_new:
  "find P (xs @ ys) = (case find P xs of None \<Rightarrow> find P ys | Some x \<Rightarrow> Some x)"
  by (induction xs) auto

lemma find_next_id: "find (\<lambda>r. r_id r = next_id r_id rows) rows = None"
  using next_id_not_in [of r_id rows] by (simp add: find_None_iff) (metis image_eqI)

lemma existing_put_rating [simp]:
  "existing_rating (put_rating user key score rated_at w) key = Some (new_rating (cw_db w) user key score rated_at)"
  by (simp add: existing_rating_def put_rating_def add_rating_row_def Let_def find_append_new new_rating_def find_next_id)

lemma existing_update:
  assumes "existing_rating w key = Some r"
  shows "existing_rating (w\<lparr>cw_db := update_rating (r_id r) (\<lambda>x. x\<lparr>r_rating := v\<rparr>) (cw_db w)\<rparr>) key = Some (r\<lparr>r_rating := v\<rparr>)"
proof -
  from assms obtain rid where rid: "cw_existing w key = Some rid" "find (\<lambda>r. r_id r = rid) (rating_table (cw_db w)) = Some r"
    by (auto simp: existing_rating_def split: option.splits)
  then show ?thesis by (simp add: existing_rating_def update_rating_def find_update_where_id [of r_id])
qed

lemma record_rating_conflict_tables:
  assumes "record_rating_conflict now user provider key local remote db = Inr db'"
  shows "db' = db\<lparr>review_table := review_table db'\<rparr> \<and>
    (\<exists>r \<in> set (review_table db'). sr_kind r = ''rating_conflict'' \<and> sr_state r = ''pending'' \<and> sr_proposed_score r = Some remote)"
proof -
  from assms obtain found where found: "pending_conflict db user provider (fst key) (snd key) = Inr found"
    unfolding record_rating_conflict_def and_then_Inr_iff by blast
  show ?thesis
  proof (cases found)
    case None
    with assms found show ?thesis
      by (auto simp: record_rating_conflict_def Let_def add_review_def new_review_def)
  next
    case (Some r)
    with found have r: "r \<in> set (review_table db)" "sr_kind r = ''rating_conflict''" "sr_state r = ''pending''"
      by (auto simp: pending_conflict_def scalar_one_or_none_Some filter_eq_Cons_iff)
    from assms found Some obtain msg where db': "db' = db\<lparr>review_table := update_where (\<lambda>x. sr_id x = sr_id r)
        (\<lambda>x. x\<lparr>sr_proposed_score := Some remote, sr_message := msg\<rparr>) (review_table db)\<rparr>"
      unfolding record_rating_conflict_def Let_def by auto
    let ?r = "r\<lparr>sr_proposed_score := Some remote, sr_message := msg\<rparr>"
    have "?r \<in> set (review_table db')" using r by (auto simp: db' set_update_where)
    with r db' show ?thesis by (auto intro!: bexI [of _ ?r])
  qed
qed

lemma restore_local_keeps:
  fixes now user score tm
  assumes "current = existing_rating w key"
  defines "w1 \<equiv> restore_local now user key score tm current w"
  shows "entry_table (cw_db w1) = entry_table (cw_db w)" "cw_changed w1 = cw_changed w"
    "review_table (cw_db w1) = review_table (cw_db w)"
    "\<exists>r. existing_rating w1 key = Some r \<and> r_rating r = Some score"
proof -
  show "entry_table (cw_db w1) = entry_table (cw_db w)" "cw_changed w1 = cw_changed w"
    "review_table (cw_db w1) = review_table (cw_db w)"
    by (simp_all add: w1_def restore_local_def put_rating_def add_rating_row_def update_rating_def Let_def split: option.split)
  show "\<exists>r. existing_rating w1 key = Some r \<and> r_rating r = Some score"
  proof (cases current)
    case None
    then show ?thesis by (simp add: w1_def restore_local_def new_rating_def)
  next
    case (Some r)
    with assms(1) have "existing_rating w key = Some r" by simp
    from existing_update [OF this] show ?thesis by (simp add: w1_def restore_local_def Some)
  qed
qed

lemma existing_rating_tables:
  "rating_table (cw_db w') = rating_table (cw_db w) \<Longrightarrow> cw_existing w' = cw_existing w \<Longrightarrow>
   existing_rating w' key = existing_rating w key"
  by (simp add: existing_rating_def cong: option.case_cong)

lemma settle_cloud_rating_keeps:
  assumes run: "settle_cloud_rating now user provider key remote rated_at entry w = Inr (outcome, w')"
    and local: "local_score entry (existing_rating w key) (snd key) = Inr (Some score)"
    and guard: "calculated_show entry (snd key) \<or> \<not> strictly_before (score_clock entry (existing_rating w key)) rated_at"
  shows "outcome \<noteq> Applied \<and> entry_table (cw_db w') = entry_table (cw_db w) \<and> cw_changed w' = cw_changed w \<and>
    (\<forall>r. existing_rating w' key = Some r \<longrightarrow> r_rating r = Some score) \<and>
    (outcome = Conflict \<longrightarrow> (\<exists>r \<in> set (review_table (cw_db w')). sr_kind r = ''rating_conflict'' \<and>
        sr_state r = ''pending'' \<and> sr_proposed_score r = Some remote))"
proof (cases "score = remote \<or> is_projected_echo (Some score) (Some remote)")
  case echo: True
  then have result: "outcome = Skipped" "w' = (case existing_rating w key of None \<Rightarrow> w
      | Some r \<Rightarrow> if r_rating r = Some score then w
                  else w\<lparr>cw_db := update_rating (r_id r) (\<lambda>x. x\<lparr>r_rating := Some score\<rparr>) (cw_db w)\<rparr>)"
    using run local by (auto simp: settle_cloud_rating_def Let_def)
  show ?thesis
  proof (cases "existing_rating w key")
    case None
    with result show ?thesis by simp
  next
    case (Some r)
    from existing_update [OF this, of "Some score"] Some result show ?thesis
      by (auto simp: update_rating_def)
  qed
next
  case other: False
  let ?w1 = "restore_local now user key score (score_clock entry (existing_rating w key)) (existing_rating w key) w"
  note keeps = restore_local_keeps [where current = "existing_rating w key" and w = w and key = key and now = now and user = user
      and score = score and tm = "score_clock entry (existing_rating w key)", OF refl]
  have run': "(if strictly_before rated_at (score_clock entry (existing_rating w key)) then Inr (Skipped, ?w1)
      else and_then (record_rating_conflict now user provider key score remote (cw_db ?w1)) (\<lambda>db.
        Inr (Conflict, ?w1\<lparr>cw_db := db\<rparr>))) = Inr (outcome, w')"
    using run local other guard by (simp add: settle_cloud_rating_def Let_def cong: if_cong)
  show ?thesis
  proof (cases "strictly_before rated_at (score_clock entry (existing_rating w key))")
    case True
    with run' have "outcome = Skipped" "w' = ?w1" by simp_all
    with keeps show ?thesis by auto
  next
    case False
    with run' obtain db where db: "record_rating_conflict now user provider key score remote (cw_db ?w1) = Inr db"
      "outcome = Conflict" "w' = ?w1\<lparr>cw_db := db\<rparr>"
      by (auto simp: and_then_Inr_iff)
    from record_rating_conflict_tables [OF db(1)] have
      same: "entry_table db = entry_table (cw_db ?w1)" "rating_table db = rating_table (cw_db ?w1)"
      and review: "\<exists>r \<in> set (review_table db). sr_kind r = ''rating_conflict'' \<and> sr_state r = ''pending'' \<and> sr_proposed_score r = Some remote"
      by (metis db.select_convs(5) db.surjective db.update_convs(8), metis db.select_convs(13) db.surjective db.update_convs(8), blast)
    have "existing_rating w' key = existing_rating ?w1 key"
      by (rule existing_rating_tables) (simp_all add: db(3) same)
    with keeps db(2,3) same review show ?thesis by auto
  qed
qed

text \<open>Outside of a round, an imported score replaces a known local score only when its own date
  is strictly later and the local score is not a calculated average; otherwise the list entry and
  what is handed on stay as they were, the provider-facing row holds the local score, and an
  undecidable disagreement is an open review.\<close>

lemma reconcile_cloud_rating_keeps_local:
  assumes "reconcile_cloud_rating now user provider key remote rated_at w = Inr (outcome, w')"
    and "collecting (cw_current w) user = None"
    and "scalar_one_or_none (filter (\<lambda>e. te_user_id e = user \<and> te_media_id e = fst key) (entry_table (cw_db w))) = Inr entry"
    and "local_score entry (existing_rating w key) (snd key) = Inr (Some score)"
    and "calculated_show entry (snd key) \<or> \<not> strictly_before (score_clock entry (existing_rating w key)) rated_at"
  shows "outcome \<noteq> Applied \<and> entry_table (cw_db w') = entry_table (cw_db w) \<and> cw_changed w' = cw_changed w \<and>
    (\<forall>r. existing_rating w' key = Some r \<longrightarrow> r_rating r = Some score) \<and>
    (outcome = Conflict \<longrightarrow> (\<exists>r \<in> set (review_table (cw_db w')). sr_kind r = ''rating_conflict'' \<and>
        sr_state r = ''pending'' \<and> sr_proposed_score r = Some remote))"
proof -
  have "settle_cloud_rating now user provider key remote rated_at entry w = Inr (outcome, w')"
    using assms(1-3) by (auto simp: reconcile_cloud_rating_def collect_rating_def split: if_splits)
  from settle_cloud_rating_keeps [OF this assms(4,5)] show ?thesis .
qed

text \<open>A film rated 8, for which Simkl reports an undated 5.\<close>

definition sample_scored :: cloud_rating_world where
  "sample_scored = \<lparr>cw_db = empty_db\<lparr>entry_table := [(new_entry 1 1 10 50)\<lparr>te_manual_score := Some 8\<rparr>]\<rparr>,
     cw_current = None, cw_existing = Map.empty, cw_changed = Map.empty\<rparr>"

lemma reconcile_cloud_rating_keeps_local_witness:
  "\<exists>outcome w'. reconcile_cloud_rating 60 1 ''simkl'' (10, None) 5 None sample_scored = Inr (outcome, w') \<and>
     outcome \<noteq> Applied \<and> (\<forall>r. existing_rating w' (10, None) = Some r \<longrightarrow> r_rating r = Some 8)"
proof -
  let ?e = "(new_entry 1 1 10 50)\<lparr>te_manual_score := Some 8\<rparr>"
  have entry: "scalar_one_or_none (filter (\<lambda>e. te_user_id e = 1 \<and> te_media_id e = fst (10, None :: int option))
      (entry_table (cw_db sample_scored))) = Inr (Some ?e)"
    by (simp add: sample_scored_def new_entry_def)
  have score: "local_score (Some ?e) (existing_rating sample_scored (10, None)) (snd (10 :: int, None)) = Inr (Some 8)"
    by (simp add: local_score_def entry_score_def effective_score_def new_entry_def)
  have free: "collecting (cw_current sample_scored) 1 = None"
    by (simp add: sample_scored_def collecting_def)
  have later: "\<not> strictly_before (score_clock (Some ?e) (existing_rating sample_scored (10, None))) None"
    by simp
  have "\<exists>outcome w'. reconcile_cloud_rating 60 1 ''simkl'' (10, None) 5 None sample_scored = Inr (outcome, w')"
    by (simp add: reconcile_cloud_rating_def collect_rating_def collecting_def settle_cloud_rating_def sample_scored_def
        new_entry_def existing_rating_def local_score_def entry_score_def effective_score_def is_projected_echo_def
        integer_provider_score_def project_score_def round_half_up_def restore_local_def put_rating_def add_rating_row_def
        record_rating_conflict_def pending_conflict_def empty_db_def Let_def)
  then obtain outcome w' where run: "reconcile_cloud_rating 60 1 ''simkl'' (10, None) 5 None sample_scored = Inr (outcome, w')"
    by blast
  from reconcile_cloud_rating_keeps_local [OF run free entry score] later run show ?thesis by auto
qed

end
