(* ===== verification/IsoTime.thy ===== *)
theory IsoTime
  imports PyClock Models
begin

text \<open>
  \<open>datetime.fromisoformat\<close> of the standard library with its three families of date shapes, an
  optional time and an optional offset, and \<open>datetime.fromtimestamp\<close>.  A parsed value is a local
  reading with its offset from UTC in microseconds, or none for a naive one.
\<close>

section \<open>Where the date ends\<close>

definition char_at :: "string \<Rightarrow> nat \<Rightarrow> char option" where
  "char_at s i = (if i < length s then Some (s ! i) else None)"

definition digit_at :: "string \<Rightarrow> nat \<Rightarrow> bool" where
  "digit_at s i \<longleftrightarrow> i < length s \<and> is_digit (s ! i)"

definition date_length :: "string \<Rightarrow> nat option" where
  "date_length s =
     (if length s < 7 then None
      else if length s = 7 then Some 7
      else if char_at s 4 = Some (CHR ''-'') then
        (if char_at s 5 = Some (CHR ''W'') then
           (if char_at s 8 = Some (CHR ''-'')
            then (if length s = 9 then None
                  else if 10 < length s \<and> digit_at s 10 then Some 8 else Some 10)
            else Some 8)
         else Some 10)
      else if char_at s 4 = Some (CHR ''W'') then
        (let i = 7 + length (takeWhile is_digit (drop 7 s))
         in if i < 9 then Some i else if i mod 2 = 0 then Some 7 else Some 8)
      else Some 8)"

section \<open>Times and offsets\<close>

text \<open>One of hours, minutes and seconds after another; the fields that are absent are zero.  The
  result carries what is left of the text.\<close>

fun time_fields :: "nat \<Rightarrow> bool \<Rightarrow> string \<Rightarrow> (nat list \<times> string) option" where
  "time_fields 0 sep s =
     (case parse_digits 2 s of None \<Rightarrow> None | Some (v, rest) \<Rightarrow> Some ([v], rest))"
| "time_fields (Suc m) sep s =
     (case parse_digits 2 s of
        None \<Rightarrow> None
      | Some (v, rest) \<Rightarrow>
        if rest = [] then Some ([v], rest)
        else if sep \<and> hd rest \<noteq> CHR '':'' then None
        else (case time_fields m sep (if sep then tl rest else rest) of
                None \<Rightarrow> None | Some (vs, r) \<Rightarrow> Some (v # vs, r)))"

definition fraction_us :: "string \<Rightarrow> nat option" where
  "fraction_us s =
     (if s = [] then Some 0
      else if hd s \<notin> {CHR ''.'', CHR '',''} then None
      else
        let digits = tl s; used = take 6 digits in
        if digits = [] \<or> \<not> list_all is_digit digits then None
        else Some (nat_of_digits used * 10 ^ (6 - length used)))"

text \<open>The duration in microseconds, or nothing; a fraction needs seconds before it.\<close>

definition field_us :: "nat list \<Rightarrow> nat" where
  "field_us fs =
     (let h = fs ! 0; m = (if 1 < length fs then fs ! 1 else 0); s = (if 2 < length fs then fs ! 2 else 0)
      in ((h * 60 + m) * 60 + s) * 1000000)"

definition in_clock :: "nat list \<Rightarrow> bool" where
  "in_clock fs \<longleftrightarrow> fs ! 0 < 24 \<and> (\<forall>i < length fs. 0 < i \<longrightarrow> fs ! i < 60)"

definition parse_duration :: "string \<Rightarrow> (nat list \<times> nat) option" where
  "parse_duration s =
     (case time_fields 2 (char_at s 2 = Some (CHR '':'')) s of
        None \<Rightarrow> None
      | Some (fs, rest) \<Rightarrow>
        (case fraction_us rest of None \<Rightarrow> None | Some us \<Rightarrow> Some (fs, field_us fs + us)))"

text \<open>The position of the first offset sign: a minus, else a plus, else a \<open>Z\<close>.\<close>

definition split_at :: "char \<Rightarrow> string \<Rightarrow> (string \<times> string) option" where
  "split_at c s = (case split_once c s of (a, Some b) \<Rightarrow> Some (a, b) | _ \<Rightarrow> None)"

definition parse_offset :: "bool \<Rightarrow> string \<Rightarrow> int option" where
  "parse_offset negative s =
     (if length s \<in> {0, 1, 3} then None
      else case parse_duration s of
        None \<Rightarrow> None
      | Some (fs, us) \<Rightarrow> if int us < us_per_day then Some (if negative then - int us else int us) else None)"

definition parse_clock :: "string \<Rightarrow> (nat \<times> int option) option" where
  "parse_clock s =
     (let (timestr, offset) =
        (case split_at (CHR ''-'') s of
           Some (a, b) \<Rightarrow> (a, Some (parse_offset True b))
         | None \<Rightarrow> (case split_at (CHR ''+'') s of
             Some (a, b) \<Rightarrow> (a, Some (parse_offset False b))
           | None \<Rightarrow> (case split_at (CHR ''Z'') s of
               Some (a, b) \<Rightarrow> (a, Some (if b = [] then Some 0 else None))
             | None \<Rightarrow> (s, None))))
      in case (parse_duration timestr, offset) of
           (Some (fs, us), None) \<Rightarrow> if in_clock fs then Some (us, None) else None
         | (Some (fs, us), Some (Some off)) \<Rightarrow> if in_clock fs then Some (us, Some off) else None
         | _ \<Rightarrow> None)"

definition parse_datetime :: "string \<Rightarrow> (datetime \<times> int option) option" where
  "parse_datetime s =
     (case date_length s of
        None \<Rightarrow> None
      | Some n \<Rightarrow>
        (case fromisoformat (take n s) of
           None \<Rightarrow> None
         | Some d \<Rightarrow>
           if drop (Suc n) s = [] then Some (midnight d, None)
           else (case parse_clock (drop (Suc n) s) of
                   None \<Rightarrow> None
                 | Some (us, off) \<Rightarrow> Some (midnight d + int us, off))))"

text \<open>\<open>astimezone(timezone.utc).replace(tzinfo=None)\<close>, with its \<open>OverflowError\<close> at the ends of the
  calendar; a naive value is UTC already.\<close>

definition to_naive_utc :: "datetime \<times> int option \<Rightarrow> datetime result" where
  "to_naive_utc v =
     (case snd v of
        None \<Rightarrow> Inr (fst v)
      | Some off \<Rightarrow> if valid_datetime (fst v - off) then Inr (fst v - off) else Inl (ProviderError ''OverflowError''))"

section \<open>Epoch seconds\<close>

text \<open>Rounding to the nearest integer, ties to even.\<close>

definition round_half_even :: "rat \<Rightarrow> int" where
  "round_half_even x =
     (let f = \<lfloor>x\<rfloor>; r = x - of_int f
      in if r < 1 / 2 then f else if 1 / 2 < r then f + 1 else if even f then f else f + 1)"

definition fromtimestamp :: "rat \<Rightarrow> datetime option" where
  "fromtimestamp seconds =
     (let t = round_half_even (seconds * 1000000) in if valid_datetime t then Some t else None)"

lemma fromtimestamp_int: "valid_datetime (n * 1000000) \<Longrightarrow> fromtimestamp (of_int n) = Some (n * 1000000)"
proof -
  have "(of_int n :: rat) * 1000000 = of_int (n * 1000000)" by simp
  then have "round_half_even (of_int n * 1000000) = n * 1000000"
    unfolding round_half_even_def by (simp only: floor_of_int Let_def) simp
  then show "valid_datetime (n * 1000000) \<Longrightarrow> ?thesis" by (simp add: fromtimestamp_def)
qed

section \<open>What is printed is read back\<close>

lemma time_fields_two: "time_fields 2 sep s = time_fields (Suc (Suc 0)) sep s"
  by (simp only: numeral_2_eq_2)

lemma parse_two: "k < 100 \<Longrightarrow> parse_digits 2 (two_digits k @ r) = Some (k, r)"
  using parse_digits_append [of "two_digits k" 2 r] two_digits_props [of k] by simp

lemma colon_after_two: "char_at (two_digits k @ CHR '':'' # r) 2 = Some (CHR '':'')"
  by (simp add: two_digits_def char_at_def)

lemma parse_duration_time_text:
  assumes "us < 86400000000"
  shows "\<exists>fs. parse_duration (time_text us) = Some (fs, us) \<and> in_clock fs"
proof -
  define s where "s = us div 1000000"
  have s: "s < 86400" using assms by (simp add: s_def)
  then have b: "s div 3600 < 24" "s div 60 mod 60 < 60" "s mod 60 < 60" by simp_all
  then have two: "parse_digits 2 (two_digits (s div 3600) @ r) = Some (s div 3600, r)"
    "parse_digits 2 (two_digits (s div 60 mod 60) @ r) = Some (s div 60 mod 60, r)"
    "parse_digits 2 (two_digits (s mod 60) @ r) = Some (s mod 60, r)" for r
    by (simp_all add: parse_two)
  have "s div 3600 = s div 60 div 60" by (simp add: div_mult2_eq [of s 60 60, simplified])
  then have "s div 3600 * 60 + s div 60 mod 60 = s div 60" by simp
  then have total: "((s div 3600 * 60 + s div 60 mod 60) * 60 + s mod 60) * 1000000 + us mod 1000000 = us"
    by (simp add: s_def)
  have frac: "fraction_us (if us mod 1000000 = 0 then [] else ''.'' @ six_digits (us mod 1000000)) = Some (us mod 1000000)"
    using six_digits_props [of "us mod 1000000"] by (auto simp: fraction_us_def Let_def)
  define rest where "rest = (if us mod 1000000 = 0 then [] else ''.'' @ six_digits (us mod 1000000))"
  have shape: "time_text us = two_digits (s div 3600) @ CHR '':'' # two_digits (s div 60 mod 60) @ CHR '':'' # two_digits (s mod 60) @ rest"
    by (simp add: time_text_def Let_def s_def rest_def)
  have "time_fields 2 True (time_text us) = Some ([s div 3600, s div 60 mod 60, s mod 60], rest)"
    by (simp add: shape two two(3) [of "[]", simplified] time_fields_two)
  then have "parse_duration (time_text us) = Some ([s div 3600, s div 60 mod 60, s mod 60], us)"
    using frac total by (simp add: parse_duration_def shape colon_after_two field_us_def rest_def)
  moreover have "in_clock [s div 3600, s div 60 mod 60, s mod 60]"
    using b by (auto simp: in_clock_def less_Suc_eq numeral_3_eq_3)
  ultimately show ?thesis by blast
qed

lemma time_text_chars: "c \<in> set (time_text us) \<Longrightarrow> is_digit c \<or> c = CHR '':'' \<or> c = CHR ''.''"
  by (auto simp: time_text_def six_digits_def four_digits_def two_digits_def Let_def split: if_splits)

lemma not_in_time_text:
  "CHR ''-'' \<notin> set (time_text us)" "CHR ''+'' \<notin> set (time_text us)" "CHR ''Z'' \<notin> set (time_text us)"
  using time_text_chars [of "CHR ''-''" us] time_text_chars [of "CHR ''+''" us] time_text_chars [of "CHR ''Z''" us]
  by (auto simp: is_digit_def)

lemma parse_clock_utc:
  assumes "us < 86400000000"
  shows "parse_clock (time_text us @ ''+00:00'') = Some (us, Some 0)"
proof -
  obtain fs where fs: "parse_duration (time_text us) = Some (fs, us)" "in_clock fs"
    using parse_duration_time_text [OF assms] by blast
  have "split_at (CHR ''-'') (time_text us @ ''+00:00'') = None"
    using not_in_time_text(1) split_once_none [of "CHR ''-''" "time_text us @ ''+00:00''"] by (simp add: split_at_def)
  moreover have "split_at (CHR ''+'') (time_text us @ ''+00:00'') = Some (time_text us, ''00:00'')"
    using split_once_sep [OF not_in_time_text(2), of us "''00:00''"] by (simp add: split_at_def)
  moreover have "parse_offset False ''00:00'' = Some 0"
    by (simp add: parse_offset_def parse_duration_def parse_digits_def is_digit_def char_at_def nat_of_digits_def
        digit_val_def fraction_us_def field_us_def us_per_day_def time_fields_two)
  ultimately show ?thesis by (simp add: parse_clock_def fs)
qed

lemma date_length_isoformat:
  assumes "length r \<ge> 1"
  shows "date_length (isoformat d @ r) = Some 10"
proof -
  have "digit_char (month d div 10 mod 10) \<noteq> CHR ''W''"
    using is_digit_char [of "month d div 10 mod 10"] by (auto simp del: is_digit_char)
  then have "char_at (isoformat d @ r) 4 = Some (CHR ''-'')" "char_at (isoformat d @ r) 5 \<noteq> Some (CHR ''W'')"
    by (simp_all add: isoformat_def four_digits_def two_digits_def char_at_def nth_append)
  with assms show ?thesis by (simp add: date_length_def)
qed

lemma parse_datetime_isoformat_utc:
  assumes "valid_datetime t"
  shows "parse_datetime (datetime_isoformat t @ ''+00:00'') = Some (t, Some 0)"
proof -
  let ?n = "nat (t div us_per_day + epoch_ordinal)"
  have n: "1 \<le> ?n" "?n \<le> 3652059" using assms by (auto simp: valid_datetime_def le_nat_iff nat_le_iff)
  have valid: "valid_date (date_of t)" using fromordinal_valid [OF n] by (simp add: date_of_def)
  have "int (toordinal (date_of t)) = t div us_per_day + epoch_ordinal"
    using toordinal_fromordinal(1) [OF n(1)] assms by (simp add: date_of_def valid_datetime_def)
  then have mid: "midnight (date_of t) = t div us_per_day * us_per_day" by (simp add: midnight_def)
  have r: "0 \<le> t mod us_per_day" "t mod us_per_day < 86400000000" by (simp_all add: us_per_day_def)
  then have "parse_clock (time_text (nat (t mod us_per_day)) @ ''+00:00'') = Some (nat (t mod us_per_day), Some 0)"
    by (intro parse_clock_utc) simp
  moreover have "date_length (datetime_isoformat t @ ''+00:00'') = Some 10"
    using date_length_isoformat [of "''T'' @ time_text (nat (t mod us_per_day)) @ ''+00:00''"]
    by (simp add: datetime_isoformat_def)
  ultimately show ?thesis
    using r(1) fromisoformat_isoformat [OF valid]
    by (simp add: parse_datetime_def datetime_isoformat_def mid)
qed

end
