(* ===== verification/WatchDates.thy ===== *)
theory WatchDates
  imports IsoTime ReconState
begin

text \<open>
  The dates of plays: \<open>core/watch_dates.py\<close> (reading a date from any source, and replacing an
  estimate by evidence), \<open>core/watch_dedup.py\<close> (when two plays are the same) and
  \<open>core/watch_echo.py\<close> (one expected echo per watched flag that was pushed).  The current time is
  the argument \<open>now\<close>; the advisory lock has no effect on one transaction.
\<close>

section \<open>Reading a date\<close>

datatype stamp_value =
    StampNone
  | StampDatetime datetime "int option"
  | StampDate date
  | StampNumber rat
  | StampText string
  | StampOther

definition stamp_of_json :: "pyval \<Rightarrow> stamp_value" where
  "stamp_of_json v =
     (case v of VNone \<Rightarrow> StampNone | VStr s \<Rightarrow> StampText s
      | _ \<Rightarrow> (case number_of v of Some r \<Rightarrow> StampNumber r | None \<Rightarrow> StampOther))"

definition normalize_number :: "rat \<Rightarrow> datetime option" where
  "normalize_number r =
     milliseconds (fromtimestamp (if 10000000000 < r then r / 1000 else r))"

text \<open>\<open>s.strip().replace('.', '', 1).isdigit()\<close>.\<close>

fun remove_first :: "char \<Rightarrow> string \<Rightarrow> string" where
  "remove_first c [] = []"
| "remove_first c (d # s) = (if d = c then s else d # remove_first c s)"

definition looks_numeric :: "string \<Rightarrow> bool" where
  "looks_numeric s = isdigit (remove_first (CHR ''.'') (strip s))"

text \<open>\<open>s.replace("Z", "+00:00")\<close>.\<close>

definition zulu_offset :: "string \<Rightarrow> string" where
  "zulu_offset s = concat (map (\<lambda>c. if c = CHR ''Z'' then ''+00:00'' else [c]) s)"

fun normalize_watch_datetime :: "stamp_value \<Rightarrow> datetime option result" where
  "normalize_watch_datetime StampNone = Inr None"
| "normalize_watch_datetime (StampDatetime t off) = and_then (to_naive_utc (t, off)) (\<lambda>u. Inr (milliseconds (Some u)))"
| "normalize_watch_datetime (StampDate d) = Inr (milliseconds (Some (midnight d)))"
| "normalize_watch_datetime (StampNumber r) = Inr (normalize_number r)"
| "normalize_watch_datetime (StampText s) =
     (if looks_numeric s
      then (case float_of_str s of None \<Rightarrow> Inl ValueError | Some r \<Rightarrow> Inr (normalize_number r))
      else (case parse_datetime (zulu_offset s) of
              None \<Rightarrow> Inr None
            | Some v \<Rightarrow> and_then (to_naive_utc v) (\<lambda>u. Inr (milliseconds (Some u)))))"
| "normalize_watch_datetime StampOther = Inr None"

fun stamp_truthy :: "stamp_value \<Rightarrow> bool" where
  "stamp_truthy StampNone = False"
| "stamp_truthy (StampNumber r) = (r \<noteq> 0)"
| "stamp_truthy (StampText s) = (s \<noteq> [])"
| "stamp_truthy _ = True"

definition inferred_watch_datetime :: "datetime \<Rightarrow> stamp_value \<Rightarrow> datetime option result" where
  "inferred_watch_datetime now fallback =
     normalize_watch_datetime (if stamp_truthy fallback then fallback else StampDatetime now (Some 0))"

section \<open>Replacing an estimate\<close>

text \<open>Whether the event was changed, and the event.\<close>

definition replace_inferred_watch_date :: "datetime option \<Rightarrow> bool \<Rightarrow> watch_event \<Rightarrow> bool \<times> watch_event" where
  "replace_inferred_watch_date watched_at inferred event =
     (case milliseconds watched_at of
        None \<Rightarrow> (False, event)
      | Some t \<Rightarrow>
        if we_watched_at event \<noteq> None \<and> \<not> we_date_inferred event \<and> \<not> we_date_shared event then (False, event)
        else if inferred \<and> we_watched_at event \<noteq> None \<and> \<not> we_date_shared event then (False, event)
        else (True, event\<lparr>we_watched_at := Some t, we_date_inferred := inferred, we_date_shared := False\<rparr>))"

definition update_event :: "int \<Rightarrow> (watch_event \<Rightarrow> watch_event) \<Rightarrow> db \<Rightarrow> db" where
  "update_event wid f db = db\<lparr>watch_event_table := update_where (\<lambda>e. we_id e = wid) f (watch_event_table db)\<rparr>"

definition events_of :: "db \<Rightarrow> int \<Rightarrow> int \<Rightarrow> watch_event list" where
  "events_of db user mid = filter (\<lambda>e. we_user_id e = user \<and> we_media_id e = mid) (watch_event_table db)"

text \<open>The rows whose date may be replaced.\<close>

definition estimates_of :: "db \<Rightarrow> int \<Rightarrow> int \<Rightarrow> watch_event list" where
  "estimates_of db user mid =
     filter (\<lambda>e. we_completed e \<and> (we_date_inferred e \<or> we_date_shared e)) (events_of db user mid)"

definition confident_match :: "db \<Rightarrow> int \<Rightarrow> int \<Rightarrow> datetime \<Rightarrow> bool" where
  "confident_match db user mid t \<longleftrightarrow>
     list_ex (\<lambda>e. we_completed e \<and> \<not> we_date_inferred e \<and> we_watched_at e = Some t) (events_of db user mid)"

text \<open>A rounded echo of a local estimate is not evidence.\<close>

definition same_day_echo :: "bool \<Rightarrow> watch_event \<Rightarrow> datetime \<Rightarrow> bool" where
  "same_day_echo authoritative e t \<longleftrightarrow>
     \<not> we_date_shared e \<and>
     (case milliseconds (we_watched_at e) of
        None \<Rightarrow> False
      | Some c \<Rightarrow> c div us_per_day = t div us_per_day \<and> (\<not> authoritative \<or> c = t \<or> t mod us_per_day = 0))"

definition reconcile_inferred_watch_date ::
  "string \<Rightarrow> int \<Rightarrow> int \<Rightarrow> datetime \<Rightarrow> bool \<Rightarrow> reconciliation option \<times> db \<Rightarrow> bool \<times> reconciliation option \<times> db" where
  "reconcile_inferred_watch_date source user mid watched_at authoritative w =
     (case w of (current, db) \<Rightarrow>
      case milliseconds (Some watched_at) of
        None \<Rightarrow> (False, w)
      | Some t \<Rightarrow>
        if confident_match db user mid t then (False, w)
        else (case estimates_of db user mid of
          [e] \<Rightarrow>
            if milliseconds (we_watched_at e) = Some t then (True, w)
            else if same_day_echo authoritative e t then (True, w)
            else (case collecting current user of
                Some _ \<Rightarrow>
                  (True, map_option (\<lambda>st. st\<lparr>rc_date_corrections := rc_date_corrections st @
                       [(source, mid, we_id e, we_watched_at e, t)]\<rparr>) (collect_watch source mid (Some t) current), db)
              | None \<Rightarrow>
                  (fst (replace_inferred_watch_date (Some t) False e), current,
                   update_event (we_id e) (\<lambda>x. snd (replace_inferred_watch_date (Some t) False x)) db))
        | _ \<Rightarrow> (False, w)))"

section \<open>When two plays are the same\<close>

definition default_dedup_window_minutes :: int where
  "default_dedup_window_minutes = 5"

definition window_of :: "int option \<Rightarrow> int" where
  "window_of configured = max default_dedup_window_minutes (case configured of None \<Rightarrow> 0 | Some n \<Rightarrow> n)"

definition dedup_window_from_settings :: "user_settings option \<Rightarrow> int" where
  "dedup_window_from_settings settings =
     window_of (case settings of None \<Rightarrow> None | Some s \<Rightarrow> us_duplicate_watch_window_minutes s)"

definition get_dedup_window_minutes :: "db \<Rightarrow> int \<Rightarrow> int result" where
  "get_dedup_window_minutes db user =
     and_then (settings_of db user) (\<lambda>s. Inr (dedup_window_from_settings s))"

text \<open>\<open>coalesce(watched_at, created_at)\<close>.\<close>

definition effective_time :: "watch_event \<Rightarrow> datetime" where
  "effective_time e = (case we_watched_at e of None \<Rightarrow> we_created_at e | Some t \<Rightarrow> t)"

definition candidate_time :: "datetime \<Rightarrow> datetime option \<Rightarrow> datetime" where
  "candidate_time now t = (case t of None \<Rightarrow> now | Some x \<Rightarrow> x)"

text \<open>The row with the least identifier among the matches.\<close>

definition least_id :: "watch_event list \<Rightarrow> watch_event option" where
  "least_id rows = first_row (sort_key we_id rows)"

definition find_duplicate_watch_event ::
  "datetime \<Rightarrow> string \<Rightarrow> db \<Rightarrow> int \<Rightarrow> int \<Rightarrow> datetime option \<Rightarrow> int \<Rightarrow> int option \<Rightarrow> reconciliation option \<Rightarrow>
   watch_event option \<times> reconciliation option" where
  "find_duplicate_watch_event now source db user mid candidate window exclude current =
     (let t = candidate_time now candidate; delta = minutes window in
      (if window = 0 then None
       else least_id (filter (\<lambda>e. t - delta \<le> effective_time e \<and> effective_time e \<le> t + delta
                          \<and> exclude \<noteq> Some (we_id e)) (events_of db user mid)),
       collect_watch source mid candidate current))"

type_synonym watch_times = "(int \<times> datetime list) list"

definition load_existing_watch_times :: "db \<Rightarrow> int \<Rightarrow> watch_times" where
  "load_existing_watch_times db user =
     map (\<lambda>(mid, rows). (mid, map effective_time rows))
       (group_by we_media_id (filter (\<lambda>e. we_user_id e = user) (watch_event_table db)))"

definition is_near :: "datetime \<Rightarrow> int \<Rightarrow> datetime \<Rightarrow> bool" where
  "is_near t window x \<longleftrightarrow> \<bar>x - t\<bar> \<le> minutes window"

definition is_duplicate_watch_time ::
  "datetime \<Rightarrow> string \<Rightarrow> watch_times \<Rightarrow> int \<Rightarrow> datetime option \<Rightarrow> int \<Rightarrow> reconciliation option \<Rightarrow>
   bool \<times> reconciliation option" where
  "is_duplicate_watch_time now source seen mid candidate window current =
     (window \<noteq> 0 \<and> list_ex (is_near (candidate_time now candidate) window) (dict_get seen mid []),
      collect_watch source mid candidate current)"

section \<open>Expected echoes\<close>

type_synonym echo_queues = "((int \<times> int) \<times> datetime list) list"

definition pushed_watched_ttl :: int where
  "pushed_watched_ttl = minutes 10"

definition prune_echoes :: "datetime \<Rightarrow> echo_queues \<Rightarrow> echo_queues" where
  "prune_echoes now q =
     (if 5000 < length q
      then filter (\<lambda>(_, pushed). \<not> list_all (\<lambda>t. t < now - pushed_watched_ttl) pushed) q else q)"

definition mark_pushed_watched :: "datetime \<Rightarrow> int \<Rightarrow> int \<Rightarrow> echo_queues \<Rightarrow> echo_queues" where
  "mark_pushed_watched now user mid q = dict_alter (user, mid) [] (\<lambda>pushed. pushed @ [now]) (prune_echoes now q)"

definition consume_recently_pushed_watched :: "datetime \<Rightarrow> int \<Rightarrow> int \<Rightarrow> echo_queues \<Rightarrow> bool \<times> echo_queues" where
  "consume_recently_pushed_watched now user mid q =
     (case dict_get q (user, mid) [] of
        [] \<Rightarrow> (False, q)
      | t # rest \<Rightarrow>
          (now - t < pushed_watched_ttl,
           if rest = [] then dict_pop (user, mid) q else dict_set (user, mid) rest q))"

section \<open>Dates are read back\<close>

lemma set_remove_first: "c \<in> set s \<Longrightarrow> c \<noteq> d \<Longrightarrow> c \<in> set (remove_first d s)"
  by (induction s) auto

lemma strip_keeps:
  assumes "s \<noteq> []" "\<not> is_space (hd s)" "\<not> is_space (last s)"
  shows "strip s = s"
proof -
  have "dropWhile is_space s = s" using assms(1,2) by (cases s) simp_all
  moreover have "dropWhile is_space (rev s) = rev s"
    using assms(1,3) by (cases s rule: rev_cases) simp_all
  ultimately show ?thesis by (simp add: strip_def)
qed

lemma isoformat_chars: "c \<in> set (isoformat d) \<Longrightarrow> is_digit c \<or> c = CHR ''-''"
  by (auto simp: isoformat_def four_digits_def two_digits_def)

lemma datetime_isoformat_chars:
  "CHR ''Z'' \<notin> set (datetime_isoformat t)" "CHR ''-'' \<in> set (datetime_isoformat t)"
proof -
  have "\<not> is_digit (CHR ''Z'')" by (simp add: is_digit_def)
  then show "CHR ''Z'' \<notin> set (datetime_isoformat t)"
    using isoformat_chars [of "CHR ''Z''" "date_of t"] not_in_time_text(3) by (auto simp: datetime_isoformat_def)
  show "CHR ''-'' \<in> set (datetime_isoformat t)" by (simp add: datetime_isoformat_def isoformat_def)
qed

lemma zulu_offset_print: "zulu_offset (datetime_isoformat t @ ''Z'') = datetime_isoformat t @ ''+00:00''"
proof -
  have "concat (map (\<lambda>c. if c = CHR ''Z'' then ''+00:00'' else [c]) s) = s" if "CHR ''Z'' \<notin> set s" for s
    using that by (induction s) auto
  from this [OF datetime_isoformat_chars(1)] show ?thesis by (simp add: zulu_offset_def)
qed

lemma printed_not_numeric: "\<not> looks_numeric (datetime_isoformat t @ ''Z'')"
proof -
  let ?s = "datetime_isoformat t @ ''Z''"
  have first: "is_digit (hd ?s)" by (simp add: datetime_isoformat_def isoformat_def four_digits_def two_digits_def)
  have last: "last ?s = CHR ''Z''" by simp
  have "strip ?s = ?s"
    by (rule strip_keeps) (use is_digit_not_space [OF first] in \<open>simp_all add: is_space_def\<close>)
  moreover have "CHR ''-'' \<in> set (remove_first (CHR ''.'') ?s)"
    using datetime_isoformat_chars(2) by (intro set_remove_first) simp_all
  then have "\<not> list_all is_digit (remove_first (CHR ''.'') ?s)"
    unfolding list_all_iff using is_digit_not_special(1) by blast
  ultimately show ?thesis by (simp add: looks_numeric_def isdigit_def)
qed

text \<open>A date the program has sent out as text is read back as the same instant, to the
  millisecond the database stores.\<close>

lemma normalize_watch_datetime_printed:
  assumes "valid_datetime t"
  shows "normalize_watch_datetime (StampText (datetime_isoformat t @ ''Z'')) = Inr (milliseconds (Some t))"
  using assms by (simp add: printed_not_numeric zulu_offset_print parse_datetime_isoformat_utc to_naive_utc_def)

lemma normalize_watch_datetime_printed_witness:
  "normalize_watch_datetime (StampText (datetime_isoformat 1234567 @ ''Z'')) = Inr (Some 1234000)"
  using normalize_watch_datetime_printed [of 1234567]
  by (simp add: valid_datetime_def us_per_day_def epoch_ordinal_def milliseconds_def)

text \<open>An unreadable fallback yields no date at all, not the current time.\<close>

lemma inferred_watch_datetime_unreadable: "inferred_watch_datetime now (StampText ''n/a'') = Inr None"
  by (simp add: inferred_watch_datetime_def looks_numeric_def isdigit_def strip_def is_space_def is_digit_def zulu_offset_def
      parse_datetime_def date_length_def Let_def)

section \<open>Evidence never loses to an estimate\<close>

definition confident :: "watch_event \<Rightarrow> bool" where
  "confident e \<longleftrightarrow> we_watched_at e \<noteq> None \<and> \<not> we_date_inferred e \<and> \<not> we_date_shared e"

lemma replace_inferred_confident: "confident e \<Longrightarrow> replace_inferred_watch_date t inferred e = (False, e)"
  by (simp add: confident_def replace_inferred_watch_date_def split: option.split)

text \<open>Replacing an estimated date touches at most the one row that is its title's sole estimate,
  gives it the new date as evidence, and leaves every play with a confident date as it was; the
  number of plays never changes.\<close>

lemma reconcile_inferred_watch_date_keeps_evidence:
  assumes "unique_on we_id (watch_event_table db)"
    and "reconcile_inferred_watch_date source user mid t authoritative (current, db) = (ok, current', db')"
    and "e \<in> set (watch_event_table db)"
  shows "length (watch_event_table db') = length (watch_event_table db) \<and>
    (e \<in> set (watch_event_table db') \<or>
     (estimates_of db user mid = [e] \<and> \<not> confident e \<and>
      e\<lparr>we_watched_at := milliseconds (Some t), we_date_inferred := False, we_date_shared := False\<rparr> \<in> set (watch_event_table db')))"
proof (cases "db' = db")
  case True
  with assms(3) show ?thesis by simp
next
  case False
  let ?t = "t div 1000 * 1000"
  from False assms(2) obtain x where x: "estimates_of db user mid = [x]"
    and db': "db' = update_event (we_id x) (\<lambda>y. snd (replace_inferred_watch_date (Some ?t) False y)) db"
    by (auto simp: reconcile_inferred_watch_date_def milliseconds_def split: list.splits if_splits option.splits)
  then have in_table: "x \<in> set (watch_event_table db)" and est: "we_date_inferred x \<or> we_date_shared x"
    by (auto simp: estimates_of_def events_of_def filter_eq_Cons_iff)
  have changed: "snd (replace_inferred_watch_date (Some ?t) False x) =
      x\<lparr>we_watched_at := milliseconds (Some t), we_date_inferred := False, we_date_shared := False\<rparr>"
    using est by (auto simp: replace_inferred_watch_date_def milliseconds_def)
  show ?thesis
  proof (cases "e = x")
    case True
    have "snd (replace_inferred_watch_date (Some ?t) False x) \<in> set (watch_event_table db')"
      using in_table by (auto simp: db' update_event_def set_update_where)
    with True x est show ?thesis unfolding changed by (auto simp: confident_def db' update_event_def)
  next
    case other: False
    then have "we_id e \<noteq> we_id x"
      using unique_on_inj [OF assms(1) assms(3) in_table] by blast
    with assms(3) show ?thesis by (simp add: db' update_event_def set_update_where)
  qed
qed

text \<open>A play without a date whose sole row is an estimate.\<close>

definition sample_estimate :: watch_event where
  "sample_estimate = (new_watch_event 1 1 10 (Some 1000) True 0)\<lparr>we_date_inferred := True\<rparr>"

lemma reconcile_inferred_watch_date_keeps_evidence_witness:
  "sample_estimate\<lparr>we_watched_at := Some 90000000000000, we_date_inferred := False, we_date_shared := False\<rparr> \<in>
     set (watch_event_table (snd (snd (reconcile_inferred_watch_date ''trakt'' 1 10 90000000000000 True
       (None, empty_db\<lparr>watch_event_table := [sample_estimate]\<rparr>)))))"
proof -
  let ?db = "empty_db\<lparr>watch_event_table := [sample_estimate]\<rparr>"
  obtain ok current' db' where run: "reconcile_inferred_watch_date ''trakt'' 1 10 90000000000000 True (None, ?db) = (ok, current', db')"
    by (metis prod.exhaust)
  have "sample_estimate \<notin> set (watch_event_table db')"
    using run
    by (auto simp: reconcile_inferred_watch_date_def confident_match_def events_of_def estimates_of_def sample_estimate_def
        new_watch_event_def same_day_echo_def milliseconds_def us_per_day_def collecting_def update_event_def
        replace_inferred_watch_date_def)
  with reconcile_inferred_watch_date_keeps_evidence [OF _ run, of sample_estimate] run
  show ?thesis by (simp add: unique_on_def milliseconds_def)
qed

section \<open>The bulk check is the single check\<close>

lemma load_times_of:
  "dict_get (load_existing_watch_times db user) mid [] = map effective_time (events_of db user mid)"
proof -
  let ?rows = "filter (\<lambda>e. we_user_id e = user) (watch_event_table db)"
  have "map_of (map (\<lambda>(k, rows). (k, map effective_time rows)) d) mid = map_option (map effective_time) (map_of d mid)" for d
    by (induction d) auto
  then have "dict_get (load_existing_watch_times db user) mid [] =
      (case map_of (group_by we_media_id ?rows) mid of None \<Rightarrow> [] | Some rows \<Rightarrow> map effective_time rows)"
    by (simp add: load_existing_watch_times_def dict_get_def split: option.split)
  also have "map_of (group_by we_media_id ?rows) mid =
      (if mid \<in> we_media_id ` set ?rows then Some (filter (\<lambda>e. we_media_id e = mid) ?rows) else None)"
    by (auto simp: group_by_def map_of_map_restrict restrict_map_def)
  finally show ?thesis
    by (auto simp: events_of_def filter_empty_conv conj_commute cong: filter_cong)
qed

lemma least_id_None: "least_id rows = None \<longleftrightarrow> rows = []"
proof -
  have "(sort_key we_id rows = []) = (rows = [])" by (metis length_0_conv length_sort)
  then show ?thesis by (simp add: least_id_def)
qed

text \<open>The in-memory check of the import loops decides as the query of the single-play paths
  does, for every window, and both leave the same evidence.\<close>

lemma is_duplicate_watch_time_agrees:
  "(fst (is_duplicate_watch_time now source (load_existing_watch_times db user) mid candidate window current) \<longleftrightarrow>
      fst (find_duplicate_watch_event now source db user mid candidate window None current) \<noteq> None) \<and>
   snd (is_duplicate_watch_time now source (load_existing_watch_times db user) mid candidate window current) =
      snd (find_duplicate_watch_event now source db user mid candidate window None current)"
proof -
  have near: "is_near t window (effective_time e) \<longleftrightarrow>
      t - minutes window \<le> effective_time e \<and> effective_time e \<le> t + minutes window" for t e
    by (auto simp: is_near_def)
  show ?thesis
    by (auto simp: is_duplicate_watch_time_def find_duplicate_watch_event_def load_times_of least_id_None near Let_def
        list_ex_iff filter_empty_conv simp del: not_None_eq)
qed

section \<open>The echo queues refine one queue per title\<close>

definition echoes :: "echo_queues \<Rightarrow> int \<times> int \<Rightarrow> datetime list" where
  "echoes q key = dict_get q key []"

text \<open>Entries that can still suppress something.\<close>

definition live_echoes :: "datetime \<Rightarrow> echo_queues \<Rightarrow> int \<times> int \<Rightarrow> datetime list" where
  "live_echoes now q key = filter (\<lambda>t. now - t \<le> pushed_watched_ttl) (echoes q key)"

lemma map_of_filter_values:
  "distinct (map fst q) \<Longrightarrow> map_of (filter (\<lambda>(_, v). P v) q) key =
     (case map_of q key of None \<Rightarrow> None | Some v \<Rightarrow> if P v then Some v else None)"
  by (induction q) (auto simp: map_of_eq_None_iff image_iff split: option.split)

lemma live_prune:
  assumes "distinct (map fst q)"
  shows "live_echoes now (prune_echoes now q) key = live_echoes now q key"
proof -
  have "filter (\<lambda>t. now - t \<le> pushed_watched_ttl) v = []" if "list_all (\<lambda>t. t < now - pushed_watched_ttl) v" for v
    using that by (auto simp: filter_empty_conv list_all_iff)
  then show ?thesis
    by (auto simp: live_echoes_def echoes_def prune_echoes_def dict_get_def map_of_filter_values [OF assms]
        split: option.split)
qed

text \<open>The dictionary of expected echoes behaves as one first-in first-out queue per title:
  a push appends to its title's queue only, an echo takes the oldest entry and is recognised exactly
  when that is less than ten minutes old, and the clean-up never forgets an entry that could still
  suppress an echo.\<close>

lemma echo_queues_refine:
  assumes "distinct (map fst q)"
  shows "live_echoes now (mark_pushed_watched now user mid q) =
      (live_echoes now q)((user, mid) := live_echoes now q (user, mid) @ [now]) \<and>
    echoes (snd (consume_recently_pushed_watched now user mid q)) = (echoes q)((user, mid) := tl (echoes q (user, mid))) \<and>
    (fst (consume_recently_pushed_watched now user mid q) \<longleftrightarrow>
      (\<exists>t rest. echoes q (user, mid) = t # rest \<and> now - t < pushed_watched_ttl))"
proof -
  have "live_echoes now (mark_pushed_watched now user mid q) key =
      (if key = (user, mid) then live_echoes now q (user, mid) @ [now] else live_echoes now q key)" for key
    using live_prune [OF assms, of now key]
    by (auto simp: live_echoes_def echoes_def mark_pushed_watched_def dict_get_alter pushed_watched_ttl_def minutes_def)
  then have mark: "live_echoes now (mark_pushed_watched now user mid q) =
      (live_echoes now q)((user, mid) := live_echoes now q (user, mid) @ [now])" by (auto simp: fun_eq_iff)
  have consume: "echoes (snd (consume_recently_pushed_watched now user mid q)) = (echoes q)((user, mid) := tl (echoes q (user, mid)))"
    by (auto simp: fun_eq_iff echoes_def consume_recently_pushed_watched_def dict_get_def split: list.split option.split)
  have "fst (consume_recently_pushed_watched now user mid q) \<longleftrightarrow>
      (\<exists>t rest. echoes q (user, mid) = t # rest \<and> now - t < pushed_watched_ttl)"
    by (auto simp: echoes_def consume_recently_pushed_watched_def split: list.split)
  with mark consume show ?thesis by blast
qed

lemma echo_queues_refine_witness:
  "live_echoes 70 (mark_pushed_watched 70 1 10 [((1, 10), [5])]) (1, 10) = [5, 70]"
  using echo_queues_refine [of "[((1, 10), [5])]" 70 1 10]
  by (simp add: live_echoes_def echoes_def pushed_watched_ttl_def minutes_def dict_get_def)

end
