(* ===== verification/HistoryHygiene.thy ===== *)
theory HistoryHygiene
  imports WatchDates
begin

text \<open>
  Keeping the viewing history clean: \<open>core/watch_event_cleanup.py\<close> (the Plex back-fill echo of a
  webhook play), \<open>core/streaming_history.py\<close> (the viewing time of a provider record) and
  \<open>evidence_covered\<close> of \<open>core/streaming_duplicates.py\<close>.
\<close>

section \<open>Echoes of webhook plays\<close>

definition reconcile_window :: int where
  "reconcile_window = minutes 10"

record watch_event_row =
  wr_id :: int
  wr_user_id :: int
  wr_media_id :: int
  wr_watched_at :: datetime
  wr_progress_percent :: "rat option"
  wr_progress_seconds :: "int option"

definition is_webhook_signature :: "watch_event_row \<Rightarrow> bool" where
  "is_webhook_signature row \<longleftrightarrow> wr_progress_percent row = Some 1 \<and> wr_progress_seconds row \<noteq> None"

definition is_backfill_signature :: "watch_event_row \<Rightarrow> bool" where
  "is_backfill_signature row \<longleftrightarrow> wr_progress_percent row = None \<and> wr_progress_seconds row = None"

fun resolve_cluster :: "watch_event_row list \<Rightarrow> int list" where
  "resolve_cluster [a, b] =
     (if is_webhook_signature a \<and> is_backfill_signature b then [wr_id b]
      else if is_webhook_signature b \<and> is_backfill_signature a then [wr_id a] else [])"
| "resolve_cluster _ = []"

text \<open>The clusters of the rows of one title, in order: a row that comes more than the window after the
  last one of the open cluster begins a new cluster.\<close>

fun chain_clusters :: "watch_event_row list \<Rightarrow> watch_event_row list \<Rightarrow> watch_event_row list list" where
  "chain_clusters cluster [] = (if cluster = [] then [] else [cluster])"
| "chain_clusters cluster (row # rows) =
     (if cluster \<noteq> [] \<and> reconcile_window < wr_watched_at row - wr_watched_at (last cluster)
      then cluster # chain_clusters [row] rows
      else chain_clusters (cluster @ [row]) rows)"

definition group_duplicates :: "watch_event_row list \<Rightarrow> int list" where
  "group_duplicates rows = concat (map resolve_cluster (chain_clusters [] (sort_key wr_watched_at rows)))"

definition find_duplicate_watch_event_ids :: "watch_event_row list \<Rightarrow> int list" where
  "find_duplicate_watch_event_ids rows =
     concat (map (\<lambda>(_, g). group_duplicates g) (group_by (\<lambda>r. (wr_user_id r, wr_media_id r)) rows))"

lemma chain_clusters_concat: "concat (chain_clusters cluster rows) = cluster @ rows"
  by (induction cluster rows rule: chain_clusters.induct) auto

text \<open>Neighbours of a cluster are close.\<close>

definition close_chain :: "watch_event_row list \<Rightarrow> bool" where
  "close_chain rows \<longleftrightarrow> successively (\<lambda>a b. wr_watched_at b - wr_watched_at a \<le> reconcile_window) rows"

lemma chain_clusters_close:
  "close_chain cluster \<Longrightarrow> g \<in> set (chain_clusters cluster rows) \<Longrightarrow> close_chain g"
proof (induction cluster rows rule: chain_clusters.induct)
  case (1 cluster)
  then show ?case by (simp split: if_splits)
next
  case (2 cluster row rows)
  show ?case
  proof (cases "cluster \<noteq> [] \<and> reconcile_window < wr_watched_at row - wr_watched_at (last cluster)")
    case True
    with 2 show ?thesis by (auto simp: close_chain_def)
  next
    case False
    then have "close_chain (cluster @ [row])"
      using 2(3) by (auto simp: close_chain_def successively_append_iff)
    with False 2 show ?thesis by auto
  qed
qed

lemma resolve_cluster_pair:
  assumes "i \<in> set (resolve_cluster g)"
  obtains a b where "g = [a, b]" "is_webhook_signature a \<and> is_backfill_signature b \<and> i = wr_id b \<or>
      is_webhook_signature b \<and> is_backfill_signature a \<and> i = wr_id a"
  using assms by (cases g rule: resolve_cluster.cases) (auto split: if_splits)

lemma group_duplicates_pair:
  assumes "i \<in> set (group_duplicates rows)"
  shows "\<exists>a \<in> set rows. \<exists>b \<in> set rows. is_webhook_signature a \<and> is_backfill_signature b \<and> i = wr_id b \<and>
    \<bar>wr_watched_at a - wr_watched_at b\<bar> \<le> reconcile_window"
proof -
  let ?sorted = "sort_key wr_watched_at rows"
  from assms obtain g where g: "g \<in> set (chain_clusters [] ?sorted)" "i \<in> set (resolve_cluster g)"
    by (auto simp: group_duplicates_def)
  from resolve_cluster_pair [OF g(2)] obtain a b where ab: "g = [a, b]"
    "is_webhook_signature a \<and> is_backfill_signature b \<and> i = wr_id b \<or>
     is_webhook_signature b \<and> is_backfill_signature a \<and> i = wr_id a" by blast
  have "close_chain g" by (rule chain_clusters_close [OF _ g(1)]) (simp add: close_chain_def)
  then have near: "wr_watched_at b - wr_watched_at a \<le> reconcile_window" by (simp add: ab close_chain_def)
  obtain before after where "chain_clusters [] ?sorted = before @ g # after"
    using g(1) by (auto simp: in_set_conv_decomp)
  then have "?sorted = concat before @ [a, b] @ concat after"
    using chain_clusters_concat [of "[]" ?sorted] by (simp add: ab)
  moreover have "sorted (map wr_watched_at ?sorted)" by simp
  ultimately have "wr_watched_at a \<le> wr_watched_at b" "a \<in> set ?sorted" "b \<in> set ?sorted"
    by (simp_all add: sorted_append del: sorted_sort_key)
  with near have "\<bar>wr_watched_at a - wr_watched_at b\<bar> \<le> reconcile_window"
    "\<bar>wr_watched_at b - wr_watched_at a\<bar> \<le> reconcile_window" "a \<in> set rows" "b \<in> set rows" by simp_all
  with ab(2) show ?thesis by blast
qed

text \<open>A row is deleted as a duplicate only when it carries no progress data and a webhook play of
  the same user and title, at most ten minutes away, is kept.\<close>

lemma duplicate_watch_events_keep_the_play:
  assumes "i \<in> set (find_duplicate_watch_event_ids rows)" "unique_on wr_id rows"
  shows "\<exists>a \<in> set rows. \<exists>b \<in> set rows. wr_id b = i \<and> is_backfill_signature b \<and> is_webhook_signature a \<and>
    wr_user_id a = wr_user_id b \<and> wr_media_id a = wr_media_id b \<and>
    \<bar>wr_watched_at a - wr_watched_at b\<bar> \<le> reconcile_window \<and>
    wr_id a \<notin> set (find_duplicate_watch_event_ids rows)"
proof -
  have pair: "\<exists>a \<in> set rows. \<exists>b \<in> set rows. is_webhook_signature a \<and> is_backfill_signature b \<and> j = wr_id b \<and>
      wr_user_id a = wr_user_id b \<and> wr_media_id a = wr_media_id b \<and>
      \<bar>wr_watched_at a - wr_watched_at b\<bar> \<le> reconcile_window"
    if dup: "j \<in> set (find_duplicate_watch_event_ids rows)" for j
  proof -
    from dup obtain k g where g: "(k, g) \<in> set (group_by (\<lambda>r. (wr_user_id r, wr_media_id r)) rows)"
      "j \<in> set (group_duplicates g)"
      by (auto simp: find_duplicate_watch_event_ids_def)
    have "set g \<subseteq> {r \<in> set rows. (wr_user_id r, wr_media_id r) = k}"
      using g(1) by (auto simp: in_group_by)
    then have same: "c \<in> set rows" "wr_user_id c = fst k" "wr_media_id c = snd k" if "c \<in> set g" for c
      using that by auto
    from group_duplicates_pair [OF g(2)] obtain a b where "a \<in> set g" "b \<in> set g" "is_webhook_signature a"
      "is_backfill_signature b" "j = wr_id b" "\<bar>wr_watched_at a - wr_watched_at b\<bar> \<le> reconcile_window" by blast
    with same [of a] same [of b] show ?thesis by (intro bexI [of _ a] bexI [of _ b]) simp_all
  qed
  from pair [OF assms(1)] obtain a b where ab: "a \<in> set rows" "b \<in> set rows" "is_webhook_signature a"
    "is_backfill_signature b" "i = wr_id b" "wr_user_id a = wr_user_id b" "wr_media_id a = wr_media_id b"
    "\<bar>wr_watched_at a - wr_watched_at b\<bar> \<le> reconcile_window" by blast
  have "wr_id a \<notin> set (find_duplicate_watch_event_ids rows)"
  proof
    assume "wr_id a \<in> set (find_duplicate_watch_event_ids rows)"
    from pair [OF this] obtain c where c: "c \<in> set rows" "is_backfill_signature c" "wr_id a = wr_id c" by blast
    then have "a = c" using unique_on_inj [OF assms(2)] ab(1) by blast
    with c(2) ab(3) show False by (simp add: is_webhook_signature_def is_backfill_signature_def)
  qed
  with ab show ?thesis by blast
qed

text \<open>A webhook play and its back-fill three minutes later.\<close>

definition sample_play :: watch_event_row where
  "sample_play = \<lparr>wr_id = 1, wr_user_id = 1, wr_media_id = 10, wr_watched_at = 0, wr_progress_percent = Some 1, wr_progress_seconds = Some 60\<rparr>"

definition sample_echo :: watch_event_row where
  "sample_echo = \<lparr>wr_id = 2, wr_user_id = 1, wr_media_id = 10, wr_watched_at = 180000000, wr_progress_percent = None, wr_progress_seconds = None\<rparr>"

lemma duplicate_watch_events_keep_the_play_witness:
  "\<exists>a \<in> {sample_play, sample_echo}. is_webhook_signature a \<and> wr_id a \<notin> set (find_duplicate_watch_event_ids [sample_play, sample_echo])"
proof -
  have "2 \<in> set (find_duplicate_watch_event_ids [sample_play, sample_echo])"
    by (simp add: find_duplicate_watch_event_ids_def group_by_def first_seen_def group_duplicates_def sample_play_def
        sample_echo_def reconcile_window_def minutes_def is_webhook_signature_def is_backfill_signature_def)
  from duplicate_watch_events_keep_the_play [OF this] show ?thesis
    by (auto simp: unique_on_def sample_play_def sample_echo_def)
qed

section \<open>Viewing time\<close>

definition min_watch_seconds :: rat where
  "min_watch_seconds = 600"

text \<open>A counter that is present is never replaced by an offset.\<close>

definition observed_watch_seconds :: "pydict \<Rightarrow> rat result" where
  "observed_watch_seconds row =
     (let v = (case map_of row ''watched_time'' of Some x \<Rightarrow> x | None \<Rightarrow> get row ''position'') in
      and_then (to_float (py_or v (VInt 0))) (\<lambda>ms. Inr (max 0 (ms / 1000))))"

section \<open>Evidence the viewer already owns\<close>

text \<open>The position of a play: none for a film.  Days are compared as text.\<close>

type_synonym position = "(int \<times> int) option"

definition incoming_days :: "pyval list \<Rightarrow> string list" where
  "incoming_days dates = map (\<lambda>d. take 10 (py_str d)) (filter truthy dates)"

definition covered :: "(position \<Rightarrow> string option) \<Rightarrow> position \<Rightarrow> pyval list \<Rightarrow> bool" where
  "covered watches pos dates \<longleftrightarrow>
     (let incoming = incoming_days dates in
      incoming \<noteq> [] \<and> (case watches pos of None \<Rightarrow> False | Some actual \<Rightarrow> actual \<noteq> [] \<and> actual \<le> Min (set incoming)))"

definition episode_pos :: "pydict \<Rightarrow> position option" where
  "episode_pos ep =
     (case (as_int (get ep ''season_number''), as_int (get ep ''episode_number'')) of
        (Some s, Some e) \<Rightarrow> Some (Some (s, e)) | _ \<Rightarrow> None)"

definition episode_covered :: "(position \<Rightarrow> string option) \<Rightarrow> pydict \<Rightarrow> bool" where
  "episode_covered watches ep \<longleftrightarrow>
     truthy (get ep ''matched'') \<and>
     (case episode_pos ep of None \<Rightarrow> False | Some pos \<Rightarrow> covered watches pos (list_or_empty (get ep ''dates'')))"

definition dropped_before :: "pyval list \<Rightarrow> pydict list \<Rightarrow> bool" where
  "dropped_before dates events \<longleftrightarrow>
     list_ex (\<lambda>event. get event ''key'' = VStr ''status'' \<and> get event ''status'' = VStr ''dropped''
         \<and> take 10 (py_str (dict_get event ''date'' (VStr []))) \<in> set (map (\<lambda>d. take 10 (py_str d)) dates)) events"

definition evidence_covered :: "pydict \<Rightarrow> (position \<Rightarrow> string option) \<Rightarrow> pydict list \<Rightarrow> bool result" where
  "evidence_covered item watches events =
     (case map_of item ''kind'' of
        None \<Rightarrow> Inl KeyError
      | Some kind \<Rightarrow>
        if kind = VStr ''movie''
        then Inr (let dates = list_or_empty (get item ''source_dates'') in
               covered watches None dates
               \<or> (get item ''suggested_movie_status'' = VStr ''dropped'' \<and> dropped_before dates events))
        else
          let episodes = List.map_filter as_dict (list_or_empty (get item ''episodes'')) in
          Inr (episodes \<noteq> [] \<and> list_all (episode_covered watches) episodes))"

text \<open>A series is hidden from the review only when each of its episodes is matched, has a play of
  the viewer at its position, and none of the incoming days of the episode precedes that play.\<close>

lemma evidence_covered_series:
  assumes "evidence_covered item watches events = Inr True" "map_of item ''kind'' = Some kind" "kind \<noteq> VStr ''movie''"
    and "VDict ep \<in> set (list_or_empty (get item ''episodes''))"
  shows "truthy (get ep ''matched'') \<and>
    (\<exists>pos actual. episode_pos ep = Some pos \<and> watches pos = Some actual \<and>
       incoming_days (list_or_empty (get ep ''dates'')) \<noteq> [] \<and>
       (\<forall>day \<in> set (incoming_days (list_or_empty (get ep ''dates''))). actual \<le> day))"
proof -
  have "ep \<in> set (List.map_filter as_dict (list_or_empty (get item ''episodes'')))"
    using assms(4) by (auto simp: map_filter_def image_iff intro!: bexI [of _ "VDict ep"])
  with assms(1-3) have "episode_covered watches ep"
    by (auto simp: evidence_covered_def Let_def list_all_iff split: if_splits)
  then show ?thesis
    by (auto simp: episode_covered_def covered_def Let_def split: option.splits)
qed

lemma evidence_covered_series_witness:
  "truthy (get [(''matched'', VBool True), (''season_number'', VInt 1), (''episode_number'', VInt 2), (''dates'', VList [VStr ''2024-05-05''])] ''matched'')"
proof -
  let ?ep = "[(''matched'', VBool True), (''season_number'', VInt 1), (''episode_number'', VInt 2), (''dates'', VList [VStr ''2024-05-05''])]"
  let ?item = "[(''kind'', VStr ''series''), (''episodes'', VList [VDict ?ep])]"
  have "evidence_covered ?item (\<lambda>p. if p = Some (1, 2) then Some ''2020-01-01'' else None) [] = Inr True"
    by (simp add: evidence_covered_def list_or_empty_def map_filter_simps episode_covered_def episode_pos_def covered_def
        incoming_days_def py_str_def Let_def less_eq_char_def)
  from evidence_covered_series [OF this, of "VStr ''series''" ?ep] show ?thesis by (simp add: list_or_empty_def)
qed

text \<open>A later play that the viewer does not own is covered by an earlier one.\<close>

lemma evidence_covered_by_earlier_play:
  "evidence_covered [(''kind'', VStr ''movie''), (''source_dates'', VList [VStr ''2024-05-05''])]
     (\<lambda>p. if p = None then Some ''2020-01-01'' else None) [] = Inr True"
  by (simp add: evidence_covered_def list_or_empty_def covered_def incoming_days_def py_str_def Let_def less_eq_char_def)

end
