(* ===== verification/Watchlist.thy ===== *)
theory Watchlist
  imports PyText Complex_Main
begin

text \<open>
  \<open>core/watchlist_reconcile.py\<close>: the three-way reconciliation of the Plex watchlist mirror.  Keys
  are strings such as \<open>movie:603\<close>, the local list, the remote list and the baseline are sets of
  keys; \<open>None\<close> is the baseline of a list that was never reconciled.
\<close>

section \<open>The plan\<close>

definition suppress_min_baseline :: nat where
  "suppress_min_baseline = 10"

definition suppress_max_fraction :: rat where
  "suppress_max_fraction = 1 / 2"

definition media_key :: "string \<Rightarrow> int \<Rightarrow> string" where
  "media_key kind tmdb_id = kind @ '':'' @ show_int tmdb_id"

record reconcile_plan =
  pl_add_local :: "string set"
  pl_remove_local :: "string set"
  pl_push_add :: "string set"
  pl_push_remove :: "string set"
  pl_suppressed :: bool
  pl_suppressed_reason :: "string option"

definition no_plan :: reconcile_plan where
  "no_plan = \<lparr>pl_add_local = {}, pl_remove_local = {}, pl_push_add = {}, pl_push_remove = {},
     pl_suppressed = False, pl_suppressed_reason = None\<rparr>"

definition has_changes :: "reconcile_plan \<Rightarrow> bool" where
  "has_changes p \<longleftrightarrow> pl_add_local p \<noteq> {} \<or> pl_remove_local p \<noteq> {} \<or> pl_push_add p \<noteq> {} \<or> pl_push_remove p \<noteq> {}"

text \<open>The two loops: a key on one side only, by whether the baseline has it.\<close>

definition local_only :: "string set \<Rightarrow> bool \<Rightarrow> bool \<Rightarrow> string set \<Rightarrow> string set \<times> string set" where
  "local_only b pull push keys =
     ({k \<in> keys. if k \<in> b then pull else \<not> push \<and> pull},
      {k \<in> keys. if k \<in> b then \<not> pull \<and> push else push})"

definition remote_only :: "string set \<Rightarrow> bool \<Rightarrow> bool \<Rightarrow> string set \<Rightarrow> string set \<times> string set" where
  "remote_only b pull push keys =
     ({k \<in> keys. if k \<in> b then \<not> push \<and> pull else pull},
      {k \<in> keys. k \<in> b \<and> push})"

definition suppression :: "string set \<Rightarrow> string set \<Rightarrow> string set \<Rightarrow> string option" where
  "suppression r b remove_local =
     (if remove_local \<noteq> {} \<and> suppress_min_baseline \<le> card b then
        (if r = {} then Some (''remote watchlist came back empty with '' @ show_nat (card b) @ '' baseline item(s)'')
         else if suppress_max_fraction * of_nat (card b) < of_nat (card (remove_local \<inter> b))
         then Some (''remote watchlist would remove '' @ show_nat (card (remove_local \<inter> b)) @ '' of '' @ show_nat (card b) @ '' baseline item(s)'')
         else None)
      else None)"

definition plan_watchlist_reconcile ::
  "string set \<Rightarrow> string set \<Rightarrow> string set option \<Rightarrow> bool \<Rightarrow> bool \<Rightarrow> reconcile_plan" where
  "plan_watchlist_reconcile l r baseline pull push =
     (case baseline of
        None \<Rightarrow> no_plan\<lparr>pl_add_local := (if pull then r - l else {}), pl_push_add := (if push then l - r else {})\<rparr>
      | Some b \<Rightarrow>
          (let (remove_local, push_add) = local_only b pull push (l - r);
               (add_local, push_remove) = remote_only b pull push (r - l)
           in case suppression r b remove_local of
                Some reason \<Rightarrow> no_plan\<lparr>pl_suppressed := True, pl_suppressed_reason := Some reason\<rparr>
              | None \<Rightarrow> no_plan\<lparr>pl_add_local := add_local, pl_remove_local := remove_local,
                          pl_push_add := push_add, pl_push_remove := push_remove\<rparr>))"

definition compute_new_baseline :: "string set \<Rightarrow> string set \<Rightarrow> string set \<Rightarrow> string list" where
  "compute_new_baseline final_local failed_push_add failed_push_remove =
     sorted_list_of_set ((final_local \<union> failed_push_remove) - failed_push_add)"

section \<open>Carrying a plan out\<close>

definition apply_local :: "reconcile_plan \<Rightarrow> string set \<Rightarrow> string set" where
  "apply_local p l = (l \<union> pl_add_local p) - pl_remove_local p"

text \<open>The remote side, when the pushes in \<open>fa\<close> and \<open>fr\<close> fail.\<close>

definition apply_remote_plan :: "reconcile_plan \<Rightarrow> string set \<Rightarrow> string set \<Rightarrow> string set \<Rightarrow> string set" where
  "apply_remote_plan p fa fr r = (r \<union> (pl_push_add p - fa)) - (pl_push_remove p - fr)"

lemmas plan_defs = plan_watchlist_reconcile_def local_only_def remote_only_def no_plan_def

lemma no_suppression [simp]: "suppression r b {} = None"
  by (simp add: suppression_def)

lemma plan_unsuppressed:
  assumes "\<not> pl_suppressed (plan_watchlist_reconcile l r (Some b) True True)"
  shows "plan_watchlist_reconcile l r (Some b) True True =
    no_plan\<lparr>pl_add_local := r - l - b, pl_remove_local := (l - r) \<inter> b,
            pl_push_add := l - r - b, pl_push_remove := (r - l) \<inter> b\<rparr>"
proof -
  have sets: "{k \<in> l - r. if k \<in> b then True else \<not> True \<and> True} = (l - r) \<inter> b"
    "{k \<in> l - r. if k \<in> b then \<not> True \<and> True else True} = l - r - b"
    "{k \<in> r - l. if k \<in> b then \<not> True \<and> True else True} = r - l - b"
    "{k \<in> r - l. k \<in> b \<and> True} = (r - l) \<inter> b" by auto
  show ?thesis
    using assms unfolding plan_watchlist_reconcile_def local_only_def remote_only_def option.case sets Let_def prod.case
    by (auto simp: no_plan_def split: option.splits)
qed

text \<open>C27: With both directions on, a plan that is carried out and of which some pushes failed leads to
  a state whose next plan is exactly those failed pushes: every removal and addition propagates
  once, a failed one is retried, and nothing is undone.\<close>

theorem watchlist_converges:
  fixes l r b fa fr :: "string set"
  defines "p \<equiv> plan_watchlist_reconcile l r (Some b) True True"
  defines "l' \<equiv> apply_local p l" and "r' \<equiv> apply_remote_plan p fa fr r"
  assumes "finite l" "finite r" "\<not> pl_suppressed p" "fa \<subseteq> pl_push_add p" "fr \<subseteq> pl_push_remove p"
  shows "plan_watchlist_reconcile l' r' (Some (set (compute_new_baseline l' fa fr))) True True =
    no_plan\<lparr>pl_push_add := fa, pl_push_remove := fr\<rparr>"
proof -
  have p: "p = no_plan\<lparr>pl_add_local := r - l - b, pl_remove_local := (l - r) \<inter> b,
            pl_push_add := l - r - b, pl_push_remove := (r - l) \<inter> b\<rparr>"
    using plan_unsuppressed assms(6) unfolding p_def by blast
  have fa: "fa \<subseteq> l - r - b" and fr: "fr \<subseteq> (r - l) \<inter> b" using assms(7,8) by (simp_all add: p no_plan_def)
  have l': "l' = (l \<inter> r) \<union> (l - r - b) \<union> (r - l - b)"
    by (auto simp: l'_def apply_local_def p no_plan_def)
  have r': "r' = (l' - fa) \<union> fr"
    using fa fr by (auto simp: r'_def apply_remote_plan_def l' p no_plan_def)
  have "finite ((l' \<union> fr) - fa)"
    using assms(4,5) fr finite_subset [OF fr] by (auto simp: l')
  then have base: "set (compute_new_baseline l' fa fr) = (l' \<union> fr) - fa"
    by (simp add: compute_new_baseline_def)
  have "l' - r' = fa" "r' - l' = fr" using fa fr by (auto simp: l' r')
  moreover have "fa \<inter> ((l' \<union> fr) - fa) = {}" "fr \<subseteq> (l' \<union> fr) - fa" using fa fr by auto
  ultimately have sets: "local_only ((l' \<union> fr) - fa) True True (l' - r') = ({}, fa)"
    "remote_only ((l' \<union> fr) - fa) True True (r' - l') = ({}, fr)"
    by (auto simp: local_only_def remote_only_def)
  show ?thesis
    unfolding base plan_watchlist_reconcile_def option.case Let_def sets prod.case no_suppression
    by (simp add: no_plan_def)
qed

lemma watchlist_converges_witness:
  "plan_watchlist_reconcile {''movie:1''} {} (Some (set (compute_new_baseline {''movie:1''} {''movie:1''} {}))) True True =
     no_plan\<lparr>pl_push_add := {''movie:1''}\<rparr>"
  using watchlist_converges [of "{''movie:1''}" "{}" "{}" "{''movie:1''}" "{}"]
  by (simp add: plan_defs suppression_def suppress_min_baseline_def apply_local_def apply_remote_plan_def)

text \<open>Nothing is deleted on either side before a first reconciliation, a direction that is off
  changes nothing on its side, and against an established baseline a remote list that came back
  empty removes nothing and no plan removes more than half of the baseline.\<close>

lemma watchlist_safe:
  fixes l r :: "string set" and baseline :: "string set option" and pull push :: bool
  defines "p \<equiv> plan_watchlist_reconcile l r baseline pull push"
  shows "(baseline = None \<longrightarrow> pl_remove_local p = {} \<and> pl_push_remove p = {}) \<and>
    (\<not> pull \<longrightarrow> pl_add_local p = {} \<and> pl_remove_local p = {}) \<and>
    (\<not> push \<longrightarrow> pl_push_add p = {} \<and> pl_push_remove p = {}) \<and>
    (\<forall>b. baseline = Some b \<and> 10 \<le> card b \<longrightarrow>
       (r = {} \<longrightarrow> pl_remove_local p = {}) \<and> 2 * card (pl_remove_local p \<inter> b) \<le> card b)"
proof (cases baseline)
  case None
  then show ?thesis by (simp add: p_def plan_watchlist_reconcile_def no_plan_def)
next
  case (Some b)
  define m where "m = fst (local_only b pull push (l - r))"
  show ?thesis
  proof (cases "suppression r b m")
    case None
    then have p: "p = no_plan\<lparr>pl_add_local := fst (remote_only b pull push (r - l)), pl_remove_local := m,
        pl_push_add := snd (local_only b pull push (l - r)), pl_push_remove := snd (remote_only b pull push (r - l))\<rparr>"
      by (simp add: p_def m_def Some plan_watchlist_reconcile_def Let_def split_beta)
    have "(of_nat (card b) :: rat) < 2 * of_nat (card (m \<inter> b)) \<longleftrightarrow> card b < 2 * card (m \<inter> b)"
      using of_nat_less_iff [of "card b" "2 * card (m \<inter> b)", where 'a = rat] by simp
    then have "(r = {} \<longrightarrow> m = {}) \<and> 2 * card (m \<inter> b) \<le> card b" if "10 \<le> card b"
      using None that by (cases "m = {}") (auto simp: suppression_def suppress_min_baseline_def suppress_max_fraction_def split: if_splits)
    then show ?thesis by (auto simp: p Some no_plan_def m_def local_only_def remote_only_def)
  next
    case (Some reason)
    then have "p = no_plan\<lparr>pl_suppressed := True, pl_suppressed_reason := Some reason\<rparr>"
      by (simp add: p_def m_def \<open>baseline = Some b\<close> plan_watchlist_reconcile_def Let_def split_beta)
    then show ?thesis by (simp add: no_plan_def)
  qed
qed

lemma watchlist_safe_witness:
  "pl_remove_local (plan_watchlist_reconcile {''movie:1''} {} None True True) = {}"
  using watchlist_safe [of None "{''movie:1''}" "{}" True True] by simp

end
