(* ===== verification/Rewatch.thy ===== *)
theory Rewatch
  imports WatchDates
begin

text \<open>
  \<open>core/rewatch.py\<close>: how many episodes of a show have aired, and the progress of an active
  rewatch.  TMDB metadata is JSON; season and episode numbers and counts are integers in it, any
  other value is a \<open>TypeError\<close> as soon as it is read.  Deleting a rewatch deletes its progress
  rows, as the foreign key says.
\<close>

section \<open>Aired episodes\<close>

definition int_item :: "pydict \<Rightarrow> string \<Rightarrow> int result" where
  "int_item d key =
     (case map_of d key of None \<Rightarrow> Inl KeyError
      | Some v \<Rightarrow> (case as_int v of None \<Rightarrow> Inl TypeError | Some i \<Rightarrow> Inr i))"

definition int_or :: "pydict \<Rightarrow> string \<Rightarrow> int \<Rightarrow> int result" where
  "int_or d key def =
     (case map_of d key of None \<Rightarrow> Inr def
      | Some v \<Rightarrow> (case as_int v of None \<Rightarrow> Inl TypeError | Some i \<Rightarrow> Inr i))"

definition seasons_of :: "pydict \<Rightarrow> pydict list result" where
  "seasons_of data =
     (case map_of data ''seasons'' of None \<Rightarrow> Inr []
      | Some (VList xs) \<Rightarrow> map_result (\<lambda>x. case as_dict x of None \<Rightarrow> Inl TypeError | Some d \<Rightarrow> Inr d) xs
      | Some _ \<Rightarrow> Inl TypeError)"

type_synonym season_counts = "(int \<times> int) list"

definition season_count :: "pydict \<Rightarrow> (int \<times> int) result" where
  "season_count s =
     and_then (int_item s ''season_number'') (\<lambda>n.
     and_then (int_or s ''episode_count'' 0) (\<lambda>c. Inr (n, c)))"

definition raw_counts :: "pydict list \<Rightarrow> season_counts result" where
  "raw_counts seasons =
     and_then (map_result season_count seasons) (\<lambda>rows. Inr (foldl (\<lambda>d (n, c). dict_set n c d) [] rows))"

text \<open>An air date is compared as text; a missing one is the empty string here.\<close>

definition air_date :: "pydict \<Rightarrow> string result" where
  "air_date d =
     (let v = get d ''air_date'' in
      if \<not> truthy v then Inr [] else (case as_str v of None \<Rightarrow> Inl TypeError | Some s \<Rightarrow> Inr s))"

definition episode_position :: "pydict \<Rightarrow> (int \<times> int) option result" where
  "episode_position ep =
     (if get ep ''season_number'' = VNone \<or> get ep ''episode_number'' = VNone then Inr None
      else and_then (int_item ep ''season_number'') (\<lambda>s.
           and_then (int_item ep ''episode_number'') (\<lambda>e. Inr (Some (s, e)))))"

text \<open>The last position that counts.\<close>

definition aired_cap :: "string \<Rightarrow> pydict \<Rightarrow> (int \<times> int) option result" where
  "aired_cap today data =
     (let last_ep = dict_or_empty (get data ''last_episode_to_air'');
          next_ep = dict_or_empty (get data ''next_episode_to_air'') in
      and_then (episode_position last_ep) (\<lambda>last.
      and_then (case last of None \<Rightarrow> Inr None
                | Some (s, e) \<Rightarrow> and_then (air_date last_ep) (\<lambda>air.
                    Inr (Some (s, if air = [] \<or> air \<le> today then e else e - 1)))) (\<lambda>cap.
      and_then (episode_position next_ep) (\<lambda>next.
        Inr (case next of None \<Rightarrow> cap
             | Some (s, e) \<Rightarrow> (case cap of None \<Rightarrow> Some (s, e - 1) | Some c \<Rightarrow> Some (min c (s, e - 1))))))))"

definition cap_count :: "int \<times> int \<Rightarrow> int \<times> int \<Rightarrow> int \<times> int" where
  "cap_count cap row =
     (case (cap, row) of ((cs, ce), (s, c)) \<Rightarrow>
        (s, if s = cs then max 0 (min c ce) else if cs < s then 0 else c))"

definition active_statuses :: "string list" where
  "active_statuses = [''Returning Series'', ''In Production'', ''Planned'', ''Pilot'']"

definition still_active :: "show_row \<Rightarrow> bool" where
  "still_active s = (case s_status s of None \<Rightarrow> False | Some st \<Rightarrow> st \<in> set active_statuses)"

text \<open>Whether a whole season is dropped.\<close>

definition season_unaired :: "string \<Rightarrow> bool \<Rightarrow> string \<Rightarrow> bool" where
  "season_unaired today unanchored air \<longleftrightarrow>
     (if unanchored then \<not> (air \<noteq> [] \<and> air \<le> today) else air \<noteq> [] \<and> today < air)"

definition drop_season :: "string \<Rightarrow> bool \<Rightarrow> pydict \<Rightarrow> season_counts \<Rightarrow> season_counts result" where
  "drop_season today unanchored s counts =
     and_then (air_date s) (\<lambda>air.
       if season_unaired today unanchored air
       then and_then (int_item s ''season_number'') (\<lambda>n. Inr (dict_set n 0 counts))
       else Inr counts)"

definition capped_season_episode_counts :: "show_row \<Rightarrow> pydict option \<Rightarrow> date \<Rightarrow> season_counts result" where
  "capped_season_episode_counts s tmdb_extra today =
     (let own = (case s_tmdb_data s of None \<Rightarrow> [] | Some d \<Rightarrow> d);
          data = (case tmdb_extra of None \<Rightarrow> own | Some d \<Rightarrow> if d = [] then own else d);
          today_str = isoformat today in
      and_then (seasons_of own) (\<lambda>seasons.
      and_then (raw_counts seasons) (\<lambda>counts.
      and_then (aired_cap today_str data) (\<lambda>cap.
        let capped = (case cap of None \<Rightarrow> counts | Some c \<Rightarrow> map (cap_count c) counts)
        in fold_result (drop_season today_str (cap = None \<and> still_active s)) seasons capped))))"

definition total_aired_episodes :: "show_row \<Rightarrow> date \<Rightarrow> int result" where
  "total_aired_episodes s today =
     and_then (capped_season_episode_counts s None today) (\<lambda>counts.
       Inr (sum_list (map snd (filter (\<lambda>(n, _). n \<noteq> 0) counts))))"

section \<open>Active rewatches\<close>

definition get_active_rewatch :: "db \<Rightarrow> int \<Rightarrow> int \<Rightarrow> show_rewatch option result" where
  "get_active_rewatch db user sid =
     scalar_one_or_none (filter (\<lambda>r. rw_user_id r = user \<and> rw_show_id r = sid) (rewatch_table db))"

definition get_active_rewatches_for_shows :: "db \<Rightarrow> int \<Rightarrow> int list \<Rightarrow> (int \<rightharpoonup> show_rewatch)" where
  "get_active_rewatches_for_shows db user sids =
     map_of (rev (map (\<lambda>r. (rw_show_id r, r))
       (filter (\<lambda>r. rw_user_id r = user \<and> rw_show_id r \<in> set sids) (rewatch_table db))))"

definition get_rewatch_progress_media_ids :: "db \<Rightarrow> int \<Rightarrow> int set" where
  "get_rewatch_progress_media_ids db rid =
     rp_media_id ` set (filter (\<lambda>p. rp_rewatch_id p = rid) (rewatch_progress_table db))"

definition get_already_watched_for_bulk_mark :: "db \<Rightarrow> int \<Rightarrow> int \<Rightarrow> int list \<Rightarrow> int set result" where
  "get_already_watched_for_bulk_mark db user sid mids =
     (if mids = [] then Inr {}
      else and_then (get_active_rewatch db user sid) (\<lambda>active.
        Inr (case active of
               Some r \<Rightarrow> get_rewatch_progress_media_ids db (rw_id r) \<inter> set mids
             | None \<Rightarrow> we_media_id ` set (filter (\<lambda>e. we_user_id e = user \<and> we_media_id e \<in> set mids \<and> we_completed e)
                         (watch_event_table db)))))"

definition delete_rewatch :: "int \<Rightarrow> db \<Rightarrow> db" where
  "delete_rewatch rid db =
     db\<lparr>rewatch_table := filter (\<lambda>r. rw_id r \<noteq> rid) (rewatch_table db),
        rewatch_progress_table := filter (\<lambda>p. rp_rewatch_id p \<noteq> rid) (rewatch_progress_table db)\<rparr>"

definition maybe_complete_rewatch :: "date \<Rightarrow> show_rewatch \<Rightarrow> db \<Rightarrow> db result" where
  "maybe_complete_rewatch today rewatch db =
     and_then (scalar_one_or_none (filter (\<lambda>s. s_id s = rw_show_id rewatch) (show_table db))) (\<lambda>found.
       case found of
         None \<Rightarrow> Inr db
       | Some s \<Rightarrow>
         and_then (total_aired_episodes s today) (\<lambda>total.
           if total \<le> 0 then Inr db
           else if total \<le> int (length (filter (\<lambda>p. rp_rewatch_id p = rw_id rewatch) (rewatch_progress_table db)))
           then Inr (delete_rewatch (rw_id rewatch) db) else Inr db))"

text \<open>\<open>INSERT ... ON CONFLICT DO NOTHING\<close> on the pair of rewatch and episode.\<close>

definition insert_progress :: "int \<Rightarrow> int \<Rightarrow> int \<Rightarrow> db \<Rightarrow> db" where
  "insert_progress rid mid wid db =
     (if list_ex (\<lambda>p. rp_rewatch_id p = rid \<and> rp_media_id p = mid) (rewatch_progress_table db) then db
      else db\<lparr>rewatch_progress_table := rewatch_progress_table db @
        [\<lparr>rp_id = next_id rp_id (rewatch_progress_table db), rp_rewatch_id = rid, rp_media_id = mid, rp_watch_event_id = wid\<rparr>]\<rparr>)"

definition record_rewatch_progress ::
  "date \<Rightarrow> reconciliation option \<Rightarrow> int \<Rightarrow> int \<Rightarrow> int \<Rightarrow> db \<Rightarrow> db result" where
  "record_rewatch_progress today current user mid wid db =
     (if collecting current user \<noteq> None then Inr db
      else and_then (scalar_one_or_none (filter (\<lambda>m. m_id m = mid) (media_table db))) (\<lambda>found.
        case found of
          None \<Rightarrow> Inr db
        | Some m \<Rightarrow>
          (case m_show_id m of
             None \<Rightarrow> Inr db
           | Some sid \<Rightarrow>
             if m_media_type m \<noteq> Episode \<or> sid = 0 then Inr db
             else and_then (get_active_rewatch db user sid) (\<lambda>active.
               case active of
                 None \<Rightarrow> Inr db
               | Some r \<Rightarrow> maybe_complete_rewatch today r (insert_progress (rw_id r) mid wid db)))))"

section \<open>Only aired episodes are counted\<close>

definition count_of :: "season_counts \<Rightarrow> int \<Rightarrow> int" where
  "count_of counts n = dict_get counts n 0"

text \<open>What a count may be: at most what the cap allows, and zero past it.\<close>

definition within_cap :: "int \<times> int \<Rightarrow> season_counts \<Rightarrow> bool" where
  "within_cap cap counts \<longleftrightarrow> (\<forall>n. (fst cap < n \<longrightarrow> count_of counts n = 0) \<and> (n = fst cap \<longrightarrow> count_of counts n \<le> max 0 (snd cap)))"

lemma map_of_cap_count:
  "map_of (map (cap_count cap) counts) n = map_option (\<lambda>c. snd (cap_count cap (n, c))) (map_of counts n)"
  by (induction counts) (auto simp: cap_count_def split: prod.splits)

lemma within_cap_capped: "within_cap cap (map (cap_count cap) counts)"
  by (auto simp: within_cap_def count_of_def dict_get_def map_of_cap_count cap_count_def split: prod.splits option.splits)

lemma within_cap_zero: "within_cap cap counts \<Longrightarrow> within_cap cap (dict_set n 0 counts)"
  by (auto simp: within_cap_def count_of_def)

lemma drop_season_result:
  "drop_season today unanchored s counts = Inr counts' \<Longrightarrow> counts' = counts \<or> (\<exists>n. counts' = dict_set n 0 counts)"
  by (auto simp: drop_season_def and_then_Inr_iff split: if_splits)

lemma aired_cap_next:
  assumes "aired_cap today data = Inr cap"
    and "episode_position (dict_or_empty (get data ''next_episode_to_air'')) = Inr (Some p)"
  shows "\<exists>c. cap = Some c \<and> c \<le> (fst p, snd p - 1)"
proof -
  obtain sn en where p: "p = (sn, en)" by (cases p)
  from assms obtain cap0 where "cap = (case cap0 of None \<Rightarrow> Some (sn, en - 1) | Some c \<Rightarrow> Some (min c (sn, en - 1)))"
    unfolding aired_cap_def Let_def and_then_Inr_iff p by auto
  then show ?thesis by (cases cap0) (auto simp: p)
qed

lemma within_cap_mono:
  assumes "within_cap c counts" "c \<le> d"
  shows "fst d < n \<longrightarrow> count_of counts n = 0" "count_of counts (fst d) \<le> max 0 (snd d)"
proof -
  have "fst c < fst d \<or> fst c = fst d \<and> snd c \<le> snd d" using assms(2) by (auto simp: less_eq_prod_def)
  then show "fst d < n \<longrightarrow> count_of counts n = 0" "count_of counts (fst d) \<le> max 0 (snd d)"
    using assms(1) by (auto simp: within_cap_def)
qed

text \<open>The metadata the aired positions are read from.\<close>

definition airing_data :: "show_row \<Rightarrow> pydict option \<Rightarrow> pydict" where
  "airing_data s tmdb_extra =
     (let own = (case s_tmdb_data s of None \<Rightarrow> [] | Some d \<Rightarrow> d)
      in case tmdb_extra of None \<Rightarrow> own | Some d \<Rightarrow> if d = [] then own else d)"

text \<open>When TMDB announces the next episode, nothing from that episode on is counted: the
  seasons after its season count zero and its own season counts at most the episodes before it.\<close>

lemma capped_counts_stop_before_next:
  assumes "capped_season_episode_counts s tmdb_extra today = Inr counts"
    and "episode_position (dict_or_empty (get (airing_data s tmdb_extra) ''next_episode_to_air'')) = Inr (Some (sn, en))"
  shows "(sn < n \<longrightarrow> count_of counts n = 0) \<and> count_of counts sn \<le> max 0 (en - 1)"
proof -
  from assms(1) obtain seasons raw cap where
    cap: "aired_cap (isoformat today) (airing_data s tmdb_extra) = Inr cap"
    and run: "fold_result (drop_season (isoformat today) (cap = None \<and> still_active s)) seasons
       (case cap of None \<Rightarrow> raw | Some c \<Rightarrow> map (cap_count c) raw) = Inr counts"
    unfolding capped_season_episode_counts_def airing_data_def Let_def and_then_Inr_iff by blast
  from aired_cap_next [OF cap assms(2)] obtain c where c: "cap = Some c" "c \<le> (sn, en - 1)" by auto
  have "within_cap c counts"
  proof (rule fold_result_invariant [OF run, where P = "within_cap c"])
    show "within_cap c (case cap of None \<Rightarrow> raw | Some c \<Rightarrow> map (cap_count c) raw)"
      by (simp add: c(1) within_cap_capped)
  next
    fix i counts counts'
    assume "within_cap c counts" "drop_season (isoformat today) (cap = None \<and> still_active s) i counts = Inr counts'"
    then show "within_cap c counts'" using drop_season_result within_cap_zero by blast
  qed
  from within_cap_mono [OF this c(2)] show ?thesis by simp
qed

text \<open>A show in its second season, whose fourth episode is next.\<close>

definition sample_airing :: show_row where
  "sample_airing = (new_show 5 ''Show'' (Some 42) 0)\<lparr>s_tmdb_data := Some
     [(''seasons'', VList [VDict [(''season_number'', VInt 1), (''episode_count'', VInt 8)],
                          VDict [(''season_number'', VInt 2), (''episode_count'', VInt 10)]]),
      (''next_episode_to_air'', VDict [(''season_number'', VInt 2), (''episode_number'', VInt 4)])]\<rparr>"

lemma sample_airing_data [simp]:
  "s_tmdb_data sample_airing = Some
     [(''seasons'', VList [VDict [(''season_number'', VInt 1), (''episode_count'', VInt 8)],
                          VDict [(''season_number'', VInt 2), (''episode_count'', VInt 10)]]),
      (''next_episode_to_air'', VDict [(''season_number'', VInt 2), (''episode_number'', VInt 4)])]"
  "still_active sample_airing = False"
  by (simp_all add: sample_airing_def new_show_def still_active_def)

lemma drop_season_undated: "get s ''air_date'' = VNone \<Longrightarrow> drop_season today False s counts = Inr counts"
  by (simp add: drop_season_def air_date_def season_unaired_def Let_def)

lemma sample_airing_counts:
  "capped_season_episode_counts sample_airing None (Date 2024 5 1) = Inr [(1, 8), (2, 3)]"
proof -
  let ?s1 = "[(''season_number'', VInt 1), (''episode_count'', VInt 8)]"
  let ?s2 = "[(''season_number'', VInt 2), (''episode_count'', VInt 10)]"
  let ?data = "[(''seasons'', VList [VDict ?s1, VDict ?s2]),
      (''next_episode_to_air'', VDict [(''season_number'', VInt 2), (''episode_number'', VInt 4)])]"
  have seasons: "seasons_of ?data = Inr [?s1, ?s2]" by (simp add: seasons_of_def)
  have raw: "raw_counts [?s1, ?s2] = Inr [(1, 8), (2, 10)]"
    by (simp add: raw_counts_def season_count_def int_item_def int_or_def)
  have cap: "aired_cap today ?data = Inr (Some (2, 3))" for today
    by (simp add: aired_cap_def episode_position_def dict_or_empty_def int_item_def Let_def)
  have capped: "map (cap_count (2, 3)) [(1, 8), (2, 10)] = [(1, 8), (2, 3)]"
    by (simp add: cap_count_def)
  have kept: "drop_season today False ?s1 counts = Inr counts" "drop_season today False ?s2 counts = Inr counts" for today counts
    by (simp_all add: drop_season_undated)
  show ?thesis
    unfolding capped_season_episode_counts_def sample_airing_data Let_def option.case seasons raw cap and_then_simps capped
    by (simp add: kept)
qed

lemma sample_airing_next:
  "episode_position (dict_or_empty (get (airing_data sample_airing None) ''next_episode_to_air'')) = Inr (Some (2, 4))"
  by (simp add: airing_data_def episode_position_def dict_or_empty_def int_item_def)

lemma capped_counts_stop_before_next_witness: "count_of [(1, 8), (2, 3)] 3 = 0 \<and> count_of [(1, 8), (2, 3)] 2 \<le> max 0 (4 - 1)"
proof -
  have "(2 < (3 :: int) \<longrightarrow> count_of [(1, 8), (2, 3)] 3 = 0) \<and> count_of [(1, 8), (2, 3)] 2 \<le> max 0 (4 - 1)"
    by (rule capped_counts_stop_before_next [OF sample_airing_counts sample_airing_next])
  then show ?thesis by simp
qed

section \<open>A rewatch ends exactly when it is complete\<close>

definition progress_unique :: "db \<Rightarrow> bool" where
  "progress_unique db \<longleftrightarrow> unique_on (\<lambda>p. (rp_rewatch_id p, rp_media_id p)) (rewatch_progress_table db)"

lemma insert_progress_unique: "progress_unique db \<Longrightarrow> progress_unique (insert_progress rid mid wid db)"
  by (auto simp: progress_unique_def insert_progress_def unique_on_append_row list_ex_iff)

lemma insert_progress_ids:
  "get_rewatch_progress_media_ids (insert_progress rid mid wid db) rid = insert mid (get_rewatch_progress_media_ids db rid)"
proof (cases "list_ex (\<lambda>p. rp_rewatch_id p = rid \<and> rp_media_id p = mid) (rewatch_progress_table db)")
  case True
  then have "mid \<in> get_rewatch_progress_media_ids db rid"
    unfolding list_ex_iff get_rewatch_progress_media_ids_def by auto
  with True show ?thesis by (simp add: insert_progress_def insert_absorb)
next
  case False
  then show ?thesis by (simp add: insert_progress_def get_rewatch_progress_media_ids_def)
qed

lemma insert_progress_tables [simp]:
  "rewatch_table (insert_progress rid mid wid db) = rewatch_table db"
  "show_table (insert_progress rid mid wid db) = show_table db"
  by (simp_all add: insert_progress_def)

lemma progress_length:
  assumes "progress_unique db"
  shows "length (filter (\<lambda>p. rp_rewatch_id p = rid) (rewatch_progress_table db)) = card (get_rewatch_progress_media_ids db rid)"
proof -
  let ?rows = "filter (\<lambda>p. rp_rewatch_id p = rid) (rewatch_progress_table db)"
  have "distinct (map (\<lambda>p. (rp_rewatch_id p, rp_media_id p)) ?rows)"
    using assms by (simp add: progress_unique_def unique_on_def distinct_map_filter)
  then have "distinct (map rp_media_id ?rows)"
    by (auto simp: distinct_map inj_on_def)
  then show ?thesis
    using distinct_card [of "map rp_media_id ?rows"] by (simp add: get_rewatch_progress_media_ids_def)
qed

lemma delete_rewatch_gone:
  "rid \<notin> rw_id ` set (rewatch_table (delete_rewatch rid db))"
  "get_rewatch_progress_media_ids (delete_rewatch rid db) rid = {}"
  "progress_unique db \<Longrightarrow> progress_unique (delete_rewatch rid db)"
  by (auto simp: delete_rewatch_def get_rewatch_progress_media_ids_def progress_unique_def unique_on_def distinct_map_filter)

text \<open>Recording a play during a rewatch adds its episode once; the rewatch and its progress go
  away exactly when every aired episode has been seen again, and otherwise the rewatch stays.\<close>

lemma record_rewatch_progress_completes:
  assumes "record_rewatch_progress today current user mid wid db = Inr db'"
    and "collecting current user = None" and "progress_unique db"
    and "scalar_one_or_none (filter (\<lambda>m. m_id m = mid) (media_table db)) = Inr (Some m)"
    and "m_media_type m = Episode" "m_show_id m = Some sid" "sid \<noteq> 0"
    and "get_active_rewatch db user sid = Inr (Some r)"
    and "scalar_one_or_none (filter (\<lambda>s. s_id s = rw_show_id r) (show_table db)) = Inr (Some s)"
    and "total_aired_episodes s today = Inr aired" "0 < aired"
  shows "progress_unique db' \<and>
    (if aired \<le> int (card (insert mid (get_rewatch_progress_media_ids db (rw_id r))))
     then rw_id r \<notin> rw_id ` set (rewatch_table db') \<and> get_rewatch_progress_media_ids db' (rw_id r) = {}
     else rewatch_table db' = rewatch_table db \<and>
       get_rewatch_progress_media_ids db' (rw_id r) = insert mid (get_rewatch_progress_media_ids db (rw_id r)))"
proof -
  let ?db = "insert_progress (rw_id r) mid wid db"
  have unique: "progress_unique ?db" using assms(3) by (rule insert_progress_unique)
  have "maybe_complete_rewatch today r ?db = Inr db'"
    using assms(1,2,4-8) by (simp add: record_rewatch_progress_def)
  then have db': "db' = (if aired \<le> int (card (insert mid (get_rewatch_progress_media_ids db (rw_id r))))
      then delete_rewatch (rw_id r) ?db else ?db)"
    using assms(9-11) by (simp add: maybe_complete_rewatch_def progress_length [OF unique] insert_progress_ids split: if_splits)
  show ?thesis
    using unique delete_rewatch_gone [where rid = "rw_id r" and db = ?db] by (simp add: db' insert_progress_ids)
qed

text \<open>A show of one aired episode under a rewatch.\<close>

definition sample_short :: show_row where
  "sample_short = (new_show 5 ''Short'' (Some 42) 0)\<lparr>s_tmdb_data := Some
     [(''seasons'', VList [VDict [(''season_number'', VInt 1), (''episode_count'', VInt 1)]])]\<rparr>"

definition sample_rewatch_db :: db where
  "sample_rewatch_db = empty_db\<lparr>
     media_table := [(new_media 10 Episode ''Pilot'' None 0)\<lparr>m_show_id := Some 5\<rparr>],
     show_table := [sample_short],
     rewatch_table := [\<lparr>rw_id = 3, rw_user_id = 1, rw_show_id = 5, rw_started_at = 0\<rparr>]\<rparr>"

lemma sample_short_total: "total_aired_episodes sample_short (Date 2024 5 1) = Inr 1"
  by (simp add: total_aired_episodes_def capped_season_episode_counts_def sample_short_def new_show_def seasons_of_def
      raw_counts_def season_count_def int_item_def int_or_def aired_cap_def episode_position_def dict_or_empty_def
      drop_season_undated still_active_def Let_def)

lemma maybe_complete_rewatch_ok:
  "scalar_one_or_none (filter (\<lambda>s. s_id s = rw_show_id r) (show_table db)) = Inr (Some s) \<Longrightarrow>
   total_aired_episodes s today = Inr n \<Longrightarrow> \<exists>db'. maybe_complete_rewatch today r db = Inr db'"
  by (auto simp: maybe_complete_rewatch_def)

lemma record_rewatch_progress_active:
  assumes "collecting current user = None" "scalar_one_or_none (filter (\<lambda>m. m_id m = mid) (media_table db)) = Inr (Some m)"
    and "m_media_type m = Episode" "m_show_id m = Some sid" "sid \<noteq> 0" "get_active_rewatch db user sid = Inr (Some r)"
  shows "record_rewatch_progress today current user mid wid db = maybe_complete_rewatch today r (insert_progress (rw_id r) mid wid db)"
  using assms by (simp add: record_rewatch_progress_def)

lemma record_rewatch_progress_completes_witness:
  "\<exists>db'. record_rewatch_progress (Date 2024 5 1) None 1 10 77 sample_rewatch_db = Inr db' \<and> 3 \<notin> rw_id ` set (rewatch_table db')"
proof -
  let ?m = "(new_media 10 Episode ''Pilot'' None 0)\<lparr>m_show_id := Some 5\<rparr>"
  let ?r = "\<lparr>rw_id = 3, rw_user_id = 1, rw_show_id = 5, rw_started_at = 0\<rparr>"
  have m: "scalar_one_or_none (filter (\<lambda>m. m_id m = 10) (media_table sample_rewatch_db)) = Inr (Some ?m)"
    by (simp add: sample_rewatch_db_def new_media_def)
  have s: "scalar_one_or_none (filter (\<lambda>s. s_id s = rw_show_id ?r) (show_table sample_rewatch_db)) = Inr (Some sample_short)"
    by (simp add: sample_rewatch_db_def sample_short_def new_show_def)
  have r: "get_active_rewatch sample_rewatch_db 1 5 = Inr (Some ?r)"
    by (simp add: sample_rewatch_db_def get_active_rewatch_def)
  have free: "collecting None 1 = None" by (simp add: collecting_def)
  have unique: "progress_unique sample_rewatch_db"
    by (simp add: progress_unique_def sample_rewatch_db_def empty_db_def)
  have fields: "m_media_type ?m = Episode" "m_show_id ?m = Some 5" by (simp_all add: new_media_def)
  have "\<exists>db'. record_rewatch_progress (Date 2024 5 1) None 1 10 77 sample_rewatch_db = Inr db'"
    unfolding record_rewatch_progress_active [OF free m fields _ r, simplified]
    by (rule maybe_complete_rewatch_ok [OF _ sample_short_total]) (use s in simp)
  then obtain db' where run: "record_rewatch_progress (Date 2024 5 1) None 1 10 77 sample_rewatch_db = Inr db'" by blast
  have "(1 :: int) \<le> int (card (insert 10 (get_rewatch_progress_media_ids sample_rewatch_db 3)))"
    by (simp add: get_rewatch_progress_media_ids_def sample_rewatch_db_def empty_db_def)
  with record_rewatch_progress_completes [OF run free unique m fields _ r s sample_short_total] run show ?thesis by simp
qed

end
