(* ===== verification/WatchRound.thy ===== *)
theory WatchRound
  imports RatingRound Rewatch
begin

text \<open>
  The viewing history of a round: \<open>_watches\<close>, \<open>_apply_staged_watches\<close>, \<open>_watch_dates\<close>,
  \<open>_tracking_root\<close> and \<open>_raw_progress\<close> of \<open>core/sync_reconciliation.py\<close>, with \<open>watch_key\<close> and
  \<open>media_ids_for_watch_rows\<close> of \<open>core/tracking_snapshot.py\<close> and \<open>provider_changed_at\<close> of
  \<open>core/status_provenance.py\<close>.  The state of the round is the reconciliation itself, which is past
  collecting, the database and the pull cycle.
\<close>

section \<open>Clocks and rows of providers\<close>

text \<open>\<open>int(v)\<close>, with its failures.\<close>

definition py_int :: "pyval \<Rightarrow> int option" where
  "py_int v =
     (case v of VStr s \<Rightarrow> int_of_str s | VFloat r \<Rightarrow> Some (if 0 \<le> r then \<lfloor>r\<rfloor> else - \<lfloor>- r\<rfloor>) | _ \<Rightarrow> as_int v)"

definition clock_of_value :: "pyval \<Rightarrow> datetime option option result" where
  "clock_of_value v =
     (case number_of v of
        Some r \<Rightarrow> (case fromtimestamp (if 10000000000 < r then r / 1000 else r) of
                     None \<Rightarrow> Inl ValueError | Some t \<Rightarrow> Inr (Some (naive_utc (Some t))))
      | None \<Rightarrow> (case parse_datetime (zulu_offset (py_str v)) of
                   None \<Rightarrow> Inr None
                 | Some d \<Rightarrow> and_then (to_naive_utc d) (\<lambda>t. Inr (Some (naive_utc (Some t))))))"

fun first_clock :: "pydict \<Rightarrow> string list \<Rightarrow> datetime option result" where
  "first_clock row [] = Inr None"
| "first_clock row (f # fs) =
     (let v = get row f in
      if v = VNone \<or> v = VStr [] then first_clock row fs
      else and_then (clock_of_value v) (\<lambda>found.
        case found of None \<Rightarrow> first_clock row fs | Some t \<Rightarrow> Inr t))"

definition provider_changed_at :: "pydict \<Rightarrow> datetime option result" where
  "provider_changed_at row =
     (if row = [] then Inr None else first_clock row [''updated_at'', ''modified_at'', ''watched_at'', ''last_watched''])"

definition watch_key :: "pydict \<Rightarrow> string" where
  "watch_key row =
     py_str (get row ''content_id'') @ '':'' @ py_str (get row ''season'') @ '':'' @ py_str (get row ''episode'')"

section \<open>Rows and titles\<close>

definition movie_with :: "db \<Rightarrow> int \<Rightarrow> int option" where
  "movie_with db tmdb = map_option m_id (last_row (\<lambda>m. m_tmdb_id m = Some tmdb \<and> m_media_type m = Movie) (media_table db))"

definition show_with :: "db \<Rightarrow> int \<Rightarrow> int option" where
  "show_with db tmdb = map_option s_id (last_row (\<lambda>s. s_tmdb_id s = Some tmdb) (show_table db))"

definition episode_with :: "db \<Rightarrow> int \<Rightarrow> int \<Rightarrow> int \<Rightarrow> int option" where
  "episode_with db sid season episode =
     map_option m_id (last_row (\<lambda>m. m_show_id m = Some sid \<and> m_media_type m = Episode
       \<and> m_season_number m = Some season \<and> m_episode_number m = Some episode) (media_table db))"

definition media_for_row :: "db \<Rightarrow> pydict \<Rightarrow> pydict \<Rightarrow> int option" where
  "media_for_row db mappings row =
     (case as_int (get mappings (py_str (get row ''content_id''))) of
        None \<Rightarrow> None
      | Some tmdb \<Rightarrow>
        if get row ''content_type'' = VStr ''movie'' then movie_with db tmdb
        else if get row ''content_type'' = VStr ''series'' then
          (case (py_int (get row ''season''), py_int (get row ''episode'')) of
             (Some s, Some e) \<Rightarrow> (case show_with db tmdb of None \<Rightarrow> None | Some sid \<Rightarrow> episode_with db sid s e)
           | _ \<Rightarrow> None)
        else None)"

definition media_ids_for_watch_rows :: "db \<Rightarrow> pydict \<Rightarrow> pydict list \<Rightarrow> (string \<times> int) list" where
  "media_ids_for_watch_rows db mappings rows =
     foldl (\<lambda>d row. case media_for_row db mappings row of None \<Rightarrow> d | Some mid \<Rightarrow> dict_set (watch_key row) mid d) []
       (filter (\<lambda>row. get row ''content_id'' \<noteq> VNone) rows)"

definition lookup_tracking_root :: "db \<Rightarrow> int \<Rightarrow> int result" where
  "lookup_tracking_root db mid =
     (case find (\<lambda>m. m_id m = mid) (media_table db) of
        None \<Rightarrow> Inr mid
      | Some m \<Rightarrow>
        (case (case m_show_id m of None \<Rightarrow> None | Some sid \<Rightarrow> find (\<lambda>s. s_id s = sid) (show_table db)) of
           None \<Rightarrow> Inr mid
         | Some s \<Rightarrow>
           (let has = (\<lambda>v. v \<noteq> None \<and> v \<noteq> Some 0) in
            if \<not> has (s_tmdb_id s) \<and> \<not> has (s_tvdb_id s) then Inr mid
            else and_then (scalar_one_or_none (filter (\<lambda>x. m_media_type x = Series
                     \<and> (has (s_tmdb_id s) \<and> m_tmdb_id x = s_tmdb_id s \<or> has (s_tvdb_id s) \<and> m_tvdb_id x = s_tvdb_id s))
                     (media_table db))) (\<lambda>found.
                   Inr (case found of None \<Rightarrow> mid | Some x \<Rightarrow> if m_id x = 0 then mid else m_id x)))))"

definition tracking_root :: "db \<Rightarrow> int \<Rightarrow> reconciliation \<Rightarrow> (int \<times> reconciliation) result" where
  "tracking_root db mid st =
     (case rc_tracking_roots st mid of
        Some rid \<Rightarrow> Inr (rid, st)
      | None \<Rightarrow> and_then (lookup_tracking_root db mid) (\<lambda>rid.
          Inr (rid, st\<lparr>rc_tracking_roots := (rc_tracking_roots st)(mid \<mapsto> rid)\<rparr>)))"

section \<open>Candidates\<close>

type_synonym watch_candidates = "(int \<times> bool observation list) list"

definition saved_clock :: "pydict \<Rightarrow> int \<Rightarrow> datetime option result" where
  "saved_clock saved mid =
     (case get saved (show_int mid) of
        VStr s \<Rightarrow> if s = [] then Inr None
                  else (case parse_datetime s of None \<Rightarrow> Inl ValueError
                        | Some v \<Rightarrow> and_then (to_naive_utc v) (\<lambda>t. Inr (naive_utc (Some t))))
      | v \<Rightarrow> if truthy v then Inl TypeError else Inr None)"

text \<open>Evidence that is new: the title is new for its source, or its clock has changed.\<close>

definition evidence_candidate ::
  "reconciliation \<Rightarrow> int \<Rightarrow> string \<times> datetime option \<Rightarrow> watch_candidates \<Rightarrow> watch_candidates result" where
  "evidence_candidate st mid item cands =
     (case item of (source, tm) \<Rightarrow>
        let saved = (case rc_watch_previous st source of None \<Rightarrow> [] | Some d \<Rightarrow> d);
            known = (map_of saved (show_int mid) \<noteq> None);
            previous = (if rc_watch_previous st source \<noteq> None \<and> \<not> known then Some (Some False) else None) in
        and_then (saved_clock saved mid) (\<lambda>prior.
          Inr (if \<not> known \<or> prior \<noteq> tm
               then dict_alter mid [] (\<lambda>obs. obs @ [observe source (Some True) tm previous None]) cands else cands)))"

definition evidence_candidates :: "reconciliation \<Rightarrow> watch_candidates result" where
  "evidence_candidates st =
     fold_result (\<lambda>(mid, d) cands. fold_result (evidence_candidate st mid) d (dict_alter mid [] id cands))
       (rc_watch_evidence st) []"

record stream_snapshot =
  sn_connection_id :: int
  sn_identity_version :: "int option"
  sn_sync_watched :: bool
  sn_complete :: bool
  sn_watched :: "pydict list"
  sn_tmdb_ids :: pydict

definition snapshot_connection :: "db \<Rightarrow> int \<Rightarrow> stream_snapshot \<Rightarrow> connection option" where
  "snapshot_connection db user sn =
     (case find (\<lambda>c. c_id c = sn_connection_id sn) (connection_table db) of
        None \<Rightarrow> None
      | Some c \<Rightarrow>
        if c_user_id c = user \<and> (case sn_identity_version sn of None \<Rightarrow> True | Some v \<Rightarrow> c_identity_version c = v)
        then Some c else None)"

definition dict_rows :: "pyval \<Rightarrow> pydict list" where
  "dict_rows v = List.map_filter as_dict (list_or_empty v)"

definition old_watched :: "pydict \<Rightarrow> pydict list" where
  "old_watched previous = dict_rows (get (snapshot_dict previous ''records'') ''watched'')"

text \<open>A watched row that was not there, or not with this date, before.\<close>

definition added_candidate ::
  "connection \<Rightarrow> stream_baseline option \<Rightarrow> (string \<times> int) list \<Rightarrow> pydict list \<Rightarrow> pydict \<Rightarrow>
   watch_candidates \<Rightarrow> watch_candidates result" where
  "added_candidate conn baseline ids old row cands =
     (let key = watch_key row; stamp = py_str (get row ''watched_at'') in
      case map_of ids key of
        None \<Rightarrow> Inr cands
      | Some mid \<Rightarrow>
        if (key, stamp) \<in> set (map (\<lambda>r. (watch_key r, py_str (get r ''watched_at''))) old) then Inr cands
        else and_then (provider_changed_at row) (\<lambda>tm.
          Inr (dict_alter mid [] (\<lambda>obs. obs @ [observe (source_key (c_type conn) (Some (c_id conn))) (Some True) tm
            (if baseline \<noteq> None \<and> key \<notin> set (map watch_key old) then Some (Some False) else None)
            (case baseline of None \<Rightarrow> None | Some b \<Rightarrow> Some (sb_observed_at b))]) cands)))"

text \<open>A row that has gone from a complete snapshot.\<close>

definition removed_candidate ::
  "connection \<Rightarrow> stream_baseline \<Rightarrow> (string \<times> int) list \<Rightarrow> pydict list \<Rightarrow> pydict \<Rightarrow> watch_candidates \<Rightarrow> watch_candidates" where
  "removed_candidate conn baseline ids current row cands =
     (case map_of ids (watch_key row) of
        None \<Rightarrow> cands
      | Some mid \<Rightarrow>
        if watch_key row \<in> set (map watch_key current) then cands
        else dict_alter mid [] (\<lambda>obs. obs @ [observe (source_key (c_type conn) (Some (c_id conn))) (Some False) None
               (Some (Some True)) (Some (sb_observed_at baseline))]) cands)"

definition snapshot_candidates ::
  "db \<Rightarrow> int \<Rightarrow> stream_snapshot \<Rightarrow> watch_candidates \<Rightarrow> watch_candidates result" where
  "snapshot_candidates db user sn cands =
     (if \<not> sn_sync_watched sn then Inr cands
      else case snapshot_connection db user sn of
        None \<Rightarrow> Inr cands
      | Some conn \<Rightarrow>
        let baseline = stream_baseline_of db (c_id conn);
            previous = baseline_snapshot baseline; old = old_watched previous;
            mapping = dict_merge (snapshot_dict previous ''mappings'') (sn_tmdb_ids sn);
            ids = media_ids_for_watch_rows db mapping (old @ sn_watched sn) in
        and_then (fold_result (added_candidate conn baseline ids old) (sn_watched sn) cands) (\<lambda>c1.
          Inr (case baseline of
                 Some b \<Rightarrow> if sn_complete sn then fold (removed_candidate conn b ids (sn_watched sn)) old c1 else c1
               | None \<Rightarrow> c1)))"

section \<open>Deciding the watched state\<close>

record watch_round =
  wt_db :: db
  wt_cycle :: pull_cycle
  wt_state :: reconciliation

definition protected_of :: "reconciliation \<Rightarrow> int \<Rightarrow> string set" where
  "protected_of st rid = (case rc_protected_fields st rid of None \<Rightarrow> {} | Some fs \<Rightarrow> fs \<inter> {''status'', ''progress''})"

definition watch_decision ::
  "reconciliation \<Rightarrow> int \<Rightarrow> tracked_entry option \<Rightarrow> int \<Rightarrow> bool observation list \<Rightarrow> bool decision" where
  "watch_decision st rid entry mid observations =
     (let local = (if mid \<in> rc_watch_before st then Some True else None);
          tm = (case entry of None \<Rightarrow> None | Some e \<Rightarrow> status_changed_at e);
          d = resolve local tm observations (Some (rc_started_at st)) None in
      if protected_of st rid \<noteq> {} then (keep_local local)\<lparr>d_stale := True\<rparr>
      else if d_stale d \<and> local = Some True \<and> list_all (\<lambda>ob. o_value ob = Some True) observations
      then keep_local (Some True) else d)"

definition delete_events :: "int \<Rightarrow> int \<Rightarrow> db \<Rightarrow> db" where
  "delete_events user mid db =
     (let gone = (\<lambda>e. we_user_id e = user \<and> we_media_id e = mid) in
      db\<lparr>watch_event_table := filter (\<lambda>e. \<not> gone e) (watch_event_table db),
         rewatch_progress_table := filter (\<lambda>p. rp_watch_event_id p \<notin> we_id ` set (filter gone (watch_event_table db)))
           (rewatch_progress_table db)\<rparr>)"

text \<open>Distinct completed regular episodes of a show.\<close>

definition remaining_episodes :: "db \<Rightarrow> int \<Rightarrow> int \<Rightarrow> nat" where
  "remaining_episodes db user sid =
     card (set (map we_media_id (filter (\<lambda>e. we_user_id e = user \<and> we_completed e \<and>
        list_ex (\<lambda>m. m_id m = we_media_id e \<and> m_show_id m = Some sid \<and>
           (case m_season_number m of None \<Rightarrow> False | Some n \<Rightarrow> 0 < n)) (media_table db)) (watch_event_table db))))"

definition unwatch_entry :: "datetime \<Rightarrow> reconciliation \<Rightarrow> int \<Rightarrow> int \<Rightarrow> tracked_entry \<Rightarrow> db \<Rightarrow> db" where
  "unwatch_entry now st rid mid entry db =
     (let sid = (case find (\<lambda>m. m_id m = mid) (media_table db) of None \<Rightarrow> None | Some m \<Rightarrow> m_show_id m);
          mark = mark_status_change now ''combined'' (Some (rc_started_at st)) in
      if rid \<noteq> mid \<and> sid \<noteq> None \<and> sid \<noteq> Some 0 then
        (let left = remaining_episodes db (rc_user_id st) (the sid) in
         update_entry now (te_id entry) (\<lambda>e. mark (if te_status e = ''completed''
             then e\<lparr>te_progress := int left, te_status := (if left = 0 then ''planning'' else ''watching''), te_finish_date := None\<rparr>
             else e\<lparr>te_progress := int left\<rparr>)) db)
      else if te_status entry = ''completed'' then
        update_entry now (te_id entry) (\<lambda>e. mark (e\<lparr>te_status := ''planning'', te_progress := 0, te_finish_date := None\<rparr>)) db
      else db)"

definition connection_ids_of :: "string set \<Rightarrow> int list result" where
  "connection_ids_of sources = map_result connection_id_of (filter is_connection_source (sorted_list_of_set sources))"

definition watched_json :: "bool option \<Rightarrow> pyval" where
  "watched_json v = (case v of None \<Rightarrow> VNone | Some b \<Rightarrow> VBool b)"

definition watched_text :: "bool option \<Rightarrow> string" where
  "watched_text v = py_str (watched_json v)"

definition apply_watch_decision ::
  "datetime \<Rightarrow> int \<Rightarrow> int \<Rightarrow> tracked_entry option \<Rightarrow> bool decision \<Rightarrow> bool observation list \<Rightarrow> watch_round \<Rightarrow> watch_round result" where
  "apply_watch_decision now mid rid entry d observations w =
     (let st = wt_state w; user = rc_user_id st in
      if d_conflict d then
        and_then (record_conflict now user mid ''watched state'' None
            (review_payload watched_json watched_text ''watched state'' d observations) id (wt_db w)) (\<lambda>db.
          Inr (w\<lparr>wt_db := db\<rparr>))
      else
        let w1 = (if d_sources d \<noteq> {} then w\<lparr>wt_db := retire_review user mid ''watch_conflict'' None (wt_db w)\<rparr> else w) in
        if d_value d = Some False \<and> d_sources d \<noteq> {} then
          and_then (connection_ids_of (d_sources d)) (\<lambda>ids.
            let db = delete_events user mid (wt_db w1) in
            Inr (w1\<lparr>wt_db := (case entry of None \<Rightarrow> db | Some e \<Rightarrow> unwatch_entry now st rid mid e db),
                    wt_cycle := (wt_cycle w1)\<lparr>pc_removed_watch_exclusions :=
                       (pc_removed_watch_exclusions (wt_cycle w1))(mid \<mapsto> set ids)\<rparr>\<rparr>))
        else Inr w1)"

definition watch_step :: "datetime \<Rightarrow> int \<times> bool observation list \<Rightarrow> watch_round \<Rightarrow> watch_round result" where
  "watch_step now item w =
     (case item of (mid, collected) \<Rightarrow>
        let observations = sort_key o_source collected in
        and_then (tracking_root (wt_db w) mid (wt_state w)) (\<lambda>(rid, st).
        and_then (scalar_one_or_none (filter (\<lambda>e. te_user_id e = rc_user_id st \<and> te_media_id e = rid)
            (entry_table (wt_db w)))) (\<lambda>entry.
          let d = watch_decision st rid entry mid observations in
          apply_watch_decision now mid rid entry d observations
            (w\<lparr>wt_state := st\<lparr>rc_watch_decisions := (rc_watch_decisions st)(mid \<mapsto> d)\<rparr>\<rparr>))))"

definition watch_updates :: "reconciliation \<Rightarrow> (string \<times> pydict) list" where
  "watch_updates st =
     fold (\<lambda>(mid, d). fold (\<lambda>(source, tm). dict_alter source [] (dict_set (show_int mid)
         (case tm of None \<Rightarrow> VNone | Some t \<Rightarrow> VStr (datetime_isoformat t)))) d) (rc_watch_evidence st) []"

end
