(* ===== verification/StagedWatches.thy ===== *)
theory StagedWatches
  imports WatchRound WatchDates "HOL-Library.Product_Lexorder"
begin

text \<open>
  The second half of the viewing history of a round, from \<open>core/sync_reconciliation.py\<close>: the plays
  that were kept aside while the account was read (\<open>_apply_staged_watches\<close>), the reliable dates for
  estimated plays (\<open>_watch_dates\<close>), the observed positions (\<open>_raw_progress\<close>), the whole of
  \<open>_watches\<close>, and the pruning of the deliveries at the end of \<open>_finalize\<close>.
\<close>

section \<open>Accepting the plays of a round\<close>

definition accepted_decision :: "reconciliation \<Rightarrow> int \<Rightarrow> bool" where
  "accepted_decision st mid \<longleftrightarrow>
     (case rc_watch_decisions st mid of None \<Rightarrow> False
      | Some d \<Rightarrow> d_value d = Some True \<and> \<not> d_conflict d \<and> \<not> d_stale d)"

definition with_root :: "int \<Rightarrow> (int \<Rightarrow> watch_round \<Rightarrow> watch_round result) \<Rightarrow> watch_round \<Rightarrow> watch_round result" where
  "with_root mid f w =
     and_then (tracking_root (wt_db w) mid (wt_state w)) (\<lambda>(rid, st). f rid (w\<lparr>wt_state := st\<rparr>))"

definition confirm_step ::
  "string \<times> int \<times> int \<times> datetime option \<times> datetime option \<Rightarrow> watch_round \<Rightarrow> watch_round result" where
  "confirm_step item w =
     (case item of (_, mid, wid, previous, confirmed) \<Rightarrow>
        with_root mid (\<lambda>rid w1.
          Inr (case find (\<lambda>e. we_id e = wid) (watch_event_table (wt_db w1)) of
                 None \<Rightarrow> w1
               | Some e \<Rightarrow>
                 if we_provisional e \<and> we_watched_at e = previous \<and> accepted_decision (wt_state w1) mid
                    \<and> protected_of (wt_state w1) rid = {}
                 then w1\<lparr>wt_db := update_event wid (\<lambda>x. x\<lparr>we_watched_at := confirmed, we_provisional := False\<rparr>) (wt_db w1)\<rparr>
                 else w1)) w)"

record staging =
  sg_round :: watch_round
  sg_times :: watch_times
  sg_completed :: "int set"
  sg_accepted :: "watch_event list"

text \<open>Reliable dates precede estimates, whatever order the providers finished in.\<close>

definition staged_order :: "reconciliation \<Rightarrow> string \<times> watch_event \<Rightarrow> bool \<times> int \<times> datetime \<times> string" where
  "staged_order st item =
     (case item of (source, e) \<Rightarrow>
        (we_date_inferred e, we_media_id e, candidate_time (rc_started_at st) (we_watched_at e), source))"

definition insert_event :: "datetime \<Rightarrow> watch_event \<Rightarrow> db \<Rightarrow> watch_event \<times> db" where
  "insert_event now e db =
     (let e' = infer_missing_completed_watch_date now (e\<lparr>we_id := next_id we_id (watch_event_table db)\<rparr>) in
      (e', db\<lparr>watch_event_table := watch_event_table db @ [e']\<rparr>))"

definition staged_step :: "datetime \<Rightarrow> int \<Rightarrow> string \<times> watch_event \<Rightarrow> staging \<Rightarrow> staging result" where
  "staged_step now window item g =
     (case item of (source, e) \<Rightarrow>
        and_then (tracking_root (wt_db (sg_round g)) (we_media_id e) (wt_state (sg_round g))) (\<lambda>(rid, st).
          let w = (sg_round g)\<lparr>wt_state := st\<rparr>; g1 = g\<lparr>sg_round := w\<rparr> in
          if protected_of st rid \<noteq> {} then Inr g1
          else if we_completed e \<and> \<not> accepted_decision st (we_media_id e) then Inr g1
          else if we_date_inferred e \<and> we_media_id e \<in> sg_completed g then Inr g1
          else if fst (is_duplicate_watch_time now [] (sg_times g) (we_media_id e) (we_watched_at e) window (Some st)) then Inr g1
          else
            (case insert_event now e (wt_db w) of (e', db) \<Rightarrow>
               Inr (g1\<lparr>sg_round := w\<lparr>wt_db := db\<rparr>,
                       sg_completed := (if we_completed e then insert (we_media_id e) (sg_completed g) else sg_completed g),
                       sg_accepted := (if we_completed e then sg_accepted g @ [e'] else sg_accepted g),
                       sg_times := dict_alter (we_media_id e) []
                         (\<lambda>seen. seen @ [candidate_time (rc_started_at st) (we_watched_at e)]) (sg_times g)\<rparr>))))"

definition staged_rows :: "reconciliation \<Rightarrow> db \<Rightarrow> watch_event list" where
  "staged_rows st db =
     filter (\<lambda>e. we_user_id e = rc_user_id st \<and> we_media_id e \<in> (we_media_id \<circ> snd) ` set (rc_staged_watches st))
       (watch_event_table db)"

definition staging_of :: "watch_round \<Rightarrow> staging" where
  "staging_of w =
     (let rows = staged_rows (wt_state w) (wt_db w) in
      \<lparr>sg_round = w, sg_times = map (\<lambda>(mid, es). (mid, map effective_time es)) (group_by we_media_id rows),
       sg_completed = we_media_id ` set (filter we_completed rows), sg_accepted = []\<rparr>)"

definition record_accepted :: "date \<Rightarrow> watch_event list \<Rightarrow> watch_round \<Rightarrow> watch_round result" where
  "record_accepted today accepted w =
     (let st = wt_state w; user = rc_user_id st in
      if accepted = [] \<or> \<not> list_ex (\<lambda>r. rw_user_id r = user) (rewatch_table (wt_db w)) then Inr w
      else and_then (fold_result (\<lambda>e. record_rewatch_progress today (Some st) user (we_media_id e) (we_id e))
             accepted (wt_db w)) (\<lambda>db. Inr (w\<lparr>wt_db := db\<rparr>)))"

definition apply_staged_watches :: "datetime \<Rightarrow> watch_round \<Rightarrow> watch_round result" where
  "apply_staged_watches now w =
     (let st = wt_state w in
      if rc_staged_watches st = [] \<and> rc_watch_confirmations st = [] then Inr w
      else
        and_then (fold_result confirm_step (rc_watch_confirmations st) w) (\<lambda>w1.
        and_then (if rc_staged_watches st = [] then Inr 0 else get_dedup_window_minutes (wt_db w1) (rc_user_id st)) (\<lambda>window.
        and_then (fold_result (staged_step now window) (sort_key (staged_order st) (rc_staged_watches st)) (staging_of w1)) (\<lambda>g.
          record_accepted (date_of now) (sg_accepted g) (sg_round g)))))"

section \<open>The viewing decisions of a round\<close>

definition decide_watches :: "datetime \<Rightarrow> stream_snapshot list \<Rightarrow> watch_round \<Rightarrow> watch_round result" where
  "decide_watches now snapshots w =
     (let st = wt_state w; user = rc_user_id st in
      and_then (evidence_candidates st) (\<lambda>c0.
      and_then (fold_result (snapshot_candidates (wt_db w) user) snapshots c0) (\<lambda>cands.
      and_then (fold_result (watch_step now) cands w) (\<lambda>w1.
      and_then (persist_observations user ''watch_observations'' (watch_updates st) (wt_db w1)) (\<lambda>db.
        apply_staged_watches now (w1\<lparr>wt_db := db\<rparr>))))))"

section \<open>Reliable dates for estimated plays\<close>

type_synonym date_group = "(int \<times> int \<times> datetime option) \<times> datetime set"

definition date_groups :: "reconciliation \<Rightarrow> date_group list" where
  "date_groups st =
     fold (\<lambda>(_, mid, wid, previous, t) d.
        case rc_watch_decisions st mid of
          Some dec \<Rightarrow> if d_conflict dec \<or> d_stale dec \<or> d_value dec = Some False then d
                      else dict_alter (mid, wid, previous) {} (insert t) d
        | None \<Rightarrow> dict_alter (mid, wid, previous) {} (insert t) d)
       (rc_date_corrections st) []"

definition add_play ::
  "datetime \<Rightarrow> int \<Rightarrow> int \<Rightarrow> int \<Rightarrow> datetime \<Rightarrow> db \<times> watch_times \<Rightarrow> db \<times> watch_times" where
  "add_play now user mid window t w =
     (case w of (db, seen) \<Rightarrow>
        if fst (is_duplicate_watch_time now [] seen mid (Some t) window None) then w
        else (snd (insert_event now (new_watch_event 0 user mid (Some t) True now) db),
              dict_alter mid [] (\<lambda>ts. ts @ [t]) seen))"

definition date_step ::
  "datetime \<Rightarrow> int \<Rightarrow> int \<Rightarrow> date_group \<Rightarrow> db \<times> watch_times \<Rightarrow> db \<times> watch_times" where
  "date_step now user window item w =
     (case item of ((mid, wid, previous), dates) \<Rightarrow> (case w of (db, seen) \<Rightarrow>
        (case find (\<lambda>e. we_id e = wid) (watch_event_table db) of
           None \<Rightarrow> w
         | Some e \<Rightarrow>
           if we_watched_at e \<noteq> previous \<or> \<not> (we_date_inferred e \<or> we_date_shared e) then w
           else
             (let e' = snd (replace_inferred_watch_date (Some (Max dates)) False e);
                  ts = remove1 (candidate_time (we_created_at e) previous) (dict_get seen mid []);
                  seen' = dict_set mid (ts @ [candidate_time 0 (we_watched_at e')]) seen in
              fold (add_play now user mid window) (rev (sorted_list_of_set dates))
                (update_event wid (\<lambda>_. e') db, seen')))))"

definition watch_dates :: "datetime \<Rightarrow> reconciliation \<Rightarrow> db \<Rightarrow> db result" where
  "watch_dates now st db =
     (let grouped = date_groups st; user = rc_user_id st in
      if grouped = [] then Inr db
      else and_then (get_dedup_window_minutes db user) (\<lambda>window.
        Inr (fst (fold (date_step now user window) grouped (db, load_existing_watch_times db user)))))"

section \<open>Observed positions\<close>

definition initial_import_message :: string where
  "initial_import_message = ''Initial import completed. Confirm its summary before outbound synchronization.''"

definition ensure_baseline :: "datetime \<Rightarrow> int \<Rightarrow> int \<Rightarrow> db \<Rightarrow> db" where
  "ensure_baseline now user cid db =
     (case stream_baseline_of db cid of
        Some _ \<Rightarrow> db
      | None \<Rightarrow>
        add_review ((new_review db now user ''initial_import'' None initial_import_message)\<lparr>sr_connection_id := Some cid\<rparr>)
          (db\<lparr>stream_baseline_table := stream_baseline_table db @
            [\<lparr>sb_connection_id = cid, sb_user_id = user, sb_snapshot = [], sb_approved = False, sb_observed_at = now\<rparr>]\<rparr>))"

definition position_json :: "int \<times> rat \<Rightarrow> pyval" where
  "position_json v = VList [VInt (fst v), VFloat (snd v)]"

definition raw_progress_step ::
  "datetime \<Rightarrow> reconciliation \<Rightarrow> int \<Rightarrow> (int \<times> rat) observation \<Rightarrow> db \<Rightarrow> db result" where
  "raw_progress_step now st mid ob db =
     (if \<not> is_connection_source (o_source ob) then Inr db
      else and_then (connection_id_of (o_source ob)) (\<lambda>cid.
        case o_value ob of
          None \<Rightarrow> Inl TypeError
        | Some v \<Rightarrow>
          Inr (let db1 = ensure_baseline now (rc_user_id st) cid db in
               db1\<lparr>stream_baseline_table := update_where (\<lambda>b. sb_connection_id b = cid)
                 (\<lambda>b. b\<lparr>sb_snapshot := merge_observed ''raw_progress_observations'' [(show_int mid, position_json v)] (sb_snapshot b),
                        sb_observed_at := rc_started_at st\<rparr>) (stream_baseline_table db1)\<rparr>)))"

definition raw_progress :: "datetime \<Rightarrow> reconciliation \<Rightarrow> db \<Rightarrow> db result" where
  "raw_progress now st db =
     fold_result (\<lambda>(mid, obs). fold_result (raw_progress_step now st mid) obs) (rc_raw_progress st) db"

section \<open>What is delivered at the end\<close>

definition delivery_winners :: "(string \<times> datetime option) list \<Rightarrow> string list" where
  "delivery_winners evidence =
     (let clocks = List.map_filter snd evidence in
      map fst (filter (\<lambda>(_, tm). tm = Some (Max (set clocks))) evidence))"

definition deliver_watched :: "reconciliation \<Rightarrow> int \<Rightarrow> pull_cycle \<Rightarrow> pull_cycle result" where
  "deliver_watched st mid cycle =
     (if (case rc_watch_decisions st mid of None \<Rightarrow> False
          | Some d \<Rightarrow> d_conflict d \<or> d_stale d \<or> d_value d = Some False)
      then Inr (cycle\<lparr>pc_new_watched_ids := pc_new_watched_ids cycle - {mid},
                      pc_watched_exclusions := (pc_watched_exclusions cycle)(mid := None)\<rparr>)
      else
        (let evidence = dict_get (rc_watch_evidence st) mid [] in
         if list_all (\<lambda>(_, tm). tm = None) evidence then Inr cycle
         else
           (let won = delivery_winners evidence in
            and_then (map_result connection_id_of (filter is_connection_source won)) (\<lambda>ids.
            and_then (map_result (\<lambda>s. case source_of_value s of None \<Rightarrow> Inl ValueError | Some c \<Rightarrow> Inr c)
                (filter (\<lambda>s. \<not> is_connection_source s) won)) (\<lambda>clouds.
              Inr (cycle\<lparr>pc_watched_exclusions := (pc_watched_exclusions cycle)(mid \<mapsto> (set ids, set clouds))\<rparr>))))))"

definition prune_deliveries :: "reconciliation \<Rightarrow> pull_cycle \<Rightarrow> pull_cycle result" where
  "prune_deliveries st cycle =
     fold_result (deliver_watched st) (sorted_list_of_set (pc_new_watched_ids cycle)) cycle"

section \<open>Frames of the steps\<close>

lemma tracking_root_frame:
  assumes "tracking_root db mid st = Inr (rid, st')"
  obtains m where "st' = st\<lparr>rc_tracking_roots := m\<rparr>"
proof -
  have "st' = st\<lparr>rc_tracking_roots := rc_tracking_roots st'\<rparr>"
    using assms by (auto simp: tracking_root_def and_then_Inr_iff split: option.splits)
  then show ?thesis by (rule that)
qed

lemma unwatch_entry_events [simp]:
  "watch_event_table (unwatch_entry now st rid mid e db) = watch_event_table db"
  by (simp add: unwatch_entry_def update_entry_def Let_def)

lemma retire_review_events [simp]:
  "watch_event_table (retire_review user mid kind season db) = watch_event_table db"
  by (simp add: retire_review_def)

lemma record_conflict_events:
  "record_conflict now user mid category season payload fill db = Inr db' \<Longrightarrow> watch_event_table db' = watch_event_table db"
  by (drule record_conflict_tables) (metis db.select_convs db.surjective db.update_convs)

definition unwatched_decision :: "bool decision \<Rightarrow> bool" where
  "unwatched_decision d \<longleftrightarrow> d_value d = Some False \<and> \<not> d_conflict d \<and> d_sources d \<noteq> {}"

lemma apply_watch_decision_frame:
  assumes "apply_watch_decision now mid rid entry d obs w = Inr w'"
  shows "wt_state w' = wt_state w \<and>
    (if unwatched_decision d
     then watch_event_table (wt_db w') = filter (\<lambda>e. \<not> (we_user_id e = rc_user_id (wt_state w) \<and> we_media_id e = mid)) (watch_event_table (wt_db w))
     else watch_event_table (wt_db w') = watch_event_table (wt_db w))"
  using assms
  by (auto simp: apply_watch_decision_def unwatched_decision_def Let_def and_then_Inr_iff delete_events_def
      dest: record_conflict_events split: if_splits option.splits)

lemma resolve_value_observed:
  assumes "d_value (resolve local local_at obs started None) \<noteq> local"
  shows "\<exists>ob \<in> set obs. o_value ob = d_value (resolve local local_at obs started None)"
proof -
  obtain candidates where ne: "candidates \<noteq> []"
    and c: "candidates = filter (\<lambda>ob. \<not> superseded (naive_utc local_at) ob) (deltas started obs)"
    and d: "resolve local local_at obs started None = resolve_values local (naive_utc local_at) None candidates"
    using resolve_cases [of local local_at obs started None] assms by auto
  from resolve_values_supported [OF ne, of local "naive_utc local_at"] assms
  obtain ob where "ob \<in> set candidates" "o_value ob = d_value (resolve local local_at obs started None)"
    unfolding d supported_def by fastforce
  then show ?thesis by (auto simp: c deltas_def)
qed

lemma watch_decision_observed:
  assumes "unwatched_decision (watch_decision st rid entry mid obs)"
  shows "protected_of st rid = {} \<and> (\<exists>ob \<in> set obs. o_value ob = Some False)"
proof -
  let ?local = "if mid \<in> rc_watch_before st then Some True else None"
  let ?at = "case entry of None \<Rightarrow> None | Some e \<Rightarrow> status_changed_at e"
  let ?d = "resolve ?local ?at obs (Some (rc_started_at st)) None"
  have free: "protected_of st rid = {}" and v: "d_value ?d = Some False"
    using assms by (auto simp: unwatched_decision_def watch_decision_def Let_def split: if_splits)
  moreover have "?local \<noteq> Some False" by simp
  ultimately have "\<exists>ob \<in> set obs. o_value ob = d_value ?d"
    using resolve_value_observed [of ?local ?at obs "Some (rc_started_at st)"] by simp
  with free v show ?thesis by simp
qed

lemma watch_step_frame:
  assumes "watch_step now (mid, obs) w = Inr w'"
  shows "\<exists>d. rc_user_id (wt_state w') = rc_user_id (wt_state w) \<and>
    rc_watch_decisions (wt_state w') = (rc_watch_decisions (wt_state w))(mid \<mapsto> d) \<and>
    (unwatched_decision d \<longrightarrow> (\<exists>ob \<in> set obs. o_value ob = Some False)) \<and>
    (if unwatched_decision d
     then watch_event_table (wt_db w') = filter (\<lambda>e. \<not> (we_user_id e = rc_user_id (wt_state w) \<and> we_media_id e = mid)) (watch_event_table (wt_db w))
     else watch_event_table (wt_db w') = watch_event_table (wt_db w))"
proof -
  obtain rid st entry where st: "tracking_root (wt_db w) mid (wt_state w) = Inr (rid, st)"
    and run: "apply_watch_decision now mid rid entry (watch_decision st rid entry mid (sort_key o_source obs))
      (sort_key o_source obs) (w\<lparr>wt_state := st\<lparr>rc_watch_decisions := (rc_watch_decisions st)
        (mid \<mapsto> watch_decision st rid entry mid (sort_key o_source obs))\<rparr>\<rparr>) = Inr w'"
    using assms by (auto simp: watch_step_def Let_def and_then_Inr_iff)
  obtain m where m: "st = (wt_state w)\<lparr>rc_tracking_roots := m\<rparr>" using tracking_root_frame [OF st] .
  show ?thesis
    using apply_watch_decision_frame [OF run] watch_decision_observed [of st rid entry mid "sort_key o_source obs"]
    by (intro exI [of _ "watch_decision st rid entry mid (sort_key o_source obs)"]) (simp add: m)
qed

lemma watch_steps_delete:
  assumes "fold_result (watch_step now) cands w = Inr w'" "distinct (map fst cands)"
  shows "rc_user_id (wt_state w') = rc_user_id (wt_state w) \<and>
    (\<forall>mid. mid \<notin> fst ` set cands \<longrightarrow> rc_watch_decisions (wt_state w') mid = rc_watch_decisions (wt_state w) mid) \<and>
    (\<forall>e \<in> set (watch_event_table (wt_db w)). e \<notin> set (watch_event_table (wt_db w')) \<longrightarrow>
       we_user_id e = rc_user_id (wt_state w) \<and>
       (\<exists>d. rc_watch_decisions (wt_state w') (we_media_id e) = Some d \<and> unwatched_decision d) \<and>
       (\<exists>obs ob. (we_media_id e, obs) \<in> set cands \<and> ob \<in> set obs \<and> o_value ob = Some False))"
  using assms
proof (induction cands arbitrary: w)
  case Nil
  then show ?case by simp
next
  case (Cons item cands)
  obtain mid obs where item: "item = (mid, obs)" by (cases item)
  obtain w1 where w1: "watch_step now (mid, obs) w = Inr w1" "fold_result (watch_step now) cands w1 = Inr w'"
    using Cons.prems(1) by (auto simp: item and_then_Inr_iff)
  obtain d where d: "rc_user_id (wt_state w1) = rc_user_id (wt_state w)"
    "rc_watch_decisions (wt_state w1) = (rc_watch_decisions (wt_state w))(mid \<mapsto> d)"
    "unwatched_decision d \<longrightarrow> (\<exists>ob \<in> set obs. o_value ob = Some False)"
    "if unwatched_decision d
     then watch_event_table (wt_db w1) = filter (\<lambda>e. \<not> (we_user_id e = rc_user_id (wt_state w) \<and> we_media_id e = mid)) (watch_event_table (wt_db w))
     else watch_event_table (wt_db w1) = watch_event_table (wt_db w)"
    using watch_step_frame [OF w1(1)] by blast
  have fresh: "mid \<notin> fst ` set cands" using Cons.prems(2) by (simp add: item)
  note IH = Cons.IH [OF w1(2)]
  have "rc_watch_decisions (wt_state w') mid = Some d" using IH fresh d(2) Cons.prems(2) by simp
  moreover have "e \<in> set (watch_event_table (wt_db w1)) \<or>
      we_user_id e = rc_user_id (wt_state w) \<and> we_media_id e = mid \<and> unwatched_decision d"
    if "e \<in> set (watch_event_table (wt_db w))" for e
    using that d(4) by (auto split: if_splits)
  ultimately show ?case using IH Cons.prems(2) d(1-3) fresh by (simp add: item) (metis fun_upd_apply)
qed

section \<open>Where a withdrawal comes from\<close>

definition left_snapshot :: "db \<Rightarrow> int \<Rightarrow> int \<Rightarrow> stream_snapshot \<Rightarrow> bool" where
  "left_snapshot db user mid sn \<longleftrightarrow>
     sn_sync_watched sn \<and> sn_complete sn \<and>
     (\<exists>conn b row. snapshot_connection db user sn = Some conn \<and> stream_baseline_of db (c_id conn) = Some b
        \<and> row \<in> set (old_watched (sb_snapshot b)) \<and> watch_key row \<notin> watch_key ` set (sn_watched sn)
        \<and> map_of (media_ids_for_watch_rows db (dict_merge (snapshot_dict (sb_snapshot b) ''mappings'') (sn_tmdb_ids sn))
             (old_watched (sb_snapshot b) @ sn_watched sn)) (watch_key row) = Some mid)"

definition candidates_ok :: "(int \<Rightarrow> bool) \<Rightarrow> watch_candidates \<Rightarrow> bool" where
  "candidates_ok P c \<longleftrightarrow>
     distinct (map fst c) \<and> (\<forall>(mid, obs) \<in> set c. \<forall>ob \<in> set obs. o_value ob = Some False \<longrightarrow> P mid)"

lemma candidates_ok_alter:
  assumes "candidates_ok P c" "\<And>obs ob. ob \<in> set (f obs) \<Longrightarrow> ob \<in> set obs \<or> (o_value ob = Some False \<longrightarrow> P mid)"
  shows "candidates_ok P (dict_alter mid [] f c)"
proof -
  have old: "\<forall>ob \<in> set (dict_get c mid []). o_value ob = Some False \<longrightarrow> P mid"
    using assms(1) map_of_SomeD [of c mid] by (fastforce simp: candidates_ok_def dict_get_def split: option.splits)
  have "set (dict_alter mid [] f c) \<subseteq> insert (mid, f (dict_get c mid [])) (set c)"
    unfolding dict_alter_def by (rule set_dict_set_subset)
  with assms(1) old assms(2) [where obs = "dict_get c mid []"] show ?thesis
    unfolding candidates_ok_def dict_alter_def by (fastforce intro: distinct_dict_set)
qed

lemma candidates_ok_mono: "candidates_ok P c \<Longrightarrow> (\<And>mid. P mid \<Longrightarrow> Q mid) \<Longrightarrow> candidates_ok Q c"
  by (fastforce simp: candidates_ok_def)

lemma evidence_candidate_ok:
  "evidence_candidate st mid item c = Inr c' \<Longrightarrow> candidates_ok P c \<Longrightarrow> candidates_ok P c'"
  by (cases item)
    (auto simp: evidence_candidate_def Let_def and_then_Inr_iff observe_def intro!: candidates_ok_alter split: if_splits)

lemma evidence_candidates_ok:
  assumes "evidence_candidates st = Inr c"
  shows "candidates_ok P c"
proof (rule fold_result_invariant [OF assms [unfolded evidence_candidates_def]])
  show "candidates_ok P []" by (simp add: candidates_ok_def)
next
  fix item and c c' :: watch_candidates
  assume c: "candidates_ok P c"
    and run: "(case item of (mid, d) \<Rightarrow> \<lambda>cands. fold_result (evidence_candidate st mid) d (dict_alter mid [] id cands)) c = Inr c'"
  obtain mid d where item: "item = (mid, d)" by (cases item)
  show "candidates_ok P c'"
  proof (rule fold_result_invariant [where P = "candidates_ok P"])
    show "fold_result (evidence_candidate st mid) d (dict_alter mid [] id c) = Inr c'" using run by (simp add: item)
    show "candidates_ok P (dict_alter mid [] id c)" by (rule candidates_ok_alter [OF c]) simp
  qed (blast intro: evidence_candidate_ok)
qed

lemma added_candidate_ok:
  "added_candidate conn baseline ids old row c = Inr c' \<Longrightarrow> candidates_ok P c \<Longrightarrow> candidates_ok P c'"
  by (auto simp: added_candidate_def Let_def and_then_Inr_iff observe_def intro!: candidates_ok_alter
      split: if_splits option.splits)

lemma removed_candidates_ok:
  assumes "candidates_ok P c"
    and "\<And>row mid. row \<in> set rows \<Longrightarrow> map_of ids (watch_key row) = Some mid \<Longrightarrow> watch_key row \<notin> watch_key ` set current \<Longrightarrow> P mid"
  shows "candidates_ok P (fold (removed_candidate conn b ids current) rows c)"
  using assms
proof (induction rows arbitrary: c)
  case Nil
  then show ?case by simp
next
  case (Cons row rows)
  have "candidates_ok P (removed_candidate conn b ids current row c)"
    using Cons.prems by (auto simp: removed_candidate_def observe_def intro!: candidates_ok_alter split: option.splits)
  from Cons.IH [OF this] Cons.prems(2) show ?case by (metis fold_simps(2) list.set_intros(2))
qed

lemma snapshot_candidates_ok:
  assumes run: "snapshot_candidates db user sn c = Inr c'" and c: "candidates_ok P c"
    and P: "\<And>mid. left_snapshot db user mid sn \<Longrightarrow> P mid"
  shows "candidates_ok P c'"
proof (cases "sn_sync_watched sn \<and> snapshot_connection db user sn \<noteq> None")
  case False
  then show ?thesis using run c by (auto simp: snapshot_candidates_def split: option.splits)
next
  case True
  then obtain conn where conn: "snapshot_connection db user sn = Some conn" by auto
  define baseline where "baseline = stream_baseline_of db (c_id conn)"
  define old where "old = old_watched (baseline_snapshot baseline)"
  define ids where "ids = media_ids_for_watch_rows db
    (dict_merge (snapshot_dict (baseline_snapshot baseline) ''mappings'') (sn_tmdb_ids sn)) (old @ sn_watched sn)"
  obtain c1 where c1: "fold_result (added_candidate conn baseline ids old) (sn_watched sn) c = Inr c1"
    and c': "c' = (case baseline of
                 Some b \<Rightarrow> if sn_complete sn then fold (removed_candidate conn b ids (sn_watched sn)) old c1 else c1
               | None \<Rightarrow> c1)"
    using run True unfolding snapshot_candidates_def conn Let_def option.case baseline_def [symmetric]
      old_def [symmetric] ids_def [symmetric] by (auto simp: and_then_Inr_iff)
  have ok: "candidates_ok P c1"
    by (rule fold_result_invariant [where P = "candidates_ok P", OF c1 c]) (blast intro: added_candidate_ok)
  show ?thesis
  proof (cases baseline)
    case None
    then show ?thesis using ok by (simp add: c')
  next
    case (Some b)
    have "P mid" if "sn_complete sn" "row \<in> set old" "map_of ids (watch_key row) = Some mid"
      "watch_key row \<notin> watch_key ` set (sn_watched sn)" for row mid
      using that Some True conn
      by (intro P) (auto simp: left_snapshot_def baseline_def [symmetric] ids_def old_def baseline_snapshot_def)
    then show ?thesis using ok by (auto simp: c' Some intro: removed_candidates_ok)
  qed
qed

section \<open>Frames of the staged plays\<close>

text \<open>The root of a title as the round knows it.\<close>

definition root_of :: "watch_round \<Rightarrow> int \<Rightarrow> int \<Rightarrow> bool" where
  "root_of w mid rid \<longleftrightarrow>
     (case rc_tracking_roots (wt_state w) mid of
        Some r \<Rightarrow> r = rid | None \<Rightarrow> lookup_tracking_root (wt_db w) mid = Inr rid)"

definition same_account :: "watch_round \<Rightarrow> watch_round \<Rightarrow> bool" where
  "same_account w w' \<longleftrightarrow>
     (\<exists>m. wt_state w' = (wt_state w)\<lparr>rc_tracking_roots := m\<rparr>) \<and> (\<forall>mid rid. root_of w' mid rid = root_of w mid rid)"

lemma tracking_roots_self: "\<exists>m. st = st\<lparr>rc_tracking_roots := m\<rparr>"
  by (rule exI [of _ "rc_tracking_roots st"]) simp

lemma same_account_refl: "same_account w w"
  by (simp add: same_account_def tracking_roots_self)

lemma same_account_trans: "same_account w w1 \<Longrightarrow> same_account w1 w2 \<Longrightarrow> same_account w w2"
  by (auto simp: same_account_def)

lemma tracking_root_same:
  assumes "tracking_root (wt_db w) mid (wt_state w) = Inr (rid, st)"
  shows "same_account w (w\<lparr>wt_state := st\<rparr>) \<and> root_of w mid rid"
proof -
  obtain m where m: "st = (wt_state w)\<lparr>rc_tracking_roots := m\<rparr>" using tracking_root_frame [OF assms] .
  have state: "\<exists>m. st = (wt_state w)\<lparr>rc_tracking_roots := m\<rparr>" using m by blast
  show ?thesis
  proof (cases "rc_tracking_roots (wt_state w) mid")
    case None
    then have "lookup_tracking_root (wt_db w) mid = Inr rid"
      and "rc_tracking_roots st = (rc_tracking_roots (wt_state w))(mid \<mapsto> rid)"
      using assms by (auto simp: tracking_root_def and_then_Inr_iff)
    with None state show ?thesis by (auto simp: same_account_def root_of_def split: option.splits)
  next
    case (Some r)
    then have "rid = r" "st = wt_state w" using assms by (auto simp: tracking_root_def)
    with Some show ?thesis by (simp add: same_account_refl root_of_def)
  qed
qed

lemma lookup_tracking_root_frame:
  "media_table db' = media_table db \<Longrightarrow> show_table db' = show_table db \<Longrightarrow>
   lookup_tracking_root db' mid = lookup_tracking_root db mid"
  by (simp add: lookup_tracking_root_def cong: option.case_cong if_cong)

lemma same_account_db:
  assumes "media_table db = media_table (wt_db w)" "show_table db = show_table (wt_db w)"
  shows "same_account w (w\<lparr>wt_db := db\<rparr>)"
proof -
  have "lookup_tracking_root db mid = lookup_tracking_root (wt_db w) mid" for mid
    using assms by (rule lookup_tracking_root_frame)
  then have "root_of (w\<lparr>wt_db := db\<rparr>) mid rid = root_of w mid rid" for mid rid
    by (simp add: root_of_def split: option.splits)
  then show ?thesis using tracking_roots_self [of "wt_state w"] by (simp add: same_account_def)
qed

lemma map_update_event:
  "(\<And>e. f (g e) = f e) \<Longrightarrow> map f (watch_event_table (update_event wid g db)) = map f (watch_event_table db)"
  by (simp add: update_event_def update_where_def comp_def if_distrib cong: if_cong)

lemma confirm_step_frame:
  assumes "confirm_step item w = Inr w'"
  shows "same_account w w' \<and> map we_id (watch_event_table (wt_db w')) = map we_id (watch_event_table (wt_db w))"
proof -
  obtain source mid wid previous confirmed where item: "item = (source, mid, wid, previous, confirmed)" by (cases item)
  obtain rid st where st: "tracking_root (wt_db w) mid (wt_state w) = Inr (rid, st)"
    and w': "w' = w\<lparr>wt_state := st\<rparr> \<or> w' = w\<lparr>wt_state := st,
      wt_db := update_event wid (\<lambda>x. x\<lparr>we_watched_at := confirmed, we_provisional := False\<rparr>) (wt_db w)\<rparr>"
    using assms by (auto simp: confirm_step_def with_root_def item and_then_Inr_iff split: option.splits if_splits)
  note root = tracking_root_same [OF st, THEN conjunct1]
  have "same_account (w\<lparr>wt_state := st\<rparr>) (w\<lparr>wt_state := st, wt_db := update_event wid f (wt_db w)\<rparr>)" for f
    using same_account_db [of "update_event wid f (wt_db w)" "w\<lparr>wt_state := st\<rparr>"] by (simp add: update_event_def)
  then show ?thesis using w' root map_update_event [of we_id] by (auto intro: same_account_trans)
qed

lemma confirm_steps_frame:
  assumes "fold_result confirm_step items w = Inr w'"
  shows "same_account w w' \<and> map we_id (watch_event_table (wt_db w')) = map we_id (watch_event_table (wt_db w))"
  by (rule fold_result_invariant [OF assms, where P = "\<lambda>v. same_account w v \<and>
        map we_id (watch_event_table (wt_db v)) = map we_id (watch_event_table (wt_db w))"])
    (auto simp: same_account_refl dest: confirm_step_frame intro: same_account_trans)

lemma insert_event_frame:
  assumes "insert_event now e db = (e', db')"
  shows "db' = db\<lparr>watch_event_table := watch_event_table db @ [e']\<rparr> \<and> we_id e' \<notin> we_id ` set (watch_event_table db) \<and>
    we_media_id e' = we_media_id e \<and> we_completed e' = we_completed e"
  using assms next_id_not_in [of we_id "watch_event_table db"]
  by (auto simp: insert_event_def Let_def infer_missing_completed_watch_date_def split: if_splits)

lemma and_then_InrE:
  assumes "and_then r f = Inr y"
  obtains x where "r = Inr x" "f x = Inr y"
  using assms by (auto simp: and_then_Inr_iff)

lemma maybe_complete_rewatch_events:
  "maybe_complete_rewatch today r db = Inr db' \<Longrightarrow> watch_event_table db' = watch_event_table db \<and>
    media_table db' = media_table db \<and> show_table db' = show_table db"
  unfolding maybe_complete_rewatch_def
  by (auto elim!: and_then_InrE simp: delete_rewatch_def split: option.split_asm if_split_asm)

lemma record_rewatch_progress_events:
  assumes "record_rewatch_progress today current user mid wid db = Inr db'"
  shows "watch_event_table db' = watch_event_table db \<and> media_table db' = media_table db \<and> show_table db' = show_table db"
  using assms unfolding record_rewatch_progress_def
  by (auto elim!: and_then_InrE dest!: maybe_complete_rewatch_events simp: insert_progress_def split: option.split_asm if_split_asm)

lemma record_accepted_frame:
  assumes "record_accepted today accepted w = Inr w'"
  shows "same_account w w' \<and> watch_event_table (wt_db w') = watch_event_table (wt_db w)"
proof (cases "accepted = [] \<or> \<not> list_ex (\<lambda>r. rw_user_id r = rc_user_id (wt_state w)) (rewatch_table (wt_db w))")
  case True
  then show ?thesis using assms by (simp add: record_accepted_def Let_def same_account_refl)
next
  case False
  then obtain db where db: "fold_result (\<lambda>e. record_rewatch_progress today (Some (wt_state w)) (rc_user_id (wt_state w)) (we_media_id e) (we_id e))
      accepted (wt_db w) = Inr db" and w': "w' = w\<lparr>wt_db := db\<rparr>"
    using assms by (auto simp: record_accepted_def Let_def and_then_Inr_iff simp del: not_ex)
  have "watch_event_table db = watch_event_table (wt_db w) \<and> media_table db = media_table (wt_db w) \<and> show_table db = show_table (wt_db w)"
    by (rule fold_result_invariant [OF db, where P = "\<lambda>v. watch_event_table v = watch_event_table (wt_db w) \<and>
          media_table v = media_table (wt_db w) \<and> show_table v = show_table (wt_db w)"])
      (auto dest: record_rewatch_progress_events)
  with w' show ?thesis by (simp add: same_account_db)
qed

lemma not_duplicate:
  "window \<noteq> 0 \<Longrightarrow> \<not> fst (is_duplicate_watch_time now source seen mid (Some t) window current) \<Longrightarrow>
   x \<in> set (dict_get seen mid []) \<Longrightarrow> minutes window < \<bar>x - t\<bar>"
  by (auto simp: is_duplicate_watch_time_def list_ex_iff is_near_def candidate_time_def)

lemma dedup_window_at_least: "get_dedup_window_minutes db user = Inr window \<Longrightarrow> 5 \<le> window"
  by (auto simp: get_dedup_window_minutes_def and_then_Inr_iff dedup_window_from_settings_def window_of_def
      default_dedup_window_minutes_def)

section \<open>What a staged play needs\<close>

definition play_allowed :: "watch_round \<Rightarrow> watch_event list \<Rightarrow> watch_event \<Rightarrow> bool" where
  "play_allowed w known e \<longleftrightarrow>
     (\<exists>source e1 rid. (source, e1) \<in> set (rc_staged_watches (wt_state w))
        \<and> we_media_id e = we_media_id e1 \<and> we_completed e = we_completed e1
        \<and> root_of w (we_media_id e1) rid \<and> protected_of (wt_state w) rid = {}
        \<and> (we_completed e1 \<longrightarrow> accepted_decision (wt_state w) (we_media_id e1))
        \<and> (\<forall>t. we_watched_at e1 = Some t \<longrightarrow>
             (\<forall>e0 \<in> set known. we_user_id e0 = rc_user_id (wt_state w) \<and> we_media_id e0 = we_media_id e1 \<longrightarrow>
                minutes 5 < \<bar>effective_time e0 - t\<bar>)))"

definition staging_ok :: "watch_round \<Rightarrow> watch_event list \<Rightarrow> staging \<Rightarrow> bool" where
  "staging_ok w known g \<longleftrightarrow>
     same_account w (sg_round g)
     \<and> (\<forall>e \<in> set known. we_user_id e = rc_user_id (wt_state w) \<and> we_media_id e \<in> (we_media_id \<circ> snd) ` set (rc_staged_watches (wt_state w))
          \<longrightarrow> effective_time e \<in> set (dict_get (sg_times g) (we_media_id e) []))
     \<and> (\<exists>new. watch_event_table (wt_db (sg_round g)) = known @ new
          \<and> (\<forall>e \<in> set new. we_id e \<notin> we_id ` set known \<and> play_allowed w known e))"

lemma same_account_facts:
  assumes "same_account w v"
  shows "protected_of (wt_state v) = protected_of (wt_state w)" "accepted_decision (wt_state v) = accepted_decision (wt_state w)"
    "rc_started_at (wt_state v) = rc_started_at (wt_state w)" "rc_user_id (wt_state v) = rc_user_id (wt_state w)"
    "rc_staged_watches (wt_state v) = rc_staged_watches (wt_state w)"
    "rc_watch_decisions (wt_state v) = rc_watch_decisions (wt_state w)"
    "root_of v = root_of w"
  using assms by (auto simp: same_account_def protected_of_def accepted_decision_def fun_eq_iff)

lemma staged_step_ok:
  assumes run: "staged_step now window (source, e) g = Inr g'" and ok: "staging_ok w known g"
    and staged: "(source, e) \<in> set (rc_staged_watches (wt_state w))" and window: "5 \<le> window"
  shows "staging_ok w known g'"
proof -
  let ?v = "sg_round g"
  obtain rid st where st: "tracking_root (wt_db ?v) (we_media_id e) (wt_state ?v) = Inr (rid, st)"
    using run by (auto simp: staged_step_def and_then_Inr_iff)
  define v where "v = ?v\<lparr>wt_state := st\<rparr>"
  from ok obtain new where acc: "same_account w ?v"
    and seen: "\<forall>e \<in> set known. we_user_id e = rc_user_id (wt_state w) \<and> we_media_id e \<in> (we_media_id \<circ> snd) ` set (rc_staged_watches (wt_state w))
          \<longrightarrow> effective_time e \<in> set (dict_get (sg_times g) (we_media_id e) [])"
    and new: "watch_event_table (wt_db ?v) = known @ new"
      "\<forall>e \<in> set new. we_id e \<notin> we_id ` set known \<and> play_allowed w known e"
    by (auto simp: staging_ok_def)
  have v: "same_account w v" "root_of w (we_media_id e) rid"
    using tracking_root_same [OF st] acc same_account_trans same_account_facts(7) [OF acc] by (auto simp: v_def)
  note facts = same_account_facts [OF v(1)]
  have kept: "staging_ok w known (g\<lparr>sg_round := v\<rparr>)"
    using v(1) seen new by (auto simp: staging_ok_def v_def)
  let ?dup = "fst (is_duplicate_watch_time now [] (sg_times g) (we_media_id e) (we_watched_at e) window (Some st))"
  show ?thesis
  proof (cases "protected_of st rid \<noteq> {} \<or> we_completed e \<and> \<not> accepted_decision st (we_media_id e)
      \<or> we_date_inferred e \<and> we_media_id e \<in> sg_completed g \<or> ?dup")
    case True
    then have "g' = g\<lparr>sg_round := v\<rparr>" using run st by (auto simp: staged_step_def v_def Let_def split: if_splits)
    with kept show ?thesis by simp
  next
    case False
    obtain e' db where ins: "insert_event now e (wt_db ?v) = (e', db)" by (cases "insert_event now e (wt_db ?v)")
    note e' = insert_event_frame [OF ins]
    have g': "g' = g\<lparr>sg_round := v\<lparr>wt_db := db\<rparr>,
                       sg_completed := (if we_completed e then insert (we_media_id e) (sg_completed g) else sg_completed g),
                       sg_accepted := (if we_completed e then sg_accepted g @ [e'] else sg_accepted g),
                       sg_times := dict_alter (we_media_id e) []
                         (\<lambda>seen. seen @ [candidate_time (rc_started_at st) (we_watched_at e)]) (sg_times g)\<rparr>"
      using run st False ins by (auto simp: staged_step_def v_def Let_def cong: if_cong)
    have "same_account v (v\<lparr>wt_db := db\<rparr>)" using e' by (intro same_account_db) (simp_all add: v_def)
    then have "same_account w (v\<lparr>wt_db := db\<rparr>)" using v(1) same_account_trans by blast
    moreover have "minutes 5 < \<bar>effective_time e0 - t\<bar>"
      if "we_watched_at e = Some t" "e0 \<in> set known" "we_user_id e0 = rc_user_id (wt_state w)" "we_media_id e0 = we_media_id e" for t e0
    proof -
      have "effective_time e0 \<in> set (dict_get (sg_times g) (we_media_id e) [])"
        using seen that(2-4) staged by (force simp: image_iff)
      with False window that(1) have "minutes window < \<bar>effective_time e0 - t\<bar>" by (intro not_duplicate) auto
      with window show ?thesis by (simp add: minutes_def)
    qed
    then have "play_allowed w known e'"
      unfolding play_allowed_def using staged e' v(2) False facts(1,2)
      by (intro exI [of _ source] exI [of _ e] exI [of _ rid]) (auto simp: v_def)
    moreover have "watch_event_table db = known @ (new @ [e'])" "we_id e' \<notin> we_id ` set known" using e' new(1) by auto
    moreover have "set (dict_get (sg_times g) mid []) \<subseteq> set (dict_get (sg_times g') mid [])" for mid
      by (auto simp: g' dict_get_alter)
    then have "\<forall>e \<in> set known. we_user_id e = rc_user_id (wt_state w) \<and> we_media_id e \<in> (we_media_id \<circ> snd) ` set (rc_staged_watches (wt_state w))
          \<longrightarrow> effective_time e \<in> set (dict_get (sg_times g') (we_media_id e) [])"
      using seen by blast
    moreover have "sg_round g' = v\<lparr>wt_db := db\<rparr>" by (simp add: g')
    ultimately show ?thesis
      using new(2) unfolding staging_ok_def by (auto intro!: exI [of _ "new @ [e']"])
  qed
qed

lemma staging_of_ok: "staging_ok w (watch_event_table (wt_db w)) (staging_of w)"
proof -
  have "effective_time e \<in> set (dict_get (map (\<lambda>(mid, es). (mid, map effective_time es)) (group_by we_media_id rows)) (we_media_id e) [])"
    if "e \<in> set rows" for e rows
  proof -
    have "map_of (map (\<lambda>(mid, es). (mid, map effective_time es)) (group_by we_media_id rows)) (we_media_id e)
        = Some (map effective_time (filter (\<lambda>x. we_media_id x = we_media_id e) rows))"
      using that by (simp add: map_of_map map_of_eq_Some_iff in_group_by)
    with that show ?thesis by (simp add: dict_get_def)
  qed
  then show ?thesis
    by (simp add: staging_ok_def staging_of_def Let_def same_account_refl staged_rows_def)
qed

lemma map_we_id_known:
  assumes "map we_id xs = map we_id ys"
  shows "we_id ` set xs = we_id ` set ys"
  using assms by (metis list.set_map)

lemma play_allowed_same:
  assumes "same_account w v" shows "play_allowed v known e = play_allowed w known e"
  by (simp add: play_allowed_def same_account_facts [OF assms])

lemma apply_staged_watches_cases:
  assumes "apply_staged_watches now w = Inr w'"
  obtains known new where "map we_id known = map we_id (watch_event_table (wt_db w))"
    "watch_event_table (wt_db w') = known @ new" "\<forall>e \<in> set new. we_id e \<notin> we_id ` set known \<and> play_allowed w known e"
    "same_account w w'"
proof (cases "rc_staged_watches (wt_state w) = [] \<and> rc_watch_confirmations (wt_state w) = []")
  case True
  then have "w' = w" using assms by (simp add: apply_staged_watches_def Let_def)
  then show ?thesis using that [of "watch_event_table (wt_db w)" "[]"] by (simp add: same_account_refl)
next
  case False
  let ?st = "wt_state w"
  obtain w1 window g where w1: "fold_result confirm_step (rc_watch_confirmations ?st) w = Inr w1"
    and window: "(if rc_staged_watches ?st = [] then Inr 0 else get_dedup_window_minutes (wt_db w1) (rc_user_id ?st)) = Inr window"
    and g: "fold_result (staged_step now window) (sort_key (staged_order ?st) (rc_staged_watches ?st)) (staging_of w1) = Inr g"
    and w': "record_accepted (date_of now) (sg_accepted g) (sg_round g) = Inr w'"
    using assms False by (auto simp: apply_staged_watches_def Let_def and_then_Inr_iff)
  note frame = confirm_steps_frame [OF w1]
  note facts = same_account_facts [OF frame [THEN conjunct1]]
  let ?known = "watch_event_table (wt_db w1)"
  have "staging_ok w1 ?known g"
  proof (rule fold_result_invariant [where P = "staging_ok w1 ?known", OF g staging_of_ok])
    fix item and s s' :: staging
    assume item: "item \<in> set (sort_key (staged_order ?st) (rc_staged_watches ?st))" and s: "staging_ok w1 ?known s"
      and step: "staged_step now window item s = Inr s'"
    then have "5 \<le> window" using window by (auto split: if_splits dest: dedup_window_at_least)
    moreover obtain source e where pair: "item = (source, e)" by fastforce
    moreover have "(source, e) \<in> set (rc_staged_watches (wt_state w1))" using item by (simp add: pair facts(5))
    ultimately show "staging_ok w1 ?known s'" using s step by (blast intro: staged_step_ok)
  qed
  then obtain new where new: "watch_event_table (wt_db (sg_round g)) = ?known @ new" "same_account w1 (sg_round g)"
    "\<forall>e \<in> set new. we_id e \<notin> we_id ` set ?known \<and> play_allowed w1 ?known e" by (auto simp: staging_ok_def)
  have "same_account w w'"
  proof -
    have "same_account w (sg_round g)" using frame new(2) same_account_trans by blast
    moreover have "same_account (sg_round g) w'" using record_accepted_frame [OF w'] by simp
    ultimately show ?thesis by (rule same_account_trans)
  qed
  then show ?thesis
    using that [of ?known new] new frame record_accepted_frame [OF w'] play_allowed_same [OF frame [THEN conjunct1]] by simp
qed


lemma persist_events [simp]:
  "watch_event_table (fold (persist_one user category) updates db) = watch_event_table db"
  by (induction updates arbitrary: db) (simp_all add: persist_one_def split: prod.split)

text \<open>C2: A round deletes plays only of its own account and only for a title that it decided as unwatched,
  without conflict and on behalf of a source; and it decides so only for a title that a complete
  snapshot of a streaming account no longer lists although the snapshot before did.\<close>

theorem decide_watches_deletes_withdrawn:
  assumes "decide_watches now snapshots w = Inr w'"
    and "e \<in> set (watch_event_table (wt_db w))" "we_id e \<notin> we_id ` set (watch_event_table (wt_db w'))"
  shows "we_user_id e = rc_user_id (wt_state w) \<and>
    (\<exists>d. rc_watch_decisions (wt_state w') (we_media_id e) = Some d \<and> d_value d = Some False
       \<and> \<not> d_conflict d \<and> d_sources d \<noteq> {}) \<and>
    (\<exists>sn \<in> set snapshots. left_snapshot (wt_db w) (rc_user_id (wt_state w)) (we_media_id e) sn)"
proof -
  let ?st = "wt_state w" and ?left = "\<lambda>mid. \<exists>sn \<in> set snapshots. left_snapshot (wt_db w) (rc_user_id (wt_state w)) mid sn"
  obtain c0 cands w1 db where c0: "evidence_candidates ?st = Inr c0"
    and cands: "fold_result (snapshot_candidates (wt_db w) (rc_user_id ?st)) snapshots c0 = Inr cands"
    and w1: "fold_result (watch_step now) cands w = Inr w1"
    and db: "persist_observations (rc_user_id ?st) ''watch_observations'' (watch_updates ?st) (wt_db w1) = Inr db"
    and w': "apply_staged_watches now (w1\<lparr>wt_db := db\<rparr>) = Inr w'"
    using assms(1) by (auto simp: decide_watches_def Let_def and_then_Inr_iff)
  have "candidates_ok ?left cands"
    by (rule fold_result_invariant [where P = "candidates_ok ?left", OF cands evidence_candidates_ok [OF c0]])
      (blast intro: snapshot_candidates_ok)
  then have distinct: "distinct (map fst cands)"
    and left: "\<And>mid obs ob. (mid, obs) \<in> set cands \<Longrightarrow> ob \<in> set obs \<Longrightarrow> o_value ob = Some False \<Longrightarrow> ?left mid"
    by (auto simp: candidates_ok_def)
  have same: "watch_event_table db = watch_event_table (wt_db w1)"
    using db by (auto simp: persist_observations_def and_then_Inr_iff)
  obtain known new where "map we_id known = map we_id (watch_event_table (wt_db (w1\<lparr>wt_db := db\<rparr>)))"
    "watch_event_table (wt_db w') = known @ new" "same_account (w1\<lparr>wt_db := db\<rparr>) w'"
    by (rule apply_staged_watches_cases [OF w'], rule that)
  then have k: "map we_id known = map we_id (watch_event_table db)"
    "watch_event_table (wt_db w') = known @ new" "same_account (w1\<lparr>wt_db := db\<rparr>) w'" by simp_all
  have "e \<notin> set (watch_event_table (wt_db w1))"
    using assms(3) map_we_id_known [OF k(1)] k(2) same by auto
  with watch_steps_delete [OF w1 distinct] assms(2)
  obtain d obs ob where "we_user_id e = rc_user_id ?st" "rc_watch_decisions (wt_state w1) (we_media_id e) = Some d"
    "unwatched_decision d" "(we_media_id e, obs) \<in> set cands" "ob \<in> set obs" "o_value ob = Some False" by blast
  with left same_account_facts(6) [OF k(3)] show ?thesis by (auto simp: unwatched_decision_def)
qed

text \<open>A film that has left the account's watched list.\<close>

definition sample_watched_row :: pydict where
  "sample_watched_row = [(''content_id'', VStr ''tt1''), (''content_type'', VStr ''movie''), (''watched_at'', VInt 1)]"

definition sample_withdrawal :: stream_snapshot where
  "sample_withdrawal = \<lparr>sn_connection_id = 1, sn_identity_version = Some 0, sn_sync_watched = True, sn_complete = True,
     sn_watched = [], sn_tmdb_ids = [(''tt1'', VInt 603)]\<rparr>"

definition sample_history_db :: db where
  "sample_history_db = empty_db
     \<lparr>media_table := [new_media 10 Movie ''The Matrix'' (Some 603) 0],
      connection_table := [new_connection 1 1 ''nuvio'' ''Nuvio'' [] [] 0],
      stream_baseline_table := [\<lparr>sb_connection_id = 1, sb_user_id = 1,
         sb_snapshot = [(''records'', VDict [(''watched'', VList [VDict sample_watched_row])])], sb_approved = True, sb_observed_at = 0\<rparr>],
      watch_event_table := [new_watch_event 1 1 10 (Some 5000) True 0]\<rparr>"

definition sample_watch_round :: watch_round where
  "sample_watch_round = \<lparr>wt_db = sample_history_db, wt_cycle = new_cycle 1,
     wt_state = (new_reconciliation 1 9000000)\<lparr>rc_collecting := False, rc_watch_before := {10}\<rparr>\<rparr>"

lemma sample_withdrawal_run:
  "case decide_watches 9001000 [sample_withdrawal] sample_watch_round of Inr w \<Rightarrow> watch_event_table (wt_db w) = [] | Inl _ \<Rightarrow> False"
  by code_simp

lemma decide_watches_deletes_withdrawn_witness:
  "(\<exists>w'. decide_watches 9001000 [sample_withdrawal] sample_watch_round = Inr w' \<and> watch_event_table (wt_db w') = []) \<and>
   left_snapshot (wt_db sample_watch_round) 1 10 sample_withdrawal"
proof -
  obtain w' where w': "decide_watches 9001000 [sample_withdrawal] sample_watch_round = Inr w'" "watch_event_table (wt_db w') = []"
    using sample_withdrawal_run by (auto split: sum.splits)
  then show ?thesis
    using decide_watches_deletes_withdrawn [OF w'(1), of "new_watch_event 1 1 10 (Some 5000) True 0"]
    by (simp add: sample_watch_round_def sample_history_db_def new_reconciliation_def new_watch_event_def)
qed

text \<open>A play of a title that the round decided as watched, a day after the last one.\<close>

definition sample_staged_round :: watch_round where
  "sample_staged_round = \<lparr>wt_db = sample_history_db, wt_cycle = new_cycle 1,
     wt_state = (new_reconciliation 1 9000000)\<lparr>rc_collecting := False,
       rc_staged_watches := [(''trakt'', new_watch_event 0 1 10 (Some 86400005000) True 0)],
       rc_watch_decisions := [10 \<mapsto> (keep_local (Some True))]\<rparr>\<rparr>"

lemma sample_staged_run:
  "case apply_staged_watches 9001000 sample_staged_round of
     Inr w \<Rightarrow> new_watch_event 2 1 10 (Some 86400005000) True 0 \<in> set (watch_event_table (wt_db w)) | Inl _ \<Rightarrow> False"
  by (simp add: apply_staged_watches_def sample_staged_round_def sample_history_db_def new_reconciliation_def empty_db_def
      get_dedup_window_minutes_def settings_of_def dedup_window_from_settings_def window_of_def default_dedup_window_minutes_def
      staging_of_def staged_rows_def group_by_def first_seen_def staged_step_def tracking_root_def lookup_tracking_root_def
      new_media_def new_watch_event_def protected_of_def accepted_decision_def is_duplicate_watch_time_def candidate_time_def
      is_near_def minutes_def effective_time_def dict_get_def insert_event_def next_id_def infer_missing_completed_watch_date_def
      record_accepted_def dict_alter_def Let_def)


end
