(* ===== verification/LibraryRound.thy ===== *)
theory LibraryRound
  imports WatchRound
begin

text \<open>
  The library of a round: \<open>apply_memberships\<close> of \<open>core/sync_collection.py\<close>, which applies the staged
  files and the reported removals to the physical library, and \<open>_library\<close> of
  \<open>core/sync_reconciliation.py\<close>, which settles the membership the account wants and what is handed on.
\<close>

section \<open>Files and collections\<close>

definition connection_current :: "db \<Rightarrow> reconciliation \<Rightarrow> int \<Rightarrow> bool" where
  "connection_current db st cid \<longleftrightarrow>
     (case versions_of db (rc_user_id st) cid of None \<Rightarrow> False | Some v \<Rightarrow> rc_connection_versions st cid = Some v)"

definition collection_of :: "db \<Rightarrow> int \<Rightarrow> int \<Rightarrow> collection_row option" where
  "collection_of db user mid = last_row (\<lambda>c. cl_user_id c = user \<and> cl_media_id c = mid) (collection_table db)"

definition user_collections :: "db \<Rightarrow> int \<Rightarrow> int set" where
  "user_collections db user = cl_id ` set (filter (\<lambda>c. cl_user_id c = user) (collection_table db))"

definition user_files :: "db \<Rightarrow> int \<Rightarrow> collection_file list" where
  "user_files db user = filter (\<lambda>f. cf_collection_id f \<in> user_collections db user) (collection_file_table db)"

definition added_or :: "datetime \<Rightarrow> datetime option \<Rightarrow> datetime" where
  "added_or now t = (case t of None \<Rightarrow> now | Some x \<Rightarrow> x)"

definition add_collection :: "datetime \<Rightarrow> int \<Rightarrow> staged_file \<Rightarrow> db \<Rightarrow> db" where
  "add_collection now user item db =
     (case collection_of db user (sf_media_id item) of
        None \<Rightarrow>
          db\<lparr>collection_table := collection_table db @
            [\<lparr>cl_id = next_id cl_id (collection_table db), cl_user_id = user, cl_media_id = sf_media_id item,
              cl_added_at = added_or now (sf_added_at item)\<rparr>]\<rparr>
      | Some c \<Rightarrow>
        (case sf_added_at item of
           None \<Rightarrow> db
         | Some t \<Rightarrow>
           if t < cl_added_at c
           then db\<lparr>collection_table := update_where (\<lambda>x. cl_id x = cl_id c) (\<lambda>x. x\<lparr>cl_added_at := t\<rparr>) (collection_table db)\<rparr>
           else db))"

definition explicitly_deleted :: "db \<Rightarrow> reconciliation \<Rightarrow> collection_file \<Rightarrow> bool" where
  "explicitly_deleted db st f \<longleftrightarrow>
     cf_id f \<in> rc_collection_deleted st \<and> (case cf_connection_id f of None \<Rightarrow> False | Some cid \<Rightarrow> connection_current db st cid)"

definition file_key :: "collection_file \<Rightarrow> int option \<times> int \<times> collection_source \<times> string option" where
  "file_key f = (cf_connection_id f, cf_collection_id f, cf_source f, cf_source_id f)"

text \<open>The attributes of a report; an empty list of languages says nothing.\<close>

definition describe_file :: "pydict \<Rightarrow> collection_file \<Rightarrow> collection_file" where
  "describe_file q f =
     (let f1 = f\<lparr>cf_file_path := get q ''file_path'', cf_resolution := get q ''resolution'', cf_video_codec := get q ''video_codec'',
                 cf_audio_codec := get q ''audio_codec'', cf_audio_channels := get q ''audio_channels''\<rparr>;
          f2 = (if truthy (get q ''audio_languages'') then f1\<lparr>cf_audio_languages := get q ''audio_languages''\<rparr> else f1)
      in if truthy (get q ''subtitle_languages'') then f2\<lparr>cf_subtitle_languages := get q ''subtitle_languages''\<rparr> else f2)"

definition new_file :: "datetime \<Rightarrow> db \<Rightarrow> int \<Rightarrow> staged_file \<Rightarrow> collection_file" where
  "new_file now db coll item =
     \<lparr>cf_id = next_id cf_id (collection_file_table db), cf_collection_id = coll, cf_connection_id = Some (sf_connection_id item),
      cf_source = sf_source item, cf_source_id = Some (sf_source_id item), cf_resolution = VNone, cf_video_codec = VNone,
      cf_audio_codec = VNone, cf_audio_channels = VNone, cf_audio_languages = VNone, cf_subtitle_languages = VNone,
      cf_file_path = VNone, cf_added_at = now\<rparr>"

definition date_file :: "datetime option \<Rightarrow> collection_file \<Rightarrow> collection_file" where
  "date_file t f = (case t of None \<Rightarrow> f | Some x \<Rightarrow> f\<lparr>cf_added_at := x\<rparr>)"

text \<open>
  One staged file; the set holds the collections that were touched.  The inserts reach the database before the
  deletes of the same flush, so a new row must not clash with one of the rows \<open>old\<close> about to go either:
  \<open>uq_collection_file_source\<close> allows one row per collection, source and source identifier.
\<close>

definition clashes :: "collection_file list \<Rightarrow> int \<Rightarrow> staged_file \<Rightarrow> bool" where
  "clashes fs coll item \<longleftrightarrow>
     (\<exists>f \<in> set fs. cf_collection_id f = coll \<and> cf_source f = sf_source item \<and> cf_source_id f = Some (sf_source_id item))"

definition put_file :: "datetime \<Rightarrow> int \<Rightarrow> collection_file list \<Rightarrow> staged_file \<Rightarrow> db \<times> int set \<Rightarrow> (db \<times> int set) result" where
  "put_file now user old item w =
     (case w of (db, affected) \<Rightarrow>
        (case collection_of db user (sf_media_id item) of
           None \<Rightarrow> Inl KeyError
         | Some c \<Rightarrow>
           (let key = (Some (sf_connection_id item), cl_id c, sf_source item, Some (sf_source_id item));
                fill = date_file (sf_added_at item) \<circ> describe_file (sf_quality item) in
            case last_row (\<lambda>f. file_key f = key) (collection_file_table db) of
              Some f \<Rightarrow> Inr (db\<lparr>collection_file_table := update_where (\<lambda>x. cf_id x = cf_id f) fill (collection_file_table db)\<rparr>,
                             insert (cl_id c) affected)
            | None \<Rightarrow>
                if clashes (old @ collection_file_table db) (cl_id c) item then Inl IntegrityError
                else Inr (db\<lparr>collection_file_table := collection_file_table db @ [fill (new_file now db (cl_id c) item)]\<rparr>,
                          insert (cl_id c) affected))))"

definition reported_gone :: "membership_removal \<Rightarrow> collection_file \<Rightarrow> bool" where
  "reported_gone r f \<longleftrightarrow>
     cf_connection_id f = Some (mr_connection_id r) \<and> cf_source f = mr_source r \<and>
     ((case cf_source_id f of None \<Rightarrow> False | Some sid \<Rightarrow> sid \<in> mr_removed_ids r)
      \<or> (case mr_expected r of None \<Rightarrow> False
         | Some expected \<Rightarrow> (case cf_source_id f of None \<Rightarrow> True | Some sid \<Rightarrow> sid \<notin> expected)))"

text \<open>Deleting files of the account, noting their collections.\<close>

definition delete_files :: "int \<Rightarrow> (collection_file \<Rightarrow> bool) \<Rightarrow> db \<times> int set \<Rightarrow> db \<times> int set" where
  "delete_files user P w =
     (case w of (db, affected) \<Rightarrow>
        (let gone = (\<lambda>f. cf_collection_id f \<in> user_collections db user \<and> P f) in
         (db\<lparr>collection_file_table := filter (\<lambda>f. \<not> gone f) (collection_file_table db)\<rparr>,
          affected \<union> cf_collection_id ` set (filter gone (collection_file_table db)))))"

definition remove_reported :: "reconciliation \<Rightarrow> membership_removal \<Rightarrow> db \<times> int set \<Rightarrow> db \<times> int set" where
  "remove_reported st r w =
     (if connection_current (fst w) st (mr_connection_id r) then delete_files (rc_user_id st) (reported_gone r) w else w)"

definition drop_empty_collections :: "int \<Rightarrow> db \<times> int set \<Rightarrow> db" where
  "drop_empty_collections user w =
     (case w of (db, affected) \<Rightarrow>
        (let present = cf_collection_id ` set (user_files db user) in
         db\<lparr>collection_table := filter (\<lambda>c. \<not> (cl_user_id c = user \<and> cl_id c \<in> affected \<and> cl_id c \<notin> present)) (collection_table db)\<rparr>))"

definition apply_memberships :: "datetime \<Rightarrow> reconciliation \<Rightarrow> db \<Rightarrow> db result" where
  "apply_memberships now st db =
     (if rc_collection_files st = [] \<and> rc_collection_removals st = [] \<and> rc_collection_deleted st = {} then Inr db
      else
        (let user = rc_user_id st;
             additions = filter (\<lambda>i. connection_current db st (sf_connection_id i)) (map snd (rc_collection_files st));
             db1 = fold (add_collection now user) additions db in
         and_then (fold_result (put_file now user (collection_file_table db1)) additions (delete_files user (explicitly_deleted db st) (db1, {}))) (\<lambda>w.
           Inr (drop_empty_collections user (fold (remove_reported st) (rc_collection_removals st) w)))))"

section \<open>The membership the account wants\<close>

definition symmetric_difference :: "('a :: linorder) set \<Rightarrow> 'a set \<Rightarrow> 'a list" where
  "symmetric_difference a b = sorted_list_of_set ((a - b) \<union> (b - a))"

definition library_observation :: "db \<Rightarrow> reconciliation \<Rightarrow> (int \<times> int) set \<Rightarrow> int \<times> int \<Rightarrow> (int \<times> bool observation) option" where
  "library_observation db st current pair =
     (case find (\<lambda>c. c_id c = fst pair) (connection_table db) of
        None \<Rightarrow> None
      | Some conn \<Rightarrow>
        if c_type conn \<notin> {''stremio'', ''nuvio''} \<or> \<not> c_sync_collection conn
           \<or> rc_connection_versions st (c_id conn) \<noteq> Some (c_identity_version conn) then None
        else Some (snd pair, observe (source_key (c_type conn) (Some (fst pair))) (Some (pair \<in> current)) None
               (Some (Some (pair \<in> rc_library_before st))) (rc_library_observed st (fst pair))))"

definition library_changes :: "db \<Rightarrow> reconciliation \<Rightarrow> (int \<times> bool observation list) list" where
  "library_changes db st =
     (let current = set (library_pairs db (rc_user_id st)) in
      fold (\<lambda>(mid, ob). dict_alter mid [] (\<lambda>obs. obs @ [ob]))
        (List.map_filter (library_observation db st current) (symmetric_difference current (rc_library_before st))) [])"

record library_round =
  lb_db :: db
  lb_cycle :: pull_cycle

definition set_intent :: "int \<Rightarrow> int \<Rightarrow> bool \<Rightarrow> datetime \<Rightarrow> library_intent option \<Rightarrow> db \<Rightarrow> db" where
  "set_intent user mid desired t found db =
     (case found of
        None \<Rightarrow> db\<lparr>library_intent_table := library_intent_table db @
          [\<lparr>li_id = next_id li_id (library_intent_table db), li_user_id = user, li_media_id = mid, li_desired = desired, li_updated_at = t\<rparr>]\<rparr>
      | Some i \<Rightarrow> db\<lparr>library_intent_table := update_where (\<lambda>x. li_id x = li_id i) (\<lambda>x. x\<lparr>li_desired := desired, li_updated_at := t\<rparr>)
          (library_intent_table db)\<rparr>)"

definition approved_connections :: "db \<Rightarrow> int list \<Rightarrow> int list" where
  "approved_connections db ids = filter (\<lambda>cid. case stream_baseline_of db cid of None \<Rightarrow> False | Some b \<Rightarrow> sb_approved b) ids"

definition deliver_library :: "int \<Rightarrow> bool \<Rightarrow> int list \<Rightarrow> datetime \<Rightarrow> bool \<Rightarrow> pull_cycle \<Rightarrow> pull_cycle" where
  "deliver_library mid desired ids t approved c =
     (let c1 = c\<lparr>pc_library_desired := (pc_library_desired c)(mid \<mapsto> desired)\<rparr> in
      if \<not> approved then c1
      else (if desired then c1\<lparr>pc_library_new_ids := insert mid (pc_library_new_ids c1)\<rparr>
            else c1\<lparr>pc_library_removed_ids := insert mid (pc_library_removed_ids c1)\<rparr>)
           \<lparr>pc_library_source_ids_by_media := (pc_library_source_ids_by_media c1)(mid \<mapsto> set ids),
            pc_library_observed_at_by_media := (pc_library_observed_at_by_media c1)(mid \<mapsto> t)\<rparr>)"

definition library_decision :: "reconciliation \<Rightarrow> library_intent option \<Rightarrow> int \<Rightarrow> bool observation list \<Rightarrow> bool decision" where
  "library_decision st intent mid observations =
     (let (local, tm) = (case intent of
            Some i \<Rightarrow> (Some (li_desired i), Some (li_updated_at i))
          | None \<Rightarrow> (case rc_library_local st mid of None \<Rightarrow> (None, None) | Some (b, t) \<Rightarrow> (Some b, t)))
      in resolve local tm observations (Some (rc_started_at st)) None)"

definition library_step :: "datetime \<Rightarrow> reconciliation \<Rightarrow> int \<times> bool observation list \<Rightarrow> library_round \<Rightarrow> library_round result" where
  "library_step now st item w =
     (case item of (mid, collected) \<Rightarrow>
        let observations = sort_key o_source collected; user = rc_user_id st; db = lb_db w in
        and_then (scalar_one_or_none (filter (\<lambda>i. li_user_id i = user \<and> li_media_id i = mid) (library_intent_table db))) (\<lambda>intent.
          let d = library_decision st intent mid observations in
          if d_conflict d then
            and_then (record_conflict now user mid ''library'' None (review_payload watched_json watched_text ''library'' d observations) id db)
              (\<lambda>db. Inr (w\<lparr>lb_db := db\<rparr>))
          else if d_sources d = {} then Inr w
          else
            and_then (map_result connection_id_of (sorted_list_of_set (d_sources d))) (\<lambda>ids.
              let db1 = retire_review user mid ''library_conflict'' None db; desired = (d_value d = Some True) in
              Inr \<lparr>lb_db = set_intent user mid desired (rc_started_at st) intent db1,
                   lb_cycle = deliver_library mid desired ids (rc_started_at st) (approved_connections db1 ids \<noteq> []) (lb_cycle w)\<rparr>)))"

definition settle_library :: "datetime \<Rightarrow> reconciliation \<Rightarrow> library_round \<Rightarrow> library_round result" where
  "settle_library now st w =
     fold_result (library_step now st) (library_changes (lb_db w) st)
       (w\<lparr>lb_cycle := (lb_cycle w)\<lparr>pc_library_new_ids := {}, pc_library_removed_ids := {}, pc_library_source_ids_by_media := Map.empty\<rparr>\<rparr>)"

section \<open>What leaves the library\<close>

definition may_leave :: "db \<Rightarrow> reconciliation \<Rightarrow> int set \<Rightarrow> collection_file \<Rightarrow> bool" where
  "may_leave db st own f \<longleftrightarrow>
     cf_collection_id f \<in> own \<and>
     (\<exists>cid. cf_connection_id f = Some cid \<and> connection_current db st cid
        \<and> (cf_id f \<in> rc_collection_deleted st \<or> (\<exists>r \<in> set (rc_collection_removals st). reported_gone r f)))"

lemma may_leave_key: "cf_id f = cf_id g \<Longrightarrow> file_key f = file_key g \<Longrightarrow> may_leave db st own f = may_leave db st own g"
  by (simp add: may_leave_def file_key_def reported_gone_def cong: option.case_cong)

text \<open>Every file is still there, under its identifier and key, or could leave.\<close>

definition files_kept :: "(collection_file \<Rightarrow> bool) \<Rightarrow> collection_file list \<Rightarrow> collection_file list \<Rightarrow> bool" where
  "files_kept lost fs gs \<longleftrightarrow> (\<forall>f \<in> set fs. (\<exists>g \<in> set gs. cf_id g = cf_id f \<and> file_key g = file_key f) \<or> lost f)"

lemma files_kept_refl: "files_kept lost fs fs"
  by (auto simp: files_kept_def)

lemma files_kept_trans:
  assumes "files_kept (may_leave db st own) fs gs" "files_kept (may_leave db st own) gs hs"
  shows "files_kept (may_leave db st own) fs hs"
  using assms may_leave_key unfolding files_kept_def by metis

lemma files_kept_update:
  assumes "\<And>x. cf_id (fill x) = cf_id x \<and> file_key (fill x) = file_key x"
  shows "files_kept lost fs (update_where P fill fs)"
  using assms by (auto simp: files_kept_def update_where_def intro!: bexI [rotated, OF imageI])

lemma fill_key: "cf_id ((date_file t \<circ> describe_file q) f) = cf_id f \<and> file_key ((date_file t \<circ> describe_file q) f) = file_key f"
  by (simp add: date_file_def describe_file_def Let_def file_key_def split: option.split)

lemma put_file_frame:
  assumes "put_file now user old item (db, affected) = Inr (db', affected')"
  shows "files_kept lost (collection_file_table db) (collection_file_table db') \<and>
    collection_table db' = collection_table db \<and> connection_table db' = connection_table db"
proof -
  obtain c where "collection_of db user (sf_media_id item) = Some c"
    using assms by (auto simp: put_file_def split: option.splits)
  moreover have "files_kept lost fs (fs @ [g])" for fs g by (auto simp: files_kept_def)
  moreover have "files_kept lost fs (update_where P (date_file t \<circ> describe_file q) fs)" for fs P t q
    by (rule files_kept_update) (rule fill_key)
  ultimately show ?thesis using assms by (auto simp: put_file_def Let_def comp_def split: option.splits if_splits)
qed

lemma delete_files_frame:
  assumes "delete_files user P (db, affected) = (db', affected')"
    and "\<And>f. cf_collection_id f \<in> user_collections db user \<Longrightarrow> P f \<Longrightarrow> lost f"
  shows "files_kept lost (collection_file_table db) (collection_file_table db') \<and>
    collection_table db' = collection_table db \<and> connection_table db' = connection_table db"
proof -
  have tables: "collection_file_table db' = filter (\<lambda>f. \<not> (cf_collection_id f \<in> user_collections db user \<and> P f)) (collection_file_table db)"
    "collection_table db' = collection_table db" "connection_table db' = connection_table db"
    using assms(1) by (auto simp: delete_files_def Let_def)
  have "files_kept lost (collection_file_table db) (collection_file_table db')"
    unfolding files_kept_def tables(1) using assms(2) by fastforce
  then show ?thesis using tables by simp
qed

lemma connection_current_frame:
  "connection_table db' = connection_table db \<Longrightarrow> connection_current db' st = connection_current db st"
  by (simp add: connection_current_def versions_of_def fun_eq_iff)

lemma user_collections_frame: "collection_table db' = collection_table db \<Longrightarrow> user_collections db' user = user_collections db user"
  by (simp add: user_collections_def)

definition library_frame :: "db \<Rightarrow> reconciliation \<Rightarrow> db \<Rightarrow> db \<Rightarrow> bool" where
  "library_frame db0 st db db' \<longleftrightarrow>
     files_kept (may_leave db0 st (user_collections db (rc_user_id st))) (collection_file_table db) (collection_file_table db')
     \<and> collection_table db' = collection_table db \<and> connection_table db' = connection_table db"

lemma library_frame_refl: "library_frame db0 st db db"
  by (simp add: library_frame_def files_kept_refl)

lemma library_frame_trans:
  "library_frame db0 st db db1 \<Longrightarrow> library_frame db0 st db1 db2 \<Longrightarrow> library_frame db0 st db db2"
  using files_kept_trans user_collections_frame unfolding library_frame_def by metis

lemma remove_reported_frame:
  assumes "r \<in> set (rc_collection_removals st)" "connection_table db = connection_table db0"
  shows "library_frame db0 st db (fst (remove_reported st r (db, affected)))"
proof (cases "connection_current db st (mr_connection_id r)")
  case True
  obtain db' affected' where d: "delete_files (rc_user_id st) (reported_gone r) (db, affected) = (db', affected')" by fastforce
  have "may_leave db0 st (user_collections db (rc_user_id st)) f"
    if "cf_collection_id f \<in> user_collections db (rc_user_id st)" "reported_gone r f" for f
    using that True assms connection_current_frame [of db db0 st] by (auto simp: may_leave_def reported_gone_def)
  from delete_files_frame [OF d this] show ?thesis using True d by (simp add: remove_reported_def library_frame_def)
next
  case False
  then show ?thesis by (simp add: remove_reported_def library_frame_refl)
qed

lemma remove_all_frame:
  assumes "set rs \<subseteq> set (rc_collection_removals st)" "connection_table db = connection_table db0"
  shows "library_frame db0 st db (fst (fold (remove_reported st) rs (db, affected)))"
  using assms
proof (induction rs arbitrary: db affected)
  case Nil
  then show ?case by (simp add: library_frame_refl)
next
  case (Cons r rs)
  obtain db1 a1 where d: "remove_reported st r (db, affected) = (db1, a1)" by fastforce
  have one: "library_frame db0 st db db1" using remove_reported_frame [of r st db db0 affected] Cons.prems d by simp
  then have "connection_table db1 = connection_table db0" using Cons.prems(2) by (simp add: library_frame_def)
  with Cons.IH [of db1 a1] Cons.prems(1) have "library_frame db0 st db1 (fst (fold (remove_reported st) rs (db1, a1)))" by simp
  with one have "library_frame db0 st db (fst (fold (remove_reported st) rs (db1, a1)))" by (rule library_frame_trans)
  then show ?case using d by simp
qed

lemma put_files_frame:
  assumes "fold_result (put_file now (rc_user_id st) old) items (db, affected) = Inr (db', affected')"
  shows "library_frame db0 st db db'"
proof -
  have "library_frame db0 st db (fst (db', affected'))"
  proof (rule fold_result_invariant [where P = "\<lambda>w. library_frame db0 st db (fst w)", OF assms])
    fix item and w w' :: "db \<times> int set"
    assume w: "library_frame db0 st db (fst w)" and step: "put_file now (rc_user_id st) old item w = Inr w'"
    then have "library_frame db0 st (fst w) (fst w')"
      using put_file_frame [of now "rc_user_id st" old item "fst w" "snd w" "fst w'" "snd w'"] by (simp add: library_frame_def)
    with w show "library_frame db0 st db (fst w')" by (rule library_frame_trans)
  qed (simp add: library_frame_refl)
  then show ?thesis by simp
qed

text \<open>The collections added first: no file changes, and no old identifier becomes the account's.\<close>

definition owners :: "db \<Rightarrow> (int \<times> int) set" where
  "owners db = set (map (\<lambda>c. (cl_id c, cl_user_id c)) (collection_table db))"

lemma user_collections_owners: "user_collections db user = {i. (i, user) \<in> owners db}"
  by (auto simp: user_collections_def owners_def)

lemma ids_owners: "cl_id ` set (collection_table db) = fst ` owners db"
  by (simp add: owners_def image_image)

lemma owners_add_collection:
  "owners (add_collection now user item db) = owners db
   \<or> owners (add_collection now user item db) = insert (next_id cl_id (collection_table db), user) (owners db)"
proof -
  have "map (\<lambda>c. (cl_id c, cl_user_id c)) (update_where P (\<lambda>x. x\<lparr>cl_added_at := t\<rparr>) cs)
      = map (\<lambda>c. (cl_id c, cl_user_id c)) cs" for P t and cs :: "collection_row list"
    by (rule map_update_where) simp
  then show ?thesis by (simp add: add_collection_def owners_def del: set_map split: option.split)
qed

definition collections_grow :: "db \<Rightarrow> db \<Rightarrow> bool" where
  "collections_grow db db' \<longleftrightarrow>
     collection_file_table db' = collection_file_table db \<and> connection_table db' = connection_table db
     \<and> owners db \<subseteq> owners db' \<and> (\<forall>p \<in> owners db'. p \<in> owners db \<or> fst p \<notin> fst ` owners db)"

lemma add_collection_grows: "collections_grow db (add_collection now user item db)"
proof -
  have "next_id cl_id (collection_table db) \<notin> fst ` owners db" using next_id_not_in ids_owners by metis
  moreover have "collection_file_table (add_collection now user item db) = collection_file_table db"
    "connection_table (add_collection now user item db) = connection_table db"
    by (simp_all add: add_collection_def split: option.split)
  ultimately show ?thesis
    using owners_add_collection [of now user item db] unfolding collections_grow_def by (elim disjE) auto
qed

lemma collections_grow_trans:
  assumes "collections_grow db db1" "collections_grow db1 db2"
  shows "collections_grow db db2"
proof -
  have "p \<in> owners db \<or> fst p \<notin> fst ` owners db" if "p \<in> owners db2" for p
    using assms that unfolding collections_grow_def by (meson image_mono in_mono)
  then show ?thesis using assms unfolding collections_grow_def by auto
qed

lemma add_collections_grow: "collections_grow db (fold (add_collection now user) items db)"
proof (induction items arbitrary: db)
  case Nil
  then show ?case by (simp add: collections_grow_def)
next
  case (Cons i items)
  show ?case using collections_grow_trans [OF add_collection_grows Cons.IH] by simp
qed

definition library_sound :: "db \<Rightarrow> bool" where
  "library_sound db \<longleftrightarrow> cf_collection_id ` set (collection_file_table db) \<subseteq> cl_id ` set (collection_table db)"

lemma drop_empty_owners:
  assumes "p \<in> owners db"
  shows "p \<in> owners (drop_empty_collections user (db, affected))
     \<or> (snd p = user \<and> (\<forall>f \<in> set (collection_file_table db). cf_collection_id f \<noteq> fst p))"
proof -
  obtain c where c: "c \<in> set (collection_table db)" "p = (cl_id c, cl_user_id c)" using assms by (auto simp: owners_def)
  show ?thesis
  proof (cases "cl_user_id c = user \<and> cl_id c \<notin> cf_collection_id ` set (user_files db user)")
    case True
    then have "cl_id c \<in> user_collections db user" using c by (auto simp: user_collections_def)
    then have "f \<in> set (user_files db user)" if "f \<in> set (collection_file_table db)" "cf_collection_id f = cl_id c" for f
      using that by (simp add: user_files_def)
    then have "\<forall>f \<in> set (collection_file_table db). cf_collection_id f \<noteq> cl_id c" using True by (metis image_eqI)
    then show ?thesis using True c by simp
  next
    case False
    then have "c \<in> set (collection_table (drop_empty_collections user (db, affected)))"
      using c by (auto simp: drop_empty_collections_def Let_def)
    then show ?thesis using c by (auto simp: owners_def)
  qed
qed

lemma apply_memberships_frame:
  assumes run: "apply_memberships now st db = Inr db'" and sound: "library_sound db"
  shows "files_kept (may_leave db st (user_collections db (rc_user_id st))) (collection_file_table db) (collection_file_table db')
    \<and> (\<forall>p \<in> owners db. p \<in> owners db' \<or> (snd p = rc_user_id st \<and> (\<forall>f \<in> set (collection_file_table db'). cf_collection_id f \<noteq> fst p)))"
proof (cases "rc_collection_files st = [] \<and> rc_collection_removals st = [] \<and> rc_collection_deleted st = {}")
  case True
  then show ?thesis using run by (simp add: apply_memberships_def files_kept_refl)
next
  case False
  define user where "user = rc_user_id st"
  define items where "items = filter (\<lambda>i. connection_current db st (sf_connection_id i)) (map snd (rc_collection_files st))"
  define db1 where "db1 = fold (add_collection now user) items db"
  obtain db2 a2 where d: "delete_files user (explicitly_deleted db st) (db1, {}) = (db2, a2)" by fastforce
  obtain db3 a3 where f: "fold_result (put_file now user (collection_file_table db1)) items (db2, a2) = Inr (db3, a3)"
    and db': "db' = drop_empty_collections user (fold (remove_reported st) (rc_collection_removals st) (db3, a3))"
    using run False d unfolding apply_memberships_def Let_def if_not_P [OF False] user_def [symmetric] items_def [symmetric] db1_def [symmetric]
    by (auto simp: and_then_Inr_iff)
  obtain db4 a4 where r: "fold (remove_reported st) (rc_collection_removals st) (db3, a3) = (db4, a4)" by fastforce
  have grow: "collections_grow db db1" unfolding db1_def by (rule add_collections_grow)
  then have conn1: "connection_table db1 = connection_table db" by (simp add: collections_grow_def)
  have "may_leave db st (user_collections db1 user) f" if "cf_collection_id f \<in> user_collections db1 user" "explicitly_deleted db st f" for f
    using that by (auto simp: may_leave_def explicitly_deleted_def split: option.splits)
  from delete_files_frame [OF d this] have "library_frame db st db1 db2" by (simp add: library_frame_def user_def)
  moreover have "library_frame db st db2 db3" using put_files_frame f unfolding user_def by blast
  ultimately have f3: "library_frame db st db1 db3" by (rule library_frame_trans)
  moreover have "library_frame db st db3 db4"
    using remove_all_frame [of "rc_collection_removals st" st db3 db a3] f3 conn1 r by (simp add: library_frame_def)
  ultimately have f4: "library_frame db st db1 db4" by (rule library_frame_trans)
  have own: "user_collections db1 user \<inter> cf_collection_id ` set (collection_file_table db) \<subseteq> user_collections db user"
  proof
    fix i
    assume "i \<in> user_collections db1 user \<inter> cf_collection_id ` set (collection_file_table db)"
    then have "(i, user) \<in> owners db1" "i \<in> fst ` owners db"
      using sound unfolding library_sound_def ids_owners user_collections_owners by blast+
    then have "(i, user) \<in> owners db" using grow unfolding collections_grow_def by (metis fst_conv)
    then show "i \<in> user_collections db user" by (simp add: user_collections_owners)
  qed
  have files: "collection_file_table db' = collection_file_table db4" by (simp add: db' r drop_empty_collections_def Let_def)
  have kept: "files_kept (may_leave db st (user_collections db user)) (collection_file_table db) (collection_file_table db')"
    unfolding files_kept_def
  proof
    fix f
    assume f: "f \<in> set (collection_file_table db)"
    from f4 grow f have "(\<exists>g \<in> set (collection_file_table db'). cf_id g = cf_id f \<and> file_key g = file_key f)
        \<or> may_leave db st (user_collections db1 user) f"
      unfolding files library_frame_def files_kept_def collections_grow_def user_def by metis
    moreover have "may_leave db st (user_collections db user) f" if "may_leave db st (user_collections db1 user) f"
      using that own f by (auto simp: may_leave_def)
    ultimately show "(\<exists>g \<in> set (collection_file_table db'). cf_id g = cf_id f \<and> file_key g = file_key f)
        \<or> may_leave db st (user_collections db user) f" by blast
  qed
  have "owners db4 = owners db1" using f4 by (simp add: library_frame_def owners_def)
  moreover have "owners db \<subseteq> owners db1" using grow by (simp add: collections_grow_def)
  ultimately have "\<forall>p \<in> owners db. p \<in> owners db' \<or> (snd p = user \<and> (\<forall>f \<in> set (collection_file_table db4). cf_collection_id f \<noteq> fst p))"
    using drop_empty_owners unfolding db' r by blast
  then show ?thesis using kept unfolding user_def files by blast
qed

section \<open>What is handed on\<close>

definition library_delivered :: "db \<Rightarrow> pull_cycle \<Rightarrow> bool" where
  "library_delivered db c \<longleftrightarrow>
     pc_library_new_ids c \<inter> pc_library_removed_ids c = {} \<and>
     (\<forall>m \<in> pc_library_new_ids c \<union> pc_library_removed_ids c.
        pc_library_desired c m = Some (m \<in> pc_library_new_ids c) \<and>
        (\<exists>ids. pc_library_source_ids_by_media c m = Some ids \<and>
           (\<exists>cid \<in> ids. \<exists>b. stream_baseline_of db cid = Some b \<and> sb_approved b)))"

definition handed_on :: "pull_cycle \<Rightarrow> int set" where
  "handed_on c = pc_library_new_ids c \<union> pc_library_removed_ids c"

lemma deliver_library_delivers:
  assumes "library_delivered db c" "m \<notin> handed_on c"
    and "approved \<Longrightarrow> \<exists>cid \<in> set ids. \<exists>b. stream_baseline_of db cid = Some b \<and> sb_approved b"
  shows "library_delivered db (deliver_library m desired ids t approved c) \<and>
    handed_on (deliver_library m desired ids t approved c) \<subseteq> insert m (handed_on c)"
  using assms by (auto simp: deliver_library_def library_delivered_def handed_on_def Let_def)

lemma approved_connections_some:
  "approved_connections db ids \<noteq> [] \<Longrightarrow> \<exists>cid \<in> set ids. \<exists>b. stream_baseline_of db cid = Some b \<and> sb_approved b"
  unfolding approved_connections_def filter_empty_conv by (auto split: option.splits)

lemma record_conflict_baselines:
  "record_conflict now user m category season payload fill db = Inr db' \<Longrightarrow> stream_baseline_table db' = stream_baseline_table db"
  by (drule record_conflict_tables) (metis db.select_convs db.surjective db.update_convs)

lemma library_step_delivers:
  assumes step: "library_step now st (m, obs) w = Inr w'"
    and base: "stream_baseline_table (lb_db w) = stream_baseline_table db"
    and inv: "library_delivered db (lb_cycle w)" "m \<notin> handed_on (lb_cycle w)"
  shows "stream_baseline_table (lb_db w') = stream_baseline_table db \<and> library_delivered db (lb_cycle w')
    \<and> handed_on (lb_cycle w') \<subseteq> insert m (handed_on (lb_cycle w))"
proof -
  define user where "user = rc_user_id st"
  obtain intent where intent: "scalar_one_or_none (filter (\<lambda>i. li_user_id i = user \<and> li_media_id i = m) (library_intent_table (lb_db w))) = Inr intent"
    using step by (auto simp: library_step_def Let_def and_then_Inr_iff user_def)
  define d where "d = library_decision st intent m (sort_key o_source obs)"
  show ?thesis
  proof (cases "d_conflict d \<or> d_sources d = {}")
    case True
    then have "lb_cycle w' = lb_cycle w \<and> stream_baseline_table (lb_db w') = stream_baseline_table (lb_db w)"
      using step intent by (auto simp: library_step_def Let_def and_then_Inr_iff user_def [symmetric] d_def [symmetric]
          dest!: record_conflict_baselines split: if_splits)
    then show ?thesis using base inv by auto
  next
    case False
    define db1 where "db1 = retire_review user m ''library_conflict'' None (lb_db w)"
    obtain ids where w': "w' = \<lparr>lb_db = set_intent user m (d_value d = Some True) (rc_started_at st) intent db1,
        lb_cycle = deliver_library m (d_value d = Some True) ids (rc_started_at st) (approved_connections db1 ids \<noteq> []) (lb_cycle w)\<rparr>"
      using step intent False by (auto simp: library_step_def Let_def and_then_Inr_iff user_def [symmetric] d_def [symmetric] db1_def [symmetric])
    have db1: "stream_baseline_table db1 = stream_baseline_table db" by (simp add: db1_def base)
    then have "stream_baseline_of db1 = stream_baseline_of db" by (simp add: stream_baseline_of_def fun_eq_iff)
    then have "approved_connections db1 ids \<noteq> [] \<Longrightarrow> \<exists>cid \<in> set ids. \<exists>b. stream_baseline_of db cid = Some b \<and> sb_approved b"
      using approved_connections_some by metis
    from deliver_library_delivers [OF inv this] show ?thesis
      by (simp add: w' set_intent_def db1 split: option.split)
  qed
qed

lemma library_steps_deliver:
  assumes "fold_result (library_step now st) items w = Inr w'" "distinct (map fst items)"
    and "stream_baseline_table (lb_db w) = stream_baseline_table db" "library_delivered db (lb_cycle w)"
    and "handed_on (lb_cycle w) \<inter> fst ` set items = {}"
  shows "library_delivered db (lb_cycle w')"
  using assms
proof (induction items arbitrary: w)
  case Nil
  then show ?case by simp
next
  case (Cons i items)
  obtain m obs where i: "i = (m, obs)" by fastforce
  obtain w1 where w1: "library_step now st (m, obs) w = Inr w1" "fold_result (library_step now st) items w1 = Inr w'"
    using Cons.prems(1) by (auto simp: i and_then_Inr_iff)
  from Cons.prems(5) have "m \<notin> handed_on (lb_cycle w)" by (auto simp: i)
  from library_step_delivers [OF w1(1) Cons.prems(3,4) this] Cons.prems(2,5) show ?case
    by (intro Cons.IH [OF w1(2)]) (auto simp: i)
qed

lemma distinct_library_changes: "distinct (map fst (library_changes db st))"
proof -
  have "distinct (map fst d) \<Longrightarrow> distinct (map fst (fold (\<lambda>(mid, ob). dict_alter mid [] (\<lambda>obs. obs @ [ob])) xs d))"
    for xs and d :: "(int \<times> bool observation list) list"
    by (induction xs arbitrary: d) (auto simp: dict_alter_def distinct_dict_set)
  then show ?thesis by (simp add: library_changes_def Let_def)
qed

text \<open>A title enters the additions or the removals of the cycle for the other libraries only when one of the
  accounts the decision names has an approved import; it is never in both, and the direction is the desired
  membership recorded with it.
\<close>

lemma settle_library_delivers_approved:
  assumes "settle_library now st w = Inr w'"
  shows "pc_library_new_ids (lb_cycle w') \<inter> pc_library_removed_ids (lb_cycle w') = {} \<and>
    (\<forall>m \<in> pc_library_new_ids (lb_cycle w') \<union> pc_library_removed_ids (lb_cycle w').
       pc_library_desired (lb_cycle w') m = Some (m \<in> pc_library_new_ids (lb_cycle w')) \<and>
       (\<exists>ids. pc_library_source_ids_by_media (lb_cycle w') m = Some ids \<and>
          (\<exists>cid \<in> ids. \<exists>b. stream_baseline_of (lb_db w) cid = Some b \<and> sb_approved b)))"
  using library_steps_deliver [OF assms [unfolded settle_library_def] distinct_library_changes, where db = "lb_db w"]
  by (simp add: library_delivered_def handed_on_def)

text \<open>C9: Applying the staged and reported membership loses no file of another account, of a replaced connection or
  without a connection: a file that is gone was staged as deleted or reported gone by its own current
  connection.  A collection that is gone was the account's and has no file left.
\<close>

theorem memberships_delete_only_gone:
  assumes "apply_memberships now st db = Inr db'"
    and "cf_collection_id ` set (collection_file_table db) \<subseteq> cl_id ` set (collection_table db)"
  shows "(\<forall>f \<in> set (collection_file_table db).
      (\<exists>g \<in> set (collection_file_table db'). cf_id g = cf_id f \<and> file_key g = file_key f)
      \<or> (cf_collection_id f \<in> user_collections db (rc_user_id st) \<and>
         (\<exists>cid. cf_connection_id f = Some cid \<and> connection_current db st cid
            \<and> (cf_id f \<in> rc_collection_deleted st \<or> (\<exists>r \<in> set (rc_collection_removals st). reported_gone r f)))))
    \<and> (\<forall>c \<in> set (collection_table db).
      (\<exists>c' \<in> set (collection_table db'). cl_id c' = cl_id c \<and> cl_user_id c' = cl_user_id c)
      \<or> (cl_user_id c = rc_user_id st \<and> (\<forall>f \<in> set (collection_file_table db'). cf_collection_id f \<noteq> cl_id c)))"
proof -
  have sound: "library_sound db" using assms(2) by (simp add: library_sound_def)
  have owned: "(cl_id c, cl_user_id c) \<in> owners db" if "c \<in> set (collection_table db)" for c using that by (auto simp: owners_def)
  have row: "\<exists>c' \<in> set (collection_table db'). cl_id c' = i \<and> cl_user_id c' = u" if "(i, u) \<in> owners db'" for i u
    using that by (auto simp: owners_def)
  note frame = apply_memberships_frame [OF assms(1) sound, unfolded files_kept_def may_leave_def]
  have "(\<exists>c' \<in> set (collection_table db'). cl_id c' = cl_id c \<and> cl_user_id c' = cl_user_id c)
      \<or> (cl_user_id c = rc_user_id st \<and> (\<forall>f \<in> set (collection_file_table db'). cf_collection_id f \<noteq> cl_id c))"
    if "c \<in> set (collection_table db)" for c
    using bspec [OF conjunct2 [OF frame] owned [OF that]] row by auto
  with conjunct1 [OF frame] show ?thesis by blast
qed

text \<open>An account of Stremio whose library holds one title; a later report no longer names it.\<close>

definition sample_file :: collection_file where
  "sample_file = \<lparr>cf_id = 1, cf_collection_id = 1, cf_connection_id = Some 5, cf_source = Stremio, cf_source_id = Some ''tt1'',
     cf_resolution = VNone, cf_video_codec = VNone, cf_audio_codec = VNone, cf_audio_channels = VNone,
     cf_audio_languages = VNone, cf_subtitle_languages = VNone, cf_file_path = VNone, cf_added_at = 0\<rparr>"

definition sample_library_db :: db where
  "sample_library_db = empty_db\<lparr>connection_table := [new_connection 5 1 ''stremio'' ''s'' ''u'' ''t'' 0],
     stream_baseline_table := [\<lparr>sb_connection_id = 5, sb_user_id = 1, sb_snapshot = [], sb_approved = True, sb_observed_at = 0\<rparr>],
     collection_table := [\<lparr>cl_id = 1, cl_user_id = 1, cl_media_id = 10, cl_added_at = 0\<rparr>],
     collection_file_table := [sample_file]\<rparr>"

definition sample_library_state :: reconciliation where
  "sample_library_state = (new_reconciliation 1 9000)\<lparr>rc_collecting := False, rc_connection_versions := [5 \<mapsto> 0],
     rc_collection_removals := [\<lparr>mr_connection_id = 5, mr_source = Stremio, mr_removed_ids = {}, mr_expected = Some {}\<rparr>]\<rparr>"

lemma sample_settle_run:
  "case settle_library 9001 sample_library_state \<lparr>lb_db = sample_library_db, lb_cycle = new_cycle 1\<rparr> of
     Inr w \<Rightarrow> pc_library_new_ids (lb_cycle w) = {10} | Inl _ \<Rightarrow> False"
  by code_simp

lemma settle_library_delivers_approved_witness:
  "\<exists>w'. settle_library 9001 sample_library_state \<lparr>lb_db = sample_library_db, lb_cycle = new_cycle 1\<rparr> = Inr w' \<and>
     pc_library_new_ids (lb_cycle w') = {10} \<and> pc_library_desired (lb_cycle w') 10 = Some True"
proof -
  obtain w' where w': "settle_library 9001 sample_library_state \<lparr>lb_db = sample_library_db, lb_cycle = new_cycle 1\<rparr> = Inr w'"
    "pc_library_new_ids (lb_cycle w') = {10}"
    using sample_settle_run by (auto split: sum.splits)
  from settle_library_delivers_approved [OF w'(1)] w' show ?thesis by auto
qed

lemma sample_memberships_run:
  "case apply_memberships 9001 sample_library_state sample_library_db of
     Inr db \<Rightarrow> collection_table db = [] \<and> collection_file_table db = [] | Inl _ \<Rightarrow> False"
  by code_simp

lemma memberships_delete_only_gone_witness:
  "(\<exists>db'. apply_memberships 9001 sample_library_state sample_library_db = Inr db' \<and> collection_file_table db' = []) \<and>
   connection_current sample_library_db sample_library_state 5"
proof -
  obtain db' where db': "apply_memberships 9001 sample_library_state sample_library_db = Inr db'" "collection_file_table db' = []"
    using sample_memberships_run by (auto split: sum.splits)
  have "sample_file \<in> set (collection_file_table sample_library_db)" by (simp add: sample_library_db_def)
  with memberships_delete_only_gone [OF db'(1)] db'(2) show ?thesis
    using db' by (auto simp: sample_library_db_def sample_file_def)
qed

end
