(* ===== verification/NuvioPayloads.thy ===== *)
theory NuvioPayloads
  imports Models IsoTime
begin

text \<open>
  The records sent to Nuvio, from \<open>core/nuvio_payloads.py\<close>: the identifier of a title, its library entry, a
  viewing, a resume position, the positions a full push makes obsolete, and the identifier a profile already uses.
  A title is described by its own row or by its show; \<open>AttributeError\<close> on malformed catalogue data is not modelled.
\<close>

section \<open>Identifiers\<close>

datatype entity = MediaEntity media | ShowEntity show_row

fun entity_data :: "entity \<Rightarrow> pydict" where
  "entity_data (MediaEntity m) = (case m_tmdb_data m of None \<Rightarrow> [] | Some d \<Rightarrow> d)"
| "entity_data (ShowEntity s) = (case s_tmdb_data s of None \<Rightarrow> [] | Some d \<Rightarrow> d)"

text \<open>A show has no column of that name.\<close>

fun entity_imdb :: "entity \<Rightarrow> pyval" where
  "entity_imdb (MediaEntity m) = (case m_imdb_id m of None \<Rightarrow> VNone | Some s \<Rightarrow> VStr s)"
| "entity_imdb (ShowEntity s) = VNone"

fun entity_tmdb :: "entity \<Rightarrow> int option" where
  "entity_tmdb (MediaEntity m) = m_tmdb_id m"
| "entity_tmdb (ShowEntity s) = s_tmdb_id s"

definition valid_imdb_id :: "pyval \<Rightarrow> string option" where
  "valid_imdb_id v =
     (let candidate = strip (py_str (py_or v (VStr []))) in
      if starts_with ''tt'' candidate \<and> isdigit (drop 2 candidate) then Some candidate else None)"

definition external_imdb :: "pydict \<Rightarrow> pyval" where
  "external_imdb d = get (dict_or_empty (get d ''external_ids'')) ''imdb_id''"

definition imdb_id :: "entity option \<Rightarrow> string option" where
  "imdb_id e =
     (case e of None \<Rightarrow> None
      | Some x \<Rightarrow> valid_imdb_id (py_or (py_or (get (entity_data x) ''imdb_id'') (external_imdb (entity_data x))) (entity_imdb x)))"

definition show_entity :: "show_row option \<Rightarrow> entity option" where
  "show_entity s = map_option ShowEntity s"

definition describing :: "media \<Rightarrow> show_row option \<Rightarrow> entity" where
  "describing m s = (case s of None \<Rightarrow> MediaEntity m | Some x \<Rightarrow> ShowEntity x)"

definition library_content_id :: "media \<Rightarrow> show_row option \<Rightarrow> string option" where
  "library_content_id m s = imdb_id (Some (describing m s))"

section \<open>Library entries and viewings\<close>

definition genre_name :: "pyval \<Rightarrow> pyval" where
  "genre_name g = (case g of VDict d \<Rightarrow> get d ''name'' | _ \<Rightarrow> g)"

definition genres :: "entity \<Rightarrow> string list" where
  "genres e = map py_str (filter truthy (map genre_name (list_or_empty (get (entity_data e) ''genres''))))"

definition opt_str :: "string option \<Rightarrow> pyval" where
  "opt_str s = (case s of None \<Rightarrow> VNone | Some x \<Rightarrow> VStr x)"

definition opt_int :: "int option \<Rightarrow> pyval" where
  "opt_int i = (case i of None \<Rightarrow> VNone | Some x \<Rightarrow> VInt x)"

definition opt_float :: "rat option \<Rightarrow> pyval" where
  "opt_float r = (case r of None \<Rightarrow> VNone | Some x \<Rightarrow> VFloat x)"

text \<open>\<open>int(t.timestamp() * 1000)\<close>.\<close>

definition unix_ms :: "datetime \<Rightarrow> int" where
  "unix_ms t = (if 0 \<le> t then t div 1000 else - ((- t) div 1000))"

fun entity_date :: "entity \<Rightarrow> string option" where
  "entity_date (MediaEntity m) = m_release_date m"
| "entity_date (ShowEntity s) = s_first_air_date s"

fun entity_title :: "entity \<Rightarrow> string" where
  "entity_title (MediaEntity m) = m_title m"
| "entity_title (ShowEntity s) = s_title s"

fun entity_images :: "entity \<Rightarrow> pyval \<times> pyval" where
  "entity_images (MediaEntity m) = (opt_str (m_poster_path m), opt_str (m_backdrop_path m))"
| "entity_images (ShowEntity s) = (opt_str (s_poster_path s), opt_str (s_backdrop_path s))"

fun entity_text :: "entity \<Rightarrow> pyval \<times> pyval" where
  "entity_text (MediaEntity m) = (opt_str (m_overview m), opt_float (m_tmdb_rating m))"
| "entity_text (ShowEntity s) = (opt_str (s_overview s), opt_float (s_tmdb_rating s))"

definition release_year :: "string option \<Rightarrow> pyval" where
  "release_year d = (case d of None \<Rightarrow> VNone | Some s \<Rightarrow> if s = [] then VNone else VStr (take 4 s))"

definition library_item :: "media \<Rightarrow> datetime \<Rightarrow> show_row option \<Rightarrow> pydict option" where
  "library_item m added_at s =
     (case library_content_id m s of
        None \<Rightarrow> None
      | Some cid \<Rightarrow>
        (let e = describing m s in
         Some [(''content_id'', VStr cid),
           (''content_type'', VStr (if m_media_type m = Movie then ''movie'' else ''series'')),
           (''name'', VStr (if m_media_type m = Series then m_title m else entity_title e)),
           (''poster'', fst (entity_images e)), (''poster_shape'', VStr ''poster''), (''background'', snd (entity_images e)),
           (''description'', fst (entity_text e)), (''release_info'', release_year (entity_date e)),
           (''imdb_rating'', snd (entity_text e)), (''genres'', VList (map VStr (genres e))),
           (''added_at'', VInt (unix_ms added_at))]))"

text \<open>A movie or series is named by its own identifier, an episode by its show's and its place.\<close>

definition named_record :: "string \<Rightarrow> string \<Rightarrow> media \<Rightarrow> pyval \<Rightarrow> pydict" where
  "named_record cid kind m at_ms =
     [(''content_id'', VStr cid), (''content_type'', VStr kind), (''title'', VStr (m_title m)), (''watched_at'', at_ms)]"

definition watched_item :: "media \<Rightarrow> datetime option \<Rightarrow> show_row option \<Rightarrow> bool \<Rightarrow> pydict option" where
  "watched_item m watched_at s include_unknown_date =
     (if watched_at = None \<and> \<not> include_unknown_date then None
      else
        let at_ms = opt_int (map_option unix_ms watched_at); own = imdb_id (Some (MediaEntity m)); parent = imdb_id (show_entity s) in
        case (m_media_type m, own, parent, m_season_number m, m_episode_number m) of
          (Movie, Some cid, _, _, _) \<Rightarrow> Some (named_record cid ''movie'' m at_ms)
        | (Episode, _, Some cid, Some season, Some episode) \<Rightarrow>
            Some [(''content_id'', VStr cid), (''content_type'', VStr ''series''), (''title'', VStr (m_title m)),
                  (''season'', VInt season), (''episode'', VInt episode), (''watched_at'', at_ms)]
        | (Series, Some cid, _, _, _) \<Rightarrow> Some (named_record cid ''series'' m at_ms)
        | _ \<Rightarrow> None)"

section \<open>Resume positions\<close>

definition place_video :: "string \<Rightarrow> (pyval \<times> pyval) option \<Rightarrow> string" where
  "place_video cid place = (case place of None \<Rightarrow> cid | Some (s, e) \<Rightarrow> cid @ '':'' @ py_str s @ '':'' @ py_str e)"

definition place_key :: "string \<Rightarrow> (pyval \<times> pyval) option \<Rightarrow> string" where
  "place_key cid place = (case place of None \<Rightarrow> cid | Some (s, e) \<Rightarrow> cid @ ''_s'' @ py_str s @ ''e'' @ py_str e)"

definition position_ms :: "bool \<Rightarrow> int \<Rightarrow> int" where
  "position_ms fractional seconds = (if fractional then round_half_even (of_int seconds * 1000) else seconds * 1000)"

definition duration_ms :: "media \<Rightarrow> int \<Rightarrow> rat \<Rightarrow> int" where
  "duration_ms m pos percent =
     max pos (case m_runtime m of
        Some r \<Rightarrow> if 0 < r then r * 60000 else round_half_even (of_int pos / max (min percent 1) (1 / 100))
      | None \<Rightarrow> round_half_even (of_int pos / max (min percent 1) (1 / 100)))"

definition movie_progress :: "string \<Rightarrow> int \<Rightarrow> int \<Rightarrow> pydict" where
  "movie_progress cid pos dur =
     [(''content_id'', VStr cid), (''content_type'', VStr ''movie''), (''video_id'', VStr (place_video cid None)),
      (''position'', VInt pos), (''duration'', VInt dur), (''progress_key'', VStr (place_key cid None))]"

definition episode_progress :: "string \<Rightarrow> int \<Rightarrow> int \<Rightarrow> int \<Rightarrow> int \<Rightarrow> pydict" where
  "episode_progress cid season episode pos dur =
     (let place = Some (VInt season, VInt episode) in
      [(''content_id'', VStr cid), (''content_type'', VStr ''series''), (''video_id'', VStr (place_video cid place)),
       (''season'', VInt season), (''episode'', VInt episode), (''position'', VInt pos), (''duration'', VInt dur),
       (''progress_key'', VStr (place_key cid place))])"

definition with_last_watched :: "datetime option \<Rightarrow> pydict \<Rightarrow> pydict" where
  "with_last_watched t d = (case t of None \<Rightarrow> d | Some x \<Rightarrow> dict_set ''last_watched'' (VInt (unix_ms x)) d)"

definition progress_item :: "int \<Rightarrow> rat \<Rightarrow> datetime option \<Rightarrow> media \<Rightarrow> show_row option \<Rightarrow> bool \<Rightarrow> pydict option" where
  "progress_item raw_seconds percent updated_at m s fractional =
     (let seconds = max 0 raw_seconds in
      if seconds \<le> 0 \<or> percent \<le> 0 then None
      else
        let pos = position_ms fractional seconds; dur = duration_ms m pos percent;
            own = imdb_id (Some (MediaEntity m)); parent = imdb_id (show_entity s) in
        case (m_media_type m, own, parent, m_season_number m, m_episode_number m) of
          (Movie, Some cid, _, _, _) \<Rightarrow> Some (with_last_watched updated_at (movie_progress cid pos dur))
        | (Episode, _, Some cid, Some season, Some episode) \<Rightarrow>
            Some (with_last_watched updated_at (episode_progress cid season episode pos dur))
        | _ \<Rightarrow> None)"

definition progress_matches :: "pydict \<Rightarrow> pydict \<Rightarrow> bool" where
  "progress_matches a b \<longleftrightarrow>
     list_all (\<lambda>k. py_eq (get a k) (get b k))
       [''content_id'', ''content_type'', ''position'', ''duration'', ''season'', ''episode'', ''progress_key'']"

text \<open>\<open>NuvioAPIError\<close> is a provider error.\<close>

definition row_text :: "pydict \<Rightarrow> string \<Rightarrow> string" where
  "row_text row k = py_str (py_or (get row k) (VStr []))"

definition obsolete_row :: "(string \<rightharpoonup> string) \<Rightarrow> pydict \<Rightarrow> bool" where
  "obsolete_row desired row \<longleftrightarrow>
     (case desired (row_text row ''content_id'') of None \<Rightarrow> False | Some key \<Rightarrow> row_text row ''progress_key'' \<noteq> key)"

definition desired_keys :: "pydict list \<Rightarrow> (string \<rightharpoonup> string)" where
  "desired_keys items = map_of (rev (map (\<lambda>i. (py_str (get i ''content_id''), py_str (get i ''progress_key''))) items))"

definition obsolete_progress_keys :: "pydict list \<Rightarrow> pydict list \<Rightarrow> string list result" where
  "obsolete_progress_keys remote_rows desired_items =
     (if list_all (\<lambda>i. map_of i ''content_id'' \<noteq> None \<and> map_of i ''progress_key'' \<noteq> None) desired_items
      then and_then (map_result (\<lambda>row. if truthy (get row ''progress_key'') then Inr (row_text row ''progress_key'')
                                         else Inl (ProviderError ''NuvioAPIError''))
                       (filter (obsolete_row (desired_keys desired_items)) remote_rows))
             (\<lambda>keys. Inr (first_seen keys))
      else Inl KeyError)"

section \<open>The identifier a profile already uses\<close>

definition snapshot_mappings :: "stream_baseline option \<Rightarrow> pydict" where
  "snapshot_mappings b = (case b of None \<Rightarrow> [] | Some x \<Rightarrow> dict_or_empty (get (sb_snapshot x) ''mappings''))"

definition target_entity :: "media \<Rightarrow> show_row option \<Rightarrow> entity option" where
  "target_entity m s = (if m_media_type m = Episode then show_entity s else Some (MediaEntity m))"

definition matching_ids :: "stream_baseline option \<Rightarrow> int option \<Rightarrow> string list" where
  "matching_ids b target =
     (case target of None \<Rightarrow> []
      | Some t \<Rightarrow> map fst (filter (\<lambda>(k, v). py_str v = show_int t) (snapshot_mappings b)))"

definition direct_id :: "entity option \<Rightarrow> string option" where
  "direct_id e =
     (case e of None \<Rightarrow> None
      | Some x \<Rightarrow> valid_imdb_id (py_or (py_or (entity_imdb x) (get (entity_data x) ''imdb_id'')) (external_imdb (entity_data x))))"

definition first_matching :: "string list \<Rightarrow> string option \<Rightarrow> string option" where
  "first_matching matching direct =
     (case find (\<lambda>k. valid_imdb_id (VStr k) \<noteq> None) matching of
        Some k \<Rightarrow> Some k
      | None \<Rightarrow> (if matching = [] \<or> hd matching = [] then direct else Some (hd matching)))"

definition content_id_for_baseline :: "stream_baseline option \<Rightarrow> media \<Rightarrow> show_row option \<Rightarrow> string option" where
  "content_id_for_baseline b m s =
     (let e = target_entity m s; direct = direct_id e;
          matching = matching_ids b (case e of None \<Rightarrow> None | Some x \<Rightarrow> entity_tmdb x)
      in if direct \<noteq> None \<and> the direct \<in> set matching then direct else first_matching matching direct)"

definition place_of :: "pydict \<Rightarrow> (pyval \<times> pyval) option" where
  "place_of item =
     (if get item ''season'' \<noteq> VNone \<and> get item ''episode'' \<noteq> VNone then Some (get item ''season'', get item ''episode'') else None)"

definition remap_payload :: "pydict \<Rightarrow> media \<Rightarrow> show_row option \<Rightarrow> stream_baseline option \<Rightarrow> pydict" where
  "remap_payload item m s baseline =
     (if baseline = None then item
      else case content_id_for_baseline baseline m s of
        None \<Rightarrow> item
      | Some cid \<Rightarrow>
        if cid = [] \<or> get item ''content_id'' = VStr cid then item
        else
          let item1 = dict_set ''content_id'' (VStr cid) item in
          if map_of item1 ''progress_key'' = None then item1
          else dict_set ''progress_key'' (VStr (place_key cid (place_of item)))
                 (dict_set ''video_id'' (VStr (place_video cid (place_of item))) item1))"

section \<open>What the records guarantee\<close>

text \<open>A resume record is keyed by its own identifier and place.\<close>

definition keyed :: "string \<Rightarrow> pydict \<Rightarrow> bool" where
  "keyed cid d \<longleftrightarrow> get d ''content_id'' = VStr cid \<and> get d ''video_id'' = VStr (place_video cid (place_of d))
     \<and> get d ''progress_key'' = VStr (place_key cid (place_of d))"

lemma position_exact [simp]: "position_ms fractional seconds = seconds * 1000"
proof -
  have "(of_int seconds :: rat) * 1000 = of_int (seconds * 1000)" by simp
  then have "round_half_even (of_int seconds * 1000) = seconds * 1000"
    unfolding round_half_even_def by (simp only: floor_of_int Let_def) simp
  then show ?thesis by (simp add: position_ms_def)
qed

lemma keyed_movie: "keyed cid (with_last_watched t (movie_progress cid pos dur))"
  by (simp add: keyed_def with_last_watched_def movie_progress_def place_of_def split: option.split)

lemma keyed_episode: "keyed cid (with_last_watched t (episode_progress cid season episode pos dur))"
  by (simp add: keyed_def with_last_watched_def episode_progress_def place_of_def Let_def split: option.split)

lemma keyed_record:
  assumes "d = with_last_watched t (movie_progress cid pos dur) \<or> d = with_last_watched t (episode_progress cid season episode pos dur)"
  shows "keyed cid d \<and> get d ''position'' = VInt pos \<and> get d ''duration'' = VInt dur \<and> map_of d ''progress_key'' \<noteq> None"
proof -
  have "get d ''position'' = VInt pos" "get d ''duration'' = VInt dur" "map_of d ''progress_key'' \<noteq> None"
    using assms by (auto simp: with_last_watched_def movie_progress_def episode_progress_def Let_def split: option.splits)
  then show ?thesis using assms keyed_movie keyed_episode by blast
qed

lemma progress_item_shape:
  assumes "progress_item seconds percent t m s fractional = Some d"
  shows "0 < seconds \<and> (\<exists>cid season episode. let pos = seconds * 1000; dur = duration_ms m pos percent in
    d = with_last_watched t (movie_progress cid pos dur) \<or> d = with_last_watched t (episode_progress cid season episode pos dur))"
  using assms by (auto simp: progress_item_def Let_def max_def split: if_splits option.splits media_type.splits)

text \<open>A resume position sent to Nuvio is positive and within its duration, and its video and progress keys
  are those of its own identifier and episode.\<close>

lemma progress_item_bounds:
  assumes "progress_item seconds percent t m s fractional = Some d"
  shows "\<exists>cid pos dur. keyed cid d \<and> get d ''position'' = VInt pos \<and> get d ''duration'' = VInt dur
    \<and> pos = seconds * 1000 \<and> 0 < pos \<and> pos \<le> dur"
  proof -
  obtain cid season episode where "0 < seconds"
    "d = with_last_watched t (movie_progress cid (seconds * 1000) (duration_ms m (seconds * 1000) percent))
     \<or> d = with_last_watched t (episode_progress cid season episode (seconds * 1000) (duration_ms m (seconds * 1000) percent))"
    using progress_item_shape [OF assms] by (auto simp: Let_def)
  with keyed_record [OF this(2)] show ?thesis by (auto simp: duration_ms_def)
qed

lemma place_of_set [simp]:
  "k \<notin> {''season'', ''episode''} \<Longrightarrow> place_of (dict_set k v d) = place_of d"
  by (auto simp: place_of_def)

text \<open>A resume record moved to the identifier a profile already uses for its title is keyed by that
  identifier, and keeps every other field.\<close>

lemma remap_payload_keyed:
  assumes "progress_item seconds percent t m s fractional = Some d"
    and "content_id_for_baseline (Some b) m s = Some cid" "cid \<noteq> []"
  shows "keyed cid (remap_payload d m s (Some b)) \<and>
    (\<forall>k. k \<notin> {''content_id'', ''video_id'', ''progress_key''} \<longrightarrow> get (remap_payload d m s (Some b)) k = get d k)"
proof -
  obtain own where own: "keyed own d" "map_of d ''progress_key'' \<noteq> None"
    using progress_item_shape [OF assms(1)] keyed_record by (metis (no_types, lifting))
  show ?thesis
  proof (cases "cid = own")
    case True
    then have "get d ''content_id'' = VStr cid" using own(1) by (simp add: keyed_def)
    then show ?thesis using True own assms(2,3) by (simp add: remap_payload_def)
  next
    case False
    then have "get d ''content_id'' \<noteq> VStr cid" using own(1) by (simp add: keyed_def)
    then show ?thesis using own(2) assms(2,3) by (auto simp: remap_payload_def keyed_def Let_def)
  qed
qed

text \<open>A film at minute ten, known to the profile by the identifier of another catalogue.\<close>

definition sample_movie :: media where
  "sample_movie = (new_media 10 Movie ''Film'' (Some 77) 0)\<lparr>m_imdb_id := Some ''tt0123'', m_runtime := Some 90\<rparr>"

definition sample_profile :: stream_baseline where
  "sample_profile = \<lparr>sb_connection_id = 5, sb_user_id = 1, sb_snapshot = [(''mappings'', VDict [(''tmdb:77'', VInt 77)])],
     sb_approved = True, sb_observed_at = 0\<rparr>"

lemma sample_progress: "progress_item 600 (1 / 9) (Some 5000) sample_movie None False = Some
    (with_last_watched (Some 5000) (movie_progress ''tt0123'' 600000 5400000))"
  by code_simp

lemma sample_content_id: "content_id_for_baseline (Some sample_profile) sample_movie None = Some ''tmdb:77''"
  by code_simp

lemma progress_item_bounds_witness:
  "\<exists>cid pos dur. keyed cid (with_last_watched (Some 5000) (movie_progress ''tt0123'' 600000 5400000))
     \<and> 0 < pos \<and> pos \<le> dur \<and> pos = 600 * (1000 :: int)"
  using progress_item_bounds [OF sample_progress] by auto

lemma remap_payload_keyed_witness:
  "keyed ''tmdb:77'' (remap_payload (with_last_watched (Some 5000) (movie_progress ''tt0123'' 600000 5400000)) sample_movie None
     (Some sample_profile))"
  using remap_payload_keyed [OF sample_progress sample_content_id] by simp

definition imdb_text :: "string \<Rightarrow> bool" where
  "imdb_text s \<longleftrightarrow> starts_with ''tt'' s \<and> isdigit (drop 2 s)"

lemma imdb_id_text: "imdb_id e = Some cid \<Longrightarrow> imdb_text cid"
  by (auto simp: imdb_id_def valid_imdb_id_def imdb_text_def Let_def split: option.splits if_splits)

definition content_typed :: "media \<Rightarrow> pydict \<Rightarrow> bool" where
  "content_typed m d \<longleftrightarrow> (\<exists>cid. get d ''content_id'' = VStr cid \<and> imdb_text cid)
     \<and> get d ''content_type'' = VStr (if m_media_type m = Movie then ''movie'' else ''series'')"

lemma library_item_typed: "library_item m t s = Some d \<Longrightarrow> content_typed m d"
  by (auto simp: library_item_def library_content_id_def content_typed_def Let_def imdb_id_text split: option.splits)

lemma watched_item_typed: "watched_item m t s b = Some d \<Longrightarrow> content_typed m d"
  by (auto simp: watched_item_def named_record_def content_typed_def Let_def imdb_id_text
      split: option.splits media_type.splits if_splits)

lemma progress_item_typed: "progress_item n r t m s b = Some d \<Longrightarrow> content_typed m d"
  by (auto simp: progress_item_def with_last_watched_def movie_progress_def episode_progress_def content_typed_def Let_def
      imdb_id_text split: option.splits media_type.splits if_splits)



end
