(* ===== verification/StreamLibrary.thy ===== *)
theory StreamLibrary
  imports LibraryRound NuvioPayloads CycleFlush WatchIntents
begin

text \<open>
  \<open>core/streaming_library.py\<close>: the explicit choices of the user's library and their delivery to each Stremio or
  Nuvio account that accepts them.  A delivery is \<open>pending\<close>, \<open>applied\<close>, \<open>cancelled\<close>, \<open>observed\<close> (the account
  itself reported the choice) or \<open>cleared\<close> (the account was emptied and must stay so).  The provider writes are
  a parameter, which says for each call whether it raised and what is recorded of the error.
\<close>

section \<open>Deliveries of an intent\<close>

definition streams :: "db \<Rightarrow> int \<Rightarrow> connection list" where
  "streams db user = filter (\<lambda>c. c_user_id c = user \<and> c_type c \<in> {''stremio'', ''nuvio''}) (connection_table db)"

definition stream_source :: "connection \<Rightarrow> collection_source" where
  "stream_source conn = (if c_type conn = ''stremio'' then Stremio else Nuvio)"

definition intent_of :: "db \<Rightarrow> int \<Rightarrow> int \<Rightarrow> library_intent option result" where
  "intent_of db user mid =
     scalar_one_or_none (filter (\<lambda>i. li_user_id i = user \<and> li_media_id i = mid) (library_intent_table db))"

definition collection_for :: "db \<Rightarrow> int \<Rightarrow> int \<Rightarrow> collection_row option result" where
  "collection_for db user mid =
     scalar_one_or_none (filter (\<lambda>c. cl_user_id c = user \<and> cl_media_id c = mid) (collection_table db))"

definition delivery_of :: "db \<Rightarrow> int \<Rightarrow> int \<Rightarrow> library_delivery option" where
  "delivery_of db iid cid = last_row (\<lambda>d. ld_intent_id d = iid \<and> ld_connection_id d = cid) (library_delivery_table db)"

definition update_deliveries :: "datetime \<Rightarrow> (library_delivery \<Rightarrow> bool) \<Rightarrow> (library_delivery \<Rightarrow> library_delivery) \<Rightarrow> db \<Rightarrow> db" where
  "update_deliveries now P f db =
     db\<lparr>library_delivery_table := update_where P (touch_delivery now f) (library_delivery_table db)\<rparr>"

definition add_delivery :: "int \<Rightarrow> int \<Rightarrow> bool \<Rightarrow> string \<Rightarrow> datetime \<Rightarrow> db \<Rightarrow> db" where
  "add_delivery iid cid desired state t db =
     db\<lparr>library_delivery_table := library_delivery_table db @
       [\<lparr>ld_id = next_id ld_id (library_delivery_table db), ld_intent_id = iid, ld_connection_id = cid, ld_desired = desired,
         ld_state = state, ld_attempts = 0, ld_last_error = None, ld_updated_at = t\<rparr>]\<rparr>"

text \<open>\<open>row.desired, row.state, row.attempts, row.last_error = desired, state, 0, None\<close>.\<close>

definition renew :: "bool \<Rightarrow> string \<Rightarrow> datetime \<Rightarrow> library_delivery \<Rightarrow> library_delivery" where
  "renew desired state t d =
     d\<lparr>ld_desired := desired, ld_state := state, ld_attempts := 0, ld_last_error := None, ld_updated_at := t\<rparr>"

section \<open>The library as shown\<close>

record library_row =
  lr_id :: int
  lr_name :: string
  lr_provider :: string
  lr_push_enabled :: bool
  lr_in_library :: bool
  lr_state :: "string option"
  lr_error :: "string option"
  lr_attempts :: int

record library_view =
  lv_in_library :: bool
  lv_pending :: bool
  lv_rows :: "library_row list"

definition memberships :: "db \<Rightarrow> int \<Rightarrow> int \<Rightarrow> int set" where
  "memberships db user mid =
     set (List.map_filter cf_connection_id (filter (\<lambda>f. cf_source f \<in> {Stremio, Nuvio} \<and>
       list_ex (\<lambda>c. cl_id c = cf_collection_id f \<and> cl_user_id c = user \<and> cl_media_id c = mid) (collection_table db))
       (collection_file_table db)))"

definition library_row_of :: "db \<Rightarrow> library_intent option \<Rightarrow> int set \<Rightarrow> connection \<Rightarrow> library_row" where
  "library_row_of db intent members conn =
     (let d = (case intent of None \<Rightarrow> None | Some i \<Rightarrow> if c_push_collection conn then delivery_of db (li_id i) (c_id conn) else None)
      in \<lparr>lr_id = c_id conn, lr_name = c_name conn, lr_provider = c_type conn, lr_push_enabled = c_push_collection conn,
          lr_in_library = (c_id conn \<in> members), lr_state = map_option ld_state d,
          lr_error = (case d of None \<Rightarrow> None | Some x \<Rightarrow> ld_last_error x),
          lr_attempts = (case d of None \<Rightarrow> 0 | Some x \<Rightarrow> ld_attempts x)\<rparr>)"

definition library_state :: "db \<Rightarrow> int \<Rightarrow> int \<Rightarrow> library_view result" where
  "library_state db user mid =
     and_then (intent_of db user mid) (\<lambda>intent.
       let members = memberships db user mid;
           rows = map (library_row_of db intent members) (sort_key c_id (streams db user))
       in Inr \<lparr>lv_in_library = (case intent of Some i \<Rightarrow> li_desired i | None \<Rightarrow> members \<noteq> {}),
               lv_pending = list_ex (\<lambda>r. lr_state r = Some ''pending'') rows, lv_rows = rows\<rparr>)"

section \<open>Choosing\<close>

definition manual_marker :: "int \<Rightarrow> string" where
  "manual_marker mid = ''anylist:'' @ show_int mid"

definition insert_collection :: "datetime \<Rightarrow> int \<Rightarrow> int \<Rightarrow> db \<Rightarrow> db" where
  "insert_collection now user mid db =
     db\<lparr>collection_table := collection_table db @
       [\<lparr>cl_id = next_id cl_id (collection_table db), cl_user_id = user, cl_media_id = mid, cl_added_at = now\<rparr>]\<rparr>"

definition insert_file :: "datetime \<Rightarrow> int \<Rightarrow> int option \<Rightarrow> collection_source \<Rightarrow> string \<Rightarrow> db \<Rightarrow> db" where
  "insert_file now coll conn src sid db =
     db\<lparr>collection_file_table := collection_file_table db @
       [\<lparr>cf_id = next_id cf_id (collection_file_table db), cf_collection_id = coll, cf_connection_id = conn,
         cf_source = src, cf_source_id = Some sid, cf_resolution = VNone, cf_video_codec = VNone, cf_audio_codec = VNone,
         cf_audio_channels = VNone, cf_audio_languages = VNone, cf_subtitle_languages = VNone, cf_file_path = VNone,
         cf_added_at = now\<rparr>]\<rparr>"

definition drop_if_empty :: "int \<Rightarrow> db \<Rightarrow> db" where
  "drop_if_empty coll db =
     (if list_ex (\<lambda>f. cf_collection_id f = coll) (collection_file_table db) then db
      else db\<lparr>collection_table := filter (\<lambda>c. cl_id c \<noteq> coll) (collection_table db)\<rparr>)"

definition ensure_collection :: "datetime \<Rightarrow> int \<Rightarrow> int \<Rightarrow> collection_row option \<Rightarrow> db \<Rightarrow> int \<times> db" where
  "ensure_collection now user mid found db =
     (case found of Some c \<Rightarrow> (cl_id c, db)
      | None \<Rightarrow> (next_id cl_id (collection_table db), insert_collection now user mid db))"

definition set_manual_anchor :: "datetime \<Rightarrow> int \<Rightarrow> int \<Rightarrow> bool \<Rightarrow> db \<Rightarrow> db result" where
  "set_manual_anchor now user mid desired db =
     (let marker = manual_marker mid;
          anchor = (\<lambda>coll f. cf_collection_id f = coll \<and> cf_source f = Manual \<and> cf_source_id f = Some marker) in
      and_then (collection_for db user mid) (\<lambda>found.
        if desired then
          (case ensure_collection now user mid found db of (coll, db1) \<Rightarrow>
             Inr (if list_ex (anchor coll) (collection_file_table db1) then db1 else insert_file now coll None Manual marker db1))
        else case found of
          None \<Rightarrow> Inr db
        | Some c \<Rightarrow> Inr (drop_if_empty (cl_id c)
            (db\<lparr>collection_file_table := filter (\<lambda>f. \<not> anchor (cl_id c) f) (collection_file_table db)\<rparr>))))"

definition library_targets :: "db \<Rightarrow> int \<Rightarrow> connection list" where
  "library_targets db user = filter c_push_collection (streams db user)"

text \<open>The identifier of the intent, whether the choice changed, and the database.\<close>

definition take_choice :: "datetime \<Rightarrow> int \<Rightarrow> int \<Rightarrow> bool \<Rightarrow> library_intent option \<Rightarrow> db \<Rightarrow> int \<times> bool \<times> db" where
  "take_choice now user mid desired found db =
     (case found of
        None \<Rightarrow> (next_id li_id (library_intent_table db), False, set_intent user mid desired now None db)
      | Some i \<Rightarrow> (li_id i, li_desired i \<noteq> desired, set_intent user mid desired now (Some i) db))"

definition queue_target :: "datetime \<Rightarrow> int \<Rightarrow> bool \<Rightarrow> bool \<Rightarrow> connection \<Rightarrow> db \<times> bool \<Rightarrow> db \<times> bool" where
  "queue_target now iid desired changed conn w =
     (case w of (db, queued) \<Rightarrow>
        (case delivery_of db iid (c_id conn) of
           None \<Rightarrow> (add_delivery iid (c_id conn) desired ''pending'' now db, True)
         | Some d \<Rightarrow>
             if changed \<or> ld_desired d \<noteq> desired \<or> ld_state d \<in> {''cancelled'', ''cleared''}
             then (update_deliveries now (\<lambda>x. ld_id x = ld_id d) (renew desired ''pending'' now) db, True)
             else w))"

definition set_library_intent :: "datetime \<Rightarrow> int \<Rightarrow> int \<Rightarrow> bool \<Rightarrow> db \<Rightarrow> (db \<times> bool) result" where
  "set_library_intent now user mid desired db =
     (case find_media db mid of
        None \<Rightarrow> Inl (HTTPException 404)
      | Some m \<Rightarrow>
        if m_media_type m \<notin> {Movie, Series} then Inl (HTTPException 404)
        else
          and_then (intent_of db user mid) (\<lambda>found.
            case take_choice now user mid desired found db of (iid, changed, db1) \<Rightarrow>
              let targets = library_targets db user;
                  db2 = update_deliveries now (\<lambda>d. ld_intent_id d = iid \<and> ld_connection_id d \<notin> c_id ` set targets \<and> ld_state d = ''pending'')
                          (\<lambda>d. d\<lparr>ld_state := ''cancelled''\<rparr>) db1
              in case fold (queue_target now iid desired changed) targets (db2, False) of (db3, queued) \<Rightarrow>
                   and_then (set_manual_anchor now user mid desired db3) (\<lambda>db4. Inr (db4, queued))))"

section \<open>The record of a title\<close>

text \<open>\<open>ensure_imdb_ids\<close> for one title: what TMDB answers is a parameter, an exception is \<open>None\<close>.\<close>

definition with_external_id :: "string \<Rightarrow> pydict option \<Rightarrow> pydict option" where
  "with_external_id imdb d0 =
     (let d = (case d0 of None \<Rightarrow> [] | Some x \<Rightarrow> x) in
      Some (dict_set ''external_ids'' (VDict (dict_set ''imdb_id'' (VStr imdb) (dict_or_empty (get d ''external_ids'')))) d))"

definition store_imdb :: "datetime \<Rightarrow> string \<Rightarrow> entity \<Rightarrow> db \<Rightarrow> db" where
  "store_imdb now imdb e db =
     (case e of
        MediaEntity m \<Rightarrow> db\<lparr>media_table := update_where (\<lambda>x. m_id x = m_id m)
          (touch_media now (\<lambda>x. x\<lparr>m_tmdb_data := with_external_id imdb (m_tmdb_data x)\<rparr>)) (media_table db)\<rparr>
      | ShowEntity s \<Rightarrow> db\<lparr>show_table := update_where (\<lambda>x. s_id x = s_id s)
          (touch_show now (\<lambda>x. x\<lparr>s_tmdb_data := with_external_id imdb (s_tmdb_data x)\<rparr>)) (show_table db)\<rparr>)"

definition ensure_imdb_id ::
  "(string \<Rightarrow> int \<Rightarrow> pydict option) \<Rightarrow> string option \<Rightarrow> datetime \<Rightarrow> media \<Rightarrow> show_row option \<Rightarrow> db \<Rightarrow> db" where
  "ensure_imdb_id external api_key now m s db =
     (if api_key = None \<or> api_key = Some [] then db
      else case m_tmdb_id m of
        None \<Rightarrow> db
      | Some t \<Rightarrow>
        if t = 0 \<or> m_media_type m = Episode then db
        else
          let e = (if m_media_type m = Series then describing m s else MediaEntity m) in
          if imdb_id (Some e) \<noteq> None then db
          else case external (if m_media_type m = Movie then ''movie'' else ''tv'') t of
            None \<Rightarrow> db
          | Some ids \<Rightarrow>
            (case valid_imdb_id (get ids ''imdb_id'') of None \<Rightarrow> db | Some imdb \<Rightarrow> store_imdb now imdb e db))"

definition show_for :: "db \<Rightarrow> media \<Rightarrow> show_row option" where
  "show_for db m =
     (if m_media_type m = Series \<and> m_tmdb_id m \<noteq> None then find (\<lambda>s. s_tmdb_id s = m_tmdb_id m) (show_table db) else None)"

definition library_record :: "db \<Rightarrow> int \<Rightarrow> datetime \<Rightarrow> pydict option" where
  "library_record db mid now =
     (case find_media db mid of
        None \<Rightarrow> None
      | Some m \<Rightarrow>
        (case show_for db m of
           None \<Rightarrow> library_item m now None
         | Some s \<Rightarrow> library_item m now (if library_content_id m (Some s) = None then None else Some s)))"

text \<open>The only exception left is the \<open>ValueError\<close> below, whose text is recorded.\<close>

definition record_for_media ::
  "(string \<Rightarrow> int \<Rightarrow> pydict option) \<Rightarrow> string option \<Rightarrow> datetime \<Rightarrow> media \<Rightarrow> db \<Rightarrow> (string + string) \<times> db" where
  "record_for_media external api_key now m db =
     (let db1 = ensure_imdb_id external api_key now m (show_for db m) db in
      (case library_record db1 (m_id m) now of
         None \<Rightarrow> Inl ''Missing IMDb ID for streaming library delivery''
       | Some item \<Rightarrow> Inr (py_str (get item ''content_id'')), db1))"

section \<open>Dispatch\<close>

text \<open>The text of the refusal of \<open>require_stream_reconciliation\<close>; the apostrophe is U+2019, in UTF-8.\<close>

definition gate_detail :: "db \<Rightarrow> int option \<Rightarrow> connection \<Rightarrow> string" where
  "gate_detail db handoff conn =
     (if active_clear db (c_id conn) then ''A provider clear is in progress; retry this write after it completes''
      else if truthy (get (baseline_snapshot (stream_baseline_of db (c_id conn))) ''clear_guard'')
      then ''A provider clear is incomplete; retry Clear data or run a full resync before pushing''
      else if onboarding_pending db handoff conn False False then ''Complete the first import before syncing this connection''
      else if (case stream_baseline_of db (c_id conn) of None \<Rightarrow> True | Some b \<Rightarrow> \<not> sb_approved b)
      then ''Run a full import and confirm its summary in Notifications before pushing to this connection''
      else ''Resolve this connection'' @ [CHR 0xE2, CHR 0x80, CHR 0x99] @ ''s conflicts in Notifications before pushing'')"

text \<open>A write: the account, the identifier of the title and whether it is wanted.  It may raise an
  \<open>HTTPException\<close>, with its detail, or an exception of the named class.\<close>

datatype library_call = LibraryWrite (lc_connection: int) (lc_content: string) (lc_desired: bool)

datatype write_error = Refused string | Raised string

fun error_text :: "write_error \<Rightarrow> string" where
  "error_text (Refused d) = d"
| "error_text (Raised c) = c"

definition pushed_ids :: "connection \<Rightarrow> string set" where
  "pushed_ids conn = (case c_stremio_pushed_library_ids conn of None \<Rightarrow> {} | Some xs \<Rightarrow> set (List.map_filter as_str xs))"

definition note_pushed :: "string \<Rightarrow> bool \<Rightarrow> int \<Rightarrow> db \<Rightarrow> db" where
  "note_pushed content desired cid db =
     db\<lparr>connection_table := update_where (\<lambda>c. c_id c = cid)
       (\<lambda>c. c\<lparr>c_stremio_pushed_library_ids := Some (map VStr (sorted_list_of_set
          (if desired then insert content (pushed_ids c) else pushed_ids c - {content})))\<rparr>) (connection_table db)\<rparr>"

definition member_file :: "int \<Rightarrow> connection \<Rightarrow> collection_file \<Rightarrow> bool" where
  "member_file coll conn f \<longleftrightarrow> cf_collection_id f = coll \<and> cf_connection_id f = Some (c_id conn) \<and> cf_source f = stream_source conn"

text \<open>\<open>uq_collection_file_source\<close>: another row has the collection, the source and the identifier.\<close>

definition taken :: "int \<Rightarrow> connection \<Rightarrow> string \<Rightarrow> int option \<Rightarrow> db \<Rightarrow> bool" where
  "taken coll conn content own db \<longleftrightarrow>
     list_ex (\<lambda>f. cf_collection_id f = coll \<and> cf_source f = stream_source conn \<and> cf_source_id f = Some content \<and> Some (cf_id f) \<noteq> own)
       (collection_file_table db)"

definition put_member :: "datetime \<Rightarrow> int \<Rightarrow> connection \<Rightarrow> string \<Rightarrow> db \<Rightarrow> db result" where
  "put_member now coll conn content db =
     (case filter (member_file coll conn) (collection_file_table db) of
        [] \<Rightarrow> if taken coll conn content None db then Inl IntegrityError
              else Inr (insert_file now coll (Some (c_id conn)) (stream_source conn) content db)
      | f # _ \<Rightarrow> if taken coll conn content (Some (cf_id f)) db then Inl IntegrityError
                 else Inr (db\<lparr>collection_file_table := update_where (\<lambda>x. cf_id x = cf_id f)
                        (\<lambda>x. x\<lparr>cf_source_id := Some content\<rparr>) (collection_file_table db)\<rparr>))"

definition record_membership :: "datetime \<Rightarrow> int \<Rightarrow> int \<Rightarrow> connection \<Rightarrow> string \<Rightarrow> bool \<Rightarrow> db \<Rightarrow> db result" where
  "record_membership now user mid conn content desired db =
     and_then (collection_for db user mid) (\<lambda>found.
     and_then (if desired then (case ensure_collection now user mid found db of (coll, db1) \<Rightarrow> put_member now coll conn content db1)
               else case found of None \<Rightarrow> Inr db
                 | Some c \<Rightarrow> Inr (drop_if_empty (cl_id c)
                     (db\<lparr>collection_file_table := filter (\<lambda>f. \<not> member_file (cl_id c) conn f) (collection_file_table db)\<rparr>)))
       (\<lambda>db1. Inr (note_pushed content desired (c_id conn) db1)))"

record library_world =
  lw_db :: db
  lw_sent :: "library_call list"

definition set_delivery :: "datetime \<Rightarrow> int \<Rightarrow> (library_delivery \<Rightarrow> library_delivery) \<Rightarrow> db \<Rightarrow> db" where
  "set_delivery now did f db = update_deliveries now (\<lambda>d. ld_id d = did) f db"

definition accepts_library :: "int \<Rightarrow> connection \<Rightarrow> bool" where
  "accepts_library user conn \<longleftrightarrow> c_user_id conn = user \<and> c_push_collection conn \<and> c_type conn \<in> {''stremio'', ''nuvio''}"

text \<open>A clash of \<open>_record_membership\<close> surfaces when the session is flushed, outside the handler: it ends the
  dispatch, and nothing of it is stored.\<close>

definition deliver_row ::
  "(library_call \<Rightarrow> write_error option) \<Rightarrow> datetime \<Rightarrow> int option \<Rightarrow> int \<Rightarrow> int \<Rightarrow> string \<Rightarrow> library_delivery \<Rightarrow>
   library_world \<Rightarrow> library_world result" where
  "deliver_row outcome now handoff user mid content row w =
     (let db = lw_db w; failed = (\<lambda>text. set_delivery now (ld_id row) (\<lambda>d. d\<lparr>ld_last_error := Some text\<rparr>)) in
      case find_connection db (ld_connection_id row) of
        None \<Rightarrow> Inr (w\<lparr>lw_db := set_delivery now (ld_id row) (\<lambda>d. d\<lparr>ld_state := ''cancelled''\<rparr>) db\<rparr>)
      | Some conn \<Rightarrow>
        if \<not> accepts_library user conn
        then Inr (w\<lparr>lw_db := set_delivery now (ld_id row) (\<lambda>d. d\<lparr>ld_state := ''cancelled''\<rparr>) db\<rparr>)
        else
          let db1 = set_delivery now (ld_id row) (\<lambda>d. d\<lparr>ld_attempts := ld_attempts d + 1, ld_updated_at := now\<rparr>) db in
          if require_stream_reconciliation db1 handoff conn \<noteq> Inr ()
          then Inr (w\<lparr>lw_db := failed (gate_detail db1 handoff conn) db1\<rparr>)
          else
            let call = LibraryWrite (c_id conn) content (ld_desired row); w1 = w\<lparr>lw_sent := lw_sent w @ [call]\<rparr> in
            case outcome call of
              Some e \<Rightarrow> Inr (w1\<lparr>lw_db := failed (error_text e) db1\<rparr>)
            | None \<Rightarrow>
              (case record_membership now user mid conn content (ld_desired row) db1 of
                 Inl IntegrityError \<Rightarrow> Inl IntegrityError
               | Inl e \<Rightarrow> Inr (w1\<lparr>lw_db := failed (error_name e) db1\<rparr>)
               | Inr db2 \<Rightarrow> Inr (w1\<lparr>lw_db := set_delivery now (ld_id row) (\<lambda>d. d\<lparr>ld_state := ''applied'', ld_last_error := None\<rparr>) db2\<rparr>)))"

definition pending_deliveries :: "db \<Rightarrow> int \<Rightarrow> library_delivery list" where
  "pending_deliveries db iid =
     sort_key ld_id (filter (\<lambda>d. ld_intent_id d = iid \<and> ld_state d = ''pending'') (library_delivery_table db))"

record delivery_env =
  de_external :: "string \<Rightarrow> int \<Rightarrow> pydict option"
  de_api_key :: "string option"
  de_outcome :: "library_call \<Rightarrow> write_error option"
  de_now :: datetime
  de_handoff :: "int option"

definition dispatch_library_deliveries :: "delivery_env \<Rightarrow> int \<Rightarrow> int \<Rightarrow> library_world \<Rightarrow> library_world result" where
  "dispatch_library_deliveries env user mid w =
     (let db = lw_db w; now = de_now env in
      and_then (intent_of db user mid) (\<lambda>intent.
        case (intent, find_media db mid) of
          (Some i, Some m) \<Rightarrow>
            (let pending = pending_deliveries db (li_id i) in
             if pending = [] then Inr w
             else case record_for_media (de_external env) (de_api_key env) now m db of
               (Inl text, db1) \<Rightarrow>
                 Inr (w\<lparr>lw_db := fold (\<lambda>row. set_delivery now (ld_id row)
                   (\<lambda>d. d\<lparr>ld_attempts := ld_attempts d + 1, ld_last_error := Some text, ld_updated_at := now\<rparr>)) pending db1\<rparr>)
             | (Inr content, db1) \<Rightarrow>
                 fold_result (deliver_row (de_outcome env) now (de_handoff env) user mid content) pending (w\<lparr>lw_db := db1\<rparr>))
        | _ \<Rightarrow> Inr w))"

section \<open>Retrying, mirroring and clearing\<close>

definition align_intent :: "datetime \<Rightarrow> int \<Rightarrow> library_intent \<Rightarrow> db \<Rightarrow> db" where
  "align_intent now cid i db =
     (case delivery_of db (li_id i) cid of
        None \<Rightarrow> add_delivery (li_id i) cid (li_desired i) ''pending'' now db
      | Some d \<Rightarrow>
          if ld_desired d \<noteq> li_desired i \<or> ld_state d = ''cancelled''
          then set_delivery now (ld_id d) (renew (li_desired i) ''pending'' now) db else db)"

definition intents_of :: "db \<Rightarrow> int \<Rightarrow> library_intent list" where
  "intents_of db user = sort_key li_id (filter (\<lambda>i. li_user_id i = user) (library_intent_table db))"

definition due_titles :: "db \<Rightarrow> int \<Rightarrow> int \<Rightarrow> int list" where
  "due_titles db user cid =
     take 100 (concat (map (\<lambda>d. map li_media_id (filter (\<lambda>i. li_id i = ld_intent_id d \<and> li_user_id i = user) (library_intent_table db)))
       (sort_key ld_id (filter (\<lambda>d. ld_connection_id d = cid \<and> ld_state d = ''pending'') (library_delivery_table db)))))"

definition retry_pending_library_deliveries :: "delivery_env \<Rightarrow> int \<Rightarrow> int \<Rightarrow> library_world \<Rightarrow> library_world result" where
  "retry_pending_library_deliveries env user cid w =
     (case find_connection (lw_db w) cid of
        None \<Rightarrow> Inr w
      | Some conn \<Rightarrow>
        if \<not> accepts_library user conn then Inr w
        else
          let db1 = fold (align_intent (de_now env) cid) (intents_of (lw_db w) user) (lw_db w)
          in fold_result (dispatch_library_deliveries env user) (due_titles db1 user cid) (w\<lparr>lw_db := db1\<rparr>))"

definition user_pending :: "db \<Rightarrow> int \<Rightarrow> int \<Rightarrow> library_delivery list" where
  "user_pending db user mid =
     filter (\<lambda>d. ld_state d = ''pending'' \<and>
       list_ex (\<lambda>i. li_id i = ld_intent_id d \<and> li_user_id i = user \<and> li_media_id i = mid) (library_intent_table db))
       (library_delivery_table db)"

definition oldest_first :: "db \<Rightarrow> int \<Rightarrow> int list" where
  "oldest_first db user =
     (let mids = filter (\<lambda>m. user_pending db user m \<noteq> [])
            (first_seen (map li_media_id (filter (\<lambda>i. li_user_id i = user) (library_intent_table db))));
          least = (\<lambda>f m. Min (f ` set (user_pending db user m)))
      in sort_key (\<lambda>m. (least ld_updated_at m, least ld_attempts m, least ld_id m)) mids)"

definition dispatch_pending_library_deliveries :: "delivery_env \<Rightarrow> int \<Rightarrow> int \<Rightarrow> library_world \<Rightarrow> (nat \<times> library_world) result" where
  "dispatch_pending_library_deliveries env user limit w =
     (let mids = take (nat (max 0 limit)) (oldest_first (lw_db w) user) in
      and_then (fold_result (dispatch_library_deliveries env user) mids w) (\<lambda>w'. Inr (length mids, w')))"

text \<open>An accepted change of some accounts, for the others.\<close>

definition settle_row :: "datetime \<Rightarrow> int \<Rightarrow> bool \<Rightarrow> string \<Rightarrow> int \<Rightarrow> db \<Rightarrow> db" where
  "settle_row now iid desired state cid db =
     (case delivery_of db iid cid of
        None \<Rightarrow> add_delivery iid cid desired state now db
      | Some d \<Rightarrow> set_delivery now (ld_id d) (renew desired state now) db)"

definition change_sources :: "int set \<Rightarrow> (int \<rightharpoonup> int set) option \<Rightarrow> int \<Rightarrow> int set" where
  "change_sources legacy by_media mid =
     (case by_media of None \<Rightarrow> legacy | Some m \<Rightarrow> (case m mid of None \<Rightarrow> {} | Some s \<Rightarrow> s))"

definition desired_of :: "db \<Rightarrow> int \<Rightarrow> (int \<rightharpoonup> bool) option \<Rightarrow> int \<Rightarrow> bool" where
  "desired_of db user by_media mid =
     (let collected = list_ex (\<lambda>c. cl_user_id c = user \<and> cl_media_id c = mid) (collection_table db) in
      case by_media of None \<Rightarrow> collected | Some m \<Rightarrow> (case m mid of None \<Rightarrow> collected | Some b \<Rightarrow> b))"

definition queue_change ::
  "datetime \<Rightarrow> int \<Rightarrow> connection list \<Rightarrow> (int \<rightharpoonup> datetime) \<Rightarrow> int set \<Rightarrow> (int \<rightharpoonup> int set) option \<Rightarrow> (int \<rightharpoonup> bool) option \<Rightarrow>
   int \<Rightarrow> db \<times> nat \<Rightarrow> (db \<times> nat) result" where
  "queue_change now user all_targets observed legacy by_media desired_by mid w =
     (case w of (db, queued) \<Rightarrow>
        let sources = change_sources legacy by_media mid in
        (case observed mid of
           None \<Rightarrow> Inr w
         | Some t \<Rightarrow>
           if sources = {} then Inr w
           else and_then (intent_of db user mid) (\<lambda>found.
             if (case found of None \<Rightarrow> False | Some i \<Rightarrow> t < li_updated_at i) then Inr w
             else
               let desired = desired_of db user desired_by mid;
                   targets = filter (\<lambda>c. c_id c \<notin> sources) all_targets
               in case take_choice t user mid desired found db of (iid, _, db1) \<Rightarrow>
                    let db2 = fold (settle_row now iid desired ''observed'') (sorted_list_of_set sources) db1;
                        db3 = fold (settle_row now iid desired ''pending'') (map c_id targets) db2
                    in Inr (db3, queued + length targets))))"

definition queue_provider_library_changes ::
  "datetime \<Rightarrow> destination \<Rightarrow> int \<Rightarrow> int set \<Rightarrow> int set \<Rightarrow> (int \<rightharpoonup> datetime) \<Rightarrow> (int \<rightharpoonup> int set) option \<Rightarrow> (int \<rightharpoonup> bool) option \<Rightarrow>
   db \<Rightarrow> (db \<times> nat) result" where
  "queue_provider_library_changes now destination user changed legacy observed by_media desired_by db =
     (if changed = {} \<or> (by_media = None \<and> legacy = {}) then Inr (db, 0)
      else and_then (connection_clause destination) (\<lambda>clause.
        let all_targets = sort_key c_id (filter (\<lambda>c. clause (c_id c) \<and> (by_media = None \<longrightarrow> c_id c \<notin> legacy)) (library_targets db user))
        in fold_result (queue_change now user all_targets observed legacy by_media desired_by) (sorted_list_of_set changed) (db, 0)))"

definition clear_intent :: "datetime \<Rightarrow> int \<Rightarrow> library_intent \<Rightarrow> db \<times> nat \<Rightarrow> db \<times> nat" where
  "clear_intent now cid i w =
     (case w of (db, changed) \<Rightarrow>
        (case delivery_of db (li_id i) cid of
           None \<Rightarrow> (add_delivery (li_id i) cid (li_desired i) ''cleared'' now db, changed + 1)
         | Some d \<Rightarrow>
             (set_delivery now (ld_id d) (\<lambda>x. x\<lparr>ld_desired := li_desired i, ld_state := ''cleared'', ld_last_error := None\<rparr>) db,
              if ld_state d \<noteq> ''cleared'' \<or> ld_desired d \<noteq> li_desired i \<or> ld_last_error d \<noteq> None then changed + 1 else changed)))"

definition clear_pending_library_deliveries :: "datetime \<Rightarrow> int \<Rightarrow> int \<Rightarrow> db \<Rightarrow> db \<times> nat" where
  "clear_pending_library_deliveries now user cid db = fold (clear_intent now cid) (intents_of db user) (db, 0)"

end
