(* ===== verification/NextUp.thy ===== *)
theory NextUp
  imports NuvioPayloads
begin

text \<open>
  The visibility of Next Up on Nuvio: the settings adapters of \<open>core/nuvio_settings.py\<close> and the identifiers and
  echo markers of \<open>core/nuvio_visibility.py\<close>.  A television profile stores the hidden titles themselves, a mobile
  profile one key per hidden episode inside a JSON text; both implement one set of hidden titles.  Reading and
  writing that text (\<open>json.loads\<close>, \<open>json.dumps\<close>) are the parameters \<open>loads\<close> and \<open>dumps\<close>.
\<close>

section \<open>Seeds\<close>

definition content_key :: "string \<Rightarrow> string" where
  "content_key s = fst (split_once (CHR ''|'') (strip s))"

type_synonym seeds = "string \<rightharpoonup> (int \<times> int) set"

definition coordinate :: "pyval \<Rightarrow> int result" where
  "coordinate v = (case v of VNone \<Rightarrow> Inr (-1) | VInt i \<Rightarrow> Inr i | _ \<Rightarrow> Inl ValueError)"

definition add_seed :: "string list option \<Rightarrow> pydict \<Rightarrow> seeds \<Rightarrow> seeds result" where
  "add_seed aliases row found =
     (let key = strip (row_text row ''content_id'') in
      if key = [] \<or> lower (row_text row ''content_type'') \<notin> {''series'', ''tv''} then Inr found
      else if (case aliases of None \<Rightarrow> False | Some a \<Rightarrow> key \<notin> set a) then Inr found
      else
        and_then (coordinate (get row ''season'')) (\<lambda>s.
        and_then (coordinate (get row ''episode'')) (\<lambda>e.
          Inr (alter_keys (case aliases of None \<Rightarrow> {key} | Some a \<Rightarrow> set a) {} (insert (s, e)) found))))"

definition next_up_seeds :: "pydict list \<Rightarrow> string list option \<Rightarrow> seeds result" where
  "next_up_seeds records aliases = fold_result (add_seed aliases) records Map.empty"

definition seeds_for :: "seeds \<Rightarrow> string \<Rightarrow> (int \<times> int) set" where
  "seeds_for found k = (case found k of None \<Rightarrow> {} | Some xs \<Rightarrow> xs)"

section \<open>Television profiles\<close>

definition string_set :: "pyval \<Rightarrow> string set result" where
  "string_set v =
     (case v of VList xs \<Rightarrow> if list_all (\<lambda>x. as_str x \<noteq> None) xs then Inr (set (List.map_filter as_str xs)) else Inl ValueError
      | _ \<Rightarrow> Inl ValueError)"

definition features :: "pydict \<Rightarrow> pydict result" where
  "features blob = (case map_of blob ''features'' of None \<Rightarrow> Inl KeyError | Some (VDict f) \<Rightarrow> Inr f | _ \<Rightarrow> Inl (ProviderError ''AttributeError''))"

definition tv_tracking :: "pydict \<Rightarrow> pydict result" where
  "tv_tracking f = (case map_of f ''trakt_settings'' of None \<Rightarrow> Inr [] | Some (VDict d) \<Rightarrow> Inr d | _ \<Rightarrow> Inl ValueError)"

definition tv_dismissals :: "pydict \<Rightarrow> string set result" where
  "tv_dismissals blob =
     and_then (features blob) (\<lambda>f. and_then (tv_tracking f) (\<lambda>tracking.
       case (case map_of tracking ''dismissed_next_up_keys'' of
               None \<Rightarrow> VDict [(''type'', VStr ''string_set''), (''value'', VList [])] | Some v \<Rightarrow> v) of
         VDict encoded \<Rightarrow> if get encoded ''type'' = VStr ''string_set'' then string_set (get encoded ''value'') else Inl ValueError
       | _ \<Rightarrow> Inl ValueError))"

definition sorted_strings :: "string set \<Rightarrow> pyval" where
  "sorted_strings keys = VList (map VStr (sorted_list_of_set keys))"

definition tv_store :: "string set \<Rightarrow> pydict \<Rightarrow> pydict result" where
  "tv_store keys blob =
     and_then (features blob) (\<lambda>f. and_then (tv_tracking f) (\<lambda>tracking.
       let encoded = (case map_of tracking ''dismissed_next_up_keys'' of
             Some (VDict e) \<Rightarrow> e | _ \<Rightarrow> [(''type'', VStr ''string_set'')]);
           tracking1 = dict_set ''dismissed_next_up_keys'' (VDict (dict_set ''value'' (sorted_strings keys) encoded)) tracking
       in Inr (dict_set ''features'' (VDict (dict_set ''trakt_settings'' (VDict tracking1) f)) blob)))"

definition tv_keys :: "string set \<Rightarrow> string set \<Rightarrow> string set \<Rightarrow> string set" where
  "tv_keys hidden visible old = {k \<in> old. content_key k \<notin> hidden \<union> visible} \<union> (hidden - visible)"

definition tv_merge :: "pydict \<Rightarrow> string set \<Rightarrow> string set \<Rightarrow> (pydict \<times> string set) result" where
  "tv_merge original hidden visible =
     and_then (tv_dismissals original) (\<lambda>old.
       let keys = tv_keys hidden visible old in
       if keys = old then Inr (original, keys)
       else and_then (tv_store keys original) (\<lambda>blob. Inr (blob, keys)))"

section \<open>Mobile profiles\<close>

definition mobile_payload :: "(string \<Rightarrow> pyval result) \<Rightarrow> pydict \<Rightarrow> pydict result" where
  "mobile_payload loads blob =
     and_then (features blob) (\<lambda>f.
       case (case map_of f ''continue_watching_settings_payload'' of None \<Rightarrow> VStr [] | Some v \<Rightarrow> v) of
         VStr encoded \<Rightarrow>
           if strip encoded = [] then Inr []
           else and_then (loads encoded) (\<lambda>v. case v of VDict d \<Rightarrow> Inr d | _ \<Rightarrow> Inl ValueError)
       | _ \<Rightarrow> Inl ValueError)"

definition payload_dismissals :: "pydict \<Rightarrow> string set result" where
  "payload_dismissals payload = string_set (case map_of payload ''dismissedNextUpKeys'' of None \<Rightarrow> VList [] | Some v \<Rightarrow> v)"

definition mobile_dismissals :: "(string \<Rightarrow> pyval result) \<Rightarrow> pydict \<Rightarrow> string set result" where
  "mobile_dismissals loads blob = and_then (mobile_payload loads blob) payload_dismissals"

definition seed_key :: "string \<Rightarrow> int \<times> int \<Rightarrow> string" where
  "seed_key cid place = cid @ ''|'' @ show_int (fst place) @ ''|'' @ show_int (snd place)"

definition mobile_keys :: "string set \<Rightarrow> string set \<Rightarrow> seeds \<Rightarrow> string set \<Rightarrow> string set" where
  "mobile_keys hidden visible found old =
     {k \<in> old. content_key k \<notin> visible} \<union> (\<Union>cid \<in> hidden - visible. seed_key cid ` seeds_for found cid)"

definition payload_merge :: "pydict \<Rightarrow> string set \<Rightarrow> string set \<Rightarrow> seeds \<Rightarrow> (pydict \<times> string set) result" where
  "payload_merge payload hidden visible found =
     and_then (payload_dismissals payload) (\<lambda>old.
       let keys = mobile_keys hidden visible found old in
       Inr (if keys = old then payload else dict_set ''dismissedNextUpKeys'' (sorted_strings keys) payload, keys))"

definition mobile_merge ::
  "(string \<Rightarrow> pyval result) \<Rightarrow> (pydict \<Rightarrow> string) \<Rightarrow> pydict \<Rightarrow> string set \<Rightarrow> string set \<Rightarrow> seeds \<Rightarrow> (pydict \<times> string set) result" where
  "mobile_merge loads dumps original hidden visible found =
     and_then (mobile_payload loads original) (\<lambda>payload.
     and_then (payload_merge payload hidden visible found) (\<lambda>(payload1, keys).
       if payload_dismissals payload = Inr keys then Inr (original, keys)
       else and_then (features original) (\<lambda>f.
         Inr (dict_set ''features'' (VDict (dict_set ''continue_watching_settings_payload'' (VStr (dumps payload1)) f)) original, keys))))"

section \<open>Identifiers of a title\<close>

definition tmdb_key :: "pyval \<Rightarrow> string option" where
  "tmdb_key v =
     (if v = VNone then None
      else let s = strip (py_str v); key = (if starts_with ''tmdb:'' s then drop 5 s else s)
           in if key = [] then None else Some key)"

text \<open>The identifiers known for a title: its TMDB and IMDb identifiers, those the baseline maps to it, and those of
  rows that carry either.  \<open>kind\<close> is the media type in lower case.\<close>

definition row_kind_fits :: "string \<Rightarrow> pydict \<Rightarrow> bool" where
  "row_kind_fits kind row \<longleftrightarrow>
     (let row_kind = lower (row_text row ''content_type'') in
      (kind \<in> {''series'', ''tv''} \<longrightarrow> row_kind \<in> {[], ''series'', ''tv''}) \<and> (kind = ''movie'' \<longrightarrow> row_kind \<in> {[], ''movie''}))"

definition learn_row :: "string option \<Rightarrow> string option \<Rightarrow> string \<Rightarrow> pydict \<Rightarrow> string set \<Rightarrow> string set" where
  "learn_row tmdb imdb kind row ids =
     (let cid = strip (row_text row ''content_id'');
          row_tmdb = tmdb_key (py_or (get row ''tmdb_id'') (get row ''tmdb''));
          row_imdb = strip (py_str (py_or (py_or (get row ''imdb_id'') (get row ''imdb'')) (VStr [])))
      in if \<not> row_kind_fits kind row \<or> cid = [] then ids
         else if cid \<in> ids \<or> (tmdb \<noteq> None \<and> row_tmdb = tmdb) \<or> (imdb \<noteq> None \<and> Some row_imdb = imdb) then insert cid ids
         else ids)"

definition mapped_ids :: "string option \<Rightarrow> pydict \<Rightarrow> string set" where
  "mapped_ids tmdb mappings =
     set (filter (\<lambda>k. k \<noteq> []) (map (\<lambda>(k, v). strip k) (filter (\<lambda>(k, v). tmdb \<noteq> None \<and> tmdb_key v = tmdb) mappings)))"

definition known_ids :: "string option \<Rightarrow> string option \<Rightarrow> string \<Rightarrow> pydict \<Rightarrow> pydict list \<Rightarrow> string set" where
  "known_ids tmdb imdb kind mappings records =
     fold (learn_row tmdb imdb kind) records
       (mapped_ids tmdb mappings \<union> (case imdb of None \<Rightarrow> {} | Some i \<Rightarrow> {i}) \<union> (case tmdb of None \<Rightarrow> {} | Some t \<Rightarrow> {''tmdb:'' @ t}))"

definition provider_content_ids :: "media \<Rightarrow> stream_baseline option \<Rightarrow> pydict list \<Rightarrow> string list" where
  "provider_content_ids m baseline records =
     sorted_list_of_set (known_ids (tmdb_key (opt_int (m_tmdb_id m))) (imdb_id (Some (MediaEntity m)))
       (media_type_value (m_media_type m)) (snapshot_mappings baseline) records)"

section \<open>Echo markers\<close>

definition echo_markers :: "pydict \<Rightarrow> (string \<times> pydict) list" where
  "echo_markers snapshot =
     List.map_filter (\<lambda>(k, v). map_option (Pair k) (as_dict v)) (dict_or_empty (get snapshot ''cw_visibility_echo''))"

definition mark_key :: "string \<times> bool \<Rightarrow> pydict \<Rightarrow> pydict" where
  "mark_key change marks =
     (let key = strip (fst change) in
      if key = [] then marks
      else if snd change then dict_set key (VBool True) marks
      else filter (\<lambda>(k, v). content_key k \<noteq> content_key key) marks)"

text \<open>What a confirmed write hid (\<open>True\<close>) and showed, per platform.\<close>

definition mark_platform :: "string \<times> (string \<times> bool) list \<Rightarrow> (string \<times> pydict) list \<Rightarrow> (string \<times> pydict) list" where
  "mark_platform written markers =
     (if fst written \<notin> {''tv'', ''mobile''} then markers
      else let marks = fold mark_key (snd written) (dict_get markers (fst written) [])
           in if marks = [] then dict_pop (fst written) markers else dict_set (fst written) marks markers)"

definition echo_snapshot :: "(string \<times> (string \<times> bool) list) list \<Rightarrow> pydict \<Rightarrow> pydict" where
  "echo_snapshot written snapshot =
     (let markers = fold mark_platform written (echo_markers snapshot) in
      if markers = [] then dict_pop ''cw_visibility_echo'' snapshot
      else dict_set ''cw_visibility_echo'' (VDict (map (\<lambda>(k, d). (k, VDict d)) markers)) snapshot)"

definition record_visibility_echo :: "int \<Rightarrow> (string \<times> (string \<times> bool) list) list \<Rightarrow> db \<Rightarrow> db" where
  "record_visibility_echo cid written db =
     (if written = [] then db
      else db\<lparr>stream_baseline_table := update_where (\<lambda>b. sb_connection_id b = cid)
        (\<lambda>b. b\<lparr>sb_snapshot := echo_snapshot written (sb_snapshot b)\<rparr>) (stream_baseline_table db)\<rparr>)"

section \<open>One visibility, two representations\<close>

text \<open>A content identifier that is its own key: no \<open>|\<close> and no surrounding blanks.\<close>

definition plain :: "string \<Rightarrow> bool" where
  "plain s \<longleftrightarrow> content_key s = s"

lemma length_strip: "length (strip s) \<le> length s"
  unfolding strip_def by (metis length_dropWhile_le length_rev le_trans)

lemma plain_parts: "plain s \<Longrightarrow> strip s = s \<and> CHR ''|'' \<notin> set s"
proof -
  assume p: "plain s"
  obtain b where b: "split_once (CHR ''|'') (strip s) = (s, b)" using p by (simp add: plain_def content_key_def prod_eq_iff)
  from split_once_parts [OF this] have s: "strip s = s @ (case b of None \<Rightarrow> [] | Some r \<Rightarrow> CHR ''|'' # r)" "CHR ''|'' \<notin> set s" by auto
  with length_strip [of s] show ?thesis by (cases b) auto
qed

lemma strip_head: "strip s = s \<Longrightarrow> s \<noteq> [] \<Longrightarrow> \<not> is_space (hd s)"
proof
  assume s: "strip s = s" "s \<noteq> []" "is_space (hd s)"
  then have "length (dropWhile is_space s) < length s" by (cases s) (auto simp: length_dropWhile_le less_Suc_eq_le)
  moreover have "length s \<le> length (dropWhile is_space s)"
    using s(1) unfolding strip_def by (metis length_dropWhile_le length_rev)
  ultimately show False by simp
qed

lemma strip_wrapped: "s \<noteq> [] \<Longrightarrow> \<not> is_space (hd s) \<Longrightarrow> \<not> is_space (last s) \<Longrightarrow> strip s = s"
proof -
  assume s: "s \<noteq> []" "\<not> is_space (hd s)" "\<not> is_space (last s)"
  then have "dropWhile is_space s = s" "dropWhile is_space (rev s) = rev s"
    by (simp_all add: dropWhile_eq_self_iff hd_rev)
  then show ?thesis by (simp add: strip_def)
qed

lemma last_show_int: "\<not> is_space (last (show_int i)) \<and> show_int i \<noteq> []"
proof -
  have d: "list_all is_digit (show_nat n) \<and> show_nat n \<noteq> []" for n
    by (induction n rule: show_nat.induct) (auto simp: show_nat.simps is_digit_def digit_char_def)
  have "is_digit (last (show_int i))" "show_int i \<noteq> []"
    using d [of "nat i"] d [of "nat (- i)"] by (auto simp: show_int_def list_all_iff)
  then show ?thesis by (auto simp: is_digit_def is_space_def)
qed

lemma content_key_seed [simp]: "plain cid \<Longrightarrow> content_key (seed_key cid place) = cid"
proof -
  assume p: "plain cid"
  let ?s = "seed_key cid place"
  have "?s \<noteq> []" "\<not> is_space (last ?s)" using last_show_int [of "snd place"] by (auto simp: seed_key_def)
  moreover have "\<not> is_space (hd ?s)"
    using plain_parts [OF p] strip_head [of cid] by (cases cid) (auto simp: seed_key_def is_space_def)
  ultimately have "strip ?s = ?s" by (intro strip_wrapped)
  then show ?thesis using plain_parts [OF p] by (simp add: content_key_def seed_key_def split_once_sep)
qed

lemma tv_titles:
  assumes "\<forall>h \<in> hidden. plain h"
  shows "content_key ` tv_keys hidden visible old = (content_key ` old - visible) \<union> (hidden - visible)"
proof -
  have "content_key ` (hidden - visible) = hidden - visible"
    using assms by (auto simp: plain_def image_iff intro!: bexI [of _ "_ :: string"])
  moreover have "content_key ` {k \<in> old. content_key k \<notin> hidden \<union> visible} = content_key ` old - (hidden \<union> visible)" by auto
  ultimately show ?thesis unfolding tv_keys_def image_Un by blast
qed

lemma mobile_titles:
  assumes "\<forall>h \<in> hidden. plain h"
  shows "content_key ` mobile_keys hidden visible found old
    = (content_key ` old - visible) \<union> {h \<in> hidden - visible. seeds_for found h \<noteq> {}}"
proof -
  have "content_key ` seed_key cid ` seeds_for found cid = (if seeds_for found cid = {} then {} else {cid})" if "cid \<in> hidden" for cid
    using assms that by (auto simp: image_image)
  then have "content_key ` (\<Union>cid \<in> hidden - visible. seed_key cid ` seeds_for found cid)
      = {h \<in> hidden - visible. seeds_for found h \<noteq> {}}"
    unfolding image_UN by (auto split: if_splits)
  moreover have "content_key ` {k \<in> old. content_key k \<notin> visible} = content_key ` old - visible" by auto
  ultimately show ?thesis unfolding mobile_keys_def image_Un by simp
qed

lemma string_set_sorted [simp]: "finite keys \<Longrightarrow> string_set (sorted_strings keys) = Inr keys"
  by (simp add: string_set_def sorted_strings_def list_all_iff map_filter_def comp_def)

lemma string_set_finite: "string_set v = Inr keys \<Longrightarrow> finite keys"
  by (auto simp: string_set_def split: pyval.splits if_splits)

text \<open>What a profile promises: after a merge it reads back the keys that were stored, and the titles they hide are
  the old ones without those shown, with those hidden that the profile can express.\<close>

locale next_up_adapter =
  fixes dismissals :: "'b \<Rightarrow> string set result"
    and merge :: "'b \<Rightarrow> string set \<Rightarrow> string set \<Rightarrow> seeds \<Rightarrow> ('b \<times> string set) result"
    and expresses :: "seeds \<Rightarrow> string \<Rightarrow> bool"
  assumes merged: "dismissals b = Inr old \<Longrightarrow> finite hidden \<Longrightarrow> \<forall>h \<in> hidden. plain h \<and> finite (seeds_for found h) \<Longrightarrow>
    \<exists>b' keys. merge b hidden visible found = Inr (b', keys) \<and> dismissals b' = Inr keys \<and>
      content_key ` keys = (content_key ` old - visible) \<union> {h \<in> hidden - visible. expresses found h}"
begin

lemma shown_wins:
  assumes "dismissals b = Inr old" "finite hidden" "\<forall>h \<in> hidden. plain h \<and> finite (seeds_for found h)"
    and "merge b hidden visible found = Inr (b', keys)"
  shows "dismissals b' = Inr keys \<and> content_key ` keys \<inter> visible = {} \<and>
    {h \<in> hidden - visible. expresses found h} \<subseteq> content_key ` keys"
  using merged [OF assms(1-3), of visible] assms(4) by auto

lemma merge_again:
  assumes "dismissals b = Inr old" "finite hidden" "\<forall>h \<in> hidden. plain h \<and> finite (seeds_for found h)"
    and "merge b hidden visible found = Inr (b1, keys1)"
  shows "\<exists>b2 keys2. merge b1 hidden visible found = Inr (b2, keys2) \<and> content_key ` keys2 = content_key ` keys1"
proof -
  have "dismissals b1 = Inr keys1"
    "content_key ` keys1 = (content_key ` old - visible) \<union> {h \<in> hidden - visible. expresses found h}"
    using merged [OF assms(1-3), of visible] assms(4) by auto
  with merged [OF this(1) assms(2,3), of visible] show ?thesis by auto
qed

lemma hide_then_show:
  assumes "dismissals b = Inr old" "finite hidden" "\<forall>h \<in> hidden. plain h \<and> finite (seeds_for found h)"
    and "merge b hidden {} found = Inr (b1, keys1)" "merge b1 {} hidden found = Inr (b2, keys2)"
  shows "content_key ` keys2 = content_key ` old - hidden"
proof -
  have one: "dismissals b1 = Inr keys1" "content_key ` keys1 = content_key ` old \<union> {h \<in> hidden. expresses found h}"
    using merged [OF assms(1-3), of "{}"] assms(4) by auto
  from merged [OF one(1), of "{}" found hidden] assms(5) have "content_key ` keys2 = content_key ` keys1 - hidden" by auto
  with one(2) show ?thesis by auto
qed

end

lemma tv_store_reads:
  assumes "tv_dismissals blob = Inr old" "finite keys"
  shows "\<exists>blob'. tv_store keys blob = Inr blob' \<and> tv_dismissals blob' = Inr keys"
proof -
  obtain f tracking where f: "features blob = Inr f" "tv_tracking f = Inr tracking"
    using assms(1) by (auto simp: tv_dismissals_def and_then_Inr_iff)
  have "\<exists>e. map_of tracking ''dismissed_next_up_keys'' = Some (VDict e) \<and> get e ''type'' = VStr ''string_set''
      \<or> map_of tracking ''dismissed_next_up_keys'' = None"
    using assms(1) f by (auto simp: tv_dismissals_def split: option.splits pyval.splits if_splits)
  then show ?thesis
  proof
    fix e assume "map_of tracking ''dismissed_next_up_keys'' = Some (VDict e) \<and> get e ''type'' = VStr ''string_set''
      \<or> map_of tracking ''dismissed_next_up_keys'' = None"
    then show ?thesis using f assms(2)
      by (elim disjE) (simp_all add: tv_store_def tv_dismissals_def features_def tv_tracking_def Let_def)
  qed
qed

lemma tv_dismissals_finite: "tv_dismissals b = Inr old \<Longrightarrow> finite old"
proof -
  assume t: "tv_dismissals b = Inr old"
  then obtain f tracking where f: "features b = Inr f" "tv_tracking f = Inr tracking"
    by (auto simp: tv_dismissals_def and_then_Inr_iff)
  obtain v where "string_set v = Inr old"
    using t f by (auto simp: tv_dismissals_def split: option.splits pyval.splits if_splits)
  then show ?thesis by (rule string_set_finite)
qed

interpretation tv: next_up_adapter tv_dismissals "\<lambda>b h v found. tv_merge b h v" "\<lambda>found h. True"
proof unfold_locales
  fix b old hidden visible and found :: seeds
  assume d: "tv_dismissals b = Inr old" and h: "finite hidden" "\<forall>h \<in> hidden. plain h \<and> finite (seeds_for found h)"
  let ?keys = "tv_keys hidden visible old"
  have "finite old" using d by (rule tv_dismissals_finite)
  then have "finite ?keys" using h by (simp add: tv_keys_def)
  with tv_store_reads [OF d] obtain blob where blob: "tv_store ?keys b = Inr blob" "tv_dismissals blob = Inr ?keys" by blast
  obtain b' where "tv_merge b hidden visible = Inr (b', ?keys)" "tv_dismissals b' = Inr ?keys"
  proof (cases "?keys = old")
    case True
    with d have "tv_merge b hidden visible = Inr (b, ?keys)" by (simp add: tv_merge_def Let_def)
    with True d that show ?thesis by simp
  next
    case False
    with d blob(1) have "tv_merge b hidden visible = Inr (blob, ?keys)" by (simp add: tv_merge_def Let_def)
    with blob(2) that show ?thesis by blast
  qed
  moreover have "\<forall>h \<in> hidden. plain h" using h(2) by blast
  note tv_titles [OF this, of visible old]
  moreover have "{h \<in> hidden - visible. True} = hidden - visible" by blast
  ultimately show "\<exists>b' keys. tv_merge b hidden visible = Inr (b', keys) \<and> tv_dismissals b' = Inr keys \<and>
      content_key ` keys = (content_key ` old - visible) \<union> {h \<in> hidden - visible. True}"
    by metis
qed

interpretation mobile: next_up_adapter payload_dismissals payload_merge "\<lambda>found h. seeds_for found h \<noteq> {}"
proof unfold_locales
  fix b old hidden visible found
  assume d: "payload_dismissals b = Inr old" and h: "finite hidden" "\<forall>h \<in> hidden. plain h \<and> finite (seeds_for found h)"
  let ?keys = "mobile_keys hidden visible found old"
  have "finite old" using d string_set_finite by (auto simp: payload_dismissals_def)
  then have "finite ?keys" using h by (simp add: mobile_keys_def)
  then show "\<exists>b' keys. payload_merge b hidden visible found = Inr (b', keys) \<and> payload_dismissals b' = Inr keys \<and>
      content_key ` keys = (content_key ` old - visible) \<union> {h \<in> hidden - visible. seeds_for found h \<noteq> {}}"
    using d h mobile_titles [of hidden visible found old]
    by (auto simp: payload_merge_def payload_dismissals_def Let_def)
qed

lemma add_seed_finite:
  "add_seed aliases row found = Inr found' \<Longrightarrow> \<forall>k. finite (seeds_for found k) \<Longrightarrow> \<forall>k. finite (seeds_for found' k)"
  by (auto simp: add_seed_def Let_def and_then_Inr_iff seeds_for_def alter_keys_def split: if_splits option.splits)

lemma next_up_seeds_finite: "next_up_seeds records aliases = Inr found \<Longrightarrow> finite (seeds_for found k)"
  unfolding next_up_seeds_def
  by (drule fold_result_invariant [where P = "\<lambda>s. \<forall>k. finite (seeds_for s k)"])
    (simp_all add: seeds_for_def add_seed_finite [unfolded seeds_for_def])

text \<open>C33: A television and a mobile profile keep the same titles: whatever seeds the history gave, after a merge
  both read back what was stored, no title that was to be shown is hidden on either, and a title that was to be
  hidden is hidden on the television, and on the mobile as soon as it has a watched episode.\<close>

theorem next_up_profiles_agree:
  assumes "tv_dismissals blob = Inr old" "payload_dismissals payload = Inr old'"
    and "next_up_seeds records aliases = Inr found" "finite hidden" "\<forall>h \<in> hidden. content_key h = h"
  shows "\<exists>blob' tv_set payload' mobile_set.
    tv_merge blob hidden visible = Inr (blob', tv_set) \<and> tv_dismissals blob' = Inr tv_set \<and>
    payload_merge payload hidden visible found = Inr (payload', mobile_set) \<and> payload_dismissals payload' = Inr mobile_set \<and>
    content_key ` tv_set = (content_key ` old - visible) \<union> (hidden - visible) \<and>
    content_key ` mobile_set = (content_key ` old' - visible) \<union> {h \<in> hidden - visible. seeds_for found h \<noteq> {}}"
proof -
  have ok: "\<forall>h \<in> hidden. plain h \<and> finite (seeds_for found h)"
    using assms(5) next_up_seeds_finite [OF assms(3)] by (simp add: plain_def)
  from tv.merged [OF assms(1,4) ok, of visible] mobile.merged [OF assms(2,4) ok, of visible] show ?thesis by auto
qed

definition sample_history :: "pydict list" where
  "sample_history = [[(''content_id'', VStr ''tt7''), (''content_type'', VStr ''series''), (''season'', VInt 1), (''episode'', VInt 2)]]"

lemma next_up_profiles_agree_witness:
  "\<exists>blob' tv_set payload' mobile_set found. next_up_seeds sample_history None = Inr found \<and>
    tv_merge [(''features'', VDict [])] {''tt7''} {''tt8''} = Inr (blob', tv_set) \<and>
    payload_merge [(''dismissedNextUpKeys'', VList [VStr ''tt8|1|1''])] {''tt7''} {''tt8''} found = Inr (payload', mobile_set) \<and>
    content_key ` tv_set = {''tt7''} \<and> content_key ` mobile_set = {''tt7''}"
proof -
  have "strip ''tt7'' = ''tt7''" "lower ''series'' = ''series''" by code_simp+
  then have "next_up_seeds sample_history None = Inr (alter_keys {''tt7''} {} (insert (1, 2)) Map.empty)" (is "_ = Inr ?found")
    by (simp add: next_up_seeds_def sample_history_def add_seed_def row_text_def Let_def coordinate_def py_str_def)
  moreover have "seeds_for ?found ''tt7'' = {(1, 2)}" by (simp add: seeds_for_def alter_keys_def)
  moreover have "tv_dismissals [(''features'', VDict [])] = Inr {}"
    "payload_dismissals [(''dismissedNextUpKeys'', VList [VStr ''tt8|1|1''])] = Inr {''tt8|1|1''}"
    "content_key ''tt7'' = ''tt7''" "content_key ''tt8|1|1'' = ''tt8''" by code_simp+
  ultimately show ?thesis
    using next_up_profiles_agree [of "[(''features'', VDict [])]" "{}" "[(''dismissedNextUpKeys'', VList [VStr ''tt8|1|1''])]"
        "{''tt8|1|1''}" sample_history None ?found "{''tt7''}" "{''tt8''}"]
    by (fastforce simp: conj_disj_distribL)
qed

end
