(* ===== verification/StreamActions.thy ===== *)
theory StreamActions
  imports StreamLibrary NextUp
begin

text \<open>
  \<open>core/stream_actions.py\<close>: the durable queue of playback writes to streaming accounts.  An action removes a title
  from what is being watched there (\<open>dismiss\<close>), stores a resume position (\<open>upsert\<close>), or removes the whole viewing
  of a deleted title (\<open>reset\<close>).  This theory holds the cancelling of actions an account no longer accepts and the
  dispatch.  What a provider answers is the parameter \<open>outcome\<close>: whether the write failed, which resume rows it
  confirmed absent and which visibility it confirmed; the writes themselves appear as the calls of the dispatcher.
\<close>

section \<open>Actions\<close>

definition update_stream_action :: "int \<Rightarrow> (stream_action \<Rightarrow> stream_action) \<Rightarrow> db \<Rightarrow> db" where
  "update_stream_action aid f db = db\<lparr>stream_action_table := update_where (\<lambda>a. sa_id a = aid) f (stream_action_table db)\<rparr>"

definition cancel_stream :: "stream_action \<Rightarrow> stream_action" where
  "cancel_stream a = a\<lparr>sa_state := ''cancelled'', sa_payload := [], sa_last_error := None\<rparr>"

text \<open>An action that only changes what a Nuvio profile shows.\<close>

definition visibility_only :: "connection \<Rightarrow> stream_action \<Rightarrow> bool" where
  "visibility_only conn a \<longleftrightarrow> c_type conn = ''nuvio'' \<and>
     (sa_action a = ''dismiss'' \<and> (get (sa_payload a) ''visibility_only'' = VBool True \<or> \<not> c_push_playback conn)
      \<or> sa_action a = ''upsert'' \<and> get (sa_payload a) ''next_up_only'' = VBool True)"

definition stream_action_enabled :: "connection \<Rightarrow> stream_action \<Rightarrow> bool" where
  "stream_action_enabled conn a \<longleftrightarrow>
     (if sa_action a = ''reset'' \<or> visibility_only conn a then c_push_watched conn \<or> c_push_playback conn
      else c_push_playback conn)"

section \<open>Cancelling what an account no longer accepts\<close>

definition correct_disabled_action_review :: "stream_action \<Rightarrow> db \<Rightarrow> db" where
  "correct_disabled_action_review a db =
     (if list_ex (\<lambda>x. sa_user_id x = sa_user_id a \<and> sa_connection_id x = sa_connection_id a \<and> sa_media_id x = sa_media_id a
           \<and> sa_action x = sa_action a \<and> sa_state x \<in> {''pending'', ''conflict''}) (stream_action_table db)
      then db
      else db\<lparr>review_table := update_where (\<lambda>r. sr_user_id r = sa_user_id a \<and> sr_connection_id r = Some (sa_connection_id a)
             \<and> sr_media_id r = Some (sa_media_id a)
             \<and> sr_kind r = (if sa_action a = ''reset'' then ''deletion_conflict'' else ''conflict'') \<and> sr_state r = ''pending'')
           (\<lambda>r. r\<lparr>sr_state := ''corrected''\<rparr>) (review_table db)\<rparr>)"

definition settle_reset :: "int \<Rightarrow> stream_action \<Rightarrow> db \<Rightarrow> db result" where
  "settle_reset user a db =
     (if sa_action a = ''reset'' then settle_marker_target user (sa_media_id a) (connection_key (sa_connection_id a)) db else Inr db)"

definition cleanup_action :: "int \<Rightarrow> connection list \<Rightarrow> stream_action \<Rightarrow> db \<Rightarrow> db result" where
  "cleanup_action user conns a db =
     (case find (\<lambda>c. c_id c = sa_connection_id a) conns of
        None \<Rightarrow> Inr db
      | Some conn \<Rightarrow>
        if stream_action_enabled conn a then Inr db
        else and_then (settle_reset user a (update_stream_action (sa_id a) cancel_stream db))
               (\<lambda>db1. Inr (correct_disabled_action_review a db1)))"

definition settle_stream_target :: "int \<Rightarrow> connection list \<Rightarrow> int \<Rightarrow> string \<Rightarrow> db \<Rightarrow> db result" where
  "settle_stream_target user conns mid target db =
     (if \<not> is_connection_source target then Inr db
      else case int_of_str (drop 11 target) of
        None \<Rightarrow> Inr db
      | Some cid \<Rightarrow>
        if (case find (\<lambda>c. c_id c = cid) conns of None \<Rightarrow> False | Some c \<Rightarrow> c_push_watched c \<or> c_push_playback c) then Inr db
        else settle_marker_target user mid target db)"

definition settle_stream_marker :: "int \<Rightarrow> connection list \<Rightarrow> tracking_deletion \<Rightarrow> db \<Rightarrow> db result" where
  "settle_stream_marker user conns d db =
     fold_result (settle_stream_target user conns (td_media_id d)) (pending_of db (td_id d)) db"

definition unfinished_actions :: "db \<Rightarrow> int \<Rightarrow> connection list \<Rightarrow> stream_action list" where
  "unfinished_actions db user conns =
     sort_key sa_id (filter (\<lambda>a. sa_user_id a = user \<and> sa_connection_id a \<in> c_id ` set conns
       \<and> sa_state a \<in> {''pending'', ''conflict''}) (stream_action_table db))"

definition cleanup_disabled_stream_actions :: "int \<Rightarrow> db \<Rightarrow> db result" where
  "cleanup_disabled_stream_actions user db =
     (let conns = streams db user in
      and_then (fold_result (cleanup_action user conns) (unfinished_actions db user conns) db) (\<lambda>db1.
        fold_result (settle_stream_marker user conns) (filter (\<lambda>d. td_user_id d = user) (deletion_table db1)) db1))"

section \<open>The record of an action\<close>

definition nuvio_action_content_ids :: "pydict \<Rightarrow> string list" where
  "nuvio_action_content_ids payload =
     first_seen (filter (\<lambda>k. k \<noteq> []) (map (\<lambda>v. strip (py_str (py_or v (VStr []))))
       (list_or_empty (get payload ''content_ids'') @ [get payload ''content_id''])))"

definition record_rows :: "pydict \<Rightarrow> string \<Rightarrow> pydict list" where
  "record_rows snapshot k = List.map_filter as_dict (list_or_empty (get (snapshot_dict snapshot ''records'') k))"

definition cached_records :: "stream_baseline option \<Rightarrow> pydict list" where
  "cached_records b = (let s = baseline_snapshot b in record_rows s ''progress'' @ record_rows s ''watched'')"

text \<open>For Nuvio the payload is sent with every identifier known for the title.\<close>

definition call_payload :: "db \<Rightarrow> connection \<Rightarrow> stream_action \<Rightarrow> media option \<Rightarrow> pydict" where
  "call_payload db conn a m =
     (case m of
        None \<Rightarrow> sa_payload a
      | Some x \<Rightarrow>
        if c_type conn = ''nuvio'' \<and> sa_action a \<noteq> ''reset'' then
          (let b = stream_baseline_of db (c_id conn);
               ids = first_seen (list_or_empty (get (sa_payload a) ''content_ids'')
                 @ map VStr (provider_content_ids x b (cached_records b)) @ [get (sa_payload a) ''content_id''])
           in dict_set ''imdb_id'' (opt_str (imdb_id (Some (MediaEntity x))))
                (dict_set ''tmdb_id'' (opt_int (m_tmdb_id x)) (dict_set ''content_ids'' (VList ids) (sa_payload a))))
        else sa_payload a)"

section \<open>What a write leaves in the baseline\<close>

definition row_ids :: "pydict list \<Rightarrow> string \<Rightarrow> string set" where
  "row_ids rows k = set (map (\<lambda>r. py_str (get r k)) (filter (\<lambda>r. truthy (get r k)) rows))"

definition value_text :: "pyval \<Rightarrow> string \<Rightarrow> string \<Rightarrow> string" where
  "value_text v k fallback = py_str (py_or (get (dict_or_empty v) k) (VStr fallback))"

definition forget_progress :: "bool \<Rightarrow> string set \<Rightarrow> string set \<Rightarrow> pydict \<Rightarrow> pydict" where
  "forget_progress all_for_ids ids keys snapshot =
     (let gone = (\<lambda>v. value_text v ''progress_key'' [] \<in> keys);
          progress = filter (\<lambda>(k, v). \<not> ((all_for_ids \<and> value_text v ''content_id'' k \<in> ids) \<or> gone v)) (snapshot_dict snapshot ''progress'');
          resume = filter (\<lambda>(k, v). \<not> (if all_for_ids then k \<in> ids else gone v)) (snapshot_dict snapshot ''resume'');
          outbound = filter (\<lambda>(k, v). \<not> (k \<in> ids \<and> (all_for_ids \<or> gone v))) (snapshot_dict snapshot ''outbound'');
          rows = filter (\<lambda>r. \<not> ((all_for_ids \<and> row_text r ''content_id'' \<in> ids) \<or> row_text r ''progress_key'' \<in> keys))
            (record_rows snapshot ''progress'');
          records = dict_set ''progress'' (VList (map VDict rows)) (snapshot_dict snapshot ''records'')
      in dict_set ''records'' (VDict records) (dict_set ''outbound'' (VDict outbound) (dict_set ''resume'' (VDict resume)
           (dict_set ''progress'' (VDict progress) snapshot))))"

definition update_baseline :: "int \<Rightarrow> (pydict \<Rightarrow> pydict) \<Rightarrow> db \<Rightarrow> db" where
  "update_baseline cid f db =
     db\<lparr>stream_baseline_table := update_where (\<lambda>b. sb_connection_id b = cid) (\<lambda>b. b\<lparr>sb_snapshot := f (sb_snapshot b)\<rparr>)
        (stream_baseline_table db)\<rparr>"

definition clear_nuvio_baseline_progress :: "int \<Rightarrow> pydict list \<Rightarrow> bool \<Rightarrow> db \<Rightarrow> db" where
  "clear_nuvio_baseline_progress cid rows all_for_ids db =
     (let ids = row_ids rows ''content_id''; keys = row_ids rows ''progress_key'' in
      if ids = {} \<and> keys = {} then db else update_baseline cid (forget_progress all_for_ids ids keys) db)"

definition acknowledged_ids :: "connection \<Rightarrow> stream_action \<Rightarrow> pydict \<Rightarrow> string list" where
  "acknowledged_ids conn a payload =
     (if c_type conn = ''nuvio'' \<and> sa_action a \<in> {''dismiss'', ''reset''} then nuvio_action_content_ids payload
      else if sa_action a = ''dismiss'' \<and> get payload ''title_dismissal'' = VBool True
      then first_seen (map py_str (list_or_empty (get payload ''content_ids'')))
      else [py_str (get payload ''content_id'')])"

definition outbound_mark :: "stream_action \<Rightarrow> pydict \<Rightarrow> pydict" where
  "outbound_mark a payload =
     map (\<lambda>k. (k, get payload k)) [''position'', ''duration'', ''season'', ''episode'', ''progress_key'', ''observed_at'', ''last_watched'']
     @ [(''action'', VStr (sa_action a))]
     @ (if get payload ''synthetic_resume'' = VBool True then [(''synthetic_resume'', VBool True)] else [])"

definition drop_keys :: "string list \<Rightarrow> pydict \<Rightarrow> pydict" where
  "drop_keys ks d = filter (\<lambda>(k, v). k \<notin> set ks) d"

text \<open>\<open>key\<close> is the identifier the action was queued for.\<close>

definition acknowledge_snapshot :: "connection \<Rightarrow> stream_action \<Rightarrow> pydict \<Rightarrow> string \<Rightarrow> pydict \<Rightarrow> pydict" where
  "acknowledge_snapshot conn a payload key snapshot =
     (let ids = acknowledged_ids conn a payload;
          removing = (sa_action a \<in> {''dismiss'', ''reset''}); writing = (sa_action a = ''upsert'');
          progress = filter (\<lambda>(k, v). k \<notin> set ids \<and> value_text v ''content_id'' [] \<notin> set ids) (snapshot_dict snapshot ''progress'');
          resume = (if removing then drop_keys ids (snapshot_dict snapshot ''resume'') else snapshot_dict snapshot ''resume'');
          outbound = snapshot_dict snapshot ''outbound'';
          rows = filter (\<lambda>r. row_text r ''content_id'' \<notin> set ids) (record_rows snapshot ''progress'');
          records = dict_set ''progress'' (VList (map VDict (rows @ (if writing then [payload] else [])))) (snapshot_dict snapshot ''records'')
      in dict_set ''records'' (VDict records)
          (dict_set ''outbound'' (VDict (if writing then dict_set key (VDict (outbound_mark a payload)) outbound
                                        else if removing then drop_keys ids outbound else outbound))
          (dict_set ''resume'' (VDict (if writing then dict_pop key resume else resume))
          (dict_set ''progress'' (VDict (if writing then dict_set key (VDict (sa_payload a)) progress else progress)) snapshot))))"

section \<open>Dispatch\<close>

datatype stream_call = StreamCall (call_connection: int) (call_action: string) (call_record: pydict) (call_visibility: bool)

datatype stream_failure = PlaybackChanged | CallFailed string

record call_result =
  cr_failure :: "stream_failure option"
  cr_removed :: "pydict list"
  cr_echo :: "(string \<times> (string \<times> bool) list) list"

record stream_world =
  sw_db :: db
  sw_sent :: "(stream_action \<times> stream_call) list"

text \<open>What a Nuvio call stores before it returns or fails: the resume rows it confirmed absent and the visibility it
  confirmed.  Only a dismissal and a visibility write clear rows.\<close>

definition call_effects :: "connection \<Rightarrow> stream_call \<Rightarrow> call_result \<Rightarrow> db \<Rightarrow> db" where
  "call_effects conn call r db =
     (if c_type conn \<noteq> ''nuvio'' then db
      else record_visibility_echo (c_id conn) (cr_echo r)
        (if call_action call = ''dismiss'' \<and> \<not> call_visibility call
         then clear_nuvio_baseline_progress (c_id conn) (cr_removed r) True db
         else if call_action call = ''upsert'' \<and> call_visibility call
         then clear_nuvio_baseline_progress (c_id conn) (cr_removed r) False db
         else db))"

definition refused_action :: "stream_action \<Rightarrow> tracked_entry option \<Rightarrow> tracking_deletion option \<Rightarrow> bool" where
  "refused_action a entry deleted \<longleftrightarrow>
     (if sa_action a = ''reset'' then deleted = None \<or> entry \<noteq> None
      else deleted \<noteq> None \<or>
        (case entry of None \<Rightarrow> True
         | Some e \<Rightarrow> te_status e \<notin> (if sa_action a = ''upsert'' then {''watching''}
                                 else {''planning'', ''paused'', ''dropped'', ''completed''})))"

definition outstanding_reset :: "db \<Rightarrow> stream_action \<Rightarrow> bool" where
  "outstanding_reset db a \<longleftrightarrow>
     list_ex (\<lambda>x. sa_connection_id x = sa_connection_id a \<and> sa_media_id x = sa_media_id a \<and> sa_action x = ''reset''
       \<and> sa_state x \<noteq> ''applied'') (stream_action_table db)"

text \<open>A reset settles its target once none of its siblings is outstanding.\<close>

definition settle_applied_reset :: "int \<Rightarrow> stream_action \<Rightarrow> tracking_deletion \<Rightarrow> db \<Rightarrow> db" where
  "settle_applied_reset user a d db =
     (let target = connection_key (sa_connection_id a); outstanding = outstanding_reset db a;
          db1 = (if outstanding then db else remove_target user (sa_media_id a) target db);
          left = (if outstanding then td_pending_connections d else filter (\<lambda>t. t \<noteq> target) (td_pending_connections d))
      in if left = [] then settle_reviews user (sa_media_id a) (\<lambda>_. True) ''confirmed'' db1 else db1)"

text \<open>A payload without \<open>content_id\<close> raises after the action was marked as applied.\<close>

definition acknowledge_call ::
  "int \<Rightarrow> connection \<Rightarrow> stream_action \<Rightarrow> pydict \<Rightarrow> bool \<Rightarrow> tracking_deletion option \<Rightarrow> db \<Rightarrow> db" where
  "acknowledge_call user conn a payload visibility deleted db =
     (case (if visibility then Some [] else map_option py_str (map_of payload ''content_id'')) of
        None \<Rightarrow> update_stream_action (sa_id a) (\<lambda>x. x\<lparr>sa_state := ''applied'', sa_last_error := Some ''KeyError''\<rparr>) db
      | Some key \<Rightarrow>
        let db1 = (if visibility then db else update_baseline (c_id conn) (acknowledge_snapshot conn a payload key) db);
            db2 = update_stream_action (sa_id a) (\<lambda>x. x\<lparr>sa_state := ''applied'', sa_last_error := None, sa_payload := []\<rparr>) db1
        in case deleted of
             Some d \<Rightarrow> if sa_action a = ''reset'' then settle_applied_reset user a d db2 else db2
           | None \<Rightarrow> db2)"

definition changed_message :: "stream_action \<Rightarrow> string" where
  "changed_message a =
     (if sa_action a = ''reset''
      then ''Newer remote viewing prevented deletion. Retry deletion explicitly, or keep the remote history. Your local entry remains deleted.''
      else ''Playback changed on a connected account. The queued action was not applied; review the newer activity.'')"

definition conflict_review :: "datetime \<Rightarrow> int \<Rightarrow> stream_action \<Rightarrow> tracked_entry option \<Rightarrow> db \<Rightarrow> sync_review" where
  "conflict_review now user a entry db =
     (new_review db now user (if sa_action a = ''reset'' then ''deletion_conflict'' else ''conflict'') None (changed_message a))
       \<lparr>sr_connection_id := Some (sa_connection_id a), sr_media_id := Some (sa_media_id a),
        sr_previous_status := map_option te_status entry, sr_proposed_status := Some ''watching''\<rparr>"

definition settle_call ::
  "datetime \<Rightarrow> int \<Rightarrow> connection \<Rightarrow> stream_action \<Rightarrow> tracked_entry option \<Rightarrow> tracking_deletion option \<Rightarrow> stream_call \<Rightarrow>
   call_result \<Rightarrow> db \<Rightarrow> db" where
  "settle_call now user conn a entry deleted call r db =
     (case cr_failure r of
        None \<Rightarrow> acknowledge_call user conn a (call_record call) (call_visibility call) deleted db
      | Some (CallFailed e) \<Rightarrow> update_stream_action (sa_id a) (\<lambda>x. x\<lparr>sa_last_error := Some e\<rparr>) db
      | Some PlaybackChanged \<Rightarrow>
          add_review (conflict_review now user a entry db)
            (update_stream_action (sa_id a)
              (\<lambda>x. x\<lparr>sa_state := ''conflict'', sa_last_error := Some ''Playback changed since the last import''\<rparr>) db))"

definition send_action ::
  "(stream_call \<Rightarrow> call_result) \<Rightarrow> datetime \<Rightarrow> int \<Rightarrow> connection \<Rightarrow> stream_action \<Rightarrow> tracked_entry option \<Rightarrow>
   tracking_deletion option \<Rightarrow> media option \<Rightarrow> stream_world \<Rightarrow> stream_world" where
  "send_action outcome now user conn a entry deleted m w =
     (let db1 = update_stream_action (sa_id a) (\<lambda>x. x\<lparr>sa_attempts := sa_attempts x + 1\<rparr>) (sw_db w) in
      if c_type conn \<notin> {''stremio'', ''nuvio''} then w\<lparr>sw_db := db1\<rparr>
      else
        let call = StreamCall (c_id conn) (sa_action a) (call_payload db1 conn a m) (visibility_only conn a); r = outcome call
        in w\<lparr>sw_sent := sw_sent w @ [(a, call)],
             sw_db := settle_call now user conn a entry deleted call r (call_effects conn call r db1)\<rparr>)"

definition dispatch_stream_action ::
  "(stream_call \<Rightarrow> call_result) \<Rightarrow> datetime \<Rightarrow> int option \<Rightarrow> int \<Rightarrow> stream_action \<Rightarrow> stream_world \<Rightarrow> stream_world result" where
  "dispatch_stream_action outcome now handoff user a w =
     (let db = sw_db w; cancel = (\<lambda>f. w\<lparr>sw_db := update_stream_action (sa_id a) f db\<rparr>) in
      if sa_action a = ''restore'' then Inr (cancel cancel_stream)
      else case find_connection db (sa_connection_id a) of
        None \<Rightarrow> Inr w
      | Some conn \<Rightarrow>
        if sa_action a \<notin> {''dismiss'', ''reset'', ''upsert''} then Inr w
        else if \<not> stream_action_enabled conn a
        then and_then (settle_reset user a (update_stream_action (sa_id a) cancel_stream db)) (\<lambda>db1. Inr (w\<lparr>sw_db := db1\<rparr>))
        else
          and_then (entry_of db user (sa_media_id a)) (\<lambda>entry.
          and_then (marker_of db user (sa_media_id a)) (\<lambda>deleted.
            if refused_action a entry deleted then Inr (cancel (\<lambda>x. x\<lparr>sa_state := ''cancelled'', sa_payload := []\<rparr>))
            else
              let m = find_media db (sa_media_id a) in
              if m = None \<and> sa_action a \<noteq> ''reset'' then Inr (cancel cancel_stream)
              else if require_stream_reconciliation db handoff conn \<noteq> Inr () then Inr w
              else Inr (send_action outcome now user conn a entry deleted m w))))"

definition pending_stream_actions :: "db \<Rightarrow> int \<Rightarrow> stream_action list" where
  "pending_stream_actions db user =
     take 100 (sort_key sa_id (filter (\<lambda>a. sa_user_id a = user \<and> sa_state a = ''pending'') (stream_action_table db)))"

definition dispatch_stream_actions ::
  "(stream_call \<Rightarrow> call_result) \<Rightarrow> datetime \<Rightarrow> int option \<Rightarrow> cycle_states \<Rightarrow> int set \<Rightarrow> int \<Rightarrow> db \<Rightarrow> stream_world result" where
  "dispatch_stream_actions outcome now handoff states delivering user db =
     (if is_active states delivering user then Inr \<lparr>sw_db = db, sw_sent = []\<rparr>
      else and_then (cleanup_disabled_stream_actions user db) (\<lambda>db1.
        fold_result (dispatch_stream_action outcome now handoff user) (pending_stream_actions db1 user)
          \<lparr>sw_db = db1, sw_sent = []\<rparr>))"

end
