(* ===== verification/LibraryDeliveries.thy ===== *)
theory LibraryDeliveries
  imports StreamLibrary
begin

text \<open>
  Properties of the library deliveries: the rows as a map from intent and account (each key at most once, as the
  table's constraints have it), what a choice queues, what an accepted change of one account does to the others,
  why an emptied account stays empty, and what a dispatch may send and must record.
\<close>

section \<open>The book of deliveries\<close>

definition deliveries_ok :: "db \<Rightarrow> bool" where
  "deliveries_ok db \<longleftrightarrow> unique_on ld_id (library_delivery_table db)
     \<and> unique_on (\<lambda>d. (ld_intent_id d, ld_connection_id d)) (library_delivery_table db)"

lemma last_row_in: "last_row P rows = Some r \<Longrightarrow> r \<in> set rows \<and> P r"
proof -
  assume a: "last_row P rows = Some r"
  then have "filter P rows \<noteq> []" "r = last (filter P rows)" by (auto simp: last_row_def split: list.splits)
  with last_in_set [of "filter P rows"] have "r \<in> set (filter P rows)" by metis
  then show ?thesis by simp
qed

lemma last_row_None: "last_row P rows = None \<longleftrightarrow> (\<forall>r \<in> set rows. \<not> P r)"
proof -
  have "last_row P rows = None \<longleftrightarrow> filter P rows = []" by (simp add: last_row_def split: list.split)
  then show ?thesis by (simp add: filter_empty_conv)
qed

lemma delivery_of_in: "delivery_of db i c = Some d \<Longrightarrow>
    d \<in> set (library_delivery_table db) \<and> ld_intent_id d = i \<and> ld_connection_id d = c"
  unfolding delivery_of_def by (rule last_row_in)

lemma delivery_of_iff:
  assumes "deliveries_ok db"
  shows "delivery_of db i c = Some d \<longleftrightarrow> d \<in> set (library_delivery_table db) \<and> ld_intent_id d = i \<and> ld_connection_id d = c"
proof
  assume d: "d \<in> set (library_delivery_table db) \<and> ld_intent_id d = i \<and> ld_connection_id d = c"
  then have "delivery_of db i c \<noteq> None" unfolding delivery_of_def last_row_None by blast
  then obtain e where e: "delivery_of db i c = Some e" by blast
  from delivery_of_in [OF this] d have "d = e"
    using assms unfolding deliveries_ok_def
    by (intro unique_on_inj [where key = "\<lambda>d. (ld_intent_id d, ld_connection_id d)" and rows = "library_delivery_table db"]) simp_all
  with e show "delivery_of db i c = Some d" by simp
qed (rule delivery_of_in)

lemma touch_delivery_fields [simp]:
  "ld_desired (touch_delivery now f d) = ld_desired (f d)" "ld_state (touch_delivery now f d) = ld_state (f d)"
  "ld_attempts (touch_delivery now f d) = ld_attempts (f d)" "ld_last_error (touch_delivery now f d) = ld_last_error (f d)"
  "ld_id (touch_delivery now f d) = ld_id (f d)" "ld_intent_id (touch_delivery now f d) = ld_intent_id (f d)"
  "ld_connection_id (touch_delivery now f d) = ld_connection_id (f d)"
  by (simp_all add: touch_delivery_def)

definition same_key :: "(library_delivery \<Rightarrow> library_delivery) \<Rightarrow> bool" where
  "same_key f \<longleftrightarrow> (\<forall>d. ld_id (f d) = ld_id d \<and> ld_intent_id (f d) = ld_intent_id d \<and> ld_connection_id (f d) = ld_connection_id d)"

lemma same_key_intros [simp]: "same_key (renew desired state t)" "same_key (\<lambda>d. d\<lparr>ld_state := s\<rparr>)"
  "same_key (\<lambda>d. d\<lparr>ld_last_error := e\<rparr>)" "same_key (\<lambda>d. d\<lparr>ld_state := s, ld_last_error := e\<rparr>)"
  "same_key (\<lambda>d. d\<lparr>ld_desired := b, ld_state := s, ld_last_error := e\<rparr>)"
  "same_key (\<lambda>d. d\<lparr>ld_attempts := ld_attempts d + 1, ld_updated_at := t\<rparr>)"
  "same_key (\<lambda>d. d\<lparr>ld_attempts := ld_attempts d + 1, ld_last_error := e, ld_updated_at := t\<rparr>)"
  by (simp_all add: same_key_def renew_def)

lemma update_deliveries_ok: "deliveries_ok db \<Longrightarrow> same_key f \<Longrightarrow> deliveries_ok (update_deliveries now P f db)"
  by (simp add: deliveries_ok_def update_deliveries_def unique_on_update same_key_def)

lemma set_delivery_ok: "deliveries_ok db \<Longrightarrow> same_key f \<Longrightarrow> deliveries_ok (set_delivery now n f db)"
  by (simp add: set_delivery_def update_deliveries_ok)

lemma delivery_of_update:
  assumes "deliveries_ok db" "same_key f"
  shows "delivery_of (update_deliveries now P f db) i c =
    map_option (\<lambda>d. if P d then touch_delivery now f d else d) (delivery_of db i c)"
proof -
  have "filter (\<lambda>d. ld_intent_id d = i \<and> ld_connection_id d = c) (update_where P (touch_delivery now f) rows) =
      update_where P (touch_delivery now f) (filter (\<lambda>d. ld_intent_id d = i \<and> ld_connection_id d = c) rows)" for rows
    using assms(2) by (intro filter_update_where) (simp add: same_key_def)
  then show ?thesis
    by (simp add: delivery_of_def last_row_def update_deliveries_def update_where_def last_map split: list.split)
qed

lemma delivery_of_set:
  assumes "deliveries_ok db" "same_key f" "delivery_of db i c = Some d"
  shows "delivery_of (set_delivery now (ld_id d) f db) i' c' =
    (if i' = i \<and> c' = c then Some (touch_delivery now f d) else delivery_of db i' c')"
proof (cases "delivery_of db i' c'")
  case None
  then show ?thesis using assms by (auto simp: set_delivery_def delivery_of_update)
next
  case (Some e)
  have "ld_id e = ld_id d \<longleftrightarrow> i' = i \<and> c' = c"
  proof
    assume "ld_id e = ld_id d"
    then have "e = d"
      using delivery_of_in [OF Some] delivery_of_in [OF assms(3)] assms(1) unique_on_inj unfolding deliveries_ok_def by metis
    then show "i' = i \<and> c' = c" using delivery_of_in [OF Some] delivery_of_in [OF assms(3)] by simp
  next
    assume "i' = i \<and> c' = c"
    then show "ld_id e = ld_id d" using Some assms(3) by simp
  qed
  then show ?thesis using assms Some by (auto simp: set_delivery_def delivery_of_update)
qed

lemma delivery_of_add:
  assumes "delivery_of db iid cid = None"
  shows "delivery_of (add_delivery iid cid desired state t db) i c =
    (if i = iid \<and> c = cid then Some \<lparr>ld_id = next_id ld_id (library_delivery_table db), ld_intent_id = iid, ld_connection_id = cid,
        ld_desired = desired, ld_state = state, ld_attempts = 0, ld_last_error = None, ld_updated_at = t\<rparr>
     else delivery_of db i c)"
  using assms by (auto simp: delivery_of_def add_delivery_def last_row_def split: list.splits)

lemma add_delivery_ok:
  assumes "deliveries_ok db" "delivery_of db iid cid = None"
  shows "deliveries_ok (add_delivery iid cid desired state t db)"
proof -
  have "(iid, cid) \<notin> (\<lambda>d. (ld_intent_id d, ld_connection_id d)) ` set (library_delivery_table db)"
    using assms(2) by (auto simp: delivery_of_def last_row_None)
  then show ?thesis using assms(1) next_id_not_in [of ld_id "library_delivery_table db"]
    by (simp add: deliveries_ok_def add_delivery_def unique_on_append_row)
qed

section \<open>An emptied account stays empty\<close>

definition only_deliveries :: "db \<Rightarrow> db \<Rightarrow> bool" where
  "only_deliveries db db' \<longleftrightarrow> db' = db\<lparr>library_delivery_table := library_delivery_table db'\<rparr>"

lemma only_deliveries_trans: "only_deliveries a b \<Longrightarrow> only_deliveries b c \<Longrightarrow> only_deliveries a c"
  unfolding only_deliveries_def by (metis db.surjective db.update_convs(23))

lemma only_deliveries_simps [simp]:
  "only_deliveries db db" "only_deliveries db (set_delivery now n f db)" "only_deliveries db (update_deliveries now P f db)"
  "only_deliveries db (add_delivery iid cid desired state t db)"
  by (simp_all add: only_deliveries_def set_delivery_def update_deliveries_def add_delivery_def)

definition cleared :: "db \<Rightarrow> int \<Rightarrow> library_intent \<Rightarrow> bool" where
  "cleared db cid i \<longleftrightarrow>
     (case delivery_of db (li_id i) cid of None \<Rightarrow> False | Some d \<Rightarrow> ld_state d = ''cleared'' \<and> ld_desired d = li_desired i)"

lemma clear_intent_step:
  assumes "deliveries_ok db"
  shows "deliveries_ok (fst (clear_intent now cid i (db, n))) \<and> only_deliveries db (fst (clear_intent now cid i (db, n)))
    \<and> cleared (fst (clear_intent now cid i (db, n))) cid i
    \<and> (li_id j \<noteq> li_id i \<longrightarrow> cleared (fst (clear_intent now cid i (db, n))) cid j = cleared db cid j)"
proof (cases "delivery_of db (li_id i) cid")
  case None
  then show ?thesis using assms
    by (simp add: clear_intent_def add_delivery_ok delivery_of_add cleared_def)
next
  case (Some d)
  then show ?thesis using assms
    by (simp add: clear_intent_def set_delivery_ok delivery_of_set cleared_def)
qed

lemma clear_intents:
  assumes "deliveries_ok db" "unique_on li_id is"
  shows "deliveries_ok (fst (fold (clear_intent now cid) is (db, n))) \<and> only_deliveries db (fst (fold (clear_intent now cid) is (db, n)))
    \<and> (\<forall>i. i \<in> set is \<or> (cleared db cid i \<and> li_id i \<notin> li_id ` set is) \<longrightarrow> cleared (fst (fold (clear_intent now cid) is (db, n))) cid i)"
  using assms
proof (induction "is" arbitrary: db n)
  case Nil
  then show ?case by simp
next
  case (Cons i "is")
  obtain db1 n1 where one: "clear_intent now cid i (db, n) = (db1, n1)" by fastforce
  have step: "deliveries_ok db1" "only_deliveries db db1" "cleared db1 cid i"
    "\<And>j. li_id j \<noteq> li_id i \<Longrightarrow> cleared db1 cid j = cleared db cid j"
    using clear_intent_step [OF Cons.prems(1), of now cid i n] one by auto
  have fresh: "li_id i \<notin> li_id ` set is" "unique_on li_id is" using Cons.prems(2) by (auto simp: unique_on_def)
  from Cons.IH [OF step(1) fresh(2), of n1] step fresh(1) show ?case
    by (simp add: one) (meson image_eqI only_deliveries_trans)
qed

lemma intents_of_frame: "only_deliveries db db' \<Longrightarrow> intents_of db' user = intents_of db user"
  unfolding only_deliveries_def intents_of_def by (metis db.select_convs(19) db.surjective db.update_convs(23))

text \<open>After an account was emptied, the retry that every later pull of it runs sends nothing to it and queues
  nothing, whatever choices had been waiting: each choice of the user has a delivery marked as cleared.\<close>

lemma cleared_library_stays_dormant:
  assumes "deliveries_ok db" "unique_on li_id (library_intent_table db)"
    and "clear_pending_library_deliveries now user cid db = (db', n)"
  shows "retry_pending_library_deliveries env user cid \<lparr>lw_db = db', lw_sent = sent\<rparr> = Inr \<lparr>lw_db = db', lw_sent = sent\<rparr>
    \<and> (\<forall>i \<in> set (library_intent_table db). li_user_id i = user \<longrightarrow>
         (\<exists>d. delivery_of db' (li_id i) cid = Some d \<and> ld_state d = ''cleared''))"
proof -
  have uniq: "unique_on li_id (intents_of db user)"
    using assms(2) by (simp add: unique_on_def intents_of_def distinct_map inj_on_def)
  have all: "deliveries_ok db'" "only_deliveries db db'" "\<And>i. i \<in> set (intents_of db user) \<Longrightarrow> cleared db' cid i"
    using clear_intents [OF assms(1) uniq, of now cid 0] assms(3) by (simp_all add: clear_pending_library_deliveries_def)
  have same: "fold (align_intent t cid) is db' = db'" if "set is \<subseteq> set (intents_of db user)" for t "is"
    using that
  proof (induction "is")
    case (Cons i "is")
    then have "cleared db' cid i" using all(3) by simp
    then have "align_intent t cid i db' = db'" by (auto simp: align_intent_def cleared_def split: option.splits)
    with Cons show ?case by simp
  qed simp
  have none: "filter (\<lambda>i. li_id i = ld_intent_id d \<and> li_user_id i = user) (library_intent_table db') = []"
    if "d \<in> set (library_delivery_table db')" "ld_connection_id d = cid" "ld_state d = ''pending''" for d
  proof -
    have False if "i \<in> set (intents_of db' user)" "li_id i = ld_intent_id d" for i
    proof -
      have "delivery_of db' (li_id i) cid = Some d" using that(2) \<open>d \<in> _\<close> \<open>ld_connection_id d = cid\<close> all(1) by (simp add: delivery_of_iff)
      then show False using all(3) [of i] that(1) intents_of_frame [OF all(2)] \<open>ld_state d = _\<close> by (simp add: cleared_def)
    qed
    then show ?thesis by (auto simp: intents_of_def filter_empty_conv)
  qed
  have "due_titles db' user cid = []"
    unfolding due_titles_def using none by (auto intro!: take_all simp: concat_eq_Nil_conv)
  then have "retry_pending_library_deliveries env user cid \<lparr>lw_db = db', lw_sent = sent\<rparr> = Inr \<lparr>lw_db = db', lw_sent = sent\<rparr>"
    using same [of "intents_of db' user" "de_now env"] intents_of_frame [OF all(2)]
    by (simp add: retry_pending_library_deliveries_def split: option.split)
  moreover have "\<exists>d. delivery_of db' (li_id i) cid = Some d \<and> ld_state d = ''cleared''"
    if "i \<in> set (library_intent_table db)" "li_user_id i = user" for i
    using all(3) [of i] that by (auto simp: intents_of_def cleared_def split: option.splits)
  ultimately show ?thesis by blast
qed

section \<open>A choice reaches every account\<close>

definition queued_for :: "db \<Rightarrow> int \<Rightarrow> bool \<Rightarrow> bool \<Rightarrow> int \<Rightarrow> bool" where
  "queued_for db iid desired changed c \<longleftrightarrow>
     (\<exists>d. delivery_of db iid c = Some d \<and> ld_desired d = desired \<and> ld_state d \<notin> {''cancelled'', ''cleared''}
        \<and> (changed \<longrightarrow> ld_state d = ''pending''))"

lemma queue_target_step:
  assumes "deliveries_ok db" "queue_target now iid desired changed conn (db, q) = (db', q')"
  shows "deliveries_ok db' \<and> only_deliveries db db' \<and> queued_for db' iid desired changed (c_id conn)
    \<and> (\<forall>i c. (i, c) \<noteq> (iid, c_id conn) \<longrightarrow> delivery_of db' i c = delivery_of db i c)"
proof (cases "delivery_of db iid (c_id conn)")
  case None
  then show ?thesis using assms
    by (auto simp: queue_target_def add_delivery_ok delivery_of_add queued_for_def)
next
  case (Some d)
  show ?thesis
  proof (cases "changed \<or> ld_desired d \<noteq> desired \<or> ld_state d \<in> {''cancelled'', ''cleared''}")
    case True
    with assms(2) Some have "db' = set_delivery now (ld_id d) (renew desired ''pending'' now) db"
      by (auto simp: queue_target_def set_delivery_def)
    then show ?thesis using assms(1) Some
      by (simp add: set_delivery_ok delivery_of_set queued_for_def renew_def)
  next
    case False
    with assms Some show ?thesis by (auto simp: queue_target_def queued_for_def)
  qed
qed

lemma queue_targets:
  assumes "deliveries_ok db" "fold (queue_target now iid desired changed) conns (db, q) = (db', q')"
  shows "deliveries_ok db' \<and> only_deliveries db db'
    \<and> (\<forall>c. c \<in> c_id ` set conns \<or> queued_for db iid desired changed c \<longrightarrow> queued_for db' iid desired changed c)
    \<and> (\<forall>i c. i \<noteq> iid \<or> c \<notin> c_id ` set conns \<longrightarrow> delivery_of db' i c = delivery_of db i c)"
  using assms
proof (induction conns arbitrary: db q)
  case Nil
  then show ?case by simp
next
  case (Cons conn conns)
  obtain db1 q1 where one: "queue_target now iid desired changed conn (db, q) = (db1, q1)" by fastforce
  note step = queue_target_step [OF Cons.prems(1) one]
  have keep: "queued_for db1 iid desired changed c" if "queued_for db iid desired changed c" for c
    using step that by (cases "c = c_id conn") (auto simp: queued_for_def)
  have fold1: "fold (queue_target now iid desired changed) conns (db1, q1) = (db', q')" using Cons.prems(2) one by simp
  have ok1: "deliveries_ok db1" using step by blast
  note rest = Cons.IH [OF ok1 fold1]
  have "queued_for db' iid desired changed c" if "c \<in> c_id ` set (conn # conns) \<or> queued_for db iid desired changed c" for c
    using that rest step keep by auto
  moreover have "delivery_of db' i c = delivery_of db i c" if "i \<noteq> iid \<or> c \<notin> c_id ` set (conn # conns)" for i c
    using that rest step by auto
  moreover have "only_deliveries db db'" using rest step only_deliveries_trans by blast
  ultimately show ?case using rest by simp
qed

lemma delivery_of_table: "library_delivery_table db' = library_delivery_table db \<Longrightarrow> delivery_of db' = delivery_of db"
  by (simp add: delivery_of_def fun_eq_iff)

lemma deliveries_ok_table: "library_delivery_table db' = library_delivery_table db \<Longrightarrow> deliveries_ok db' = deliveries_ok db"
  by (simp add: deliveries_ok_def)

lemma take_choice_intent:
  assumes "intent_of db user mid = Inr found" "take_choice t user mid desired found db = (iid, changed, db1)"
  shows "(\<exists>i. intent_of db1 user mid = Inr (Some i) \<and> li_id i = iid \<and> li_desired i = desired \<and> li_updated_at i = t)
    \<and> library_delivery_table db1 = library_delivery_table db \<and> connection_table db1 = connection_table db
    \<and> collection_table db1 = collection_table db \<and> (changed \<longleftrightarrow> (\<exists>i. found = Some i \<and> li_desired i \<noteq> desired))"
proof (cases found)
  case None
  then have "filter (\<lambda>i. li_user_id i = user \<and> li_media_id i = mid) (library_intent_table db) = []"
    using assms(1) by (simp add: intent_of_def)
  then show ?thesis using None assms(2) by (auto simp: take_choice_def set_intent_def intent_of_def)
next
  case (Some i)
  then have "filter (\<lambda>i. li_user_id i = user \<and> li_media_id i = mid) (library_intent_table db) = [i]"
    using assms(1) by (simp add: intent_of_def scalar_one_or_none_Some)
  then show ?thesis using Some assms(2) by (auto simp: take_choice_def set_intent_def intent_of_def filter_update_where)
qed

definition same_book :: "db \<Rightarrow> db \<Rightarrow> bool" where
  "same_book db db' \<longleftrightarrow> library_delivery_table db' = library_delivery_table db \<and> library_intent_table db' = library_intent_table db"

lemma same_book_simps [simp]:
  "same_book db db" "same_book db (insert_file now coll conn src sid db)" "same_book db (insert_collection now user mid db)"
  "same_book db (db\<lparr>collection_file_table := fs\<rparr>)" "same_book db (db\<lparr>collection_table := cs\<rparr>)"
  "same_book db0 (insert_file now coll conn src sid db) = same_book db0 db"
  "same_book db0 (insert_collection now user mid db) = same_book db0 db"
  "same_book db0 (db\<lparr>collection_file_table := fs\<rparr>) = same_book db0 db"
  "same_book db0 (db\<lparr>collection_table := cs\<rparr>) = same_book db0 db"
  by (simp_all add: same_book_def insert_file_def insert_collection_def)

lemma same_book_drop [simp]: "same_book db0 (drop_if_empty coll db) = same_book db0 db"
  by (simp add: drop_if_empty_def)

lemma same_book_ensure: "ensure_collection now user mid found db = (coll, db1) \<Longrightarrow> same_book db db1"
  by (auto simp: ensure_collection_def split: option.splits)

lemma set_manual_anchor_frame: "set_manual_anchor now user mid desired db = Inr db' \<Longrightarrow> same_book db db'"
proof (cases desired)
  case True
  moreover assume "set_manual_anchor now user mid desired db = Inr db'"
  ultimately obtain found where r: "(case ensure_collection now user mid found db of (coll, db1) \<Rightarrow>
      Inr (if list_ex (\<lambda>f. cf_collection_id f = coll \<and> cf_source f = Manual \<and> cf_source_id f = Some (manual_marker mid))
        (collection_file_table db1) then db1 else insert_file now coll None Manual (manual_marker mid) db1)) = (Inr db' :: db result)"
    by (auto simp: set_manual_anchor_def and_then_Inr_iff Let_def)
  obtain coll db1 where e: "ensure_collection now user mid found db = (coll, db1)" by fastforce
  with r same_book_ensure [OF e] show ?thesis by (auto split: if_splits)
next
  case False
  moreover assume "set_manual_anchor now user mid desired db = Inr db'"
  ultimately show ?thesis by (auto simp: set_manual_anchor_def and_then_Inr_iff Let_def split: option.splits)
qed

text \<open>A choice of the user is stored with its time, every account that accepts library writes has a delivery of
  it, waiting when the choice changed and never one that was cancelled or cleared, and no other account has one
  waiting.\<close>

lemma set_library_intent_queues:
  assumes "set_library_intent now user mid desired db = Inr (db', queued)" "deliveries_ok db"
  shows "\<exists>i. intent_of db' user mid = Inr (Some i) \<and> li_desired i = desired \<and> li_updated_at i = now
    \<and> (\<forall>conn \<in> set (library_targets db user). \<exists>d. delivery_of db' (li_id i) (c_id conn) = Some d \<and> ld_desired d = desired
         \<and> ld_state d \<notin> {''cancelled'', ''cleared''}
         \<and> ((\<exists>j. intent_of db user mid = Inr (Some j) \<and> li_desired j \<noteq> desired) \<longrightarrow> ld_state d = ''pending''))
    \<and> (\<forall>d \<in> set (library_delivery_table db'). ld_intent_id d = li_id i \<and> ld_state d = ''pending'' \<longrightarrow>
         ld_connection_id d \<in> c_id ` set (library_targets db user))"
proof -
  obtain found where found: "intent_of db user mid = Inr found"
    using assms(1) by (auto simp: set_library_intent_def and_then_Inr_iff split: option.splits if_splits)
  obtain iid changed db1 where choice: "take_choice now user mid desired found db = (iid, changed, db1)" by (metis prod_cases3)
  let ?targets = "library_targets db user"
  define db2 where "db2 = update_deliveries now
    (\<lambda>d. ld_intent_id d = iid \<and> ld_connection_id d \<notin> c_id ` set ?targets \<and> ld_state d = ''pending'') (\<lambda>d. d\<lparr>ld_state := ''cancelled''\<rparr>) db1"
  note ch = take_choice_intent [OF found choice]
  have targets1: "library_targets db1 user = ?targets" using ch by (simp add: library_targets_def streams_def)
  obtain db3 where q: "fold (queue_target now iid desired changed) ?targets (db2, False) = (db3, queued)"
    and anchor: "set_manual_anchor now user mid desired db3 = Inr db'"
  proof -
    obtain db3 q3 where db3: "fold (queue_target now iid desired changed) ?targets (db2, False) = (db3, q3)" by fastforce
    then have "and_then (set_manual_anchor now user mid desired db3) (\<lambda>db4. Inr (db4, q3)) = Inr (db', queued)"
      using assms(1) found choice targets1 unfolding set_library_intent_def db2_def Let_def
      by (simp split: option.splits if_splits)
    with db3 that show ?thesis by (auto simp: and_then_Inr_iff)
  qed
  have ok1: "deliveries_ok db1" using ch assms(2) deliveries_ok_table by metis
  then have ok2: "deliveries_ok db2" by (simp add: db2_def update_deliveries_ok)
  note qs = queue_targets [OF ok2 q]
  note frame = set_manual_anchor_frame [OF anchor, unfolded same_book_def]
  have book: "delivery_of db' = delivery_of db3" by (rule delivery_of_table) (use frame in simp)
  have "only_deliveries db1 db2" by (simp add: db2_def)
  then have "only_deliveries db1 db3" using conjunct1 [OF conjunct2 [OF qs]] by (rule only_deliveries_trans)
  then have "library_intent_table db3 = library_intent_table db1" unfolding only_deliveries_def
    by (metis db.select_convs(19) db.surjective db.update_convs(23))
  then have "intent_of db' user mid = intent_of db1 user mid" using frame by (simp add: intent_of_def)
  then obtain i where i: "intent_of db' user mid = Inr (Some i)" "li_id i = iid" "li_desired i = desired" "li_updated_at i = now"
    using ch by auto
  have all: "queued_for db' iid desired changed (c_id conn)" if "conn \<in> set ?targets" for conn
    using qs that book by (auto simp: queued_for_def)
  have rest: "ld_connection_id d \<in> c_id ` set ?targets"
    if d: "d \<in> set (library_delivery_table db')" "ld_intent_id d = iid" "ld_state d = ''pending''" for d
  proof (rule ccontr)
    assume no: "ld_connection_id d \<notin> c_id ` set ?targets"
    have "deliveries_ok db'" using qs frame deliveries_ok_table by metis
    then have "delivery_of db' iid (ld_connection_id d) = Some d" using d by (simp add: delivery_of_iff)
    then have "delivery_of db2 iid (ld_connection_id d) = Some d" using qs no book by simp
    then obtain e where e: "delivery_of db1 iid (ld_connection_id d) = Some e"
      "d = (if ld_intent_id e = iid \<and> ld_connection_id e \<notin> c_id ` set ?targets \<and> ld_state e = ''pending''
            then touch_delivery now (\<lambda>d. d\<lparr>ld_state := ''cancelled''\<rparr>) e else e)"
      using delivery_of_update [OF ok1 same_key_intros(2)] unfolding db2_def by fastforce
    show False
    proof (cases "ld_intent_id e = iid \<and> ld_connection_id e \<notin> c_id ` set ?targets \<and> ld_state e = ''pending''")
      case True
      then have "ld_state d = ''cancelled''" by (simp only: e(2) if_True touch_delivery_fields) simp
      then show False using d(3) by simp
    next
      case False
      then have same: "d = e" by (simp only: e(2) if_False)
      show False using False delivery_of_in [OF e(1)] d(3) no unfolding same by simp
    qed
  qed
  have chg: "changed \<longleftrightarrow> (\<exists>j. intent_of db user mid = Inr (Some j) \<and> li_desired j \<noteq> desired)" using ch found by simp
  have "\<forall>conn \<in> set ?targets. queued_for db' (li_id i) desired changed (c_id conn)" using all i(2) by simp
  then have reach: "\<forall>conn \<in> set ?targets. \<exists>d. delivery_of db' (li_id i) (c_id conn) = Some d \<and> ld_desired d = desired
         \<and> ld_state d \<notin> {''cancelled'', ''cleared''}
         \<and> ((\<exists>j. intent_of db user mid = Inr (Some j) \<and> li_desired j \<noteq> desired) \<longrightarrow> ld_state d = ''pending'')"
    unfolding queued_for_def chg .
  have others: "\<forall>d \<in> set (library_delivery_table db'). ld_intent_id d = li_id i \<and> ld_state d = ''pending'' \<longrightarrow>
      ld_connection_id d \<in> c_id ` set ?targets" using rest i(2) by simp
  show ?thesis by (intro exI [of _ i] conjI i(1) i(3) i(4) reach others)
qed

section \<open>An accepted change is not echoed\<close>

definition settled :: "db \<Rightarrow> int \<Rightarrow> bool \<Rightarrow> string \<Rightarrow> int \<Rightarrow> bool" where
  "settled db iid desired state c \<longleftrightarrow>
     (\<exists>d. delivery_of db iid c = Some d \<and> ld_desired d = desired \<and> ld_state d = state \<and> ld_attempts d = 0 \<and> ld_last_error d = None)"

lemma settle_row_step:
  assumes "deliveries_ok db"
  shows "deliveries_ok (settle_row now iid desired state c db) \<and> only_deliveries db (settle_row now iid desired state c db)
    \<and> settled (settle_row now iid desired state c db) iid desired state c
    \<and> (\<forall>i c'. (i, c') \<noteq> (iid, c) \<longrightarrow> delivery_of (settle_row now iid desired state c db) i c' = delivery_of db i c')"
proof (cases "delivery_of db iid c")
  case None
  then show ?thesis using assms by (simp add: settle_row_def add_delivery_ok delivery_of_add settled_def)
next
  case (Some d)
  then show ?thesis using assms by (simp add: settle_row_def set_delivery_ok delivery_of_set settled_def renew_def)
qed

lemma settle_rows:
  assumes "deliveries_ok db"
  shows "deliveries_ok (fold (settle_row now iid desired state) cs db) \<and> only_deliveries db (fold (settle_row now iid desired state) cs db)
    \<and> (\<forall>c. c \<in> set cs \<or> settled db iid desired state c \<longrightarrow> settled (fold (settle_row now iid desired state) cs db) iid desired state c)
    \<and> (\<forall>i c. i \<noteq> iid \<or> c \<notin> set cs \<longrightarrow> delivery_of (fold (settle_row now iid desired state) cs db) i c = delivery_of db i c)"
  using assms
proof (induction cs arbitrary: db)
  case Nil
  then show ?case by simp
next
  case (Cons c cs)
  let ?db1 = "settle_row now iid desired state c db"
  let ?db2 = "fold (settle_row now iid desired state) cs ?db1"
  note step = settle_row_step [OF Cons.prems, of now iid desired state c]
  have ok1: "deliveries_ok ?db1" using step by blast
  note rest = Cons.IH [OF ok1]
  have "settled ?db1 iid desired state c'" if "settled db iid desired state c'" for c'
    using step that by (cases "c' = c") (auto simp: settled_def)
  then have "settled ?db2 iid desired state c'" if "c' \<in> set (c # cs) \<or> settled db iid desired state c'" for c'
    using that rest step by auto
  moreover have "delivery_of ?db2 i c' = delivery_of db i c'" if "i \<noteq> iid \<or> c' \<notin> set (c # cs)" for i c'
    using that rest step by auto
  moreover have "only_deliveries db ?db2" using rest step only_deliveries_trans by blast
  ultimately show ?case using rest by simp
qed

text \<open>When a change reported by some accounts is accepted, those accounts are marked as having it and get no
  delivery of it, every other eligible account has one waiting with the reported membership, and no other choice is
  touched.  A later choice of the user is kept as it is.\<close>

lemma library_change_not_echoed:
  assumes "queue_change now user targets observed legacy by_media desired_by mid (db, n) = Inr (db', n')"
    and "deliveries_ok db" "observed mid = Some t" "finite (change_sources legacy by_media mid)" "change_sources legacy by_media mid \<noteq> {}"
  shows "(\<exists>i. intent_of db user mid = Inr (Some i) \<and> t < li_updated_at i \<and> db' = db)
    \<or> (\<exists>i. intent_of db' user mid = Inr (Some i) \<and> li_desired i = desired_of db user desired_by mid \<and> li_updated_at i = t
       \<and> (\<forall>c \<in> change_sources legacy by_media mid. settled db' (li_id i) (li_desired i) ''observed'' c)
       \<and> (\<forall>conn \<in> set targets. c_id conn \<notin> change_sources legacy by_media mid \<longrightarrow> settled db' (li_id i) (li_desired i) ''pending'' (c_id conn))
       \<and> (\<forall>j c. j \<noteq> li_id i \<longrightarrow> delivery_of db' j c = delivery_of db j c))"
proof -
  let ?src = "change_sources legacy by_media mid"
  let ?want = "desired_of db user desired_by mid"
  let ?cs = "map c_id (filter (\<lambda>c. c_id c \<notin> ?src) targets)"
  obtain found where found: "intent_of db user mid = Inr found"
    using assms(1,3,5) by (auto simp: queue_change_def Let_def and_then_Inr_iff)
  show ?thesis
  proof (cases "case found of None \<Rightarrow> False | Some i \<Rightarrow> t < li_updated_at i")
    case True
    then show ?thesis using assms(1,3,5) found by (auto simp: queue_change_def Let_def split: option.splits)
  next
    case False
    obtain iid changed db1 where choice: "take_choice t user mid ?want found db = (iid, changed, db1)" by (metis prod_cases3)
    note ch = take_choice_intent [OF found choice]
    let ?db2 = "fold (settle_row now iid ?want ''observed'') (sorted_list_of_set ?src) db1"
    have db': "db' = fold (settle_row now iid ?want ''pending'') ?cs ?db2"
      using assms(1,3,5) found False choice by (simp add: queue_change_def Let_def)
    have ok1: "deliveries_ok db1" using ch assms(2) deliveries_ok_table by metis
    note one = settle_rows [OF ok1, of now iid ?want "''observed''" "sorted_list_of_set ?src"]
    have ok2: "deliveries_ok ?db2" using one by blast
    note two = settle_rows [OF ok2, of now iid ?want "''pending''" ?cs]
    have "only_deliveries db1 db'" unfolding db'
      using conjunct1 [OF conjunct2 [OF one]] conjunct1 [OF conjunct2 [OF two]] by (rule only_deliveries_trans)
    then have "library_intent_table db' = library_intent_table db1" unfolding only_deliveries_def
      by (metis db.select_convs(19) db.surjective db.update_convs(23))
    then have "intent_of db' user mid = intent_of db1 user mid" by (simp add: intent_of_def)
    then obtain i where i: "intent_of db' user mid = Inr (Some i)" "li_id i = iid" "li_desired i = ?want" "li_updated_at i = t"
      using ch by auto
    have src: "\<forall>c \<in> ?src. settled db' (li_id i) (li_desired i) ''observed'' c"
    proof
      fix c
      assume c: "c \<in> ?src"
      then have "c \<notin> set ?cs" by auto
      then have "delivery_of db' iid c = delivery_of ?db2 iid c"
        unfolding db' using conjunct2 [OF conjunct2 [OF conjunct2 [OF two]]] by blast
      moreover have "settled ?db2 iid ?want ''observed'' c"
        using conjunct1 [OF conjunct2 [OF conjunct2 [OF one]]] c assms(4) by (metis set_sorted_list_of_set)
      ultimately show "settled db' (li_id i) (li_desired i) ''observed'' c" by (simp add: settled_def i(2,3))
    qed
    have pend: "\<forall>conn \<in> set targets. c_id conn \<notin> ?src \<longrightarrow> settled db' (li_id i) (li_desired i) ''pending'' (c_id conn)"
    proof (intro ballI impI)
      fix conn
      assume "conn \<in> set targets" "c_id conn \<notin> ?src"
      then have "c_id conn \<in> set ?cs" by auto
      then have "settled db' iid ?want ''pending'' (c_id conn)" unfolding db' using conjunct1 [OF conjunct2 [OF conjunct2 [OF two]]] by blast
      then show "settled db' (li_id i) (li_desired i) ''pending'' (c_id conn)" by (simp add: i(2,3))
    qed
    have "delivery_of db1 = delivery_of db" by (rule delivery_of_table) (use ch in simp)
    then have rest: "\<forall>j c. j \<noteq> li_id i \<longrightarrow> delivery_of db' j c = delivery_of db j c"
      unfolding i(2) db' using conjunct2 [OF conjunct2 [OF conjunct2 [OF two]]] conjunct2 [OF conjunct2 [OF conjunct2 [OF one]]]
      by (metis (no_types, lifting))
    show ?thesis by (intro disjI2 exI [of _ i] conjI i(1) i(3) i(4) src pend rest)
  qed
qed

end
