(* ===== verification/LibraryDispatch.thy ===== *)
theory LibraryDispatch
  imports LibraryDeliveries
begin

text \<open>
  What a dispatch of the library deliveries may send, and what its rows say afterwards.
\<close>

section \<open>Writes pass the gate\<close>

definition forget_pushed :: "connection \<Rightarrow> connection" where
  "forget_pushed c = c\<lparr>c_stremio_pushed_library_ids := None\<rparr>"

text \<open>What the gate and the eligibility of an account depend on.\<close>

definition same_view :: "db \<Rightarrow> db \<Rightarrow> bool" where
  "same_view db db' \<longleftrightarrow>
     map forget_pushed (connection_table db') = map forget_pushed (connection_table db) \<and> job_table db' = job_table db
     \<and> stream_baseline_table db' = stream_baseline_table db \<and> review_table db' = review_table db"

lemma same_view_refl [simp]: "same_view db db"
  by (simp add: same_view_def)

lemma same_view_trans: "same_view a b \<Longrightarrow> same_view b c \<Longrightarrow> same_view a c"
  by (simp add: same_view_def)

lemma same_view_simps [simp]:
  "same_view db0 (set_delivery now n f db) = same_view db0 db"
  "same_view db0 (insert_file now coll conn src sid db) = same_view db0 db"
  "same_view db0 (insert_collection now user mid db) = same_view db0 db"
  "same_view db0 (drop_if_empty coll db) = same_view db0 db"
  "same_view db0 (db\<lparr>collection_file_table := fs\<rparr>) = same_view db0 db"
  by (simp_all add: same_view_def set_delivery_def update_deliveries_def insert_file_def insert_collection_def drop_if_empty_def)

lemma same_view_note_pushed [simp]: "same_view db0 (note_pushed content desired cid db) = same_view db0 db"
proof -
  have "map forget_pushed (connection_table (note_pushed content desired cid db)) = map forget_pushed (connection_table db)"
    unfolding note_pushed_def by (simp, rule map_update_where) (simp add: forget_pushed_def)
  moreover have "job_table (note_pushed content desired cid db) = job_table db"
    "stream_baseline_table (note_pushed content desired cid db) = stream_baseline_table db"
    "review_table (note_pushed content desired cid db) = review_table db" by (simp_all add: note_pushed_def)
  ultimately show ?thesis by (simp add: same_view_def)
qed

lemma find_forget: "map_option forget_pushed (find (\<lambda>c. c_id c = cid) cs) = find (\<lambda>c. c_id c = cid) (map forget_pushed cs)"
  by (induction cs) (auto simp: forget_pushed_def)

lemma find_connection_view:
  "same_view db db' \<Longrightarrow> map_option forget_pushed (find_connection db' cid) = map_option forget_pushed (find_connection db cid)"
  by (simp add: find_connection_def find_forget same_view_def)

lemma accepts_forget: "accepts_library user (forget_pushed c) = accepts_library user c"
  by (simp add: accepts_library_def forget_pushed_def)

lemma gate_forget: "require_stream_reconciliation db handoff (forget_pushed c) = require_stream_reconciliation db handoff c"
proof -
  have columns: "c_type (forget_pushed c) = c_type c" "c_id (forget_pushed c) = c_id c" "c_user_id (forget_pushed c) = c_user_id c"
    "c_sync_watched (forget_pushed c) = c_sync_watched c" by (simp_all add: forget_pushed_def)
  then have "onboarding_pending db handoff (forget_pushed c) a b = onboarding_pending db handoff c a b" for a b
    unfolding onboarding_pending_def by (simp only:)
  moreover have "stream_conflict db (forget_pushed c) = stream_conflict db c" using columns unfolding stream_conflict_def by (simp only:)
  ultimately show ?thesis unfolding require_stream_reconciliation_def using columns by (simp only:)
qed

lemma gate_view:
  assumes "same_view db db'"
  shows "require_stream_reconciliation db' handoff c = require_stream_reconciliation db handoff c"
proof -
  have "stream_baseline_of db' = stream_baseline_of db" "active_clear db' = active_clear db" "stream_conflict db' = stream_conflict db"
    using assms by (simp_all add: same_view_def stream_baseline_of_def active_clear_def stream_conflict_def fun_eq_iff)
  then show ?thesis by (simp add: require_stream_reconciliation_def onboarding_pending_def cong: if_cong)
qed

definition accepting :: "db \<Rightarrow> int \<Rightarrow> int \<Rightarrow> bool" where
  "accepting db user cid \<longleftrightarrow> (\<exists>conn. find_connection db cid = Some conn \<and> accepts_library user conn)"

definition open_library :: "db \<Rightarrow> int option \<Rightarrow> int \<Rightarrow> int \<Rightarrow> bool" where
  "open_library db handoff user cid \<longleftrightarrow>
     (\<exists>conn. find_connection db cid = Some conn \<and> accepts_library user conn \<and> require_stream_reconciliation db handoff conn = Inr ())"

lemma accepting_view: assumes "same_view db db'" shows "accepting db' user cid = accepting db user cid"
proof -
  have "accepting d user cid \<longleftrightarrow> (\<exists>c. map_option forget_pushed (find_connection d cid) = Some c \<and> accepts_library user c)" for d
    by (auto simp: accepting_def accepts_forget)
  then show ?thesis using find_connection_view [OF assms] by (simp only:)
qed

lemma open_library_view: assumes "same_view db db'" shows "open_library db' handoff user cid = open_library db handoff user cid"
proof -
  have "open_library d handoff user cid \<longleftrightarrow> (\<exists>c. map_option forget_pushed (find_connection d cid) = Some c \<and> accepts_library user c
      \<and> require_stream_reconciliation d handoff c = Inr ())" for d
    by (auto simp: open_library_def accepts_forget gate_forget)
  then show ?thesis using find_connection_view [OF assms] gate_view [OF assms] by (simp only:)
qed

lemma find_connection_id: "find_connection db cid = Some conn \<Longrightarrow> c_id conn = cid"
  by (auto simp: find_connection_def find_Some_iff)

section \<open>Recording a membership\<close>

lemma put_member_frame:
  "put_member now coll conn content db = Inr db' \<Longrightarrow> same_view db db' \<and> library_delivery_table db' = library_delivery_table db"
  by (auto simp: put_member_def insert_file_def same_view_def split: list.splits if_splits)

lemma record_membership_frame:
  assumes "record_membership now user mid conn content desired db = Inr db'"
  shows "same_view db db' \<and> library_delivery_table db' = library_delivery_table db"
proof -
  obtain found db1 where m: "(if desired then (case ensure_collection now user mid found db of (coll, db1) \<Rightarrow> put_member now coll conn content db1)
      else case found of None \<Rightarrow> Inr db | Some c \<Rightarrow> Inr (drop_if_empty (cl_id c)
        (db\<lparr>collection_file_table := filter (\<lambda>f. \<not> member_file (cl_id c) conn f) (collection_file_table db)\<rparr>))) = Inr db1"
    and db': "db' = note_pushed content desired (c_id conn) db1"
    using assms unfolding record_membership_def and_then_Inr_iff by blast
  have "same_view db db1 \<and> library_delivery_table db1 = library_delivery_table db"
  proof (cases desired)
    case True
    obtain coll db2 where e: "ensure_collection now user mid found db = (coll, db2)" by fastforce
    have "same_view db db2 \<and> library_delivery_table db2 = library_delivery_table db"
      using e by (auto simp: ensure_collection_def insert_collection_def same_view_def split: option.splits)
    moreover have "put_member now coll conn content db2 = Inr db1" using m True e by simp
    ultimately show ?thesis using put_member_frame same_view_trans by metis
  next
    case False
    then show ?thesis using m by (auto simp: drop_if_empty_def same_view_def split: option.splits)
  qed
  then show ?thesis by (simp add: db' note_pushed_def) (simp add: note_pushed_def [symmetric])
qed

section \<open>One row\<close>

text \<open>What a row says after its turn: delivered, withdrawn because no account takes it, or still waiting with one
  more attempt and a reason.\<close>

definition row_settled ::
  "(library_call \<Rightarrow> write_error option) \<Rightarrow> int \<Rightarrow> string \<Rightarrow> db \<Rightarrow> library_call list \<Rightarrow> db \<Rightarrow> library_delivery \<Rightarrow> bool" where
  "row_settled outcome user content db0 sent db r \<longleftrightarrow>
     (\<exists>d. delivery_of db (ld_intent_id r) (ld_connection_id r) = Some d \<and>
        ((ld_state d = ''applied'' \<and> ld_last_error d = None \<and> LibraryWrite (ld_connection_id r) content (ld_desired r) \<in> set sent
            \<and> outcome (LibraryWrite (ld_connection_id r) content (ld_desired r)) = None)
         \<or> (ld_state d = ''cancelled'' \<and> \<not> accepting db0 user (ld_connection_id r))
         \<or> (ld_state d = ld_state r \<and> ld_attempts d = ld_attempts r + 1 \<and> ld_last_error d \<noteq> None)))"

definition row_call :: "string \<Rightarrow> library_delivery \<Rightarrow> library_call" where
  "row_call content r = LibraryWrite (ld_connection_id r) content (ld_desired r)"

definition attempted :: "datetime \<Rightarrow> library_delivery \<Rightarrow> library_delivery" where
  "attempted now r = touch_delivery now (\<lambda>d. d\<lparr>ld_attempts := ld_attempts d + 1, ld_updated_at := now\<rparr>) r"

lemma attempted_fields [simp]:
  "ld_id (attempted now r) = ld_id r" "ld_state (attempted now r) = ld_state r" "ld_attempts (attempted now r) = ld_attempts r + 1"
  by (simp_all add: attempted_def)

lemma delivery_of_attempt:
  assumes "deliveries_ok db" "delivery_of db i c = Some r"
  shows "deliveries_ok (set_delivery now (ld_id r) (\<lambda>d. d\<lparr>ld_attempts := ld_attempts d + 1, ld_updated_at := now\<rparr>) db)
    \<and> delivery_of (set_delivery now (ld_id r) (\<lambda>d. d\<lparr>ld_attempts := ld_attempts d + 1, ld_updated_at := now\<rparr>) db) i' c'
      = (if i' = i \<and> c' = c then Some (attempted now r) else delivery_of db i' c')"
  using assms by (simp add: set_delivery_ok delivery_of_set attempted_def)

text \<open>The three ways a turn ends.\<close>

lemma deliver_row_cases:
  assumes "deliver_row outcome now handoff user mid content row w = Inr w'"
  obtains (cancelled) "\<not> accepting (lw_db w) user (ld_connection_id row)"
      "w' = w\<lparr>lw_db := set_delivery now (ld_id row) (\<lambda>d. d\<lparr>ld_state := ''cancelled''\<rparr>) (lw_db w)\<rparr>"
  | (failed) msg sent where "accepting (lw_db w) user (ld_connection_id row)" "sent = [] \<or> sent = [row_call content row] \<and> open_library (lw_db w) handoff user (ld_connection_id row)"
      "w' = \<lparr>lw_db = set_delivery now (ld_id row) (\<lambda>d. d\<lparr>ld_last_error := Some msg\<rparr>)
         (set_delivery now (ld_id row) (\<lambda>d. d\<lparr>ld_attempts := ld_attempts d + 1, ld_updated_at := now\<rparr>) (lw_db w)), lw_sent = lw_sent w @ sent\<rparr>"
  | (applied) db2 where "open_library (lw_db w) handoff user (ld_connection_id row)" "outcome (row_call content row) = None"
      "same_view (set_delivery now (ld_id row) (\<lambda>d. d\<lparr>ld_attempts := ld_attempts d + 1, ld_updated_at := now\<rparr>) (lw_db w)) db2"
      "library_delivery_table db2 = library_delivery_table
         (set_delivery now (ld_id row) (\<lambda>d. d\<lparr>ld_attempts := ld_attempts d + 1, ld_updated_at := now\<rparr>) (lw_db w))"
      "w' = \<lparr>lw_db = set_delivery now (ld_id row) (\<lambda>d. d\<lparr>ld_state := ''applied'', ld_last_error := None\<rparr>) db2,
         lw_sent = lw_sent w @ [row_call content row]\<rparr>"
proof -
  define db1 where "db1 = set_delivery now (ld_id row) (\<lambda>d. d\<lparr>ld_attempts := ld_attempts d + 1, ld_updated_at := now\<rparr>) (lw_db w)"
  show thesis
  proof (cases "accepting (lw_db w) user (ld_connection_id row)")
    case False
    then have "w' = w\<lparr>lw_db := set_delivery now (ld_id row) (\<lambda>d. d\<lparr>ld_state := ''cancelled''\<rparr>) (lw_db w)\<rparr>"
    proof (cases "find_connection (lw_db w) (ld_connection_id row)")
      case None
      then show ?thesis using assms by (simp add: deliver_row_def)
    next
      case (Some conn)
      then have "\<not> accepts_library user conn" using False by (simp add: accepting_def)
      then show ?thesis using assms Some by (simp add: deliver_row_def)
    qed
    with False show thesis by (rule cancelled)
  next
    case True
    then obtain conn where conn: "find_connection (lw_db w) (ld_connection_id row) = Some conn" "accepts_library user conn"
      by (auto simp: accepting_def)
    have cid: "c_id conn = ld_connection_id row" using conn(1) by (rule find_connection_id)
    have view: "same_view (lw_db w) db1" by (simp add: db1_def)
    note run = assms [unfolded deliver_row_def Let_def conn(1) option.case db1_def [symmetric]]
    show thesis
    proof (cases "require_stream_reconciliation db1 handoff conn = Inr ()")
      case False
      then have "w' = w\<lparr>lw_db := set_delivery now (ld_id row) (\<lambda>d. d\<lparr>ld_last_error := Some (gate_detail db1 handoff conn)\<rparr>) db1\<rparr>"
        using run conn(2) by simp
      then show thesis using True by (intro failed [where sent = "[]" and msg = "gate_detail db1 handoff conn"]) (cases w, simp_all add: db1_def)
    next
      case gate: True
      then have opened: "open_library (lw_db w) handoff user (ld_connection_id row)"
        using conn gate_view [OF view] by (auto simp: open_library_def)
      have call: "LibraryWrite (c_id conn) content (ld_desired row) = row_call content row" by (simp add: row_call_def cid)
      show thesis
      proof (cases "outcome (row_call content row)")
        case (Some e)
        then have "w' = \<lparr>lw_db = set_delivery now (ld_id row) (\<lambda>d. d\<lparr>ld_last_error := Some (error_text e)\<rparr>) db1,
            lw_sent = lw_sent w @ [row_call content row]\<rparr>"
          using run conn(2) gate by (cases w) (simp add: call)
        then show thesis using True opened by (intro failed [where sent = "[row_call content row]" and msg = "error_text e"]) (simp_all add: db1_def)
      next
        case None
        show thesis
        proof (cases "record_membership now user mid conn content (ld_desired row) db1")
          case (Inl e)
          then have "w' = \<lparr>lw_db = set_delivery now (ld_id row) (\<lambda>d. d\<lparr>ld_last_error := Some (error_name e)\<rparr>) db1,
              lw_sent = lw_sent w @ [row_call content row]\<rparr>"
            using run conn(2) gate None by (cases w) (simp add: call split: py_error.splits)
          then show thesis using True opened by (intro failed [where sent = "[row_call content row]" and msg = "error_name e"]) (simp_all add: db1_def)
        next
          case (Inr db2)
          note frame = record_membership_frame [OF Inr]
          have "w' = \<lparr>lw_db = set_delivery now (ld_id row) (\<lambda>d. d\<lparr>ld_state := ''applied'', ld_last_error := None\<rparr>) db2,
              lw_sent = lw_sent w @ [row_call content row]\<rparr>"
            using run conn(2) gate None Inr by (cases w) (simp add: call)
          with opened None conjunct1 [OF frame] conjunct2 [OF frame] show thesis unfolding db1_def by (rule applied)
        qed
      qed
    qed
  qed
qed

lemma deliver_row_view: "deliver_row outcome now handoff user mid content row w = Inr w' \<Longrightarrow> same_view (lw_db w) (lw_db w')"
proof (erule deliver_row_cases)
  fix db2
  assume "same_view (set_delivery now (ld_id row) (\<lambda>d. d\<lparr>ld_attempts := ld_attempts d + 1, ld_updated_at := now\<rparr>) (lw_db w)) db2"
    "w' = \<lparr>lw_db = set_delivery now (ld_id row) (\<lambda>d. d\<lparr>ld_state := ''applied'', ld_last_error := None\<rparr>) db2,
       lw_sent = lw_sent w @ [row_call content row]\<rparr>"
  then show "same_view (lw_db w) (lw_db w')"
    using same_view_trans [of "lw_db w" "set_delivery now (ld_id row) (\<lambda>d. d\<lparr>ld_attempts := ld_attempts d + 1, ld_updated_at := now\<rparr>) (lw_db w)" db2]
    by simp
qed simp_all

interpretation libraries: outbox "deliver_row outcome now handoff user mid content" lw_sent
  "\<lambda>w call. open_library (lw_db w) handoff user (lc_connection call)"
proof
  fix row and w w' :: library_world and call
  assume step: "deliver_row outcome now handoff user mid content row w = Inr w'"
  show "open_library (lw_db w') handoff user (lc_connection call) = open_library (lw_db w) handoff user (lc_connection call)"
    by (rule open_library_view [OF deliver_row_view [OF step]])
  show "\<exists>new. lw_sent w' = lw_sent w @ new \<and> (\<forall>call \<in> set new. open_library (lw_db w) handoff user (lc_connection call))"
    using step by (cases rule: deliver_row_cases) (auto simp: row_call_def)
qed

lemma deliver_row_step:
  assumes "deliver_row outcome now handoff user mid content r w = Inr w'" "deliveries_ok (lw_db w)"
    and row: "delivery_of (lw_db w) (ld_intent_id r) (ld_connection_id r) = Some r"
  shows "deliveries_ok (lw_db w') \<and> row_settled outcome user content (lw_db w) (lw_sent w') (lw_db w') r
    \<and> (\<forall>i c. (i, c) \<noteq> (ld_intent_id r, ld_connection_id r) \<longrightarrow> delivery_of (lw_db w') i c = delivery_of (lw_db w) i c)
    \<and> (\<exists>new. lw_sent w' = lw_sent w @ new \<and> set new \<subseteq> {row_call content r})"
  using assms(1)
proof (cases rule: deliver_row_cases)
  case cancelled
  then show ?thesis using assms(2) row
    by (simp add: set_delivery_ok delivery_of_set row_settled_def)
next
  case (failed msg sent)
  define db1 where "db1 = set_delivery now (ld_id r) (\<lambda>d. d\<lparr>ld_attempts := ld_attempts d + 1, ld_updated_at := now\<rparr>) (lw_db w)"
  note tried = delivery_of_attempt [OF assms(2) row, of now, folded db1_def]
  have mine: "delivery_of db1 (ld_intent_id r) (ld_connection_id r) = Some (attempted now r)" using tried by simp
  have w': "lw_db w' = set_delivery now (ld_id (attempted now r)) (\<lambda>d. d\<lparr>ld_last_error := Some msg\<rparr>) db1"
    "lw_sent w' = lw_sent w @ sent" using failed(3) by (simp_all add: db1_def)
  have book: "delivery_of (lw_db w') i c = (if i = ld_intent_id r \<and> c = ld_connection_id r
      then Some (touch_delivery now (\<lambda>d. d\<lparr>ld_last_error := Some msg\<rparr>) (attempted now r)) else delivery_of (lw_db w) i c)" for i c
    unfolding w'(1) using delivery_of_set [OF conjunct1 [OF tried] same_key_intros(3) mine] tried by simp
  have "deliveries_ok (lw_db w')" unfolding w'(1) by (intro set_delivery_ok conjunct1 [OF tried]) simp
  moreover have "row_settled outcome user content (lw_db w) (lw_sent w') (lw_db w') r" by (simp add: row_settled_def book)
  moreover have "set sent \<subseteq> {row_call content r}" using failed(2) by auto
  ultimately show ?thesis by (auto simp: book w'(2))
next
  case (applied db2)
  define db1 where "db1 = set_delivery now (ld_id r) (\<lambda>d. d\<lparr>ld_attempts := ld_attempts d + 1, ld_updated_at := now\<rparr>) (lw_db w)"
  note tried = delivery_of_attempt [OF assms(2) row, of now, folded db1_def]
  have same: "library_delivery_table db2 = library_delivery_table db1" using applied(4) by (simp add: db1_def)
  have ok2: "deliveries_ok db2" using tried deliveries_ok_table [OF same] by simp
  have book2: "delivery_of db2 = delivery_of db1" by (rule delivery_of_table [OF same])
  have mine: "delivery_of db2 (ld_intent_id r) (ld_connection_id r) = Some (attempted now r)" using tried book2 by simp
  have w': "lw_db w' = set_delivery now (ld_id (attempted now r)) (\<lambda>d. d\<lparr>ld_state := ''applied'', ld_last_error := None\<rparr>) db2"
    "lw_sent w' = lw_sent w @ [row_call content r]" using applied(5) by simp_all
  have book: "delivery_of (lw_db w') i c = (if i = ld_intent_id r \<and> c = ld_connection_id r
      then Some (touch_delivery now (\<lambda>d. d\<lparr>ld_state := ''applied'', ld_last_error := None\<rparr>) (attempted now r))
      else delivery_of (lw_db w) i c)" for i c
    unfolding w'(1) using delivery_of_set [OF ok2 same_key_intros(4) mine] tried book2 by simp
  have "deliveries_ok (lw_db w')" unfolding w'(1) by (intro set_delivery_ok ok2) simp
  moreover have "row_settled outcome user content (lw_db w) (lw_sent w') (lw_db w') r"
    using applied(2) by (simp add: row_settled_def book w'(2) row_call_def)
  ultimately show ?thesis by (auto simp: book w'(2))
qed

lemma row_settled_later:
  assumes "row_settled outcome user content db0 sent db r" "set sent \<subseteq> set sent'"
    and "delivery_of db' (ld_intent_id r) (ld_connection_id r) = delivery_of db (ld_intent_id r) (ld_connection_id r)"
  shows "row_settled outcome user content db0 sent' db' r"
  using assms unfolding row_settled_def by auto

lemma deliver_rows:
  assumes "fold_result (deliver_row outcome now handoff user mid content) rows w = Inr w'" "deliveries_ok (lw_db w)"
    and "\<forall>r \<in> set rows. delivery_of (lw_db w) (ld_intent_id r) (ld_connection_id r) = Some r"
    and "distinct (map (\<lambda>r. (ld_intent_id r, ld_connection_id r)) rows)" "same_view db0 (lw_db w)"
  shows "(\<forall>r \<in> set rows. row_settled outcome user content db0 (lw_sent w') (lw_db w') r)
    \<and> (\<forall>i c. (i, c) \<notin> (\<lambda>r. (ld_intent_id r, ld_connection_id r)) ` set rows \<longrightarrow> delivery_of (lw_db w') i c = delivery_of (lw_db w) i c)
    \<and> (\<exists>new. lw_sent w' = lw_sent w @ new \<and> set new \<subseteq> row_call content ` set rows)"
  using assms
proof (induction rows arbitrary: w)
  case Nil
  then show ?case by simp
next
  case (Cons r rows)
  obtain w1 where w1: "deliver_row outcome now handoff user mid content r w = Inr w1"
    "fold_result (deliver_row outcome now handoff user mid content) rows w1 = Inr w'"
    using Cons.prems(1) by (auto simp: and_then_Inr_iff)
  have row: "delivery_of (lw_db w) (ld_intent_id r) (ld_connection_id r) = Some r" using Cons.prems(3) by simp
  note step = deliver_row_step [OF w1(1) Cons.prems(2) row]
  have fresh: "(ld_intent_id r, ld_connection_id r) \<notin> (\<lambda>r. (ld_intent_id r, ld_connection_id r)) ` set rows"
    "distinct (map (\<lambda>r. (ld_intent_id r, ld_connection_id r)) rows)" using Cons.prems(4) by auto
  have rows1: "\<forall>r' \<in> set rows. delivery_of (lw_db w1) (ld_intent_id r') (ld_connection_id r') = Some r'"
  proof
    fix r' assume r': "r' \<in> set rows"
    have "(ld_intent_id r', ld_connection_id r') \<noteq> (ld_intent_id r, ld_connection_id r)"
      using imageI [OF r', of "\<lambda>r. (ld_intent_id r, ld_connection_id r)"] fresh(1) by force
    then show "delivery_of (lw_db w1) (ld_intent_id r') (ld_connection_id r') = Some r'" using step Cons.prems(3) r' by simp
  qed
  have view1: "same_view db0 (lw_db w1)" using same_view_trans [OF Cons.prems(5) deliver_row_view [OF w1(1)]] .
  note rest = Cons.IH [OF w1(2) conjunct1 [OF step] rows1 fresh(2) view1]
  obtain new where new: "lw_sent w' = lw_sent w1 @ new" "set new \<subseteq> row_call content ` set rows" using conjunct2 [OF conjunct2 [OF rest]] by blast
  obtain first where first: "lw_sent w1 = lw_sent w @ first" "set first \<subseteq> {row_call content r}"
    using conjunct2 [OF conjunct2 [OF conjunct2 [OF step]]] by blast
  have "row_settled outcome user content (lw_db w) (lw_sent w') (lw_db w') r"
  proof (rule row_settled_later [OF conjunct1 [OF conjunct2 [OF step]]])
    show "set (lw_sent w1) \<subseteq> set (lw_sent w')" using new(1) by simp
    show "delivery_of (lw_db w') (ld_intent_id r) (ld_connection_id r) = delivery_of (lw_db w1) (ld_intent_id r) (ld_connection_id r)"
      using conjunct1 [OF conjunct2 [OF rest]] fresh(1) by blast
  qed
  then have "row_settled outcome user content db0 (lw_sent w') (lw_db w') r"
    using accepting_view [OF Cons.prems(5)] by (simp add: row_settled_def)
  then have all: "\<forall>r \<in> set (r # rows). row_settled outcome user content db0 (lw_sent w') (lw_db w') r"
    using conjunct1 [OF rest] by simp
  have others: "delivery_of (lw_db w') i c = delivery_of (lw_db w) i c"
    if "(i, c) \<notin> (\<lambda>r. (ld_intent_id r, ld_connection_id r)) ` set (r # rows)" for i c
    using that conjunct1 [OF conjunct2 [OF rest]] conjunct1 [OF conjunct2 [OF conjunct2 [OF step]]] by simp
  have "lw_sent w' = lw_sent w @ (first @ new)" "set (first @ new) \<subseteq> row_call content ` set (r # rows)" using new first by auto
  with all others show ?case by blast
qed

section \<open>A whole dispatch\<close>

lemma record_for_media_frame:
  "record_for_media external api_key now m db = (res, db') \<Longrightarrow> same_view db db' \<and> library_delivery_table db' = library_delivery_table db"
  by (auto simp: record_for_media_def ensure_imdb_id_def store_imdb_def same_view_def Let_def split: option.splits entity.splits if_splits)

lemma deliver_rows_calls:
  assumes "fold_result (deliver_row outcome now handoff user mid content) rows w = Inr w'"
  shows "\<exists>new. lw_sent w' = lw_sent w @ new \<and> set new \<subseteq> row_call content ` set rows"
proof (rule fold_result_invariant [OF assms, where P = "\<lambda>v. \<exists>new. lw_sent v = lw_sent w @ new \<and> set new \<subseteq> row_call content ` set rows"])
  show "\<exists>new. lw_sent w = lw_sent w @ new \<and> set new \<subseteq> row_call content ` set rows" by simp
next
  fix r v v'
  assume r: "r \<in> set rows" and "\<exists>new. lw_sent v = lw_sent w @ new \<and> set new \<subseteq> row_call content ` set rows"
    and step: "deliver_row outcome now handoff user mid content r v = Inr v'"
  then obtain new where new: "lw_sent v = lw_sent w @ new" "set new \<subseteq> row_call content ` set rows" by blast
  from step obtain more where more: "lw_sent v' = lw_sent v @ more" "set more \<subseteq> {row_call content r}"
    by (cases rule: deliver_row_cases) auto
  then have "lw_sent v' = lw_sent w @ (new @ more)" "set (new @ more) \<subseteq> row_call content ` set rows" using new r by auto
  then show "\<exists>new. lw_sent v' = lw_sent w @ new \<and> set new \<subseteq> row_call content ` set rows" by blast
qed

lemma dispatch_cases:
  assumes "dispatch_library_deliveries env user mid w = Inr w'"
  obtains (idle) "w' = w"
  | (unknown) i m msg db1 where "intent_of (lw_db w) user mid = Inr (Some i)" "find_media (lw_db w) mid = Some m"
      "record_for_media (de_external env) (de_api_key env) (de_now env) m (lw_db w) = (Inl msg, db1)"
      "w' = w\<lparr>lw_db := fold (\<lambda>row. set_delivery (de_now env) (ld_id row)
         (\<lambda>d. d\<lparr>ld_attempts := ld_attempts d + 1, ld_last_error := Some msg, ld_updated_at := de_now env\<rparr>)) (pending_deliveries (lw_db w) (li_id i)) db1\<rparr>"
  | (known) i m content db1 where "intent_of (lw_db w) user mid = Inr (Some i)" "find_media (lw_db w) mid = Some m"
      "record_for_media (de_external env) (de_api_key env) (de_now env) m (lw_db w) = (Inr content, db1)"
      "fold_result (deliver_row (de_outcome env) (de_now env) (de_handoff env) user mid content) (pending_deliveries (lw_db w) (li_id i))
         (w\<lparr>lw_db := db1\<rparr>) = Inr w'"
proof -
  obtain intent where intent: "intent_of (lw_db w) user mid = Inr intent"
    using assms by (auto simp: dispatch_library_deliveries_def Let_def and_then_Inr_iff)
  note run = assms [unfolded dispatch_library_deliveries_def Let_def intent and_then_simps]
  show thesis
  proof (cases "intent = None \<or> find_media (lw_db w) mid = None")
    case True
    then have "w' = w" using run by (auto split: option.splits)
    then show thesis by (rule idle)
  next
    case False
    then obtain i m where im: "intent = Some i" "find_media (lw_db w) mid = Some m" by auto
    obtain res db1 where rec: "record_for_media (de_external env) (de_api_key env) (de_now env) m (lw_db w) = (res, db1)" by fastforce
    show thesis
    proof (cases "pending_deliveries (lw_db w) (li_id i) = []")
      case True
      then show thesis using run im by (intro idle) simp
    next
      case ne: False
      show thesis
      proof (cases res)
        case (Inl msg)
        then show thesis using run im rec ne intent by (intro unknown [of i m msg db1]) simp_all
      next
        case (Inr content)
        then show thesis using run im rec ne intent by (intro known [of i m content db1]) simp_all
      qed
    qed
  qed
qed

lemma pending_deliveries_in:
  "r \<in> set (pending_deliveries db iid) \<longleftrightarrow> r \<in> set (library_delivery_table db) \<and> ld_intent_id r = iid \<and> ld_state r = ''pending''"
  by (auto simp: pending_deliveries_def)


lemma fail_rows:
  assumes "deliveries_ok db" "\<forall>r \<in> set rows. delivery_of db (ld_intent_id r) (ld_connection_id r) = Some r"
    and "distinct (map (\<lambda>r. (ld_intent_id r, ld_connection_id r)) rows)"
  shows "\<forall>r \<in> set rows. delivery_of (fold (\<lambda>row. set_delivery now (ld_id row)
      (\<lambda>d. d\<lparr>ld_attempts := ld_attempts d + 1, ld_last_error := Some msg, ld_updated_at := now\<rparr>)) rows db)
        (ld_intent_id r) (ld_connection_id r)
      = Some (touch_delivery now (\<lambda>d. d\<lparr>ld_attempts := ld_attempts d + 1, ld_last_error := Some msg, ld_updated_at := now\<rparr>) r)"
proof -
  let ?f = "\<lambda>d. d\<lparr>ld_attempts := ld_attempts d + 1, ld_last_error := Some msg, ld_updated_at := now\<rparr>"
  let ?key = "\<lambda>r. (ld_intent_id r, ld_connection_id r)"
  have "deliveries_ok (fold (\<lambda>row. set_delivery now (ld_id row) ?f) rows db)
    \<and> (\<forall>i c. delivery_of (fold (\<lambda>row. set_delivery now (ld_id row) ?f) rows db) i c =
         (if (i, c) \<in> ?key ` set rows then map_option (touch_delivery now ?f) (delivery_of db i c) else delivery_of db i c))"
    using assms
  proof (induction rows arbitrary: db)
    case Nil
    then show ?case by simp
  next
    case (Cons r rows)
    let ?db1 = "set_delivery now (ld_id r) ?f db"
    have row: "delivery_of db (ld_intent_id r) (ld_connection_id r) = Some r" using Cons.prems(2) by simp
    have book: "delivery_of ?db1 i c = (if i = ld_intent_id r \<and> c = ld_connection_id r then Some (touch_delivery now ?f r) else delivery_of db i c)" for i c
      by (rule delivery_of_set [OF Cons.prems(1) same_key_intros(7) row])
    have ok: "deliveries_ok ?db1" using Cons.prems(1) by (simp add: set_delivery_ok)
    have fresh: "?key r \<notin> ?key ` set rows" "distinct (map ?key rows)" using Cons.prems(3) by auto
    have rows1: "\<forall>r' \<in> set rows. delivery_of ?db1 (ld_intent_id r') (ld_connection_id r') = Some r'"
    proof
      fix r' assume r': "r' \<in> set rows"
      have "?key r' \<noteq> ?key r" using imageI [OF r', of ?key] fresh(1) by force
      then show "delivery_of ?db1 (ld_intent_id r') (ld_connection_id r') = Some r'" using book Cons.prems(2) r' by auto
    qed
    note rest = Cons.IH [OF ok rows1 fresh(2)]
    show ?case using rest fresh(1) row by (auto simp: book)
  qed
  then show ?thesis using assms(2) by auto
qed

text \<open>After a dispatch every delivery that was waiting tells the truth: it is applied only if its write was made
  and did not raise, it is cancelled only if no account of the user takes it any more, and otherwise it is still
  waiting, with one more attempt and the reason.\<close>

lemma dispatch_library_truthful:
  assumes "dispatch_library_deliveries env user mid w = Inr w'" "deliveries_ok (lw_db w)"
    and "intent_of (lw_db w) user mid = Inr (Some i)" "find_media (lw_db w) mid = Some m"
    and "r \<in> set (pending_deliveries (lw_db w) (li_id i))"
  shows "\<exists>d. delivery_of (lw_db w') (li_id i) (ld_connection_id r) = Some d \<and>
    ((ld_state d = ''applied'' \<and> (\<exists>content. LibraryWrite (ld_connection_id r) content (ld_desired r) \<in> set (lw_sent w')
         \<and> de_outcome env (LibraryWrite (ld_connection_id r) content (ld_desired r)) = None))
     \<or> (ld_state d = ''cancelled'' \<and> \<not> accepting (lw_db w) user (ld_connection_id r))
     \<or> (ld_state d = ''pending'' \<and> ld_attempts d = ld_attempts r + 1 \<and> ld_last_error d \<noteq> None))"
proof -
  let ?rows = "pending_deliveries (lw_db w) (li_id i)"
  have keys: "\<forall>r \<in> set ?rows. delivery_of (lw_db w) (ld_intent_id r) (ld_connection_id r) = Some r"
    using assms(2) by (simp add: delivery_of_iff pending_deliveries_in)
  have uniq: "distinct (map (\<lambda>r. (ld_intent_id r, ld_connection_id r)) ?rows)"
    using assms(2) by (auto simp: deliveries_ok_def unique_on_def pending_deliveries_def distinct_map inj_on_def)
  have r: "ld_intent_id r = li_id i" "ld_state r = ''pending''" using assms(5) by (simp_all add: pending_deliveries_in)
  obtain res db1 where rec: "record_for_media (de_external env) (de_api_key env) (de_now env) m (lw_db w) = (res, db1)" by fastforce
  note frame = record_for_media_frame [OF rec]
  have ok1: "deliveries_ok db1" using assms(2) deliveries_ok_table [OF conjunct2 [OF frame]] by simp
  have keys1: "\<forall>r \<in> set ?rows. delivery_of db1 (ld_intent_id r) (ld_connection_id r) = Some r"
    using keys delivery_of_table [OF conjunct2 [OF frame]] by simp
  have ne: "?rows \<noteq> []" using assms(5) by auto
  note run = assms(1) [unfolded dispatch_library_deliveries_def Let_def assms(3,4) and_then_simps option.case prod.case rec if_not_P [OF ne]]
  show ?thesis
  proof (cases res)
    case (Inl msg)
    then show ?thesis using run fail_rows [OF ok1 keys1 uniq, of "de_now env" msg] assms(5) r by auto
  next
    case (Inr content)
    then have fold: "fold_result (deliver_row (de_outcome env) (de_now env) (de_handoff env) user mid content) ?rows (w\<lparr>lw_db := db1\<rparr>) = Inr w'"
      using run by simp
    have "row_settled (de_outcome env) user content (lw_db w) (lw_sent w') (lw_db w') r"
      using deliver_rows [OF fold, of "lw_db w"] ok1 keys1 uniq frame assms(5) by simp
    then show ?thesis unfolding row_settled_def r by blast
  qed
qed

section \<open>Examples\<close>

text \<open>A wanted film and a Stremio account that takes library writes; \<open>sample_two_db\<close> adds a second one.\<close>

definition sample_account :: "int \<Rightarrow> connection" where
  "sample_account cid = (new_connection cid 1 ''stremio'' ''s'' ''u'' ''t'' 0)\<lparr>c_push_collection := True\<rparr>"

definition sample_delivery :: "int \<Rightarrow> int \<Rightarrow> library_delivery" where
  "sample_delivery n cid = \<lparr>ld_id = n, ld_intent_id = 1, ld_connection_id = cid, ld_desired = True, ld_state = ''pending'',
     ld_attempts = 0, ld_last_error = None, ld_updated_at = 0\<rparr>"

definition sample_approval :: "int \<Rightarrow> stream_baseline" where
  "sample_approval cid = \<lparr>sb_connection_id = cid, sb_user_id = 1, sb_snapshot = [], sb_approved = True, sb_observed_at = 0\<rparr>"

definition sample_wanted_db :: db where
  "sample_wanted_db = empty_db\<lparr>connection_table := [sample_account 5], stream_baseline_table := [sample_approval 5],
     media_table := [sample_movie], library_intent_table := [\<lparr>li_id = 1, li_user_id = 1, li_media_id = 10, li_desired = True, li_updated_at = 0\<rparr>],
     library_delivery_table := [sample_delivery 1 5]\<rparr>"

definition sample_two_db :: db where
  "sample_two_db = sample_wanted_db\<lparr>connection_table := [sample_account 5, sample_account 6],
     stream_baseline_table := [sample_approval 5, sample_approval 6],
     library_delivery_table := [sample_delivery 1 5, sample_delivery 2 6]\<rparr>"

definition sample_env :: delivery_env where
  "sample_env = \<lparr>de_external = \<lambda>_ _. None, de_api_key = None, de_outcome = \<lambda>_. None, de_now = 9000, de_handoff = None\<rparr>"

lemma sample_dispatch_run:
  "case dispatch_library_deliveries sample_env 1 10 \<lparr>lw_db = sample_wanted_db, lw_sent = []\<rparr> of
     Inr w \<Rightarrow> lw_sent w = [LibraryWrite 5 ''tt0123'' True] \<and> map ld_state (library_delivery_table (lw_db w)) = [''applied'']
   | Inl _ \<Rightarrow> False"
  by code_simp

lemma sample_wanted_ok: "deliveries_ok sample_wanted_db"
  by (simp add: deliveries_ok_def sample_wanted_db_def unique_on_def)


lemma dispatch_library_truthful_witness:
  "\<exists>w' d. dispatch_library_deliveries sample_env 1 10 \<lparr>lw_db = sample_wanted_db, lw_sent = []\<rparr> = Inr w' \<and>
     delivery_of (lw_db w') 1 5 = Some d \<and> ld_state d \<noteq> ''observed''"
proof -
  obtain w' where w': "dispatch_library_deliveries sample_env 1 10 \<lparr>lw_db = sample_wanted_db, lw_sent = []\<rparr> = Inr w'"
    using sample_dispatch_run by (auto split: sum.splits)
  let ?i = "\<lparr>li_id = 1, li_user_id = 1, li_media_id = 10, li_desired = True, li_updated_at = 0\<rparr>"
  have "intent_of sample_wanted_db 1 10 = Inr (Some ?i)" "find_media sample_wanted_db 10 = Some sample_movie"
    "sample_delivery 1 5 \<in> set (pending_deliveries sample_wanted_db 1)"
    by (simp_all add: intent_of_def find_media_def sample_wanted_db_def sample_movie_def new_media_def pending_deliveries_def sample_delivery_def)
  with dispatch_library_truthful [OF w', of ?i sample_movie "sample_delivery 1 5"] sample_wanted_ok w'
  show ?thesis by (auto simp: sample_delivery_def)
qed

text \<open>Two Stremio accounts of one user that both want the same title cannot both be served: the rows of the two
  memberships share collection, source and identifier, which \<open>uq_collection_file_source\<close> allows only once.  Although
  both writes succeed, the dispatch fails, and nothing of it is recorded.\<close>

lemma second_account_clashes:
  "dispatch_library_deliveries sample_env 1 10 \<lparr>lw_db = sample_two_db, lw_sent = []\<rparr> = Inl IntegrityError"
proof -
  have "case dispatch_library_deliveries sample_env 1 10 \<lparr>lw_db = sample_two_db, lw_sent = []\<rparr> of Inl IntegrityError \<Rightarrow> True | _ \<Rightarrow> False"
    by code_simp
  then show ?thesis by (auto split: sum.splits py_error.splits)
qed

lemma cleared_library_stays_dormant_witness:
  "retry_pending_library_deliveries sample_env 1 5 \<lparr>lw_db = fst (clear_pending_library_deliveries 9000 1 5 sample_wanted_db), lw_sent = []\<rparr>
   = Inr \<lparr>lw_db = fst (clear_pending_library_deliveries 9000 1 5 sample_wanted_db), lw_sent = []\<rparr>"
proof -
  obtain db' n where run: "clear_pending_library_deliveries 9000 1 5 sample_wanted_db = (db', n)" by fastforce
  have "unique_on li_id (library_intent_table sample_wanted_db)" by (simp add: sample_wanted_db_def unique_on_def)
  from cleared_library_stays_dormant [OF sample_wanted_ok this run, of sample_env "[]"] run show ?thesis by simp
qed

lemma sample_choice_run:
  "case set_library_intent 9000 1 10 False sample_wanted_db of Inr (db, q) \<Rightarrow> q | Inl _ \<Rightarrow> False"
  by code_simp

lemma set_library_intent_queues_witness:
  "\<exists>db' i d. set_library_intent 9000 1 10 False sample_wanted_db = Inr (db', True) \<and> intent_of db' 1 10 = Inr (Some i)
     \<and> delivery_of db' (li_id i) 5 = Some d \<and> \<not> ld_desired d \<and> ld_state d = ''pending''"
proof -
  obtain db' where run: "set_library_intent 9000 1 10 False sample_wanted_db = Inr (db', True)"
    using sample_choice_run by (auto split: sum.splits)
  have "sample_account 5 \<in> set (library_targets sample_wanted_db 1)"
    by (simp add: library_targets_def streams_def sample_wanted_db_def sample_account_def new_connection_def)
  moreover have "\<exists>j. intent_of sample_wanted_db 1 10 = Inr (Some j) \<and> li_desired j \<noteq> False"
    by (simp add: intent_of_def sample_wanted_db_def)
  moreover have "c_id (sample_account 5) = 5" by (simp add: sample_account_def new_connection_def)
  ultimately show ?thesis using set_library_intent_queues [OF run sample_wanted_ok] run by (metis (full_types))
qed

text \<open>Account 6 reports that the film left its library.\<close>

lemma sample_change_run:
  "case queue_change 9000 1 [sample_account 5, sample_account 6] [10 \<mapsto> 500] {} (Some [10 \<mapsto> {6}]) (Some [10 \<mapsto> False]) 10
     (sample_two_db, 0) of Inr (db, n) \<Rightarrow> n = 1 \<and> map ld_state (library_delivery_table db) = [''pending'', ''observed''] | Inl _ \<Rightarrow> False"
  by code_simp

lemma library_change_not_echoed_witness:
  "\<exists>db' i. queue_change 9000 1 [sample_account 5, sample_account 6] [10 \<mapsto> 500] {} (Some [10 \<mapsto> {6}]) (Some [10 \<mapsto> False]) 10
     (sample_two_db, 0) = Inr (db', 1) \<and> settled db' i False ''observed'' 6"
proof -
  obtain db' where run: "queue_change 9000 1 [sample_account 5, sample_account 6] [10 \<mapsto> 500] {} (Some [10 \<mapsto> {6}]) (Some [10 \<mapsto> False]) 10
     (sample_two_db, 0) = Inr (db', 1)"
    using sample_change_run by (auto split: sum.splits)
  have ok: "deliveries_ok sample_two_db" by (simp add: deliveries_ok_def sample_two_db_def unique_on_def sample_delivery_def)
  have "intent_of sample_two_db 1 10 = Inr (Some i) \<longrightarrow> \<not> 500 < li_updated_at i" for i
    by (auto simp: intent_of_def sample_two_db_def sample_wanted_db_def)
  then show ?thesis
    using library_change_not_echoed [OF run ok, of 500] run by (auto simp: change_sources_def desired_of_def)
qed

end
