(* ===== verification/StreamDispatch.thy ===== *)
theory StreamDispatch
  imports StreamActions LibraryDispatch
begin

text \<open>
  What the dispatch of playback actions guarantees: it writes only what the local state still asks for, to accounts
  whose gate is open, stops writing to an account that reports a newer change, and records every outcome.
\<close>

section \<open>What the gates read\<close>

definition gate_view :: "stream_baseline \<Rightarrow> int \<times> bool \<times> pyval \<times> pyval \<times> pyval" where
  "gate_view b = (sb_connection_id b, sb_approved b, get (sb_snapshot b) ''clear_guard'', get (sb_snapshot b) ''import_session_id'',
     get (sb_snapshot b) ''import_handoff'')"

definition marked_titles :: "db \<Rightarrow> (int \<times> int) list" where
  "marked_titles db = map (\<lambda>d. (td_user_id d, td_media_id d)) (deletion_table db)"

definition same_world :: "db \<Rightarrow> db \<Rightarrow> bool" where
  "same_world db db' \<longleftrightarrow> entry_table db' = entry_table db \<and> connection_table db' = connection_table db \<and> job_table db' = job_table db
     \<and> media_table db' = media_table db \<and> marked_titles db' = marked_titles db
     \<and> map gate_view (stream_baseline_table db') = map gate_view (stream_baseline_table db)
     \<and> (\<forall>c. stream_conflict db c \<longrightarrow> stream_conflict db' c)"

lemma same_world_refl [simp]: "same_world db db"
  by (simp add: same_world_def)

lemma same_world_trans: "same_world a b \<Longrightarrow> same_world b c \<Longrightarrow> same_world a c"
  by (simp add: same_world_def)

lemma same_world_update_action [simp]: "same_world db (update_stream_action aid f db)"
  by (simp add: same_world_def update_stream_action_def marked_titles_def stream_conflict_def)

lemma same_world_add_review [simp]: "same_world db (add_review r db)"
  by (simp add: same_world_def add_review_def marked_titles_def stream_conflict_def)

lemma same_world_remove_target [simp]: "same_world db (remove_target user mid target db)"
  by (simp add: same_world_def remove_target_def marked_titles_def stream_conflict_def map_update_where)

lemma same_world_settle_reviews [simp]: "same_world db (settle_reviews user mid P state db)"
proof -
  have "stream_conflict (settle_reviews user mid P state db) c = stream_conflict db c" for c
    unfolding stream_conflict_def settle_reviews_def by (simp, rule list_ex_update_where) auto
  then show ?thesis by (simp add: same_world_def settle_reviews_def marked_titles_def)
qed

definition keeps_gates :: "(pydict \<Rightarrow> pydict) \<Rightarrow> bool" where
  "keeps_gates f \<longleftrightarrow> (\<forall>s k. k \<in> {''clear_guard'', ''import_session_id'', ''import_handoff''} \<longrightarrow> get (f s) k = get s k)"

lemma get_dict_pop [simp]: "get (dict_pop k d) k' = (if k' = k then VNone else get d k')"
  by (simp add: get_def dict_get_def)

lemma keeps_gates_forget [simp]: "keeps_gates (forget_progress all ids keys)"
  by (simp add: keeps_gates_def forget_progress_def Let_def)

lemma keeps_gates_acknowledge [simp]: "keeps_gates (acknowledge_snapshot conn a payload key)"
  by (simp add: keeps_gates_def acknowledge_snapshot_def Let_def)

lemma keeps_gates_echo [simp]: "keeps_gates (echo_snapshot written)"
  by (simp add: keeps_gates_def echo_snapshot_def Let_def)

lemma same_world_update_baseline [simp]: "keeps_gates f \<Longrightarrow> same_world db (update_baseline cid f db)"
proof -
  assume f: "keeps_gates f"
  then have "map gate_view (update_where (\<lambda>b. sb_connection_id b = cid) (\<lambda>b. b\<lparr>sb_snapshot := f (sb_snapshot b)\<rparr>) rows)
      = map gate_view rows" for rows
    by (intro map_update_where) (simp add: gate_view_def keeps_gates_def)
  then show ?thesis by (simp add: same_world_def update_baseline_def marked_titles_def stream_conflict_def)
qed

lemma record_echo_baseline: "record_visibility_echo cid written db = (if written = [] then db else update_baseline cid (echo_snapshot written) db)"
  by (simp add: record_visibility_echo_def update_baseline_def)

lemma same_world_effects [simp]: "same_world db (call_effects conn call r db)"
proof -
  have step: "same_world db (record_visibility_echo cid written d)" if "same_world db d" for cid written d
    using that by (simp add: record_echo_baseline) (blast intro: same_world_trans same_world_update_baseline keeps_gates_echo)
  have "same_world db (clear_nuvio_baseline_progress cid rows all db)" for cid rows all
    by (simp add: clear_nuvio_baseline_progress_def Let_def)
  then show ?thesis by (simp add: call_effects_def step)
qed

lemma same_world_settle_applied [simp]: "same_world db (settle_applied_reset user a d db)"
  by (simp add: settle_applied_reset_def Let_def)
    (meson same_world_trans same_world_remove_target same_world_settle_reviews)

lemma same_world_settle_call: "same_world db (settle_call now user conn a entry deleted call r db)"
proof -
  have "same_world db (update_stream_action aid f (update_baseline cid (acknowledge_snapshot conn a payload key) db))"
    for aid f cid payload key
    by (rule same_world_trans [OF same_world_update_baseline same_world_update_action]) simp
  then have ack: "same_world db (acknowledge_call user conn a payload v deleted db)" for payload v
    by (auto simp: acknowledge_call_def Let_def split: option.split
        intro: same_world_trans [OF _ same_world_settle_applied])
  show ?thesis
    by (auto simp: settle_call_def ack split: option.split stream_failure.split
        intro: same_world_trans [OF same_world_update_action same_world_add_review])
qed

lemma same_world_settle_reset: "settle_reset user a db = Inr db' \<Longrightarrow> same_world db db'"
  using settle_marker_target_result [of user "sa_media_id a" "connection_key (sa_connection_id a)" db db']
    same_world_trans [OF same_world_remove_target same_world_settle_reviews]
  by (auto simp: settle_reset_def split: if_splits)

lemma gate_as_view:
  "require_stream_reconciliation db handoff conn = Inr () \<longleftrightarrow>
     c_type conn \<notin> {''stremio'', ''nuvio'', ''jellyfin'', ''emby'', ''plex''} \<or>
     (\<not> active_clear db (c_id conn) \<and> \<not> stream_conflict db conn \<and>
      (\<exists>cid guard session import_handoff.
         find (\<lambda>g. fst g = c_id conn) (map gate_view (stream_baseline_table db)) = Some (cid, True, guard, session, import_handoff) \<and>
         \<not> truthy guard \<and> (c_type conn \<in> {''stremio'', ''nuvio''} \<longrightarrow> \<not> truthy session \<and>
           (truthy import_handoff \<longrightarrow> handoff = Some (c_id conn)))))"
proof -
  have view: "find (\<lambda>g. fst g = c_id conn) (map gate_view rows) = map_option gate_view (find (\<lambda>b. sb_connection_id b = c_id conn) rows)" for rows
    by (induction rows) (auto simp: gate_view_def)
  show ?thesis unfolding view
    by (cases "find (\<lambda>b. sb_connection_id b = c_id conn) (stream_baseline_table db)")
      (auto simp: require_stream_reconciliation_def onboarding_pending_def baseline_snapshot_def stream_baseline_of_def gate_view_def Let_def)
qed

lemma gate_never_opens:
  assumes "same_world db db'" "require_stream_reconciliation db' handoff conn = Inr ()"
  shows "require_stream_reconciliation db handoff conn = Inr ()"
proof -
  have "active_clear db' (c_id conn) = active_clear db (c_id conn)" using assms(1) by (simp add: same_world_def active_clear_def)
  with assms show ?thesis unfolding gate_as_view same_world_def by metis
qed

section \<open>What may be written\<close>

text \<open>What the local state still asks for: a reset only for a title that is deleted and not tracked again, a resume
  only for a title being watched, a dismissal only for a tracked title that is not.\<close>

definition action_due :: "db \<Rightarrow> int \<Rightarrow> stream_action \<Rightarrow> bool" where
  "action_due db user a \<longleftrightarrow>
     (let statuses = te_status ` {e \<in> set (entry_table db). te_user_id e = user \<and> te_media_id e = sa_media_id a};
          deleted = (user, sa_media_id a) \<in> set (marked_titles db)
      in if sa_action a = ''reset'' then deleted \<and> statuses = {}
         else \<not> deleted \<and> statuses \<noteq> {} \<and>
           statuses \<subseteq> (if sa_action a = ''upsert'' then {''watching''} else {''planning'', ''paused'', ''dropped'', ''completed''}))"

definition write_allowed :: "db \<Rightarrow> int option \<Rightarrow> int \<Rightarrow> stream_action \<times> stream_call \<Rightarrow> bool" where
  "write_allowed db handoff user s \<longleftrightarrow>
     call_connection (snd s) = sa_connection_id (fst s) \<and> call_action (snd s) = sa_action (fst s) \<and>
     sa_action (fst s) \<in> {''dismiss'', ''reset'', ''upsert''} \<and> action_due db user (fst s) \<and>
     (\<exists>conn. find_connection db (sa_connection_id (fst s)) = Some conn \<and> c_type conn \<in> {''stremio'', ''nuvio''} \<and>
        stream_action_enabled conn (fst s) \<and> require_stream_reconciliation db handoff conn = Inr ())"

lemma write_allowed_backwards: "same_world db db' \<Longrightarrow> write_allowed db' handoff user s \<Longrightarrow> write_allowed db handoff user s"
  unfolding write_allowed_def action_due_def
  by (auto simp: same_world_def find_connection_def dest: gate_never_opens [of db db', rotated])

lemma entry_of_statuses:
  "entry_of db user mid = Inr entry \<Longrightarrow>
    te_status ` {e \<in> set (entry_table db). te_user_id e = user \<and> te_media_id e = mid} = te_status ` set_option entry"
proof -
  assume e: "entry_of db user mid = Inr entry"
  let ?rows = "filter (\<lambda>e. te_user_id e = user \<and> te_media_id e = mid) (entry_table db)"
  have "set ?rows = set_option entry" using e unfolding entry_of_def by (cases ?rows rule: scalar_one_or_none.cases) auto
  then show ?thesis by simp
qed

lemma marker_of_marked: "marker_of db user mid = Inr deleted \<Longrightarrow> (user, mid) \<in> set (marked_titles db) \<longleftrightarrow> deleted \<noteq> None"
proof -
  assume m: "marker_of db user mid = Inr deleted"
  let ?rows = "filter (\<lambda>d. td_user_id d = user \<and> td_media_id d = mid) (deletion_table db)"
  have "set ?rows = set_option deleted" using m unfolding marker_of_def by (cases ?rows rule: scalar_one_or_none.cases) auto
  then show ?thesis by (cases deleted) (auto simp: marked_titles_def image_iff)
qed

lemma refused_iff:
  assumes "entry_of db user (sa_media_id a) = Inr entry" "marker_of db user (sa_media_id a) = Inr deleted"
  shows "refused_action a entry deleted \<longleftrightarrow> \<not> action_due db user a"
  using entry_of_statuses [OF assms(1)] marker_of_marked [OF assms(2)]
  by (cases entry) (auto simp: refused_action_def action_due_def Let_def)

lemma update_stream_action_table [simp]:
  "stream_action_table (update_stream_action aid f db) = update_where (\<lambda>a. sa_id a = aid) f (stream_action_table db)"
  by (simp add: update_stream_action_def)

lemma actions_unchanged [simp]:
  "stream_action_table (remove_target user mid target db) = stream_action_table db"
  "stream_action_table (settle_reviews user mid P state db) = stream_action_table db"
  "stream_action_table (add_review r db) = stream_action_table db"
  "stream_action_table (update_baseline cid g db) = stream_action_table db"
  "stream_action_table (record_visibility_echo cid written db) = stream_action_table db"
  by (simp_all add: remove_target_def settle_reviews_def add_review_def update_baseline_def record_visibility_echo_def)

lemma settle_reset_actions: "settle_reset user a db = Inr db' \<Longrightarrow> stream_action_table db' = stream_action_table db"
  using settle_marker_target_result [of user "sa_media_id a" "connection_key (sa_connection_id a)" db db']
  by (auto simp: settle_reset_def split: if_splits)

text \<open>What working on an action without a call does to the queue.\<close>

definition withdrawn :: "stream_action \<Rightarrow> stream_action list \<Rightarrow> stream_action list \<Rightarrow> bool" where
  "withdrawn a rows rows' \<longleftrightarrow> rows' = rows \<or>
     (\<exists>f \<in> {cancel_stream, \<lambda>x. x\<lparr>sa_state := ''cancelled'', sa_payload := []\<rparr>, \<lambda>x. x\<lparr>sa_attempts := sa_attempts x + 1\<rparr>}.
        rows' = update_where (\<lambda>x. sa_id x = sa_id a) f rows)"

text \<open>Working on an action either changes the database only, or makes one allowed call.\<close>

lemma dispatch_stream_action_cases:
  assumes "dispatch_stream_action outcome now handoff user a w = Inr w'"
  obtains (quiet) "sw_sent w' = sw_sent w" "same_world (sw_db w) (sw_db w')"
      "withdrawn a (stream_action_table (sw_db w)) (stream_action_table (sw_db w'))"
  | (sent) conn entry deleted m where "find_connection (sw_db w) (sa_connection_id a) = Some conn"
      "c_type conn \<in> {''stremio'', ''nuvio''}" "stream_action_enabled conn a" "action_due (sw_db w) user a"
      "sa_action a \<in> {''dismiss'', ''reset'', ''upsert''}"
      "entry_of (sw_db w) user (sa_media_id a) = Inr entry" "marker_of (sw_db w) user (sa_media_id a) = Inr deleted"
      "require_stream_reconciliation (sw_db w) handoff conn = Inr ()"
      "w' = send_action outcome now user conn a entry deleted m w"
proof (cases "find_connection (sw_db w) (sa_connection_id a)")
  case None
  with assms show ?thesis by (intro quiet) (auto simp: dispatch_stream_action_def Let_def withdrawn_def split: if_splits)
next
  case (Some conn)
  show ?thesis
  proof (cases "sa_action a \<in> {''dismiss'', ''reset'', ''upsert''} \<and> stream_action_enabled conn a")
    case False
    with assms Some show ?thesis
      by (intro quiet) (auto simp: dispatch_stream_action_def Let_def and_then_Inr_iff withdrawn_def settle_reset_actions split: if_splits
          intro: same_world_trans [OF same_world_update_action same_world_settle_reset])
  next
    case True
    then have live: "sa_action a \<noteq> ''restore''" by auto
    from assms Some True live obtain entry deleted where
      e: "entry_of (sw_db w) user (sa_media_id a) = Inr entry" and d: "marker_of (sw_db w) user (sa_media_id a) = Inr deleted"
      by (auto simp: dispatch_stream_action_def Let_def and_then_Inr_iff)
    let ?m = "find_media (sw_db w) (sa_media_id a)"
    show ?thesis
    proof (cases "refused_action a entry deleted \<or> (?m = None \<and> sa_action a \<noteq> ''reset'')
        \<or> require_stream_reconciliation (sw_db w) handoff conn \<noteq> Inr () \<or> c_type conn \<notin> {''stremio'', ''nuvio''}")
      case True
      with assms Some \<open>sa_action a \<in> _ \<and> _\<close> live e d show ?thesis
        by (intro quiet) (auto simp: dispatch_stream_action_def send_action_def Let_def withdrawn_def split: if_splits)
    next
      case False
      with assms Some True live e d show ?thesis
        by (intro sent [of conn entry deleted ?m]) (auto simp: dispatch_stream_action_def Let_def refused_iff [OF e d])
    qed
  qed
qed

lemma send_action_sent:
  "c_type conn \<in> {''stremio'', ''nuvio''} \<Longrightarrow>
    \<exists>call. sw_sent (send_action outcome now user conn a entry deleted m w) = sw_sent w @ [(a, call)]
      \<and> call_connection call = c_id conn \<and> call_action call = sa_action a"
  by (simp add: send_action_def Let_def)

lemma send_action_world: "same_world (sw_db w) (sw_db (send_action outcome now user conn a entry deleted m w))"
proof -
  have "same_world db (settle_call now user conn a entry deleted call r (call_effects conn call r (update_stream_action aid f db)))"
    for db call r aid f
    by (rule same_world_trans [OF same_world_trans [OF same_world_update_action same_world_effects] same_world_settle_call])
  then show ?thesis by (simp add: send_action_def Let_def)
qed

interpretation playback: guarded_queue "dispatch_stream_action outcome now handoff user" sw_sent
  "\<lambda>w. write_allowed (sw_db w) handoff user"
proof unfold_locales
  fix a w w' s
  assume step: "dispatch_stream_action outcome now handoff user a w = Inr w'"
  have "same_world (sw_db w) (sw_db w')"
    by (rule dispatch_stream_action_cases [OF step]) (simp_all add: send_action_world)
  then show "write_allowed (sw_db w') handoff user s \<Longrightarrow> write_allowed (sw_db w) handoff user s"
    by (rule write_allowed_backwards)
next
  fix a w w'
  assume step: "dispatch_stream_action outcome now handoff user a w = Inr w'"
  show "\<exists>new. sw_sent w' = sw_sent w @ new \<and> (\<forall>s \<in> set new. write_allowed (sw_db w) handoff user s)"
  proof (rule dispatch_stream_action_cases [OF step])
    fix conn entry deleted m
    assume c: "find_connection (sw_db w) (sa_connection_id a) = Some conn" "c_type conn \<in> {''stremio'', ''nuvio''}"
      "stream_action_enabled conn a" "action_due (sw_db w) user a" "sa_action a \<in> {''dismiss'', ''reset'', ''upsert''}"
      "require_stream_reconciliation (sw_db w) handoff conn = Inr ()"
      "w' = send_action outcome now user conn a entry deleted m w"
    from send_action_sent [OF c(2)] obtain call where call: "sw_sent w' = sw_sent w @ [(a, call)]"
      "call_connection call = c_id conn" "call_action call = sa_action a" unfolding c(7) by blast
    have "write_allowed (sw_db w) handoff user (a, call)"
      using c call find_connection_id [OF c(1)] by (simp add: write_allowed_def)
    with call(1) show ?thesis by simp
  qed auto
qed

text \<open>C13: A dispatch of playback actions writes only to a streaming account that still accepts the action and whose
  gate was open when the dispatch began, and only what the local state asks for: it resets only a title that is
  deleted and no longer tracked, resumes only one that is being watched, dismisses only one that is not.\<close>

theorem dispatch_stream_actions_guarded:
  assumes "dispatch_stream_actions outcome now handoff states delivering user db = Inr w"
    and "cleanup_disabled_stream_actions user db = Inr db1" "(a, call) \<in> set (sw_sent w)"
  shows "call_connection call = sa_connection_id a \<and> call_action call = sa_action a \<and>
    (\<exists>conn. find_connection db1 (sa_connection_id a) = Some conn \<and> stream_action_enabled conn a \<and>
       require_stream_reconciliation db1 handoff conn = Inr ()) \<and>
    (let statuses = te_status ` {e \<in> set (entry_table db1). te_user_id e = user \<and> te_media_id e = sa_media_id a};
         deleted = (\<exists>d \<in> set (deletion_table db1). td_user_id d = user \<and> td_media_id d = sa_media_id a)
     in (sa_action a = ''reset'' \<longrightarrow> deleted \<and> statuses = {}) \<and>
        (sa_action a = ''upsert'' \<longrightarrow> \<not> deleted \<and> statuses = {''watching''}) \<and>
        (sa_action a = ''dismiss'' \<longrightarrow> \<not> deleted \<and> statuses \<noteq> {} \<and> ''watching'' \<notin> statuses))"
proof -
  have "write_allowed db1 handoff user (a, call)"
  proof (cases "is_active states delivering user")
    case True
    with assms(1,3) show ?thesis by (auto simp: dispatch_stream_actions_def)
  next
    case False
    then have "fold_result (dispatch_stream_action outcome now handoff user) (pending_stream_actions db1 user) \<lparr>sw_db = db1, sw_sent = []\<rparr> = Inr w"
      using assms(1,2) by (simp add: dispatch_stream_actions_def)
    from playback.run_guarded [OF this] assms(3) show ?thesis by auto
  qed
  then have due: "action_due db1 user a" and rest: "call_connection call = sa_connection_id a" "call_action call = sa_action a"
    "\<exists>conn. find_connection db1 (sa_connection_id a) = Some conn \<and> stream_action_enabled conn a \<and>
       require_stream_reconciliation db1 handoff conn = Inr ()" by (auto simp: write_allowed_def)
  define statuses where "statuses = te_status ` {e \<in> set (entry_table db1). te_user_id e = user \<and> te_media_id e = sa_media_id a}"
  define deleted where "deleted \<longleftrightarrow> (\<exists>d \<in> set (deletion_table db1). td_user_id d = user \<and> td_media_id d = sa_media_id a)"
  have "(user, sa_media_id a) \<in> set (marked_titles db1) \<longleftrightarrow> deleted" by (auto simp: marked_titles_def deleted_def)
  then have "(sa_action a = ''reset'' \<longrightarrow> deleted \<and> statuses = {}) \<and> (sa_action a = ''upsert'' \<longrightarrow> \<not> deleted \<and> statuses = {''watching''}) \<and>
      (sa_action a = ''dismiss'' \<longrightarrow> \<not> deleted \<and> statuses \<noteq> {} \<and> ''watching'' \<notin> statuses)"
    using due by (auto simp: action_due_def statuses_def [symmetric] Let_def subset_singleton_iff)
  with rest show ?thesis unfolding Let_def statuses_def deleted_def by blast
qed

section \<open>A newer change stops the account\<close>

definition reported_change :: "(stream_call \<Rightarrow> call_result) \<Rightarrow> stream_call \<Rightarrow> bool" where
  "reported_change outcome call \<longleftrightarrow> cr_failure (outcome call) = Some PlaybackChanged"

fun quiet_after :: "(stream_call \<Rightarrow> call_result) \<Rightarrow> (stream_action \<times> stream_call) list \<Rightarrow> bool" where
  "quiet_after outcome [] \<longleftrightarrow> True"
| "quiet_after outcome (s # rest) \<longleftrightarrow>
     (reported_change outcome (snd s) \<longrightarrow> (\<forall>t \<in> set rest. call_connection (snd t) \<noteq> call_connection (snd s))) \<and> quiet_after outcome rest"

lemma quiet_after_append:
  "quiet_after outcome (xs @ ys) \<longleftrightarrow> quiet_after outcome xs \<and> quiet_after outcome ys \<and>
     (\<forall>s \<in> set xs. reported_change outcome (snd s) \<longrightarrow> (\<forall>t \<in> set ys. call_connection (snd t) \<noteq> call_connection (snd s)))"
  by (induction xs) auto

definition changes_block :: "(stream_call \<Rightarrow> call_result) \<Rightarrow> stream_world \<Rightarrow> bool" where
  "changes_block outcome w \<longleftrightarrow> (\<forall>s \<in> set (sw_sent w). reported_change outcome (snd s) \<longrightarrow>
     (\<forall>conn. find_connection (sw_db w) (call_connection (snd s)) = Some conn \<longrightarrow> stream_conflict (sw_db w) conn))"

lemma find_connection_world: "same_world db db' \<Longrightarrow> find_connection db' = find_connection db"
  by (simp add: same_world_def find_connection_def fun_eq_iff)

lemma gate_no_conflict:
  "require_stream_reconciliation db handoff conn = Inr () \<Longrightarrow> c_type conn \<in> {''stremio'', ''nuvio''} \<Longrightarrow> \<not> stream_conflict db conn"
  by (auto simp: gate_as_view)

lemma changed_conflicts:
  assumes "cr_failure r = Some PlaybackChanged" "c_user_id conn = user" "c_id conn = sa_connection_id a"
  shows "stream_conflict (settle_call now user conn a entry deleted call r db) conn"
  using assms by (auto simp: settle_call_def stream_conflict_def add_review_def conflict_review_def new_review_def)

lemma dispatch_step_quiet:
  assumes step: "dispatch_stream_action outcome now handoff user a w = Inr w'"
    and before: "quiet_after outcome (sw_sent w)" "changes_block outcome w"
    and owner: "\<And>conn. find_connection (sw_db w) (sa_connection_id a) = Some conn \<Longrightarrow> c_user_id conn = user"
  shows "quiet_after outcome (sw_sent w') \<and> changes_block outcome w' \<and> find_connection (sw_db w') = find_connection (sw_db w)"
proof (rule dispatch_stream_action_cases [OF step])
  assume "sw_sent w' = sw_sent w" "same_world (sw_db w) (sw_db w')"
  with before show ?thesis by (auto simp: changes_block_def find_connection_world) (simp add: same_world_def)
next
  fix conn entry deleted m
  assume c: "find_connection (sw_db w) (sa_connection_id a) = Some conn" "c_type conn \<in> {''stremio'', ''nuvio''}"
    "require_stream_reconciliation (sw_db w) handoff conn = Inr ()"
    "w' = send_action outcome now user conn a entry deleted m w"
  define db1 where "db1 = update_stream_action (sa_id a) (\<lambda>x. x\<lparr>sa_attempts := sa_attempts x + 1\<rparr>) (sw_db w)"
  define call where "call = StreamCall (c_id conn) (sa_action a) (call_payload db1 conn a m) (visibility_only conn a)"
  have w': "sw_sent w' = sw_sent w @ [(a, call)]"
    "sw_db w' = settle_call now user conn a entry deleted call (outcome call) (call_effects conn call (outcome call) db1)"
    using c(2,4) by (simp_all add: send_action_def Let_def db1_def call_def)
  have world: "same_world (sw_db w) (sw_db w')" unfolding c(4) by (rule send_action_world)
  have id: "c_id conn = sa_connection_id a" using c(1) by (rule find_connection_id)
  have quiet: "call_connection call \<noteq> call_connection (snd t)" if "t \<in> set (sw_sent w)" "reported_change outcome (snd t)" for t
  proof
    assume "call_connection call = call_connection (snd t)"
    then have "find_connection (sw_db w) (call_connection (snd t)) = Some conn" using c(1) id by (simp add: call_def)
    with before(2) that have "stream_conflict (sw_db w) conn" by (auto simp: changes_block_def)
    with gate_no_conflict [OF c(3,2)] show False by simp
  qed
  have "stream_conflict (sw_db w') conn" if "reported_change outcome call"
    unfolding w'(2) using that owner [OF c(1)] id by (intro changed_conflicts) (simp_all add: reported_change_def)
  moreover have "find_connection (sw_db w) (call_connection call) = Some conn" using c(1) id by (simp add: call_def)
  moreover have "\<forall>conn. stream_conflict (sw_db w) conn \<longrightarrow> stream_conflict (sw_db w') conn" using world by (simp add: same_world_def)
  ultimately have "changes_block outcome w'"
    using before(2) unfolding changes_block_def w'(1) find_connection_world [OF world] by auto
  then show ?thesis using before(1) quiet find_connection_world [OF world] by (simp add: w'(1) quiet_after_append)
qed

lemma dispatch_run_quiet:
  assumes "fold_result (dispatch_stream_action outcome now handoff user) as w = Inr w'"
    and "quiet_after outcome (sw_sent w)" "changes_block outcome w"
    and "\<And>a conn. a \<in> set as \<Longrightarrow> find_connection (sw_db w) (sa_connection_id a) = Some conn \<Longrightarrow> c_user_id conn = user"
  shows "quiet_after outcome (sw_sent w')"
  using assms
proof (induction as arbitrary: w)
  case Nil
  then show ?case by simp
next
  case (Cons a as)
  then obtain w1 where w1: "dispatch_stream_action outcome now handoff user a w = Inr w1"
    "fold_result (dispatch_stream_action outcome now handoff user) as w1 = Inr w'" by (auto simp: and_then_Inr_iff)
  from dispatch_step_quiet [OF w1(1) Cons.prems(2,3)] Cons.prems(4)
  have "quiet_after outcome (sw_sent w1)" "changes_block outcome w1" "find_connection (sw_db w1) = find_connection (sw_db w)" by auto
  then show ?case using Cons.prems(4) by (intro Cons.IH [OF w1(2)]) auto
qed

text \<open>Once an account reports that its playback changed since the last import, the same dispatch writes nothing
  more to it: the conflict it opens closes the account's gate.\<close>

lemma dispatch_stops_at_change:
  assumes "dispatch_stream_actions outcome now handoff states delivering user db = Inr w"
    and "cleanup_disabled_stream_actions user db = Inr db1"
    and "\<forall>a \<in> set (pending_stream_actions db1 user). \<forall>conn.
      find_connection db1 (sa_connection_id a) = Some conn \<longrightarrow> c_user_id conn = user"
    and "sw_sent w = before @ (a, call) # after" "cr_failure (outcome call) = Some PlaybackChanged" "(b, call') \<in> set after"
  shows "call_connection call' \<noteq> call_connection call"
proof -
  have "quiet_after outcome (sw_sent w)"
  proof (cases "is_active states delivering user")
    case True
    with assms(1) show ?thesis by (auto simp: dispatch_stream_actions_def)
  next
    case False
    then have "fold_result (dispatch_stream_action outcome now handoff user) (pending_stream_actions db1 user) \<lparr>sw_db = db1, sw_sent = []\<rparr> = Inr w"
      using assms(1,2) by (simp add: dispatch_stream_actions_def)
    then show ?thesis by (rule dispatch_run_quiet) (use assms(3) in \<open>auto simp: changes_block_def\<close>)
  qed
  then have "\<forall>t \<in> set after. call_connection (snd t) \<noteq> call_connection call"
    using assms(4,5) by (simp add: quiet_after_append reported_change_def)
  with assms(6) show ?thesis by auto
qed

section \<open>Every outcome is recorded\<close>

definition action_row :: "stream_world \<Rightarrow> int \<Rightarrow> stream_action option" where
  "action_row w k = find (\<lambda>a. sa_id a = k) (stream_action_table (sw_db w))"

lemma find_update_own:
  assumes "\<And>r. key (f r) = key r"
  shows "find (\<lambda>r. key r = k) (update_where (\<lambda>r. key r = k') f rows)
    = (if k = k' then map_option f (find (\<lambda>r. key r = k) rows) else find (\<lambda>r. key r = k) rows)"
  by (induction rows) (auto simp: assms)

lemma effects_actions [simp]: "stream_action_table (call_effects conn call r db) = stream_action_table db"
  by (simp add: call_effects_def clear_nuvio_baseline_progress_def Let_def)

lemma settle_applied_actions [simp]: "stream_action_table (settle_applied_reset user a d db) = stream_action_table db"
  by (simp add: settle_applied_reset_def Let_def)

text \<open>The row an outcome leaves.\<close>

definition recorded :: "call_result \<Rightarrow> stream_action \<Rightarrow> stream_action \<Rightarrow> bool" where
  "recorded r a row \<longleftrightarrow> sa_attempts row = sa_attempts a + 1 \<and>
     (case cr_failure r of
        None \<Rightarrow> sa_state row = ''applied''
      | Some PlaybackChanged \<Rightarrow> sa_state row = ''conflict''
      | Some (CallFailed e) \<Rightarrow> row = a\<lparr>sa_attempts := sa_attempts a + 1, sa_last_error := Some e\<rparr>)"

lemma settle_call_row:
  assumes "find (\<lambda>x. sa_id x = sa_id a) (stream_action_table db) = Some x"
  shows "\<exists>row. find (\<lambda>x. sa_id x = sa_id a) (stream_action_table (settle_call now user conn a entry deleted call r db)) = Some row
    \<and> sa_attempts row = sa_attempts x \<and>
    (case cr_failure r of None \<Rightarrow> sa_state row = ''applied'' | Some PlaybackChanged \<Rightarrow> sa_state row = ''conflict''
      | Some (CallFailed e) \<Rightarrow> row = x\<lparr>sa_last_error := Some e\<rparr>)"
  using assms
  by (auto simp: settle_call_def acknowledge_call_def Let_def find_update_own [where key = sa_id]
      split: option.split stream_failure.split)

lemma settle_call_other:
  "k \<noteq> sa_id a \<Longrightarrow> find (\<lambda>x. sa_id x = k) (stream_action_table (settle_call now user conn a entry deleted call r db))
    = find (\<lambda>x. sa_id x = k) (stream_action_table db)"
  by (auto simp: settle_call_def acknowledge_call_def Let_def find_update_own [where key = sa_id]
      split: option.split stream_failure.split)

definition action_fits ::
  "(stream_call \<Rightarrow> call_result) \<Rightarrow> stream_action \<Rightarrow> stream_action option \<Rightarrow> (stream_action \<times> stream_call) list \<Rightarrow> bool" where
  "action_fits outcome a found new \<longleftrightarrow>
     (\<exists>row. found = Some row \<and>
       (new = [] \<and> (sa_state row = ''cancelled'' \<or> row = a \<or> row = a\<lparr>sa_attempts := sa_attempts a + 1\<rparr>)
        \<or> (\<exists>call. new = [(a, call)] \<and> recorded (outcome call) a row)))"

lemma dispatch_row_other:
  assumes "dispatch_stream_action outcome now handoff user a w = Inr w'" "k \<noteq> sa_id a"
  shows "action_row w' k = action_row w k"
  using assms
  by (auto simp: dispatch_stream_action_def send_action_def Let_def and_then_Inr_iff action_row_def find_update_own [where key = sa_id]
      cancel_stream_def settle_call_other dest: settle_reset_actions split: if_splits option.splits)

lemma dispatch_row_own:
  assumes "dispatch_stream_action outcome now handoff user a w = Inr w'" "action_row w (sa_id a) = Some a"
  shows "\<exists>new. sw_sent w' = sw_sent w @ new \<and> action_fits outcome a (action_row w' (sa_id a)) new"
proof -
  have bump: "find (\<lambda>x. sa_id x = sa_id a) (stream_action_table (call_effects conn call r (update_stream_action (sa_id a)
      (\<lambda>x. x\<lparr>sa_attempts := sa_attempts x + 1\<rparr>) (sw_db w)))) = Some (a\<lparr>sa_attempts := sa_attempts a + 1\<rparr>)" for conn call r
    using assms(2) by (simp add: action_row_def find_update_own [where key = sa_id])
  have send: "\<exists>new. sw_sent v = sw_sent w @ new \<and> action_fits outcome a (action_row v (sa_id a)) new"
    if "v = send_action outcome now user conn a entry deleted m w" for v conn entry deleted m
  proof (cases "c_type conn \<in> {''stremio'', ''nuvio''}")
    case False
    with that bump show ?thesis
      by (auto simp: send_action_def action_fits_def action_row_def)
  next
    case True
    define db1 where "db1 = update_stream_action (sa_id a) (\<lambda>x. x\<lparr>sa_attempts := sa_attempts x + 1\<rparr>) (sw_db w)"
    define call where "call = StreamCall (c_id conn) (sa_action a) (call_payload db1 conn a m) (visibility_only conn a)"
    have v: "sw_sent v = sw_sent w @ [(a, call)]"
      "sw_db v = settle_call now user conn a entry deleted call (outcome call) (call_effects conn call (outcome call) db1)"
      using True that by (simp_all add: send_action_def Let_def db1_def call_def)
    from settle_call_row [OF bump [of conn call "outcome call", folded db1_def], of now user conn entry deleted call "outcome call"]
    obtain row where "action_row v (sa_id a) = Some row" "recorded (outcome call) a row"
      unfolding action_row_def v(2) recorded_def by fastforce
    with v(1) show ?thesis by (auto simp: action_fits_def)
  qed
  show ?thesis
  proof (rule dispatch_stream_action_cases [OF assms(1)])
    assume "sw_sent w' = sw_sent w" "withdrawn a (stream_action_table (sw_db w)) (stream_action_table (sw_db w'))"
    with assms(2) show ?thesis
      by (auto simp: withdrawn_def action_fits_def action_row_def find_update_own [where key = sa_id] cancel_stream_def)
  qed (rule send)
qed

interpretation rows: row_queue "dispatch_stream_action outcome now handoff user" sa_id action_row sw_sent "action_fits outcome"
  by unfold_locales (simp_all add: dispatch_row_other dispatch_row_own)

lemma find_unique:
  "unique_on key rows \<Longrightarrow> r \<in> set rows \<Longrightarrow> find (\<lambda>x. key x = key r) rows = Some r"
  by (induction rows) (auto simp: unique_on_def)

lemma pending_stream_actions_in: "a \<in> set (pending_stream_actions db user) \<Longrightarrow> a \<in> set (stream_action_table db) \<and> sa_state a = ''pending''"
  unfolding pending_stream_actions_def by (drule in_set_takeD) simp

lemma pending_stream_actions_distinct:
  "unique_on sa_id (stream_action_table db) \<Longrightarrow> distinct (map sa_id (pending_stream_actions db user))"
proof -
  assume u: "unique_on sa_id (stream_action_table db)"
  then have "distinct (map sa_id (filter P (stream_action_table db)))" for P
    by (simp add: unique_on_def distinct_map inj_on_def)
  then have "distinct (map sa_id (sort_key sa_id (filter P (stream_action_table db))))" for P
    by (simp add: distinct_map)
  then show ?thesis by (simp add: pending_stream_actions_def take_map [symmetric] distinct_take)
qed

text \<open>Every pending action leaves a dispatch in the state its write earned: a failed write leaves it pending as it
  was, with the error and one attempt more; a write the provider confirmed marks it as applied, a newer change there as a
  conflict; and without a write it is untouched or cancelled.\<close>

lemma dispatch_stream_actions_recorded:
  assumes "dispatch_stream_actions outcome now handoff states delivering user db = Inr w"
    and "cleanup_disabled_stream_actions user db = Inr db1" "\<not> is_active states delivering user"
    and "unique_on sa_id (stream_action_table db1)" "a \<in> set (pending_stream_actions db1 user)"
  shows "\<exists>row. find (\<lambda>x. sa_id x = sa_id a) (stream_action_table (sw_db w)) = Some row \<and>
    ((\<exists>call. (a, call) \<in> set (sw_sent w) \<and> sa_attempts row = sa_attempts a + 1 \<and>
        (case cr_failure (outcome call) of
           None \<Rightarrow> sa_state row = ''applied''
         | Some PlaybackChanged \<Rightarrow> sa_state row = ''conflict''
         | Some (CallFailed e) \<Rightarrow> row = a\<lparr>sa_attempts := sa_attempts a + 1, sa_last_error := Some e\<rparr>)) \<or>
     (a \<notin> fst ` set (sw_sent w) \<and>
        (sa_state row = ''cancelled'' \<or> row = a \<or> row = a\<lparr>sa_attempts := sa_attempts a + 1\<rparr>)))"
proof -
  let ?queue = "pending_stream_actions db1 user"
  have run: "fold_result (dispatch_stream_action outcome now handoff user) ?queue \<lparr>sw_db = db1, sw_sent = []\<rparr> = Inr w"
    using assms(1-3) by (simp add: dispatch_stream_actions_def)
  have distinct: "distinct (map sa_id ?queue)" using assms(4) by (rule pending_stream_actions_distinct)
  have "action_row \<lparr>sw_db = db1, sw_sent = []\<rparr> (sa_id b) = Some b" if "b \<in> set ?queue" for b
    using that assms(4) pending_stream_actions_in by (auto simp: action_row_def intro: find_unique)
  from rows.run_fits [OF run distinct this] obtain logs where logs: "length logs = length ?queue" "sw_sent w = concat logs"
    "\<forall>n < length ?queue. action_fits outcome (?queue ! n) (action_row w (sa_id (?queue ! n))) (logs ! n)" by auto
  obtain n where n: "n < length ?queue" "?queue ! n = a" using assms(5) by (auto simp: in_set_conv_nth)
  from logs(3) n obtain row where row: "action_row w (sa_id a) = Some row"
    "logs ! n = [] \<and> (sa_state row = ''cancelled'' \<or> row = a \<or> row = a\<lparr>sa_attempts := sa_attempts a + 1\<rparr>)
     \<or> (\<exists>call. logs ! n = [(a, call)] \<and> recorded (outcome call) a row)" by (auto simp: action_fits_def)
  have silent: "a \<notin> fst ` set (sw_sent w)" if "logs ! n = []"
  proof
    assume "a \<in> fst ` set (sw_sent w)"
    then obtain call l where l: "l \<in> set logs" "(a, call) \<in> set l" using logs(2) by auto
    then obtain k where k: "k < length ?queue" "(a, call) \<in> set (logs ! k)" using logs(1) by (metis in_set_conv_nth)
    with logs(3) have "?queue ! k = a" by (fastforce simp: action_fits_def)
    with n have "sa_id (?queue ! k) = sa_id (?queue ! n)" by simp
    then have "k = n" using distinct n(1) k(1) nth_eq_iff_index_eq [of "map sa_id ?queue" k n] by simp
    with k(2) that show False by simp
  qed
  have "(a, call) \<in> set (sw_sent w)" if "logs ! n = [(a, call)]" for call
  proof -
    have "logs ! n \<in> set logs" using n(1) logs(1) by simp
    with that logs(2) show ?thesis by (auto intro: bexI [of _ "[(a, call)]"])
  qed
  with row silent show ?thesis unfolding action_row_def recorded_def by blast
qed

section \<open>An example\<close>

text \<open>A film being watched, whose position is to be stored on one account, while another refuses.\<close>

definition sample_player :: "int \<Rightarrow> connection" where
  "sample_player cid = (new_connection cid 1 ''stremio'' ''s'' ''u'' ''t'' 0)\<lparr>c_push_playback := True\<rparr>"

definition sample_resume :: "int \<Rightarrow> int \<Rightarrow> stream_action" where
  "sample_resume n cid = \<lparr>sa_id = n, sa_user_id = 1, sa_connection_id = cid, sa_media_id = 10, sa_action = ''upsert'',
     sa_payload = [(''content_id'', VStr ''tt0123''), (''position'', VInt 600000), (''duration'', VInt 5400000)],
     sa_state = ''pending'', sa_attempts = 0, sa_last_error = None, sa_created_at = 0\<rparr>"

definition sample_playing_db :: db where
  "sample_playing_db = empty_db\<lparr>connection_table := [sample_player 5, sample_player 6],
     stream_baseline_table := [sample_approval 5, sample_approval 6], media_table := [sample_movie],
     entry_table := [(new_entry 1 1 10 0)\<lparr>te_status := ''watching''\<rparr>],
     stream_action_table := [sample_resume 1 5, sample_resume 2 6, sample_resume 3 6]\<rparr>"

definition sample_answers :: "stream_call \<Rightarrow> call_result" where
  "sample_answers call = \<lparr>cr_failure = (if call_connection call = 6 then Some PlaybackChanged else None), cr_removed = [], cr_echo = []\<rparr>"

lemma sample_playing_run:
  "case dispatch_stream_actions sample_answers 9000 None Map.empty {} 1 sample_playing_db of
     Inr w \<Rightarrow> map (\<lambda>s. (fst s, call_connection (snd s))) (sw_sent w) = [(sample_resume 1 5, 5), (sample_resume 2 6, 6)]
       \<and> map sa_state (stream_action_table (sw_db w)) = [''applied'', ''conflict'', ''pending'']
       \<and> cleanup_disabled_stream_actions 1 sample_playing_db = Inr sample_playing_db
   | Inl _ \<Rightarrow> False"
  by code_simp

lemma sample_playing_world:
  obtains w where "dispatch_stream_actions sample_answers 9000 None Map.empty {} 1 sample_playing_db = Inr w"
    "map (\<lambda>s. (fst s, call_connection (snd s))) (sw_sent w) = [(sample_resume 1 5, 5), (sample_resume 2 6, 6)]"
    "map sa_state (stream_action_table (sw_db w)) = [''applied'', ''conflict'', ''pending'']"
    "cleanup_disabled_stream_actions 1 sample_playing_db = Inr sample_playing_db"
  using sample_playing_run by (auto split: sum.splits)

lemma dispatch_stream_actions_guarded_witness:
  "\<exists>w a call. dispatch_stream_actions sample_answers 9000 None Map.empty {} 1 sample_playing_db = Inr w \<and>
     (a, call) \<in> set (sw_sent w) \<and> call_connection call = 5 \<and> sa_connection_id a = 5"
proof -
  obtain w where w: "dispatch_stream_actions sample_answers 9000 None Map.empty {} 1 sample_playing_db = Inr w"
    "map (\<lambda>s. (fst s, call_connection (snd s))) (sw_sent w) = [(sample_resume 1 5, 5), (sample_resume 2 6, 6)]"
    "cleanup_disabled_stream_actions 1 sample_playing_db = Inr sample_playing_db" by (rule sample_playing_world)
  then obtain a call rest where s: "sw_sent w = (a, call) # rest" "call_connection call = 5" by (cases "sw_sent w") auto
  from dispatch_stream_actions_guarded [OF w(1,3), of a call] s w(1) show ?thesis by auto
qed

lemma dispatch_stops_at_change_witness:
  "\<exists>w x y. dispatch_stream_actions sample_answers 9000 None Map.empty {} 1 sample_playing_db = Inr w \<and>
     sw_sent w = [x, y] \<and> reported_change sample_answers (snd y) \<and> (\<forall>z \<in> set []. call_connection (snd z) \<noteq> call_connection (snd y))"
proof -
  obtain w where w: "dispatch_stream_actions sample_answers 9000 None Map.empty {} 1 sample_playing_db = Inr w"
    "map (\<lambda>s. (fst s, call_connection (snd s))) (sw_sent w) = [(sample_resume 1 5, 5), (sample_resume 2 6, 6)]"
    "cleanup_disabled_stream_actions 1 sample_playing_db = Inr sample_playing_db" by (rule sample_playing_world)
  then obtain a call b call' where s: "sw_sent w = [(a, call), (b, call')]" "call_connection call' = 6" "call_connection call = 5" by auto
  have owned: "\<forall>a \<in> set (pending_stream_actions sample_playing_db 1). \<forall>conn.
      find_connection sample_playing_db (sa_connection_id a) = Some conn \<longrightarrow> c_user_id conn = 1"
    by (auto simp: pending_stream_actions_def sample_playing_db_def sample_resume_def sample_player_def new_connection_def find_connection_def)
  have "cr_failure (sample_answers call') = Some PlaybackChanged" using s(2) by (simp add: sample_answers_def)
  from dispatch_stops_at_change [OF w(1,3) owned, of "[(a, call)]" b call' "[]"] s w(1) this show ?thesis
    by (auto simp: reported_change_def)
qed

lemma dispatch_stream_actions_recorded_witness:
  "\<exists>w row. dispatch_stream_actions sample_answers 9000 None Map.empty {} 1 sample_playing_db = Inr w \<and>
     find (\<lambda>x. sa_id x = 2) (stream_action_table (sw_db w)) = Some row \<and> sa_attempts row = 1 \<and> sa_state row = ''conflict''"
proof -
  obtain w where w: "dispatch_stream_actions sample_answers 9000 None Map.empty {} 1 sample_playing_db = Inr w"
    "map (\<lambda>s. (fst s, call_connection (snd s))) (sw_sent w) = [(sample_resume 1 5, 5), (sample_resume 2 6, 6)]"
    "cleanup_disabled_stream_actions 1 sample_playing_db = Inr sample_playing_db" by (rule sample_playing_world)
  have unique: "unique_on sa_id (stream_action_table sample_playing_db)"
    "sample_resume 2 6 \<in> set (pending_stream_actions sample_playing_db 1)"
    by (simp_all add: sample_playing_db_def unique_on_def sample_resume_def pending_stream_actions_def)
  from w(2) obtain c1 c2 where s: "sw_sent w = [(sample_resume 1 5, c1), (sample_resume 2 6, c2)]" "call_connection c2 = 6" by auto
  have differ: "sample_resume 2 6 \<noteq> sample_resume 1 5" by (simp add: sample_resume_def)
  have idle: "\<not> is_active Map.empty {} 1" by (simp add: is_active_def)
  have id: "sa_id (sample_resume 2 6) = 2" "sa_attempts (sample_resume 2 6) = 0" by (simp_all add: sample_resume_def)
  have "cr_failure (sample_answers c2) = Some PlaybackChanged" using s(2) by (simp add: sample_answers_def)
  with dispatch_stream_actions_recorded [OF w(1,3) idle unique] w(1) s(1) differ show ?thesis unfolding id by auto
qed

end
