(* ===== verification/AccountClear.thy ===== *)
theory AccountClear
  imports StreamDispatch
begin

text \<open>
  Clearing a streaming account (\<open>core/streaming_clear.py\<close>): a job with a frozen scope and target, which stores a guard,
  freezes the work waiting for the account, lets the provider delete the selected data and only then reopens the
  account.  \<open>digest\<close> is SHA-256 as a hexadecimal text; \<open>provider\<close> is the destructive call of the client
  (\<open>nuvio.clear_sync_data\<close>, \<open>stremio.clear_datastore_data\<close>) with the refresh token it may have rotated; the arguments
  \<open>env1\<close> and \<open>env2\<close> of the job are what other transactions commit between its own.
\<close>

section \<open>Target and scope\<close>

definition target_identity :: "(string \<Rightarrow> string) \<Rightarrow> connection \<Rightarrow> string + pydict" where
  "target_identity digest conn =
     (if c_type conn = ''nuvio'' then
        (case int_of_str (case c_server_user_id conn of None \<Rightarrow> [] | Some s \<Rightarrow> s) of
           None \<Rightarrow> Inl ''Invalid Nuvio profile index''
         | Some p \<Rightarrow>
           if 1 \<le> p \<and> p \<le> 6
           then Inr [(''url_sha256'', VStr (digest (c_url conn))), (''profile_id'', VInt p), (''token_sha256'', VStr (digest (c_token conn)))]
           else Inl ''Invalid Nuvio profile index'')
      else if c_type conn = ''stremio'' then Inr [(''token_sha256'', VStr (digest (c_token conn)))]
      else Inl ''Clear is supported only for Stremio and Nuvio connections'')"

record clear_scope =
  sc_collection :: bool
  sc_watched :: bool
  sc_playback :: bool

definition selected_scope :: "connection \<Rightarrow> clear_scope" where
  "selected_scope conn = \<lparr>sc_collection = c_push_collection conn, sc_watched = c_push_watched conn, sc_playback = c_push_playback conn\<rparr>"

definition scope_dict :: "clear_scope \<Rightarrow> pydict" where
  "scope_dict s = [(''collection'', VBool (sc_collection s)), (''watched'', VBool (sc_watched s)), (''playback'', VBool (sc_playback s))]"

text \<open>A stored scope names the three categories and selects one of them.\<close>

definition read_scope :: "pydict \<Rightarrow> clear_scope option" where
  "read_scope d =
     (if set (map fst d) = {''collection'', ''watched'', ''playback''} \<and> list_ex (\<lambda>(k, v). truthy v) d
      then Some \<lparr>sc_collection = truthy (get d ''collection''), sc_watched = truthy (get d ''watched''), sc_playback = truthy (get d ''playback'')\<rparr>
      else None)"

definition dict_same :: "pydict \<Rightarrow> pydict \<Rightarrow> bool" where
  "dict_same a b \<longleftrightarrow> list_all (\<lambda>k. map_of a k = map_of b k) (map fst a @ map fst b)"

section \<open>Pulls around a clear\<close>

definition clear_guard :: "db \<Rightarrow> int \<Rightarrow> pyval" where
  "clear_guard db cid = get (baseline_snapshot (stream_baseline_of db cid)) ''clear_guard''"

definition pull_blocked_by_clear :: "db \<Rightarrow> connection \<Rightarrow> bool" where
  "pull_blocked_by_clear db conn \<longleftrightarrow> truthy (clear_guard db (c_id conn))"

definition stamp_of :: "pyval \<Rightarrow> datetime option result" where
  "stamp_of v =
     (case v of VStr s \<Rightarrow> (case parse_datetime (zulu_offset s) of None \<Rightarrow> Inr None | Some d \<Rightarrow> and_then (to_naive_utc d) (\<lambda>t. Inr (Some t)))
      | _ \<Rightarrow> Inr None)"

definition assert_pull_snapshot_current :: "db \<Rightarrow> connection \<Rightarrow> datetime \<Rightarrow> bool \<Rightarrow> unit result" where
  "assert_pull_snapshot_current db conn started_at full_resync =
     (if active_clear db (c_id conn) then Inl RuntimeError
      else
        let guard = clear_guard db (c_id conn) in
        and_then (if \<not> truthy guard then Inr ()
                  else and_then (case guard of VDict g \<Rightarrow> stamp_of (get g ''started_at'') | _ \<Rightarrow> Inr None) (\<lambda>t.
                    if \<not> full_resync \<or> (case t of None \<Rightarrow> False | Some x \<Rightarrow> started_at < x) then Inl RuntimeError else Inr ()))
          (\<lambda>_. case stream_baseline_of db (c_id conn) of
             None \<Rightarrow> Inr ()
           | Some b \<Rightarrow> if started_at < sb_observed_at b then Inl RuntimeError else Inr ()))"

section \<open>The steps of the job\<close>

definition update_job :: "int \<Rightarrow> (sync_job \<Rightarrow> sync_job) \<Rightarrow> db \<Rightarrow> db" where
  "update_job jid f db = db\<lparr>job_table := update_where (\<lambda>j. sj_id j = jid) f (job_table db)\<rparr>"

definition set_job_failed :: "datetime \<Rightarrow> int \<Rightarrow> string \<Rightarrow> db \<Rightarrow> db" where
  "set_job_failed now jid message =
     update_job jid (\<lambda>j. j\<lparr>sj_status := Failed, sj_error_message := Some (take 900 message), sj_updated_at := now\<rparr>)"

definition project_cleared_snapshot :: "clear_scope \<Rightarrow> pydict \<Rightarrow> pydict" where
  "project_cleared_snapshot scope snapshot =
     (let set_all = (\<lambda>ks v d. foldr (\<lambda>k. dict_set k v) ks d);
          records0 = dict_or_empty (get snapshot ''records'');
          p1 = (if sc_collection scope then dict_set ''library'' (VList []) snapshot else snapshot);
          r1 = (if sc_collection scope then dict_set ''library'' (VList []) records0 else records0);
          p2 = (if sc_watched scope then dict_set ''watched'' (VList []) p1 else p1);
          r2 = (if sc_watched scope then dict_set ''watched'' (VList []) r1 else r1);
          p3 = (if sc_playback scope
                then dict_set ''progress_completed'' (VList []) (set_all [''progress'', ''resume'', ''outbound''] (VDict []) p2) else p2);
          r3 = (if sc_playback scope then dict_set ''progress'' (VList []) r2 else r2);
          p4 = (if r3 \<noteq> [] \<or> map_of p3 ''records'' \<noteq> None then dict_set ''records'' (VDict r3) p3 else p3)
      in dict_pop ''clear_guard'' p4)"

definition freeze_intents :: "datetime \<Rightarrow> int \<Rightarrow> int \<Rightarrow> db \<Rightarrow> db" where
  "freeze_intents now user cid db =
     db\<lparr>watch_intent_table := update_where (\<lambda>i. wi_user_id i = user \<and> wi_connection_id i = cid \<and> wi_state i = ''pending'')
        (touch_intent now (\<lambda>i. i\<lparr>wi_state := ''cleared''\<rparr>)) (watch_intent_table db)\<rparr>"

definition freeze_actions :: "int \<Rightarrow> int \<Rightarrow> bool \<Rightarrow> db \<Rightarrow> db" where
  "freeze_actions user cid playback db =
     db\<lparr>stream_action_table := update_where (\<lambda>a. sa_user_id a = user \<and> sa_connection_id a = cid \<and> sa_state a = ''pending''
          \<and> sa_action a \<in> {''dismiss'', ''restore'', ''reset'', ''upsert''} \<and> (playback \<or> sa_action a = ''reset''))
        (\<lambda>a. a\<lparr>sa_state := ''cleared''\<rparr>) (stream_action_table db)\<rparr>"

definition freeze_outbound_work :: "datetime \<Rightarrow> int \<Rightarrow> int \<Rightarrow> clear_scope \<Rightarrow> db \<Rightarrow> db" where
  "freeze_outbound_work now user cid scope db =
     (let db1 = (if sc_collection scope then fst (clear_pending_library_deliveries now user cid db) else db);
          db2 = (if sc_watched scope then freeze_intents now user cid db1 else db1)
      in if sc_watched scope \<or> sc_playback scope then freeze_actions user cid (sc_playback scope) db2 else db2)"

definition guard_value :: "datetime \<Rightarrow> int \<Rightarrow> clear_scope \<Rightarrow> pydict \<Rightarrow> pyval" where
  "guard_value now jid scope identity =
     VDict [(''job_id'', VInt jid), (''scope'', VDict (scope_dict scope)), (''identity'', VDict identity),
       (''started_at'', VStr (datetime_isoformat now @ ''+00:00''))]"

definition guarded_snapshot :: "datetime \<Rightarrow> int \<Rightarrow> connection \<Rightarrow> int \<Rightarrow> clear_scope \<Rightarrow> pydict \<Rightarrow> db \<Rightarrow> pydict \<Rightarrow> pydict" where
  "guarded_snapshot now user conn jid scope identity db previous =
     (let s = dict_set ''clear_guard'' (guard_value now jid scope identity) previous;
          key = ''playback_clear_watch_visibility_suppressed'';
          waiting = wi_media_id ` {i \<in> set (watch_intent_table db). wi_user_id i = user \<and> wi_connection_id i = c_id conn \<and> wi_state i = ''pending''}
      in if sc_watched scope then dict_pop key s
         else if sc_playback scope then dict_set key (VList (map VInt (sorted_list_of_set (suppressed_ids s \<union> waiting)))) s
         else s)"

definition put_baseline :: "datetime \<Rightarrow> int \<Rightarrow> int \<Rightarrow> (stream_baseline \<Rightarrow> stream_baseline) \<Rightarrow> db \<Rightarrow> db" where
  "put_baseline now user cid f db =
     (if stream_baseline_of db cid = None
      then db\<lparr>stream_baseline_table := stream_baseline_table db @
        [f \<lparr>sb_connection_id = cid, sb_user_id = user, sb_snapshot = [], sb_approved = False, sb_observed_at = now\<rparr>]\<rparr>
      else db\<lparr>stream_baseline_table := update_where (\<lambda>b. sb_connection_id b = cid) f (stream_baseline_table db)\<rparr>)"

definition connection_collection_media_ids :: "db \<Rightarrow> int \<Rightarrow> connection \<Rightarrow> int list" where
  "connection_collection_media_ids db user conn =
     remdups (concat (map (\<lambda>c. if cl_user_id c = user \<and> list_ex (member_file (cl_id c) conn) (collection_file_table db) then [cl_media_id c] else [])
       (collection_table db)))"

definition anchor_local_memberships :: "datetime \<Rightarrow> int \<Rightarrow> int list \<Rightarrow> db \<Rightarrow> db result" where
  "anchor_local_memberships now user mids db = fold_result (\<lambda>mid. set_manual_anchor now user mid True) mids db"

text \<open>The previous snapshot and approval, and the database with the guard.\<close>

definition set_guard ::
  "datetime \<Rightarrow> int \<Rightarrow> connection \<Rightarrow> int \<Rightarrow> clear_scope \<Rightarrow> pydict \<Rightarrow> db \<Rightarrow> (pydict \<times> bool \<times> db) result" where
  "set_guard now user conn jid scope identity db =
     (let b = stream_baseline_of db (c_id conn); previous = baseline_snapshot b; approved = (case b of None \<Rightarrow> False | Some x \<Rightarrow> sb_approved x);
          db1 = put_baseline now user (c_id conn)
            (\<lambda>x. x\<lparr>sb_snapshot := guarded_snapshot now user conn jid scope identity db previous, sb_approved := False\<rparr>) db
      in and_then (if sc_collection scope then anchor_local_memberships now user (connection_collection_media_ids db1 user conn) db1 else Inr db1)
           (\<lambda>db2. Inr (previous, approved, freeze_outbound_work now user (c_id conn) scope db2)))"

definition restore_guard_before_mutation :: "int \<Rightarrow> int \<Rightarrow> pydict \<Rightarrow> bool \<Rightarrow> db \<Rightarrow> db" where
  "restore_guard_before_mutation cid jid snapshot approved db =
     (if get (dict_or_empty (clear_guard db cid)) ''job_id'' = VInt jid
      then db\<lparr>stream_baseline_table := update_where (\<lambda>b. sb_connection_id b = cid)
        (\<lambda>b. b\<lparr>sb_snapshot := snapshot, sb_approved := approved\<rparr>) (stream_baseline_table db)\<rparr>
      else db)"

section \<open>The job\<close>

datatype clear_start = Skipped | Rejected string | Ready connection clear_scope pydict

definition check_clear :: "(string \<Rightarrow> string) \<Rightarrow> int \<Rightarrow> int \<Rightarrow> pydict \<Rightarrow> db \<Rightarrow> clear_start" where
  "check_clear digest user cid stats db =
     (let identity = dict_or_empty (get stats ''target_identity'') in
      case read_scope (dict_or_empty (get stats ''clear_scope'')) of
        None \<Rightarrow> Rejected ''Clear job has no valid frozen scope''
      | Some scope \<Rightarrow>
        (case find (\<lambda>c. c_id c = cid \<and> c_user_id c = user) (connection_table db) of
           None \<Rightarrow> Rejected ''Connection no longer exists''
         | Some conn \<Rightarrow>
           (case target_identity digest conn of
              Inl text \<Rightarrow> Rejected (''Invalid clear target identity: '' @ text)
            | Inr actual \<Rightarrow>
              if \<not> dict_same actual identity
              then Rejected ''Connection profile or credentials changed before clear started; retry after reviewing the target''
              else Ready conn scope identity)))"

definition begin_clear :: "(string \<Rightarrow> string) \<Rightarrow> datetime \<Rightarrow> int \<Rightarrow> int \<Rightarrow> int \<Rightarrow> db \<Rightarrow> clear_start \<times> db" where
  "begin_clear digest now user cid jid db =
     (case find (\<lambda>j. sj_id j = jid) (job_table db) of
        None \<Rightarrow> (Skipped, db)
      | Some j \<Rightarrow>
        if sj_status j \<noteq> Pending then (Skipped, db)
        else
          let db1 = update_job jid (\<lambda>x. x\<lparr>sj_status := Running, sj_current_step := Some ''Preparing remote clear'',
                 sj_processed_items := 0, sj_total_items := 0, sj_updated_at := now\<rparr>) db;
              start = check_clear digest user cid (case sj_stats j of None \<Rightarrow> [] | Some d \<Rightarrow> d) db1
          in (start, case start of Rejected text \<Rightarrow> set_job_failed now jid text db1 | _ \<Rightarrow> db1))"

record clear_answer =
  an_rotated :: "string option"
  an_counts :: "string + (int \<times> int \<times> int)"

text \<open>\<open>persist_refresh\<close> commits a rotated token and the new identity of the target on its own; \<^const>\<open>None\<close> when the
  connection changed meanwhile.\<close>

definition persist_clear_refresh :: "(string \<Rightarrow> string) \<Rightarrow> connection \<Rightarrow> int \<Rightarrow> pydict \<Rightarrow> string \<Rightarrow> db \<Rightarrow> db option" where
  "persist_clear_refresh digest conn jid identity token db =
     (let same = (\<lambda>c. c_id c = c_id conn \<and> c_user_id c = c_user_id conn \<and> c_url c = c_url conn
            \<and> c_server_user_id c = c_server_user_id conn \<and> c_token c = c_token conn);
          identity1 = dict_set ''token_sha256'' (VStr (digest token)) identity;
          guard = dict_or_empty (clear_guard db (c_id conn));
          db1 = db\<lparr>connection_table := update_where same (\<lambda>c. c\<lparr>c_token := token\<rparr>) (connection_table db)\<rparr>
      in if length (filter same (connection_table db)) \<noteq> 1 then None
         else if get guard ''job_id'' = VInt jid
         then Some (update_baseline (c_id conn) (dict_set ''clear_guard'' (VDict (dict_set ''identity'' (VDict identity1) guard))) db1)
         else Some db1)"

definition complete_clear :: "datetime \<Rightarrow> int \<Rightarrow> int \<Rightarrow> int \<Rightarrow> clear_scope \<Rightarrow> int \<times> int \<times> int \<Rightarrow> db \<Rightarrow> db" where
  "complete_clear now user cid jid scope counts db =
     (case counts of (collection, watched, playback) \<Rightarrow>
        let total_items = collection + watched + playback;
            cleared = VDict [(''collection'', VInt collection), (''watched'', VInt watched), (''playback'', VInt playback)];
            db1 = put_baseline now user cid
              (\<lambda>b. b\<lparr>sb_snapshot := project_cleared_snapshot scope (sb_snapshot b), sb_approved := True, sb_observed_at := now\<rparr>) db;
            db2 = (if sc_collection scope
              then db1\<lparr>connection_table := update_where (\<lambda>c. c_id c = cid) (\<lambda>c. c\<lparr>c_stremio_pushed_library_ids := Some []\<rparr>) (connection_table db1)\<rparr>
              else db1)
        in update_job jid (\<lambda>j. j\<lparr>sj_status := Completed, sj_processed_items := total_items, sj_total_items := total_items,
             sj_stats := Some (dict_set ''cleared'' cleared (dict_set ''clear_scope'' (VDict (scope_dict scope)) (case sj_stats j of None \<Rightarrow> [] | Some d \<Rightarrow> d))),
             sj_current_step := Some ''Clear complete'', sj_error_message := None, sj_updated_at := now\<rparr>) db2)"

definition changed_target :: string where
  "changed_target = ''Connection profile or credentials changed before clear started; retry after reviewing the target''"

text \<open>The work behind the guard.  Whatever raises rolls back to what was committed before, and fails the job.\<close>

definition clear_remote ::
  "(string \<Rightarrow> string) \<Rightarrow> (connection \<Rightarrow> clear_scope \<Rightarrow> clear_answer) \<Rightarrow> datetime \<Rightarrow> int \<Rightarrow> int \<Rightarrow> int \<Rightarrow> clear_scope \<Rightarrow> pydict \<Rightarrow>
   pydict \<Rightarrow> bool \<Rightarrow> db \<Rightarrow> db" where
  "clear_remote digest provider now user cid jid scope identity previous approved db =
     (case find_connection db cid of
        None \<Rightarrow> set_job_failed now jid ''Could not refresh instance'' db
      | Some conn \<Rightarrow>
        (case target_identity digest conn of
           Inl text \<Rightarrow> set_job_failed now jid text db
         | Inr actual \<Rightarrow>
           if \<not> dict_same actual identity
           then set_job_failed now jid changed_target (restore_guard_before_mutation cid jid previous approved db)
           else
             let answer = provider conn scope in
             (case (case an_rotated answer of None \<Rightarrow> Some db
                    | Some token \<Rightarrow> if c_type conn = ''nuvio'' then persist_clear_refresh digest conn jid identity token db else Some db) of
                None \<Rightarrow> set_job_failed now jid ''Nuvio connection profile changed during clear'' db
              | Some db1 \<Rightarrow>
                (case an_counts answer of
                   Inl text \<Rightarrow> set_job_failed now jid text db1
                 | Inr counts \<Rightarrow> complete_clear now user cid jid scope counts db1))))"

definition run_clear_data_job ::
  "(string \<Rightarrow> string) \<Rightarrow> (connection \<Rightarrow> clear_scope \<Rightarrow> clear_answer) \<Rightarrow> datetime \<Rightarrow> (db \<Rightarrow> db) \<Rightarrow> (db \<Rightarrow> db) \<Rightarrow> int \<Rightarrow> int \<Rightarrow> int \<Rightarrow> db \<Rightarrow> db" where
  "run_clear_data_job digest provider now env1 env2 user cid jid db =
     (case begin_clear digest now user cid jid db of
        (Ready conn scope identity, db1) \<Rightarrow>
          (case set_guard now user conn jid scope identity (env1 db1) of
             Inl e \<Rightarrow> set_job_failed now jid ''Multiple rows were found when one or none was required'' (env1 db1)
           | Inr (previous, approved, db2) \<Rightarrow>
               clear_remote digest provider now user cid jid scope identity previous approved (env2 db2))
      | (_, db1) \<Rightarrow> db1)"

section \<open>Local memberships are anchored\<close>

definition anchored :: "db \<Rightarrow> int \<Rightarrow> int \<Rightarrow> bool" where
  "anchored db user mid \<longleftrightarrow> (\<exists>c \<in> set (collection_table db). cl_user_id c = user \<and> cl_media_id c = mid \<and>
     (\<exists>f \<in> set (collection_file_table db). cf_collection_id f = cl_id c \<and> cf_source f = Manual \<and> cf_source_id f = Some (manual_marker mid)))"

text \<open>Only memberships were added.\<close>

definition library_grows :: "db \<Rightarrow> db \<Rightarrow> bool" where
  "library_grows db db' \<longleftrightarrow> (\<exists>cs fs. db' = db\<lparr>collection_table := collection_table db @ cs, collection_file_table := collection_file_table db @ fs\<rparr>)"

lemma library_grows_refl [simp]: "library_grows db db"
  unfolding library_grows_def by (rule exI [of _ "[]"], rule exI [of _ "[]"]) simp

lemma library_grows_trans: "library_grows a b \<Longrightarrow> library_grows b c \<Longrightarrow> library_grows a c"
proof -
  assume "library_grows a b" "library_grows b c"
  then obtain cs fs cs' fs' where "b = a\<lparr>collection_table := collection_table a @ cs, collection_file_table := collection_file_table a @ fs\<rparr>"
    "c = b\<lparr>collection_table := collection_table b @ cs', collection_file_table := collection_file_table b @ fs'\<rparr>"
    unfolding library_grows_def by blast
  then have "c = a\<lparr>collection_table := collection_table a @ (cs @ cs'), collection_file_table := collection_file_table a @ (fs @ fs')\<rparr>" by simp
  then show ?thesis unfolding library_grows_def by blast
qed

lemma library_grows_one:
  "library_grows db (db\<lparr>collection_table := collection_table db @ cs\<rparr>)" "library_grows db (db\<lparr>collection_file_table := collection_file_table db @ fs\<rparr>)"
proof -
  have "db\<lparr>collection_table := collection_table db @ cs\<rparr> = db\<lparr>collection_table := collection_table db @ cs, collection_file_table := collection_file_table db @ []\<rparr>"
    "db\<lparr>collection_file_table := collection_file_table db @ fs\<rparr> = db\<lparr>collection_table := collection_table db @ [], collection_file_table := collection_file_table db @ fs\<rparr>"
    by simp_all
  then show "library_grows db (db\<lparr>collection_table := collection_table db @ cs\<rparr>)"
    "library_grows db (db\<lparr>collection_file_table := collection_file_table db @ fs\<rparr>)" unfolding library_grows_def by blast+
qed

lemma library_grows_insert [simp]:
  "library_grows db (insert_collection now user mid db)" "library_grows db (insert_file now coll conn src sid db)"
  by (simp_all add: insert_collection_def insert_file_def library_grows_one)

lemma anchored_grows: "anchored db user mid \<Longrightarrow> library_grows db db' \<Longrightarrow> anchored db' user mid"
  by (auto simp: anchored_def library_grows_def) blast

lemma set_manual_anchor_anchors:
  assumes "set_manual_anchor now user mid True db = Inr db'"
  shows "library_grows db db' \<and> anchored db' user mid"
proof -
  obtain found where found: "collection_for db user mid = Inr found" using assms
    by (auto simp: set_manual_anchor_def Let_def and_then_Inr_iff)
  obtain coll db1 where e: "ensure_collection now user mid found db = (coll, db1)" by fastforce
  have coll: "library_grows db db1" "\<exists>c \<in> set (collection_table db1). cl_user_id c = user \<and> cl_media_id c = mid \<and> cl_id c = coll"
  proof -
    show "library_grows db db1" using e by (auto simp: ensure_collection_def split: option.splits)
    show "\<exists>c \<in> set (collection_table db1). cl_user_id c = user \<and> cl_media_id c = mid \<and> cl_id c = coll"
    proof (cases found)
      case None
      with e show ?thesis by (auto simp: ensure_collection_def insert_collection_def)
    next
      case (Some c)
      then have "filter (\<lambda>c. cl_user_id c = user \<and> cl_media_id c = mid) (collection_table db) = [c]"
        using found by (simp add: collection_for_def scalar_one_or_none_Some)
      then have "c \<in> set (filter (\<lambda>c. cl_user_id c = user \<and> cl_media_id c = mid) (collection_table db))" by simp
      with Some e show ?thesis by (auto simp: ensure_collection_def)
    qed
  qed
  show ?thesis
  proof (cases "list_ex (\<lambda>f. cf_collection_id f = coll \<and> cf_source f = Manual \<and> cf_source_id f = Some (manual_marker mid)) (collection_file_table db1)")
    case True
    with assms found e have "db' = db1" by (simp add: set_manual_anchor_def Let_def)
    moreover from True obtain f where "f \<in> set (collection_file_table db1)" "cf_collection_id f = coll" "cf_source f = Manual"
      "cf_source_id f = Some (manual_marker mid)" by (auto simp: list_ex_iff)
    ultimately show ?thesis using coll unfolding anchored_def by metis
  next
    case False
    with assms found e have db': "db' = insert_file now coll None Manual (manual_marker mid) db1" by (simp add: set_manual_anchor_def Let_def)
    then have "library_grows db1 db'" by simp
    with coll(1) have "library_grows db db'" by (rule library_grows_trans)
    moreover have "anchored db' user mid" using coll(2) unfolding db' by (auto simp: anchored_def insert_file_def)
    ultimately show ?thesis by simp
  qed
qed

lemma anchor_local_memberships_anchors:
  "anchor_local_memberships now user mids db = Inr db' \<Longrightarrow> library_grows db db' \<and> (\<forall>mid \<in> set mids. anchored db' user mid)"
  unfolding anchor_local_memberships_def
proof (induction mids arbitrary: db)
  case Nil
  then show ?case by simp
next
  case (Cons mid mids)
  then obtain db1 where db1: "set_manual_anchor now user mid True db = Inr db1"
    "fold_result (\<lambda>mid. set_manual_anchor now user mid True) mids db1 = Inr db'" by (auto simp: and_then_Inr_iff)
  from set_manual_anchor_anchors [OF db1(1)] Cons.IH [OF db1(2)] show ?case
    by (auto intro: library_grows_trans anchored_grows)
qed

section \<open>The guard\<close>

definition keeps_library :: "db \<Rightarrow> db \<Rightarrow> bool" where
  "keeps_library db db' \<longleftrightarrow> stream_baseline_table db' = stream_baseline_table db \<and> job_table db' = job_table db
     \<and> collection_table db' = collection_table db \<and> collection_file_table db' = collection_file_table db
     \<and> connection_table db' = connection_table db"

lemma clear_deliveries_only:
  "only_deliveries db (fst (clear_pending_library_deliveries now user cid db))"
proof -
  have step: "only_deliveries d (fst (clear_intent now cid i (d, n)))" for i d n
    by (simp add: clear_intent_def split: option.split)
  have "only_deliveries d (fst (fold (clear_intent now cid) is (d, n)))" for "is" d n
  proof (induction "is" arbitrary: d n)
    case Nil
    then show ?case by simp
  next
    case (Cons i "is")
    obtain d1 n1 where "clear_intent now cid i (d, n) = (d1, n1)" by fastforce
    with Cons [of d1 n1] step [of d i n] show ?case by (auto intro: only_deliveries_trans)
  qed
  then show ?thesis by (simp add: clear_pending_library_deliveries_def)
qed

lemma freeze_keeps_library: "keeps_library db (freeze_outbound_work now user cid scope db)"
proof -
  have d: "keeps_library db (fst (clear_pending_library_deliveries now user cid db))"
    using clear_deliveries_only [of db now user cid] unfolding only_deliveries_def keeps_library_def
    by (metis db.select_convs(4,9,17,18,22) db.surjective db.update_convs(23))
  then show ?thesis
    by (simp add: freeze_outbound_work_def Let_def keeps_library_def freeze_intents_def freeze_actions_def)
qed

lemma put_baseline_of:
  assumes "\<And>b. sb_connection_id (f b) = sb_connection_id b"
  shows "stream_baseline_of (put_baseline now user cid f db) c =
    (if c = cid then Some (f (case stream_baseline_of db cid of Some b \<Rightarrow> b
        | None \<Rightarrow> \<lparr>sb_connection_id = cid, sb_user_id = user, sb_snapshot = [], sb_approved = False, sb_observed_at = now\<rparr>))
     else stream_baseline_of db c)"
proof (cases "stream_baseline_of db cid")
  case None
  then have "find (\<lambda>b. sb_connection_id b = c) (rows @ [b]) = (case find (\<lambda>b. sb_connection_id b = c) rows of Some x \<Rightarrow> Some x
      | None \<Rightarrow> if sb_connection_id b = c then Some b else None)" for rows and b :: stream_baseline
    by (induction rows) auto
  with None show ?thesis by (auto simp: put_baseline_def stream_baseline_of_def assms split: option.splits)
next
  case (Some b)
  have "find (\<lambda>b. sb_connection_id b = c) (update_where (\<lambda>b. sb_connection_id b = cid) f rows) =
      (if c = cid then map_option f (find (\<lambda>b. sb_connection_id b = c) rows) else find (\<lambda>b. sb_connection_id b = c) rows)" for rows
    by (rule find_update_own) (rule assms)
  with Some show ?thesis by (auto simp: put_baseline_def stream_baseline_of_def)
qed

lemma put_baseline_tables [simp]:
  "collection_table (put_baseline now user cid f db) = collection_table db"
  "collection_file_table (put_baseline now user cid f db) = collection_file_table db"
  "job_table (put_baseline now user cid f db) = job_table db"
  "connection_table (put_baseline now user cid f db) = connection_table db"
  by (simp_all add: put_baseline_def)

lemma set_guard_steps:
  assumes "set_guard now user conn jid scope identity db = Inr (previous, approved, db2)"
  obtains db1 where "library_grows (put_baseline now user (c_id conn)
      (\<lambda>x. x\<lparr>sb_snapshot := guarded_snapshot now user conn jid scope identity db previous, sb_approved := False\<rparr>) db) db1"
    "sc_collection scope \<Longrightarrow> \<forall>mid \<in> set (connection_collection_media_ids db user conn). anchored db1 user mid"
    "db2 = freeze_outbound_work now user (c_id conn) scope db1" "previous = baseline_snapshot (stream_baseline_of db (c_id conn))"
proof -
  let ?p = "put_baseline now user (c_id conn) (\<lambda>x. x\<lparr>sb_snapshot := guarded_snapshot now user conn jid scope identity db
    (baseline_snapshot (stream_baseline_of db (c_id conn))), sb_approved := False\<rparr>) db"
  have titles: "connection_collection_media_ids ?p user conn = connection_collection_media_ids db user conn"
    by (simp add: connection_collection_media_ids_def)
  show ?thesis
  proof (cases "sc_collection scope")
    case True
    with assms obtain db1 where "anchor_local_memberships now user (connection_collection_media_ids db user conn) ?p = Inr db1"
      "db2 = freeze_outbound_work now user (c_id conn) scope db1" "previous = baseline_snapshot (stream_baseline_of db (c_id conn))"
      by (auto simp: set_guard_def Let_def and_then_Inr_iff titles)
    with anchor_local_memberships_anchors [OF this(1)] show ?thesis by (intro that [of db1]) auto
  next
    case False
    with assms show ?thesis by (intro that [of ?p]) (auto simp: set_guard_def Let_def)
  qed
qed

lemma get_guarded [simp]: "get (guarded_snapshot now user conn jid scope identity db previous) ''clear_guard'' = guard_value now jid scope identity"
  by (simp add: guarded_snapshot_def Let_def)

lemma set_guard_baseline:
  assumes "set_guard now user conn jid scope identity db = Inr (previous, approved, db2)"
  shows "\<exists>b. stream_baseline_of db2 (c_id conn) = Some b \<and> \<not> sb_approved b \<and>
    get (sb_snapshot b) ''clear_guard'' = guard_value now jid scope identity \<and> job_table db2 = job_table db
    \<and> connection_table db2 = connection_table db"
proof (rule set_guard_steps [OF assms])
  fix db1
  let ?f = "\<lambda>x :: stream_baseline. x\<lparr>sb_snapshot := guarded_snapshot now user conn jid scope identity db previous, sb_approved := False\<rparr>"
  assume g: "library_grows (put_baseline now user (c_id conn) ?f db) db1" "db2 = freeze_outbound_work now user (c_id conn) scope db1"
  from g(1) have one: "stream_baseline_table db1 = stream_baseline_table (put_baseline now user (c_id conn) ?f db)"
    "job_table db1 = job_table db" "connection_table db1 = connection_table db" by (auto simp: library_grows_def)
  have two: "stream_baseline_table db2 = stream_baseline_table db1" "job_table db2 = job_table db1" "connection_table db2 = connection_table db1"
    using freeze_keeps_library [of db1 now user "c_id conn" scope] unfolding g(2) keeps_library_def by auto
  have "stream_baseline_of db2 = stream_baseline_of (put_baseline now user (c_id conn) ?f db)"
    by (simp add: stream_baseline_of_def fun_eq_iff one two)
  with put_baseline_of [of ?f now user "c_id conn" db "c_id conn"] one two show ?thesis by auto
qed

lemma truthy_guard [simp]: "truthy (guard_value now jid scope identity)"
  by (simp add: guard_value_def)

lemma stamp_of_printed:
  assumes "valid_datetime now"
  shows "stamp_of (VStr (datetime_isoformat now @ ''+00:00'')) = Inr (Some now)"
proof -
  have "zulu_offset s = s" if "CHR ''Z'' \<notin> set s" for s
    using that by (induction s) (auto simp: zulu_offset_def)
  then have "zulu_offset (datetime_isoformat now @ ''+00:00'') = datetime_isoformat now @ ''+00:00''"
    using datetime_isoformat_chars(1) [of now] by simp
  then show ?thesis using assms by (simp add: stamp_of_def parse_datetime_isoformat_utc to_naive_utc_def)
qed

lemma frozen_deliveries:
  assumes "deliveries_ok db" "unique_on li_id (library_intent_table db)" "sc_collection scope"
    and "i \<in> set (library_intent_table db)" "li_user_id i = user"
  shows "\<exists>d. delivery_of (freeze_outbound_work now user cid scope db) (li_id i) cid = Some d \<and> ld_state d = ''cleared''"
proof -
  have "i \<in> set (intents_of db user)" "unique_on li_id (intents_of db user)"
    using assms(2,4,5) by (simp_all add: intents_of_def unique_on_def distinct_map inj_on_def)
  with clear_intents [OF assms(1) this(2), of now cid 0]
  have "cleared (fst (clear_pending_library_deliveries now user cid db)) cid i" by (simp add: clear_pending_library_deliveries_def)
  moreover have "library_delivery_table (freeze_outbound_work now user cid scope db)
      = library_delivery_table (fst (clear_pending_library_deliveries now user cid db))"
    using assms(3) by (simp add: freeze_outbound_work_def Let_def freeze_intents_def freeze_actions_def)
  ultimately show ?thesis by (auto simp: cleared_def delivery_of_def split: option.splits)
qed

lemma touched_state [simp]: "wi_state (touch_intent now (\<lambda>i. i\<lparr>wi_state := s\<rparr>) j) = s"
  by (cases j) (simp add: touch_intent_def)

lemma touched_owner [simp]: "wi_user_id (touch_intent now (\<lambda>i. i\<lparr>wi_state := s\<rparr>) j) = wi_user_id j"
    "wi_connection_id (touch_intent now (\<lambda>i. i\<lparr>wi_state := s\<rparr>) j) = wi_connection_id j"
  by (cases j, simp add: touch_intent_def)+

lemma frozen_intents:
  assumes "sc_watched scope" "i \<in> set (watch_intent_table (freeze_outbound_work now user cid scope db))"
    and "wi_user_id i = user" "wi_connection_id i = cid"
  shows "wi_state i \<noteq> ''pending''"
proof -
  obtain d where "i \<in> set (watch_intent_table (freeze_intents now user cid d))"
    using assms(1,2) by (auto simp: freeze_outbound_work_def Let_def freeze_actions_def)
  then obtain j where "i = (if wi_user_id j = user \<and> wi_connection_id j = cid \<and> wi_state j = ''pending''
      then touch_intent now (\<lambda>i. i\<lparr>wi_state := ''cleared''\<rparr>) j else j)"
    by (auto simp: freeze_intents_def dest: in_update_where)
  with assms(3,4) show ?thesis by (cases "wi_user_id j = user \<and> wi_connection_id j = cid \<and> wi_state j = ''pending''") auto
qed

lemma frozen_actions:
  assumes "sc_watched scope \<or> sc_playback scope" "a \<in> set (stream_action_table (freeze_outbound_work now user cid scope db))"
    and "sa_user_id a = user" "sa_connection_id a = cid" "sa_action a \<in> {''dismiss'', ''restore'', ''reset'', ''upsert''}"
    and "sc_playback scope \<or> sa_action a = ''reset''"
  shows "sa_state a \<noteq> ''pending''"
proof -
  obtain d where "a \<in> set (stream_action_table (freeze_actions user cid (sc_playback scope) d))"
    using assms(1,2) by (auto simp: freeze_outbound_work_def Let_def)
  then obtain b where "a = (if sa_user_id b = user \<and> sa_connection_id b = cid \<and> sa_state b = ''pending''
      \<and> sa_action b \<in> {''dismiss'', ''restore'', ''reset'', ''upsert''} \<and> (sc_playback scope \<or> sa_action b = ''reset'')
      then b\<lparr>sa_state := ''cleared''\<rparr> else b)"
    by (auto simp: freeze_actions_def dest: in_update_where)
  with assms(3-6) show ?thesis by (auto split: if_splits)
qed


section \<open>How a clear ends\<close>

lemma dict_set_foldr_get: "get (foldr (\<lambda>k. dict_set k v) ks d) k' = (if k' \<in> set ks then v else get d k')"
  by (induction ks) auto

lemma projected_sections:
  "get (project_cleared_snapshot scope s) ''clear_guard'' = VNone"
  "sc_collection scope \<Longrightarrow> get (project_cleared_snapshot scope s) ''library'' = VList []"
  "sc_watched scope \<Longrightarrow> get (project_cleared_snapshot scope s) ''watched'' = VList []"
  "sc_playback scope \<Longrightarrow> k \<in> {''progress'', ''resume'', ''outbound''} \<Longrightarrow> get (project_cleared_snapshot scope s) k = VDict []"
  by (auto simp: project_cleared_snapshot_def Let_def dict_set_foldr_get)

lemma find_job_update:
  "(\<And>j. sj_id (f j) = sj_id j) \<Longrightarrow> find (\<lambda>j. sj_id j = jid) (job_table (update_job jid f db)) = map_option f (find (\<lambda>j. sj_id j = jid) (job_table db))"
  by (simp add: update_job_def find_update_own [where key = sj_id])

lemma stream_baseline_of_job [simp]: "stream_baseline_of (update_job jid f db) = stream_baseline_of db"
  by (simp add: update_job_def stream_baseline_of_def fun_eq_iff)


section \<open>A frozen reset and its deletion marker\<close>

text \<open>A deleted film whose reset waits for account 5, and a job that clears watched history and playback there.\<close>

definition sample_clear_stats :: pydict where
  "sample_clear_stats = [(''clear_scope'', VDict [(''collection'', VBool False), (''watched'', VBool True), (''playback'', VBool True)]),
     (''target_identity'', VDict [(''token_sha256'', VStr ''t'')])]"

definition sample_clear_job :: sync_job where
  "sample_clear_job = \<lparr>sj_id = 3, sj_user_id = 1, sj_source = Stremio, sj_status = Pending, sj_total_items = 0,
     sj_processed_items = 0, sj_errors = 0, sj_error_message = None, sj_stats = Some sample_clear_stats, sj_warnings = None,
     sj_current_step = None, sj_connection_id = Some 5, sj_job_type = ''clear'', sj_created_at = 0, sj_updated_at = 0\<rparr>"

definition sample_reset :: stream_action where
  "sample_reset = (sample_resume 1 5)\<lparr>sa_action := ''reset''\<rparr>"

definition sample_marker :: tracking_deletion where
  "sample_marker = \<lparr>td_id = 1, td_user_id = 1, td_media_id = 10, td_deleted_at = 0, td_pending_connections = [''connection:5'']\<rparr>"

definition sample_deleted_db :: db where
  "sample_deleted_db = empty_db\<lparr>connection_table := [(sample_player 5)\<lparr>c_push_watched := True\<rparr>],
     stream_baseline_table := [sample_approval 5], media_table := [sample_movie], job_table := [sample_clear_job],
     deletion_table := [sample_marker], stream_action_table := [sample_reset]\<rparr>"

definition sample_clearing :: "connection \<Rightarrow> clear_scope \<Rightarrow> clear_answer" where
  "sample_clearing conn scope = \<lparr>an_rotated = None, an_counts = Inr (0, 1, 1)\<rparr>"

lemma sample_cleared:
  obtains previous approved db where
    "set_guard 1000 1 ((sample_player 5)\<lparr>c_push_watched := True\<rparr>) 3 \<lparr>sc_collection = False, sc_watched = True, sc_playback = True\<rparr>
      [(''token_sha256'', VStr ''t'')] sample_deleted_db = Inr (previous, approved, db)"
    "find_connection db (c_id ((sample_player 5)\<lparr>c_push_watched := True\<rparr>)) = Some ((sample_player 5)\<lparr>c_push_watched := True\<rparr>)"
proof -
  let ?conn = "(sample_player 5)\<lparr>c_push_watched := True\<rparr>"
  obtain previous approved db where g: "set_guard 1000 1 ?conn 3 \<lparr>sc_collection = False, sc_watched = True, sc_playback = True\<rparr>
      [(''token_sha256'', VStr ''t'')] sample_deleted_db = Inr (previous, approved, db)" by (simp add: set_guard_def Let_def)
  from set_guard_baseline [OF g] have "connection_table db = [?conn]" by (auto simp: sample_deleted_db_def)
  then have "find_connection db (c_id ?conn) = Some ?conn" by (simp add: find_connection_def)
  with g show ?thesis by (rule that)
qed

lemma sample_deliveries: "deliveries_ok sample_deleted_db" "unique_on li_id (library_intent_table sample_deleted_db)" "valid_datetime 1000"
  by (simp_all add: deliveries_ok_def sample_deleted_db_def empty_db_def unique_on_def) code_simp




lemma sample_begun:
  "begin_clear id now 1 5 3 sample_deleted_db =
     (Ready ((sample_player 5)\<lparr>c_push_watched := True\<rparr>) \<lparr>sc_collection = False, sc_watched = True, sc_playback = True\<rparr> [(''token_sha256'', VStr ''t'')],
      sample_deleted_db\<lparr>job_table := [sample_clear_job\<lparr>sj_status := Running, sj_current_step := Some ''Preparing remote clear'',
        sj_processed_items := 0, sj_total_items := 0, sj_updated_at := now\<rparr>]\<rparr>)"
  by code_simp

lemmas sample_player_defs = sample_player_def new_connection_def find_connection_def target_identity_def dict_same_def
lemmas sample_deleted_defs = sample_deleted_db_def empty_db_def sample_clear_job_def sample_reset_def sample_resume_def sample_approval_def
lemmas clear_job_defs = set_guard_def put_baseline_def stream_baseline_of_def freeze_outbound_work_def freeze_intents_def freeze_actions_def
  clear_remote_def complete_clear_def update_job_def update_where_def

lemma sample_after:
  fixes now :: datetime
  defines "after \<equiv> run_clear_data_job id sample_clearing now id id 1 5 3 sample_deleted_db"
  shows "map sj_status (job_table after) = [Completed]" "stream_action_table after = [sample_reset\<lparr>sa_state := ''cleared''\<rparr>]"
    "deletion_table after = [sample_marker]" "connection_table after = [(sample_player 5)\<lparr>c_push_watched := True\<rparr>]"
proof -
  have "map sj_status (job_table after) = [Completed] \<and> stream_action_table after = [sample_reset\<lparr>sa_state := ''cleared''\<rparr>] \<and>
      deletion_table after = [sample_marker] \<and> connection_table after = [(sample_player 5)\<lparr>c_push_watched := True\<rparr>]"
    unfolding after_def run_clear_data_job_def sample_begun prod.case clear_start.case id_apply
    by (simp add: clear_job_defs sample_clearing_def sample_deleted_defs sample_player_defs Let_def)
  then show "map sj_status (job_table after) = [Completed]" "stream_action_table after = [sample_reset\<lparr>sa_state := ''cleared''\<rparr>]"
    "deletion_table after = [sample_marker]" "connection_table after = [(sample_player 5)\<lparr>c_push_watched := True\<rparr>]" by simp_all
qed


end
