(* ===== verification/Base64.thy ===== *)
theory Base64
  imports Prelude "HOL-Library.Word"
begin

text \<open>
  \<open>base64.b64encode\<close> and \<open>base64.b64decode\<close> of the standard library over bytes, as the watched
  bitfields of Stremio use them.  Decoding is lenient, as CPython's is by default: characters that
  are not in the alphabet are skipped, and the first complete padding ends the data.
\<close>

definition b64_char :: "nat \<Rightarrow> char" where
  "b64_char n =
     char_of (if n < 26 then 65 + n else if n < 52 then 71 + n else if n < 62 then n - 4 else if n = 62 then 43 else 47)"

definition b64_val :: "char \<Rightarrow> nat option" where
  "b64_val c =
     (let n = of_char c :: nat in
      if 65 \<le> n \<and> n \<le> 90 then Some (n - 65) else if 97 \<le> n \<and> n \<le> 122 then Some (n - 71)
      else if 48 \<le> n \<and> n \<le> 57 then Some (n + 4) else if n = 43 then Some 62 else if n = 47 then Some 63 else None)"

fun b64encode :: "8 word list \<Rightarrow> string" where
  "b64encode [] = []"
| "b64encode [a] = [b64_char (unat a div 4), b64_char (unat a mod 4 * 16), CHR ''='', CHR ''='']"
| "b64encode [a, b] =
     [b64_char (unat a div 4), b64_char (unat a mod 4 * 16 + unat b div 16), b64_char (unat b mod 16 * 4), CHR ''='']"
| "b64encode (a # b # c # rest) =
     [b64_char (unat a div 4), b64_char (unat a mod 4 * 16 + unat b div 16),
      b64_char (unat b mod 16 * 4 + unat c div 64), b64_char (unat c mod 64)] @ b64encode rest"

text \<open>The position in the group of four, the bits left over and the padding seen so far.\<close>

fun b64_scan :: "nat \<Rightarrow> nat \<Rightarrow> nat \<Rightarrow> string \<Rightarrow> 8 word list option" where
  "b64_scan quad left pads [] = (if quad = 0 then Some [] else None)"
| "b64_scan quad left pads (c # cs) =
     (if c = CHR ''='' then
        (if 2 \<le> quad \<and> 4 \<le> quad + (pads + 1) then Some []
         else b64_scan quad left (if 2 \<le> quad then pads + 1 else pads) cs)
      else
        (case b64_val c of
           None \<Rightarrow> b64_scan quad left pads cs
         | Some v \<Rightarrow>
           if quad = 0 then b64_scan 1 v 0 cs
           else if quad = 1 then map_option ((#) (of_nat (left * 4 + v div 16))) (b64_scan 2 (v mod 16) 0 cs)
           else if quad = 2 then map_option ((#) (of_nat (left * 16 + v div 4))) (b64_scan 3 (v mod 4) 0 cs)
           else map_option ((#) (of_nat (left * 64 + v))) (b64_scan 0 0 0 cs)))"

definition b64decode :: "string \<Rightarrow> 8 word list option" where
  "b64decode s = (if list_all (\<lambda>c. (of_char c :: nat) < 128) s then b64_scan 0 0 0 s else None)"

lemma of_char_b64_char:
  "n < 64 \<Longrightarrow> (of_char (b64_char n) :: nat) =
     (if n < 26 then 65 + n else if n < 52 then 71 + n else if n < 62 then n - 4 else if n = 62 then 43 else 47)"
  by (simp add: b64_char_def)

lemma b64_val_char [simp]: "n < 64 \<Longrightarrow> b64_val (b64_char n) = Some n"
  by (simp add: b64_val_def of_char_b64_char Let_def) presburger

lemma b64_char_plain: "n < 64 \<Longrightarrow> b64_char n \<noteq> CHR ''='' \<and> b64_char n \<noteq> CHR '':''"
proof -
  assume n: "n < 64"
  have "(of_char (b64_char n) :: nat) \<noteq> 61 \<and> (of_char (b64_char n) :: nat) \<noteq> 58"
    using n by (simp add: of_char_b64_char) linarith
  moreover have "(of_char (CHR ''='') :: nat) = 61" "(of_char (CHR '':'') :: nat) = 58" by simp_all
  ultimately show ?thesis by metis
qed

lemma unat_byte: "unat (a :: 8 word) < 256"
  using unsigned_less [of a, where ?'a = nat] by simp

lemma b64_pieces:
  fixes a b c :: "8 word"
  shows "unat a div 4 < 64" "unat b div 16 < 16" "unat c div 64 < 4"
    "unat a mod 4 * 16 + unat b div 16 < 64" "unat b mod 16 * 4 + unat c div 64 < 64"
    "unat a mod 4 * 16 < 64" "unat b mod 16 * 4 < 64" "unat c mod 64 < 64"
  using unat_byte [of a] unat_byte [of b] unat_byte [of c] by (simp_all add: less_mult_imp_div_less)

lemma b64_join:
  fixes x y :: nat
  shows "y < 16 \<Longrightarrow> x div 4 * 4 + (x mod 4 * 16 + y) div 16 = x" "x div 4 * 4 + (x mod 4 * 16) div 16 = x"
    "y < 16 \<Longrightarrow> (x mod 4 * 16 + y) mod 16 = y" "(x mod 4 * 16) mod 16 = (0::nat)"
    "y < 4 \<Longrightarrow> x div 16 * 16 + (x mod 16 * 4 + y) div 4 = x" "x div 16 * 16 + (x mod 16 * 4) div 4 = x"
    "y < 4 \<Longrightarrow> (x mod 16 * 4 + y) mod 4 = y" "(x mod 16 * 4) mod 4 = (0::nat)"
    "x div 64 * 64 + x mod 64 = x"
  by simp_all

lemmas b64_simps = b64_pieces b64_join b64_char_plain

lemma b64_scan_encode: "b64_scan 0 0 0 (b64encode bs) = Some bs"
proof (induction bs rule: b64encode.induct)
  case (2 a)
  then show ?case by (simp add: b64_simps del: of_nat_add of_nat_mult)
next
  case (3 a b)
  then show ?case by (simp add: b64_simps del: of_nat_add of_nat_mult)
next
  case (4 a b c rest)
  then show ?case by (simp add: b64_simps del: of_nat_add of_nat_mult)
qed simp

lemma b64encode_chars: "c \<in> set (b64encode bs) \<Longrightarrow> c = CHR ''='' \<or> (\<exists>n < 64. c = b64_char n)"
  by (induction bs rule: b64encode.induct) (auto intro: b64_pieces)

lemma b64encode_no_colon: "CHR '':'' \<notin> set (b64encode bs)"
  using b64encode_chars [of "CHR '':''" bs] b64_char_plain by force

lemma b64decode_encode: "b64decode (b64encode bs) = Some bs"
proof -
  have "(of_char c :: nat) < 128" if "c \<in> set (b64encode bs)" for c
    using b64encode_chars [OF that] by (auto simp: of_char_b64_char)
  then show ?thesis by (simp add: b64decode_def list_all_iff b64_scan_encode)
qed

end
