(* ===== verification/Stremio.thy ===== *)
theory Stremio
  imports Base64 IsoTime "HOL-Library.Product_Lexorder" "HOL-Library.List_Lexorder" "HOL-Library.Char_ord"
begin

unbundle bit_operations_syntax

text \<open>
  What the program reads and writes in a Stremio library: \<open>core/stremio_payloads.py\<close> whole and the
  watched bitfield of \<open>core/stremio.py\<close>.  \<open>zlib.compress\<close> and \<open>zlib.decompress\<close> are the arguments
  \<open>compress\<close> and \<open>decompress\<close> (decompressing fails on text it did not produce); \<open>isoparse\<close> is the date
  parser of \<open>dateutil\<close>.  A record or library item is a JSON dictionary.
\<close>

section \<open>The watched bitfield\<close>

definition index_of :: "'a \<Rightarrow> 'a list \<Rightarrow> nat option" where
  "index_of x xs = (if x \<in> set xs then Some (length (takeWhile ((\<noteq>) x) xs)) else None)"

definition bit_mask :: "nat \<Rightarrow> 8 word" where
  "bit_mask n = push_bit n 1"

definition previous_bit :: "8 word list \<Rightarrow> nat \<Rightarrow> bool" where
  "previous_bit bs n \<longleftrightarrow> n div 8 < length bs \<and> (bs ! (n div 8)) AND bit_mask (n mod 8) \<noteq> 0"

definition parse_anchor ::
  "(8 word list \<Rightarrow> 8 word list option) \<Rightarrow> string list \<Rightarrow> string \<Rightarrow> (int \<times> nat \<times> 8 word list) option" where
  "parse_anchor decompress ids serialized =
     (case rsplit3 (CHR '':'') serialized of
        None \<Rightarrow> None
      | Some (anchor, len, packed) \<Rightarrow>
        (case (int_of_str len, index_of anchor ids, Option.bind (b64decode packed) decompress) of
           (Some n, Some i, Some bs) \<Rightarrow> Some (n, i, bs)
         | _ \<Rightarrow> None))"

definition decode_watched_bitfield ::
  "(8 word list \<Rightarrow> 8 word list option) \<Rightarrow> string option \<Rightarrow> string list \<Rightarrow> string set" where
  "decode_watched_bitfield decompress serialized ids =
     (case serialized of
        None \<Rightarrow> {}
      | Some s \<Rightarrow>
        if s = [] \<or> ids = [] then {}
        else (case parse_anchor decompress ids s of
           None \<Rightarrow> {}
         | Some (n, i, bs) \<Rightarrow>
           if n \<le> 0 then {}
           else set (map snd (filter (\<lambda>(k, _).
                  let p = int k + ((n - 1) - int i) in 0 \<le> p \<and> p < n \<and> previous_bit bs (nat p)) (enumerate 0 ids)))))"

fun set_marks :: "string set \<Rightarrow> nat \<Rightarrow> string list \<Rightarrow> 8 word list \<times> nat \<Rightarrow> 8 word list \<times> nat" where
  "set_marks w k [] acc = acc"
| "set_marks w k (v # vs) (bs, last_index) =
     set_marks w (Suc k) vs
       (if v \<in> w then (bs[k div 8 := bs ! (k div 8) OR bit_mask (k mod 8)], k) else (bs, last_index))"

definition encode_watched_bitfield :: "(8 word list \<Rightarrow> 8 word list) \<Rightarrow> string set \<Rightarrow> string list \<Rightarrow> string option" where
  "encode_watched_bitfield compress w ids =
     (if ids = [] then None
      else (case set_marks w 0 ids (replicate ((length ids + 7) div 8) 0, 0) of
        (bs, last_index) \<Rightarrow>
          Some (ids ! last_index @ '':'' @ show_nat (last_index + 1) @ '':'' @ b64encode (compress bs))))"

section \<open>Values\<close>

definition to_int :: "pyval \<Rightarrow> int result" where
  "to_int v =
     (case v of
        VStr s \<Rightarrow> (case int_of_str s of None \<Rightarrow> Inl ValueError | Some n \<Rightarrow> Inr n)
      | VFloat r \<Rightarrow> Inr (if 0 \<le> r then \<lfloor>r\<rfloor> else - \<lfloor>- r\<rfloor>)
      | _ \<Rightarrow> (case as_int v of None \<Rightarrow> Inl TypeError | Some n \<Rightarrow> Inr n))"

definition item_int :: "pydict \<Rightarrow> string \<Rightarrow> int result" where
  "item_int d k = (case map_of d k of None \<Rightarrow> Inl KeyError | Some v \<Rightarrow> to_int v)"

definition epoch_ms :: "(string \<Rightarrow> (datetime \<times> int option) option) \<Rightarrow> pyval \<Rightarrow> int option" where
  "epoch_ms isoparse v =
     (if v = VNone then None
      else (case number_of v of
        Some r \<Rightarrow> Some (if 0 \<le> r then \<lfloor>r\<rfloor> else - \<lfloor>- r\<rfloor>)
      | None \<Rightarrow> (case isoparse (py_str v) of
           None \<Rightarrow> None
         | Some (t, off) \<Rightarrow>
           (let us = t - (case off of None \<Rightarrow> 0 | Some o1 \<Rightarrow> o1)
            in Some (if 0 \<le> us then us div 1000 else - ((- us) div 1000))))))"

text \<open>An aware UTC moment with a \<open>Z\<close>.\<close>

definition zulu_stamp :: "pyval \<Rightarrow> string result" where
  "zulu_stamp ms =
     and_then (to_int ms) (\<lambda>n.
       case fromtimestamp (of_int n / 1000) of
         None \<Rightarrow> Inl ValueError | Some t \<Rightarrow> Inr (datetime_isoformat t @ ''Z''))"

section \<open>Episodes of a series\<close>

definition video_parts :: "pydict \<Rightarrow> (int \<times> int) option" where
  "video_parts video =
     (case (item_int video ''season'', item_int video ''episode'') of
        (Inr s, Inr e) \<Rightarrow> Some (s, e)
      | _ \<Rightarrow>
        (case rsplit3 (CHR '':'') (py_str (py_or (get video ''id'') (VStr []))) of
           None \<Rightarrow> None
         | Some (_, s, e) \<Rightarrow> (case (int_of_str s, int_of_str e) of (Some a, Some b) \<Rightarrow> Some (a, b) | _ \<Rightarrow> None)))"

definition video_order :: "pydict \<Rightarrow> int \<times> int \<times> string" where
  "video_order video =
     (case (case video_parts video of None \<Rightarrow> (-1, -1) | Some p \<Rightarrow> p) of
        (s, e) \<Rightarrow> (s, e, py_str (py_or (get video ''released'') (VStr []))))"

definition sorted_videos :: "pydict \<Rightarrow> pydict list" where
  "sorted_videos meta =
     sort_key video_order (filter (\<lambda>v. truthy (get v ''id'')) (List.map_filter as_dict (list_or_empty (get meta ''videos''))))"

definition video_id :: "pydict \<Rightarrow> string" where
  "video_id v = py_str (get v ''id'')"

definition matching_video :: "pydict list \<Rightarrow> int \<Rightarrow> int \<Rightarrow> pydict option" where
  "matching_video videos season episode = find (\<lambda>v. video_parts v = Some (season, episode)) videos"

section \<open>Library items\<close>

definition default_state :: pydict where
  "default_state =
     [(''lastWatched'', VNone), (''timeWatched'', VInt 0), (''timeOffset'', VInt 0), (''overallTimeWatched'', VInt 0),
      (''timesWatched'', VInt 0), (''flaggedWatched'', VInt 0), (''duration'', VInt 0), (''video_id'', VNone),
      (''watched'', VNone), (''noNotif'', VBool False)]"

definition new_library_item :: "pydict \<Rightarrow> string \<Rightarrow> bool \<Rightarrow> pydict result" where
  "new_library_item record now in_library =
     (case (map_of record ''content_id'', map_of record ''content_type'') of
        (Some cid, Some kind) \<Rightarrow>
          Inr [(''_id'', cid), (''name'', py_or (py_or (get record ''name'') (get record ''title'')) cid), (''type'', kind),
               (''poster'', get record ''poster''), (''posterShape'', py_or (get record ''poster_shape'') (VStr ''poster'')),
               (''removed'', VBool (\<not> in_library)), (''temp'', VBool (\<not> in_library)),
               (''_ctime'', VStr now), (''_mtime'', VStr now), (''state'', VDict default_state), (''behaviorHints'', VDict [])]
      | _ \<Rightarrow> Inl KeyError)"

definition same_item :: "pydict \<Rightarrow> pydict \<Rightarrow> bool" where
  "same_item a b \<longleftrightarrow> map_of (dict_pop ''_mtime'' a) = map_of (dict_pop ''_mtime'' b)"

text \<open>The viewing state of an item, completed by the defaults.\<close>

definition item_state :: "pydict \<Rightarrow> pydict" where
  "item_state item = dict_merge default_state (dict_or_empty (get item ''state''))"

definition stored_bits :: "pyval \<Rightarrow> string option result" where
  "stored_bits v = (case v of VStr s \<Rightarrow> Inr (Some s) | _ \<Rightarrow> if truthy v then Inl (ProviderError ''AttributeError'') else Inr None)"

definition set_watched_at :: "bool \<Rightarrow> string option \<Rightarrow> pydict \<Rightarrow> pydict" where
  "set_watched_at watched stamp state =
     (case stamp of Some s \<Rightarrow> if watched then dict_set ''lastWatched'' (VStr s) state else state | None \<Rightarrow> state)"

definition watch_movie :: "bool \<Rightarrow> string option \<Rightarrow> pydict \<Rightarrow> pydict result" where
  "watch_movie watched stamp state =
     and_then (if watched then and_then (to_int (py_or (get state ''timesWatched'') (VInt 0))) (\<lambda>n. Inr (max 1 n)) else Inr 0) (\<lambda>n.
       let state1 = dict_set ''timesWatched'' (VInt n) state;
           state2 = (if watched then state1 else dict_set ''flaggedWatched'' (VInt 0) state1)
       in Inr (set_watched_at watched stamp state2))"

definition optional_text :: "string option \<Rightarrow> pyval" where
  "optional_text v = (case v of None \<Rightarrow> VNone | Some s \<Rightarrow> VStr s)"

definition watch_episode ::
  "(8 word list \<Rightarrow> 8 word list) \<Rightarrow> (8 word list \<Rightarrow> 8 word list option) \<Rightarrow> bool \<Rightarrow> string option \<Rightarrow> pyval \<Rightarrow> pyval \<Rightarrow> pydict \<Rightarrow>
   pydict \<Rightarrow> pydict result" where
  "watch_episode compress decompress watched stamp season episode meta state =
     (let videos = sorted_videos meta; ids = map video_id videos in
      if videos = [] then Inr state
      else and_then (stored_bits (get state ''watched'')) (\<lambda>serialized.
           and_then (to_int season) (\<lambda>s. and_then (to_int episode) (\<lambda>e.
        let seen = decode_watched_bitfield decompress serialized ids in
        Inr (case matching_video videos s e of
               None \<Rightarrow> state
             | Some v \<Rightarrow>
               (let seen1 = (if watched then insert (video_id v) seen else seen - {video_id v})
                in set_watched_at watched stamp
                     (dict_set ''watched'' (optional_text (encode_watched_bitfield compress seen1 ids)) state)))))))"

definition with_watch_state ::
  "(8 word list \<Rightarrow> 8 word list) \<Rightarrow> (8 word list \<Rightarrow> 8 word list option) \<Rightarrow> pydict \<Rightarrow> pydict \<Rightarrow> pydict \<Rightarrow> pydict result" where
  "with_watch_state compress decompress item record meta =
     (let watched = truthy (dict_get record ''watched'' (VBool True)); state = item_state item;
          season = get record ''season''; episode = get record ''episode'' in
      and_then (if get record ''watched_at'' = VNone then Inr None
                else and_then (zulu_stamp (get record ''watched_at'')) (\<lambda>s. Inr (Some s))) (\<lambda>stamp.
      and_then (if get record ''content_type'' = VStr ''movie'' \<or> season = VNone \<or> episode = VNone
                then watch_movie watched stamp state
                else watch_episode compress decompress watched stamp season episode meta state) (\<lambda>state1.
        Inr (dict_set ''state'' (VDict state1) item))))"

definition playing_video :: "pydict \<Rightarrow> pydict \<Rightarrow> string \<Rightarrow> string result" where
  "playing_video record meta content_id =
     (if get record ''content_type'' = VStr ''movie'' then Inr content_id
      else if sorted_videos meta = [] then Inr (py_str (py_or (get record ''video_id'') (VStr [])))
      else and_then (item_int record ''season'') (\<lambda>s. and_then (item_int record ''episode'') (\<lambda>e.
        Inr (case matching_video (sorted_videos meta) s e of
               Some v \<Rightarrow> video_id v
             | None \<Rightarrow> py_str (py_or (get record ''video_id'') (VStr []))))))"

definition with_progress_state :: "pydict \<Rightarrow> pydict \<Rightarrow> pydict \<Rightarrow> bool \<Rightarrow> pydict result" where
  "with_progress_state item record meta in_library =
     (case map_of record ''content_id'' of
        None \<Rightarrow> Inl KeyError
      | Some cid \<Rightarrow>
        let item1 = dict_set ''removed'' (VBool False)
              (if truthy (get item ''removed'') \<and> \<not> in_library then dict_set ''temp'' (VBool True) item else item) in
        and_then (item_int record ''position'') (\<lambda>position.
        and_then (item_int record ''duration'') (\<lambda>duration.
        and_then (playing_video record meta (py_str cid)) (\<lambda>vid.
        and_then (if truthy (get record ''last_watched'') then and_then (zulu_stamp (get record ''last_watched'')) (\<lambda>s. Inr (Some s))
                  else Inr None) (\<lambda>stamp.
          let state = dict_set ''video_id'' (VStr vid) (dict_set ''duration'' (VInt duration)
                        (dict_set ''timeOffset'' (VInt position) (item_state item1)))
          in Inr (dict_set ''state'' (VDict (set_watched_at True stamp state)) item1))))))"

section \<open>Bits\<close>

lemma and_bit_mask: "m < 8 \<Longrightarrow> (x AND bit_mask m \<noteq> 0) = bit x m"
  by (simp add: bit_mask_def push_bit_eq_mult and_exp_eq_0_iff_not_bit)

lemma bit_or_mask: "m < 8 \<Longrightarrow> bit (x OR bit_mask j) m \<longleftrightarrow> bit x m \<or> j = m" for x :: "8 word"
  by (auto simp: bit_simps bit_mask_def)

lemma previous_bit_iff: "previous_bit bs n \<longleftrightarrow> n div 8 < length bs \<and> bit (bs ! (n div 8)) (n mod 8)"
  by (auto simp: previous_bit_def and_bit_mask)

lemma previous_bit_set:
  assumes "k div 8 < length bs"
  shows "previous_bit (bs[k div 8 := bs ! (k div 8) OR bit_mask (k mod 8)]) n \<longleftrightarrow> previous_bit bs n \<or> n = k"
proof (cases "n div 8 = k div 8")
  case True
  moreover have "n = k \<longleftrightarrow> k mod 8 = n mod 8" using True by (metis div_mult_mod_eq)
  ultimately show ?thesis using assms by (auto simp: previous_bit_iff bit_or_mask)
next
  case False
  then show ?thesis by (auto simp: previous_bit_iff)
qed

lemma set_marks_bits:
  assumes "set_marks w k vs (bs, l) = (bs', l')" "k + length vs \<le> 8 * length bs"
  shows "length bs' = length bs \<and>
    (\<forall>n. previous_bit bs' n \<longleftrightarrow> previous_bit bs n \<or> (k \<le> n \<and> n < k + length vs \<and> vs ! (n - k) \<in> w)) \<and>
    (if set vs \<inter> w = {} then l' = l
     else k \<le> l' \<and> l' < k + length vs \<and> (\<forall>n. k \<le> n \<and> n < k + length vs \<and> vs ! (n - k) \<in> w \<longrightarrow> n \<le> l'))"
  using assms
proof (induction vs arbitrary: k bs l)
  case Nil
  then show ?case by auto
next
  case (Cons v vs)
  define bs1 where "bs1 = (if v \<in> w then bs[k div 8 := bs ! (k div 8) OR bit_mask (k mod 8)] else bs)"
  define l1 where "l1 = (if v \<in> w then k else l)"
  have run: "set_marks w (Suc k) vs (bs1, l1) = (bs', l')" using Cons.prems(1) by (auto simp: bs1_def l1_def split: if_splits)
  have len: "length bs1 = length bs" by (simp add: bs1_def)
  have "k div 8 < length bs" using Cons.prems(2) by (simp add: less_mult_imp_div_less)
  then have bits: "previous_bit bs1 n \<longleftrightarrow> previous_bit bs n \<or> n = k \<and> v \<in> w" for n
    by (auto simp: bs1_def previous_bit_set)
  note IH = Cons.IH [OF run]
  have cases: "k \<le> n \<and> n < k + length (v # vs) \<and> (v # vs) ! (n - k) \<in> w \<longleftrightarrow>
      n = k \<and> v \<in> w \<or> (Suc k \<le> n \<and> n < Suc k + length vs \<and> vs ! (n - Suc k) \<in> w)" for n
    by (cases "n = k") (auto simp: nth_Cons' Suc_diff_Suc)
  have none: "set vs \<inter> w = {} \<Longrightarrow> Suc k \<le> n \<Longrightarrow> n < Suc (k + length vs) \<Longrightarrow> vs ! (n - Suc k) \<notin> w" for n
  proof -
    assume "set vs \<inter> w = {}" "Suc k \<le> n" "n < Suc (k + length vs)"
    then have "vs ! (n - Suc k) \<in> set vs" by (intro nth_mem) linarith
    with \<open>set vs \<inter> w = {}\<close> show ?thesis by blast
  qed
  show ?case
    unfolding cases using IH Cons.prems(2) len bits none
    by (auto simp: l1_def split: if_splits)
qed

lemma set_marks_fresh:
  assumes "set_marks w 0 ids (replicate ((length ids + 7) div 8) 0, 0) = (bs, l)" "ids \<noteq> []"
  shows "\<forall>n. previous_bit bs n \<longleftrightarrow> n < length ids \<and> ids ! n \<in> w"
    and "l < length ids \<and> (\<forall>n < length ids. ids ! n \<in> w \<longrightarrow> n \<le> l)"
proof -
  have zero: "\<not> previous_bit (replicate m 0) n" for m n by (simp add: previous_bit_iff)
  have size: "0 + length ids \<le> 8 * length (replicate ((length ids + 7) div 8) (0 :: 8 word))" by simp
  note marks = set_marks_bits [OF assms(1) size]
  show "\<forall>n. previous_bit bs n \<longleftrightarrow> n < length ids \<and> ids ! n \<in> w" using marks zero by simp
  show "l < length ids \<and> (\<forall>n < length ids. ids ! n \<in> w \<longrightarrow> n \<le> l)"
  proof (cases "set ids \<inter> w = {}")
    case True
    then have "ids ! n \<notin> w" if "n < length ids" for n using that nth_mem by blast
    with True marks assms(2) show ?thesis by simp
  next
    case False
    with marks show ?thesis by simp
  qed
qed

lemma index_of_nth:
  assumes "distinct (xs @ ids @ ys)" "l < length ids"
  shows "index_of (ids ! l) (xs @ ids @ ys) = Some (length xs + l)"
proof -
  have split: "xs @ ids @ ys = (xs @ take l ids) @ ids ! l # (drop (Suc l) ids @ ys)"
    using assms(2) by (simp add: id_take_nth_drop [symmetric])
  have "ids ! l \<notin> set (take l ids)" using assms by (auto simp: in_set_conv_nth nth_eq_iff_index_eq)
  moreover have "ids ! l \<notin> set xs" using assms nth_mem [of l ids] by auto
  ultimately have "ids ! l \<notin> set (xs @ take l ids)" by simp
  then have "takeWhile ((\<noteq>) (ids ! l)) (xs @ ids @ ys) = xs @ take l ids"
    unfolding split by (subst takeWhile_append2) auto
  with assms(2) show ?thesis by (simp add: index_of_def)
qed

lemma show_nat_no_colon: "CHR '':'' \<notin> set (show_nat n)"
  using show_nat_digits [of n] by (auto simp: list_all_iff is_digit_def)

lemma decode_encode_append:
  assumes zlib: "\<And>b. decompress (compress b) = Some b"
    and ids: "distinct (xs @ ids @ ys)" "ids \<noteq> []"
  shows "decode_watched_bitfield decompress (encode_watched_bitfield compress w ids) (xs @ ids @ ys) = w \<inter> set ids"
proof -
  obtain bs l where bl: "set_marks w 0 ids (replicate ((length ids + 7) div 8) 0, 0) = (bs, l)" by fastforce
  note bits = set_marks_fresh(1) [OF bl ids(2), rule_format] and l = set_marks_fresh(2) [OF bl ids(2)]
  let ?s = "ids ! l @ CHR '':'' # show_nat (l + 1) @ CHR '':'' # b64encode (compress bs)"
  have enc: "encode_watched_bitfield compress w ids = Some ?s"
    using ids(2) bl by (simp add: encode_watched_bitfield_def)
  have anchor: "parse_anchor decompress (xs @ ids @ ys) ?s = Some (int (l + 1), length xs + l, bs)"
    using rsplit3_join [OF show_nat_no_colon b64encode_no_colon, of "ids ! l" "l + 1" "compress bs"] l
    by (simp add: parse_anchor_def index_of_nth [OF ids(1)] zlib b64decode_encode)
  have place: "(let p = int k + (int (l + 1) - 1 - int (length xs + l)) in 0 \<le> p \<and> p < int (l + 1) \<and> previous_bit bs (nat p))
      = (length xs \<le> k \<and> k - length xs \<le> l \<and> previous_bit bs (k - length xs))" for k
    by (cases "length xs \<le> k") (auto simp: Let_def nat_diff_distrib)
  have "decode_watched_bitfield decompress (Some ?s) (xs @ ids @ ys) =
      {v. \<exists>k < length (xs @ ids @ ys). v = (xs @ ids @ ys) ! k \<and> length xs \<le> k \<and> k - length xs \<le> l \<and> previous_bit bs (k - length xs)}"
    unfolding decode_watched_bitfield_def option.case anchor prod.case place
    using ids(2) by (auto simp: in_set_enumerate_eq image_iff intro!: exI)
  also have "\<dots> = w \<inter> set ids"
  proof (intro set_eqI iffI)
    fix v assume "v \<in> {v. \<exists>k < length (xs @ ids @ ys). v = (xs @ ids @ ys) ! k \<and> length xs \<le> k \<and> k - length xs \<le> l \<and> previous_bit bs (k - length xs)}"
    then obtain k where k: "v = (xs @ ids @ ys) ! k" "length xs \<le> k" "previous_bit bs (k - length xs)" by blast
    then have "v = ids ! (k - length xs)" using bits by (simp add: nth_append)
    then show "v \<in> w \<inter> set ids" using k(3) bits by auto
  next
    fix v assume "v \<in> w \<inter> set ids"
    then obtain n where n: "n < length ids" "v = ids ! n" "ids ! n \<in> w" by (auto simp: in_set_conv_nth)
    then show "v \<in> {v. \<exists>k < length (xs @ ids @ ys). v = (xs @ ids @ ys) ! k \<and> length xs \<le> k \<and> k - length xs \<le> l \<and> previous_bit bs (k - length xs)}"
      using l bits by (auto simp: nth_append intro!: exI [of _ "length xs + n"])
  qed
  finally show ?thesis by (simp add: enc)
qed

section \<open>States of an item\<close>

lemma distinct_dict_merge: "distinct (map fst a) \<Longrightarrow> distinct (map fst (dict_merge a b))"
proof (induction b arbitrary: a)
  case (Cons p b)
  then show ?case using distinct_dict_set [of a "fst p" "snd p"] by (simp add: dict_merge_def split_beta)
qed (simp add: dict_merge_def)

lemma get_dict_merge:
  assumes "distinct (map fst b)" "\<And>x. map_of a k = Some x \<Longrightarrow> map_of b k \<noteq> None"
  shows "get (dict_merge a b) k = get b k"
proof -
  have "map_of (rev b) = map_of b" using assms(1) by (subst map_of_inject_set) (simp_all add: rev_map [symmetric])
  with assms(2) show ?thesis
    by (auto simp: get_def dict_get_def map_of_dict_merge map_add_def split: option.splits)
qed

definition full_state :: "pydict \<Rightarrow> bool" where
  "full_state st \<longleftrightarrow> distinct (map fst st) \<and> (\<forall>k x. map_of default_state k = Some x \<longrightarrow> map_of st k \<noteq> None)"

lemma full_item_state: "full_state (item_state item)"
proof -
  have "distinct (map fst (item_state item))"
    unfolding item_state_def by (rule distinct_dict_merge) (simp add: default_state_def)
  then show ?thesis by (auto simp: full_state_def item_state_def map_of_dict_merge map_add_def split: option.splits)
qed

lemma full_state_set: "full_state st \<Longrightarrow> full_state (dict_set k v st)"
  by (simp add: full_state_def distinct_dict_set del: map_of_eq_Some_iff)

lemma get_item_state:
  "full_state st \<Longrightarrow> get (item_state (dict_set ''state'' (VDict st) item)) k = get st k"
  unfolding item_state_def by (simp add: dict_or_empty_def) (rule get_dict_merge, auto simp: full_state_def)

lemma decode_subset: "decode_watched_bitfield decompress b ids \<subseteq> set ids"
  by (auto simp: decode_watched_bitfield_def in_set_enumerate_eq Let_def split: option.splits)

lemma encode_nonempty: "ids \<noteq> [] \<Longrightarrow> \<exists>b. encode_watched_bitfield compress w ids = Some b"
  by (auto simp: encode_watched_bitfield_def split: prod.splits)

text \<open>C36: The watched bitfield of a series survives changes of its episode list: written for a list of
  episodes and read against any list that has further episodes before or after them, it gives
  exactly the watched ones.\<close>

theorem watched_bitfield_survives:
  assumes "\<forall>b. decompress (compress b) = Some b" "distinct (earlier @ ids @ later)" "ids \<noteq> []"
  shows "decode_watched_bitfield decompress (encode_watched_bitfield compress w ids) (earlier @ ids @ later) = w \<inter> set ids"
  using assms by (intro decode_encode_append) auto

lemma watched_bitfield_survives_witness:
  "decode_watched_bitfield Some (encode_watched_bitfield id {''tt1:1:2''} [''tt1:1:1'', ''tt1:1:2'']) [''tt1:0:1'', ''tt1:1:1'', ''tt1:1:2'']
     = {''tt1:1:2''}"
  using watched_bitfield_survives [of Some id "[''tt1:0:1'']" "[''tt1:1:1'', ''tt1:1:2'']" "[]" "{''tt1:1:2''}"] by simp

text \<open>Marking an episode in the library of an account changes the watched set by exactly that
  episode, and of the item nothing but its viewing state, of which only the bitfield and the date
  of the last play.\<close>

lemma with_watch_state_marks_one:
  fixes meta row item :: pydict
  defines "videos \<equiv> sorted_videos meta" and "watched \<equiv> truthy (dict_get row ''watched'' (VBool True))"
  assumes zlib: "\<forall>b. decompress (compress b) = Some b" and distinct: "distinct (map video_id videos)"
    and run: "with_watch_state compress decompress item row meta = Inr item'"
    and kind: "get row ''content_type'' \<noteq> VStr ''movie''" "get row ''season'' \<noteq> VNone" "get row ''episode'' \<noteq> VNone"
    and pos: "to_int (get row ''season'') = Inr s" "to_int (get row ''episode'') = Inr e"
    and match: "matching_video videos s e = Some v"
  shows "\<exists>before after. stored_bits (get (item_state item) ''watched'') = Inr before
    \<and> stored_bits (get (item_state item') ''watched'') = Inr after
    \<and> decode_watched_bitfield decompress after (map video_id videos) =
        (if watched then insert (video_id v) (decode_watched_bitfield decompress before (map video_id videos))
         else decode_watched_bitfield decompress before (map video_id videos) - {video_id v})
    \<and> (\<forall>k. k \<noteq> ''state'' \<longrightarrow> get item' k = get item k)
    \<and> (\<forall>k. k \<notin> {''watched'', ''lastWatched''} \<longrightarrow> get (item_state item') k = get (item_state item) k)"
proof -
  let ?ids = "map video_id videos"
  have v: "v \<in> set videos" "videos \<noteq> []" using match by (auto simp: matching_video_def find_Some_iff in_set_conv_nth)
  obtain stamp state1 where st: "watch_episode compress decompress watched stamp (get row ''season'') (get row ''episode'') meta (item_state item) = Inr state1"
    and item': "item' = dict_set ''state'' (VDict state1) item"
    using run kind by (auto simp: with_watch_state_def Let_def and_then_Inr_iff watched_def)
  then obtain before where before: "stored_bits (get (item_state item) ''watched'') = Inr before"
    and state1: "state1 = set_watched_at watched stamp (dict_set ''watched'' (optional_text (encode_watched_bitfield compress
        (if watched then insert (video_id v) (decode_watched_bitfield decompress before ?ids)
         else decode_watched_bitfield decompress before ?ids - {video_id v}) ?ids)) (item_state item))"
    using v pos match by (auto simp: watch_episode_def Let_def and_then_Inr_iff videos_def)
  define seen where "seen = (if watched then insert (video_id v) (decode_watched_bitfield decompress before ?ids)
         else decode_watched_bitfield decompress before ?ids - {video_id v})"
  obtain b where b: "encode_watched_bitfield compress seen ?ids = Some b" using encode_nonempty v(2) by blast
  have full: "full_state state1"
    by (auto simp: state1 set_watched_at_def intro!: full_state_set full_item_state split: option.split)
  have new: "get (item_state item') k = get state1 k" for k using get_item_state [OF full] by (simp add: item')
  have bits: "get state1 ''watched'' = VStr b"
    by (simp add: state1 set_watched_at_def seen_def [symmetric] b optional_text_def split: option.split)
  have rest: "get state1 k = get (item_state item) k" if "k \<noteq> ''watched''" "k \<noteq> ''lastWatched''" for k
    using that by (simp add: state1 set_watched_at_def split: option.split)
  have "seen \<subseteq> set ?ids" using decode_subset [of decompress before ?ids] v(1) by (auto simp: seen_def)
  then have decoded: "decode_watched_bitfield decompress (Some b) ?ids = seen"
    using decode_encode_append [of decompress compress "[]" ?ids "[]" seen] zlib distinct v(2) b by auto
  have "stored_bits (get (item_state item') ''watched'') = Inr (Some b)" by (simp add: new bits stored_bits_def)
  moreover have "\<forall>k. k \<noteq> ''state'' \<longrightarrow> get item' k = get item k" by (simp add: item')
  moreover have "\<forall>k. k \<notin> {''watched'', ''lastWatched''} \<longrightarrow> get (item_state item') k = get (item_state item) k"
    using new rest by simp
  ultimately show ?thesis using before decoded unfolding seen_def by blast
qed

definition sample_series :: pydict where
  "sample_series = [(''videos'', VList [VDict [(''id'', VStr ''tt1:1:2''), (''season'', VInt 1), (''episode'', VInt 2)],
     VDict [(''id'', VStr ''tt1:1:1''), (''season'', VInt 1), (''episode'', VInt 1)]])]"

definition sample_mark :: pydict where
  "sample_mark = [(''content_id'', VStr ''tt1''), (''content_type'', VStr ''series''), (''season'', VInt 1), (''episode'', VInt 2)]"

lemma sample_mark_run:
  "map video_id (sorted_videos sample_series) = [''tt1:1:1'', ''tt1:1:2''] \<and>
   map_option video_id (matching_video (sorted_videos sample_series) 1 2) = Some ''tt1:1:2'' \<and>
   is_ok (with_watch_state id Some [(''_id'', VStr ''tt1'')] sample_mark sample_series)"
  by code_simp

lemma with_watch_state_marks_one_witness:
  "\<exists>item' after. with_watch_state id Some [(''_id'', VStr ''tt1'')] sample_mark sample_series = Inr item' \<and>
     stored_bits (get (item_state item') ''watched'') = Inr after \<and>
     decode_watched_bitfield Some after [''tt1:1:1'', ''tt1:1:2''] = {''tt1:1:2''}"
proof -
  obtain item' where run: "with_watch_state id Some [(''_id'', VStr ''tt1'')] sample_mark sample_series = Inr item'"
    using sample_mark_run by (auto simp: is_ok_def split: sum.splits)
  obtain v where v: "matching_video (sorted_videos sample_series) 1 2 = Some v" "video_id v = ''tt1:1:2''"
    using sample_mark_run by auto
  have ids: "map video_id (sorted_videos sample_series) = [''tt1:1:1'', ''tt1:1:2'']" using sample_mark_run by simp
  have none: "stored_bits (get (item_state [(''_id'', VStr ''tt1'')]) ''watched'') = Inr None"
    by (simp add: item_state_def dict_merge_def dict_or_empty_def default_state_def stored_bits_def)
  have marked: "truthy (dict_get sample_mark ''watched'' (VBool True))" by (simp add: sample_mark_def dict_get_def)
  have facts: "get sample_mark ''content_type'' \<noteq> VStr ''movie''" "get sample_mark ''season'' \<noteq> VNone"
    "get sample_mark ''episode'' \<noteq> VNone" "to_int (get sample_mark ''season'') = Inr 1" "to_int (get sample_mark ''episode'') = Inr 2"
    by (simp_all add: sample_mark_def to_int_def)
  have empty: "decode_watched_bitfield Some None [''tt1:1:1'', ''tt1:1:2''] = {}" by (simp add: decode_watched_bitfield_def)
  have zlib: "\<forall>b. Some (id b) = Some b" and distinct: "distinct (map video_id (sorted_videos sample_series))"
    by (simp_all add: ids)
  from with_watch_state_marks_one [OF zlib distinct run facts v(1)]
  obtain after where "stored_bits (get (item_state item') ''watched'') = Inr after"
    "decode_watched_bitfield Some after [''tt1:1:1'', ''tt1:1:2''] = {''tt1:1:2''}"
    unfolding ids v(2) none using marked empty by auto
  with run show ?thesis by blast
qed

end
