(* ===== verification/StremioClear.thy ===== *)
theory StremioClear
  imports Stremio
begin

text \<open>
  The client of the Stremio API (\<open>core/stremio.py\<close>): reading replies, the datastore calls and the
  destructive \<open>clear_datastore_data\<close>, which writes in batches and verifies every batch and the final
  state by reading it back.  The service is the argument \<open>service\<close>: it answers a request (a path and
  a JSON body) and changes its own state.  A computation that raises still leaves the service in
  the state the requests before it produced.
\<close>

section \<open>Requests\<close>

datatype stremio_error = StremioAPIError string "int option" | TransportError | Raised py_error

datatype reply = HttpStatus int | NotJson | Json pyval | NoReply

type_synonym 's service = "string \<Rightarrow> pydict \<Rightarrow> 's \<Rightarrow> reply \<times> 's"
type_synonym ('s, 'a) remote = "'s \<Rightarrow> (stremio_error + 'a) \<times> 's"

definition return_remote :: "'a \<Rightarrow> ('s, 'a) remote" where
  "return_remote x s = (Inr x, s)"

definition fail_remote :: "string \<Rightarrow> ('s, 'a) remote" where
  "fail_remote msg s = (Inl (StremioAPIError msg None), s)"

definition bind_remote :: "('s, 'a) remote \<Rightarrow> ('a \<Rightarrow> ('s, 'b) remote) \<Rightarrow> ('s, 'b) remote" where
  "bind_remote m f s = (case m s of (Inl e, s') \<Rightarrow> (Inl e, s') | (Inr x, s') \<Rightarrow> f x s')"

fun each_remote :: "('i \<Rightarrow> 'a \<Rightarrow> ('s, 'a) remote) \<Rightarrow> 'i list \<Rightarrow> 'a \<Rightarrow> ('s, 'a) remote" where
  "each_remote f [] acc = return_remote acc"
| "each_remote f (i # is) acc = bind_remote (f i acc) (each_remote f is)"

definition require :: "bool \<Rightarrow> string \<Rightarrow> ('s, unit) remote" where
  "require ok msg = (if ok then return_remote () else fail_remote msg)"

definition error_code :: "pydict \<Rightarrow> int option" where
  "error_code err = (if get err ''code'' = VNone then None else (case to_int (get err ''code'') of Inl _ \<Rightarrow> None | Inr n \<Rightarrow> Some n))"

definition result_of :: "pyval \<Rightarrow> string \<Rightarrow> ('s, pyval) remote" where
  "result_of payload operation s =
     (case payload of
        VDict d \<Rightarrow>
          (if truthy (get d ''error'') then
             (case get d ''error'' of
                VDict err \<Rightarrow> (Inl (StremioAPIError (''Stremio '' @ operation @ '' failed: ''
                    @ py_str (py_or (get err ''message'') (VStr ''Unknown API error''))) (error_code err)), s)
              | e \<Rightarrow> fail_remote (''Stremio '' @ operation @ '' failed: '' @ py_str e) s)
           else (case map_of d ''result'' of
                   None \<Rightarrow> fail_remote (''Stremio '' @ operation @ '' returned no result'') s
                 | Some v \<Rightarrow> (Inr v, s)))
      | _ \<Rightarrow> fail_remote (''Stremio '' @ operation @ '' returned an invalid response'') s)"

definition json_of :: "reply \<Rightarrow> string \<Rightarrow> ('s, pyval) remote" where
  "json_of r operation s =
     (case r of
        NoReply \<Rightarrow> (Inl TransportError, s)
      | HttpStatus n \<Rightarrow> fail_remote (''Stremio '' @ operation @ '' failed ('' @ show_int n @ '')'') s
      | NotJson \<Rightarrow> fail_remote (''Stremio '' @ operation @ '' returned invalid JSON'') s
      | Json v \<Rightarrow> (Inr v, s))"

definition request_json :: "'s service \<Rightarrow> string \<Rightarrow> pydict \<Rightarrow> string \<Rightarrow> ('s, pyval) remote" where
  "request_json service path body operation s = (case service path body s of (r, s') \<Rightarrow> json_of r operation s')"

definition api_request :: "'s service \<Rightarrow> string \<Rightarrow> pydict \<Rightarrow> string \<Rightarrow> ('s, pyval) remote" where
  "api_request service path body operation =
     bind_remote (request_json service path body operation) (\<lambda>payload. result_of payload operation)"

section \<open>Linking and accounts\<close>

definition create_link_code :: "'s service \<Rightarrow> ('s, pydict) remote" where
  "create_link_code service =
     bind_remote (api_request service ''link/create'' [(''type'', VStr ''Create'')] ''link creation'') (\<lambda>v.
       case v of
         VDict d \<Rightarrow> if list_all (\<lambda>k. truthy (get d k)) [''code'', ''link'', ''qrcode''] then return_remote d
                   else fail_remote ''Stremio link creation returned incomplete data''
       | _ \<Rightarrow> fail_remote ''Stremio link creation returned incomplete data'')"

definition upper :: "string \<Rightarrow> string" where
  "upper s = map (\<lambda>c. let n = of_char c :: nat in if 97 \<le> n \<and> n \<le> 122 then char_of (n - 32) else c) s"

definition read_link_code :: "'s service \<Rightarrow> string \<Rightarrow> ('s, string option) remote" where
  "read_link_code service code s =
     (let normalized = upper (strip code) in
      if normalized = [] then fail_remote ''Stremio link code is required'' s
      else (case request_json service ''link/read'' [(''type'', VStr ''Read''), (''code'', VStr normalized)] ''link authorization'' s of
        (Inl e, s') \<Rightarrow> (Inl e, s')
      | (Inr payload, s') \<Rightarrow>
        (case result_of payload ''link authorization'' s' of
           (Inl (StremioAPIError msg code'), s'') \<Rightarrow> if code' = Some 101 then (Inr None, s'') else (Inl (StremioAPIError msg code'), s'')
         | (Inl e, s'') \<Rightarrow> (Inl e, s'')
         | (Inr v, s'') \<Rightarrow>
           (case v of
              VDict d \<Rightarrow> if truthy (get d ''authKey'') then (Inr (Some (py_str (get d ''authKey''))), s'')
                        else fail_remote ''Stremio link authorization returned no auth key'' s''
            | _ \<Rightarrow> fail_remote ''Stremio link authorization returned no auth key'' s''))))"

definition get_user :: "'s service \<Rightarrow> string \<Rightarrow> ('s, pydict) remote" where
  "get_user service auth =
     bind_remote (api_request service ''getUser'' [(''type'', VStr ''GetUser''), (''authKey'', VStr auth)] ''account validation'') (\<lambda>v.
       case v of
         VDict d \<Rightarrow> if truthy (get d ''_id'') then return_remote d else fail_remote ''Stremio account validation returned incomplete data''
       | _ \<Rightarrow> fail_remote ''Stremio account validation returned incomplete data'')"

definition logout :: "'s service \<Rightarrow> string \<Rightarrow> ('s, unit) remote" where
  "logout service auth =
     bind_remote (api_request service ''logout'' [(''type'', VStr ''Logout''), (''authKey'', VStr auth)] ''logout'') (\<lambda>_. return_remote ())"

definition get_cinemeta_series :: "'s service \<Rightarrow> string \<Rightarrow> ('s, pydict) remote" where
  "get_cinemeta_series service imdb =
     bind_remote (request_json service (''meta/series/'' @ imdb @ ''.json'') [] ''Cinemeta lookup'') (\<lambda>payload.
       case (case payload of VDict d \<Rightarrow> get d ''meta'' | _ \<Rightarrow> VNone) of
         VDict m \<Rightarrow> return_remote m
       | _ \<Rightarrow> fail_remote (''Cinemeta series '' @ imdb @ '' was not found''))"

section \<open>The datastore\<close>

definition datastore_meta :: "'s service \<Rightarrow> string \<Rightarrow> ('s, pyval list list) remote" where
  "datastore_meta service auth =
     bind_remote (api_request service ''datastoreMeta'' [(''authKey'', VStr auth), (''collection'', VStr ''libraryItem'')] ''library metadata pull'') (\<lambda>v.
       case v of
         VList rows \<Rightarrow>
           if list_all (\<lambda>r. case r of VList xs \<Rightarrow> 2 \<le> length xs \<and> truthy (hd xs) | _ \<Rightarrow> False) rows
           then return_remote (List.map_filter as_list rows)
           else fail_remote ''Stremio library metadata pull returned incomplete rows''
       | _ \<Rightarrow> fail_remote ''Stremio library metadata pull returned an invalid collection'')"

definition item_id :: "pydict \<Rightarrow> string" where
  "item_id d = py_str (get d ''_id'')"

definition datastore_get :: "'s service \<Rightarrow> string \<Rightarrow> string list \<Rightarrow> bool \<Rightarrow> bool \<Rightarrow> ('s, pydict list) remote" where
  "datastore_get service auth ids all_items allow_missing =
     bind_remote (api_request service ''datastoreGet'' [(''authKey'', VStr auth), (''collection'', VStr ''libraryItem''),
         (''ids'', VList (map VStr ids)), (''all'', VBool all_items)] ''library pull'') (\<lambda>v.
       case v of
         VList rows \<Rightarrow>
           if \<not> list_all (\<lambda>r. case r of VDict d \<Rightarrow> truthy (get d ''_id'') | _ \<Rightarrow> False) rows
           then fail_remote ''Stremio library pull returned an incomplete collection''
           else
             (let items = List.map_filter as_dict rows in
              if ids \<noteq> [] \<and> \<not> all_items \<and> \<not> allow_missing \<and> \<not> set ids \<subseteq> set (map item_id items)
              then fail_remote ''Stremio incremental pull omitted requested records''
              else return_remote items)
       | _ \<Rightarrow> fail_remote ''Stremio library pull returned an incomplete collection'')"

definition datastore_put :: "'s service \<Rightarrow> string \<Rightarrow> pydict list \<Rightarrow> ('s, unit) remote" where
  "datastore_put service auth changes =
     (if changes = [] then return_remote ()
      else bind_remote (api_request service ''datastorePut'' [(''authKey'', VStr auth), (''collection'', VStr ''libraryItem''),
             (''changes'', VList (map VDict changes))] ''library push'') (\<lambda>v.
        case v of
          VDict d \<Rightarrow> require (get d ''success'' = VBool True) ''Stremio library push was not acknowledged''
        | _ \<Rightarrow> fail_remote ''Stremio library push was not acknowledged''))"

section \<open>Batches\<close>

definition write_batch_size :: nat where
  "write_batch_size = 100"

function batches :: "nat \<Rightarrow> 'a list \<Rightarrow> 'a list list" where
  "batches n xs = (if xs = [] \<or> n = 0 then [] else take n xs # batches n (drop n xs))"
  by pat_completeness auto
termination by (relation "measure (\<lambda>(n, xs). length xs)") auto

declare batches.simps [simp del]

lemma concat_batches: "0 < n \<Longrightarrow> concat (batches n xs) = xs"
  by (induction n xs rule: batches.induct) (subst batches.simps, auto)

section \<open>Clearing\<close>

text \<open>\<open>v in (None, 0, "0")\<close>.\<close>

definition zeroish :: "pyval \<Rightarrow> bool" where
  "zeroish v \<longleftrightarrow> v = VNone \<or> number_of v = Some 0 \<or> v = VStr ''0''"

definition cleared_watched :: "pydict \<Rightarrow> bool" where
  "cleared_watched st \<longleftrightarrow>
     list_all (\<lambda>k. zeroish (get st k)) [''timesWatched'', ''flaggedWatched'', ''timeWatched'', ''overallTimeWatched'']
     \<and> get st ''lastWatched'' = VNone \<and> get st ''watched'' = VNone"

definition cleared_playback :: "pydict \<Rightarrow> bool" where
  "cleared_playback st \<longleftrightarrow> list_all (\<lambda>k. zeroish (get st k)) [''timeOffset'', ''duration''] \<and> get st ''video_id'' = VNone"

type_synonym library = "(string \<times> pydict) list"

definition index_item :: "pydict \<Rightarrow> library \<Rightarrow> ('s, library) remote" where
  "index_item item lib =
     (case get item ''_id'' of
        VStr cid \<Rightarrow>
          if strip cid = [] \<or> map_of lib cid \<noteq> None
          then fail_remote ''Stremio returned a missing or duplicate library id; refusing an unverifiable clear''
          else if get item ''state'' \<noteq> VNone \<and> as_dict (get item ''state'') = None
          then fail_remote ''Stremio returned malformed viewing state; refusing an unsafe clear''
          else return_remote (dict_set cid item lib)
      | _ \<Rightarrow> fail_remote ''Stremio returned a missing or duplicate library id; refusing an unverifiable clear'')"

definition assign_all :: "pydict \<Rightarrow> pydict \<Rightarrow> pydict" where
  "assign_all d new = dict_merge d new"

definition clear_view :: "string \<Rightarrow> bool \<Rightarrow> bool \<Rightarrow> pydict \<Rightarrow> pydict" where
  "clear_view now watched playback item =
     (let st = dict_or_empty (get item ''state'');
          st1 = (if watched then assign_all st [(''lastWatched'', VNone), (''timeWatched'', VInt 0), (''overallTimeWatched'', VInt 0),
                   (''timesWatched'', VInt 0), (''flaggedWatched'', VInt 0), (''watched'', VNone)] else st);
          st2 = (if playback then assign_all st1 [(''timeOffset'', VInt 0), (''video_id'', VNone), (''duration'', VInt 0)] else st1)
      in dict_set ''_mtime'' (VStr now) (dict_set ''state'' (VDict st2) item))"

definition tombstone :: "string \<Rightarrow> pydict \<Rightarrow> pydict" where
  "tombstone now item =
     dict_set ''_mtime'' (VStr now) (dict_set ''temp'' (VBool False) (dict_set ''removed'' (VBool True) item))"

text \<open>The records the service returned under their identifiers.\<close>

definition confirmed_rows :: "pydict list \<Rightarrow> library" where
  "confirmed_rows rows =
     foldl (\<lambda>d r. case get r ''_id'' of VStr cid \<Rightarrow> dict_set cid r d | _ \<Rightarrow> d) [] rows"

definition put_batches :: "'s service \<Rightarrow> string \<Rightarrow> pydict list \<Rightarrow> ('s, unit) remote" where
  "put_batches service auth changes =
     each_remote (\<lambda>b _. datastore_put service auth b) (batches write_batch_size changes) ()"

definition check_view :: "bool \<Rightarrow> bool \<Rightarrow> pydict option \<Rightarrow> ('s, pydict) remote" where
  "check_view watched playback found =
     (case found of
        None \<Rightarrow> fail_remote ''Stremio did not confirm cleared viewing data''
      | Some item \<Rightarrow>
        (case get item ''state'' of
           VDict st \<Rightarrow>
             if watched \<and> \<not> cleared_watched st then fail_remote ''Stremio did not confirm watched-history removal''
             else if playback \<and> \<not> cleared_playback st then fail_remote ''Stremio did not confirm playback removal''
             else return_remote item
         | _ \<Rightarrow> fail_remote ''Stremio did not confirm cleared viewing data''))"

definition confirm_view_batch :: "'s service \<Rightarrow> string \<Rightarrow> bool \<Rightarrow> bool \<Rightarrow> string list \<Rightarrow> library \<Rightarrow> ('s, library) remote" where
  "confirm_view_batch service auth watched playback ids changes =
     bind_remote (datastore_get service auth ids False True) (\<lambda>rows.
       each_remote (\<lambda>cid ch. bind_remote (check_view watched playback (map_of (confirmed_rows rows) cid)) (\<lambda>item.
         return_remote (dict_set cid item ch))) ids changes)"

definition clear_views :: "'s service \<Rightarrow> string \<Rightarrow> string \<Rightarrow> bool \<Rightarrow> bool \<Rightarrow> library \<Rightarrow> ('s, library) remote" where
  "clear_views service auth now watched playback lib =
     (if \<not> watched \<and> \<not> playback then return_remote []
      else
        (let changes = map (\<lambda>(cid, item). (cid, clear_view now watched playback item)) lib in
         bind_remote (put_batches service auth (map snd changes)) (\<lambda>_.
           each_remote (confirm_view_batch service auth watched playback) (batches write_batch_size (map fst changes)) changes)))"

definition confirm_tombstones :: "'s service \<Rightarrow> string \<Rightarrow> string list \<Rightarrow> unit \<Rightarrow> ('s, unit) remote" where
  "confirm_tombstones service auth ids _ =
     bind_remote (datastore_get service auth ids False True) (\<lambda>rows.
       require (list_all (\<lambda>cid. case map_of (confirmed_rows rows) cid of None \<Rightarrow> True
           | Some item \<Rightarrow> truthy (get item ''removed'') \<and> \<not> truthy (get item ''temp'')) ids)
         ''Stremio did not confirm collection removal'')"

definition clear_collection :: "'s service \<Rightarrow> string \<Rightarrow> string \<Rightarrow> library \<Rightarrow> ('s, unit) remote" where
  "clear_collection service auth now lib =
     (let changes = map (\<lambda>(cid, item). (cid, tombstone now item)) lib in
      bind_remote (put_batches service auth (map snd changes)) (\<lambda>_.
        each_remote (confirm_tombstones service auth) (batches write_batch_size (map fst changes)) ()))"

text \<open>What the last full read must show of every record.\<close>

definition cleared_item :: "bool \<Rightarrow> bool \<Rightarrow> bool \<Rightarrow> pydict \<Rightarrow> bool" where
  "cleared_item collection watched playback item \<longleftrightarrow>
     (\<exists>cid. get item ''_id'' = VStr cid \<and> strip cid \<noteq> [])
     \<and> (collection \<longrightarrow> truthy (get item ''removed''))
     \<and> ((watched \<or> playback) \<longrightarrow> get item ''state'' = VNone \<or> as_dict (get item ''state'') \<noteq> None)
     \<and> (watched \<longrightarrow> cleared_watched (dict_or_empty (get item ''state'')))
     \<and> (playback \<longrightarrow> cleared_playback (dict_or_empty (get item ''state'')))"

definition has_text_id :: "pydict \<Rightarrow> bool" where
  "has_text_id item \<longleftrightarrow> (case get item ''_id'' of VStr cid \<Rightarrow> strip cid \<noteq> [] | _ \<Rightarrow> False)"

definition verify_item :: "bool \<Rightarrow> bool \<Rightarrow> bool \<Rightarrow> pydict \<Rightarrow> unit \<Rightarrow> ('s, unit) remote" where
  "verify_item collection watched playback item _ =
     (let st = dict_or_empty (get item ''state'') in
      if \<not> has_text_id item then fail_remote ''Stremio returned malformed data during clear verification''
      else if collection \<and> \<not> truthy (get item ''removed'') then fail_remote ''Stremio did not confirm collection removal''
      else if (watched \<or> playback) \<and> get item ''state'' \<noteq> VNone \<and> as_dict (get item ''state'') = None
      then fail_remote ''Stremio returned malformed viewing state during clear verification''
      else if watched \<and> \<not> cleared_watched st then fail_remote ''Stremio did not confirm watched-history removal''
      else if playback \<and> \<not> cleared_playback st then fail_remote ''Stremio did not confirm playback removal''
      else return_remote ())"

record clear_counts =
  cn_collection :: nat
  cn_watched :: nat
  cn_playback :: nat

text \<open>Everything after the first full read.\<close>

definition clear_items ::
  "'s service \<Rightarrow> string \<Rightarrow> string \<Rightarrow> bool \<Rightarrow> bool \<Rightarrow> bool \<Rightarrow> pydict list \<Rightarrow> ('s, clear_counts) remote" where
  "clear_items service now auth collection watched playback remote_items =
     bind_remote (each_remote index_item remote_items []) (\<lambda>lib.
     bind_remote (clear_views service auth now watched playback lib) (\<lambda>changes.
     bind_remote (if collection then clear_collection service auth now (if changes = [] then lib else changes) else return_remote ()) (\<lambda>_.
     bind_remote (datastore_get service auth [] True False) (\<lambda>remaining.
     bind_remote (each_remote (verify_item collection watched playback) remaining ()) (\<lambda>_.
       return_remote \<lparr>cn_collection = (if collection then length remote_items else 0),
         cn_watched = (if watched then length remote_items else 0),
         cn_playback = (if playback then length remote_items else 0)\<rparr>)))))"

definition clear_datastore_data ::
  "'s service \<Rightarrow> string \<Rightarrow> string \<Rightarrow> bool \<Rightarrow> bool \<Rightarrow> bool \<Rightarrow> ('s, clear_counts) remote" where
  "clear_datastore_data service now auth collection watched playback =
     bind_remote (require (collection \<or> watched \<or> playback) ''Select at least one Stremio data category to clear'') (\<lambda>_.
     bind_remote (datastore_get service auth [] True False)
       (clear_items service now auth collection watched playback))"

section \<open>A successful clear is a verified one\<close>

lemma bind_remote_Inr: "bind_remote m f s = (Inr y, s') \<longleftrightarrow> (\<exists>x s1. m s = (Inr x, s1) \<and> f x s1 = (Inr y, s'))"
  by (auto simp: bind_remote_def split: prod.splits sum.splits)

lemma remote_simps [simp]:
  "return_remote x s = (r, s') \<longleftrightarrow> r = Inr x \<and> s' = s" "fail_remote msg s \<noteq> (Inr y, s')"
  "require ok msg s = (Inr u, s') \<longleftrightarrow> ok \<and> s' = s"
  by (auto simp: return_remote_def fail_remote_def require_def)

lemma verify_item_ok:
  "verify_item collection watched playback item u s = (Inr v, s') \<Longrightarrow> s' = s \<and> cleared_item collection watched playback item"
  by (auto simp: verify_item_def Let_def cleared_item_def has_text_id_def split: if_splits pyval.splits)

lemma verify_all_ok:
  "each_remote (verify_item collection watched playback) items u s = (Inr v, s') \<Longrightarrow>
   s' = s \<and> (\<forall>item \<in> set items. cleared_item collection watched playback item)"
  by (induction items arbitrary: u) (auto simp: bind_remote_Inr dest: verify_item_ok)

text \<open>C21: When clearing an account reports success, at least one category was asked for and the very
  last request was a full read of the account in which every record shows the selected categories
  as cleared: nothing that was added meanwhile is claimed to be gone.\<close>

theorem clear_datastore_data_verified:
  assumes "clear_datastore_data service now auth collection watched playback s = (Inr counts, s')"
  shows "(collection \<or> watched \<or> playback) \<and>
    (\<exists>s1 items. datastore_get service auth [] True False s1 = (Inr items, s') \<and>
       (\<forall>item \<in> set items. cleared_item collection watched playback item))"
proof -
  obtain remaining s1 s2 v where "collection \<or> watched \<or> playback"
    and "datastore_get service auth [] True False s1 = (Inr remaining, s2)"
    and verify: "each_remote (verify_item collection watched playback) remaining () s2 = (Inr v, s')"
    using assms unfolding clear_datastore_data_def clear_items_def bind_remote_Inr by auto
  with verify_all_ok [OF verify] show ?thesis by blast
qed

section \<open>What a clear writes\<close>

text \<open>A service that notes every request.\<close>

definition logged :: "'s service \<Rightarrow> ('s \<times> (string \<times> pydict) list) service" where
  "logged service path body st =
     (case st of (s, log1) \<Rightarrow> case service path body s of (r, s') \<Rightarrow> (r, (s', log1 @ [(path, body)])))"

definition emits :: "(string \<times> pydict \<Rightarrow> bool) \<Rightarrow> ('s \<times> (string \<times> pydict) list, 'a) remote \<Rightarrow> bool" where
  "emits P m \<longleftrightarrow> (\<forall>s log1 r s' log2. m (s, log1) = (r, (s', log2)) \<longrightarrow> (\<exists>new. log2 = log1 @ new \<and> (\<forall>q \<in> set new. P q)))"

lemma emits_pure [intro]: "emits P (return_remote x)" "emits P (fail_remote msg)" "emits P (require ok msg)"
  by (auto simp: emits_def fail_remote_def require_def)

lemma emits_bind_Inr:
  assumes "emits P m" "\<And>s x s'. m s = (Inr x, s') \<Longrightarrow> emits P (f x)" shows "emits P (bind_remote m f)"
  unfolding emits_def
proof (intro allI impI)
  fix s log1 r s' log2 assume run: "bind_remote m f (s, log1) = (r, (s', log2))"
  obtain q s1 log3 where m: "m (s, log1) = (q, (s1, log3))" by (metis prod.exhaust)
  then obtain new where new: "log3 = log1 @ new" "\<forall>q \<in> set new. P q" using assms(1) unfolding emits_def by blast
  show "\<exists>new. log2 = log1 @ new \<and> (\<forall>q \<in> set new. P q)"
  proof (cases q)
    case (Inl e)
    then show ?thesis using run m new by (auto simp: bind_remote_def)
  next
    case (Inr x)
    then have "f x (s1, log3) = (r, (s', log2))" using run m by (simp add: bind_remote_def)
    moreover have "emits P (f x)" using assms(2) m Inr by blast
    ultimately obtain new' where "log2 = log3 @ new'" "\<forall>q \<in> set new'. P q" unfolding emits_def by blast
    with new show ?thesis by (intro exI [of _ "new @ new'"]) auto
  qed
qed

lemma emits_bind [intro]: "emits P m \<Longrightarrow> (\<And>x. emits P (f x)) \<Longrightarrow> emits P (bind_remote m f)"
  by (rule emits_bind_Inr)

lemma emits_each: "(\<And>i acc. i \<in> set is \<Longrightarrow> emits P (f i acc)) \<Longrightarrow> emits P (each_remote f is acc)"
  by (induction "is" arbitrary: acc) auto

lemma emits_request:
  "P (path, body) \<Longrightarrow> emits P (api_request (logged service) path body operation)"
proof -
  assume P: "P (path, body)"
  have "emits P (request_json (logged service) path body operation)"
    using P by (auto simp: emits_def request_json_def logged_def json_of_def fail_remote_def split: prod.splits reply.splits)
  moreover have "emits P (result_of payload operation)" for payload
    by (auto simp: emits_def result_of_def fail_remote_def split: pyval.splits option.splits if_splits)
  ultimately show ?thesis unfolding api_request_def by (rule emits_bind)
qed

lemma emits_datastore_get:
  assumes "\<And>body. P (''datastoreGet'', body)"
  shows "emits P (datastore_get (logged service) auth ids all_items allow_missing)"
  unfolding datastore_get_def
  by (rule emits_bind [OF emits_request]) (auto simp: assms Let_def split: pyval.splits)

lemma emits_datastore_put:
  assumes "\<And>auth. P (''datastorePut'', [(''authKey'', VStr auth), (''collection'', VStr ''libraryItem''), (''changes'', VList (map VDict changes))])"
  shows "emits P (datastore_put (logged service) auth changes)"
  unfolding datastore_put_def
  by (cases "changes = []") (auto intro!: emits_bind [OF emits_request] simp: assms split: pyval.splits)

lemma batches_subset: "b \<in> set (batches n xs) \<Longrightarrow> set b \<subseteq> set xs \<and> length b \<le> n"
proof (induction n xs rule: batches.induct)
  case (1 n xs)
  then show ?case
    by (subst (asm) (2) batches.simps) (auto split: if_splits dest: in_set_takeD in_set_dropD)
qed

definition view_fields :: "bool \<Rightarrow> bool \<Rightarrow> string set" where
  "view_fields watched playback =
     (if watched then {''lastWatched'', ''timeWatched'', ''overallTimeWatched'', ''timesWatched'', ''flaggedWatched'', ''watched''} else {})
     \<union> (if playback then {''timeOffset'', ''video_id'', ''duration''} else {})"

text \<open>A record written back is one that was read, with nothing changed but its stamp and the selected
  fields of its viewing state.\<close>

definition same_but_views :: "bool \<Rightarrow> bool \<Rightarrow> pydict \<Rightarrow> pydict \<Rightarrow> bool" where
  "same_but_views watched playback item item' \<longleftrightarrow>
     (\<forall>k. k \<notin> {''state'', ''_mtime''} \<longrightarrow> get item' k = get item k)
     \<and> (\<forall>k. k \<notin> view_fields watched playback \<longrightarrow>
          get (dict_or_empty (get item' ''state'')) k = get (dict_or_empty (get item ''state'')) k)"

lemma get_assign_other: "k \<notin> fst ` set new \<Longrightarrow> get (assign_all d new) k = get d k"
proof -
  assume "k \<notin> fst ` set new"
  then have "map_of (rev new) k = None" by (simp add: map_of_eq_None_iff)
  then show ?thesis by (simp add: assign_all_def get_def dict_get_def map_of_dict_merge map_add_def)
qed

lemma clear_view_same: "same_but_views watched playback item (clear_view now watched playback item)"
  by (auto simp: same_but_views_def clear_view_def Let_def dict_or_empty_def get_assign_other view_fields_def)

definition view_write :: "bool \<Rightarrow> bool \<Rightarrow> pydict list \<Rightarrow> string \<times> pydict \<Rightarrow> bool" where
  "view_write watched playback items q \<longleftrightarrow>
     (fst q = ''datastorePut'' \<longrightarrow>
       (\<exists>cs. get (snd q) ''changes'' = VList (map VDict cs) \<and> length cs \<le> 100
          \<and> (\<forall>c \<in> set cs. \<exists>item \<in> set items. same_but_views watched playback item c)))"

lemma emits_view_put:
  assumes "\<forall>c \<in> set changes. \<exists>item \<in> set items. same_but_views watched playback item c"
  shows "emits (view_write watched playback items) (put_batches (logged service) auth changes)"
  unfolding put_batches_def
proof (rule emits_each, rule emits_datastore_put)
  fix b acc auth1 assume "b \<in> set (batches write_batch_size changes)"
  then show "view_write watched playback items (''datastorePut'',
      [(''authKey'', VStr auth1), (''collection'', VStr ''libraryItem''), (''changes'', VList (map VDict b))])"
    using batches_subset assms unfolding view_write_def write_batch_size_def by fastforce
qed

lemma emits_view_get: "emits (view_write watched playback items) (datastore_get (logged service) auth ids all_items allow_missing)"
  by (rule emits_datastore_get) (simp add: view_write_def)

lemma emits_clear_views:
  assumes "snd ` set lib \<subseteq> set items"
  shows "emits (view_write watched playback items) (clear_views (logged service) auth now watched playback lib)"
proof -
  have "\<forall>c \<in> set (map snd (map (\<lambda>(cid, item). (cid, clear_view now watched playback item)) lib)).
      \<exists>item \<in> set items. same_but_views watched playback item c"
    using assms clear_view_same by (fastforce simp: image_iff)
  note put = emits_view_put [OF this]
  have "emits P (check_view watched playback found)" for P found
    by (auto simp: check_view_def split: option.splits pyval.splits)
  then show ?thesis
    unfolding clear_views_def Let_def confirm_view_batch_def
    by (cases "\<not> watched \<and> \<not> playback", simp add: emits_pure)
      (simp only: if_False, intro emits_bind put emits_each emits_view_get emits_pure, assumption)
qed

lemma index_item_items:
  "each_remote index_item items lib s = (Inr lib', s') \<Longrightarrow> snd ` set lib' \<subseteq> snd ` set lib \<union> set items"
proof (induction items arbitrary: lib s)
  case (Cons item items)
  then obtain lib1 s1 where "index_item item lib s = (Inr lib1, s1)" "each_remote index_item items lib1 s1 = (Inr lib', s')"
    by (auto simp: bind_remote_Inr)
  moreover from this(1) obtain cid where "lib1 = dict_set cid item lib"
    by (auto simp: index_item_def split: pyval.splits if_splits)
  then have "snd ` set lib1 \<subseteq> insert item (snd ` set lib)" using set_dict_set_subset [of cid item lib] by auto
  moreover have "snd ` set lib' \<subseteq> snd ` set lib1 \<union> set items" using Cons.IH calculation(2) by blast
  ultimately have "snd ` set lib' \<subseteq> insert item (snd ` set lib) \<union> set items" by blast
  then show ?case by (simp add: subset_iff)
qed simp

text \<open>Noting requests changes no answer.\<close>

definition mirrors :: "('s \<times> (string \<times> pydict) list, 'a) remote \<Rightarrow> ('s, 'a) remote \<Rightarrow> bool" where
  "mirrors m m' \<longleftrightarrow> (\<forall>s log1. fst (m (s, log1)) = fst (m' s) \<and> fst (snd (m (s, log1))) = snd (m' s))"

lemma mirrors_pure: "mirrors (return_remote x) (return_remote x)" "mirrors (fail_remote msg) (fail_remote msg)"
  "mirrors (result_of payload operation) (result_of payload operation)"
  by (auto simp: mirrors_def fail_remote_def return_remote_def result_of_def split: pyval.splits option.splits)

lemma mirrors_bind: "mirrors m m' \<Longrightarrow> (\<And>x. mirrors (f x) (f' x)) \<Longrightarrow> mirrors (bind_remote m f) (bind_remote m' f')"
  unfolding mirrors_def
proof (intro allI)
  fix s log1
  assume m: "\<forall>s log1. fst (m (s, log1)) = fst (m' s) \<and> fst (snd (m (s, log1))) = snd (m' s)"
    and f: "\<And>x. \<forall>s log1. fst (f x (s, log1)) = fst (f' x s) \<and> fst (snd (f x (s, log1))) = snd (f' x s)"
  obtain q s1 log2 where run: "m (s, log1) = (q, (s1, log2))" by (metis prod.exhaust)
  then have "m' s = (q, s1)" using m [rule_format, of s log1] by (simp add: prod_eq_iff)
  then show "fst (bind_remote m f (s, log1)) = fst (bind_remote m' f' s) \<and>
      fst (snd (bind_remote m f (s, log1))) = snd (bind_remote m' f' s)"
    using run f by (cases q) (simp_all add: bind_remote_def)
qed

lemma mirrors_api_request: "mirrors (api_request (logged service) path body operation) (api_request service path body operation)"
  unfolding api_request_def
proof (rule mirrors_bind)
  show "mirrors (request_json (logged service) path body operation) (request_json service path body operation)"
    by (auto simp: mirrors_def request_json_def logged_def json_of_def fail_remote_def split: prod.splits reply.splits)
qed (rule mirrors_pure)

lemma mirrors_datastore_get:
  "mirrors (datastore_get (logged service) auth ids all_items allow_missing) (datastore_get service auth ids all_items allow_missing)"
  unfolding datastore_get_def
  by (rule mirrors_bind [OF mirrors_api_request]) (auto simp: Let_def intro: mirrors_pure split: pyval.split)

text \<open>Clearing viewing data without the library itself writes nothing but batches of at most a hundred
  records that the first read of the account returned, each with nothing changed but its
  modification stamp and the selected viewing fields; and it does so even when it fails half-way.\<close>

lemma clear_writes_only_views:
  assumes "clear_datastore_data (logged service) now auth False watched playback (s, []) = (r, (s', log1))"
    and "(''datastorePut'', body) \<in> set log1"
  shows "\<exists>items cs s1. datastore_get service auth [] True False s = (Inr items, s1)
    \<and> get body ''changes'' = VList (map VDict cs) \<and> length cs \<le> 100
    \<and> (\<forall>c \<in> set cs. \<exists>item \<in> set items. same_but_views watched playback item c)"
proof -
  let ?get = "datastore_get (logged service) auth [] True False" and ?rest = "clear_items (logged service) now auth False watched playback"
  have sel: "watched \<or> playback"
    using assms by (auto simp: clear_datastore_data_def bind_remote_def require_def fail_remote_def split: if_splits)
  then have run: "bind_remote ?get ?rest (s, []) = (r, (s', log1))"
    using assms(1) by (simp add: clear_datastore_data_def bind_remote_def require_def return_remote_def)
  obtain q s1 log2 where g: "?get (s, []) = (q, (s1, log2))" by (metis prod.exhaust)
  have mirror: "datastore_get service auth [] True False s = (q, s1)"
    using mirrors_datastore_get [of service auth "[]" True False] g unfolding mirrors_def
    by (metis fst_conv prod.collapse snd_conv)
  have no_put: "(''datastorePut'', b) \<notin> set log2" for b
  proof -
    have "emits (\<lambda>q. fst q \<noteq> ''datastorePut'') ?get" by (rule emits_datastore_get) simp
    with g show ?thesis unfolding emits_def by fastforce
  qed
  obtain items where items: "q = Inr items" "?rest items (s1, log2) = (r, (s', log1))"
    using run g assms(2) no_put by (cases q) (auto simp: bind_remote_def)
  have "emits (view_write watched playback items) (?rest items)"
    unfolding clear_items_def if_False
  proof (rule emits_bind_Inr)
    show "emits (view_write watched playback items) (each_remote index_item items [])"
      by (rule emits_each) (auto simp: index_item_def split: pyval.splits)
    fix st lib st' assume "each_remote index_item items [] st = (Inr lib, st')"
    then have "snd ` set lib \<subseteq> set items" using index_item_items by fastforce
    moreover have "emits P (verify_item False watched playback item u)" for P item u
      by (auto simp: verify_item_def Let_def)
    ultimately show "emits (view_write watched playback items)
      (bind_remote (clear_views (logged service) auth now watched playback lib) (\<lambda>changes.
       bind_remote (return_remote ()) (\<lambda>_ :: unit. bind_remote ?get (\<lambda>remaining.
       bind_remote (each_remote (verify_item False watched playback) remaining ()) (\<lambda>_.
         return_remote \<lparr>cn_collection = 0, cn_watched = (if watched then length items else 0),
           cn_playback = (if playback then length items else 0)\<rparr>)))))"
      by (intro emits_bind emits_clear_views emits_pure emits_view_get emits_each)
  qed
  then obtain new where "log1 = log2 @ new" "\<forall>q \<in> set new. view_write watched playback items q"
    using items(2) unfolding emits_def by blast
  then have "view_write watched playback items (''datastorePut'', body)" using assms(2) no_put by auto
  then show ?thesis using mirror items(1) unfolding view_write_def by auto
qed

section \<open>How many requests a clear makes\<close>

definition costs :: "nat \<Rightarrow> ('s \<times> (string \<times> pydict) list, 'a) remote \<Rightarrow> bool" where
  "costs n m \<longleftrightarrow> (\<forall>s log1 r s' log2. m (s, log1) = (r, (s', log2)) \<longrightarrow> length log2 \<le> length log1 + n)"

lemma costs_pure: "costs n (return_remote x)" "costs n (fail_remote msg)" "costs n (require ok msg)"
  by (auto simp: costs_def return_remote_def fail_remote_def require_def)

lemma costs_bind_Inr:
  assumes "costs a m" "\<And>s x s'. m s = (Inr x, s') \<Longrightarrow> costs b (f x)" shows "costs (a + b) (bind_remote m f)"
  unfolding costs_def
proof (intro allI impI)
  fix s log1 r s' log2 assume run: "bind_remote m f (s, log1) = (r, (s', log2))"
  obtain q s1 log3 where m: "m (s, log1) = (q, (s1, log3))" by (metis prod.exhaust)
  then have len: "length log3 \<le> length log1 + a" using assms(1) unfolding costs_def by blast
  show "length log2 \<le> length log1 + (a + b)"
  proof (cases q)
    case (Inl e)
    then show ?thesis using run m len by (auto simp: bind_remote_def)
  next
    case (Inr x)
    then have "f x (s1, log3) = (r, (s', log2))" using run m by (simp add: bind_remote_def)
    moreover have "costs b (f x)" using assms(2) m Inr by blast
    ultimately have "length log2 \<le> length log3 + b" unfolding costs_def by blast
    with len show ?thesis by simp
  qed
qed

lemma costs_bind: "costs a m \<Longrightarrow> (\<And>x. costs b (f x)) \<Longrightarrow> costs (a + b) (bind_remote m f)"
  by (rule costs_bind_Inr)

lemma costs_mono: "costs a m \<Longrightarrow> a \<le> b \<Longrightarrow> costs b m"
  by (fastforce simp: costs_def)

lemma costs_each: "(\<And>i acc. costs n (f i acc)) \<Longrightarrow> costs (n * length is) (each_remote f is acc)"
proof (induction "is" arbitrary: acc)
  case Nil
  then show ?case by (simp add: costs_pure)
next
  case (Cons i "is")
  show ?case using costs_bind [OF Cons.prems Cons.IH [OF Cons.prems]] by simp
qed

lemma costs_each_free: "(\<And>i acc. costs 0 (f i acc)) \<Longrightarrow> costs 0 (each_remote f is acc)"
  using costs_each [of 0 f "is" acc] by simp

lemma costs_request: "costs 1 (api_request (logged service) path body operation)"
proof -
  have "costs 1 (request_json (logged service) path body operation)"
    by (auto simp: costs_def request_json_def logged_def json_of_def fail_remote_def split: prod.splits reply.splits)
  moreover have "costs 0 (result_of payload operation)" for payload
    by (auto simp: costs_def result_of_def fail_remote_def split: pyval.splits option.splits if_splits)
  ultimately show ?thesis unfolding api_request_def using costs_bind [of 1 _ 0] by fastforce
qed

lemma costs_then_pure: "costs 1 m \<Longrightarrow> (\<And>x. costs 0 (f x)) \<Longrightarrow> costs 1 (bind_remote m f)"
  using costs_bind [of 1 m 0 f] by simp

lemma costs_datastore_get: "costs 1 (datastore_get (logged service) auth ids all_items allow_missing)"
  unfolding datastore_get_def
  by (rule costs_then_pure [OF costs_request]) (auto simp: Let_def costs_pure split: pyval.splits)

lemma costs_datastore_put: "costs 1 (datastore_put (logged service) auth changes)"
  unfolding datastore_put_def
  by (cases "changes = []")
    (auto intro!: costs_then_pure [OF costs_request] simp: costs_pure simp del: One_nat_def split: pyval.splits)

definition batch_count :: "nat \<Rightarrow> nat" where
  "batch_count n = (n + 99) div 100"

lemma length_batches: "length (batches 100 xs) = batch_count (length xs)"
proof (induction "100 :: nat" xs rule: batches.induct)
  case (1 xs)
  show ?case
  proof (cases "xs = []")
    case True
    then show ?thesis by (simp add: batches.simps batch_count_def)
  next
    case False
    have "(n + 99) div 100 = Suc ((n - 100 + 99) div 100)" if "0 < n" for n :: nat
    proof (cases "n \<le> 100")
      case True
      then have "(n + 99) div 100 = 1" using that by (intro div_nat_eqI) auto
      with True show ?thesis by simp
    next
      case False
      then obtain m where "n = m + 100" by (metis add.commute le_add_diff_inverse nat_le_linear)
      then show ?thesis by simp
    qed
    then have "(length xs + 99) div 100 = Suc ((length xs - 100 + 99) div 100)" using False by simp
    with False 1 show ?thesis by (subst batches.simps) (simp add: batch_count_def)
  qed
qed

lemma costs_put_batches: "costs (batch_count (length changes)) (put_batches (logged service) auth changes)"
  unfolding put_batches_def write_batch_size_def
  using costs_each [where n = 1 and f = "\<lambda>b _. datastore_put (logged service) auth b", OF costs_datastore_put,
      of "batches 100 changes" "()"]
  by (simp add: length_batches)

lemma costs_confirm:
  "costs 1 (confirm_view_batch (logged service) auth watched playback ids changes)"
  "costs 1 (confirm_tombstones (logged service) auth ids u)"
proof -
  have check: "costs 0 (check_view watched playback found)" for found
    by (auto simp: check_view_def costs_pure split: option.splits pyval.splits)
  have one: "costs 0 (bind_remote (check_view watched playback found) (\<lambda>item. return_remote (dict_set cid item ch)))" for found cid ch
    using costs_bind [OF check costs_pure(1), where b = 0] by simp
  have "costs 0 (each_remote (\<lambda>cid ch. bind_remote (check_view watched playback (found cid)) (\<lambda>item.
         return_remote (dict_set cid item ch))) ids changes)" for found
    using one by (rule costs_each_free)
  then show "costs 1 (confirm_view_batch (logged service) auth watched playback ids changes)"
    unfolding confirm_view_batch_def by (intro costs_then_pure [OF costs_datastore_get])
  show "costs 1 (confirm_tombstones (logged service) auth ids u)"
    unfolding confirm_tombstones_def by (intro costs_then_pure [OF costs_datastore_get] costs_pure)
qed

lemma index_item_length: "each_remote index_item items lib s = (Inr lib', s') \<Longrightarrow> length lib' \<le> length lib + length items"
proof (induction items arbitrary: lib s)
  case (Cons item items)
  then obtain lib1 s1 where "index_item item lib s = (Inr lib1, s1)" and rest: "each_remote index_item items lib1 s1 = (Inr lib', s')"
    by (auto simp: bind_remote_Inr)
  from this(1) obtain cid where "lib1 = dict_set cid item lib"
    by (auto simp: index_item_def split: pyval.splits if_splits)
  then have "map fst lib1 = (if cid \<in> fst ` set lib then map fst lib else map fst lib @ [cid])" by (simp add: update_keys)
  then have "length lib1 \<le> Suc (length lib)" by (metis length_append_singleton length_map le_SucI order_refl)
  with Cons.IH [OF rest] show ?case by simp
qed simp

lemma confirmed_batch_keys:
  "each_remote (\<lambda>cid ch. bind_remote (check_view watched playback (found cid)) (\<lambda>item. return_remote (dict_set cid item ch))) ids ch s
     = (Inr ch', s') \<Longrightarrow> set ids \<subseteq> fst ` set ch \<Longrightarrow> map fst ch' = map fst ch"
proof (induction ids arbitrary: ch s)
  case (Cons cid ids)
  then obtain item s1 where run: "each_remote (\<lambda>cid ch. bind_remote (check_view watched playback (found cid)) (\<lambda>item.
      return_remote (dict_set cid item ch))) ids (dict_set cid item ch) s1 = (Inr ch', s')" by (auto simp: bind_remote_Inr)
  have "set ids \<subseteq> fst ` set (dict_set cid item ch)" using Cons.prems(2) by (auto simp: keys_dict_set)
  from Cons.IH [OF run this] show ?case using Cons.prems(2) by (simp add: update_keys)
qed simp

lemma confirmed_keys:
  "each_remote (confirm_view_batch service auth watched playback) idss ch s = (Inr ch', s') \<Longrightarrow>
   \<forall>ids \<in> set idss. set ids \<subseteq> fst ` set ch \<Longrightarrow> map fst ch' = map fst ch"
proof (induction idss arbitrary: ch s)
  case (Cons ids idss)
  then obtain ch1 s1 where c: "confirm_view_batch service auth watched playback ids ch s = (Inr ch1, s1)"
    "each_remote (confirm_view_batch service auth watched playback) idss ch1 s1 = (Inr ch', s')" by (auto simp: bind_remote_Inr)
  then have one: "map fst ch1 = map fst ch"
    using Cons.prems(2) confirmed_batch_keys unfolding confirm_view_batch_def bind_remote_Inr by fastforce
  moreover have "fst ` set ch1 = fst ` set ch" using one by (metis list.set_map)
  ultimately show ?case using Cons.IH [OF c(2)] Cons.prems(2) by simp
qed simp

lemma clear_views_length:
  assumes "clear_views service auth now watched playback lib s = (Inr ch, s')"
  shows "length ch \<le> length lib"
proof (cases "\<not> watched \<and> \<not> playback")
  case True
  then show ?thesis using assms by (simp add: clear_views_def)
next
  case False
  let ?changes = "map (\<lambda>(cid, item). (cid, clear_view now watched playback item)) lib"
  obtain s1 where "each_remote (confirm_view_batch service auth watched playback) (batches write_batch_size (map fst ?changes)) ?changes s1 = (Inr ch, s')"
    using assms unfolding clear_views_def Let_def if_not_P [OF False] bind_remote_Inr by auto
  moreover have "\<forall>ids \<in> set (batches write_batch_size (map fst ?changes)). set ids \<subseteq> fst ` set ?changes"
    using batches_subset by fastforce
  ultimately have "map fst ch = map fst ?changes" by (rule confirmed_keys)
  then show ?thesis by (metis length_map order_refl)
qed

lemma batch_count_mono: "m \<le> n \<Longrightarrow> batch_count m \<le> batch_count n"
  by (simp add: batch_count_def div_le_mono)

lemma costs_clear_views:
  "costs (2 * batch_count (length lib)) (clear_views (logged service) auth now watched playback lib)"
proof (cases "\<not> watched \<and> \<not> playback")
  case True
  then show ?thesis by (simp add: clear_views_def costs_pure)
next
  case False
  let ?changes = "map (\<lambda>(cid, item). (cid, clear_view now watched playback item)) lib"
  have "costs (1 * length (batches 100 (map fst ?changes)))
      (each_remote (confirm_view_batch (logged service) auth watched playback) (batches 100 (map fst ?changes)) ?changes)"
    by (rule costs_each) (rule costs_confirm)
  then have "costs (batch_count (length lib))
      (each_remote (confirm_view_batch (logged service) auth watched playback) (batches 100 (map fst ?changes)) ?changes)"
    by (simp only: length_batches length_map mult_1)
  from costs_bind [OF costs_put_batches [of "map snd ?changes"] this] show ?thesis
    unfolding clear_views_def Let_def if_not_P [OF False] write_batch_size_def by (simp only: length_map mult_2)
qed

lemma costs_clear_collection:
  "costs (2 * batch_count (length lib)) (clear_collection (logged service) auth now lib)"
proof -
  let ?changes = "map (\<lambda>(cid, item). (cid, tombstone now item)) lib"
  have "costs (1 * length (batches 100 (map fst ?changes)))
      (each_remote (confirm_tombstones (logged service) auth) (batches 100 (map fst ?changes)) ())"
    by (rule costs_each) (rule costs_confirm)
  then have "costs (batch_count (length lib))
      (each_remote (confirm_tombstones (logged service) auth) (batches 100 (map fst ?changes)) ())"
    by (simp only: length_batches length_map mult_1)
  from costs_bind [OF costs_put_batches [of "map snd ?changes"] this] show ?thesis
    unfolding clear_collection_def Let_def write_batch_size_def by (simp only: length_map mult_2)
qed

lemma costs_clear_items:
  "costs (1 + 4 * batch_count (length items)) (clear_items (logged service) now auth collection watched playback items)"
proof -
  let ?n = "batch_count (length items)"
  have index: "costs 0 (each_remote index_item items [])"
  proof -
    have "costs 0 (index_item item lib)" for item lib by (auto simp: index_item_def costs_pure split: pyval.splits)
    then show ?thesis by (rule costs_each_free)
  qed
  have verify: "costs 0 (each_remote (verify_item collection watched playback) remaining ())" for remaining
  proof -
    have "costs 0 (verify_item collection watched playback item u)" for item u by (auto simp: verify_item_def Let_def costs_pure)
    then show ?thesis by (rule costs_each_free)
  qed
  have "costs (0 + (2 * ?n + (2 * ?n + (1 + (0 + 0))))) (clear_items (logged service) now auth collection watched playback items)"
    unfolding clear_items_def
  proof (intro costs_bind_Inr [OF index] costs_bind [OF costs_datastore_get] costs_bind [OF verify] costs_pure costs_bind_Inr)
    fix st lib st' assume "each_remote index_item items [] st = (Inr lib, st')"
    then have "length lib \<le> length items" using index_item_length by fastforce
    then show "costs (2 * ?n) (clear_views (logged service) auth now watched playback lib)"
      by (intro costs_mono [OF costs_clear_views]) (simp add: batch_count_mono)
    fix u ch u' assume "clear_views (logged service) auth now watched playback lib u = (Inr ch, u')"
    then have "length (if ch = [] then lib else ch) \<le> length items"
      using clear_views_length [of _ auth now watched playback lib u ch u'] \<open>length lib \<le> length items\<close> by fastforce
    then show "costs (2 * ?n) (if collection then clear_collection (logged service) auth now (if ch = [] then lib else ch) else return_remote ())"
      by (cases collection) (auto simp: costs_pure batch_count_mono intro!: costs_mono [OF costs_clear_collection])
  qed
  then show ?thesis by (rule costs_mono) simp
qed

text \<open>C28: Clearing an account always comes to an end: whatever the service answers, at most two full
  reads and, for every hundred records of the account, four more requests are made.\<close>

theorem clear_datastore_data_terminates:
  "length (snd (snd (clear_datastore_data (logged service) now auth collection watched playback (s, [])))) \<le>
   2 + 4 * batch_count (case fst (datastore_get service auth [] True False s) of Inl _ \<Rightarrow> 0 | Inr items \<Rightarrow> length items)"
proof -
  let ?get = "datastore_get (logged service) auth [] True False"
  obtain q s1 log1 where g: "?get (s, []) = (q, (s1, log1))" by (metis prod.exhaust)
  have mirror: "fst (datastore_get service auth [] True False s) = q"
    using mirrors_datastore_get [of service auth "[]" True False] g unfolding mirrors_def by (metis fst_conv)
  have one: "length log1 \<le> 1" using costs_datastore_get [of service auth "[]" True False] g unfolding costs_def by fastforce
  show ?thesis
  proof (cases "collection \<or> watched \<or> playback")
    case False
    then show ?thesis by (simp add: clear_datastore_data_def bind_remote_def require_def fail_remote_def)
  next
    case True
    then have run: "clear_datastore_data (logged service) now auth collection watched playback (s, []) =
        bind_remote ?get (clear_items (logged service) now auth collection watched playback) (s, [])"
      by (simp add: clear_datastore_data_def bind_remote_def require_def return_remote_def)
    show ?thesis
    proof (cases q)
      case (Inl e)
      then show ?thesis using one by (simp add: run bind_remote_def g mirror)
    next
      case (Inr items)
      obtain r s2 log2 where rest: "clear_items (logged service) now auth collection watched playback items (s1, log1) = (r, (s2, log2))"
        by (metis prod.exhaust)
      then have "length log2 \<le> length log1 + (1 + 4 * batch_count (length items))"
        using costs_clear_items [of items service now auth collection watched playback] unfolding costs_def by blast
      with one show ?thesis by (simp add: run bind_remote_def g mirror Inr rest)
    qed
  qed
qed

text \<open>An account with one watched film, whose service stores what it is given.\<close>

definition sample_film :: pydict where
  "sample_film = [(''_id'', VStr ''tt1''), (''removed'', VBool False), (''state'', VDict [(''timesWatched'', VInt 1), (''timeOffset'', VInt 7)])]"

definition sample_service :: "pydict list service" where
  "sample_service path body st =
     (if path = ''datastorePut'' then (Json (VDict [(''result'', VDict [(''success'', VBool True)])]),
        List.map_filter as_dict (list_or_empty (get body ''changes'')))
      else (Json (VDict [(''result'', VList (map VDict st))]), st))"

definition sample_clear :: "(stremio_error + clear_counts) \<times> pydict list \<times> (string \<times> pydict) list" where
  "sample_clear = clear_datastore_data (logged sample_service) ''2024-01-01T00:00:00.000Z'' ''key'' False True False ([sample_film], [])"

lemma sample_clear_run:
  "(case fst sample_clear of Inl _ \<Rightarrow> False | Inr counts \<Rightarrow> cn_watched counts = 1) \<and>
   map fst (snd (snd sample_clear)) = [''datastoreGet'', ''datastorePut'', ''datastoreGet'', ''datastoreGet''] \<and>
   list_all (\<lambda>item. get (dict_or_empty (get item ''state'')) ''timeOffset'' = VInt 7) (fst (snd sample_clear))"
  by code_simp

lemma clear_datastore_data_verified_witness:
  "\<exists>counts items. fst sample_clear = Inr counts \<and> cn_watched counts = 1 \<and> (\<forall>item \<in> set items. cleared_item False True False item)"
proof -
  obtain counts st where run: "sample_clear = (Inr counts, st)" "cn_watched counts = 1"
  proof -
    obtain r st where r: "sample_clear = (r, st)" by (rule prod.exhaust)
    then have "case r of Inl _ \<Rightarrow> False | Inr counts \<Rightarrow> cn_watched counts = 1" using sample_clear_run by (metis fst_conv)
    with r show ?thesis using that by (cases r) auto
  qed
  have "fst sample_clear = Inr counts" by (simp only: run(1) fst_conv)
  moreover from clear_datastore_data_verified [OF run(1) [unfolded sample_clear_def]]
  obtain items where "\<forall>item \<in> set items. cleared_item False True False item" by blast
  ultimately show ?thesis using run(2) by blast
qed

lemma clear_writes_only_views_witness:
  "\<exists>body items cs. (''datastorePut'', body) \<in> set (snd (snd sample_clear)) \<and> get body ''changes'' = VList (map VDict cs)
     \<and> (\<forall>c \<in> set cs. \<exists>item \<in> set items. same_but_views True False item c)"
proof -
  obtain r s' log1 where run: "sample_clear = (r, (s', log1))" by (metis prod.exhaust)
  have "map fst log1 = [''datastoreGet'', ''datastorePut'', ''datastoreGet'', ''datastoreGet'']"
    using sample_clear_run unfolding run by (simp only: fst_conv snd_conv)
  then have "''datastorePut'' \<in> set (map fst log1)" by simp
  then obtain body where body: "(''datastorePut'', body) \<in> set log1" by auto
  have log: "snd (snd sample_clear) = log1" by (simp only: run snd_conv)
  from clear_writes_only_views [OF run [unfolded sample_clear_def] body] obtain items cs where
    "get body ''changes'' = VList (map VDict cs)" "\<forall>c \<in> set cs. \<exists>item \<in> set items. same_but_views True False item c"
    by blast
  with body show ?thesis unfolding log by blast
qed

end
