(* ===== verification/StremioPlayback.thy ===== *)
theory StremioPlayback
  imports StremioClear WatchRound
begin

text \<open>
  The playback writes to Stremio of \<open>core/stream_actions.py\<close>: \<open>push_stremio_progress\<close> stores a position,
  \<open>dismiss_stremio\<close> removes a title from Continue Watching, resets a deleted title or restores a position.  Each reads
  the library item, decides whether the account moved on meanwhile (\<open>RemotePlaybackChanged\<close>), writes and reads back.
  \<open>now\<close> is \<open>datetime.now(timezone.utc)\<close>; the identifiers of a record are strings.
\<close>

section \<open>Dates and progress\<close>

definition of_result :: "'a result \<Rightarrow> ('s, 'a) remote" where
  "of_result r s = (case r of Inl e \<Rightarrow> (Inl (Raised e), s) | Inr x \<Rightarrow> (Inr x, s))"

definition playback_changed :: py_error where
  "playback_changed = ProviderError ''RemotePlaybackChanged''"

definition subscript :: "pydict \<Rightarrow> string \<Rightarrow> pyval result" where
  "subscript d k = (case map_of d k of None \<Rightarrow> Inl KeyError | Some v \<Rightarrow> Inr v)"

text \<open>\<open>_iso_utc\<close> of a moment in UTC: milliseconds only where there are any.\<close>

definition iso_utc :: "datetime \<Rightarrow> string" where
  "iso_utc t =
     (let us = nat (t mod us_per_day); s = us div 1000000; ms = us div 1000 mod 1000
      in isoformat (date_of t) @ ''T'' @ two_digits (s div 3600) @ '':'' @ two_digits (s div 60 mod 60) @ '':'' @ two_digits (s mod 60)
         @ (if ms = 0 then [] else ''.'' @ [digit_char (ms div 100)] @ two_digits (ms mod 100)) @ ''Z'')"

definition stremio_last_watched :: "pyval \<Rightarrow> string option result" where
  "stremio_last_watched v =
     (if v = VNone then Inr None
      else case to_int v of
        Inr n \<Rightarrow> Inr (map_option iso_utc (fromtimestamp (of_int n / 1000)))
      | Inl _ \<Rightarrow> (case parse_datetime (zulu_offset (py_str v)) of
          None \<Rightarrow> Inr None | Some d \<Rightarrow> and_then (to_naive_utc d) (\<lambda>t. Inr (Some (iso_utc t)))))"

definition same_progress :: "pydict \<Rightarrow> pydict \<Rightarrow> bool" where
  "same_progress left right \<longleftrightarrow> list_all (\<lambda>k. py_eq (get left k) (get right k)) [''position'', ''duration'', ''season'', ''episode'']"

definition watched_clock :: "pyval \<Rightarrow> datetime option result" where
  "watched_clock v = provider_changed_at [(''last_watched'', v)]"

definition modified_clock :: "pyval \<Rightarrow> datetime option result" where
  "modified_clock v = provider_changed_at [(''modified_at'', v)]"

definition newer_playback_date :: "pyval \<Rightarrow> pyval \<Rightarrow> bool result" where
  "newer_playback_date incoming existing =
     and_then (watched_clock incoming) (\<lambda>i. and_then (watched_clock existing) (\<lambda>e.
       Inr (case i of None \<Rightarrow> False | Some t \<Rightarrow> (case e of None \<Rightarrow> True | Some u \<Rightarrow> u < t))))"

text \<open>A provider may round to milliseconds.\<close>

definition playback_date_confirmed :: "pyval \<Rightarrow> pyval \<Rightarrow> bool result" where
  "playback_date_confirmed expected actual =
     and_then (watched_clock expected) (\<lambda>e. and_then (watched_clock actual) (\<lambda>a.
       Inr (case e of None \<Rightarrow> True | Some t \<Rightarrow> (case a of None \<Rightarrow> False | Some u \<Rightarrow> t - u < 1000))))"

text \<open>Every write reads, plans from what it read, writes what it planned and checks the answer.\<close>

definition guarded_write ::
  "'s service \<Rightarrow> string \<Rightarrow> string list \<Rightarrow> bool \<Rightarrow> (pydict list \<Rightarrow> pydict list result) \<Rightarrow> (pydict list \<Rightarrow> ('s, unit) remote) \<Rightarrow> ('s, unit) remote" where
  "guarded_write service auth ids missing plan check =
     bind_remote (datastore_get service auth ids False missing) (\<lambda>rows.
     bind_remote (of_result (plan rows)) (\<lambda>changes.
       if changes = [] then return_remote ()
       else bind_remote (datastore_put service auth changes) (\<lambda>_. check changes)))"

section \<open>Storing a position\<close>

definition ends_with :: "string \<Rightarrow> string \<Rightarrow> bool" where
  "ends_with suffix s \<longleftrightarrow> length suffix \<le> length s \<and> drop (length s - length suffix) s = suffix"

definition state_of :: "pydict \<Rightarrow> pydict result" where
  "state_of i = (case get i ''state'' of VDict d \<Rightarrow> Inr d | v \<Rightarrow> if truthy v then Inl TypeError else Inr [])"

definition text_of :: "pyval \<Rightarrow> string" where
  "text_of v = py_str (py_or v (VStr []))"

text \<open>\<open>f":{record['season']}:{record['episode']}"\<close>.\<close>

definition place_suffix :: "pydict \<Rightarrow> string result" where
  "place_suffix record =
     and_then (subscript record ''season'') (\<lambda>s. and_then (subscript record ''episode'') (\<lambda>e. Inr ('':'' @ py_str s @ '':'' @ py_str e)))"

definition other_kind :: "pydict \<Rightarrow> pydict \<Rightarrow> bool" where
  "other_kind i record \<longleftrightarrow>
     truthy (get i ''type'') \<and> truthy (get record ''content_type'') \<and> \<not> py_eq (get i ''type'') (get record ''content_type'')"

text \<open>Whether the item plays the place of the record, and whether it plays it at the same position.\<close>

definition plays_video :: "pydict \<Rightarrow> pydict \<Rightarrow> pyval \<Rightarrow> bool result" where
  "plays_video state record cid =
     (if get record ''season'' = VNone then Inr (text_of (get state ''video_id'') = py_str cid)
      else and_then (place_suffix record) (\<lambda>suffix. Inr (ends_with suffix (text_of (get state ''video_id'')))))"

definition plays_same :: "pydict \<Rightarrow> pydict \<Rightarrow> pyval \<Rightarrow> bool result" where
  "plays_same state record cid =
     and_then (plays_video state record cid) (\<lambda>video.
       let place = (\<lambda>k. if get record ''season'' = VNone \<or> video then get record k else VNone) in
       Inr (video \<and> same_progress [(''position'', get state ''timeOffset''), (''duration'', get state ''duration''),
              (''season'', place ''season''), (''episode'', place ''episode'')] record))"

definition stored_video :: "pydict \<Rightarrow> pyval \<Rightarrow> pyval result" where
  "stored_video record cid =
     (let given = get record ''video_id'' in
      if truthy given then Inr given
      else if get record ''season'' = VNone then Inr cid
      else and_then (place_suffix record) (\<lambda>suffix. Inr (VStr (py_str cid @ suffix))))"

definition progress_state :: "pydict \<Rightarrow> pydict \<Rightarrow> pyval \<Rightarrow> pydict result" where
  "progress_state state record cid =
     and_then (subscript record ''position'') (\<lambda>p. and_then (subscript record ''duration'') (\<lambda>d.
     and_then (stored_video record cid) (\<lambda>v. and_then (stremio_last_watched (get record ''last_watched'')) (\<lambda>w.
       let st = dict_set ''video_id'' v (dict_set ''duration'' d (dict_set ''timeOffset'' p state))
       in Inr (case w of None \<Rightarrow> st | Some t \<Rightarrow> dict_set ''lastWatched'' (VStr t) st)))))"

text \<open>A hidden item becomes visible as a temporary one, outside the library.\<close>

definition make_visible :: "pydict \<Rightarrow> pydict" where
  "make_visible i = (if truthy (get i ''removed'') then dict_set ''temp'' (VBool True) (dict_set ''removed'' (VBool False) i) else i)"

definition stamped :: "datetime \<Rightarrow> pydict \<Rightarrow> pydict \<Rightarrow> pydict" where
  "stamped now state i = dict_set ''_mtime'' (VStr (iso_utc now)) (dict_set ''state'' (VDict state) i)"

text \<open>What to write, if anything.\<close>

definition progress_plan :: "datetime \<Rightarrow> pydict \<Rightarrow> pyval \<Rightarrow> pydict list \<Rightarrow> pydict list result" where
  "progress_plan now record cid rows =
     and_then (case rows of i # _ \<Rightarrow> Inr i | [] \<Rightarrow> new_library_item record (iso_utc now) False) (\<lambda>i.
     if other_kind i record then Inl playback_changed
     else
       and_then (state_of i) (\<lambda>state. and_then (plays_same state record cid) (\<lambda>same.
       and_then (if same \<and> \<not> truthy (get i ''removed'') then newer_playback_date (get record ''last_watched'') (get state ''lastWatched'')
                 else Inr True) (\<lambda>due.
       if \<not> due then Inr []
       else
         and_then (modified_clock (get record ''observed_at'')) (\<lambda>observed.
         and_then (if rows = [] then Inr None else modified_clock (get i ''_mtime'')) (\<lambda>remote.
         if \<not> same \<and> (case observed of None \<Rightarrow> True | Some t \<Rightarrow> (case remote of None \<Rightarrow> False | Some u \<Rightarrow> t < u))
         then Inl playback_changed
         else and_then (progress_state state record cid) (\<lambda>st. Inr [make_visible (stamped now st i)])))))))"

definition progress_check :: "pydict \<Rightarrow> pyval \<Rightarrow> pydict list \<Rightarrow> ('s, unit) remote" where
  "progress_check record cid rows =
     (case rows of
        [i] \<Rightarrow>
          bind_remote (of_result (state_of i)) (\<lambda>state.
           bind_remote (require (\<not> truthy (get i ''removed'')) ''Stremio progress write remained hidden from Continue Watching'') (\<lambda>_.
           bind_remote (if get record ''season'' = VNone then return_remote True else of_result (plays_video state record cid)) (\<lambda>video.
           bind_remote (require video ''Stremio progress write did not match the requested episode'') (\<lambda>_.
           bind_remote (require (get record ''season'' = VNone \<longrightarrow> py_eq (get state ''video_id'') cid)
               ''Stremio progress write did not match the requested movie'') (\<lambda>_.
           bind_remote (of_result (subscript record ''position'')) (\<lambda>p. bind_remote (of_result (subscript record ''duration'')) (\<lambda>d.
           bind_remote (require (py_eq (get state ''timeOffset'') p \<and> py_eq (get state ''duration'') d) ''Stremio progress write did not persist'') (\<lambda>_.
           bind_remote (of_result (playback_date_confirmed (get record ''last_watched'') (get state ''lastWatched''))) (\<lambda>dated.
             require dated ''Stremio playback timestamp did not persist'')))))))))
      | _ \<Rightarrow> fail_remote ''Stremio progress write was not visible on readback'')"

definition push_stremio_progress :: "'s service \<Rightarrow> datetime \<Rightarrow> string \<Rightarrow> pydict \<Rightarrow> ('s, unit) remote" where
  "push_stremio_progress service now auth record =
     bind_remote (of_result (subscript record ''content_id'')) (\<lambda>cid.
       guarded_write service auth [py_str cid] True (progress_plan now record cid)
         (\<lambda>_. bind_remote (datastore_get service auth [py_str cid] False False) (progress_check record cid)))"

section \<open>Dismissing a title\<close>

definition needs_clear :: "pydict \<Rightarrow> pydict \<Rightarrow> bool" where
  "needs_clear i state \<longleftrightarrow>
     truthy (get state ''timeOffset'') \<or> (truthy (get state ''video_id'') \<and> \<not> py_eq (get state ''video_id'') (VStr (text_of (get i ''_id''))))"

definition no_playback :: "pydict \<Rightarrow> pydict" where
  "no_playback state = dict_set ''video_id'' VNone (dict_set ''duration'' (VInt 0) (dict_set ''timeOffset'' (VInt 0) state))"

fun title_plan :: "datetime \<Rightarrow> datetime option \<Rightarrow> pydict \<Rightarrow> pydict list \<Rightarrow> pydict list result" where
  "title_plan now observed record [] = Inr []"
| "title_plan now observed record (i # rows) =
     (if other_kind i record then Inl playback_changed
      else and_then (state_of i) (\<lambda>state.
        if \<not> needs_clear i state then title_plan now observed record rows
        else and_then (modified_clock (get i ''_mtime'')) (\<lambda>remote.
          if (case remote of None \<Rightarrow> False | Some t \<Rightarrow> (case observed of None \<Rightarrow> True | Some u \<Rightarrow> u < t)) then Inl playback_changed
          else and_then (title_plan now observed record rows) (\<lambda>cs. Inr (stamped now (no_playback state) i # cs)))))"

definition watched_fields :: "string list" where
  "watched_fields = [''watched'', ''timesWatched'', ''flaggedWatched'', ''lastWatched'', ''timeWatched'', ''overallTimeWatched'']"

text \<open>An item that disappeared meanwhile is dismissed as well.\<close>

definition title_check :: "pydict list \<Rightarrow> pydict \<Rightarrow> unit \<Rightarrow> ('s, unit) remote" where
  "title_check rows candidate u =
     (case find (\<lambda>r. item_id r = item_id candidate) (rev rows) of
        None \<Rightarrow> return_remote ()
      | Some confirmed \<Rightarrow>
        bind_remote (of_result (state_of confirmed)) (\<lambda>state.
        bind_remote (require (zeroish (get state ''timeOffset'') \<and> zeroish (get state ''duration'') \<and> get state ''video_id'' = VNone)
            ''Stremio did not confirm Continue Watching dismissal'') (\<lambda>_.
        bind_remote (require (py_eq (get confirmed ''removed'') (get candidate ''removed'') \<and> py_eq (get confirmed ''temp'') (get candidate ''temp''))
            ''Stremio changed library membership during Continue Watching dismissal'') (\<lambda>_.
          require (list_all (\<lambda>k. py_eq (get state k) (get (dict_or_empty (get candidate ''state'')) k)) watched_fields)
            ''Stremio changed watched history during Continue Watching dismissal''))))"

definition title_rows :: "string list \<Rightarrow> pydict list \<Rightarrow> pydict list" where
  "title_rows ids rows = filter (\<lambda>i. text_of (get i ''_id'') \<in> set ids) rows"

definition dismiss_title_plan :: "datetime \<Rightarrow> pydict \<Rightarrow> pydict list \<Rightarrow> pydict list result" where
  "dismiss_title_plan now record rows =
     (if rows = [] then Inr [] else and_then (modified_clock (get record ''observed_at'')) (\<lambda>observed. title_plan now observed record rows))"

section \<open>Resetting, restoring and dismissing one item\<close>

datatype dismissal = Dismissing | Restoring | Resetting

definition reset_fields :: pydict where
  "reset_fields =
     [(''timeOffset'', VInt 0), (''duration'', VInt 0), (''timesWatched'', VInt 0), (''flaggedWatched'', VInt 0), (''lastWatched'', VNone),
      (''video_id'', VNone), (''watched'', VNone), (''timeWatched'', VInt 0), (''overallTimeWatched'', VInt 0)]"

definition already_reset :: "pydict \<Rightarrow> bool" where
  "already_reset state \<longleftrightarrow>
     list_all (\<lambda>(k, v). case map_of state k of None \<Rightarrow> False | Some w \<Rightarrow> py_eq v w) reset_fields"

definition changed_after_deletion :: "pydict \<Rightarrow> pydict \<Rightarrow> bool result" where
  "changed_after_deletion i record =
     (if truthy (get i ''_mtime'') \<and> truthy (get record ''deleted_at'') then
        (case and_then (modified_clock (get i ''_mtime'')) (\<lambda>m. and_then (modified_clock (get record ''deleted_at'')) (\<lambda>d. Inr (m, d))) of
           Inr (Some m, Some d) \<Rightarrow> Inr (d < m)
         | Inr _ \<Rightarrow> Inr False
         | Inl e \<Rightarrow> if e = ValueError then Inr True else Inl e)
      else Inr False)"

definition reset_plan :: "datetime \<Rightarrow> pydict \<Rightarrow> pydict \<Rightarrow> pydict \<Rightarrow> pydict option result" where
  "reset_plan now record i state =
     (if already_reset state then Inr None
      else and_then (changed_after_deletion i record) (\<lambda>changed.
        if changed then Inl playback_changed else Inr (Some (stamped now (dict_merge state reset_fields) i))))"

definition at_position :: "pydict \<Rightarrow> pyval \<Rightarrow> pyval \<Rightarrow> bool" where
  "at_position state p d \<longleftrightarrow> py_eq (get state ''timeOffset'') p \<and> py_eq (get state ''duration'') d"

definition at_episode :: "pydict \<Rightarrow> pydict \<Rightarrow> bool result" where
  "at_episode state record =
     (if get record ''season'' = VNone then Inr True
      else and_then (place_suffix record) (\<lambda>suffix. Inr (ends_with suffix (text_of (get state ''video_id'')))))"

definition restore_plan :: "datetime \<Rightarrow> pydict \<Rightarrow> pyval \<Rightarrow> pydict \<Rightarrow> pydict \<Rightarrow> pydict option result" where
  "restore_plan now record cid i state =
     (if truthy (get state ''timeOffset'') then
        and_then (at_episode state record) (\<lambda>same.
          if same \<and> at_position state (get record ''position'') (get record ''duration'') then Inr None else Inl playback_changed)
      else
        and_then (subscript record ''position'') (\<lambda>p. and_then (subscript record ''duration'') (\<lambda>d.
        and_then (if get record ''season'' = VNone then Inr None else and_then (stored_video record cid) (\<lambda>v. Inr (Some v))) (\<lambda>video.
          let st = dict_set ''duration'' d (dict_set ''timeOffset'' p state)
          in Inr (Some (make_visible (stamped now (case video of None \<Rightarrow> st | Some v \<Rightarrow> dict_set ''video_id'' v st) i)))))))"

definition dismiss_plan :: "datetime \<Rightarrow> pydict \<Rightarrow> pydict \<Rightarrow> pydict \<Rightarrow> pydict option result" where
  "dismiss_plan now record i state =
     (if \<not> truthy (get state ''timeOffset'') then Inr None
      else if \<not> at_position state (get record ''position'') (get record ''duration'') then Inl playback_changed
      else and_then (at_episode state record) (\<lambda>same.
        if \<not> same then Inl playback_changed else Inr (Some (stamped now (dict_set ''timeOffset'' (VInt 0) state) i))))"

definition item_plan :: "datetime \<Rightarrow> dismissal \<Rightarrow> pydict \<Rightarrow> pyval \<Rightarrow> pydict \<Rightarrow> pydict option result" where
  "item_plan now mode record cid i =
     (if other_kind i record then Inl playback_changed
      else and_then (state_of i) (\<lambda>state.
        case mode of
          Resetting \<Rightarrow> reset_plan now record i state
        | Restoring \<Rightarrow> restore_plan now record cid i state
        | Dismissing \<Rightarrow> dismiss_plan now record i state))"

definition title_ids :: "pydict \<Rightarrow> string list" where
  "title_ids record =
     first_seen (map py_str (filter truthy (list_or_empty (py_or (get record ''content_ids'') (VList [get record ''content_id''])))))"

definition single_plan :: "datetime \<Rightarrow> dismissal \<Rightarrow> pydict \<Rightarrow> pyval \<Rightarrow> pydict list \<Rightarrow> pydict list result" where
  "single_plan now mode record cid rows =
     (case rows of
        [] \<Rightarrow> if mode = Resetting then Inr [] else Inl (ProviderError ''IndexError'')
      | i # _ \<Rightarrow> and_then (item_plan now mode record cid i) (\<lambda>plan. Inr (case plan of None \<Rightarrow> [] | Some c \<Rightarrow> [c])))"

definition dismiss_stremio :: "'s service \<Rightarrow> datetime \<Rightarrow> string \<Rightarrow> pydict \<Rightarrow> dismissal \<Rightarrow> ('s, unit) remote" where
  "dismiss_stremio service now auth record mode =
     (if mode = Dismissing \<and> get record ''title_dismissal'' = VBool True then
        guarded_write service auth (title_ids record) True (\<lambda>rows. dismiss_title_plan now record (title_rows (title_ids record) rows))
          (\<lambda>cs. bind_remote (datastore_get service auth (map item_id cs) False True) (\<lambda>rows. each_remote (title_check rows) cs ()))
      else
        bind_remote (of_result (subscript record ''content_id'')) (\<lambda>cid.
          guarded_write service auth [py_str cid] (mode = Resetting) (single_plan now mode record cid) (\<lambda>_. return_remote ())))"

section \<open>What is written\<close>

lemma emits_of_result [intro]: "emits P (of_result r)"
  by (auto simp: emits_def of_result_def split: sum.splits)

lemma of_result_Inr [simp]: "of_result r s = (Inr x, s') \<longleftrightarrow> r = Inr x \<and> s' = s"
  by (auto simp: of_result_def split: sum.splits)

abbreviation reads_only :: "string \<times> pydict \<Rightarrow> bool" where
  "reads_only q \<equiv> fst q \<noteq> ''datastorePut''"

text \<open>A plan that only ever writes what it may, and a check that only reads.\<close>

locale guarded_writes =
  fixes plan :: "pydict list \<Rightarrow> pydict list result"
    and check :: "pydict list \<Rightarrow> ('s \<times> (string \<times> pydict) list, unit) remote"
    and keeps :: "pydict list \<Rightarrow> pydict \<Rightarrow> bool"
  assumes planned: "plan rows = Inr cs \<Longrightarrow> c \<in> set cs \<Longrightarrow> keeps rows c"
    and checked: "emits reads_only (check cs)"
begin

lemma written:
  assumes "guarded_write (logged service) auth ids missing plan check (s, []) = (r, (s', log1))" "(''datastorePut'', body) \<in> set log1"
  shows "\<exists>rows cs s1. datastore_get service auth ids False missing s = (Inr rows, s1) \<and> plan rows = Inr cs \<and> cs \<noteq> [] \<and>
    get body ''changes'' = VList (map VDict cs) \<and> (\<forall>c \<in> set cs. keeps rows c)"
proof -
  let ?get = "datastore_get (logged service) auth ids False missing"
  obtain q s1 log2 where g: "?get (s, []) = (q, (s1, log2))" by (metis prod.exhaust)
  have mirror: "datastore_get service auth ids False missing s = (q, s1)"
    using mirrors_datastore_get [of service auth ids False missing] g unfolding mirrors_def by (metis fst_conv prod.collapse snd_conv)
  have "emits reads_only ?get" by (rule emits_datastore_get) simp
  with g have no_put: "(''datastorePut'', b) \<notin> set log2" for b unfolding emits_def by fastforce
  then obtain rows where rows: "q = Inr rows" using assms g by (cases q) (auto simp: guarded_write_def bind_remote_def)
  define rest where "rest = bind_remote (of_result (plan rows)) (\<lambda>changes. if changes = [] then return_remote ()
    else bind_remote (datastore_put (logged service) auth changes) (\<lambda>_. check changes))"
  have run: "rest (s1, log2) = (r, (s', log1))" using assms(1) g rows by (simp add: guarded_write_def bind_remote_def rest_def)
  let ?P = "\<lambda>q. fst q = ''datastorePut'' \<longrightarrow> (\<exists>cs. plan rows = Inr cs \<and> cs \<noteq> [] \<and> get (snd q) ''changes'' = VList (map VDict cs))"
  have "emits ?P rest" unfolding rest_def
  proof (rule emits_bind_Inr)
    fix st cs st' assume "of_result (plan rows) st = (Inr cs, st')"
    then have "plan rows = Inr cs" by simp
    moreover have "emits ?P (check cs)" using checked [of cs] unfolding emits_def by fastforce
    ultimately show "emits ?P (if cs = [] then return_remote () else bind_remote (datastore_put (logged service) auth cs) (\<lambda>_. check cs))"
      by (auto intro!: emits_bind emits_datastore_put)
  qed auto
  then obtain new where new: "log1 = log2 @ new" "\<forall>q \<in> set new. ?P q" using run unfolding emits_def by blast
  have "(''datastorePut'', body) \<in> set new" using assms(2) no_put new(1) by simp
  from bspec [OF new(2) this] obtain cs where cs: "plan rows = Inr cs" "cs \<noteq> []" "get body ''changes'' = VList (map VDict cs)" by auto
  have "\<forall>c \<in> set cs. keeps rows c" using planned [OF cs(1)] by blast
  then show ?thesis using mirror cs unfolding rows by (intro exI conjI)
qed

end

text \<open>An item written back is one that was read, but for some of its own fields and some of its viewing state.\<close>

definition same_but :: "string set \<Rightarrow> string set \<Rightarrow> pydict \<Rightarrow> pydict \<Rightarrow> bool" where
  "same_but own viewing i c \<longleftrightarrow>
     (\<forall>k. k \<notin> own \<longrightarrow> get c k = get i k) \<and>
     (\<forall>k. k \<notin> viewing \<longrightarrow> get (dict_or_empty (get c ''state'')) k = get (dict_or_empty (get i ''state'')) k)"

lemma get_dict_set [simp]: "get (dict_set k v d) k' = (if k' = k then v else get d k')"
  by (simp add: get_def)

lemma state_of_dict: "state_of i = Inr state \<Longrightarrow> dict_or_empty (get i ''state'') = state"
  by (auto simp: state_of_def dict_or_empty_def split: pyval.splits if_splits)

lemma same_but_stamped:
  assumes "state_of i = Inr state" "\<And>k. k \<notin> viewing \<Longrightarrow> get st k = get state k"
  shows "same_but {''state'', ''_mtime''} viewing i (stamped now st i)"
proof -
  have "dict_or_empty (VDict st) = st" by (simp add: dict_or_empty_def)
  with assms show ?thesis by (simp add: same_but_def stamped_def state_of_dict)
qed

lemma make_visible_visible [simp]: "\<not> truthy (get (make_visible i) ''removed'')"
  by (simp add: make_visible_def)

lemma get_make_visible:
  "get (make_visible i) k = (if truthy (get i ''removed'') then (if k = ''temp'' then VBool True else if k = ''removed'' then VBool False else get i k) else get i k)"
  by (simp add: make_visible_def)

lemma same_but_visible:
  assumes "same_but {''state'', ''_mtime''} viewing i c"
  shows "same_but {''state'', ''_mtime'', ''removed'', ''temp''} viewing i (make_visible c) \<and>
    get (make_visible c) ''temp'' = (if truthy (get i ''removed'') then VBool True else get i ''temp'')"
  using assms by (simp add: same_but_def get_make_visible)

lemma progress_state_fields:
  "progress_state state record cid = Inr st \<Longrightarrow> k \<notin> {''timeOffset'', ''duration'', ''video_id'', ''lastWatched''} \<Longrightarrow> get st k = get state k"
  by (auto simp: progress_state_def and_then_Inr_iff Let_def split: option.splits)

definition progress_keeps :: "datetime \<Rightarrow> pydict \<Rightarrow> pyval \<Rightarrow> pydict list \<Rightarrow> pydict \<Rightarrow> bool" where
  "progress_keeps now record cid rows c \<longleftrightarrow>
     (\<exists>i state. (case rows of i' # _ \<Rightarrow> i' = i | [] \<Rightarrow> new_library_item record (iso_utc now) False = Inr i) \<and> state_of i = Inr state \<and>
        \<not> other_kind i record \<and> same_but {''state'', ''_mtime'', ''removed'', ''temp''} {''timeOffset'', ''duration'', ''video_id'', ''lastWatched''} i c \<and>
        \<not> truthy (get c ''removed'') \<and> get c ''temp'' = (if truthy (get i ''removed'') then VBool True else get i ''temp'') \<and>
        (plays_same state record cid = Inr True \<or>
           (\<exists>t. modified_clock (get record ''observed_at'') = Inr (Some t) \<and>
              (rows \<noteq> [] \<longrightarrow> (\<forall>u. modified_clock (get i ''_mtime'') = Inr (Some u) \<longrightarrow> u \<le> t)))))"

lemma progress_plan_keeps:
  assumes "progress_plan now record cid rows = Inr cs" "c \<in> set cs" shows "progress_keeps now record cid rows c"
proof -
  obtain i where i: "(case rows of i # _ \<Rightarrow> Inr i | [] \<Rightarrow> new_library_item record (iso_utc now) False) = Inr i"
    "\<not> other_kind i record" using assms by (auto simp: progress_plan_def and_then_Inr_iff split: if_splits)
  with assms obtain state same where st: "state_of i = Inr state" "plays_same state record cid = Inr same"
    by (auto simp: progress_plan_def and_then_Inr_iff)
  with assms i obtain observed remote new where w:
    "modified_clock (get record ''observed_at'') = Inr observed" "(if rows = [] then Inr None else modified_clock (get i ''_mtime'')) = Inr remote"
    "\<not> (\<not> same \<and> (case observed of None \<Rightarrow> True | Some t \<Rightarrow> (case remote of None \<Rightarrow> False | Some u \<Rightarrow> t < u)))"
    "progress_state state record cid = Inr new" "c = make_visible (stamped now new i)"
    by (auto simp: progress_plan_def and_then_Inr_iff split: if_splits)
  have "same_but {''state'', ''_mtime''} {''timeOffset'', ''duration'', ''video_id'', ''lastWatched''} i (stamped now new i)"
    using st(1) progress_state_fields [OF w(4)] by (rule same_but_stamped)
  note kept = same_but_visible [OF this]
  have ordered: "same \<or> (\<exists>t. modified_clock (get record ''observed_at'') = Inr (Some t) \<and>
      (rows \<noteq> [] \<longrightarrow> (\<forall>u. modified_clock (get i ''_mtime'') = Inr (Some u) \<longrightarrow> u \<le> t)))"
    using w(1-3) by (cases observed) (auto split: if_splits)
  have first: "case rows of i' # _ \<Rightarrow> i' = i | [] \<Rightarrow> new_library_item record (iso_utc now) False = Inr i"
    using i(1) by (auto split: list.splits)
  show ?thesis unfolding progress_keeps_def
    using first st i(2) kept ordered w(5) by (intro exI [of _ i] exI [of _ state]) auto
qed

lemma emits_progress_check: "emits P (progress_check record cid rows)"
  by (auto simp: progress_check_def intro!: emits_bind split: list.split)

interpretation pushing: guarded_writes "progress_plan now record cid"
  "\<lambda>_. bind_remote (datastore_get (logged service) auth ids False False) (progress_check record cid)" "progress_keeps now record cid"
  by unfold_locales (erule progress_plan_keeps, assumption, rule emits_bind [OF emits_datastore_get emits_progress_check], simp)


lemma no_playback_fields: "k \<notin> {''timeOffset'', ''duration'', ''video_id''} \<Longrightarrow> get (no_playback state) k = get state k"
  by (simp add: no_playback_def)

lemma title_plan_keeps:
  "title_plan now observed record rows = Inr cs \<Longrightarrow> c \<in> set cs \<Longrightarrow>
    \<exists>i \<in> set rows. same_but {''state'', ''_mtime''} {''timeOffset'', ''duration'', ''video_id''} i c \<and>
      (\<forall>u. modified_clock (get i ''_mtime'') = Inr (Some u) \<longrightarrow> (\<exists>t. observed = Some t \<and> u \<le> t))"
proof (induction rows arbitrary: cs)
  case (Cons i rows)
  then obtain state where st: "\<not> other_kind i record" "state_of i = Inr state" by (auto simp: and_then_Inr_iff split: if_splits)
  show ?case
  proof (cases "needs_clear i state")
    case False
    with Cons st show ?thesis by (auto simp: and_then_Inr_iff)
  next
    case True
    with Cons.prems st obtain remote cs' where r: "modified_clock (get i ''_mtime'') = Inr remote"
      "\<not> (case remote of None \<Rightarrow> False | Some t \<Rightarrow> (case observed of None \<Rightarrow> True | Some u \<Rightarrow> u < t))"
      "title_plan now observed record rows = Inr cs'" "cs = stamped now (no_playback state) i # cs'"
      by (auto simp: and_then_Inr_iff split: if_splits)
    have "same_but {''state'', ''_mtime''} {''timeOffset'', ''duration'', ''video_id''} i (stamped now (no_playback state) i)"
      by (rule same_but_stamped [OF st(2) no_playback_fields])
    then show ?thesis using Cons.IH [OF r(3)] Cons.prems(2) r by (auto split: option.splits)
  qed
qed simp

definition dismissal_fields :: "dismissal \<Rightarrow> string set" where
  "dismissal_fields mode = (if mode = Resetting then fst ` set reset_fields else {''timeOffset'', ''duration'', ''video_id''})"

definition own_fields :: "dismissal \<Rightarrow> string set" where
  "own_fields mode = (if mode = Restoring then {''state'', ''_mtime'', ''removed'', ''temp''} else {''state'', ''_mtime''})"

lemma item_plan_keeps:
  assumes "item_plan now mode record cid i = Inr (Some c)"
  shows "same_but (own_fields mode) (dismissal_fields mode) i c"
proof -
  obtain state where st: "state_of i = Inr state" using assms by (auto simp: item_plan_def and_then_Inr_iff split: if_splits)
  show ?thesis
  proof (cases mode)
    case Resetting
    have "get (dict_merge state reset_fields) k = get state k" if "k \<notin> fst ` set reset_fields" for k
    proof -
      from that have "map_of (rev reset_fields) k = None" by (simp add: map_of_eq_None_iff)
      then show ?thesis by (simp add: get_def dict_get_def map_of_dict_merge map_add_def)
    qed
    then have "same_but {''state'', ''_mtime''} (fst ` set reset_fields) i (stamped now (dict_merge state reset_fields) i)"
      by (rule same_but_stamped [OF st])
    with assms st Resetting show ?thesis
      by (auto simp: item_plan_def reset_plan_def and_then_Inr_iff own_fields_def dismissal_fields_def split: if_splits)
  next
    case Dismissing
    have "same_but {''state'', ''_mtime''} {''timeOffset'', ''duration'', ''video_id''} i (stamped now (dict_set ''timeOffset'' (VInt 0) state) i)"
      by (rule same_but_stamped [OF st]) simp
    with assms st Dismissing show ?thesis
      by (auto simp: item_plan_def dismiss_plan_def and_then_Inr_iff own_fields_def dismissal_fields_def split: if_splits)
  next
    case Restoring
    let ?placed = "\<lambda>p d. dict_set ''duration'' d (dict_set ''timeOffset'' p state)"
    have "same_but {''state'', ''_mtime''} {''timeOffset'', ''duration'', ''video_id''} i (stamped now (?placed p d) i)"
      "same_but {''state'', ''_mtime''} {''timeOffset'', ''duration'', ''video_id''} i (stamped now (dict_set ''video_id'' v (?placed p d)) i)" for p d v
      by (rule same_but_stamped [OF st], simp)+
    note kept = this [THEN same_but_visible, THEN conjunct1]
    show ?thesis using assms st Restoring kept
      by (auto simp: item_plan_def restore_plan_def and_then_Inr_iff own_fields_def dismissal_fields_def Let_def split: if_splits)
  qed
qed

definition title_keeps :: "pydict \<Rightarrow> pydict list \<Rightarrow> pydict \<Rightarrow> bool" where
  "title_keeps record rows c \<longleftrightarrow>
     (\<exists>i \<in> set rows. same_but {''state'', ''_mtime''} {''timeOffset'', ''duration'', ''video_id''} i c \<and>
        (\<forall>u. modified_clock (get i ''_mtime'') = Inr (Some u) \<longrightarrow>
           (\<exists>t. modified_clock (get record ''observed_at'') = Inr (Some t) \<and> u \<le> t)))"

interpretation titles: guarded_writes "\<lambda>rows. dismiss_title_plan now record (title_rows ids rows)"
  "\<lambda>cs. bind_remote (datastore_get (logged service) auth (map item_id cs) False True) (\<lambda>rows. each_remote (title_check rows) cs ())"
  "title_keeps record"
proof unfold_locales
  fix rows cs c assume "dismiss_title_plan now record (title_rows ids rows) = Inr cs" "c \<in> set cs"
  then show "title_keeps record rows c"
    by (auto simp: dismiss_title_plan_def title_keeps_def title_rows_def and_then_Inr_iff split: if_splits dest!: title_plan_keeps)
next
  have "emits P (title_check rows c u)" for P rows c u
    by (auto simp: title_check_def intro!: emits_bind split: option.split)
  then show "emits reads_only (bind_remote (datastore_get (logged service) auth (map item_id cs) False True)
      (\<lambda>rows. each_remote (title_check rows) cs ()))" for cs
    by (auto intro!: emits_bind emits_datastore_get emits_each)
qed

interpretation items: guarded_writes "single_plan now mode record cid" "\<lambda>_. return_remote ()"
  "\<lambda>rows c. \<exists>i \<in> set rows. same_but (own_fields mode) (dismissal_fields mode) i c"
  by unfold_locales
    (auto simp: single_plan_def and_then_Inr_iff intro!: item_plan_keeps emits_pure split: list.splits if_splits option.splits)

text \<open>C14: Dismissing, restoring or resetting a title on Stremio writes only items it has just read, and changes nothing in
  them but the playback position, and all viewing data only when a deleted title is reset: membership in the library
  stays, and what was watched stays.  A dismissal of a whole title writes only items that were not modified after the
  dismissal was decided.\<close>

theorem dismiss_stremio_keeps_history:
  assumes "dismiss_stremio (logged service) now auth record mode (s, []) = (r, (s', log1))" "(''datastorePut'', body) \<in> set log1"
  shows "\<exists>ids missing rows cs s1. datastore_get service auth ids False missing s = (Inr rows, s1) \<and> get body ''changes'' = VList (map VDict cs) \<and>
    (\<forall>c \<in> set cs. \<exists>i \<in> set rows. \<forall>k.
       (k \<notin> {''state'', ''_mtime''} \<and> (mode = Restoring \<longrightarrow> k \<notin> {''removed'', ''temp''}) \<longrightarrow> get c k = get i k) \<and>
       (mode \<noteq> Resetting \<and> k \<in> set watched_fields \<longrightarrow> get (dict_or_empty (get c ''state'')) k = get (dict_or_empty (get i ''state'')) k) \<and>
       (mode = Dismissing \<and> get record ''title_dismissal'' = VBool True \<longrightarrow>
          (\<forall>u. modified_clock (get i ''_mtime'') = Inr (Some u) \<longrightarrow>
             (\<exists>t. modified_clock (get record ''observed_at'') = Inr (Some t) \<and> u \<le> t))))"
    (is "\<exists>ids missing rows cs s1. _ \<and> _ \<and> (\<forall>c \<in> set cs. \<exists>i \<in> set rows. \<forall>k. ?keeps i c k)")
proof (cases "mode = Dismissing \<and> get record ''title_dismissal'' = VBool True")
  case True
  with assms(1) have "guarded_write (logged service) auth (title_ids record) True (\<lambda>rows. dismiss_title_plan now record (title_rows (title_ids record) rows))
      (\<lambda>cs. bind_remote (datastore_get (logged service) auth (map item_id cs) False True) (\<lambda>rows. each_remote (title_check rows) cs ())) (s, [])
      = (r, (s', log1))" by (simp add: dismiss_stremio_def)
  from titles.written [OF this assms(2)] obtain rows cs s1 where w:
    "datastore_get service auth (title_ids record) False True s = (Inr rows, s1)" "get body ''changes'' = VList (map VDict cs)"
    "\<forall>c \<in> set cs. title_keeps record rows c" by blast
  have "(k \<notin> {''state'', ''_mtime''} \<longrightarrow> get c k = get i k) \<and>
      (k \<in> set watched_fields \<longrightarrow> get (dict_or_empty (get c ''state'')) k = get (dict_or_empty (get i ''state'')) k)"
    if "same_but {''state'', ''_mtime''} {''timeOffset'', ''duration'', ''video_id''} i c" for i c k
    using that by (auto simp: same_but_def watched_fields_def)
  note fields = this
  show ?thesis
  proof (intro exI conjI)
    show "datastore_get service auth (title_ids record) False True s = (Inr rows, s1)" "get body ''changes'' = VList (map VDict cs)" by (fact w)+
    show "\<forall>c \<in> set cs. \<exists>i \<in> set rows. \<forall>k. ?keeps i c k"
    proof
      fix c assume "c \<in> set cs"
      with w(3) obtain i where "i \<in> set rows" "same_but {''state'', ''_mtime''} {''timeOffset'', ''duration'', ''video_id''} i c"
        "\<forall>u. modified_clock (get i ''_mtime'') = Inr (Some u) \<longrightarrow> (\<exists>t. modified_clock (get record ''observed_at'') = Inr (Some t) \<and> u \<le> t)"
        unfolding title_keeps_def by blast
      with fields [OF this(2)] show "\<exists>i \<in> set rows. \<forall>k. ?keeps i c k" by blast
    qed
  qed
next
  case False
  with assms obtain cid where g: "guarded_write (logged service) auth [py_str cid] (mode = Resetting) (single_plan now mode record cid)
      (\<lambda>_. return_remote ()) (s, []) = (r, (s', log1))"
    by (auto simp: dismiss_stremio_def subscript_def bind_remote_def of_result_def split: option.splits if_splits)
  from items.written [OF this assms(2)] obtain rows cs s1 where w:
    "datastore_get service auth [py_str cid] False (mode = Resetting) s = (Inr rows, s1)" "get body ''changes'' = VList (map VDict cs)"
    "\<forall>c \<in> set cs. \<exists>i \<in> set rows. same_but (own_fields mode) (dismissal_fields mode) i c" by blast
  have fields: "?keeps i c k" if "same_but (own_fields mode) (dismissal_fields mode) i c" for i c k
    using that False by (auto simp: same_but_def own_fields_def dismissal_fields_def watched_fields_def split: if_splits)
  show ?thesis
  proof (intro exI conjI)
    show "datastore_get service auth [py_str cid] False (mode = Resetting) s = (Inr rows, s1)" "get body ''changes'' = VList (map VDict cs)"
      by (fact w)+
    show "\<forall>c \<in> set cs. \<exists>i \<in> set rows. \<forall>k. ?keeps i c k"
    proof
      fix c assume "c \<in> set cs"
      with w(3) obtain i where "i \<in> set rows" "same_but (own_fields mode) (dismissal_fields mode) i c" by blast
      with fields show "\<exists>i \<in> set rows. \<forall>k. ?keeps i c k" by blast
    qed
  qed
qed

section \<open>A stored position was read back\<close>

text \<open>When storing a position on Stremio returns, the account was last seen playing the title at that position: the item
  is visible, at the film or episode of the record, with its position and duration.\<close>

lemma push_stremio_progress_stored:
  assumes "push_stremio_progress service now auth record s = (Inr (), s')" "map_of record ''content_id'' = Some (VStr cid)"
  shows "\<exists>missing s1 i rest state. datastore_get service auth [cid] False missing s1 = (Inr (i # rest), s') \<and> state_of i = Inr state \<and>
    \<not> truthy (get i ''removed'') \<and> plays_video state record (VStr cid) = Inr True \<and>
    at_position state (get record ''position'') (get record ''duration'')"
proof -
  have cid: "py_str (VStr cid) = cid" by (simp add: py_str_def)
  obtain rows s1 cs where run: "datastore_get service auth [cid] False True s = (Inr rows, s1)"
    "progress_plan now record (VStr cid) rows = Inr cs"
    "(if cs = [] then return_remote () else bind_remote (datastore_put service auth cs)
       (\<lambda>_. bind_remote (datastore_get service auth [cid] False False) (progress_check record (VStr cid)))) s1 = (Inr (), s')"
    using assms by (auto simp: push_stremio_progress_def guarded_write_def subscript_def bind_remote_Inr cid cong: if_cong)
  show ?thesis
  proof (cases "cs = []")
    case True
    with run(3) have s1: "s1 = s'" by simp
    from run(2) True obtain i where i: "(case rows of i # _ \<Rightarrow> Inr i | [] \<Rightarrow> new_library_item record (iso_utc now) False) = Inr i"
      by (auto simp: progress_plan_def and_then_Inr_iff)
    from run(2) True i obtain state where st: "state_of i = Inr state" "plays_same state record (VStr cid) = Inr True" "\<not> truthy (get i ''removed'')"
      by (auto simp: progress_plan_def and_then_Inr_iff split: if_splits)
    have "rows \<noteq> []" using i st(3) by (auto simp: new_library_item_def get_def dict_get_def split: option.splits)
    with i obtain rest where "rows = i # rest" by (cases rows) auto
    moreover have "plays_video state record (VStr cid) = Inr True \<and> at_position state (get record ''position'') (get record ''duration'')"
      using st(2) by (auto simp: plays_same_def and_then_Inr_iff same_progress_def at_position_def Let_def)
    ultimately show ?thesis using run(1) s1 st by blast
  next
    case False
    with run(3) obtain s2 rows2 s3 where g: "datastore_get service auth [cid] False False s2 = (Inr rows2, s3)"
      "progress_check record (VStr cid) rows2 s3 = (Inr (), s')" by (auto simp: bind_remote_Inr)
    then obtain i where i: "rows2 = [i]" by (auto simp: progress_check_def split: list.splits)
    with g(2) obtain state p d video where c: "s3 = s'" "state_of i = Inr state" "\<not> truthy (get i ''removed'')"
      "get record ''season'' \<noteq> VNone \<longrightarrow> plays_video state record (VStr cid) = Inr True"
      "get record ''season'' = VNone \<longrightarrow> py_eq (get state ''video_id'') (VStr cid)"
      "subscript record ''position'' = Inr p" "subscript record ''duration'' = Inr d" "py_eq (get state ''timeOffset'') p" "py_eq (get state ''duration'') d"
      by (auto simp: progress_check_def bind_remote_Inr split: if_splits)
    have "get state ''video_id'' = VStr cid" if "get record ''season'' = VNone"
      using c(5) that by (auto simp: py_eq_def split: option.splits)
    then have "plays_video state record (VStr cid) = Inr True"
      using c(4) by (cases "get record ''season'' = VNone") (auto simp: plays_video_def text_of_def py_or_def py_str_def)
    moreover have "p = get record ''position''" "d = get record ''duration''"
      using c(6,7) by (auto simp: subscript_def get_def dict_get_def split: option.splits)
    ultimately show ?thesis using g(1) i c by (auto simp: at_position_def)
  qed
qed

text \<open>A film in the library of an account, whose position is stored.\<close>

definition sample_position :: pydict where
  "sample_position = [(''content_id'', VStr ''tt1''), (''position'', VInt 600), (''duration'', VInt 5400), (''observed_at'', VInt 1700000000)]"

definition sample_written :: "datetime \<Rightarrow> pydict" where
  "sample_written now = stamped now [(''timesWatched'', VInt 1), (''timeOffset'', VInt 600), (''duration'', VInt 5400), (''video_id'', VStr ''tt1'')] sample_film"

lemma sample_read:
  "datastore_get (logged sample_service) ''key'' [''tt1''] False True ([sample_film], []) = (Inr [sample_film], ([sample_film],
     [(''datastoreGet'', [(''authKey'', VStr ''key''), (''collection'', VStr ''libraryItem''), (''ids'', VList [VStr ''tt1'']), (''all'', VBool False)])]))"
  by code_simp

lemma sample_plan: "progress_plan now sample_position (VStr ''tt1'') [sample_film] = Inr [sample_written now]"
proof -
  have clocks: "modified_clock (VInt 1700000000) = Inr (Some 1700000000000000)" "modified_clock VNone = Inr None" by code_simp+
  have "other_kind sample_film sample_position = False" "plays_same [(''timesWatched'', VInt 1), (''timeOffset'', VInt 7)] sample_position (VStr ''tt1'') = Inr False"
    "state_of sample_film = Inr [(''timesWatched'', VInt 1), (''timeOffset'', VInt 7)]" "get sample_film ''_mtime'' = VNone"
    "progress_state [(''timesWatched'', VInt 1), (''timeOffset'', VInt 7)] sample_position (VStr ''tt1'')
      = Inr [(''timesWatched'', VInt 1), (''timeOffset'', VInt 600), (''duration'', VInt 5400), (''video_id'', VStr ''tt1'')]"
    "get sample_position ''observed_at'' = VInt 1700000000" "get sample_film ''removed'' = VBool False" by code_simp+
  moreover have "make_visible (sample_written now) = sample_written now"
    by (simp add: make_visible_def sample_written_def stamped_def sample_film_def)
  ultimately show ?thesis by (simp add: progress_plan_def clocks sample_written_def)
qed

lemma sample_put:
  "datastore_put (logged sample_service) ''key'' [c] (st, log1) = (Inr (), ([c], log1 @ [(''datastorePut'', [(''authKey'', VStr ''key''),
     (''collection'', VStr ''libraryItem''), (''changes'', VList [VDict c])])]))"
  by (simp add: datastore_put_def api_request_def bind_remote_def request_json_def logged_def sample_service_def json_of_def result_of_def
    require_def return_remote_def get_def dict_get_def List.map_filter_def list_or_empty_def)

lemma logged_grows: "emits (\<lambda>_. True) m \<Longrightarrow> m (s, log1) = (r, (s', log2)) \<Longrightarrow> set log1 \<subseteq> set log2"
  unfolding emits_def by fastforce

lemma sample_write:
  assumes "plan [sample_film] = Inr [c]" "\<And>cs. emits (\<lambda>_. True) (check cs)"
  shows "\<exists>r s' log1 body. guarded_write (logged sample_service) ''key'' [''tt1''] True plan check ([sample_film], []) = (r, (s', log1)) \<and>
    (''datastorePut'', body) \<in> set log1"
proof -
  let ?put = "(''datastorePut'', [(''authKey'', VStr ''key''), (''collection'', VStr ''libraryItem''), (''changes'', VList [VDict c])])"
  let ?l = "[(''datastoreGet'', [(''authKey'', VStr ''key''), (''collection'', VStr ''libraryItem''), (''ids'', VList [VStr ''tt1'']), (''all'', VBool False)])] @ [?put]"
  have "guarded_write (logged sample_service) ''key'' [''tt1''] True plan check ([sample_film], []) = check [c] ([c], ?l)"
    by (simp add: guarded_write_def bind_remote_def sample_read sample_put of_result_def assms(1))
  moreover obtain r s' log1 where "check [c] ([c], ?l) = (r, (s', log1))" by (metis prod.exhaust)
  moreover from logged_grows [OF assms(2) this] have "?put \<in> set log1" by simp
  ultimately show ?thesis by metis
qed


lemma dismiss_stremio_keeps_history_witness:
  "\<exists>r s' log1 body cs. dismiss_stremio (logged sample_service) 0 ''key'' [(''content_id'', VStr ''tt1'')] Resetting ([sample_film], []) = (r, (s', log1)) \<and>
     (''datastorePut'', body) \<in> set log1 \<and> get body ''changes'' = VList (map VDict cs)"
proof -
  let ?plan = "single_plan 0 Resetting [(''content_id'', VStr ''tt1'')] (VStr ''tt1'')"
  have dismiss: "dismiss_stremio (logged sample_service) 0 ''key'' [(''content_id'', VStr ''tt1'')] Resetting
      = guarded_write (logged sample_service) ''key'' [''tt1''] True ?plan (\<lambda>_. return_remote ())"
    by (simp add: dismiss_stremio_def subscript_def of_result_def bind_remote_def py_str_def fun_eq_iff)
  have facts: "state_of sample_film = Inr [(''timesWatched'', VInt 1), (''timeOffset'', VInt 7)]"
    "already_reset [(''timesWatched'', VInt 1), (''timeOffset'', VInt 7)] = False" "other_kind sample_film [(''content_id'', VStr ''tt1'')] = False"
    "changed_after_deletion sample_film [(''content_id'', VStr ''tt1'')] = Inr False" by code_simp+
  then obtain c where "?plan [sample_film] = Inr [c]" by (simp add: single_plan_def item_plan_def reset_plan_def)
  from sample_write [where plan = ?plan and check = "\<lambda>_. return_remote ()", OF this emits_pure(1)] obtain r s' log1 body where
    "dismiss_stremio (logged sample_service) 0 ''key'' [(''content_id'', VStr ''tt1'')] Resetting ([sample_film], []) = (r, (s', log1))"
    "(''datastorePut'', body) \<in> set log1" unfolding dismiss by blast
  note run = this
  from dismiss_stremio_keeps_history [OF run] obtain cs where "get body ''changes'' = VList (map VDict cs)"
    by (elim exE conjE) (rule that)
  with run show ?thesis by (intro exI conjI)
qed

lemma result_of_result: "result_of (VDict [(''result'', v)]) operation s = (Inr v, s)"
  by (simp add: result_of_def get_def dict_get_def)

lemma sample_reread:
  assumes "get c ''_id'' = VStr ''tt1''"
  shows "datastore_get sample_service ''key'' [''tt1''] False missing [c] = (Inr [c], [c])"
proof -
  have "api_request sample_service ''datastoreGet'' body operation [c] = (Inr (VList [VDict c]), [c])" for body operation
    by (simp add: api_request_def bind_remote_def request_json_def sample_service_def json_of_def result_of_result)
  moreover have "item_id c = ''tt1''" "truthy (get c ''_id'')" by (simp_all add: item_id_def py_str_def assms)
  ultimately show ?thesis by (simp add: datastore_get_def bind_remote_Inr List.map_filter_def Let_def)
qed

lemma push_stremio_progress_stored_witness:
  "\<exists>s' i state. push_stremio_progress sample_service 0 ''key'' sample_position [sample_film] = (Inr (), s') \<and>
     state_of i = Inr state \<and> at_position state (VInt 600) (VInt 5400)"
proof -
  let ?c = "sample_written 0"
  have c: "get ?c ''_id'' = VStr ''tt1''" "get ?c ''removed'' = VBool False" "get sample_film ''_id'' = VStr ''tt1''"
    "state_of ?c = Inr [(''timesWatched'', VInt 1), (''timeOffset'', VInt 600), (''duration'', VInt 5400), (''video_id'', VStr ''tt1'')]"
    by (simp_all add: sample_written_def stamped_def sample_film_def state_of_def get_def dict_get_def)
  have "datastore_put sample_service ''key'' [?c] [sample_film] = (Inr (), [?c])"
    by (simp add: datastore_put_def api_request_def bind_remote_def request_json_def sample_service_def json_of_def result_of_def
      require_def return_remote_def get_def dict_get_def List.map_filter_def list_or_empty_def)
  moreover have "progress_check sample_position (VStr ''tt1'') [?c] [?c] = (Inr (), [?c])"
  proof -
    let ?state = "[(''timesWatched'', VInt 1), (''timeOffset'', VInt 600), (''duration'', VInt 5400), (''video_id'', VStr ''tt1'')]"
    have "playback_date_confirmed (get sample_position ''last_watched'') (get ?state ''lastWatched'') = Inr True"
      "get sample_position ''season'' = VNone" "py_eq (get ?state ''video_id'') (VStr ''tt1'')" "subscript sample_position ''position'' = Inr (VInt 600)"
      "subscript sample_position ''duration'' = Inr (VInt 5400)" "py_eq (get ?state ''timeOffset'') (VInt 600)" "py_eq (get ?state ''duration'') (VInt 5400)"
      by code_simp+
    then show ?thesis by (simp add: progress_check_def c bind_remote_Inr) blast
  qed
  ultimately have run: "push_stremio_progress sample_service 0 ''key'' sample_position [sample_film] = (Inr (), [?c])"
    using sample_reread [OF c(3)] sample_reread [OF c(1)] sample_plan [of 0]
    by (simp add: push_stremio_progress_def subscript_def sample_position_def of_result_def bind_remote_def py_str_def guarded_write_def)
  have "map_of sample_position ''content_id'' = Some (VStr ''tt1'')" "get sample_position ''position'' = VInt 600"
    "get sample_position ''duration'' = VInt 5400" by code_simp+
  with push_stremio_progress_stored [OF run] run show ?thesis by metis
qed

end
