(* ===== verification/StreamQueue.thy ===== *)
theory StreamQueue
  imports StreamActions StremioPlayback
begin

text \<open>
  How playback actions are queued (\<open>core/stream_actions.py\<close>): a position accepted from one account for its peers
  (\<open>queue_progress_update\<close>), the removal of a title from Continue Watching (\<open>queue_dismissals\<close>,
  \<open>queue_local_dismissals\<close>), the return of a title to Watching (\<open>queue_restorations\<close>) and the reset of a deleted
  title (\<open>queue_resets\<close>).  \<open>now\<close> is \<open>datetime.now(timezone.utc)\<close>; accounts are taken in the order of their table.
\<close>

section \<open>Pending rows\<close>

definition add_stream_action :: "datetime \<Rightarrow> int \<Rightarrow> int \<Rightarrow> int \<Rightarrow> string \<Rightarrow> pydict \<Rightarrow> db \<Rightarrow> db" where
  "add_stream_action now user cid mid kind payload db =
     db\<lparr>stream_action_table := stream_action_table db @
       [\<lparr>sa_id = next_id sa_id (stream_action_table db), sa_user_id = user, sa_connection_id = cid, sa_media_id = mid, sa_action = kind,
          sa_payload = payload, sa_state = ''pending'', sa_attempts = 0, sa_last_error = None, sa_created_at = now\<rparr>]\<rparr>"

definition is_waiting :: "int \<Rightarrow> int \<Rightarrow> string \<Rightarrow> stream_action \<Rightarrow> bool" where
  "is_waiting cid mid kind a \<longleftrightarrow> sa_connection_id a = cid \<and> sa_media_id a = mid \<and> sa_action a = kind \<and> sa_state a = ''pending''"

definition waiting_action :: "db \<Rightarrow> int \<Rightarrow> int \<Rightarrow> string \<Rightarrow> stream_action option result" where
  "waiting_action db cid mid kind = scalar_one_or_none (filter (is_waiting cid mid kind) (stream_action_table db))"

definition renewed :: "pydict \<Rightarrow> stream_action \<Rightarrow> stream_action" where
  "renewed payload a = a\<lparr>sa_payload := payload, sa_attempts := 0, sa_last_error := None\<rparr>"

text \<open>A waiting row takes the new payload, otherwise a row is added.\<close>

definition coalesce :: "datetime \<Rightarrow> int \<Rightarrow> int \<Rightarrow> int \<Rightarrow> string \<Rightarrow> pydict \<Rightarrow> db \<Rightarrow> db result" where
  "coalesce now user cid mid kind payload db =
     and_then (waiting_action db cid mid kind) (\<lambda>found.
       Inr (case found of
              Some a \<Rightarrow> update_stream_action (sa_id a) (renewed payload) db
            | None \<Rightarrow> add_stream_action now user cid mid kind payload db))"

section \<open>Showing a series in Next Up\<close>

definition nuvio_title_ids :: "db \<Rightarrow> int \<Rightarrow> media \<Rightarrow> string list" where
  "nuvio_title_ids db cid m =
     (let b = stream_baseline_of db cid in provider_content_ids m b (cached_records b))"

definition primary_id :: "db \<Rightarrow> int \<Rightarrow> media \<Rightarrow> string list \<Rightarrow> string" where
  "primary_id db cid m ids =
     (case content_id_for_baseline (stream_baseline_of db cid) m None of
        Some p \<Rightarrow> if p \<in> set ids then p else hd ids
      | None \<Rightarrow> hd ids)"

definition title_payload :: "string \<Rightarrow> string list \<Rightarrow> string \<Rightarrow> media \<Rightarrow> pydict" where
  "title_payload primary ids kind m =
     [(''content_id'', VStr primary), (''content_ids'', VList (map VStr ids)), (''content_type'', VStr kind),
      (''tmdb_id'', opt_int (m_tmdb_id m)), (''imdb_id'', opt_str (imdb_id (Some (MediaEntity m))))]"

definition queue_next_up_show :: "datetime \<Rightarrow> int \<Rightarrow> media \<Rightarrow> connection \<Rightarrow> db \<Rightarrow> db result" where
  "queue_next_up_show now user m conn db =
     (let ids = nuvio_title_ids db (c_id conn) m in
      if m_media_type m \<noteq> Series \<or> c_type conn \<noteq> ''nuvio'' \<or> stream_baseline_of db (c_id conn) = None \<or> ids = [] then Inr db
      else coalesce now user (c_id conn) (m_id m) ''upsert''
             (title_payload (primary_id db (c_id conn) m ids) ids ''series'' m @ [(''next_up_only'', VBool True)]) db)"

definition queue_nuvio_next_up_show :: "datetime \<Rightarrow> int \<Rightarrow> media \<Rightarrow> connection list \<Rightarrow> db \<Rightarrow> db result" where
  "queue_nuvio_next_up_show now user m conns = fold_result (queue_next_up_show now user m) conns"

section \<open>A position from another account\<close>

definition mapped_keys :: "pydict \<Rightarrow> media \<Rightarrow> string list" where
  "mapped_keys mappings m = map fst (filter (\<lambda>(k, v). py_eq v (opt_int (m_tmdb_id m))) mappings)"

definition or_imdb :: "string list \<Rightarrow> string option \<Rightarrow> string list" where
  "or_imdb keys imdb = (if keys \<noteq> [] then keys else case imdb of None \<Rightarrow> [] | Some i \<Rightarrow> if i = [] then [] else [i])"

text \<open>The identifier under which the account has a resume, otherwise the first one.\<close>

definition resume_key :: "pydict \<Rightarrow> string list \<Rightarrow> string" where
  "resume_key progress keys = (case find (\<lambda>k. map_of progress k \<noteq> None) keys of Some k \<Rightarrow> k | None \<Rightarrow> hd keys)"

definition progress_clock :: "connection \<Rightarrow> pydict \<Rightarrow> datetime option result" where
  "progress_clock source record =
     provider_changed_at (if c_type source = ''nuvio''
       then [(''updated_at'', get record ''updated_at''), (''modified_at'', get record ''modified_at'')] else record)"

definition progress_payload :: "connection \<Rightarrow> media \<Rightarrow> datetime \<Rightarrow> string \<Rightarrow> pydict \<Rightarrow> pydict" where
  "progress_payload source m changed_at key record =
     dict_pop ''updated_at'' (dict_pop ''modified_at''
       (dict_set ''source_connection_id'' (VInt (c_id source)) (dict_set ''observed_at'' (VStr (iso_utc changed_at))
         (dict_set ''content_type'' (VStr (media_type_value (m_media_type m))) (dict_set ''content_id'' (VStr key) record)))))"

definition queue_position :: "datetime \<Rightarrow> connection \<Rightarrow> media \<Rightarrow> pydict \<Rightarrow> datetime \<Rightarrow> connection \<Rightarrow> db \<Rightarrow> db result" where
  "queue_position now source m record changed_at conn db =
     (case stream_baseline_of db (c_id conn) of
        None \<Rightarrow> Inr db
      | Some b \<Rightarrow>
        let keys = or_imdb (mapped_keys (snapshot_mappings (Some b)) m) (m_imdb_id m) in
        if \<not> sb_approved b \<or> keys = [] then Inr db
        else
          let payload = progress_payload source m changed_at (resume_key (snapshot_dict (sb_snapshot b) ''progress'') keys) record in
          and_then (waiting_action db (c_id conn) (m_id m) ''upsert'') (\<lambda>found.
            case found of
              None \<Rightarrow> Inr (add_stream_action now (c_user_id source) (c_id conn) (m_id m) ''upsert'' payload db)
            | Some a \<Rightarrow>
              and_then (provider_changed_at [(''updated_at'', get (sa_payload a) ''observed_at'')]) (\<lambda>previous.
                Inr (if (case previous of None \<Rightarrow> True | Some t \<Rightarrow> t \<le> changed_at)
                     then update_stream_action (sa_id a) (renewed payload) db else db))))"

text \<open>\<open>replay\<close> is the round being applied, if any: the sources of its decision on the position of a title.\<close>

definition position_targets :: "connection \<Rightarrow> int \<Rightarrow> (int \<Rightarrow> string set option) option \<Rightarrow> db \<Rightarrow> connection list" where
  "position_targets source mid replay db =
     filter (\<lambda>c. c_id c \<noteq> c_id source \<and> c_push_playback c \<and>
        \<not> (case replay of None \<Rightarrow> False | Some f \<Rightarrow> (case f mid of None \<Rightarrow> False | Some sources \<Rightarrow> connection_key (c_id c) \<in> sources)))
       (streams db (c_user_id source))"

definition queue_progress_update ::
  "datetime \<Rightarrow> (int \<Rightarrow> string set option) option \<Rightarrow> connection \<Rightarrow> media \<Rightarrow> pydict \<Rightarrow> db \<Rightarrow> db result" where
  "queue_progress_update now replay source m record db =
     and_then (progress_clock source record) (\<lambda>clock.
       case clock of
         None \<Rightarrow> Inr db
       | Some changed_at \<Rightarrow>
           and_then (if c_type source = ''nuvio'' \<and> c_push_playback source \<and> replay = None
                     then queue_nuvio_next_up_show now (c_user_id source) m [source] db else Inr db) (\<lambda>db1.
             fold_result (queue_position now source m record changed_at) (position_targets source (m_id m) replay db1) db1))"

section \<open>Identifiers of a title on Stremio\<close>

definition stremio_imdb_id :: "media \<Rightarrow> string option" where
  "stremio_imdb_id m =
     (let data = (case m_tmdb_data m of None \<Rightarrow> [] | Some d \<Rightarrow> d)
      in valid_imdb_id (py_or (py_or (opt_str (m_imdb_id m)) (external_imdb data)) (get data ''imdb_id'')))"

definition normalize_tmdb :: "pyval \<Rightarrow> string" where
  "normalize_tmdb v = (let s = strip (text_of v) in if starts_with ''tmdb:'' s then drop 5 s else s)"

definition note_id :: "string \<Rightarrow> string list \<Rightarrow> string list" where
  "note_id cid ids = (if cid \<in> set ids then ids else ids @ [cid])"

definition names_title :: "string \<Rightarrow> string \<Rightarrow> string \<Rightarrow> bool" where
  "names_title target imdb cid \<longleftrightarrow> cid = ''tmdb:'' @ target \<or> (cid = imdb \<and> imdb \<noteq> [])"

definition note_mapping :: "string \<Rightarrow> string \<times> pyval \<Rightarrow> string list \<Rightarrow> string list" where
  "note_mapping target kv ids =
     (if normalize_tmdb (snd kv) = target \<and> strip (fst kv) \<noteq> [] then note_id (strip (fst kv)) ids else ids)"

definition note_library :: "string \<Rightarrow> string \<Rightarrow> pydict \<Rightarrow> pyval \<Rightarrow> string list \<Rightarrow> string list" where
  "note_library target imdb mappings v ids =
     (let cid = strip (text_of v) in
      if (case map_of mappings cid of None \<Rightarrow> False | Some t \<Rightarrow> normalize_tmdb t = target) \<or> names_title target imdb cid
      then note_id cid ids else ids)"

definition note_row :: "string \<Rightarrow> string \<Rightarrow> string \<Rightarrow> pydict \<Rightarrow> pydict \<Rightarrow> string list \<Rightarrow> string list" where
  "note_row target imdb kind mappings row ids =
     (let cid = strip (text_of (get row ''content_id'')); row_kind = strip (text_of (get row ''content_type'')) in
      if row_kind \<noteq> [] \<and> row_kind \<noteq> kind then ids
      else if cid \<noteq> [] \<and> (normalize_tmdb (get mappings cid) = target
             \<or> normalize_tmdb (py_or (get row ''tmdb_id'') (get row ''tmdb'')) = target \<or> names_title target imdb cid)
      then note_id cid ids else ids)"

definition stremio_known_content_ids :: "media \<Rightarrow> pydict \<Rightarrow> string list" where
  "stremio_known_content_ids m snapshot =
     (let target = strip (text_of (opt_int (m_tmdb_id m))); imdb = (case stremio_imdb_id m of None \<Rightarrow> [] | Some i \<Rightarrow> i) in
      if target = [] then (if imdb = [] then [] else [imdb])
      else
        let mappings = snapshot_dict snapshot ''mappings'';
            known1 = fold (note_mapping target) mappings [];
            known2 = fold (note_library target imdb mappings) (list_or_empty (get snapshot ''library'')) known1;
            known3 = fold (note_row target imdb (media_type_value (m_media_type m)) mappings)
              (record_rows snapshot ''library'' @ record_rows snapshot ''watched'') known2
        in if known3 = [] \<and> imdb \<noteq> [] then [imdb] else known3)"

section \<open>Removing a title from Continue Watching\<close>

text \<open>The moment of the status of the entry, to be beaten by newer viewing.\<close>

definition status_clock :: "db \<Rightarrow> int \<Rightarrow> int \<Rightarrow> datetime option result" where
  "status_clock db user mid = and_then (entry_of db user mid) (\<lambda>e. Inr (case e of None \<Rightarrow> None | Some x \<Rightarrow> status_changed_at x))"

definition queue_nuvio_dismissal :: "datetime \<Rightarrow> int \<Rightarrow> media \<Rightarrow> int option \<Rightarrow> connection \<Rightarrow> db \<Rightarrow> db result" where
  "queue_nuvio_dismissal now user m visibility conn db =
     (let ids = nuvio_title_ids db (c_id conn) m in
      if ids = [] then Inr db
      else and_then (status_clock db user (m_id m)) (\<lambda>changed_at.
        let payload = title_payload (primary_id db (c_id conn) m ids) ids (media_type_value (m_media_type m)) m
              @ [(''observed_at'', case changed_at of None \<Rightarrow> VNone | Some t \<Rightarrow> VStr (iso_utc t))]
        in coalesce now user (c_id conn) (m_id m) ''dismiss''
             (if visibility = Some (c_id conn) \<or> \<not> c_push_playback conn then payload @ [(''visibility_only'', VBool True)] else payload) db))"

definition queue_stremio_title :: "datetime \<Rightarrow> int \<Rightarrow> media \<Rightarrow> connection \<Rightarrow> pydict \<Rightarrow> db \<Rightarrow> db result" where
  "queue_stremio_title now user m conn snapshot db =
     (case stremio_known_content_ids m snapshot of
        [] \<Rightarrow> Inr db
      | cid # rest \<Rightarrow>
          and_then (status_clock db user (m_id m)) (\<lambda>changed_at.
            coalesce now user (c_id conn) (m_id m) ''dismiss''
              [(''content_id'', VStr cid), (''content_ids'', VList (map VStr (cid # rest))),
               (''content_type'', VStr (media_type_value (m_media_type m))), (''title_dismissal'', VBool True),
               (''observed_at'', VStr (iso_utc (case changed_at of None \<Rightarrow> now | Some t \<Rightarrow> t)))] db))"

text \<open>The resumes the account holds for the title.\<close>

definition title_resumes :: "media \<Rightarrow> pydict \<Rightarrow> pydict list" where
  "title_resumes m snapshot =
     List.map_filter as_dict (map snd (filter (\<lambda>(k, v). py_eq (get (snapshot_dict snapshot ''mappings'') k) (opt_int (m_tmdb_id m)) \<and>
        py_eq (get (dict_or_empty v) ''content_type'') (VStr (media_type_value (m_media_type m)))) (snapshot_dict snapshot ''progress'')))"

definition queue_resume_dismissal :: "datetime \<Rightarrow> int \<Rightarrow> media \<Rightarrow> connection \<Rightarrow> pydict \<Rightarrow> db \<Rightarrow> db" where
  "queue_resume_dismissal now user m conn resume db =
     (if list_ex (is_waiting (c_id conn) (m_id m) ''dismiss'') (stream_action_table db) then db
      else add_stream_action now user (c_id conn) (m_id m) ''dismiss'' resume db)"

definition queue_dismissal :: "datetime \<Rightarrow> int \<Rightarrow> media \<Rightarrow> int option \<Rightarrow> connection \<Rightarrow> db \<Rightarrow> db result" where
  "queue_dismissal now user m visibility conn db =
     (if c_type conn = ''stremio'' \<and> \<not> c_push_playback conn then Inr db
      else if c_type conn = ''nuvio'' \<and> \<not> (c_push_watched conn \<or> c_push_playback conn) then Inr db
      else case stream_baseline_of db (c_id conn) of
        None \<Rightarrow> Inr db
      | Some b \<Rightarrow>
        if c_type conn = ''nuvio'' then queue_nuvio_dismissal now user m visibility conn db
        else if title_resumes m (sb_snapshot b) = [] then queue_stremio_title now user m conn (sb_snapshot b) db
        else Inr (fold (queue_resume_dismissal now user m conn) (title_resumes m (sb_snapshot b)) db))"

definition queue_title_dismissals :: "datetime \<Rightarrow> int \<Rightarrow> media \<Rightarrow> int option \<Rightarrow> int option \<Rightarrow> db \<Rightarrow> db result" where
  "queue_title_dismissals now user m excluded visibility db =
     fold_result (queue_dismissal now user m visibility) (filter (\<lambda>c. Some (c_id c) \<noteq> excluded) (streams db user)) db"

definition queue_dismissals :: "datetime \<Rightarrow> connection \<Rightarrow> media \<Rightarrow> db \<Rightarrow> db result" where
  "queue_dismissals now source m =
     (if c_type source = ''nuvio'' then queue_title_dismissals now (c_user_id source) m None (Some (c_id source))
      else queue_title_dismissals now (c_user_id source) m (Some (c_id source)) None)"

definition queue_local_dismissals :: "datetime \<Rightarrow> int \<Rightarrow> media \<Rightarrow> db \<Rightarrow> db result" where
  "queue_local_dismissals now user m = queue_title_dismissals now user m None None"

section \<open>Resetting a deleted title\<close>

definition reset_keys :: "db \<Rightarrow> media \<Rightarrow> connection \<Rightarrow> string list" where
  "reset_keys db m conn = or_imdb (first_seen (mapped_keys (snapshot_mappings (stream_baseline_of db (c_id conn))) m)) (m_imdb_id m)"

definition reset_payload :: "media \<Rightarrow> datetime \<Rightarrow> string \<Rightarrow> pydict" where
  "reset_payload m deleted_at key =
     [(''content_id'', VStr key), (''content_type'', VStr (media_type_value (m_media_type m))),
      (''deleted_at'', VStr (datetime_isoformat deleted_at @ ''+00:00''))]"

definition reset_targets :: "db \<Rightarrow> int \<Rightarrow> media \<Rightarrow> connection list" where
  "reset_targets db user m =
     filter (\<lambda>c. (c_push_watched c \<or> c_push_playback c) \<and> reset_keys db m c \<noteq> []) (streams db user)"

text \<open>The identifiers of one account are a set; they are queued here in the order of its mappings.\<close>

definition queue_resets :: "datetime \<Rightarrow> int \<Rightarrow> media \<Rightarrow> datetime \<Rightarrow> db \<Rightarrow> string list \<times> db" where
  "queue_resets now user m deleted_at db =
     (map (\<lambda>c. connection_key (c_id c)) (reset_targets db user m),
      fold (\<lambda>c. fold (\<lambda>key. add_stream_action now user (c_id c) (m_id m) ''reset'' (reset_payload m deleted_at key)) (reset_keys db m c))
        (reset_targets db user m) db)"

section \<open>Returning to Watching\<close>

text \<open>Episodes of the show in their order; those without a date count as released.\<close>

definition released_episodes :: "db \<Rightarrow> datetime \<Rightarrow> media \<Rightarrow> media list" where
  "released_episodes db now m =
     (let shows = map (\<lambda>s. Some (s_id s)) (filter (\<lambda>s. s_tmdb_id s = m_tmdb_id m) (show_table db));
          place = (\<lambda>e. (m_season_number e = None, m_season_number e, m_episode_number e = None, m_episode_number e, m_id e));
          today = isoformat (date_of now)
      in filter (\<lambda>e. case m_release_date e of None \<Rightarrow> True | Some d \<Rightarrow> d = [] \<or> d \<le> today)
           (sort_key place (filter (\<lambda>e. m_media_type e = Episode \<and> m_show_id e \<in> set shows) (media_table db))))"

definition seen_media :: "db \<Rightarrow> int \<Rightarrow> int set" where
  "seen_media db user = we_media_id ` {w \<in> set (watch_event_table db). we_user_id w = user \<and> we_completed w}"

text \<open>The film, or the next episode that was not watched, and whether any was.\<close>

definition resume_target :: "db \<Rightarrow> int \<Rightarrow> datetime \<Rightarrow> media \<Rightarrow> (media \<times> bool) option" where
  "resume_target db user now m =
     (if m_media_type m \<noteq> Series then Some (m, False)
      else case released_episodes db now m of
        [] \<Rightarrow> None
      | first # rest \<Rightarrow>
          let seen = seen_media db user; released = first # rest in
          Some (case find (\<lambda>e. m_id e \<notin> seen) released of Some e \<Rightarrow> e | None \<Rightarrow> first,
            list_ex (\<lambda>e. m_id e \<in> seen) released))"

record local_resume =
  lr_position :: int
  lr_duration :: int
  lr_target :: media
  lr_synthetic :: bool
  lr_watched :: bool

text \<open>A position stored since the status changed, otherwise one second.\<close>

definition fresh_position :: "datetime \<Rightarrow> tracked_entry \<Rightarrow> playback_progress option \<Rightarrow> (int \<times> rat) option" where
  "fresh_position now entry p =
     (case p of None \<Rightarrow> None
      | Some x \<Rightarrow>
        let cutoff = (case te_status_changed_at entry of None \<Rightarrow> now | Some t \<Rightarrow> t) in
        if (case pp_updated_at x of None \<Rightarrow> True | Some t \<Rightarrow> t < cutoff) then None
        else
          let pos = round_half_even (of_int (max 0 (pp_progress_seconds x)) * 1000) in
          if pos \<le> 0 \<or> pp_progress_percent x \<le> 0 then None else Some (pos, pp_progress_percent x))"

definition local_resume_record :: "db \<Rightarrow> int \<Rightarrow> datetime \<Rightarrow> media \<Rightarrow> tracked_entry \<Rightarrow> local_resume option result" where
  "local_resume_record db user now m entry =
     (case resume_target db user now m of
        None \<Rightarrow> Inr None
      | Some (target, watched) \<Rightarrow>
          and_then (scalar_one_or_none (filter (\<lambda>p. pp_user_id p = user \<and> pp_media_id p = m_id target) (progress_table db))) (\<lambda>p.
            let found = fresh_position now entry p; (pos, percent) = (case found of None \<Rightarrow> (1000, 1 / 100) | Some x \<Rightarrow> x)
            in Inr (Some \<lparr>lr_position = pos, lr_duration = duration_ms target pos percent, lr_target = target,
                 lr_synthetic = (found = None), lr_watched = watched\<rparr>)))"

definition show_of :: "db \<Rightarrow> media \<Rightarrow> media \<Rightarrow> show_row option" where
  "show_of db m target =
     (if m_media_type m = Series then (case m_show_id target of None \<Rightarrow> None | Some sid \<Rightarrow> find (\<lambda>s. s_id s = sid) (show_table db)) else None)"

text \<open>\<open>ensure_imdb_ids\<close> for the title to resume and its show.\<close>

definition ensure_target_imdb ::
  "(string \<Rightarrow> int \<Rightarrow> pydict option) \<Rightarrow> string option \<Rightarrow> datetime \<Rightarrow> media \<Rightarrow> show_row option \<Rightarrow> db \<Rightarrow> db" where
  "ensure_target_imdb external api_key now target s db =
     (if m_media_type target \<noteq> Episode then ensure_imdb_id external api_key now target None db
      else if api_key = None \<or> api_key = Some [] then db
      else case s of
        None \<Rightarrow> db
      | Some x \<Rightarrow>
        (case s_tmdb_id x of
           None \<Rightarrow> db
         | Some t \<Rightarrow>
           if t = 0 \<or> imdb_id (Some (ShowEntity x)) \<noteq> None then db
           else case external ''tv'' t of
             None \<Rightarrow> db
           | Some ids \<Rightarrow> (case valid_imdb_id (get ids ''imdb_id'') of None \<Rightarrow> db | Some imdb \<Rightarrow> store_imdb now imdb (ShowEntity x) db)))"

definition resolved_imdb :: "db \<Rightarrow> media \<Rightarrow> show_row option \<Rightarrow> string option" where
  "resolved_imdb db m s =
     imdb_id (case s of
       Some x \<Rightarrow> map_option ShowEntity (find (\<lambda>y. s_id y = s_id x) (show_table db))
     | None \<Rightarrow> map_option MediaEntity (find_media db (m_id m)))"

definition resume_record :: "datetime \<Rightarrow> media \<Rightarrow> connection \<Rightarrow> string \<Rightarrow> local_resume \<Rightarrow> pydict" where
  "resume_record now m conn cid r =
     (let series = m_media_type m = Series; season = m_season_number (lr_target r); episode = m_episode_number (lr_target r);
          place = (if series then Some (opt_int season, opt_int episode) else None);
          stamp = (if c_type conn = ''stremio'' then VStr (iso_utc now) else VInt (unix_ms now));
          base = [(''content_id'', VStr cid), (''content_type'', VStr (if series then ''series'' else ''movie'')),
            (''video_id'', VStr (place_video cid place)), (''title'', VStr (m_title m)),
            (''season'', if series then opt_int season else VNone), (''episode'', if series then opt_int episode else VNone),
            (''position'', VInt (lr_position r)), (''duration'', VInt (lr_duration r)), (''observed_at'', VStr (iso_utc now)),
            (''last_watched'', stamp), (''progress_key'', VStr (place_key cid place))]
      in if c_type conn = ''nuvio'' \<and> series \<and> lr_watched r \<and> lr_synthetic r
         then [(''content_id'', VStr cid), (''content_type'', VStr ''series''), (''next_up_only'', VBool True)]
         else if c_type conn = ''nuvio'' \<and> lr_synthetic r then base @ [(''synthetic_resume'', VBool True)] else base)"

text \<open>The resumes the account offered to store again are superseded.\<close>

definition drop_offers :: "media \<Rightarrow> pydict \<Rightarrow> pydict" where
  "drop_offers m snapshot =
     (let stale = (\<lambda>k. py_eq (get (snapshot_dict snapshot ''mappings'') k) (opt_int (m_tmdb_id m)));
          resume = snapshot_dict snapshot ''resume''
      in if list_ex (\<lambda>(k, v). stale k) resume then dict_set ''resume'' (VDict (filter (\<lambda>(k, v). \<not> stale k) resume)) snapshot else snapshot)"

definition restoration_keys :: "media \<Rightarrow> string option \<Rightarrow> stream_baseline \<Rightarrow> string list" where
  "restoration_keys m imdb b = or_imdb (if m_tmdb_id m = None then [] else mapped_keys (snapshot_mappings (Some b)) m) imdb"

definition store_resume :: "datetime \<Rightarrow> int \<Rightarrow> media \<Rightarrow> local_resume \<Rightarrow> string \<Rightarrow> connection \<Rightarrow> db \<Rightarrow> db result" where
  "store_resume now user m r cid conn db =
     and_then (coalesce now user (c_id conn) (m_id m) ''upsert'' (resume_record now m conn cid r) db) (\<lambda>db1.
       Inr (update_baseline (c_id conn) (drop_offers m) db1))"

definition queue_restoration :: "datetime \<Rightarrow> int \<Rightarrow> media \<Rightarrow> local_resume \<Rightarrow> string option \<Rightarrow> connection \<Rightarrow> db \<Rightarrow> db result" where
  "queue_restoration now user m r imdb conn db =
     (if c_type conn = ''nuvio'' \<and> \<not> c_push_playback conn then queue_next_up_show now user m conn db
      else case stream_baseline_of db (c_id conn) of
        None \<Rightarrow> Inr db
      | Some b \<Rightarrow>
        if \<not> sb_approved b \<or> restoration_keys m imdb b = [] then Inr db
        else store_resume now user m r (resume_key (snapshot_dict (sb_snapshot b) ''progress'') (restoration_keys m imdb b)) conn db)"

definition restoration_targets :: "db \<Rightarrow> int \<Rightarrow> connection list" where
  "restoration_targets db user =
     filter (\<lambda>c. c_push_playback c \<or> (c_type c = ''nuvio'' \<and> c_push_watched c)) (streams db user)"

definition cancel_waiting :: "int \<Rightarrow> int \<Rightarrow> string \<Rightarrow> (int \<Rightarrow> bool) \<Rightarrow> db \<Rightarrow> db" where
  "cancel_waiting user mid kind among db =
     db\<lparr>stream_action_table := update_where (\<lambda>a. sa_user_id a = user \<and> sa_media_id a = mid \<and> sa_action a = kind
          \<and> sa_state a = ''pending'' \<and> among (sa_connection_id a)) cancel_stream (stream_action_table db)\<rparr>"

definition restore_everywhere ::
  "(string \<Rightarrow> int \<Rightarrow> pydict option) \<Rightarrow> string option \<Rightarrow> datetime \<Rightarrow> int \<Rightarrow> media \<Rightarrow> connection list \<Rightarrow> local_resume option \<Rightarrow> db \<Rightarrow> db result" where
  "restore_everywhere external api_key now user m targets r db =
     (case r of
        None \<Rightarrow> queue_nuvio_next_up_show now user m targets db
      | Some x \<Rightarrow>
          let s = show_of db m (lr_target x); db1 = ensure_target_imdb external api_key now (lr_target x) s db
          in fold_result (queue_restoration now user m x (resolved_imdb db1 m s)) targets db1)"

definition queue_restorations ::
  "(string \<Rightarrow> int \<Rightarrow> pydict option) \<Rightarrow> string option \<Rightarrow> datetime \<Rightarrow> int \<Rightarrow> media \<Rightarrow> db \<Rightarrow> db result" where
  "queue_restorations external api_key now user m db =
     (let db1 = cancel_waiting user (m_id m) ''restore'' (\<lambda>_. True) db; targets = restoration_targets db1 user;
          db2 = cancel_waiting user (m_id m) ''dismiss'' (\<lambda>cid. cid \<in> c_id ` set targets) db1 in
      and_then (entry_of db1 user (m_id m)) (\<lambda>entry.
        case entry of
          None \<Rightarrow> Inr db1
        | Some e \<Rightarrow>
          if te_status e \<noteq> ''watching'' then Inr db1
          else and_then (local_resume_record db2 user now m e) (\<lambda>r. restore_everywhere external api_key now user m targets r db2)))"

end
