(* ===== verification/StreamQueueing.thy ===== *)
theory StreamQueueing
  imports StreamQueue StreamDispatch
begin

text \<open>
  What queueing playback actions guarantees: at most one waiting row per account, title and kind of action; a position is
  queued only for the peers of its source and never over a newer one; a title that returns to Watching keeps no
  dismissal; the position that is stored lies within the title.
\<close>

section \<open>One waiting row\<close>

definition waiting_ok :: "db \<Rightarrow> bool" where
  "waiting_ok db \<longleftrightarrow> distinct (map sa_id (stream_action_table db)) \<and>
     (\<forall>cid mid. \<forall>kind \<in> {''dismiss'', ''upsert''}. length (filter (is_waiting cid mid kind) (stream_action_table db)) \<le> 1)"

lemma waiting_action_ok:
  assumes "waiting_ok db" "kind \<in> {''dismiss'', ''upsert''}"
  shows "\<exists>found. waiting_action db cid mid kind = Inr found"
proof -
  have "length (filter (is_waiting cid mid kind) (stream_action_table db)) \<le> 1" using assms by (auto simp: waiting_ok_def)
  then have "is_ok (waiting_action db cid mid kind)" unfolding waiting_action_def scalar_one_or_none_ok .
  then show ?thesis by (cases "waiting_action db cid mid kind") auto
qed

lemma waiting_action_None: "waiting_action db cid mid kind = Inr None \<Longrightarrow> filter (is_waiting cid mid kind) (stream_action_table db) = []"
  by (simp add: waiting_action_def)

lemma waiting_action_Some:
  "waiting_action db cid mid kind = Inr (Some a) \<Longrightarrow> filter (is_waiting cid mid kind) (stream_action_table db) = [a]"
  by (simp add: waiting_action_def scalar_one_or_none_Some)

text \<open>Waiting rows may disappear or change their payload, nothing else.\<close>

lemma waiting_ok_update:
  assumes "waiting_ok db" "\<And>a. sa_id (f a) = sa_id a" "\<And>a cid mid kind. is_waiting cid mid kind (f a) \<Longrightarrow> is_waiting cid mid kind a"
  shows "waiting_ok (db\<lparr>stream_action_table := update_where P f (stream_action_table db)\<rparr>)"
proof -
  have "map sa_id (update_where P f rows) = map sa_id rows" for rows by (simp add: update_where_def assms(2))
  moreover have le: "length (filter (is_waiting cid mid kind) (update_where P f rows)) \<le> length (filter (is_waiting cid mid kind) rows)" for cid mid kind rows
    by (induction rows) (auto simp: update_where_def dest: assms(3))
  moreover have "length (filter (is_waiting cid mid kind) (update_where P f (stream_action_table db))) \<le> 1"
    if "kind \<in> {''dismiss'', ''upsert''}" for cid mid kind
  proof -
    have "length (filter (is_waiting cid mid kind) (stream_action_table db)) \<le> 1" using that assms(1) by (auto simp: waiting_ok_def)
    with le [of cid mid kind "stream_action_table db"] show ?thesis by (rule order_trans)
  qed
  ultimately show ?thesis using assms(1) unfolding waiting_ok_def by simp
qed

lemma waiting_ok_renew: "waiting_ok db \<Longrightarrow> waiting_ok (update_stream_action aid (renewed payload) db)"
  unfolding update_stream_action_def by (rule waiting_ok_update) (auto simp: renewed_def is_waiting_def)

lemma waiting_ok_cancel: "waiting_ok db \<Longrightarrow> waiting_ok (cancel_waiting user mid kind among db)"
  unfolding cancel_waiting_def by (rule waiting_ok_update) (auto simp: cancel_stream_def is_waiting_def)

lemma waiting_ok_add:
  assumes "waiting_ok db" "kind \<in> {''dismiss'', ''upsert''} \<Longrightarrow> filter (is_waiting cid mid kind) (stream_action_table db) = []"
  shows "waiting_ok (add_stream_action now user cid mid kind payload db)"
proof -
  have "next_id sa_id (stream_action_table db) \<notin> sa_id ` set (stream_action_table db)" by (rule next_id_not_in)
  moreover have "length (filter (is_waiting cid' mid' kind') (stream_action_table db)) \<le> 1" if "kind' \<in> {''dismiss'', ''upsert''}" for cid' mid' kind'
    using assms(1) that by (auto simp: waiting_ok_def)
  ultimately show ?thesis using assms by (auto simp: waiting_ok_def add_stream_action_def is_waiting_def)
qed

lemma waiting_ok_coalesce:
  assumes "waiting_ok db" "coalesce now user cid mid kind payload db = Inr db'" shows "waiting_ok db'"
proof -
  obtain found where found: "waiting_action db cid mid kind = Inr found" using assms(2) by (auto simp: coalesce_def and_then_Inr_iff)
  show ?thesis
  proof (cases found)
    case None
    with found have "filter (is_waiting cid mid kind) (stream_action_table db) = []" by (simp add: waiting_action_None)
    with None assms found show ?thesis by (auto simp: coalesce_def intro!: waiting_ok_add)
  next
    case (Some a)
    with assms found show ?thesis by (auto simp: coalesce_def intro!: waiting_ok_renew)
  qed
qed

lemma waiting_ok_same: "stream_action_table db' = stream_action_table db \<Longrightarrow> waiting_ok db' = waiting_ok db"
  by (simp add: waiting_ok_def)

lemma waiting_ok_baseline [simp]: "waiting_ok (update_baseline cid f db) = waiting_ok db"
  by (rule waiting_ok_same) (simp add: update_baseline_def)

lemma actions_ensure_imdb [simp]: "stream_action_table (ensure_target_imdb external key now m s db) = stream_action_table db"
proof -
  have store: "stream_action_table (store_imdb now i e db) = stream_action_table db" for i e by (cases e) (simp_all add: store_imdb_def)
  then have "stream_action_table (ensure_imdb_id external key now m t db) = stream_action_table db" for t
    unfolding ensure_imdb_id_def Let_def by (simp split: option.split)
  with store show ?thesis unfolding ensure_target_imdb_def by (simp split: option.split)
qed

lemma waiting_ok_ensure [simp]: "waiting_ok (ensure_target_imdb external key now m s db) = waiting_ok db"
  by (rule waiting_ok_same) simp

lemma waiting_ok_next_up: "waiting_ok db \<Longrightarrow> queue_next_up_show now user m conn db = Inr db' \<Longrightarrow> waiting_ok db'"
  by (auto simp: queue_next_up_show_def Let_def split: if_splits intro: waiting_ok_coalesce)

lemma queue_position_cases:
  assumes "queue_position now source m r t conn db = Inr db'"
  obtains (same) "db' = db"
  | (added) b key where "stream_baseline_of db (c_id conn) = Some b" "sb_approved b"
      "filter (is_waiting (c_id conn) (m_id m) ''upsert'') (stream_action_table db) = []"
      "db' = add_stream_action now (c_user_id source) (c_id conn) (m_id m) ''upsert'' (progress_payload source m t key r) db"
  | (replaced) b key a where "stream_baseline_of db (c_id conn) = Some b" "sb_approved b"
      "filter (is_waiting (c_id conn) (m_id m) ''upsert'') (stream_action_table db) = [a]"
      "\<And>p. provider_changed_at [(''updated_at'', get (sa_payload a) ''observed_at'')] = Inr (Some p) \<Longrightarrow> p \<le> t"
      "db' = update_stream_action (sa_id a) (renewed (progress_payload source m t key r)) db"
proof (cases "stream_baseline_of db (c_id conn)")
  case None
  with assms same show ?thesis by (simp add: queue_position_def)
next
  case (Some b)
  let ?keys = "or_imdb (mapped_keys (snapshot_mappings (Some b)) m) (m_imdb_id m)"
  show ?thesis
  proof (cases "\<not> sb_approved b \<or> ?keys = []")
    case True
    with assms Some same show ?thesis by (simp add: queue_position_def Let_def)
  next
    case False
    with assms Some obtain found where found: "waiting_action db (c_id conn) (m_id m) ''upsert'' = Inr found"
      by (auto simp: queue_position_def Let_def and_then_Inr_iff)
    show ?thesis
    proof (cases found)
      case None
      with found assms Some False added show ?thesis by (auto simp: queue_position_def Let_def waiting_action_None)
    next
      case (Some a)
      with found have waits: "filter (is_waiting (c_id conn) (m_id m) ''upsert'') (stream_action_table db) = [a]" by (simp add: waiting_action_Some)
      with Some found assms \<open>stream_baseline_of db (c_id conn) = Some b\<close> False obtain previous where
        "provider_changed_at [(''updated_at'', get (sa_payload a) ''observed_at'')] = Inr previous"
        "db' = (if (case previous of None \<Rightarrow> True | Some p \<Rightarrow> p \<le> t) then update_stream_action (sa_id a)
           (renewed (progress_payload source m t (resume_key (snapshot_dict (sb_snapshot b) ''progress'') ?keys) r)) db else db)"
        by (auto simp: queue_position_def Let_def and_then_Inr_iff)
      note result = this
      show ?thesis
      proof (cases "case previous of None \<Rightarrow> True | Some p \<Rightarrow> p \<le> t")
        case True
        with result(2) have "db' = update_stream_action (sa_id a)
           (renewed (progress_payload source m t (resume_key (snapshot_dict (sb_snapshot b) ''progress'') ?keys) r)) db" by simp
        from replaced [OF \<open>stream_baseline_of db (c_id conn) = Some b\<close> _ waits _ this] False True result(1) show ?thesis by (simp split: option.splits)
      next
        case False
        with result(2) same show ?thesis by simp
      qed
    qed
  qed
qed

lemma waiting_ok_position: "waiting_ok db \<Longrightarrow> queue_position now source m r t conn db = Inr db' \<Longrightarrow> waiting_ok db'"
  by (erule queue_position_cases) (simp_all add: waiting_ok_add waiting_ok_renew)

lemma waiting_ok_resume: "waiting_ok db \<Longrightarrow> waiting_ok (queue_resume_dismissal now user m conn r db)"
proof (cases "list_ex (is_waiting (c_id conn) (m_id m) ''dismiss'') (stream_action_table db)")
  case False
  then have "filter (is_waiting (c_id conn) (m_id m) ''dismiss'') (stream_action_table db) = []" by (simp add: list_ex_iff filter_empty_conv)
  with False show "waiting_ok db \<Longrightarrow> ?thesis" by (simp add: queue_resume_dismissal_def waiting_ok_add)
qed (simp add: queue_resume_dismissal_def)

lemma waiting_ok_nuvio: "waiting_ok db \<Longrightarrow> queue_nuvio_dismissal now user m vis conn db = Inr db' \<Longrightarrow> waiting_ok db'"
  by (auto simp: queue_nuvio_dismissal_def Let_def and_then_Inr_iff split: if_splits intro: waiting_ok_coalesce)

lemma waiting_ok_title: "waiting_ok db \<Longrightarrow> queue_stremio_title now user m conn snapshot db = Inr db' \<Longrightarrow> waiting_ok db'"
  by (auto simp: queue_stremio_title_def and_then_Inr_iff split: list.splits intro: waiting_ok_coalesce)

lemma waiting_ok_dismissal:
  assumes "waiting_ok db" "queue_dismissal now user m vis conn db = Inr db'" shows "waiting_ok db'"
proof -
  have "waiting_ok (fold (queue_resume_dismissal now user m conn) rs db)" for rs
    using assms(1) by (induction rs arbitrary: db) (auto intro: waiting_ok_resume)
  with assms show ?thesis unfolding queue_dismissal_def
    by (auto split: option.splits if_splits intro: waiting_ok_nuvio waiting_ok_title)
qed

lemma queue_restoration_cases:
  assumes "queue_restoration now user m r imdb conn db = Inr db'"
  shows "db' = db \<or> (\<exists>cid. store_resume now user m r cid conn db = Inr db') \<or> queue_next_up_show now user m conn db = Inr db'"
proof (cases "c_type conn = ''nuvio'' \<and> \<not> c_push_playback conn")
  case True
  with assms show ?thesis by (simp add: queue_restoration_def)
next
  case False
  show ?thesis
  proof (cases "stream_baseline_of db (c_id conn)")
    case None
    with assms False show ?thesis by (simp add: queue_restoration_def)
  next
    case (Some b)
    let ?cid = "resume_key (snapshot_dict (sb_snapshot b) ''progress'') (restoration_keys m imdb b)"
    have "queue_restoration now user m r imdb conn db =
        (if \<not> sb_approved b \<or> restoration_keys m imdb b = [] then Inr db else store_resume now user m r ?cid conn db)"
      unfolding queue_restoration_def Some option.case using False by (rule if_not_P)
    with assms show ?thesis by (cases "\<not> sb_approved b \<or> restoration_keys m imdb b = []") (simp, metis)
  qed
qed

lemma waiting_ok_store: "waiting_ok db \<Longrightarrow> store_resume now user m r cid conn db = Inr db' \<Longrightarrow> waiting_ok db'"
  by (auto simp: store_resume_def and_then_Inr_iff dest: waiting_ok_coalesce)

lemma waiting_ok_restoration: "waiting_ok db \<Longrightarrow> queue_restoration now user m r imdb conn db = Inr db' \<Longrightarrow> waiting_ok db'"
  using queue_restoration_cases waiting_ok_store waiting_ok_next_up by metis

lemma fold_waiting: "fold_result step xs db = Inr db' \<Longrightarrow> waiting_ok db \<Longrightarrow>
    (\<And>x d d'. waiting_ok d \<Longrightarrow> step x d = Inr d' \<Longrightarrow> waiting_ok d') \<Longrightarrow> waiting_ok db'"
  by (rule fold_result_invariant [where P = waiting_ok]) auto

lemma reset_waiting:
  assumes "waiting_ok db"
  shows "waiting_ok (add_stream_action now user cid mid ''reset'' payload db)"
  by (rule waiting_ok_add [OF assms]) simp

lemma fold_resets_waiting: "waiting_ok db \<Longrightarrow> waiting_ok (fold (\<lambda>key. add_stream_action now user cid mid ''reset'' (p key)) keys db)"
proof (induction keys arbitrary: db)
  case (Cons key keys)
  show ?case unfolding fold_Cons comp_apply by (rule Cons.IH) (rule reset_waiting [OF Cons.prems])
qed simp

lemma fold_rows_waiting:
  "waiting_ok db \<Longrightarrow>
    waiting_ok (fold (\<lambda>c. fold (\<lambda>key. add_stream_action now user (c_id c) mid ''reset'' (p key)) (keys c)) cs db)"
proof (induction cs arbitrary: db)
  case (Cons c cs)
  show ?case unfolding fold_Cons comp_apply by (rule Cons.IH) (rule fold_resets_waiting [OF Cons.prems])
qed simp

text \<open>C17: However playback actions are queued, at most one dismissal and one stored position wait for an account and a
  title, so that no operation that looks for the waiting row can fail, and a retry delivers the latest request only.\<close>

theorem queueing_keeps_waiting_unique:
  assumes "waiting_ok db"
    and "queue_progress_update now replay source m changes db = Inr db' \<or> queue_dismissals now source m db = Inr db' \<or>
      queue_local_dismissals now user m db = Inr db' \<or> queue_restorations external api_key now user m db = Inr db' \<or>
      queue_resets now user m deleted_at db = (targets, db')"
  shows "distinct (map sa_id (stream_action_table db')) \<and>
    (\<forall>cid mid. \<forall>kind \<in> {''dismiss'', ''upsert''}. \<exists>found. waiting_action db' cid mid kind = Inr found)"
proof -
  have dismissals: "waiting_ok d'" if "queue_title_dismissals now u m excl vis db = Inr d'" for u excl vis d'
    using that assms(1) unfolding queue_title_dismissals_def by (rule fold_waiting) (rule waiting_ok_dismissal)
  have shows_ok: "waiting_ok d'" if "waiting_ok d" "queue_nuvio_next_up_show now u m conns d = Inr d'" for u conns d d'
    using that(2,1) unfolding queue_nuvio_next_up_show_def by (rule fold_waiting) (rule waiting_ok_next_up)
  from assms(2) have "waiting_ok db'"
  proof (elim disjE)
    assume q: "queue_progress_update now replay source m changes db = Inr db'"
    then obtain clock where clock: "progress_clock source changes = Inr clock" by (auto simp: queue_progress_update_def and_then_Inr_iff)
    show ?thesis
    proof (cases clock)
      case None
      with q clock assms(1) show ?thesis by (simp add: queue_progress_update_def)
    next
      case (Some t)
      with q clock obtain db1 where db1: "(if c_type source = ''nuvio'' \<and> c_push_playback source \<and> replay = None
          then queue_nuvio_next_up_show now (c_user_id source) m [source] db else Inr db) = Inr db1"
        "fold_result (queue_position now source m changes t) (position_targets source (m_id m) replay db1) db1 = Inr db'"
        by (auto simp only: queue_progress_update_def and_then_simps and_then_Inr_iff option.case)
      have "waiting_ok db1" using db1(1) shows_ok [OF assms(1)] assms(1) by (auto split: if_splits)
      with db1(2) show ?thesis by (rule fold_waiting) (rule waiting_ok_position)
    qed
  next
    assume "queue_dismissals now source m db = Inr db'"
    then show ?thesis by (auto simp: queue_dismissals_def split: if_splits intro: dismissals)
  next
    assume "queue_local_dismissals now user m db = Inr db'"
    then show ?thesis by (auto simp: queue_local_dismissals_def intro: dismissals)
  next
    assume q: "queue_restorations external api_key now user m db = Inr db'"
    let ?db1 = "cancel_waiting user (m_id m) ''restore'' (\<lambda>_. True) db"
    let ?db2 = "cancel_waiting user (m_id m) ''dismiss'' (\<lambda>cid. cid \<in> c_id ` set (restoration_targets ?db1 user)) ?db1"
    have ok: "waiting_ok ?db1" "waiting_ok ?db2" using assms(1) by (simp_all add: waiting_ok_cancel)
    have everywhere: "waiting_ok db'" if "restore_everywhere external api_key now user m targets r ?db2 = Inr db'" for targets r
    proof (cases r)
      case None
      with that ok(2) show ?thesis by (auto simp: restore_everywhere_def intro: shows_ok)
    next
      case (Some x)
      let ?s = "show_of ?db2 m (lr_target x)"
      have start: "waiting_ok (ensure_target_imdb external api_key now (lr_target x) ?s ?db2)" using ok(2) by simp
      from that Some have "fold_result (queue_restoration now user m x
          (resolved_imdb (ensure_target_imdb external api_key now (lr_target x) ?s ?db2) m ?s)) targets
          (ensure_target_imdb external api_key now (lr_target x) ?s ?db2) = Inr db'" by (simp add: restore_everywhere_def Let_def)
      from this start show ?thesis by (rule fold_waiting) (rule waiting_ok_restoration)
    qed
    from q obtain entry where entry: "entry_of ?db1 user (m_id m) = Inr entry" by (auto simp: queue_restorations_def Let_def and_then_Inr_iff)
    show ?thesis
    proof (cases "\<exists>e. entry = Some e \<and> te_status e = ''watching''")
      case True
      then obtain e where e: "entry = Some e" "te_status e = ''watching''" by blast
      have "queue_restorations external api_key now user m db = and_then (local_resume_record ?db2 user now m e)
          (\<lambda>r. restore_everywhere external api_key now user m (restoration_targets ?db1 user) r ?db2)"
        unfolding queue_restorations_def Let_def entry e(1) and_then_simps option.case e(2) by simp
      from q [unfolded this] obtain r where "restore_everywhere external api_key now user m (restoration_targets ?db1 user) r ?db2 = Inr db'"
        unfolding and_then_Inr_iff by blast
      then show ?thesis by (rule everywhere)
    next
      case False
      have "queue_restorations external api_key now user m db = Inr ?db1"
      proof (cases entry)
        case None
        show ?thesis unfolding queue_restorations_def Let_def entry None and_then_simps option.case ..
      next
        case (Some e)
        with False have "te_status e \<noteq> ''watching''" by blast
        then show ?thesis unfolding queue_restorations_def Let_def entry Some and_then_simps option.case by simp
      qed
      from trans [OF sym [OF this] q] have "?db1 = db'" by (rule sum.inject(2) [THEN iffD1])
      with ok show ?thesis by simp
    qed
  next
    assume "queue_resets now user m deleted_at db = (targets, db')"
    with assms(1) show ?thesis by (auto simp: queue_resets_def intro!: fold_rows_waiting)
  qed
  then show ?thesis using waiting_action_ok by (auto simp: waiting_ok_def)
qed

section \<open>A title that returns to Watching\<close>

text \<open>Storing positions adds and renews waiting rows of that kind for the title; every other row stays as it was.\<close>

definition only_stores :: "int \<Rightarrow> db \<Rightarrow> db \<Rightarrow> bool" where
  "only_stores mid db db' \<longleftrightarrow> (\<forall>a \<in> set (stream_action_table db').
     a \<in> set (stream_action_table db) \<or> (\<exists>cid. is_waiting cid mid ''upsert'' a))"

lemma only_stores_refl [simp]: "only_stores mid db db"
  by (simp add: only_stores_def)

lemma only_stores_trans: "only_stores mid db db1 \<Longrightarrow> only_stores mid db1 db2 \<Longrightarrow> only_stores mid db db2"
  unfolding only_stores_def by blast

lemma renewed_rows:
  assumes "waiting_ok db" "filter (is_waiting cid mid kind) (stream_action_table db) = [a]"
    and "x \<in> set (stream_action_table (update_stream_action (sa_id a) (renewed payload) db))"
  shows "x \<in> set (stream_action_table db) \<or> (x = renewed payload a \<and> is_waiting cid mid kind x)"
proof -
  have a: "a \<in> set (stream_action_table db)" "is_waiting cid mid kind a"
    using filter_eq_ConsD [OF assms(2)] by auto
  from assms(3) obtain y where y: "y \<in> set (stream_action_table db)" "x = (if sa_id y = sa_id a then renewed payload y else y)"
    by (auto simp: update_stream_action_def update_where_def)
  have "y = a" if "sa_id y = sa_id a"
    using assms(1) a(1) y(1) that by (simp add: waiting_ok_def distinct_map inj_on_def)
  with a y show ?thesis by (auto simp: renewed_def is_waiting_def)
qed

lemma coalesce_rows:
  assumes "waiting_ok db" "coalesce now user cid mid kind payload db = Inr db'" "x \<in> set (stream_action_table db')"
  shows "x \<in> set (stream_action_table db) \<or> (is_waiting cid mid kind x \<and> sa_payload x = payload)"
proof -
  obtain found where found: "waiting_action db cid mid kind = Inr found" using assms(2) by (auto simp: coalesce_def and_then_Inr_iff)
  show ?thesis
  proof (cases found)
    case None
    with found assms(2,3) show ?thesis by (auto simp: coalesce_def add_stream_action_def is_waiting_def)
  next
    case (Some a)
    with found have "filter (is_waiting cid mid kind) (stream_action_table db) = [a]" by (simp add: waiting_action_Some)
    moreover have "db' = update_stream_action (sa_id a) (renewed payload) db" using found Some assms(2) by (simp add: coalesce_def)
    ultimately have "x \<in> set (stream_action_table db) \<or> (x = renewed payload a \<and> is_waiting cid mid kind x)"
      using renewed_rows [OF assms(1)] assms(3) by blast
    then show ?thesis by (auto simp: renewed_def)
  qed
qed

lemma coalesce_stores: "waiting_ok db \<Longrightarrow> coalesce now user cid mid ''upsert'' payload db = Inr db' \<Longrightarrow> only_stores mid db db'"
  unfolding only_stores_def using coalesce_rows by blast

lemma actions_baseline [simp]: "stream_action_table (update_baseline cid f db) = stream_action_table db"
  by (simp add: update_baseline_def)

lemma only_stores_same: "stream_action_table db2 = stream_action_table db1 \<Longrightarrow> only_stores mid db db2 = only_stores mid db db1"
  by (simp add: only_stores_def)

lemma next_up_stores: "waiting_ok db \<Longrightarrow> queue_next_up_show now user m conn db = Inr db' \<Longrightarrow> only_stores (m_id m) db db'"
  by (auto simp: queue_next_up_show_def Let_def split: if_splits intro: coalesce_stores)

lemma resume_stores:
  assumes "waiting_ok db" "store_resume now user m r cid conn db = Inr db'"
  shows "only_stores (m_id m) db db'"
proof -
  from assms(2) obtain db1 where "coalesce now user (c_id conn) (m_id m) ''upsert'' (resume_record now m conn cid r) db = Inr db1"
    "db' = update_baseline (c_id conn) (drop_offers m) db1" by (auto simp: store_resume_def and_then_Inr_iff)
  with coalesce_stores [OF assms(1) this(1)] show ?thesis by (simp add: only_stores_def)
qed

lemma restoration_stores: "waiting_ok db \<Longrightarrow> queue_restoration now user m r imdb conn db = Inr db' \<Longrightarrow> only_stores (m_id m) db db'"
  using queue_restoration_cases resume_stores next_up_stores only_stores_refl by metis

lemma fold_stores:
  assumes "fold_result step xs db1 = Inr db'" "waiting_ok db1" "only_stores mid db db1"
    and "\<And>x d d'. waiting_ok d \<Longrightarrow> step x d = Inr d' \<Longrightarrow> waiting_ok d' \<and> only_stores mid d d'"
  shows "only_stores mid db db'"
proof -
  have "waiting_ok db' \<and> only_stores mid db db'"
  proof (rule fold_result_invariant [OF assms(1)])
    show "waiting_ok db1 \<and> only_stores mid db db1" using assms(2,3) by simp
    show "waiting_ok d' \<and> only_stores mid db d'" if "waiting_ok d \<and> only_stores mid db d" "step x d = Inr d'" for x d d'
      using assms(4) [OF _ that(2)] that(1) only_stores_trans by blast
  qed
  then show ?thesis ..
qed

lemma restore_everywhere_stores:
  assumes "waiting_ok db" "restore_everywhere external api_key now user m targets r db = Inr db'"
  shows "only_stores (m_id m) db db'"
proof (cases r)
  case None
  with assms(2) have "fold_result (queue_next_up_show now user m) targets db = Inr db'"
    by (simp add: restore_everywhere_def queue_nuvio_next_up_show_def)
  then show ?thesis by (rule fold_stores [OF _ assms(1)]) (rule only_stores_refl, intro conjI, erule (1) waiting_ok_next_up, erule (1) next_up_stores)
next
  case (Some x)
  let ?s = "show_of db m (lr_target x)"
  let ?db1 = "ensure_target_imdb external api_key now (lr_target x) ?s db"
  from assms(2) Some have "fold_result (queue_restoration now user m x (resolved_imdb ?db1 m ?s)) targets ?db1 = Inr db'"
    by (simp add: restore_everywhere_def Let_def)
  moreover have "waiting_ok ?db1" "only_stores (m_id m) db ?db1" using assms(1) by (simp_all add: only_stores_def)
  ultimately show ?thesis by (rule fold_stores) (intro conjI, erule (1) waiting_ok_restoration, erule (1) restoration_stores)
qed

lemma cancel_waiting_gone:
  assumes "a \<in> set (stream_action_table (cancel_waiting user mid kind among db))" "sa_user_id a = user" "among cid"
  shows "\<not> is_waiting cid mid kind a"
proof
  assume waits: "is_waiting cid mid kind a"
  from assms(1) obtain b where b: "b \<in> set (stream_action_table db)" "a = (if sa_user_id b = user \<and> sa_media_id b = mid \<and> sa_action b = kind
      \<and> sa_state b = ''pending'' \<and> among (sa_connection_id b) then cancel_stream b else b)"
    by (auto simp: cancel_waiting_def update_where_def)
  with waits have "a = b" by (auto simp: cancel_stream_def is_waiting_def split: if_splits)
  with waits b(2) assms(2,3) have "b = cancel_stream b" by (auto simp: is_waiting_def)
  then have "sa_state b = sa_state (cancel_stream b)" by (rule arg_cong)
  with waits \<open>a = b\<close> show False by (simp add: cancel_stream_def is_waiting_def)
qed

lemma cancel_waiting_still:
  assumes "a \<in> set (stream_action_table (cancel_waiting user mid kind among db))" "is_waiting cid mid' kind' a"
  shows "a \<in> set (stream_action_table db)"
  using assms by (auto simp: cancel_waiting_def update_where_def cancel_stream_def is_waiting_def split: if_splits)

lemma cancel_waiting_tables [simp]:
  "entry_table (cancel_waiting user mid kind among db) = entry_table db"
  "connection_table (cancel_waiting user mid kind among db) = connection_table db"
  by (simp_all add: cancel_waiting_def)

lemma restoration_targets_cancel [simp]: "restoration_targets (cancel_waiting user' mid kind among db) user = restoration_targets db user"
  by (simp add: restoration_targets_def streams_def)

lemma entry_of_cancel [simp]: "entry_of (cancel_waiting user' mid kind among db) user m = entry_of db user m"
  by (simp add: entry_of_def)

lemma watching_restorations:
  assumes "entry_of db user (m_id m) = Inr (Some e)" "te_status e = ''watching''"
    and "queue_restorations external api_key now user m db = Inr db'"
  defines "db1 \<equiv> cancel_waiting user (m_id m) ''restore'' (\<lambda>_. True) db"
  defines "db2 \<equiv> cancel_waiting user (m_id m) ''dismiss'' (\<lambda>cid. cid \<in> c_id ` set (restoration_targets db user)) db1"
  obtains r where "local_resume_record db2 user now m e = Inr r"
    "restore_everywhere external api_key now user m (restoration_targets db user) r db2 = Inr db'"
proof -
  have "entry_of db1 user (m_id m) = Inr (Some e)" "restoration_targets db1 user = restoration_targets db user"
    using assms(1) by (simp_all add: db1_def)
  then have "queue_restorations external api_key now user m db = and_then (local_resume_record db2 user now m e)
      (\<lambda>r. restore_everywhere external api_key now user m (restoration_targets db user) r db2)"
    unfolding queue_restorations_def Let_def db1_def [symmetric] db2_def by (simp only: and_then_simps option.case assms(2) not_True_eq_False if_False simp_thms)
  from assms(3) [unfolded this] obtain r where "local_resume_record db2 user now m e = Inr r"
    "restore_everywhere external api_key now user m (restoration_targets db user) r db2 = Inr db'" unfolding and_then_Inr_iff by blast
  then show ?thesis by (rule that)
qed

text \<open>C20: When a title is being watched again, no request to dismiss it keeps waiting for an account that takes
  positions or shows series, and none to restore it: what is delivered afterwards cannot undo the return.\<close>

theorem watching_supersedes_dismissals:
  assumes "waiting_ok db" "entry_of db user (m_id m) = Inr (Some e)" "te_status e = ''watching''"
    and "queue_restorations external api_key now user m db = Inr db'"
    and "a \<in> set (stream_action_table db')" "sa_user_id a = user"
  shows "\<not> is_waiting cid (m_id m) ''restore'' a \<and>
    (c \<in> set (restoration_targets db user) \<longrightarrow> \<not> is_waiting (c_id c) (m_id m) ''dismiss'' a)"
proof -
  let ?db1 = "cancel_waiting user (m_id m) ''restore'' (\<lambda>_. True) db"
  let ?db2 = "cancel_waiting user (m_id m) ''dismiss'' (\<lambda>cid. cid \<in> c_id ` set (restoration_targets db user)) ?db1"
  obtain r where "restore_everywhere external api_key now user m (restoration_targets db user) r ?db2 = Inr db'"
    using watching_restorations [OF assms(2-4)] by metis
  then have "only_stores (m_id m) ?db2 db'" by (rule restore_everywhere_stores [rotated]) (simp add: assms(1) waiting_ok_cancel)
  with assms(5) consider "a \<in> set (stream_action_table ?db2)" | cid' where "is_waiting cid' (m_id m) ''upsert'' a"
    unfolding only_stores_def by blast
  then show ?thesis
  proof cases
    case 1
    have "\<not> is_waiting cid (m_id m) ''restore'' a"
    proof
      assume w: "is_waiting cid (m_id m) ''restore'' a"
      from cancel_waiting_gone [OF cancel_waiting_still [OF 1 w] assms(6), of cid] w show False by simp
    qed
    moreover have "\<not> is_waiting (c_id c) (m_id m) ''dismiss'' a" if "c \<in> set (restoration_targets db user)"
      by (rule cancel_waiting_gone [OF 1 assms(6)]) (rule imageI [OF that])
    ultimately show ?thesis by (intro conjI impI)
  next
    case 2
    then show ?thesis by (auto simp: is_waiting_def)
  qed
qed

section \<open>Dismissing a title without an identifier\<close>

lemma title_resumes_iff:
  "row \<in> set (title_resumes m snapshot) \<longleftrightarrow> (\<exists>k. (k, VDict row) \<in> set (snapshot_dict snapshot ''progress'') \<and>
     py_eq (get (snapshot_dict snapshot ''mappings'') k) (opt_int (m_tmdb_id m)) \<and>
     py_eq (get row ''content_type'') (VStr (media_type_value (m_media_type m))))"
proof -
  have dict: "as_dict v = Some d \<longleftrightarrow> v = VDict d" for v d by (cases v) auto
  show ?thesis unfolding title_resumes_def
    by (auto simp: map_filter_def image_iff dict dict_or_empty_def Bex_def) (auto intro!: exI [of _ "VDict row"])
qed

lemma no_identifier [simp]: "py_eq v (opt_int None) \<longleftrightarrow> v = VNone"
  by (simp add: py_eq_def opt_int_def split: option.split)

lemma fold_resume_dismissals:
  assumes "filter (is_waiting (c_id conn) (m_id m) ''dismiss'') (stream_action_table db) = []"
  shows "fold (queue_resume_dismissal now user m conn) (row # rows) db = add_stream_action now user (c_id conn) (m_id m) ''dismiss'' row db"
proof -
  let ?w = "is_waiting (c_id conn) (m_id m) ''dismiss''"
  have same: "fold (queue_resume_dismissal now user m conn) rs d = d" if "list_ex ?w (stream_action_table d)" for rs d
    using that by (induction rs) (simp_all add: queue_resume_dismissal_def)
  have "\<not> list_ex ?w (stream_action_table db)" using assms by (simp add: list_ex_iff filter_empty_conv)
  moreover have "list_ex ?w (stream_action_table (add_stream_action now user (c_id conn) (m_id m) ''dismiss'' row db))"
    by (simp add: add_stream_action_def is_waiting_def)
  ultimately show ?thesis by (simp add: queue_resume_dismissal_def same)
qed

text \<open>C31: A title without an identifier in the catalogue counts every resume that was never matched as its own: when
  it is removed from Continue Watching, the account is told to dismiss the resume of another title.\<close>

theorem dismissal_hits_unmatched_resume:
  assumes "c_type conn = ''stremio''" "c_push_playback conn" "stream_baseline_of db (c_id conn) = Some b" "m_tmdb_id m = None"
    and "(k, VDict row) \<in> set (snapshot_dict (sb_snapshot b) ''progress'')" "map_of (snapshot_dict (sb_snapshot b) ''mappings'') k = None"
    and "get row ''content_type'' = VStr (media_type_value (m_media_type m))"
    and "filter (is_waiting (c_id conn) (m_id m) ''dismiss'') (stream_action_table db) = []"
  shows "\<exists>k' row' db'. queue_dismissal now user m visibility conn db = Inr db' \<and>
    (k', VDict row') \<in> set (snapshot_dict (sb_snapshot b) ''progress'') \<and> get (snapshot_dict (sb_snapshot b) ''mappings'') k' = VNone \<and>
    (\<exists>a \<in> set (stream_action_table db'). is_waiting (c_id conn) (m_id m) ''dismiss'' a \<and> sa_payload a = row')"
proof -
  have "get (snapshot_dict (sb_snapshot b) ''mappings'') k = VNone" using assms(6) by (simp add: get_def dict_get_def)
  moreover have "py_eq (VStr s) (VStr s)" for s by (simp add: py_eq_def)
  ultimately have "row \<in> set (title_resumes m (sb_snapshot b))"
    unfolding title_resumes_iff assms(4,7) using assms(5) by auto
  then obtain row' rows where rows: "title_resumes m (sb_snapshot b) = row' # rows" by (cases "title_resumes m (sb_snapshot b)") auto
  then have "row' \<in> set (title_resumes m (sb_snapshot b))" by simp
  then obtain k' where k': "(k', VDict row') \<in> set (snapshot_dict (sb_snapshot b) ''progress'')"
    "get (snapshot_dict (sb_snapshot b) ''mappings'') k' = VNone" unfolding title_resumes_iff assms(4) by auto
  have "queue_dismissal now user m visibility conn db = Inr (add_stream_action now user (c_id conn) (m_id m) ''dismiss'' row' db)"
    using fold_resume_dismissals [OF assms(8), of now user row' rows] by (simp add: queue_dismissal_def assms(1-3) rows)
  moreover have "\<exists>a \<in> set (stream_action_table (add_stream_action now user (c_id conn) (m_id m) ''dismiss'' row' db)).
      is_waiting (c_id conn) (m_id m) ''dismiss'' a \<and> sa_payload a = row'"
    by (simp add: add_stream_action_def is_waiting_def)
  ultimately show ?thesis using k' by blast
qed

section \<open>A position for the peers of its source\<close>

lemma baselines_coalesce: "coalesce now user cid mid kind payload db = Inr db' \<Longrightarrow> stream_baseline_table db' = stream_baseline_table db
    \<and> connection_table db' = connection_table db"
  by (auto simp: coalesce_def and_then_Inr_iff add_stream_action_def update_stream_action_def split: option.splits)

lemma baselines_next_up: "queue_next_up_show now user m conn db = Inr db' \<Longrightarrow> stream_baseline_table db' = stream_baseline_table db
    \<and> connection_table db' = connection_table db"
  by (auto simp: queue_next_up_show_def Let_def split: if_splits dest: baselines_coalesce)

text \<open>The row tells an account what the round accepted from another one.\<close>

definition accepted_position :: "connection \<Rightarrow> media \<Rightarrow> pydict \<Rightarrow> datetime \<Rightarrow> connection \<Rightarrow> db \<Rightarrow> stream_action \<Rightarrow> bool" where
  "accepted_position source m changes t conn db a \<longleftrightarrow> is_waiting (c_id conn) (m_id m) ''upsert'' a \<and>
     (\<exists>b key. stream_baseline_of db (c_id conn) = Some b \<and> sb_approved b \<and> sa_payload a = progress_payload source m t key changes)"

lemma accepted_position_same: "stream_baseline_table db' = stream_baseline_table db \<Longrightarrow>
    accepted_position source m changes t conn db' a = accepted_position source m changes t conn db a"
  by (simp add: accepted_position_def stream_baseline_of_def)

lemma position_rows:
  assumes "waiting_ok db" "queue_position now source m changes t conn db = Inr db'"
  shows "stream_baseline_table db' = stream_baseline_table db"
    and "x \<in> set (stream_action_table db') \<Longrightarrow> x \<in> set (stream_action_table db) \<or> accepted_position source m changes t conn db x"
    and "x \<in> set (stream_action_table db) \<Longrightarrow> provider_changed_at [(''updated_at'', get (sa_payload x) ''observed_at'')] = Inr (Some p) \<Longrightarrow>
      t < p \<Longrightarrow> x \<in> set (stream_action_table db')"
proof -
  show "stream_baseline_table db' = stream_baseline_table db"
    using assms(2) by (rule queue_position_cases) (simp_all add: add_stream_action_def update_stream_action_def)
  show "x \<in> set (stream_action_table db) \<or> accepted_position source m changes t conn db x" if x: "x \<in> set (stream_action_table db')"
    using assms(2)
  proof (cases rule: queue_position_cases)
    case same
    with x show ?thesis by simp
  next
    case (added b key)
    with x show ?thesis by (auto simp: accepted_position_def add_stream_action_def is_waiting_def)
  next
    case (replaced b key a)
    from renewed_rows [OF assms(1) replaced(3) x [unfolded replaced(5)]] replaced(1,2)
    show ?thesis by (auto simp: accepted_position_def renewed_def)
  qed
  show "x \<in> set (stream_action_table db')" if x: "x \<in> set (stream_action_table db)"
    "provider_changed_at [(''updated_at'', get (sa_payload x) ''observed_at'')] = Inr (Some p)" "t < p"
    using assms(2)
  proof (cases rule: queue_position_cases)
    case (replaced b key a)
    have "x \<noteq> a" using replaced(4) x(2,3) by force
    moreover have "a \<in> set (stream_action_table db)" using filter_eq_ConsD [OF replaced(3)] by auto
    ultimately have "sa_id x \<noteq> sa_id a" using assms(1) x(1) by (auto simp: waiting_ok_def distinct_map inj_on_def)
    with x(1) show ?thesis by (simp add: replaced(5) update_stream_action_def update_where_def image_iff)
  qed (use x in \<open>simp_all add: add_stream_action_def\<close>)
qed

lemma position_targets_same: "connection_table db' = connection_table db \<Longrightarrow> position_targets source mid replay db' = position_targets source mid replay db"
  by (simp add: position_targets_def streams_def)

text \<open>Every row that appears is a request to show the series in its own account, or a position for a peer.\<close>

definition peer_row ::
  "(int \<Rightarrow> string set option) option \<Rightarrow> connection \<Rightarrow> media \<Rightarrow> pydict \<Rightarrow> datetime \<Rightarrow> db \<Rightarrow> stream_action \<Rightarrow> bool" where
  "peer_row replay source m changes t db a \<longleftrightarrow>
     (is_waiting (c_id source) (m_id m) ''upsert'' a \<and> get (sa_payload a) ''next_up_only'' = VBool True)
     \<or> (\<exists>conn \<in> set (position_targets source (m_id m) replay db). c_id conn \<noteq> c_id source \<and> c_push_playback conn \<and>
           accepted_position source m changes t conn db a)"

lemma own_next_up_rows:
  assumes "waiting_ok db" "queue_next_up_show now user m source db = Inr db'" "x \<in> set (stream_action_table db')"
  shows "x \<in> set (stream_action_table db) \<or>
    (is_waiting (c_id source) (m_id m) ''upsert'' x \<and> get (sa_payload x) ''next_up_only'' = VBool True)"
proof (cases "db' = db")
  case False
  let ?payload = "title_payload (primary_id db (c_id source) m (nuvio_title_ids db (c_id source) m)) (nuvio_title_ids db (c_id source) m) ''series'' m
      @ [(''next_up_only'', VBool True)]"
  from assms(2) False have "coalesce now user (c_id source) (m_id m) ''upsert'' ?payload db = Inr db'"
    by (auto simp: queue_next_up_show_def Let_def split: if_splits)
  from coalesce_rows [OF assms(1) this assms(3)] show ?thesis by (auto simp: title_payload_def)
qed (use assms(3) in simp)

lemma fold_positions:
  assumes "fold_result (queue_position now source m changes t) conns db1 = Inr db'" "waiting_ok db1"
  shows "stream_baseline_table db' = stream_baseline_table db1"
    and "x \<in> set (stream_action_table db') \<Longrightarrow>
      x \<in> set (stream_action_table db1) \<or> (\<exists>conn \<in> set conns. accepted_position source m changes t conn db1 x)"
    and "x \<in> set (stream_action_table db1) \<Longrightarrow> provider_changed_at [(''updated_at'', get (sa_payload x) ''observed_at'')] = Inr (Some p) \<Longrightarrow>
      t < p \<Longrightarrow> x \<in> set (stream_action_table db')"
proof -
  let ?newer = "\<lambda>x. provider_changed_at [(''updated_at'', get (sa_payload x) ''observed_at'')] = Inr (Some p) \<and> t < p"
  let ?P = "\<lambda>d. waiting_ok d \<and> stream_baseline_table d = stream_baseline_table db1 \<and>
    (\<forall>x \<in> set (stream_action_table d). x \<in> set (stream_action_table db1) \<or> (\<exists>conn \<in> set conns. accepted_position source m changes t conn db1 x)) \<and>
    (\<forall>x \<in> set (stream_action_table db1). ?newer x \<longrightarrow> x \<in> set (stream_action_table d))"
  have "?P db'"
  proof (rule fold_result_invariant [OF assms(1)])
    show "?P db1" using assms(2) by simp
    fix conn d d'
    assume conn: "conn \<in> set conns" and d: "?P d" and step: "queue_position now source m changes t conn d = Inr d'"
    then have ok: "waiting_ok d" and same: "stream_baseline_table d = stream_baseline_table db1" by simp_all
    note rows = position_rows [OF ok step]
    have "waiting_ok d'" using waiting_ok_position [OF ok step] .
    moreover have "stream_baseline_table d' = stream_baseline_table db1" using rows(1) same by simp
    moreover have "x \<in> set (stream_action_table db1) \<or> (\<exists>conn \<in> set conns. accepted_position source m changes t conn db1 x)"
      if "x \<in> set (stream_action_table d')" for x
      using rows(2) [OF that] d conn unfolding accepted_position_same [OF same] by blast
    moreover have "x \<in> set (stream_action_table d')" if "x \<in> set (stream_action_table db1)" "?newer x" for x
      using rows(3) [of x p] d that by blast
    ultimately show "?P d'" by blast
  qed
  then show "stream_baseline_table db' = stream_baseline_table db1"
    and "x \<in> set (stream_action_table db') \<Longrightarrow>
      x \<in> set (stream_action_table db1) \<or> (\<exists>conn \<in> set conns. accepted_position source m changes t conn db1 x)"
    and "x \<in> set (stream_action_table db1) \<Longrightarrow> provider_changed_at [(''updated_at'', get (sa_payload x) ''observed_at'')] = Inr (Some p) \<Longrightarrow>
      t < p \<Longrightarrow> x \<in> set (stream_action_table db')" by blast+
qed

lemma coalesce_keeps_others:
  assumes "coalesce now user cid mid kind payload db = Inr db'" "waiting_ok db" "x \<in> set (stream_action_table db)" "sa_connection_id x \<noteq> cid"
  shows "x \<in> set (stream_action_table db')"
proof -
  obtain found where found: "waiting_action db cid mid kind = Inr found" using assms(1) by (auto simp: coalesce_def and_then_Inr_iff)
  show ?thesis
  proof (cases found)
    case None
    with found assms(1,3) show ?thesis by (auto simp: coalesce_def add_stream_action_def)
  next
    case (Some a)
    then have "filter (is_waiting cid mid kind) (stream_action_table db) = [a]" using found by (simp add: waiting_action_Some)
    then have a: "a \<in> set (stream_action_table db)" "sa_connection_id a = cid" using filter_eq_ConsD by (fastforce simp: is_waiting_def)+
    then have "sa_id x \<noteq> sa_id a" using assms(2-4) by (auto simp: waiting_ok_def distinct_map inj_on_def)
    moreover have "db' = update_stream_action (sa_id a) (renewed payload) db" using found Some assms(1) by (simp add: coalesce_def)
    ultimately show ?thesis using assms(3) by (simp add: update_stream_action_def update_where_def image_iff)
  qed
qed

lemma next_up_keeps_others:
  "queue_next_up_show now user m conn db = Inr db' \<Longrightarrow> waiting_ok db \<Longrightarrow> x \<in> set (stream_action_table db) \<Longrightarrow>
    sa_connection_id x \<noteq> c_id conn \<Longrightarrow> x \<in> set (stream_action_table db')"
  by (auto simp: queue_next_up_show_def Let_def split: if_splits intro: coalesce_keeps_others)

lemma progress_update_cases:
  assumes "queue_progress_update now replay source m changes db = Inr db'"
  obtains (unknown) "db' = db"
  | (queued) t db1 where "progress_clock source changes = Inr (Some t)"
      "db1 = db \<or> queue_next_up_show now (c_user_id source) m source db = Inr db1"
      "fold_result (queue_position now source m changes t) (position_targets source (m_id m) replay db1) db1 = Inr db'"
proof -
  obtain clock where clock: "progress_clock source changes = Inr clock" using assms by (auto simp: queue_progress_update_def and_then_Inr_iff)
  show ?thesis
  proof (cases clock)
    case None
    with assms clock unknown show ?thesis by (simp add: queue_progress_update_def)
  next
    case (Some t)
    with assms clock obtain db1 where db1: "(if c_type source = ''nuvio'' \<and> c_push_playback source \<and> replay = None
          then queue_nuvio_next_up_show now (c_user_id source) m [source] db else Inr db) = Inr db1"
        "fold_result (queue_position now source m changes t) (position_targets source (m_id m) replay db1) db1 = Inr db'"
      by (auto simp only: queue_progress_update_def and_then_simps and_then_Inr_iff option.case)
    have "queue_nuvio_next_up_show now (c_user_id source) m [source] db = queue_next_up_show now (c_user_id source) m source db"
      by (cases "queue_next_up_show now (c_user_id source) m source db") (simp_all add: queue_nuvio_next_up_show_def)
    with db1(1) have "db1 = db \<or> queue_next_up_show now (c_user_id source) m source db = Inr db1" by (auto split: if_splits)
    with clock Some db1(2) show ?thesis by (intro queued) simp_all
  qed
qed

text \<open>A position accepted from one account is queued for the others only: for accounts that take positions and hold
  an approved snapshot, under an identifier of theirs, with the account it came from and the moment it was made; its
  own account is at most asked to show the series.\<close>

lemma progress_update_for_peers:
  assumes "waiting_ok db" "queue_progress_update now replay source m changes db = Inr db'"
    and "a \<in> set (stream_action_table db')" "a \<notin> set (stream_action_table db)"
  shows "\<exists>t. progress_clock source changes = Inr (Some t) \<and> peer_row replay source m changes t db a"
  using assms(2)
proof (cases rule: progress_update_cases)
  case unknown
  with assms(3,4) show ?thesis by simp
next
  case (queued t db1)
  have db1: "waiting_ok db1" "stream_baseline_table db1 = stream_baseline_table db" "connection_table db1 = connection_table db"
    using queued(2) assms(1) waiting_ok_next_up baselines_next_up by blast+
  from fold_positions(2) [OF queued(3) db1(1) assms(3)]
  consider "a \<in> set (stream_action_table db1)" | conn where "conn \<in> set (position_targets source (m_id m) replay db)"
      "accepted_position source m changes t conn db a"
    unfolding position_targets_same [OF db1(3)] accepted_position_same [OF db1(2)] by blast
  then have "peer_row replay source m changes t db a"
  proof cases
    case 1
    with queued(2) assms(4) own_next_up_rows [OF assms(1)] show ?thesis unfolding peer_row_def by blast
  next
    case 2
    then have "c_id conn \<noteq> c_id source" "c_push_playback conn" by (simp_all add: position_targets_def)
    with 2 show ?thesis unfolding peer_row_def by blast
  qed
  with queued(1) show ?thesis by blast
qed

text \<open>A position that waits for another account and is newer than the one being queued stays as it is.\<close>

lemma progress_update_keeps_newer:
  assumes "waiting_ok db" "queue_progress_update now replay source m changes db = Inr db'" "progress_clock source changes = Inr (Some t)"
    and "a \<in> set (stream_action_table db)" "sa_connection_id a \<noteq> c_id source"
    and "provider_changed_at [(''updated_at'', get (sa_payload a) ''observed_at'')] = Inr (Some p)" "t < p"
  shows "a \<in> set (stream_action_table db')"
  using assms(2)
proof (cases rule: progress_update_cases)
  case unknown
  with assms(4) show ?thesis by simp
next
  case (queued t' db1)
  then have "t' = t" using assms(3) by simp
  moreover have "waiting_ok db1" "a \<in> set (stream_action_table db1)"
    using queued(2) assms(1,4,5) waiting_ok_next_up next_up_keeps_others by blast+
  ultimately show ?thesis using fold_positions(3) [OF queued(3)] assms(6,7) by blast
qed

section \<open>The position to resume from\<close>

lemma resume_target_released:
  assumes "resume_target db user now m = Some (target, watched)"
  shows "if m_media_type m = Series then target \<in> set (released_episodes db now m) else target = m"
proof (cases "m_media_type m = Series")
  case True
  have found: "find P xs = Some e \<Longrightarrow> e \<in> set xs" for P xs e by (induction xs) (auto split: if_splits)
  from assms True obtain first rest where r: "released_episodes db now m = first # rest"
    by (cases "released_episodes db now m") (simp_all add: resume_target_def)
  then have "target = (case find (\<lambda>e. m_id e \<notin> seen_media db user) (first # rest) of Some e \<Rightarrow> e | None \<Rightarrow> first)"
    using assms True by (simp add: resume_target_def Let_def)
  then have "target \<in> set (first # rest)"
    by (cases "find (\<lambda>e. m_id e \<notin> seen_media db user) (first # rest)") (simp only: option.case list.set_intros, metis found option.case(2))
  with True r show ?thesis by simp
qed (use assms in \<open>simp add: resume_target_def\<close>)

text \<open>C35: When a title is being watched again, the position stored for it is positive and within its duration, whether it
  was kept from a player or made up, and it belongs to the film or to a released episode of the show.\<close>

theorem local_resume_bounds:
  assumes "local_resume_record db user now m entry = Inr (Some r)"
  shows "0 < lr_position r \<and> lr_position r \<le> lr_duration r \<and> (lr_synthetic r \<longrightarrow> lr_position r = 1000) \<and>
    (if m_media_type m = Series then lr_target r \<in> set (released_episodes db now m) else lr_target r = m)"
proof -
  obtain target watched where target: "resume_target db user now m = Some (target, watched)"
    using assms by (auto simp: local_resume_record_def split: option.splits)
  have pos: "0 < fst f" if "fresh_position now entry p = Some f" for p f
    using that by (auto simp: fresh_position_def Let_def split: option.splits if_splits)
  have dur: "x \<le> duration_ms m x y" for m x y by (simp add: duration_ms_def)
  define row where "row p = (let found = fresh_position now entry p; (pos, percent) = (case found of None \<Rightarrow> (1000, 1 / 100) | Some x \<Rightarrow> x)
      in \<lparr>lr_position = pos, lr_duration = duration_ms target pos percent, lr_target = target, lr_synthetic = (found = None), lr_watched = watched\<rparr>)" for p
  have "local_resume_record db user now m entry =
      and_then (scalar_one_or_none (filter (\<lambda>p. pp_user_id p = user \<and> pp_media_id p = m_id target) (progress_table db))) (\<lambda>p. Inr (Some (row p)))"
    unfolding local_resume_record_def target option.case prod.case row_def by (simp add: Let_def case_prod_beta)
  with assms obtain p where "r = row p" by (auto simp: and_then_Inr_iff)
  then have "0 < lr_position r \<and> lr_position r \<le> lr_duration r \<and> (lr_synthetic r \<longrightarrow> lr_position r = 1000) \<and> lr_target r = target"
    using pos dur by (cases "fresh_position now entry p") (simp_all add: row_def case_prod_beta)
  moreover note resume_target_released [OF target]
  ultimately show ?thesis by simp
qed

section \<open>Queueing does not fail\<close>

lemma coalesce_total:
  assumes "waiting_ok db" "kind \<in> {''dismiss'', ''upsert''}"
  shows "\<exists>db'. coalesce now user cid mid kind payload db = Inr db' \<and> waiting_ok db'"
proof -
  obtain found where "waiting_action db cid mid kind = Inr found" using waiting_action_ok [OF assms] by blast
  then have "\<exists>db'. coalesce now user cid mid kind payload db = Inr db'" by (simp add: coalesce_def)
  with waiting_ok_coalesce [OF assms(1)] show ?thesis by blast
qed

lemma next_up_total: "waiting_ok db \<Longrightarrow> \<exists>db'. queue_next_up_show now user m conn db = Inr db' \<and> waiting_ok db'"
  by (auto simp: queue_next_up_show_def Let_def intro!: coalesce_total)

lemma store_resume_total:
  assumes "waiting_ok db"
  shows "\<exists>db'. store_resume now user m r cid conn db = Inr db' \<and> waiting_ok db'"
proof -
  obtain db1 where "coalesce now user (c_id conn) (m_id m) ''upsert'' (resume_record now m conn cid r) db = Inr db1" "waiting_ok db1"
    using coalesce_total [OF assms] by (metis insertI1 insertI2)
  then show ?thesis by (simp add: store_resume_def)
qed

lemma restoration_total:
  assumes "waiting_ok db"
  shows "\<exists>db'. queue_restoration now user m r imdb conn db = Inr db' \<and> waiting_ok db'"
  unfolding queue_restoration_def
  using assms by (simp split: option.split add: next_up_total store_resume_total)

lemma restore_everywhere_total:
  assumes "waiting_ok db"
  shows "\<exists>db'. restore_everywhere external api_key now user m targets r db = Inr db'"
proof (cases r)
  case None
  have "\<exists>db'. fold_result (queue_next_up_show now user m) targets db = Inr db' \<and> waiting_ok db'"
    by (rule fold_result_total [OF assms next_up_total])
  then show ?thesis by (auto simp: None restore_everywhere_def queue_nuvio_next_up_show_def)
next
  case (Some x)
  have "\<exists>db'. fold_result (queue_restoration now user m x i) targets (ensure_target_imdb external api_key now (lr_target x) s db) = Inr db'
      \<and> waiting_ok db'" for i s
    by (rule fold_result_total [OF _ restoration_total]) (simp_all add: assms)
  then show ?thesis by (auto simp: Some restore_everywhere_def Let_def)
qed

section \<open>An example\<close>

text \<open>A film that is being watched again, known to two accounts; for one of them a dismissal and a position wait.\<close>

definition sample_dismissal :: stream_action where
  "sample_dismissal = (sample_resume 1 6)\<lparr>sa_action := ''dismiss'', sa_payload := [(''content_id'', VStr ''tt0123'')]\<rparr>"

definition sample_queue_db :: db where
  "sample_queue_db = empty_db\<lparr>connection_table := [sample_player 5, sample_player 6, sample_player 7],
     stream_baseline_table := [sample_profile, sample_profile\<lparr>sb_connection_id := 6\<rparr>, sample_profile\<lparr>sb_connection_id := 7,
       sb_snapshot := [(''mappings'', VDict []), (''progress'', VDict [(''x'', VDict [(''content_type'', VStr ''movie'')])])]\<rparr>],
     media_table := [sample_movie], entry_table := [(new_entry 1 1 10 0)\<lparr>te_status := ''watching''\<rparr>],
     stream_action_table := [sample_dismissal,
       (sample_resume 2 6)\<lparr>sa_payload := [(''observed_at'', VInt 1717236000)]\<rparr>]\<rparr>"

lemma sample_queue_facts:
  "distinct (map sa_id (stream_action_table sample_queue_db))"
  "entry_of sample_queue_db 1 (m_id sample_movie) = Inr (Some ((new_entry 1 1 10 0)\<lparr>te_status := ''watching''\<rparr>))"
  "map c_id (restoration_targets sample_queue_db 1) = [5, 6, 7]"
  "list_ex (is_waiting 6 10 ''dismiss'') (stream_action_table sample_queue_db)"
  "map c_id (position_targets (sample_player 5) 10 None sample_queue_db) = [6, 7]"
  "map c_id (position_targets (sample_player 7) 10 None sample_queue_db) = [5, 6]"
  by code_simp+

lemma sample_waiting_ok: "waiting_ok sample_queue_db"
proof -
  have "length (filter (is_waiting cid mid kind) (stream_action_table sample_queue_db)) \<le> 1" for cid mid kind
    by (simp add: sample_queue_db_def sample_dismissal_def sample_resume_def is_waiting_def) (auto)
  then show ?thesis using sample_queue_facts(1) by (simp add: waiting_ok_def)
qed

lemma sample_restored: "\<exists>db'. queue_restorations external api_key 9000 1 sample_movie sample_queue_db = Inr db'"
proof -
  let ?db1 = "cancel_waiting 1 (m_id sample_movie) ''restore'' (\<lambda>_. True) sample_queue_db"
  let ?db2 = "cancel_waiting 1 (m_id sample_movie) ''dismiss'' (\<lambda>cid. cid \<in> c_id ` set (restoration_targets ?db1 1)) ?db1"
  let ?e = "(new_entry 1 1 10 0)\<lparr>te_status := ''watching''\<rparr>"
  have "progress_table ?db2 = []" by (simp add: cancel_waiting_def sample_queue_db_def empty_db_def)
  then have "\<exists>r. local_resume_record ?db2 1 9000 sample_movie ?e = Inr r"
    by (simp add: local_resume_record_def resume_target_def sample_movie_def new_media_def fresh_position_def Let_def)
  then obtain r where r: "local_resume_record ?db2 1 9000 sample_movie ?e = Inr r" ..
  have "waiting_ok ?db2" by (simp add: waiting_ok_cancel sample_waiting_ok)
  from restore_everywhere_total [OF this, where r = r and targets = "restoration_targets ?db1 1"] obtain db' where
    "restore_everywhere external api_key 9000 1 sample_movie (restoration_targets ?db1 1) r ?db2 = Inr db'" by blast
  moreover have "entry_of ?db1 1 (m_id sample_movie) = Inr (Some ?e)" by (simp add: sample_queue_facts(2))
  moreover have "te_status ?e = ''watching''" by simp
  ultimately show ?thesis unfolding queue_restorations_def Let_def using r by (simp only: and_then_simps option.case) simp
qed

lemma queueing_keeps_waiting_unique_witness:
  "\<exists>db'. queue_restorations (\<lambda>_ _. None) None 9000 1 sample_movie sample_queue_db = Inr db' \<and>
    (\<exists>found. waiting_action db' 6 10 ''upsert'' = Inr found)"
proof -
  obtain db' where q: "queue_restorations (\<lambda>_ _. None) None 9000 1 sample_movie sample_queue_db = Inr db'" using sample_restored by blast
  with queueing_keeps_waiting_unique [OF sample_waiting_ok disjI2 [OF disjI2 [OF disjI2 [OF disjI1 [OF q]]]]] show ?thesis by blast
qed

lemma watching_supersedes_dismissals_witness:
  "\<exists>db'. queue_restorations (\<lambda>_ _. None) None 9000 1 sample_movie sample_queue_db = Inr db' \<and>
    list_ex (is_waiting 6 10 ''dismiss'') (stream_action_table sample_queue_db) \<and>
    (\<forall>a \<in> set (stream_action_table db'). sa_user_id a = 1 \<longrightarrow> \<not> is_waiting 6 10 ''dismiss'' a)"
proof -
  obtain db' where q: "queue_restorations (\<lambda>_ _. None) None 9000 1 sample_movie sample_queue_db = Inr db'" using sample_restored by blast
  obtain c where c: "c \<in> set (restoration_targets sample_queue_db 1)" "c_id c = 6"
    using sample_queue_facts(3) by (metis (no_types, lifting) in_set_conv_decomp list.set_intros(1) list.set_intros(2) list.set_map image_iff)
  have "m_id sample_movie = 10" by (simp add: sample_movie_def new_media_def)
  then have "\<not> is_waiting 6 10 ''dismiss'' a" if "a \<in> set (stream_action_table db')" "sa_user_id a = 1" for a
    using watching_supersedes_dismissals [OF sample_waiting_ok sample_queue_facts(2) _ q that, of 0 c] c by simp
  with q sample_queue_facts(4) show ?thesis by blast
qed

text \<open>A position one account stored before the one that waits for the second; the third takes it.\<close>

definition sample_change :: pydict where
  "sample_change = [(''content_id'', VStr ''tt0123''), (''position'', VInt 60000), (''updated_at'', VInt 1717149600)]"

lemma sample_clock:
  "progress_clock (sample_player 5) sample_change = Inr (Some 1717149600000000)"
  "provider_changed_at [(''updated_at'', VInt 1717236000)] = Inr (Some 1717236000000000)"
  by code_simp+

abbreviation sample_queued :: db where
  "sample_queued \<equiv> add_stream_action 9000 1 7 10 ''upsert''
     (progress_payload (sample_player 5) sample_movie 1717149600000000 ''tt0123'' sample_change) sample_queue_db"

lemma sample_position_facts:
  "position_targets (sample_player 5) 10 None sample_queue_db = [sample_player 6, sample_player 7]"
  "stream_baseline_of sample_queue_db 6 = Some (sample_profile\<lparr>sb_connection_id := 6\<rparr>)"
  "or_imdb (mapped_keys (snapshot_mappings (Some (sample_profile\<lparr>sb_connection_id := 6\<rparr>))) sample_movie) (m_imdb_id sample_movie) = [''tmdb:77'']"
  "waiting_action sample_queue_db 6 10 ''upsert'' = Inr (Some ((sample_resume 2 6)\<lparr>sa_payload := [(''observed_at'', VInt 1717236000)]\<rparr>))"
  "waiting_action sample_queue_db 7 10 ''upsert'' = Inr None"
  by code_simp+

lemma sample_position_third:
  "case stream_baseline_of sample_queue_db 7 of None \<Rightarrow> False | Some b \<Rightarrow> sb_approved b \<and>
     or_imdb (mapped_keys (snapshot_mappings (Some b)) sample_movie) (m_imdb_id sample_movie) = [''tt0123''] \<and>
     resume_key (snapshot_dict (sb_snapshot b) ''progress'') [''tt0123''] = ''tt0123''"
  by code_simp

lemma sample_ids: "m_id sample_movie = 10" "c_id (sample_player cid) = cid" "c_user_id (sample_player cid) = 1" "c_type (sample_player cid) = ''stremio''"
  by (simp_all add: sample_movie_def new_media_def sample_player_def new_connection_def)

lemma sample_update: "queue_progress_update 9000 None (sample_player 5) sample_movie sample_change sample_queue_db = Inr sample_queued"
proof -
  have "sb_approved (sample_profile\<lparr>sb_connection_id := 6\<rparr>)" by (simp add: sample_profile_def)
  then have second: "queue_position 9000 (sample_player 5) sample_movie sample_change 1717149600000000 (sample_player 6) sample_queue_db = Inr sample_queue_db"
    by (simp add: queue_position_def sample_ids sample_position_facts sample_clock Let_def)
  obtain b where b: "stream_baseline_of sample_queue_db 7 = Some b" "sb_approved b"
     "or_imdb (mapped_keys (snapshot_mappings (Some b)) sample_movie) (m_imdb_id sample_movie) = [''tt0123'']"
     "resume_key (snapshot_dict (sb_snapshot b) ''progress'') [''tt0123''] = ''tt0123''"
    using sample_position_third by (auto split: option.splits)
  then have "queue_position 9000 (sample_player 5) sample_movie sample_change 1717149600000000 (sample_player 7) sample_queue_db = Inr sample_queued"
    by (simp add: queue_position_def sample_ids sample_position_facts(5) Let_def)
  with second show ?thesis by (simp add: queue_progress_update_def sample_clock(1) sample_position_facts(1) sample_ids)
qed

lemma progress_update_for_peers_witness:
  "\<exists>a t. a \<in> set (stream_action_table sample_queued) \<and> peer_row None (sample_player 5) sample_movie sample_change t sample_queue_db a"
proof -
  have "\<not> set (stream_action_table sample_queued) \<subseteq> set (stream_action_table sample_queue_db)"
    by (simp add: add_stream_action_def sample_queue_db_def sample_dismissal_def sample_resume_def)
  then obtain a where a: "a \<in> set (stream_action_table sample_queued)" "a \<notin> set (stream_action_table sample_queue_db)" by blast
  with progress_update_for_peers [OF sample_waiting_ok sample_update a] show ?thesis by blast
qed

lemma progress_update_keeps_newer_witness:
  "(sample_resume 2 6)\<lparr>sa_payload := [(''observed_at'', VInt 1717236000)]\<rparr> \<in> set (stream_action_table sample_queued)"
  by (rule progress_update_keeps_newer [where p = 1717236000000000, OF sample_waiting_ok sample_update sample_clock(1)])
    (simp_all add: sample_queue_db_def sample_resume_def sample_ids sample_clock(2))

lemma local_resume_bounds_witness:
  "\<exists>r. local_resume_record sample_queue_db 1 9000 sample_movie ((new_entry 1 1 10 0)\<lparr>te_status := ''watching''\<rparr>) = Inr (Some r) \<and>
     0 < lr_position r \<and> lr_position r \<le> lr_duration r"
proof -
  have "\<exists>r. local_resume_record sample_queue_db 1 9000 sample_movie ((new_entry 1 1 10 0)\<lparr>te_status := ''watching''\<rparr>) = Inr (Some r)"
    by (simp add: local_resume_record_def resume_target_def sample_movie_def new_media_def fresh_position_def sample_queue_db_def empty_db_def Let_def)
  then obtain r where r: "local_resume_record sample_queue_db 1 9000 sample_movie ((new_entry 1 1 10 0)\<lparr>te_status := ''watching''\<rparr>) = Inr (Some r)" ..
  with local_resume_bounds [OF r] show ?thesis by blast
qed

text \<open>A film from the account's own library that the catalogue does not know.\<close>

lemma dismissal_hits_unmatched_resume_witness:
  "\<exists>row db'. queue_dismissal 9000 1 (sample_movie\<lparr>m_tmdb_id := None, m_id := 11\<rparr>) None (sample_player 7) sample_queue_db = Inr db' \<and>
     (\<exists>a \<in> set (stream_action_table db'). is_waiting 7 11 ''dismiss'' a \<and> sa_payload a = row)"
proof -
  let ?m = "sample_movie\<lparr>m_tmdb_id := None, m_id := 11\<rparr>"
  let ?b = "sample_profile\<lparr>sb_connection_id := 7,
       sb_snapshot := [(''mappings'', VDict []), (''progress'', VDict [(''x'', VDict [(''content_type'', VStr ''movie'')])])]\<rparr>"
  have base: "stream_baseline_of sample_queue_db (c_id (sample_player 7)) = Some ?b" by code_simp
  have rows: "(''x'', VDict [(''content_type'', VStr ''movie'')]) \<in> set (snapshot_dict (sb_snapshot ?b) ''progress'')"
    "map_of (snapshot_dict (sb_snapshot ?b) ''mappings'') ''x'' = None" by code_simp+
  have kind: "get [(''content_type'', VStr ''movie'')] ''content_type'' = VStr (media_type_value (m_media_type ?m))" by code_simp
  have idle: "filter (is_waiting (c_id (sample_player 7)) (m_id ?m) ''dismiss'') (stream_action_table sample_queue_db) = []" by code_simp
  have player: "c_type (sample_player 7) = ''stremio''" "c_push_playback (sample_player 7)" "m_tmdb_id ?m = None"
    by (simp_all add: sample_player_def new_connection_def)
  from dismissal_hits_unmatched_resume [OF player(1,2) base player(3) rows kind idle, of 9000 1 None] sample_ids(2) [of 7]
  show ?thesis by auto
qed

end
