(* ===== verification/PlaybackRound.thy ===== *)
theory PlaybackRound
  imports StreamQueueing StagedWatches HistoryHygiene
begin

text \<open>
  What is being watched, decided for a whole round: \<open>_playback\<close>, \<open>_apply_playback\<close> and \<open>_clear_completed_playback\<close> of
  \<open>core/sync_reconciliation.py\<close> up to the observation of the snapshots themselves, with the readers of positions of
  \<open>core/tracking_snapshot.py\<close>.  Seasons and episodes of rows are integers or missing; a number is kept as an integer when
  it is one, so that equal numbers are equal values.
\<close>

section \<open>Positions of a snapshot\<close>

definition active_rows :: "pydict list \<Rightarrow> (string \<times> pydict) list" where
  "active_rows rows =
     foldl (\<lambda>d row.
       case (to_float (py_or (get row ''duration'') (VInt 0)), to_float (py_or (get row ''position'') (VInt 0))) of
         (Inr du, Inr po) \<Rightarrow> if 0 < du \<and> 0 < po / du \<and> po / du < 9 / 10 then dict_set (py_str (get row ''content_id'')) row d else d
       | _ \<Rightarrow> d) [] rows"

definition same_place :: "pydict \<Rightarrow> pydict \<Rightarrow> bool" where
  "same_place left right \<longleftrightarrow> py_eq (get left ''season'') (get right ''season'') \<and> py_eq (get left ''episode'') (get right ''episode'')"

definition completed_progress :: "pydict \<Rightarrow> pydict list \<Rightarrow> bool" where
  "completed_progress row watched \<longleftrightarrow>
     list_ex (\<lambda>w. py_str (get w ''content_id'') = py_str (get row ''content_id'') \<and> same_place w row) watched"

definition completed_rows :: "pydict list \<Rightarrow> pydict list" where
  "completed_rows progress =
     filter (\<lambda>row. case (to_float (py_or (get row ''duration'') (VInt 0)), observed_watch_seconds row) of
         (Inr du, Inr seen) \<Rightarrow> 0 < du / 1000 \<and> 9 / 10 \<le> seen / (du / 1000)
       | _ \<Rightarrow> False) progress"

definition same_playback :: "pydict \<Rightarrow> pydict \<Rightarrow> bool" where
  "same_playback left right \<longleftrightarrow>
     py_eq (get left ''position'') (get right ''position'') \<and> py_eq (get left ''duration'') (get right ''duration'') \<and> same_place left right"

section \<open>Playback values\<close>

definition numeral_value :: "pyval \<Rightarrow> pyval" where
  "numeral_value v = (case number_of v of None \<Rightarrow> v | Some r \<Rightarrow> if r = of_int \<lfloor>r\<rfloor> then VInt \<lfloor>r\<rfloor> else VFloat r)"

definition plain_status :: "string \<Rightarrow> playback_value" where
  "plain_status s = \<lparr>pv_status = s, pv_season = None, pv_episode = None, pv_position = VNone, pv_duration = VNone\<rparr>"

definition place_value :: "pydict \<Rightarrow> playback_value" where
  "place_value row = (plain_status ''watching'')\<lparr>pv_season := as_int (get row ''season''), pv_episode := as_int (get row ''episode'')\<rparr>"

definition resume_value :: "pydict \<Rightarrow> playback_value" where
  "resume_value row = (place_value row)\<lparr>pv_position := numeral_value (get row ''position''), pv_duration := numeral_value (get row ''duration'')\<rparr>"

definition finished_value :: "pydict \<Rightarrow> playback_value" where
  "finished_value row = (if get row ''content_type'' = VStr ''movie'' then plain_status ''completed'' else place_value row)"

definition gone_value :: "bool \<Rightarrow> playback_value" where
  "gone_value movie = plain_status (if movie then ''dropped'' else ''paused'')"

definition has_no_place :: "playback_value \<Rightarrow> bool" where
  "has_no_place v \<longleftrightarrow> v = plain_status (pv_status v)"

text \<open>\<open>str\<close> of the tuple.\<close>

definition playback_items :: "playback_value \<Rightarrow> pyval list" where
  "playback_items v = [VStr (pv_status v), opt_int (pv_season v), opt_int (pv_episode v), pv_position v, pv_duration v]"

definition playback_json :: "playback_value option \<Rightarrow> pyval" where
  "playback_json v = (case v of None \<Rightarrow> VNone | Some x \<Rightarrow> VList (playback_items x))"

definition playback_text :: "playback_value option \<Rightarrow> string" where
  "playback_text v = (case v of None \<Rightarrow> ''None'' | Some x \<Rightarrow> ''('' @ str_join '', '' (map py_repr (playback_items x)) @ '')'')"

section \<open>Gathering what the accounts observed\<close>

record gathered =
  ga_candidates :: "(int \<times> playback list) list"
  ga_completions :: "(int \<times> playback list) list"
  ga_records :: "((int \<times> int) \<times> pydict) list"

record playback_snapshot = stream_snapshot +
  sn_sync_playback :: bool
  sn_progress :: "pydict list"
  sn_visibility :: "(string \<times> string list) list"

definition add_candidate :: "int \<Rightarrow> playback \<Rightarrow> gathered \<Rightarrow> gathered" where
  "add_candidate mid ob g = g\<lparr>ga_candidates := dict_alter mid [] (\<lambda>obs. obs @ [ob]) (ga_candidates g)\<rparr>"

definition add_completion :: "int \<Rightarrow> playback \<Rightarrow> gathered \<Rightarrow> gathered" where
  "add_completion mid ob g = g\<lparr>ga_completions := dict_alter mid [] (\<lambda>obs. obs @ [ob]) (ga_completions g)\<rparr>"

text \<open>The TMDB numbers of the round, and the title of a number and a kind.\<close>

definition round_numbers :: "db \<Rightarrow> playback_snapshot list \<Rightarrow> int set result" where
  "round_numbers db snapshots =
     and_then (map_result to_int (filter (\<lambda>v. v \<noteq> VNone) (concat (map (\<lambda>sn. map snd (sn_tmdb_ids sn) @
       map snd (snapshot_dict (baseline_snapshot (stream_baseline_of db (sn_connection_id sn))) ''mappings'')) snapshots))))
       (\<lambda>ids. Inr (set ids))"

definition title_of :: "db \<Rightarrow> int set \<Rightarrow> pyval \<Rightarrow> pyval \<Rightarrow> int option" where
  "title_of db ids v kind =
     (case as_int v of
        None \<Rightarrow> None
      | Some t \<Rightarrow> if t \<in> ids
          then map_option m_id (last_row (\<lambda>m. m_tmdb_id m = Some t \<and> kind = VStr (media_type_value (m_media_type m))) (media_table db))
          else None)"

text \<open>What one account said before, and how its identifiers map to titles.\<close>

record reading =
  rd_conn :: connection
  rd_baseline :: "stream_baseline option"
  rd_title :: "string \<Rightarrow> pyval \<Rightarrow> int option"

definition rd_source :: "reading \<Rightarrow> string" where
  "rd_source rd = source_key (c_type (rd_conn rd)) (Some (c_id (rd_conn rd)))"

definition rd_observed :: "reading \<Rightarrow> datetime option" where
  "rd_observed rd = map_option sb_observed_at (rd_baseline rd)"

definition rd_previous :: "reading \<Rightarrow> pydict" where
  "rd_previous rd = baseline_snapshot (rd_baseline rd)"

definition old_positions :: "reading \<Rightarrow> pydict" where
  "old_positions rd = snapshot_dict (rd_previous rd) ''progress''"

text \<open>An empty row counts as none.\<close>

definition filled_row :: "pydict option \<Rightarrow> pydict option" where
  "filled_row row = (if row = Some [] then None else row)"

definition old_row :: "reading \<Rightarrow> string \<Rightarrow> pydict option" where
  "old_row rd key = filled_row (case map_of (old_positions rd) key of None \<Rightarrow> None | Some v \<Rightarrow> as_dict v)"

definition old_record :: "reading \<Rightarrow> string \<Rightarrow> pydict option" where
  "old_record rd key =
     filled_row (last_row (\<lambda>row. py_str (get row ''content_id'') = key)
       (dict_rows (get (snapshot_dict (rd_previous rd) ''records'') ''progress'')))"

definition row_title :: "reading \<Rightarrow> string \<Rightarrow> pydict \<Rightarrow> int option" where
  "row_title rd key row = rd_title rd key (get row ''content_type'')"

definition prior_value :: "pydict option \<Rightarrow> playback_value option option" where
  "prior_value prior = map_option (\<lambda>row. Some (resume_value row)) prior"

text \<open>A position that reached the end of its title.\<close>

definition gather_completed :: "reading \<Rightarrow> pydict \<Rightarrow> gathered \<Rightarrow> gathered result" where
  "gather_completed rd row g =
     (let key = py_str (get row ''content_id''); prior = old_record rd key in
      and_then (case prior of
          None \<Rightarrow> Inr False
        | Some p \<Rightarrow> if same_playback p row
                    then and_then (provider_changed_at p) (\<lambda>a. and_then (provider_changed_at row) (\<lambda>b. Inr (a = b)))
                    else Inr False) (\<lambda>known.
      if known then Inr g
      else case row_title rd key row of
          None \<Rightarrow> Inr g
        | Some mid \<Rightarrow> and_then (provider_changed_at row) (\<lambda>t.
            Inr (add_completion mid (observe (rd_source rd) (Some (finished_value row)) t (prior_value prior) (rd_observed rd)) g))))"

text \<open>A position within its title.\<close>

definition gather_active :: "reading \<Rightarrow> string \<times> pydict \<Rightarrow> gathered \<Rightarrow> gathered result" where
  "gather_active rd item g =
     (case item of (key, row) \<Rightarrow>
        let prior = old_row rd key in
        if (case prior of None \<Rightarrow> False | Some p \<Rightarrow> same_playback p row \<and> py_eq (get p ''last_watched'') (get row ''last_watched''))
        then Inr g
        else case row_title rd key row of
            None \<Rightarrow> Inr g
          | Some mid \<Rightarrow> and_then (provider_changed_at row) (\<lambda>t.
              Inr (add_candidate mid (observe (rd_source rd) (Some (resume_value row)) t (prior_value prior) (rd_observed rd))
                (g\<lparr>ga_records := dict_set (mid, c_id (rd_conn rd)) row (ga_records g)\<rparr>))))"

text \<open>A title that a Nuvio profile has hidden since.\<close>

definition newly_hidden :: "pydict \<Rightarrow> (string \<times> string list) list \<Rightarrow> (string \<times> string) list" where
  "newly_hidden previous visibility =
     concat (map (\<lambda>(surface, ids).
       if map_of previous surface = None then []
       else map (\<lambda>cid. (surface, cid)) (filter (\<lambda>cid. VStr cid \<notin> set (list_or_empty (get previous surface))) (first_seen ids))) visibility)"

definition gather_hidden :: "reading \<Rightarrow> stream_baseline \<Rightarrow> pydict list \<Rightarrow> string \<times> string \<Rightarrow> gathered \<Rightarrow> gathered" where
  "gather_hidden rd b completed item g =
     (case item of (surface, cid) \<Rightarrow>
        let key = (if surface = ''mobile'' then fst (split_once (CHR ''|'') cid) else cid); movie = rd_title rd key (VStr ''movie'') in
        case opt_or (rd_title rd key (VStr ''series'')) movie of
          None \<Rightarrow> g
        | Some mid \<Rightarrow>
          if movie \<noteq> None \<and> list_ex (\<lambda>row. py_str (get row ''content_id'') = key) completed then g
          else add_candidate mid (observe (rd_source rd) (Some (gone_value (movie \<noteq> None))) None
                 (Some (Some (plain_status ''watching''))) (Some (sb_observed_at b))) g)"

text \<open>A position that has gone from a complete snapshot.\<close>

definition gather_gone :: "reading \<Rightarrow> stream_baseline \<Rightarrow> pydict list \<Rightarrow> string \<times> pyval \<Rightarrow> gathered \<Rightarrow> gathered" where
  "gather_gone rd b completed item g =
     (case item of (key, v) \<Rightarrow>
        let row = dict_or_empty v in
        if completed_progress row completed then g
        else case row_title rd key row of
            None \<Rightarrow> g
          | Some mid \<Rightarrow> add_candidate mid (observe (rd_source rd) (Some (gone_value (get row ''content_type'' = VStr ''movie''))) None
                 (Some (Some (resume_value row))) (Some (sb_observed_at b))) g)"

definition reading_of :: "db \<Rightarrow> int set \<Rightarrow> playback_snapshot \<Rightarrow> connection \<Rightarrow> reading" where
  "reading_of db ids sn conn =
     (let baseline = stream_baseline_of db (c_id conn);
          mappings = dict_merge (snapshot_dict (baseline_snapshot baseline) ''mappings'') (sn_tmdb_ids sn)
      in \<lparr>rd_conn = conn, rd_baseline = baseline, rd_title = (\<lambda>key kind. title_of db ids (get mappings key) kind)\<rparr>)"

definition gather_snapshot :: "db \<Rightarrow> int \<Rightarrow> int set \<Rightarrow> playback_snapshot \<Rightarrow> gathered \<Rightarrow> gathered result" where
  "gather_snapshot db user ids sn g =
     (case snapshot_connection db user (stream_snapshot.truncate sn) of
        None \<Rightarrow> Inr g
      | Some conn \<Rightarrow>
        let rd = reading_of db ids sn conn; active = (if sn_sync_playback sn then active_rows (sn_progress sn) else []);
            done_rows = (if sn_sync_playback sn then completed_rows (sn_progress sn) else []);
            completed = sn_watched sn @ done_rows in
        and_then (fold_result (gather_completed rd) done_rows g) (\<lambda>g1.
        and_then (fold_result (gather_active rd) active g1) (\<lambda>g2.
          Inr (case rd_baseline rd of
                 None \<Rightarrow> g2
               | Some b \<Rightarrow>
                 if \<not> sn_complete sn then g2
                 else
                   let g3 = (if c_type conn = ''nuvio''
                             then fold (gather_hidden rd b completed) (newly_hidden (snapshot_dict (rd_previous rd) ''nuvio_visibility'') (sn_visibility sn)) g2
                             else g2)
                   in if sn_sync_playback sn
                      then fold (gather_gone rd b completed) (filter (\<lambda>(key, v). map_of active key = None) (old_positions rd)) g3
                      else g3))))"

text \<open>A position that was read from a server as seconds and percent belongs to the film or to the show of the episode.\<close>

definition raw_root :: "db \<Rightarrow> media \<Rightarrow> media option result" where
  "raw_root db m =
     (case m_show_id m of
        None \<Rightarrow> Inr (Some m)
      | Some sid \<Rightarrow>
        if sid = 0 then Inr (Some m)
        else (case find (\<lambda>s. s_id s = sid) (show_table db) of
            None \<Rightarrow> Inr None
          | Some s \<Rightarrow> scalar_one_or_none (filter (\<lambda>x. m_tmdb_id x = s_tmdb_id s \<and> m_media_type x = Series) (media_table db))))"

definition raw_duration :: "int \<Rightarrow> rat \<Rightarrow> rat" where
  "raw_duration seconds percent = of_int seconds / (percent / 100) * 1000"

definition raw_value :: "media \<Rightarrow> int \<Rightarrow> rat \<Rightarrow> playback_value" where
  "raw_value m seconds duration =
     \<lparr>pv_status = ''watching'', pv_season = m_season_number m, pv_episode = m_episode_number m,
      pv_position = VInt (seconds * 1000), pv_duration = numeral_value (VFloat duration)\<rparr>"

definition raw_record :: "media \<Rightarrow> media \<Rightarrow> int \<Rightarrow> rat \<Rightarrow> datetime option \<Rightarrow> pydict" where
  "raw_record title m seconds duration t =
     [(''content_type'', VStr (media_type_value (m_media_type title))), (''season'', opt_int (m_season_number m)),
      (''episode'', opt_int (m_episode_number m)), (''position'', VInt (seconds * 1000)), (''duration'', VFloat duration),
      (''updated_at'', case t of None \<Rightarrow> VNone | Some u \<Rightarrow> VStr (datetime_isoformat u))]"

definition raw_prior :: "media \<Rightarrow> (int \<times> rat) option \<Rightarrow> playback_value option" where
  "raw_prior m prior =
     map_option (\<lambda>(seconds, percent). raw_value m seconds (if percent = 0 then 0 else raw_duration seconds percent)) prior"

definition gather_raw :: "media \<Rightarrow> media \<Rightarrow> (int \<times> rat) observation \<Rightarrow> gathered \<Rightarrow> gathered result" where
  "gather_raw title m ob g =
     (if o_previous ob = Some (o_value ob) then Inr g
      else case o_value ob of
        None \<Rightarrow> Inl TypeError
      | Some (seconds, percent) \<Rightarrow>
        if \<not> is_connection_source (o_source ob) then Inl (ProviderError ''IndexError'')
        else and_then (connection_id_of (o_source ob)) (\<lambda>cid.
          let duration = (if 0 < percent then raw_duration seconds percent else 0)
          in Inr (add_candidate (m_id title)
               (observe (o_source ob) (Some (raw_value m seconds duration)) (o_changed_at ob)
                 (map_option (raw_prior m) (o_previous ob)) (o_observed_after ob))
               (g\<lparr>ga_records := dict_set (m_id title, cid) (raw_record title m seconds duration (o_changed_at ob)) (ga_records g)\<rparr>))))"

definition gather_server :: "db \<Rightarrow> int \<times> (int \<times> rat) observation list \<Rightarrow> gathered \<Rightarrow> gathered result" where
  "gather_server db item g =
     (case find_media db (fst item) of
        None \<Rightarrow> Inr g
      | Some m \<Rightarrow> and_then (raw_root db m) (\<lambda>title.
          case title of None \<Rightarrow> Inr g | Some x \<Rightarrow> fold_result (gather_raw x m) (snd item) g))"

text \<open>A title that was decided to be watched completes the film, or its place in the show.  \<open>decided\<close> are the titles of
  \<open>watch_decisions\<close> in their order.\<close>

definition watched_value :: "media \<Rightarrow> playback_value" where
  "watched_value m =
     (if m_media_type m = Movie then plain_status ''completed''
      else (plain_status ''watching'')\<lparr>pv_season := m_season_number m, pv_episode := m_episode_number m\<rparr>)"

definition watched_completion :: "reconciliation \<Rightarrow> int \<Rightarrow> media \<Rightarrow> bool decision \<Rightarrow> string \<Rightarrow> playback" where
  "watched_completion st mid m d source =
     (let seen = (case map_of (dict_get (rc_watch_evidence st) mid []) source of None \<Rightarrow> None | Some t \<Rightarrow> t)
      in (observe source (Some (watched_value m)) (opt_or seen (d_changed_at d)) None None)
           \<lparr>o_inferred := (seen = None \<and> d_changed_at d \<noteq> None)\<rparr>)"

definition gather_watched :: "db \<Rightarrow> int \<Rightarrow> gathered \<times> reconciliation \<Rightarrow> (gathered \<times> reconciliation) result" where
  "gather_watched db mid acc =
     (case acc of (g, st) \<Rightarrow>
        (case rc_watch_decisions st mid of
           None \<Rightarrow> Inr acc
         | Some d \<Rightarrow>
           if d_value d \<noteq> Some True \<or> d_conflict d \<or> d_stale d \<or> d_sources d = {} then Inr acc
           else case find_media db mid of
               None \<Rightarrow> Inr acc
             | Some m \<Rightarrow>
               if m_media_type m \<notin> {Movie, Episode} then Inr acc
               else and_then (tracking_root db mid st) (\<lambda>(rid, st1).
                 Inr (fold (\<lambda>source. add_completion rid (watched_completion st mid m d source)) (sorted_list_of_set (d_sources d)) g, st1))))"

section \<open>Completions over positions\<close>

text \<open>Sorting compares places only between completions of the same moment; a missing number cannot be compared.\<close>

definition mixed :: "'a option list \<Rightarrow> bool" where
  "mixed xs \<longleftrightarrow> None \<in> set xs \<and> set xs \<noteq> {None}"

definition comparable :: "playback list \<Rightarrow> bool" where
  "comparable obs \<longleftrightarrow>
     list_all (\<lambda>ob. let same = filter (\<lambda>x. o_changed_at x = o_changed_at ob) obs in
       \<not> mixed (map (pv_season \<circ> value_of) same) \<and>
       \<not> mixed (map (pv_episode \<circ> value_of) (filter (\<lambda>x. pv_season (value_of x) = pv_season (value_of ob)) same))) obs"

definition completion_order :: "playback \<Rightarrow> datetime \<times> int option \<times> int option \<times> string" where
  "completion_order ob =
     (case o_changed_at ob of None \<Rightarrow> -62135596800000000 | Some t \<Rightarrow> t, pv_season (value_of ob), pv_episode (value_of ob), o_source ob)"

definition merge_completions :: "int \<times> playback list \<Rightarrow> (int \<times> playback list) list \<Rightarrow> (int \<times> playback list) list result" where
  "merge_completions item cands =
     (case item of (mid, obs) \<Rightarrow>
        if pv_status (value_of (hd obs)) \<noteq> ''completed'' \<and> map_of cands mid = None then Inr cands
        else if \<not> comparable obs then Inl TypeError
        else and_then (reconcile_completions (dict_get cands mid []) (sort_key completion_order obs)) (\<lambda>merged.
          Inr (dict_set mid merged cands)))"

definition gather :: "int list \<Rightarrow> playback_snapshot list \<Rightarrow> watch_round \<Rightarrow> (gathered \<times> reconciliation) result" where
  "gather decided snapshots w =
     (let db = wt_db w; st = wt_state w in
      and_then (round_numbers db snapshots) (\<lambda>ids.
      and_then (fold_result (gather_snapshot db (rc_user_id st) ids) snapshots \<lparr>ga_candidates = [], ga_completions = [], ga_records = []\<rparr>) (\<lambda>g1.
      and_then (fold_result (gather_server db) (rc_raw_progress st) g1) (\<lambda>g2.
      and_then (fold_result (gather_watched db) decided (g2, st)) (\<lambda>(g3, st1).
      and_then (fold_result merge_completions (ga_completions g3) (ga_candidates g3)) (\<lambda>cands.
        Inr (g3\<lparr>ga_candidates := cands\<rparr>, st1)))))))"

section \<open>Deciding\<close>

text \<open>The latest stored position of the title or of an episode of its show.\<close>

definition title_media :: "db \<Rightarrow> int \<Rightarrow> int set result" where
  "title_media db mid =
     (case find_media db mid of
        None \<Rightarrow> Inr {mid}
      | Some m \<Rightarrow>
        if m_media_type m \<noteq> Series then Inr {mid}
        else and_then (scalar_one_or_none (filter (\<lambda>s. s_tmdb_id s = m_tmdb_id m) (show_table db))) (\<lambda>found.
          Inr (case found of None \<Rightarrow> {mid}
               | Some s \<Rightarrow> insert mid (m_id ` set (filter (\<lambda>e. m_show_id e = Some (s_id s)) (media_table db))))))"

definition later_position :: "playback_progress \<Rightarrow> playback_progress option \<Rightarrow> playback_progress option" where
  "later_position p best =
     (case best of None \<Rightarrow> Some p
      | Some q \<Rightarrow> if (case (pp_updated_at p, pp_updated_at q) of (Some t, Some u) \<Rightarrow> u < t | (Some t, None) \<Rightarrow> True | _ \<Rightarrow> False)
                  then Some p else best)"

definition latest_position :: "db \<Rightarrow> int \<Rightarrow> int set \<Rightarrow> (playback_progress \<times> media) option" where
  "latest_position db user mids =
     (case fold later_position (filter (\<lambda>p. pp_user_id p = user \<and> pp_media_id p \<in> mids \<and> find_media db (pp_media_id p) \<noteq> None) (progress_table db)) None of
        None \<Rightarrow> None
      | Some p \<Rightarrow> map_option (\<lambda>m. (p, m)) (find_media db (pp_media_id p)))"

text \<open>A percentage above one counts hundredths.\<close>

definition stored_value :: "string \<Rightarrow> playback_progress \<Rightarrow> media \<Rightarrow> playback_value" where
  "stored_value status p m =
     (let percent = (if 1 < pp_progress_percent p then pp_progress_percent p / 100 else pp_progress_percent p) in
      \<lparr>pv_status = status, pv_season = m_season_number m, pv_episode = m_episode_number m,
       pv_position = VInt (pp_progress_seconds p * 1000),
       pv_duration = (if percent = 0 then VNone else numeral_value (VFloat (of_int (pp_progress_seconds p) / percent * 1000)))\<rparr>)"

definition local_playback :: "db \<Rightarrow> int \<Rightarrow> int set \<Rightarrow> int \<Rightarrow> (playback_value option \<times> datetime option) result" where
  "local_playback db user added mid =
     (case last_row (\<lambda>e. te_user_id e = user \<and> te_media_id e = mid) (entry_table db) of
        None \<Rightarrow> Inr (None, None)
      | Some e \<Rightarrow>
        let at_status = (if mid \<in> added then None else status_changed_at e) in
        if te_status e \<noteq> ''watching'' then Inr (Some (plain_status (te_status e)), at_status)
        else and_then (title_media db mid) (\<lambda>mids.
          Inr (case latest_position db user mids of
                 None \<Rightarrow> (Some (plain_status ''watching''), at_status)
               | Some (p, m) \<Rightarrow>
                   (Some (stored_value ''watching'' p m),
                    case naive_utc (pp_updated_at p) of
                      None \<Rightarrow> at_status
                    | Some t \<Rightarrow> if (case at_status of None \<Rightarrow> True | Some u \<Rightarrow> u < t) then Some t else at_status))))"

text \<open>A source that last reported the status held now is compared by its status only.\<close>

definition same_status :: "playback_value option \<Rightarrow> playback \<Rightarrow> bool" where
  "same_status local ob \<longleftrightarrow>
     (case (local, o_previous ob) of (Some l, Some (Some p)) \<Rightarrow> pv_status p = pv_status l | _ \<Rightarrow> False)"

definition normalized :: "playback_value option \<Rightarrow> playback \<Rightarrow> playback" where
  "normalized local ob =
     observe (o_source ob) (o_value ob) (o_changed_at ob)
       (if same_status local ob then Some local else o_previous ob) (o_observed_after ob)"

definition playback_decision ::
  "datetime \<Rightarrow> playback_value option \<Rightarrow> datetime option \<Rightarrow> bool \<Rightarrow> playback list \<Rightarrow> playback_value decision" where
  "playback_decision started local local_at guarded observations =
     (let obs = map (normalized local) observations; d = resolve local local_at obs (Some started) None;
          enriched = resolve None local_at obs (Some started) None in
      if guarded then (keep_local local)\<lparr>d_stale := True\<rparr>
      else if d_conflict d \<and> local = Some (plain_status ''watching'') \<and> list_all (\<lambda>ob. pv_status (value_of ob) = ''watching'') obs
              \<and> \<not> d_conflict enriched
      then enriched else d)"

definition fill_statuses :: "playback_value decision \<Rightarrow> playback list \<Rightarrow> sync_review \<Rightarrow> sync_review" where
  "fill_statuses d observations r =
     r\<lparr>sr_previous_status := map_option pv_status (d_value d), sr_proposed_status := map_option pv_status (o_value (hd observations))\<rparr>"

definition decide_title :: "datetime \<Rightarrow> int set \<Rightarrow> int \<times> playback list \<Rightarrow> watch_round \<Rightarrow> watch_round result" where
  "decide_title now added item w =
     (case item of (mid, obs0) \<Rightarrow>
        let st = wt_state w; user = rc_user_id st; observations = sort_key o_source obs0 in
        and_then (local_playback (wt_db w) user added mid) (\<lambda>(local, local_at).
          let d = playback_decision (rc_started_at st) local local_at (protected_of st mid \<noteq> {}) observations;
              w1 = w\<lparr>wt_state := st\<lparr>rc_playback := (rc_playback st)(mid \<mapsto> d)\<rparr>\<rparr> in
          if d_conflict d then
            and_then (record_conflict now user mid ''playback'' None
                (review_payload playback_json playback_text ''playback'' d observations) (fill_statuses d observations) (wt_db w1)) (\<lambda>db.
              Inr (w1\<lparr>wt_db := db\<rparr>))
          else if d_sources d \<noteq> {} then Inr (w1\<lparr>wt_db := retire_review user mid ''conflict'' None (wt_db w1)\<rparr>)
          else Inr w1))"

section \<open>Applying the decisions\<close>

text \<open>A decision that changes something.\<close>

definition accepted :: "playback_value decision \<Rightarrow> bool" where
  "accepted d \<longleftrightarrow> d_sources d \<noteq> {} \<and> \<not> d_conflict d \<and> \<not> d_stale d"

text \<open>Work that waits for the title is cancelled unless it was queued after the moment that was decided.\<close>

definition cancel_older :: "int \<Rightarrow> int \<Rightarrow> playback_value decision \<Rightarrow> stream_action \<Rightarrow> stream_action result" where
  "cancel_older user mid d a =
     (if sa_user_id a = user \<and> sa_media_id a = mid \<and> sa_state a = ''pending'' \<and> sa_action a \<in> {''dismiss'', ''restore'', ''upsert''}
      then and_then (provider_changed_at [(''updated_at'', get (sa_payload a) ''observed_at'')]) (\<lambda>queued.
        Inr (if (case (queued, d_changed_at d) of (Some q, Some t) \<Rightarrow> t < q | _ \<Rightarrow> False) then a
             else a\<lparr>sa_state := ''cancelled'', sa_payload := []\<rparr>))
      else Inr a)"

definition cancel_title :: "reconciliation \<Rightarrow> int \<Rightarrow> db \<Rightarrow> db result" where
  "cancel_title st mid db =
     (case rc_playback st mid of
        None \<Rightarrow> Inr db
      | Some d \<Rightarrow>
        if \<not> accepted d then Inr db
        else and_then (map_result (cancel_older (rc_user_id st) mid d) (stream_action_table db)) (\<lambda>rows.
          Inr (db\<lparr>stream_action_table := rows\<rparr>)))"

definition names_show :: "media \<Rightarrow> show_row \<Rightarrow> bool" where
  "names_show m s \<longleftrightarrow>
     (m_tmdb_id m \<noteq> None \<and> m_tmdb_id m \<noteq> Some 0 \<and> s_tmdb_id s = m_tmdb_id m)
     \<or> (m_tvdb_id m \<noteq> None \<and> m_tvdb_id m \<noteq> Some 0 \<and> s_tvdb_id s = m_tvdb_id m)"

text \<open>The film, or the episode the record names.\<close>

definition played_media :: "db \<Rightarrow> int \<Rightarrow> pydict \<Rightarrow> media option result" where
  "played_media db mid row =
     (case find_media db mid of
        None \<Rightarrow> Inl (ProviderError ''AttributeError'')
      | Some m \<Rightarrow>
        if m_media_type m \<noteq> Series then Inr (Some m)
        else and_then (scalar_one_or_none (filter (names_show m) (show_table db))) (\<lambda>found.
          case found of
            None \<Rightarrow> Inr None
          | Some s \<Rightarrow> scalar_one_or_none (filter (\<lambda>e. m_show_id e = Some (s_id s) \<and> m_media_type e = Episode
              \<and> m_season_number e = as_int (get row ''season'') \<and> m_episode_number e = as_int (get row ''episode'')) (media_table db))))"

definition put_position :: "datetime \<Rightarrow> datetime option \<Rightarrow> rat \<Rightarrow> rat \<Rightarrow> playback_progress \<Rightarrow> playback_progress" where
  "put_position started changed_at position duration p =
     p\<lparr>pp_progress_seconds := \<lfloor>position / 1000\<rfloor>, pp_progress_percent := position / duration,
       pp_updated_at := Some (case changed_at of None \<Rightarrow> started | Some t \<Rightarrow> t)\<rparr>"

definition place_progress :: "int \<Rightarrow> int \<Rightarrow> datetime \<Rightarrow> datetime option \<Rightarrow> rat \<Rightarrow> rat \<Rightarrow> db \<Rightarrow> db result" where
  "place_progress user mid started changed_at position duration db =
     and_then (scalar_one_or_none (filter (\<lambda>p. pp_user_id p = user \<and> pp_media_id p = mid) (progress_table db))) (\<lambda>found.
       Inr (case found of
              Some p \<Rightarrow>
                if (case pp_updated_at p of None \<Rightarrow> False | Some t \<Rightarrow> started < t) then db
                else db\<lparr>progress_table := update_where (\<lambda>q. pp_id q = pp_id p) (put_position started changed_at position duration) (progress_table db)\<rparr>
            | None \<Rightarrow> db\<lparr>progress_table := progress_table db @
                [put_position started changed_at position duration
                   \<lparr>pp_id = next_id pp_id (progress_table db), pp_user_id = user, pp_media_id = mid,
                    pp_progress_percent = 0, pp_progress_seconds = 0, pp_updated_at = None\<rparr>]\<rparr>))"

definition apply_playback :: "reconciliation \<Rightarrow> int \<Rightarrow> pydict \<Rightarrow> datetime option \<Rightarrow> db \<Rightarrow> db result" where
  "apply_playback st mid row changed_at db =
     and_then (played_media db mid row) (\<lambda>found.
       case found of
         None \<Rightarrow> Inr db
       | Some m \<Rightarrow>
         and_then (to_float (py_or (get row ''duration'') (VInt 0))) (\<lambda>duration.
         and_then (to_float (py_or (get row ''position'') (VInt 0))) (\<lambda>position.
           if duration \<le> 0 \<or> \<not> (0 < position \<and> position < duration) then Inr db
           else place_progress (rc_user_id st) (m_id m) (rc_started_at st) changed_at position duration db)))"

text \<open>The positions a completion makes obsolete.\<close>

definition finished_media :: "db \<Rightarrow> media \<Rightarrow> playback_value \<Rightarrow> int set" where
  "finished_media db m v =
     (if m_media_type m \<noteq> Series then {m_id m}
      else case (pv_season v, pv_episode v) of
          (Some season, Some episode) \<Rightarrow>
            m_id ` {e \<in> set (media_table db).
              (\<exists>s \<in> set (show_table db). names_show m s \<and> m_show_id e = Some (s_id s)) \<and>
              (case (m_season_number e, m_episode_number e) of
                 (Some n, Some k) \<Rightarrow> 0 < n \<and> (n < season \<or> n = season \<and> k \<le> episode)
               | (Some n, None) \<Rightarrow> 0 < n \<and> n < season
               | _ \<Rightarrow> False)}
        | _ \<Rightarrow> {})"

definition clear_completed_playback :: "reconciliation \<Rightarrow> int \<Rightarrow> playback_value \<Rightarrow> db \<Rightarrow> db result" where
  "clear_completed_playback st mid v db =
     (case find_media db mid of
        None \<Rightarrow> Inl (ProviderError ''AttributeError'')
      | Some m \<Rightarrow> Inr (db\<lparr>progress_table := filter (\<lambda>p. \<not> (pp_user_id p = rc_user_id st \<and> pp_media_id p \<in> finished_media db m v
          \<and> (case pp_updated_at p of None \<Rightarrow> True | Some t \<Rightarrow> t \<le> rc_started_at st))) (progress_table db)\<rparr>))"

text \<open>A position from Arvio also changes the status, and goes to the other accounts at once.\<close>

definition round_playback :: "reconciliation \<Rightarrow> int \<Rightarrow> string set option" where
  "round_playback st mid = map_option d_sources (rc_playback st mid)"

definition mark_watching :: "datetime \<Rightarrow> int \<Rightarrow> connection \<Rightarrow> datetime option \<Rightarrow> reconciliation \<Rightarrow> db \<Rightarrow> db" where
  "mark_watching now mid conn changed_at st db =
     (case last_row (\<lambda>e. te_user_id e = rc_user_id st \<and> te_media_id e = mid) (entry_table db) of
        None \<Rightarrow> db
      | Some e \<Rightarrow> update_entry now (te_id e) (\<lambda>x. mark_status_change now (''arvio:'' @ show_int (c_id conn))
          (Some (case changed_at of None \<Rightarrow> rc_started_at st | Some t \<Rightarrow> t)) (x\<lparr>te_status := ''watching''\<rparr>)) db)"

definition share_position ::
  "datetime \<Rightarrow> int \<Rightarrow> connection \<Rightarrow> pydict \<Rightarrow> datetime option \<Rightarrow> watch_round \<Rightarrow> watch_round result" where
  "share_position now mid conn row changed_at w =
     (let st = wt_state w; db1 = mark_watching now mid conn changed_at st (wt_db w) in
      and_then (approved_source db1 (rc_user_id st) (source_key (c_type conn) (Some (c_id conn))) (Some st)) (\<lambda>(ok, current).
        let st1 = (case current of None \<Rightarrow> st | Some x \<Rightarrow> x) in
        if \<not> ok then Inr (w\<lparr>wt_db := db1, wt_state := st1\<rparr>)
        else case find_media db1 mid of
            None \<Rightarrow> Inl (ProviderError ''AttributeError'')
          | Some m \<Rightarrow> and_then (queue_progress_update now (Some (round_playback st1)) conn m row db1) (\<lambda>db2.
              Inr (w\<lparr>wt_db := db2, wt_state := st1\<rparr>))))"

definition apply_title :: "datetime \<Rightarrow> gathered \<Rightarrow> int \<Rightarrow> watch_round \<Rightarrow> watch_round result" where
  "apply_title now g mid w =
     (case rc_playback (wt_state w) mid of
        None \<Rightarrow> Inr w
      | Some d \<Rightarrow>
        if \<not> accepted d then Inr w
        else case d_value d of
          None \<Rightarrow> Inl TypeError
        | Some v \<Rightarrow>
          if pv_status v = ''completed'' \<or> pv_status v = ''watching'' \<and> pv_position v = VNone
          then and_then (clear_completed_playback (wt_state w) mid v (wt_db w)) (\<lambda>db. Inr (w\<lparr>wt_db := db\<rparr>))
          else if pv_status v \<noteq> ''watching'' then Inr w
          else and_then (connection_ids_of (d_sources d)) (\<lambda>ids.
            if ids = [] then Inr w
            else
              let cid = Min (set ids) in
              case map_of (ga_records g) (mid, cid) of
                None \<Rightarrow> Inr w
              | Some row \<Rightarrow>
                if row = [] then Inr w
                else and_then (apply_playback (wt_state w) mid row (d_changed_at d) (wt_db w)) (\<lambda>db.
                  let w1 = w\<lparr>wt_db := db\<rparr> in
                  case find (\<lambda>c. c_id c = cid) (connection_table db) of
                    None \<Rightarrow> Inr w1
                  | Some conn \<Rightarrow> if c_type conn = ''arvio'' then share_position now mid conn row (d_changed_at d) w1 else Inr w1)))"

text \<open>The playback of a round; the snapshots are observed after it.\<close>

definition decide_playback :: "datetime \<Rightarrow> int set \<Rightarrow> int list \<Rightarrow> playback_snapshot list \<Rightarrow> watch_round \<Rightarrow> watch_round result" where
  "decide_playback now added decided snapshots w =
     and_then (gather decided snapshots w) (\<lambda>(g, st).
     and_then (fold_result (decide_title now added) (ga_candidates g) (w\<lparr>wt_state := st\<rparr>)) (\<lambda>w1.
     and_then (fold_result (cancel_title (wt_state w1)) (map fst (ga_candidates g)) (wt_db w1)) (\<lambda>db.
       fold_result (apply_title now g) (map fst (ga_candidates g)) (w1\<lparr>wt_db := db\<rparr>))))"

end
