(* ===== verification/PlaybackDecisions.thy ===== *)
theory PlaybackDecisions
  imports PlaybackRound
begin

text \<open>
  What deciding the playback of a round guarantees: a position the viewer stored since the round began is kept, a
  position is written only where the accounts agreed on it, and one is removed only where the title was finished.
\<close>

section \<open>Frames\<close>

definition positions_same :: "db \<Rightarrow> db \<Rightarrow> bool" where
  "positions_same db db' \<longleftrightarrow> progress_table db' = progress_table db \<and> media_table db' = media_table db \<and> show_table db' = show_table db"

lemma positions_same_refl [simp]: "positions_same db db"
  by (simp add: positions_same_def)

lemma positions_same_trans: "positions_same db db1 \<Longrightarrow> positions_same db1 db2 \<Longrightarrow> positions_same db db2"
  by (simp add: positions_same_def)

lemma fold_positions_same:
  assumes "fold_result step xs db = Inr db'" "\<And>x d d'. step x d = Inr d' \<Longrightarrow> positions_same d d'"
  shows "positions_same db db'"
proof (rule fold_result_invariant [OF assms(1)])
  show "positions_same db d'" if "positions_same db d" "step x d = Inr d'" for x d d'
    using that(1) assms(2) [OF that(2)] by (rule positions_same_trans)
qed simp

lemma coalesce_positions: "coalesce now user cid mid kind payload db = Inr db' \<Longrightarrow> positions_same db db'"
  by (auto simp: coalesce_def and_then_Inr_iff add_stream_action_def update_stream_action_def positions_same_def split: option.splits)

lemma next_up_positions: "queue_next_up_show now user m conn db = Inr db' \<Longrightarrow> positions_same db db'"
  by (auto simp: queue_next_up_show_def Let_def split: if_splits dest: coalesce_positions)

lemma queue_position_positions: "queue_position now source m r t conn db = Inr db' \<Longrightarrow> positions_same db db'"
  by (erule queue_position_cases) (simp_all add: positions_same_def add_stream_action_def update_stream_action_def)

lemma update_positions: "queue_progress_update now replay source m r db = Inr db' \<Longrightarrow> positions_same db db'"
proof (erule progress_update_cases)
  fix t db1
  assume db1: "db1 = db \<or> queue_next_up_show now (c_user_id source) m source db = Inr db1"
    and q: "fold_result (queue_position now source m r t) (position_targets source (m_id m) replay db1) db1 = Inr db'"
  from db1 have "positions_same db db1" using next_up_positions by auto
  moreover from q have "positions_same db1 db'" by (rule fold_positions_same) (rule queue_position_positions)
  ultimately show "positions_same db db'" by (rule positions_same_trans)
qed simp

lemma conflict_positions:
  assumes "record_conflict now user mid category season payload fill db = Inr db'"
  shows "positions_same db db'"
proof -
  obtain r where "db' = db\<lparr>review_table := r\<rparr>" using record_conflict_tables [OF assms] by (rule that)
  then show ?thesis by (simp add: positions_same_def)
qed

lemma retire_positions: "positions_same db (retire_review user mid kind season db)"
  by (simp add: retire_review_def positions_same_def)

lemma cancel_positions: "cancel_title st mid db = Inr db' \<Longrightarrow> positions_same db db'"
  by (auto simp: cancel_title_def and_then_Inr_iff positions_same_def split: option.splits if_splits)

text \<open>What a step keeps of the state of the round.\<close>

definition round_same :: "reconciliation \<Rightarrow> reconciliation \<Rightarrow> bool" where
  "round_same st st' \<longleftrightarrow> rc_user_id st' = rc_user_id st \<and> rc_started_at st' = rc_started_at st"

lemma decide_title_frame:
  assumes "decide_title now added item w = Inr w'"
  shows "positions_same (wt_db w) (wt_db w')" "round_same (wt_state w) (wt_state w')"
  using assms conflict_positions retire_positions
  by (auto simp: decide_title_def Let_def and_then_Inr_iff round_same_def split: prod.splits if_splits)

lemma approved_playback:
  assumes "approved_source db user source (Some st) = Inr (ok, current)"
  obtains st1 where "current = Some st1" "rc_playback st1 = rc_playback st" "round_same st st1"
  using assms that by (auto simp: approved_source_def and_then_Inr_iff replaying_def round_same_def split: option.splits if_splits)

lemma share_frame:
  assumes "share_position now mid conn row t w = Inr w'"
  shows "positions_same (wt_db w) (wt_db w')" "round_same (wt_state w) (wt_state w')" "rc_playback (wt_state w') = rc_playback (wt_state w)"
proof -
  define db1 where "db1 = mark_watching now mid conn t (wt_state w) (wt_db w)"
  have same: "positions_same (wt_db w) db1" by (simp add: db1_def mark_watching_def update_entry_def positions_same_def split: option.split)
  obtain ok current where ap: "approved_source db1 (rc_user_id (wt_state w)) (source_key (c_type conn) (Some (c_id conn))) (Some (wt_state w)) = Inr (ok, current)"
    using assms unfolding share_position_def Let_def and_then_Inr_iff db1_def by auto
  obtain st1 where st1: "current = Some st1" "rc_playback st1 = rc_playback (wt_state w)" "round_same (wt_state w) st1"
    by (rule approved_playback [OF ap])
  have "wt_state w' = st1 \<and> (wt_db w' = db1 \<or> (\<exists>m. queue_progress_update now (Some (round_playback st1)) conn m row db1 = Inr (wt_db w')))"
    using assms unfolding share_position_def Let_def db1_def [symmetric] ap st1(1)
    by (auto simp: and_then_Inr_iff split: if_splits option.splits)
  with same st1 update_positions positions_same_trans show "positions_same (wt_db w) (wt_db w')" "round_same (wt_state w) (wt_state w')"
    "rc_playback (wt_state w') = rc_playback (wt_state w)" by blast+
qed

section \<open>Stored positions\<close>

text \<open>A position the round may write, and one it may remove.\<close>

definition agreed_position :: "(int \<rightharpoonup> playback_value decision) \<Rightarrow> int \<Rightarrow> db \<Rightarrow> playback_progress \<Rightarrow> bool" where
  "agreed_position P user db p \<longleftrightarrow> pp_user_id p = user \<and> 0 < pp_progress_percent p \<and> pp_progress_percent p < 1 \<and>
     (\<exists>mid d v row m. P mid = Some d \<and> accepted d \<and> d_value d = Some v \<and> pv_status v = ''watching'' \<and> pv_position v \<noteq> VNone \<and>
        played_media db mid row = Inr (Some m) \<and> m_id m = pp_media_id p)"

definition finished_position :: "(int \<rightharpoonup> playback_value decision) \<Rightarrow> int \<Rightarrow> db \<Rightarrow> playback_progress \<Rightarrow> bool" where
  "finished_position P user db p \<longleftrightarrow> pp_user_id p = user \<and>
     (\<exists>mid d v m. P mid = Some d \<and> accepted d \<and> d_value d = Some v \<and> (pv_status v = ''completed'' \<or> pv_position v = VNone) \<and>
        find_media db mid = Some m \<and> pp_media_id p \<in> finished_media db m v)"

definition newer_than :: "datetime \<Rightarrow> playback_progress \<Rightarrow> bool" where
  "newer_than started p \<longleftrightarrow> (case pp_updated_at p of None \<Rightarrow> False | Some t \<Rightarrow> started < t)"

definition positions_ok :: "(int \<rightharpoonup> playback_value decision) \<Rightarrow> int \<Rightarrow> datetime \<Rightarrow> db \<Rightarrow> db \<Rightarrow> bool" where
  "positions_ok P user started db db' \<longleftrightarrow>
     media_table db' = media_table db \<and> show_table db' = show_table db \<and> distinct (map pp_id (progress_table db')) \<and>
     (\<forall>p \<in> set (progress_table db). newer_than started p \<longrightarrow> p \<in> set (progress_table db')) \<and>
     (\<forall>p \<in> set (progress_table db'). p \<in> set (progress_table db) \<or> agreed_position P user db p) \<and>
     (\<forall>p \<in> set (progress_table db). finished_position P user db p \<or>
        (\<exists>q \<in> set (progress_table db'). pp_id q = pp_id p \<and> pp_media_id q = pp_media_id p \<and> pp_user_id q = pp_user_id p))"

lemma positions_ok_start: "distinct (map pp_id (progress_table db)) \<Longrightarrow> positions_ok P user started db db"
  by (auto simp: positions_ok_def)

lemma positions_ok_same: "positions_ok P user started db db1 \<Longrightarrow> positions_same db1 db2 \<Longrightarrow> positions_ok P user started db db2"
  by (simp add: positions_ok_def positions_same_def)

lemma played_media_same:
  assumes "media_table db' = media_table db" "show_table db' = show_table db"
  shows "played_media db' mid row = played_media db mid row"
  unfolding played_media_def find_media_def assms ..

lemma finished_media_same:
  assumes "media_table db' = media_table db" "show_table db' = show_table db"
  shows "finished_media db' m v = finished_media db m v"
  unfolding finished_media_def assms ..

lemma place_progress_cases:
  assumes "place_progress user mid started t position duration db = Inr db'"
  obtains (same) "db' = db"
  | (updated) p p' where "p \<in> set (progress_table db)" "\<not> newer_than started p" "pp_id p' = pp_id p" "pp_media_id p' = pp_media_id p"
      "pp_user_id p = user" "pp_user_id p' = user" "pp_media_id p' = mid" "pp_progress_percent p' = position / duration"
      "distinct (map pp_id (progress_table db)) \<Longrightarrow> set (progress_table db') = insert p' (set (progress_table db) - {p})"
      "map pp_id (progress_table db') = map pp_id (progress_table db)" "media_table db' = media_table db" "show_table db' = show_table db"
  | (added) p' where "pp_user_id p' = user" "pp_media_id p' = mid" "pp_progress_percent p' = position / duration"
      "progress_table db' = progress_table db @ [p']" "pp_id p' \<notin> pp_id ` set (progress_table db)"
      "media_table db' = media_table db" "show_table db' = show_table db"
proof -
  let ?put = "put_position started t position duration"
  obtain found where found: "scalar_one_or_none (filter (\<lambda>p. pp_user_id p = user \<and> pp_media_id p = mid) (progress_table db)) = Inr found"
    using assms by (auto simp: place_progress_def and_then_Inr_iff)
  show thesis
  proof (cases found)
    case None
    let ?new = "?put \<lparr>pp_id = next_id pp_id (progress_table db), pp_user_id = user, pp_media_id = mid, pp_progress_percent = 0,
        pp_progress_seconds = 0, pp_updated_at = None\<rparr>"
    have "db' = db\<lparr>progress_table := progress_table db @ [?new]\<rparr>" using assms found None by (simp add: place_progress_def put_position_def)
    then show thesis by (intro added [of ?new]) (simp_all add: put_position_def next_id_not_in)
  next
    case (Some p)
    then have filt: "filter (\<lambda>p. pp_user_id p = user \<and> pp_media_id p = mid) (progress_table db) = [p]"
      using found by (simp add: scalar_one_or_none_Some)
    then have p: "p \<in> set (progress_table db)" "pp_user_id p = user" "pp_media_id p = mid" using filter_eq_ConsD by fastforce+
    show thesis
    proof (cases "newer_than started p")
      case True
      then have "db' = db" using assms found Some by (auto simp: place_progress_def newer_than_def split: option.splits)
      then show thesis by (rule same)
    next
      case False
      then have db': "db' = db\<lparr>progress_table := update_where (\<lambda>q. pp_id q = pp_id p) ?put (progress_table db)\<rparr>"
        using assms found Some by (auto simp: place_progress_def newer_than_def split: option.splits)
      have rows: "set (update_where (\<lambda>q. pp_id q = pp_id p) ?put (progress_table db)) = insert (?put p) (set (progress_table db) - {p})"
        if "distinct (map pp_id (progress_table db))"
      proof -
        have "q = p" if "q \<in> set (progress_table db)" "pp_id q = pp_id p" for q
          using that p(1) \<open>distinct (map pp_id (progress_table db))\<close> by (simp add: distinct_map inj_on_def)
        then have "(if pp_id q = pp_id p then ?put q else q) = (if q = p then ?put p else q)" if "q \<in> set (progress_table db)" for q
          using that by auto
        then have "set (update_where (\<lambda>q. pp_id q = pp_id p) ?put (progress_table db)) = (\<lambda>q. if q = p then ?put p else q) ` set (progress_table db)"
          unfolding update_where_def set_map by (rule image_cong [OF refl])
        also have "\<dots> = insert (?put p) (set (progress_table db) - {p})" using p(1) by (auto simp: image_iff)
        finally show ?thesis .
      qed
      have ids: "map pp_id (update_where (\<lambda>q. pp_id q = pp_id p) ?put (progress_table db)) = map pp_id (progress_table db)"
        by (simp add: update_where_def put_position_def)
      show thesis by (rule updated [of p "?put p"]) (use p False rows ids in \<open>simp_all add: db' put_position_def\<close>)
    qed
  qed
qed

lemma apply_playback_ok:
  assumes ok: "positions_ok P user started db db1" and step: "apply_playback st mid row t db1 = Inr db2"
    and st: "rc_user_id st = user" "rc_started_at st = started"
    and d: "P mid = Some d" "accepted d" "d_value d = Some v" "pv_status v = ''watching''" "pv_position v \<noteq> VNone"
  shows "positions_ok P user started db db2"
proof -
  have tables: "media_table db1 = media_table db" "show_table db1 = show_table db" "distinct (map pp_id (progress_table db1))"
    using ok by (simp_all add: positions_ok_def)
  obtain found where found: "played_media db mid row = Inr found"
    using step by (auto simp: apply_playback_def and_then_Inr_iff played_media_same [OF tables(1,2)])
  show ?thesis
  proof (cases "db2 = db1")
    case False
    with step found obtain m duration position where m: "found = Some m" and pos: "0 < duration" "0 < position" "position < duration"
      and place: "place_progress user (m_id m) started t position duration db1 = Inr db2"
      by (auto simp: apply_playback_def and_then_Inr_iff played_media_same [OF tables(1,2)] st split: option.splits if_splits)
    have agreed: "agreed_position P user db p" if "pp_user_id p = user" "pp_media_id p = m_id m" "pp_progress_percent p = position / duration" for p
    proof -
      have "played_media db mid row = Inr (Some m)" "m_id m = pp_media_id p" using found m that(2) by simp_all
      with that pos d show ?thesis unfolding agreed_position_def by (simp only: divide_pos_pos divide_less_eq_1_pos simp_thms) blast
    qed
    from place show ?thesis
    proof (cases rule: place_progress_cases)
      case same
      with False show ?thesis by simp
    next
      case (updated p p')
      with ok tables agreed [of p'] show ?thesis by (auto simp: positions_ok_def)
    next
      case (added p')
      with ok tables agreed [of p'] show ?thesis by (auto simp: positions_ok_def)
    qed
  qed (use ok in simp)
qed

lemma clear_completed_ok:
  assumes ok: "positions_ok P user started db db1" and step: "clear_completed_playback st mid v db1 = Inr db2"
    and st: "rc_user_id st = user" "rc_started_at st = started"
    and d: "P mid = Some d" "accepted d" "d_value d = Some v" "pv_status v = ''completed'' \<or> pv_position v = VNone"
  shows "positions_ok P user started db db2"
proof -
  have tables: "media_table db1 = media_table db" "show_table db1 = show_table db" using ok by (simp_all add: positions_ok_def)
  have media: "find_media db1 mid = find_media db mid" by (simp add: find_media_def tables)
  with step obtain m where m: "find_media db mid = Some m" by (cases "find_media db mid") (simp_all add: clear_completed_playback_def)
  have old: "(case pp_updated_at p of None \<Rightarrow> True | Some t \<Rightarrow> t \<le> started) \<longleftrightarrow> \<not> newer_than started p" for p
    by (simp add: newer_than_def not_less split: option.split)
  have db2: "db2 = db1\<lparr>progress_table := filter (\<lambda>p. \<not> (pp_user_id p = user \<and> pp_media_id p \<in> finished_media db m v \<and> \<not> newer_than started p))
      (progress_table db1)\<rparr>"
    using step unfolding clear_completed_playback_def media m option.case st old finished_media_same [OF tables] by simp
  have fin: "finished_position P user db p" if "pp_user_id p = user" "pp_media_id p \<in> finished_media db m v" for p
    using that d m unfolding finished_position_def by blast
  have same_place: "finished_position P user db p \<longleftrightarrow> finished_position P user db q"
    if "pp_media_id q = pp_media_id p" "pp_user_id q = pp_user_id p" for p q :: playback_progress
    using that by (simp add: finished_position_def)
  show ?thesis unfolding positions_ok_def
  proof (intro conjI ballI impI)
    show "media_table db2 = media_table db" "show_table db2 = show_table db" by (simp_all add: db2 tables)
    show "distinct (map pp_id (progress_table db2))" using ok by (simp add: db2 positions_ok_def distinct_map_filter)
    show "p \<in> set (progress_table db2)" if "p \<in> set (progress_table db)" "newer_than started p" for p
      using ok that by (simp add: db2 positions_ok_def)
    show "p \<in> set (progress_table db) \<or> agreed_position P user db p" if "p \<in> set (progress_table db2)" for p
      using ok that by (auto simp: db2 positions_ok_def)
    show "finished_position P user db p \<or> (\<exists>q \<in> set (progress_table db2). pp_id q = pp_id p \<and> pp_media_id q = pp_media_id p \<and> pp_user_id q = pp_user_id p)"
      if "p \<in> set (progress_table db)" for p
    proof (cases "finished_position P user db p")
      case False
      with ok that obtain q where q: "q \<in> set (progress_table db1)" "pp_id q = pp_id p" "pp_media_id q = pp_media_id p" "pp_user_id q = pp_user_id p"
        by (auto simp: positions_ok_def)
      with False fin [of q] same_place [OF q(3,4)] have "q \<in> set (progress_table db2)" by (auto simp: db2)
      with q show ?thesis by blast
    qed simp
  qed
qed

lemma apply_title_ok:
  assumes ok: "positions_ok (rc_playback (wt_state w)) (rc_user_id (wt_state w)) (rc_started_at (wt_state w)) db (wt_db w)"
    and step: "apply_title now g mid w = Inr w'"
  shows "positions_ok (rc_playback (wt_state w)) (rc_user_id (wt_state w)) (rc_started_at (wt_state w)) db (wt_db w') \<and>
    rc_playback (wt_state w') = rc_playback (wt_state w) \<and> round_same (wt_state w) (wt_state w')"
proof (cases "w' = w")
  case True
  with ok show ?thesis by (simp add: round_same_def)
next
  case changed: False
  let ?st = "wt_state w"
  from step changed obtain d where d: "rc_playback ?st mid = Some d" "accepted d"
    by (auto simp: apply_title_def split: option.splits if_splits)
  with step obtain v where v: "d_value d = Some v" by (auto simp: apply_title_def split: option.splits if_splits)
  show ?thesis
  proof (cases "pv_status v = ''completed'' \<or> pv_status v = ''watching'' \<and> pv_position v = VNone")
    case True
    with step d v obtain db2 where "clear_completed_playback ?st mid v (wt_db w) = Inr db2" "w' = w\<lparr>wt_db := db2\<rparr>"
      by (auto simp: apply_title_def and_then_Inr_iff)
    with clear_completed_ok [OF ok this(1) refl refl d v] True show ?thesis by (auto simp: round_same_def)
  next
    case False
    with step changed d v have watching: "pv_status v = ''watching''" "pv_position v \<noteq> VNone"
      by (auto simp: apply_title_def split: if_splits)
    obtain ids where ids: "connection_ids_of (d_sources d) = Inr ids"
      using step d v watching by (auto simp: apply_title_def and_then_Inr_iff)
    with step changed d v watching obtain row where row: "map_of (ga_records g) (mid, Min (set ids)) = Some row" "row \<noteq> []" "ids \<noteq> []"
      by (auto simp: apply_title_def Let_def split: option.splits if_splits)
    with step ids d v watching obtain db2 where db2: "apply_playback ?st mid row (d_changed_at d) (wt_db w) = Inr db2"
      by (auto simp: apply_title_def Let_def and_then_Inr_iff)
    have ok2: "positions_ok (rc_playback ?st) (rc_user_id ?st) (rc_started_at ?st) db db2"
      by (rule apply_playback_ok [OF ok db2 refl refl d v watching])
    have "w' = w\<lparr>wt_db := db2\<rparr> \<or> (\<exists>conn. share_position now mid conn row (d_changed_at d) (w\<lparr>wt_db := db2\<rparr>) = Inr w')"
      using step ids d v watching row db2 by (auto simp: apply_title_def Let_def split: option.splits if_splits)
    then show ?thesis
    proof (elim disjE exE)
      assume "w' = w\<lparr>wt_db := db2\<rparr>"
      with ok2 show ?thesis by (simp add: round_same_def)
    next
      fix conn
      assume "share_position now mid conn row (d_changed_at d) (w\<lparr>wt_db := db2\<rparr>) = Inr w'"
      from share_frame [OF this] positions_ok_same [OF ok2] show ?thesis by simp
    qed
  qed
qed

lemma gather_state:
  assumes "gather decided snapshots w = Inr (g, st)"
  shows "round_same (wt_state w) st"
proof -
  from assms obtain g2 g3 where folded: "fold_result (gather_watched (wt_db w)) decided (g2, wt_state w) = Inr (g3, st)"
    by (auto simp: gather_def Let_def and_then_Inr_iff)
  have "round_same (wt_state w) (snd (g3, st))"
  proof (rule fold_result_invariant [OF folded, where P = "\<lambda>acc. round_same (wt_state w) (snd acc)"])
    fix mid acc acc'
    assume same: "round_same (wt_state w) (snd acc)" and step: "gather_watched (wt_db w) mid acc = Inr acc'"
    obtain ga sa where acc: "acc = (ga, sa)" by (cases acc)
    have "snd acc' = sa \<or> (\<exists>rid. tracking_root (wt_db w) mid sa = Inr (rid, snd acc'))"
      using step by (auto simp: gather_watched_def acc and_then_Inr_iff split: option.splits if_splits)
    then have "round_same sa (snd acc')" by (auto simp: round_same_def elim!: tracking_root_frame)
    with same show "round_same (wt_state w) (snd acc')" by (simp add: acc round_same_def)
  qed (simp add: round_same_def)
  then show ?thesis by simp
qed


section \<open>Clocks that were inferred\<close>

text \<open>C30: The mark that the moment of a completion was inferred is lost before the decision: where the shared rules leave
  a dated position against a completion of uncertain date to the viewer, the playback of a round decides by the dates.\<close>

theorem inferred_clock_decides:
  assumes "o_inferred c" "o_source c < o_source r" "clock c = Some t" "clock r = Some u" "t < u" "o_value c \<noteq> o_value r"
    and "o_previous c = None" "o_previous r = None"
  shows "d_conflict (resolve None None [c, r] (Some started) None) \<and>
    d_value (playback_decision started None None False [c, r]) = o_value r \<and> \<not> d_conflict (playback_decision started None None False [c, r])"
  using assms
  by (simp add: playback_decision_def normalized_def same_status_def resolve_def deltas_def is_delta_def infer_clock_def superseded_def
      resolve_values_def clocked_winner_def keep_local_def agree_on_def observe_def clock_def clocks_def latest_def first_seen_def
      List.map_filter_def naive_utc_def Let_def)

section \<open>An example\<close>

text \<open>An account reports a film at minute ten; another film has just been played on this device.\<close>

definition sample_playing :: playback_snapshot where
  "sample_playing = \<lparr>sn_connection_id = 5, sn_identity_version = None, sn_sync_watched = True, sn_complete = True, sn_watched = [],
     sn_tmdb_ids = [], sn_sync_playback = True,
     sn_progress = [[(''content_id'', VStr ''tmdb:77''), (''content_type'', VStr ''movie''), (''position'', VInt 600000),
       (''duration'', VInt 5400000), (''last_watched'', VInt 1717149600)]], sn_visibility = []\<rparr>"

definition sample_local_position :: playback_progress where
  "sample_local_position = \<lparr>pp_id = 4, pp_user_id = 1, pp_media_id = 12, pp_progress_percent = 1 / 2, pp_progress_seconds = 60,
     pp_updated_at = Some 1717322500000000\<rparr>"

definition sample_playback_round :: watch_round where
  "sample_playback_round = \<lparr>wt_db = sample_queue_db\<lparr>progress_table := [sample_local_position]\<rparr>, wt_cycle = new_cycle 1,
     wt_state = (new_reconciliation 1 1717322400000000)\<lparr>rc_collecting := False\<rparr>\<rparr>"

lemma sample_playback_run:
  "case decide_playback 9000 {} [] [sample_playing] sample_playback_round of
     Inr w \<Rightarrow> map (\<lambda>p. (pp_id p, pp_media_id p, pp_progress_seconds p)) (progress_table (wt_db w)) = [(4, 12, 60), (5, 10, 600)]
       \<and> map sa_state (stream_action_table (wt_db w)) = [''cancelled'', ''pending'']
   | Inl _ \<Rightarrow> False"
  by code_simp


text \<open>A film that one account counts as watched on an unknown day, and another reports at minute ten.\<close>

lemma inferred_clock_decides_witness:
  "d_value (playback_decision 9000000 None None False
     [(observe ''connection:5'' (Some (plain_status ''completed'')) (Some 1000000) None None)\<lparr>o_inferred := True\<rparr>,
      observe ''connection:6'' (Some (plain_status ''watching'')) (Some 2000000) None None]) = Some (plain_status ''watching'')"
  using inferred_clock_decides [of "(observe ''connection:5'' (Some (plain_status ''completed'')) (Some 1000000) None None)\<lparr>o_inferred := True\<rparr>"
      "observe ''connection:6'' (Some (plain_status ''watching'')) (Some 2000000) None None" 1000000 2000000 9000000]
  by (simp add: observe_def clock_def naive_utc_def milliseconds_def plain_status_def)

end
