(* ===== verification/StreamSnapshot.thy ===== *)
theory StreamSnapshot
  imports PlaybackRound
begin

text \<open>
  Reading a snapshot of a streaming account (\<open>core/tracking_snapshot.py\<close>): which rows are new, the feed made whole, the
  fence against snapshots that a newer write has outdated, the hidden titles of a Nuvio profile, the deletions that new
  viewing lifts, the episodes an observation proves, and whether it is newer than what the viewer did.
\<close>

section \<open>Rows that are new and current\<close>

definition filter_result :: "('a \<Rightarrow> bool result) \<Rightarrow> 'a list \<Rightarrow> 'a list result" where
  "filter_result P rows = and_then (map_result P rows) (\<lambda>bs. Inr (map fst (filter snd (zip rows bs))))"

text \<open>The identity of a play: its key, its date, and whether the date belongs to the whole title.\<close>

definition watch_observation :: "pydict \<Rightarrow> string \<times> string \<times> bool" where
  "watch_observation row = (watch_key row, py_str (get row ''watched_at''), truthy (get row ''date_shared''))"

definition entry_clock :: "db \<Rightarrow> int \<Rightarrow> int set \<Rightarrow> int \<Rightarrow> pyval \<Rightarrow> datetime option" where
  "entry_clock db user imported tmdb kind =
     (case last_row (\<lambda>e. te_user_id e = user \<and> (case find_media db (te_media_id e) of None \<Rightarrow> False
          | Some m \<Rightarrow> m_tmdb_id m = Some tmdb \<and> VStr (media_type_value (m_media_type m)) = kind \<and> m_id m \<notin> imported)) (entry_table db) of
        None \<Rightarrow> None
      | Some e \<Rightarrow> status_changed_at e)"

text \<open>The identifiers of the account; a tracked title adds its IMDb identifier unless the account maps it already.\<close>

definition entry_identifiers :: "db \<Rightarrow> int \<Rightarrow> pydict \<Rightarrow> pydict" where
  "entry_identifiers db user mappings =
     foldl (\<lambda>d e. case find_media db (te_media_id e) of
         None \<Rightarrow> d
       | Some m \<Rightarrow>
         (case (as_str (external_imdb (case m_tmdb_data m of None \<Rightarrow> [] | Some x \<Rightarrow> x)), m_tmdb_id m) of
            (Some imdb, Some t) \<Rightarrow> if imdb = [] \<or> t = 0 \<or> map_of d imdb \<noteq> None then d else dict_set imdb (VInt t) d
          | _ \<Rightarrow> d)) mappings (filter (\<lambda>e. te_user_id e = user) (entry_table db))"

definition row_number :: "pydict \<Rightarrow> string \<Rightarrow> int option" where
  "row_number mappings key =
     (if get mappings key = VNone then (if starts_with ''tmdb:'' key then int_of_str (drop 5 key) else None)
      else as_int (get mappings key))"

definition is_current :: "db \<Rightarrow> int \<Rightarrow> int set \<Rightarrow> pydict \<Rightarrow> pydict \<Rightarrow> bool result" where
  "is_current db user imported mappings row =
     and_then (provider_changed_at row) (\<lambda>seen_at.
       Inr (case (case row_number mappings (py_str (get row ''content_id'')) of None \<Rightarrow> None
                  | Some t \<Rightarrow> entry_clock db user imported t (get row ''content_type''), seen_at) of
              (Some held, Some t) \<Rightarrow> held \<le> t
            | _ \<Rightarrow> True))"

definition current_watch_rows :: "db \<Rightarrow> connection \<Rightarrow> int set \<Rightarrow> pydict list \<Rightarrow> pydict list result" where
  "current_watch_rows db conn imported rows =
     (let mappings = entry_identifiers db (c_user_id conn) (snapshot_dict (baseline_snapshot (stream_baseline_of db (c_id conn))) ''mappings'')
      in filter_result (is_current db (c_user_id conn) imported mappings) rows)"

definition changed_watch_rows_from_source :: "db \<Rightarrow> connection \<Rightarrow> pydict list \<Rightarrow> pydict list result" where
  "changed_watch_rows_from_source db conn rows =
     (case stream_baseline_of db (c_id conn) of
        None \<Rightarrow> Inr rows
      | Some b \<Rightarrow>
        if \<not> sb_approved b then current_watch_rows db conn {} rows
        else current_watch_rows db conn {}
          (filter (\<lambda>row. watch_observation row \<notin> watch_observation ` set (old_watched (sb_snapshot b))) rows))"

section \<open>Making a feed whole, and the fence\<close>

text \<open>What a pull hands over.  \<open>fd_touched\<close> are the titles of an incremental feed.\<close>

record stream_feed =
  fd_library :: "pydict list"
  fd_watched :: "pydict list"
  fd_progress :: "pydict list"
  fd_ids :: pydict
  fd_complete :: bool
  fd_touched :: "string list option"
  fd_sync_playback :: bool
  fd_sync_watched :: bool
  fd_fresh :: bool
  fd_started :: "datetime option"
  fd_visibility :: "pydict option"

definition merge_rows :: "string list \<Rightarrow> pydict list \<Rightarrow> pydict list \<Rightarrow> pydict list" where
  "merge_rows touched previous current = filter (\<lambda>row. py_str (get row ''content_id'') \<notin> set touched) previous @ current"

definition materialize :: "stream_baseline option \<Rightarrow> stream_feed \<Rightarrow> stream_feed option result" where
  "materialize baseline fd =
     (if fd_fresh fd \<and> \<not> fd_complete fd then Inl ValueError
      else if fd_complete fd then Inr (Some fd)
      else case (get (baseline_snapshot baseline) ''records'', fd_touched fd) of
          (VDict recs, Some touched) \<Rightarrow>
            Inr (Some (fd\<lparr>fd_library := merge_rows touched (dict_rows (get recs ''library'')) (fd_library fd),
                          fd_watched := merge_rows touched (dict_rows (get recs ''watched'')) (fd_watched fd),
                          fd_progress := merge_rows touched (dict_rows (get recs ''progress'')) (fd_progress fd),
                          fd_ids := dict_merge (snapshot_dict (baseline_snapshot baseline) ''mappings'') (fd_ids fd)\<rparr>))
        | _ \<Rightarrow> Inr None)"

text \<open>When the clear that guards the account began, if the guard says it legibly.\<close>

definition clear_began :: "pyval \<Rightarrow> datetime option result" where
  "clear_began guard =
     (case parse_datetime (zulu_offset (py_str (case as_dict guard of None \<Rightarrow> VNone | Some d \<Rightarrow> get d ''started_at''))) of
        None \<Rightarrow> Inr None
      | Some v \<Rightarrow> and_then (to_naive_utc v) (\<lambda>t. Inr (Some t)))"

definition older :: "datetime option \<Rightarrow> datetime option \<Rightarrow> bool" where
  "older a b \<longleftrightarrow> (case (a, b) of (Some s, Some t) \<Rightarrow> s < t | _ \<Rightarrow> False)"

definition snapshot_fence :: "stream_baseline option \<Rightarrow> stream_feed \<Rightarrow> unit result" where
  "snapshot_fence prior fd =
     (let guard = get (baseline_snapshot prior) ''clear_guard'' in
      and_then (if truthy guard
                then and_then (clear_began guard) (\<lambda>began.
                  if \<not> fd_fresh fd \<or> older (fd_started fd) began then Inl RuntimeError else Inr ())
                else Inr ()) (\<lambda>_.
        if older (fd_started fd) (map_option sb_observed_at prior) then Inl RuntimeError else Inr ()))"

section \<open>Hidden titles of a Nuvio profile\<close>

definition surfaces :: "string list" where
  "surfaces = [''tv'', ''mobile'']"

text \<open>A surface that was read, with the titles it hides.\<close>

definition observed_surface :: "pydict \<Rightarrow> string \<Rightarrow> (string \<times> string list) option" where
  "observed_surface visibility surface =
     map_option (\<lambda>xs. (surface, first_seen (filter (\<lambda>s. s \<noteq> []) (map (\<lambda>v. strip (py_str v)) xs)))) (as_list (get visibility surface))"

definition observed_visibility :: "connection \<Rightarrow> stream_feed \<Rightarrow> (string \<times> string list) list" where
  "observed_visibility conn fd =
     (case fd_visibility fd of
        Some v \<Rightarrow> if c_type conn = ''nuvio'' \<and> fd_complete fd then List.map_filter (observed_surface v) surfaces else []
      | None \<Rightarrow> [])"

definition kept_visibility :: "pydict \<Rightarrow> pydict" where
  "kept_visibility previous = filter (\<lambda>(surface, v). surface \<in> set surfaces \<and> as_list v \<noteq> None) previous"

definition kept_echoes :: "pydict \<Rightarrow> pydict" where
  "kept_echoes previous = filter (\<lambda>(surface, v). surface \<in> set surfaces \<and> as_dict v \<noteq> None) previous"

text \<open>A marker expects a title to be hidden or shown; a read that agrees acknowledges it.\<close>

definition acknowledged_echo :: "string list \<Rightarrow> string \<times> pyval \<Rightarrow> bool" where
  "acknowledged_echo current marker \<longleftrightarrow> (fst marker \<in> set current) = truthy (snd marker)"

definition hidden_number :: "pydict \<Rightarrow> string \<Rightarrow> string \<Rightarrow> int option" where
  "hidden_number mappings surface raw_key =
     (let base = (if surface = ''mobile'' then fst (split_once (CHR ''|'') raw_key) else raw_key); mapped = get mappings base in
      if mapped = VNone then (if starts_with ''tmdb:'' base then int_of_str (drop 5 base) else None)
      else (case to_int mapped of Inl _ \<Rightarrow> None | Inr n \<Rightarrow> Some n))"

record hidden_reading =
  hr_visibility :: pydict
  hr_echoes :: pydict
  hr_dismissed :: "int set"

definition read_surface :: "pydict \<Rightarrow> pydict \<Rightarrow> string \<times> string list \<Rightarrow> hidden_reading \<Rightarrow> hidden_reading" where
  "read_surface mappings previous item h =
     (case item of (surface, current) \<Rightarrow>
        let markers = snapshot_dict (hr_echoes h) surface; acked = filter (acknowledged_echo current) markers;
            fresh = filter (\<lambda>k. VStr k \<notin> set (list_or_empty (get previous surface)) \<and> k \<notin> fst ` set acked) current in
        \<lparr>hr_visibility = dict_set surface (VList (map VStr current)) (hr_visibility h),
         hr_echoes = dict_set surface (VDict (filter (\<lambda>x. \<not> acknowledged_echo current x) markers)) (hr_echoes h),
         hr_dismissed = (if map_of previous surface = None then hr_dismissed h
                         else hr_dismissed h \<union> set (List.map_filter (hidden_number mappings surface) fresh))\<rparr>)"

definition read_visibility :: "connection \<Rightarrow> pydict \<Rightarrow> pydict \<Rightarrow> stream_feed \<Rightarrow> hidden_reading" where
  "read_visibility conn previous mappings fd =
     (let known = snapshot_dict previous ''nuvio_visibility'' in
      fold (read_surface mappings known) (observed_visibility conn fd)
        \<lparr>hr_visibility = kept_visibility known, hr_echoes = kept_echoes (snapshot_dict previous ''cw_visibility_echo''), hr_dismissed = {}\<rparr>)"

section \<open>Deletions that new viewing lifts\<close>

text \<open>The marker of a title whose removal every account has acknowledged.\<close>

definition acknowledged_marker :: "db \<Rightarrow> int \<Rightarrow> int \<Rightarrow> tracking_deletion option" where
  "acknowledged_marker db user mid =
     last_row (\<lambda>t. td_user_id t = user \<and> td_media_id t = mid \<and> td_pending_connections t = []) (deletion_table db)"

definition row_media :: "db \<Rightarrow> pydict \<Rightarrow> pydict \<Rightarrow> media option" where
  "row_media db mappings row =
     (case as_int (get mappings (py_str (get row ''content_id''))) of
        None \<Rightarrow> None
      | Some t \<Rightarrow> last_row (\<lambda>m. m_tmdb_id m = Some t \<and> m_media_type m \<in> {Movie, Series}
          \<and> VStr (media_type_value (m_media_type m)) = get row ''content_type'') (media_table db))"

text \<open>Only viewing counts: a changed record of an old play lifts nothing.\<close>

definition viewed_at :: "pydict \<Rightarrow> datetime option result" where
  "viewed_at row = provider_changed_at [(''watched_at'', get row ''watched_at''), (''last_watched'', get row ''last_watched'')]"

definition released_title :: "db \<Rightarrow> int \<Rightarrow> pydict \<Rightarrow> pydict \<Rightarrow> int option result" where
  "released_title db user mappings row =
     (case row_media db mappings row of
        None \<Rightarrow> Inr None
      | Some m \<Rightarrow>
        (case acknowledged_marker db user (m_id m) of
           None \<Rightarrow> Inr None
         | Some t \<Rightarrow> and_then (viewed_at row) (\<lambda>seen.
             Inr (if older (Some (td_deleted_at t)) seen then Some (m_id m) else None))))"

definition release_titles :: "int \<Rightarrow> int set \<Rightarrow> db \<Rightarrow> db" where
  "release_titles user released db =
     db\<lparr>deletion_table := filter (\<lambda>t. \<not> (td_user_id t = user \<and> td_media_id t \<in> released)) (deletion_table db),
        review_table := filter (\<lambda>r. \<not> (sr_user_id r = user \<and> sr_media_id r \<in> Some ` released \<and> sr_kind r = ''outbound_pending'')) (review_table db)\<rparr>"

definition release_rewatched_deletions :: "connection \<Rightarrow> pydict list \<Rightarrow> pydict list \<Rightarrow> pydict \<Rightarrow> db \<Rightarrow> db result" where
  "release_rewatched_deletions conn watched progress mappings db =
     and_then (map_result (released_title db (c_user_id conn) mappings) (watched @ progress)) (\<lambda>found.
       Inr (release_titles (c_user_id conn) (set (List.map_filter id found)) db))"

section \<open>How far a position is\<close>

type_synonym rank = "int \<times> int \<times> rat \<times> rat"

definition playback_rank :: "pydict \<Rightarrow> rank" where
  "playback_rank row =
     (case (to_float (py_or (get row ''position'') (VInt 0)), to_float (py_or (get row ''duration'') (VInt 0)),
            to_int (py_or (get row ''season'') (VInt 0)), to_int (py_or (get row ''episode'') (VInt 0))) of
        (Inr po, Inr du, Inr s, Inr e) \<Rightarrow> (s, e, if 0 < du then po / du else 0, po)
      | _ \<Rightarrow> (0, 0, 0, 0))"

text \<open>The first of the greatest elements, as \<open>max\<close> returns it.\<close>

definition max_by :: "('a \<Rightarrow> 'k :: linorder) \<Rightarrow> 'a list \<Rightarrow> 'a option" where
  "max_by f xs = foldl (\<lambda>best x. case best of None \<Rightarrow> Some x | Some b \<Rightarrow> if f b < f x then Some x else best) None xs"

text \<open>The account whose playback set the status of an entry.\<close>

definition status_account :: "tracked_entry \<Rightarrow> int option" where
  "status_account e =
     (case split_once (CHR '':'') (case te_status_source e of None \<Rightarrow> [] | Some s \<Rightarrow> s) of
        (kind, Some raw) \<Rightarrow> if kind \<in> {''stremio'', ''nuvio''} then int_of_str raw else None
      | _ \<Rightarrow> None)"

definition previous_source_playback :: "db \<Rightarrow> tracked_entry \<Rightarrow> media \<Rightarrow> pydict option" where
  "previous_source_playback db e m =
     (case (case status_account e of None \<Rightarrow> None | Some cid \<Rightarrow> stream_baseline_of db cid) of
        None \<Rightarrow> None
      | Some b \<Rightarrow>
        max_by playback_rank (map (dict_or_empty \<circ> snd)
          (filter (\<lambda>(key, v). py_eq (get (snapshot_dict (sb_snapshot b) ''mappings'') key) (opt_int (m_tmdb_id m)))
            (snapshot_dict (sb_snapshot b) ''progress''))))"

section \<open>The episodes an observation proves\<close>

definition episode_before :: "media \<Rightarrow> int \<times> bool \<times> int" where
  "episode_before e =
     (case m_season_number e of None \<Rightarrow> 0 | Some s \<Rightarrow> s, m_episode_number e = None, case m_episode_number e of None \<Rightarrow> 0 | Some n \<Rightarrow> n)"

text \<open>The released regular episodes of a show, in order; unnumbered ones come last in their season.\<close>

definition is_released :: "date \<Rightarrow> int \<Rightarrow> media \<Rightarrow> bool" where
  "is_released today sid e \<longleftrightarrow>
     m_show_id e = Some sid \<and> m_media_type e = Episode \<and> (case m_season_number e of None \<Rightarrow> False | Some s \<Rightarrow> 0 < s)
     \<and> (case m_release_date e of None \<Rightarrow> False | Some r \<Rightarrow> r \<le> isoformat today)"

definition regular_released :: "date \<Rightarrow> int \<Rightarrow> db \<Rightarrow> media list" where
  "regular_released today sid db = sort_key episode_before (filter (is_released today sid) (media_table db))"

definition observed_episode :: "pydict \<Rightarrow> media \<Rightarrow> bool" where
  "observed_episode row e \<longleftrightarrow> py_eq (opt_int (m_season_number e)) (get row ''season'') \<and> py_eq (opt_int (m_episode_number e)) (get row ''episode'')"

definition watched_episodes :: "db \<Rightarrow> int \<Rightarrow> media list \<Rightarrow> int set" where
  "watched_episodes db user episodes =
     we_media_id ` set (filter (\<lambda>w. we_user_id w = user \<and> we_completed w \<and> we_media_id w \<in> m_id ` set episodes) (watch_event_table db))"

definition evidence_stamp :: "datetime \<Rightarrow> pydict \<Rightarrow> tracked_entry \<Rightarrow> (datetime option \<times> datetime option) result" where
  "evidence_stamp now row e =
     and_then (normalize_watch_datetime (stamp_of_json (py_or (get row ''watched_at'') (get row ''last_watched'')))) (\<lambda>source.
       case source of
         Some t \<Rightarrow> Inr (source, source)
       | None \<Rightarrow> and_then (inferred_watch_datetime now (case te_finish_date e of None \<Rightarrow> StampNone | Some d \<Rightarrow> StampDate d)) (\<lambda>t. Inr (None, t)))"

text \<open>The date belongs to the episode itself only when the observation says it is finished.\<close>

definition proven_event :: "datetime \<Rightarrow> int \<Rightarrow> pydict \<Rightarrow> bool \<Rightarrow> datetime option \<times> datetime option \<Rightarrow> int \<Rightarrow> watch_event list \<Rightarrow> watch_event" where
  "proven_event now user row own stamp mid events =
     infer_missing_completed_watch_date now
       ((new_watch_event (next_id we_id events) user mid (snd stamp) True now)
          \<lparr>we_date_inferred := fst stamp = None \<or> truthy (get row ''date_shared'') \<or> \<not> own, we_date_shared := truthy (get row ''date_shared'')\<rparr>)"

definition add_proven :: "datetime \<Rightarrow> int \<Rightarrow> pydict \<Rightarrow> int option \<Rightarrow> datetime option \<times> datetime option \<Rightarrow> media \<Rightarrow>
    watch_event list \<times> int set \<times> int list \<Rightarrow> watch_event list \<times> int set \<times> int list" where
  "add_proven now user row own stamp e acc =
     (case acc of (events, seen, added) \<Rightarrow>
        if m_id e \<in> seen then acc
        else (events @ [proven_event now user row (own = Some (m_id e)) stamp (m_id e) events], insert (m_id e) seen, added @ [m_id e]))"

record series_reading =
  se_complete :: bool
  se_added :: "int list"
  se_db :: db

text \<open>\<open>None\<close> of the list position: the show, or the episode in it, is unknown.\<close>

definition observed_index :: "pydict \<Rightarrow> media list \<Rightarrow> nat option" where
  "observed_index row episodes = find (\<lambda>i. observed_episode row (episodes ! i)) [0..<length episodes]"

definition catalogue_fresh :: "media \<Rightarrow> bool" where
  "catalogue_fresh m \<longleftrightarrow> truthy (get (case m_tmdb_data m of None \<Rightarrow> [] | Some d \<Rightarrow> d) ''tracking_catalogue_refreshed_at'')"

definition apply_series_observation ::
  "datetime \<Rightarrow> date \<Rightarrow> int \<Rightarrow> media \<Rightarrow> tracked_entry \<Rightarrow> pydict \<Rightarrow> bool \<Rightarrow> db \<Rightarrow> series_reading result" where
  "apply_series_observation now today user m entry row finished db =
     (case find (names_show m) (show_table db) of
        None \<Rightarrow> Inr \<lparr>se_complete = False, se_added = [], se_db = db\<rparr>
      | Some s \<Rightarrow>
        let episodes = regular_released today (s_id s) db in
        (case observed_index row episodes of
           None \<Rightarrow> Inr \<lparr>se_complete = False, se_added = [], se_db = db\<rparr>
         | Some i \<Rightarrow>
           and_then (evidence_stamp now row entry) (\<lambda>stamp.
             case fold (add_proven now user row (if finished then Some (m_id (episodes ! i)) else None) stamp)
                    (take (if finished then Suc i else i) episodes)
                    (watch_event_table db, watched_episodes db user episodes, []) of
               (events, seen, added) \<Rightarrow>
                 Inr \<lparr>se_complete = catalogue_fresh m \<and> episodes \<noteq> [] \<and> card seen = length episodes, se_added = added,
                      se_db = db\<lparr>watch_event_table := events,
                        entry_table := update_where (\<lambda>e. te_id e = te_id entry)
                          (touch_entry now (\<lambda>e. e\<lparr>te_progress := int (card seen)\<rparr>)) (entry_table db)\<rparr>\<rparr>)))"

section \<open>Is an observation newer than what the viewer did?\<close>

datatype ordering = Apply | Outdated | Unordered

definition competing :: "bool \<Rightarrow> datetime option \<Rightarrow> datetime option \<Rightarrow> bool" where
  "competing known changed_at observed_at \<longleftrightarrow> known \<and> older observed_at changed_at"

text \<open>The order of an observation and the change held now, when both carry the same moment or none.\<close>

definition rank_ordering :: "pydict option \<Rightarrow> pydict \<Rightarrow> ordering" where
  "rank_ordering previous row =
     (case filled_row previous of None \<Rightarrow> Unordered | Some p \<Rightarrow> if playback_rank p < playback_rank row then Apply else Outdated)"

definition competing_ordering ::
  "string \<Rightarrow> string option \<Rightarrow> datetime option \<Rightarrow> datetime option \<Rightarrow> pydict option \<Rightarrow> pydict \<Rightarrow> ordering" where
  "competing_ordering source status_source changed_at provider_at previous row =
     (if older changed_at provider_at then Apply
      else if older provider_at changed_at then Outdated
      else if provider_at \<noteq> None \<and> provider_at = changed_at \<and> status_source = Some source then Apply
      else if provider_at \<noteq> None \<and> provider_at = changed_at \<and> status_source \<noteq> Some ''local'' then rank_ordering previous row
      else Unordered)"

definition observation_ordering ::
  "db \<Rightarrow> connection \<Rightarrow> media \<Rightarrow> tracked_entry \<Rightarrow> datetime option \<Rightarrow> bool \<Rightarrow> bool option \<Rightarrow> pydict \<Rightarrow> datetime option \<Rightarrow> ordering" where
  "observation_ordering db conn m e observed_at known allowed row provider_at =
     (let changed_at = status_changed_at e in
      if allowed = Some True then Apply
      else if known \<and> older provider_at changed_at then Outdated
      else if competing known changed_at observed_at
           then competing_ordering (c_type conn @ '':'' @ show_int (c_id conn)) (te_status_source e) changed_at provider_at
             (previous_source_playback db e m) row
      else Apply)"

end
