(* ===== verification/SnapshotRules.thy ===== *)
theory SnapshotRules
  imports StreamSnapshot
begin

text \<open>
  What reading a snapshot guarantees (\<open>core/tracking_snapshot.py\<close>): which markers of deleted titles it lifts, which plays an
  observed episode proves, which titles a Nuvio profile dismissed, and when an observation outranks a change of the viewer.
\<close>

section \<open>Lifted deletions\<close>

lemma map_result_elements: "map_result f xs = Inr ys \<Longrightarrow> set ys = {y. \<exists>x \<in> set xs. f x = Inr y}"
  by (induction xs arbitrary: ys) (auto simp: and_then_def split: sum.splits)

lemma in_map_filter_id: "x \<in> set (List.map_filter id xs) \<longleftrightarrow> Some x \<in> set xs"
  by (induction xs) (auto simp: List.map_filter_simps split: option.splits)

text \<open>C18: The marker of a deleted title is lifted only by the account's own user, when every account has acknowledged the
  removal and a row of the snapshot shows viewing of the title later than the deletion; other markers stay.\<close>

theorem deletion_lifted_by_viewing:
  assumes "release_rewatched_deletions conn watched progress mappings db = Inr db'"
    and unique: "\<And>a b. a \<in> set (deletion_table db) \<Longrightarrow> b \<in> set (deletion_table db) \<Longrightarrow>
      td_user_id a = td_user_id b \<Longrightarrow> td_media_id a = td_media_id b \<Longrightarrow> a = b"
    and t: "t \<in> set (deletion_table db)" "t \<notin> set (deletion_table db')"
  shows "td_user_id t = c_user_id conn \<and> td_pending_connections t = [] \<and>
    (\<exists>row \<in> set (watched @ progress). \<exists>m seen. row_media db mappings row = Some m \<and> m_id m = td_media_id t \<and>
       viewed_at row = Inr (Some seen) \<and> td_deleted_at t < seen)"
proof -
  obtain found where found: "map_result (released_title db (c_user_id conn) mappings) (watched @ progress) = Inr found"
    and db': "db' = release_titles (c_user_id conn) (set (List.map_filter id found)) db"
    using assms(1) by (auto simp: release_rewatched_deletions_def and_then_def split: sum.splits)
  have user: "td_user_id t = c_user_id conn" and "td_media_id t \<in> set (List.map_filter id found)"
    using t by (auto simp: db' release_titles_def)
  then have "Some (td_media_id t) \<in> set found" by (simp add: in_map_filter_id)
  then obtain row where row: "row \<in> set (watched @ progress)"
    and rel: "released_title db (c_user_id conn) mappings row = Inr (Some (td_media_id t))"
    unfolding map_result_elements [OF found] by blast
  from rel obtain m t0 seen where m: "row_media db mappings row = Some m" "m_id m = td_media_id t"
    and t0: "acknowledged_marker db (c_user_id conn) (m_id m) = Some t0" and seen: "viewed_at row = Inr seen"
    and later: "older (Some (td_deleted_at t0)) seen"
    by (auto simp: released_title_def and_then_def split: option.splits sum.splits if_splits)
  have mark: "t0 \<in> set (deletion_table db) \<and> td_user_id t0 = c_user_id conn \<and> td_media_id t0 = m_id m \<and> td_pending_connections t0 = []"
    using last_row_in [OF t0 [unfolded acknowledged_marker_def]] by simp
  then have "t0 = t" using unique [of t0 t] t(1) user m(2) by simp
  moreover obtain s where "seen = Some s" "td_deleted_at t0 < s" using later by (auto simp: older_def split: option.splits)
  ultimately show ?thesis using user row m seen mark by blast
qed

section \<open>Episodes an observation proves\<close>

lemma proven_event_fields [simp]:
  "we_user_id (proven_event now user row own stamp mid events) = user"
  "we_media_id (proven_event now user row own stamp mid events) = mid"
  "we_completed (proven_event now user row own stamp mid events)"
  by (simp_all add: proven_event_def infer_missing_completed_watch_date_def new_watch_event_def)

lemma proven_event_own: "\<not> we_date_inferred (proven_event now user row own stamp mid events) \<Longrightarrow> own"
  by (auto simp: proven_event_def infer_missing_completed_watch_date_def split: if_splits)

lemma add_proven_fold:
  assumes "fold (add_proven now user row own stamp) eps (events, seen, added) = (events', seen', added')"
  shows "\<exists>new. events' = events @ new \<and> added' = added @ map we_media_id new \<and> distinct (map we_media_id new)
    \<and> we_media_id ` set new = m_id ` set eps - seen \<and> seen' = seen \<union> m_id ` set eps
    \<and> (\<forall>w \<in> set new. we_user_id w = user \<and> we_completed w \<and> (\<not> we_date_inferred w \<longrightarrow> own = Some (we_media_id w)))"
  using assms
proof (induction eps arbitrary: events seen added)
  case Nil
  then show ?case by (intro exI [of _ "[]"]) auto
next
  case (Cons e eps)
  show ?case
  proof (cases "m_id e \<in> seen")
    case True
    then have same: "m_id ` set (e # eps) - seen = m_id ` set eps - seen" "seen \<union> m_id ` set (e # eps) = seen \<union> m_id ` set eps" by auto
    have "fold (add_proven now user row own stamp) eps (events, seen, added) = (events', seen', added')"
      using Cons.prems True by (simp add: add_proven_def [of _ _ _ _ _ e])
    from Cons.IH [OF this] show ?thesis unfolding same .
  next
    case False
    let ?w = "proven_event now user row (own = Some (m_id e)) stamp (m_id e) events"
    have "fold (add_proven now user row own stamp) eps (events @ [?w], insert (m_id e) seen, added @ [m_id e]) = (events', seen', added')"
      using Cons.prems False by (simp add: add_proven_def [of _ _ _ _ _ e])
    from Cons.IH [OF this] obtain new where new: "events' = (events @ [?w]) @ new" "added' = (added @ [m_id e]) @ map we_media_id new"
      "distinct (map we_media_id new)" "we_media_id ` set new = m_id ` set eps - insert (m_id e) seen"
      "seen' = insert (m_id e) seen \<union> m_id ` set eps"
      "\<forall>w \<in> set new. we_user_id w = user \<and> we_completed w \<and> (\<not> we_date_inferred w \<longrightarrow> own = Some (we_media_id w))" by blast
    have "m_id e \<notin> we_media_id ` set new" using new(4) by simp
    then show ?thesis using new False proven_event_own [of now user row _ stamp "m_id e" events]
      by (intro exI [of _ "?w # new"]) auto
  qed
qed

lemma watched_episodes_more:
  assumes "\<forall>w \<in> set new. we_user_id w = user \<and> we_completed w"
  shows "watched_episodes (db\<lparr>watch_event_table := watch_event_table db @ new, entry_table := es\<rparr>) user episodes
    = watched_episodes db user episodes \<union> (we_media_id ` set new \<inter> m_id ` set episodes)"
  using assms by (auto simp: watched_episodes_def)

lemma observed_index_nth:
  "observed_index row eps = Some i \<Longrightarrow> i < length eps \<and> observed_episode row (eps ! i)"
  by (auto simp: observed_index_def find_Some_iff)

lemma released_sorted: "sorted (map episode_before (regular_released today sid db))"
  by (simp add: regular_released_def)

lemma set_aired [simp]: "set (regular_released today sid db) = set (filter (is_released today sid) (media_table db))"
  by (simp add: regular_released_def)

lemma take_before:
  assumes "sorted (map f xs)" "i < length xs" "e \<in> set (take (if b then Suc i else i) xs)"
  shows "f e \<le> f (xs ! i)"
proof -
  obtain j where j: "j < length (take (if b then Suc i else i) xs)" "e = take (if b then Suc i else i) xs ! j"
    using assms(3) by (metis in_set_conv_nth)
  then have "j \<le> i" "e = xs ! j" using assms(2) by (auto split: if_splits)
  then show ?thesis using sorted_nth_mono [OF assms(1), of j i] assms(2) by simp
qed

lemma apply_series_cases:
  assumes "apply_series_observation now today user m entry row finished db = Inr se" "se_added se \<noteq> [] \<or> se_db se \<noteq> db"
  shows "\<exists>s i stamp events seen. find (names_show m) (show_table db) = Some s
    \<and> observed_index row (regular_released today (s_id s) db) = Some i
    \<and> fold (add_proven now user row (if finished then Some (m_id (regular_released today (s_id s) db ! i)) else None) stamp)
        (take (if finished then Suc i else i) (regular_released today (s_id s) db))
        (watch_event_table db, watched_episodes db user (regular_released today (s_id s) db), []) = (events, seen, se_added se)
    \<and> se_db se = db\<lparr>watch_event_table := events, entry_table := update_where (\<lambda>e. te_id e = te_id entry)
        (touch_entry now (\<lambda>e. e\<lparr>te_progress := int (card seen)\<rparr>)) (entry_table db)\<rparr>"
proof -
  obtain s where s: "find (names_show m) (show_table db) = Some s"
    using assms by (cases "find (names_show m) (show_table db)") (auto simp: apply_series_observation_def)
  let ?eps = "regular_released today (s_id s) db"
  obtain i where i: "observed_index row ?eps = Some i"
    using assms s by (cases "observed_index row ?eps") (auto simp: apply_series_observation_def)
  obtain stamp where stamp: "evidence_stamp now row entry = Inr stamp"
    using assms(1) s i by (cases "evidence_stamp now row entry") (simp_all add: apply_series_observation_def Let_def)
  obtain events seen added where folded: "fold (add_proven now user row (if finished then Some (m_id (?eps ! i)) else None) stamp)
      (take (if finished then Suc i else i) ?eps) (watch_event_table db, watched_episodes db user ?eps, []) = (events, seen, added)"
    by (rule prod_cases3)
  have "se_added se = added \<and> se_db se = db\<lparr>watch_event_table := events, entry_table := update_where (\<lambda>e. te_id e = te_id entry)
      (touch_entry now (\<lambda>e. e\<lparr>te_progress := int (card seen)\<rparr>)) (entry_table db)\<rparr>"
    using assms(1) s i stamp folded by (auto simp: apply_series_observation_def Let_def)
  then show ?thesis using s i folded by blast
qed


definition proven_ids :: "date \<Rightarrow> int \<Rightarrow> media \<Rightarrow> pydict \<Rightarrow> bool \<Rightarrow> db \<Rightarrow> int set" where
  "proven_ids today user m row finished db =
     (case find (names_show m) (show_table db) of
        None \<Rightarrow> {}
      | Some s \<Rightarrow> (case observed_index row (regular_released today (s_id s) db) of
            None \<Rightarrow> {}
          | Some i \<Rightarrow> m_id ` set (take (if finished then Suc i else i) (regular_released today (s_id s) db))
              - watched_episodes db user (regular_released today (s_id s) db)))"

lemma apply_series_effect:
  assumes "apply_series_observation now today user m entry row finished db = Inr se"
  shows "\<exists>new. watch_event_table (se_db se) = watch_event_table db @ new \<and> se_added se = map we_media_id new
    \<and> we_media_id ` set new = proven_ids today user m row finished db \<and> (\<forall>w \<in> set new. we_user_id w = user \<and> we_completed w)
    \<and> media_table (se_db se) = media_table db \<and> show_table (se_db se) = show_table db"
proof (cases "find (names_show m) (show_table db)")
  case None
  then show ?thesis using assms by (intro exI [of _ "[]"]) (auto simp: apply_series_observation_def proven_ids_def)
next
  case (Some s)
  let ?eps = "regular_released today (s_id s) db"
  show ?thesis
  proof (cases "observed_index row ?eps")
    case None
    then show ?thesis using assms Some by (intro exI [of _ "[]"]) (auto simp: apply_series_observation_def proven_ids_def)
  next
    case i: (Some i)
    obtain stamp where stamp: "evidence_stamp now row entry = Inr stamp"
      using assms Some i by (cases "evidence_stamp now row entry") (simp_all add: apply_series_observation_def Let_def)
    obtain events seen added where folded: "fold (add_proven now user row (if finished then Some (m_id (?eps ! i)) else None) stamp)
        (take (if finished then Suc i else i) ?eps) (watch_event_table db, watched_episodes db user ?eps, []) = (events, seen, added)"
      by (rule prod_cases3)
    have se: "se_added se = added" "watch_event_table (se_db se) = events" "media_table (se_db se) = media_table db"
        "show_table (se_db se) = show_table db"
      using assms Some i stamp folded by (auto simp: apply_series_observation_def Let_def)
    from add_proven_fold [OF folded] se Some i show ?thesis by (auto simp: proven_ids_def)
  qed
qed

lemma proven_ids_again:
  assumes "watch_event_table db' = watch_event_table db @ new" "we_media_id ` set new = proven_ids today user m row finished db"
    and "\<forall>w \<in> set new. we_user_id w = user \<and> we_completed w" "media_table db' = media_table db" "show_table db' = show_table db"
  shows "proven_ids today user m row finished db' = {}"
proof -
  have eps: "regular_released today sid db' = regular_released today sid db" for sid
    using assms(4) by (simp add: regular_released_def)
  have more: "watched_episodes db' user es = watched_episodes db user es \<union> (we_media_id ` set new \<inter> m_id ` set es)" for es
    using assms(1,3) by (auto simp: watched_episodes_def)
  show ?thesis
  proof (cases "find (names_show m) (show_table db)")
    case None
    then show ?thesis using assms(5) by (simp add: proven_ids_def)
  next
    case (Some s)
    show ?thesis
    proof (cases "observed_index row (regular_released today (s_id s) db)")
      case None
      then show ?thesis using assms(5) Some by (simp add: proven_ids_def eps)
    next
      case i: (Some i)
      let ?eps = "regular_released today (s_id s) db"
      let ?upto = "set (take (if finished then Suc i else i) ?eps)"
      have "we_media_id ` set new = m_id ` ?upto - watched_episodes db user ?eps" using assms(2) Some i by (simp add: proven_ids_def)
      moreover have "?upto \<subseteq> set ?eps" by (rule set_take_subset)
      ultimately have "m_id ` ?upto \<subseteq> watched_episodes db' user ?eps" unfolding more by blast
      then show ?thesis using assms(5) Some i by (auto simp: proven_ids_def eps)
    qed
  qed
qed

text \<open>Observing the same episode again proves nothing new: a snapshot that is read twice records each play once.\<close>

lemma observation_repeats_nothing:
  assumes "apply_series_observation now today user m entry row finished db = Inr se"
    and "apply_series_observation later today user m entry2 row finished (se_db se) = Inr se2"
  shows "se_added se2 = [] \<and> watch_event_table (se_db se2) = watch_event_table (se_db se)"
proof -
  obtain new where new: "watch_event_table (se_db se) = watch_event_table db @ new" "se_added se = map we_media_id new"
    "we_media_id ` set new = proven_ids today user m row finished db" "\<forall>w \<in> set new. we_user_id w = user \<and> we_completed w"
    "media_table (se_db se) = media_table db" "show_table (se_db se) = show_table db"
    using apply_series_effect [OF assms(1)] by (elim exE conjE) rule
  have none: "proven_ids today user m row finished (se_db se) = {}" by (rule proven_ids_again [OF new(1,3-6)])
  obtain new2 where "watch_event_table (se_db se2) = watch_event_table (se_db se) @ new2" "se_added se2 = map we_media_id new2"
    "we_media_id ` set new2 = {}"
    using apply_series_effect [OF assms(2)] unfolding none by (elim exE conjE) rule
  then show ?thesis by simp
qed

section \<open>Hidden titles\<close>

lemma read_surface_dismissed:
  assumes "n \<in> hr_dismissed (read_surface mappings known item h)"
  shows "n \<in> hr_dismissed h \<or> (map_of known (fst item) \<noteq> None \<and> (\<exists>k \<in> set (snd item). hidden_number mappings (fst item) k = Some n
    \<and> VStr k \<notin> set (list_or_empty (get known (fst item)))
    \<and> k \<notin> fst ` set (filter (acknowledged_echo (snd item)) (snapshot_dict (hr_echoes h) (fst item)))))"
proof -
  obtain surface current where item: "item = (surface, current)" by (cases item)
  let ?acked = "filter (acknowledged_echo current) (snapshot_dict (hr_echoes h) surface)"
  let ?fresh = "filter (\<lambda>k. VStr k \<notin> set (list_or_empty (get known surface)) \<and> k \<notin> fst ` set ?acked) current"
  have "n \<in> (if map_of known surface = None then hr_dismissed h
      else hr_dismissed h \<union> set (List.map_filter (hidden_number mappings surface) ?fresh))"
    using assms by (simp only: item read_surface_def Let_def prod.case hidden_reading.simps)
  moreover have "\<exists>k \<in> set ?fresh. hidden_number mappings surface k = Some n"
    if "n \<in> set (List.map_filter (hidden_number mappings surface) ?fresh)"
    using that unfolding List.map_filter_def by force
  ultimately show ?thesis unfolding item fst_conv snd_conv by (cases "map_of known surface = None") auto
qed

lemma read_surface_other:
  "surface \<noteq> fst item \<Longrightarrow> map_of (hr_visibility (read_surface mappings known item h)) surface = map_of (hr_visibility h) surface
    \<and> map_of (hr_echoes (read_surface mappings known item h)) surface = map_of (hr_echoes h) surface"
  by (cases item) (simp add: read_surface_def Let_def)

lemma read_surfaces_kept:
  "surface \<notin> fst ` set items \<Longrightarrow>
     map_of (hr_visibility (fold (read_surface mappings known) items h)) surface = map_of (hr_visibility h) surface
     \<and> map_of (hr_echoes (fold (read_surface mappings known) items h)) surface = map_of (hr_echoes h) surface"
  by (induction items arbitrary: h) (auto simp: read_surface_other)

lemma read_surfaces_dismissed:
  assumes "n \<in> hr_dismissed (fold (read_surface mappings known) items h)" "distinct (map fst items)"
  shows "n \<in> hr_dismissed h \<or> (\<exists>(surface, current) \<in> set items. map_of known surface \<noteq> None
    \<and> (\<exists>k \<in> set current. hidden_number mappings surface k = Some n \<and> VStr k \<notin> set (list_or_empty (get known surface))
      \<and> k \<notin> fst ` set (filter (acknowledged_echo current) (snapshot_dict (hr_echoes h) surface))))"
  using assms
proof (induction items arbitrary: h)
  case Nil
  then show ?case by simp
next
  case (Cons item items)
  have "n \<in> hr_dismissed (fold (read_surface mappings known) items (read_surface mappings known item h))" "distinct (map fst items)"
    using Cons.prems by simp_all
  from Cons.IH [OF this] show ?case
  proof
    assume "n \<in> hr_dismissed (read_surface mappings known item h)"
    from read_surface_dismissed [OF this] show ?thesis by (cases item) auto
  next
    assume "\<exists>(surface, current) \<in> set items. map_of known surface \<noteq> None
      \<and> (\<exists>k \<in> set current. hidden_number mappings surface k = Some n \<and> VStr k \<notin> set (list_or_empty (get known surface))
        \<and> k \<notin> fst ` set (filter (acknowledged_echo current) (snapshot_dict (hr_echoes (read_surface mappings known item h)) surface)))"
    then obtain surface current k where k: "(surface, current) \<in> set items" "map_of known surface \<noteq> None" "k \<in> set current"
      "hidden_number mappings surface k = Some n" "VStr k \<notin> set (list_or_empty (get known surface))"
      "k \<notin> fst ` set (filter (acknowledged_echo current) (snapshot_dict (hr_echoes (read_surface mappings known item h)) surface))" by blast
    have "surface \<in> fst ` set items" using imageI [OF k(1), of fst] by simp
    moreover have "fst item \<notin> fst ` set items" using Cons.prems(2) by simp
    ultimately have "surface \<noteq> fst item" by metis
    then have "snapshot_dict (hr_echoes (read_surface mappings known item h)) surface = snapshot_dict (hr_echoes h) surface"
      using read_surface_other [of surface item mappings known h] by (simp add: snapshot_dict_def get_def dict_get_def)
    then show ?thesis using k by (intro disjI2 bexI [of _ "(surface, current)"]) auto
  qed
qed

lemma observed_surfaces_distinct: "distinct (map fst (observed_visibility conn fd))"
  by (auto simp: observed_visibility_def surfaces_def List.map_filter_simps observed_surface_def split: option.splits)

text \<open>C22: A title counts as dismissed from Continue Watching only when a complete snapshot of a Nuvio profile read a surface
  that had been read before, the surface hides the title now and did not then, and the hiding is not the echo of a write
  of our own; a surface that was not read keeps what it hid.\<close>

theorem dismissed_title_is_news:
  assumes "n \<in> hr_dismissed (read_visibility conn previous mappings fd)"
  shows "c_type conn = ''nuvio'' \<and> fd_complete fd \<and> (\<exists>(surface, current) \<in> set (observed_visibility conn fd).
      map_of (snapshot_dict previous ''nuvio_visibility'') surface \<noteq> None \<and> (\<exists>k \<in> set current. hidden_number mappings surface k = Some n
        \<and> VStr k \<notin> set (list_or_empty (get (snapshot_dict previous ''nuvio_visibility'') surface))
        \<and> \<not> (\<exists>v. (k, v) \<in> set (snapshot_dict (kept_echoes (snapshot_dict previous ''cw_visibility_echo'')) surface) \<and> truthy v)))
    \<and> (\<forall>surface. surface \<notin> fst ` set (observed_visibility conn fd) \<longrightarrow>
         map_of (hr_visibility (read_visibility conn previous mappings fd)) surface
         = map_of (kept_visibility (snapshot_dict previous ''nuvio_visibility'')) surface)"
proof -
  let ?known = "snapshot_dict previous ''nuvio_visibility''"
  let ?h = "\<lparr>hr_visibility = kept_visibility ?known, hr_echoes = kept_echoes (snapshot_dict previous ''cw_visibility_echo''), hr_dismissed = {}\<rparr>"
  have "n \<in> hr_dismissed (fold (read_surface mappings ?known) (observed_visibility conn fd) ?h)"
    using assms by (simp add: read_visibility_def Let_def)
  from read_surfaces_dismissed [OF this observed_surfaces_distinct] obtain surface current k where
    k: "(surface, current) \<in> set (observed_visibility conn fd)" "map_of ?known surface \<noteq> None" "k \<in> set current"
      "hidden_number mappings surface k = Some n" "VStr k \<notin> set (list_or_empty (get ?known surface))"
      "k \<notin> fst ` set (filter (acknowledged_echo current) (snapshot_dict (kept_echoes (snapshot_dict previous ''cw_visibility_echo'')) surface))"
    by auto
  have "c_type conn = ''nuvio'' \<and> fd_complete fd"
    using k(1) by (auto simp: observed_visibility_def split: option.splits if_splits)
  moreover have "\<not> (\<exists>v. (k, v) \<in> set (snapshot_dict (kept_echoes (snapshot_dict previous ''cw_visibility_echo'')) surface) \<and> truthy v)"
  proof
    assume "\<exists>v. (k, v) \<in> set (snapshot_dict (kept_echoes (snapshot_dict previous ''cw_visibility_echo'')) surface) \<and> truthy v"
    then obtain v where v: "(k, v) \<in> set (snapshot_dict (kept_echoes (snapshot_dict previous ''cw_visibility_echo'')) surface)" "truthy v"
      by blast
    then have "(k, v) \<in> set (filter (acknowledged_echo current) (snapshot_dict (kept_echoes (snapshot_dict previous ''cw_visibility_echo'')) surface))"
      using k(3) by (simp add: acknowledged_echo_def)
    then show False using k(6) by (metis fst_conv image_eqI)
  qed
  moreover have "map_of (hr_visibility (read_visibility conn previous mappings fd)) surface = map_of (kept_visibility ?known) surface"
    if "surface \<notin> fst ` set (observed_visibility conn fd)" for surface
    using read_surfaces_kept [OF that] by (simp add: read_visibility_def Let_def)
  ultimately show ?thesis using k(1-5) by blast
qed

section \<open>Order\<close>

lemma outranked_observation:
  assumes "observation_ordering db conn m e observed_at True allowed row provider_at = Apply" "allowed \<noteq> Some True"
  shows "\<not> older provider_at (status_changed_at e)"
  using assms by (auto simp: observation_ordering_def Let_def)

lemma undated_observation_waits:
  assumes "observation_ordering db conn m e (Some t) True allowed row None = Apply" "allowed \<noteq> Some True"
    and "status_changed_at e = Some u"
  shows "u \<le> t"
  using assms by (auto simp: observation_ordering_def competing_def competing_ordering_def older_def split: if_splits)

section \<open>Samples\<close>

definition sample_pull :: connection where
  "sample_pull = new_connection 4 1 ''nuvio'' ''Nuvio'' ''u'' ''t'' 0"

definition sample_seen_row :: pydict where
  "sample_seen_row = [(''content_id'', VStr ''tt5''), (''content_type'', VStr ''movie''), (''last_watched'', VInt 1717149600)]"

definition sample_gone_marker :: tracking_deletion where
  "sample_gone_marker = \<lparr>td_id = 1, td_user_id = 1, td_media_id = 8, td_deleted_at = 0, td_pending_connections = []\<rparr>"

definition sample_gone_db :: db where
  "sample_gone_db = empty_db\<lparr>media_table := [new_media 8 Movie ''Film'' (Some 5) 0], deletion_table := [sample_gone_marker]\<rparr>"

lemma sample_release:
  "(case release_rewatched_deletions sample_pull [] [sample_seen_row] [(''tt5'', VInt 5)] sample_gone_db of
      Inl _ \<Rightarrow> False | Inr db' \<Rightarrow> deletion_table db' = [])"
  by code_simp

theorem deletion_lifted_by_viewing_witness:
  "\<exists>db'. release_rewatched_deletions sample_pull [] [sample_seen_row] [(''tt5'', VInt 5)] sample_gone_db = Inr db'
     \<and> sample_gone_marker \<notin> set (deletion_table db') \<and> (\<exists>seen. viewed_at sample_seen_row = Inr (Some seen) \<and> td_deleted_at sample_gone_marker < seen)"
proof -
  obtain db' where db': "release_rewatched_deletions sample_pull [] [sample_seen_row] [(''tt5'', VInt 5)] sample_gone_db = Inr db'"
    and gone: "deletion_table db' = []"
    using sample_release
    by (cases "release_rewatched_deletions sample_pull [] [sample_seen_row] [(''tt5'', VInt 5)] sample_gone_db") simp_all
  have marker: "sample_gone_marker \<in> set (deletion_table sample_gone_db)" "sample_gone_marker \<notin> set (deletion_table db')"
    by (simp_all add: sample_gone_db_def gone)
  have one: "a = b" if "a \<in> set (deletion_table sample_gone_db)" "b \<in> set (deletion_table sample_gone_db)" for a b
    using that by (simp add: sample_gone_db_def)
  from deletion_lifted_by_viewing [OF db' one marker] db' marker(2) show ?thesis by auto
qed

definition sample_today :: date where
  "sample_today = Date 2024 6 3"

lemma sample_today_text: "isoformat sample_today = ''2024-06-03''"
  by (simp add: sample_today_def isoformat_def four_digits_def two_digits_def digit_char_def) code_simp

definition sample_ep :: "int \<Rightarrow> media" where
  "sample_ep n = (new_media (10 + n) Episode ''Episode'' None 0)
     \<lparr>m_show_id := Some 1, m_season_number := Some 1, m_episode_number := Some n, m_release_date := Some ''2020-01-01''\<rparr>"

definition sample_series_db :: db where
  "sample_series_db = empty_db\<lparr>show_table := [new_show 1 ''Show'' (Some 9) 0], media_table := map sample_ep [1, 2, 3]\<rparr>"

definition sample_series_title :: media where
  "sample_series_title = new_media 10 Series ''Show'' (Some 9) 0"

definition sample_second :: pydict where
  "sample_second = [(''season'', VInt 1), (''episode'', VInt 2), (''last_watched'', VInt 1717149600)]"

lemma sample_ep_released: "is_released sample_today 1 (sample_ep n)"
proof -
  have "''2020-01-01'' \<le> (''2024-06-03'' :: string)" by code_simp
  then show ?thesis by (simp add: is_released_def sample_today_text sample_ep_def new_media_def)
qed

lemma sample_released: "regular_released sample_today 1 sample_series_db = map sample_ep [1, 2, 3]"
proof -
  have "filter (is_released sample_today 1) (map sample_ep [1, 2, 3]) = map sample_ep [1, 2, 3]"
    using sample_ep_released by simp
  moreover have "sort_key episode_before (map sample_ep [1, 2, 3]) = map sample_ep [1, 2, 3]" by code_simp
  ultimately show ?thesis by (simp add: regular_released_def sample_series_db_def)
qed

lemma sample_observation:
  "\<exists>se. apply_series_observation 0 sample_today 1 sample_series_title (new_entry 1 1 10 0) sample_second True sample_series_db = Inr se
     \<and> se_added se = [11, 12]"
proof -
  have show_found: "find (names_show sample_series_title) (show_table sample_series_db) = Some (new_show 1 ''Show'' (Some 9) 0)" by code_simp
  have index: "observed_index sample_second (map sample_ep [1, 2, 3]) = Some 1" by code_simp
  have stamp: "evidence_stamp 0 sample_second (new_entry 1 1 10 0) = Inr (Some 1717149600000000, Some 1717149600000000)" by code_simp
  have folded: "(case fold (add_proven 0 1 sample_second (Some 12) (Some 1717149600000000, Some 1717149600000000)) (map sample_ep [1, 2])
      (watch_event_table sample_series_db, watched_episodes sample_series_db 1 (map sample_ep [1, 2, 3]), []) of (_, _, added) \<Rightarrow> added) = [11, 12]"
    by code_simp
  have "s_id (new_show 1 ''Show'' (Some 9) 0) = 1" "m_id (sample_ep 2) = 12" by (simp_all add: new_show_def sample_ep_def new_media_def)
  then show ?thesis using show_found index stamp folded
    by (simp add: apply_series_observation_def sample_released split: prod.splits)
qed


lemma apply_series_total:
  assumes "evidence_stamp now row entry = Inr stamp"
  shows "\<exists>se. apply_series_observation now today user m entry row finished db = Inr se"
proof (cases "find (names_show m) (show_table db)")
  case None
  then show ?thesis by (simp add: apply_series_observation_def)
next
  case (Some s)
  then show ?thesis using assms
    by (cases "observed_index row (regular_released today (s_id s) db)")
       (auto simp: apply_series_observation_def Let_def split: prod.splits)
qed

theorem observation_repeats_nothing_witness:
  "\<exists>se se2. apply_series_observation 0 sample_today 1 sample_series_title (new_entry 1 1 10 0) sample_second True sample_series_db = Inr se
     \<and> apply_series_observation 0 sample_today 1 sample_series_title (new_entry 1 1 10 0) sample_second True (se_db se) = Inr se2
     \<and> se_added se = [11, 12] \<and> se_added se2 = []"
proof -
  obtain se where se: "apply_series_observation 0 sample_today 1 sample_series_title (new_entry 1 1 10 0) sample_second True sample_series_db = Inr se"
    "se_added se = [11, 12]" using sample_observation by blast
  have "evidence_stamp 0 sample_second (new_entry 1 1 10 0) = Inr (Some 1717149600000000, Some 1717149600000000)" by code_simp
  then obtain se2 where se2: "apply_series_observation 0 sample_today 1 sample_series_title (new_entry 1 1 10 0) sample_second True (se_db se) = Inr se2"
    using apply_series_total by blast
  from observation_repeats_nothing [OF se(1) se2] se se2 show ?thesis by blast
qed

definition sample_feed :: stream_feed where
  "sample_feed = \<lparr>fd_library = [], fd_watched = [], fd_progress = [], fd_ids = [(''tt5'', VInt 5)], fd_complete = True, fd_touched = None,
     fd_sync_playback = True, fd_sync_watched = True, fd_fresh = False, fd_started = None,
     fd_visibility = Some [(''tv'', VList [VStr ''tt5''])]\<rparr>"

definition sample_known :: pydict where
  "sample_known = [(''nuvio_visibility'', VDict [(''tv'', VList [])])]"

theorem dismissed_title_is_news_witness:
  "hr_dismissed (read_visibility sample_pull sample_known [(''tt5'', VInt 5)] sample_feed) = {5}
   \<and> (\<exists>(surface, current) \<in> set (observed_visibility sample_pull sample_feed). ''tt5'' \<in> set current)"
proof -
  have five: "hr_dismissed (read_visibility sample_pull sample_known [(''tt5'', VInt 5)] sample_feed) = {5}" by code_simp
  then have "(5::int) \<in> hr_dismissed (read_visibility sample_pull sample_known [(''tt5'', VInt 5)] sample_feed)" by simp
  from dismissed_title_is_news [OF this] obtain surface current k where
    k: "(surface, current) \<in> set (observed_visibility sample_pull sample_feed)" "k \<in> set current" by auto
  moreover have "set (observed_visibility sample_pull sample_feed) = {(''tv'', [''tt5''])}" by code_simp
  ultimately show ?thesis using five by auto
qed

end
