(* ===== verification/HistoryImport.thy ===== *)
theory HistoryImport
  imports StreamSnapshot
begin

text \<open>
  Importing viewing evidence into the tracked lists (\<open>core/tracking_import.py\<close>): plays, positions and ratings of a user are
  gathered per film and show, and every title that is not tracked yet gets an entry.  The call outside a round is modelled;
  within one it only notes that it was asked for.
\<close>

section \<open>Gathering the evidence\<close>

record title_evidence =
  ev_media :: media
  ev_watched :: "media list"
  ev_playing :: bool
  ev_dates :: "date list"
  ev_scores :: "(int option \<times> rat) list"
  ev_episode_dates :: "(int \<times> datetime list) list"

definition no_evidence :: "media \<Rightarrow> title_evidence" where
  "no_evidence m = \<lparr>ev_media = m, ev_watched = [], ev_playing = False, ev_dates = [], ev_scores = [], ev_episode_dates = []\<rparr>"

text \<open>A film is its own title, an episode belongs to the series of its show.\<close>

definition series_with :: "(media \<Rightarrow> int option) \<Rightarrow> int option \<Rightarrow> db \<Rightarrow> media option" where
  "series_with identity v db =
     (if v = None \<or> v = Some 0 then None else last_row (\<lambda>m. m_media_type m = Series \<and> identity m = v) (media_table db))"

definition parent_title :: "db \<Rightarrow> media \<Rightarrow> media option" where
  "parent_title db m =
     (if m_media_type m \<noteq> Episode then Some m
      else case (case m_show_id m of None \<Rightarrow> None | Some sid \<Rightarrow> if sid = 0 then None else find (\<lambda>s. s_id s = sid) (show_table db)) of
          None \<Rightarrow> None
        | Some s \<Rightarrow> opt_or (series_with m_tmdb_id (s_tmdb_id s) db) (series_with m_tvdb_id (s_tvdb_id s) db))"

definition deleted_titles :: "db \<Rightarrow> int \<Rightarrow> int set" where
  "deleted_titles db user = td_media_id ` set (filter (\<lambda>t. td_user_id t = user) (deletion_table db))"

type_synonym evidence = "(int \<times> title_evidence) list"

definition alter_evidence :: "media \<Rightarrow> (title_evidence \<Rightarrow> title_evidence) \<Rightarrow> evidence \<Rightarrow> evidence" where
  "alter_evidence title f ev = dict_alter (m_id title) (no_evidence title) f ev"

definition note_play :: "watch_event \<Rightarrow> media \<Rightarrow> title_evidence \<Rightarrow> title_evidence" where
  "note_play w m item =
     (let item1 = (if we_completed w
            then item\<lparr>ev_watched := ev_watched item @ [m],
                      ev_episode_dates := (case we_watched_at w of None \<Rightarrow> ev_episode_dates item
                        | Some t \<Rightarrow> dict_alter (m_id m) [] (\<lambda>ts. ts @ [t]) (ev_episode_dates item))\<rparr>
            else item\<lparr>ev_playing := True\<rparr>)
      in case we_watched_at w of None \<Rightarrow> item1 | Some t \<Rightarrow> item1\<lparr>ev_dates := ev_dates item1 @ [date_of t]\<rparr>)"

text \<open>The title of a row whose media is known, unless it was deleted.\<close>

definition living_root :: "db \<Rightarrow> int \<Rightarrow> int \<Rightarrow> (media \<times> media) option" where
  "living_root db user mid =
     (case find_media db mid of
        None \<Rightarrow> None
      | Some m \<Rightarrow> (case parent_title db m of
            None \<Rightarrow> None
          | Some title \<Rightarrow> if m_id title \<in> deleted_titles db user then None else Some (m, title)))"

definition gather_play :: "db \<Rightarrow> int \<Rightarrow> watch_event \<Rightarrow> evidence \<Rightarrow> evidence" where
  "gather_play db user w ev =
     (case living_root db user (we_media_id w) of None \<Rightarrow> ev | Some (m, title) \<Rightarrow> alter_evidence title (note_play w m) ev)"

definition gather_position :: "db \<Rightarrow> int \<Rightarrow> playback_progress \<Rightarrow> evidence \<Rightarrow> evidence" where
  "gather_position db user p ev =
     (case living_root db user (pp_media_id p) of None \<Rightarrow> ev | Some (m, title) \<Rightarrow> alter_evidence title (\<lambda>item. item\<lparr>ev_playing := True\<rparr>) ev)"

text \<open>Ratings of films and shows, not those of a special ordering of episodes.\<close>

definition is_title_rating :: "db \<Rightarrow> int \<Rightarrow> rating \<Rightarrow> bool" where
  "is_title_rating db user r \<longleftrightarrow> r_user_id r = user \<and> r_episode_order r = None
     \<and> (case find_media db (r_media_id r) of None \<Rightarrow> False | Some m \<Rightarrow> m_media_type m \<in> {Movie, Series})"

definition note_score :: "rating \<Rightarrow> title_evidence \<Rightarrow> title_evidence" where
  "note_score r item =
     (case r_rating r of None \<Rightarrow> item | Some v \<Rightarrow> if 0 < v then item\<lparr>ev_scores := dict_set (r_season_number r) v (ev_scores item)\<rparr> else item)"

definition gather_score :: "db \<Rightarrow> int \<Rightarrow> rating \<Rightarrow> evidence \<Rightarrow> evidence" where
  "gather_score db user r ev =
     (case find_media db (r_media_id r) of
        None \<Rightarrow> ev
      | Some m \<Rightarrow> if m_id m \<in> deleted_titles db user then ev else alter_evidence m (note_score r) ev)"

definition gather_evidence :: "db \<Rightarrow> int \<Rightarrow> evidence" where
  "gather_evidence db user =
     fold (gather_score db user) (filter (is_title_rating db user) (rating_table db))
       (fold (gather_position db user) (filter (\<lambda>p. pp_user_id p = user) (progress_table db))
         (fold (gather_play db user) (filter (\<lambda>w. we_user_id w = user) (watch_event_table db)) []))"

text \<open>Rows that still speak of a deleted title go.\<close>

definition speaks_of_deleted :: "db \<Rightarrow> int \<Rightarrow> int \<Rightarrow> bool" where
  "speaks_of_deleted db user mid \<longleftrightarrow>
     (case find_media db mid of None \<Rightarrow> False
      | Some m \<Rightarrow> (case parent_title db m of None \<Rightarrow> False | Some title \<Rightarrow> m_id title \<in> deleted_titles db user))"

definition drop_deleted :: "int \<Rightarrow> db \<Rightarrow> db" where
  "drop_deleted user db =
     db\<lparr>watch_event_table := filter (\<lambda>w. \<not> (we_user_id w = user \<and> speaks_of_deleted db user (we_media_id w))) (watch_event_table db),
        progress_table := filter (\<lambda>p. \<not> (pp_user_id p = user \<and> speaks_of_deleted db user (pp_media_id p))) (progress_table db),
        rating_table := filter (\<lambda>r. \<not> (is_title_rating db user r \<and> r_media_id r \<in> deleted_titles db user)) (rating_table db)\<rparr>"

section \<open>Filling the gaps of a show\<close>

text \<open>An episode before the last watched one takes the date of the nearest later one that has a date.\<close>

definition later_date :: "title_evidence \<Rightarrow> media list \<Rightarrow> datetime option" where
  "later_date item later =
     (case find (\<lambda>e. dict_get (ev_episode_dates item) (m_id e) [] \<noteq> []) later of
        Some e \<Rightarrow> Some (Max (set (dict_get (ev_episode_dates item) (m_id e) [])))
      | None \<Rightarrow> if ev_dates item = [] then None else Some (midnight (Max (set (ev_dates item)))))"

definition fill_stamp :: "datetime \<Rightarrow> title_evidence \<Rightarrow> media list \<Rightarrow> datetime option result" where
  "fill_stamp now item later =
     inferred_watch_datetime now (case later_date item later of None \<Rightarrow> StampNone | Some t \<Rightarrow> StampDatetime t None)"

fun fill_gaps :: "datetime \<Rightarrow> int \<Rightarrow> title_evidence \<Rightarrow> media list \<Rightarrow> watch_event list \<Rightarrow> watch_event list result" where
  "fill_gaps now user item [] events = Inr events"
| "fill_gaps now user item (e # later) events =
     (if m_id e \<in> m_id ` set (ev_watched item) then fill_gaps now user item later events
      else and_then (fill_stamp now item later) (\<lambda>stamp.
        fill_gaps now user item later
          (events @ [infer_missing_completed_watch_date now
            ((new_watch_event (next_id we_id events) user (m_id e) stamp True now)\<lparr>we_date_inferred := True\<rparr>)])))"

definition evidence_show :: "title_evidence \<Rightarrow> int option" where
  "evidence_show item =
     (case find (\<lambda>m. m_show_id m \<noteq> None \<and> m_show_id m \<noteq> Some 0) (ev_watched item) of None \<Rightarrow> None | Some m \<Rightarrow> m_show_id m)"

text \<open>The released episodes up to the last watched one.\<close>

definition watched_prefix :: "title_evidence \<Rightarrow> media list \<Rightarrow> media list" where
  "watched_prefix item episodes = rev (dropWhile (\<lambda>e. m_id e \<notin> m_id ` set (ev_watched item)) (rev episodes))"

section \<open>A new entry\<close>

definition watched_count :: "title_evidence \<Rightarrow> nat" where
  "watched_count item = card (m_id ` set (ev_watched item))"

definition imported_finish_date :: "media_type \<Rightarrow> date list \<Rightarrow> date list \<Rightarrow> date option" where
  "imported_finish_date kind dates completed_dates =
     (let candidates = (if kind = Movie then completed_dates else dates) in
      if candidates = [] then None else Some (if kind = Movie then Min (set candidates) else Max (set candidates)))"

definition imported_entry :: "datetime \<Rightarrow> bool \<Rightarrow> int \<Rightarrow> int \<Rightarrow> title_evidence \<Rightarrow> int \<Rightarrow> bool \<Rightarrow> tracked_entry" where
  "imported_entry now initial_import eid user item counted whole =
     (let m = ev_media item; scores = ev_scores item; status = observed_status None whole (ev_playing item \<or> 0 < counted);
          e = (new_entry eid user (m_id m) now)
            \<lparr>te_status := status, te_progress := counted, te_manual_score := map_of scores None,
             te_rating_mode := (if map_of scores None \<noteq> None \<or> scores = [] then ''manual'' else ''average''),
             te_season_scores := List.map_filter (\<lambda>(k, v). map_option (\<lambda>n. (show_int n, Some v)) k) scores,
             te_start_date := (if ev_dates item \<noteq> [] \<and> \<not> (m_media_type m = Movie \<and> whole) then Some (Min (set (ev_dates item))) else None),
             te_finish_date := (if whole then imported_finish_date (m_media_type m) (ev_dates item)
                 (map date_of (dict_get (ev_episode_dates item) (m_id m) [])) else None)\<rparr>
      in (mark_status_change now ''history-import'' None e)
           \<lparr>te_initial_import_completed_at := (if initial_import \<and> status = ''completed'' then milliseconds (Some now) else None)\<rparr>)"

record import_result =
  ir_db :: db
  ir_added :: "int list"

text \<open>The episodes up to the last watched one, the progress they make, and whether the title is finished.\<close>

definition title_progress :: "date \<Rightarrow> db \<Rightarrow> title_evidence \<Rightarrow> media list \<times> int \<times> bool" where
  "title_progress today db item =
     (let m = ev_media item; is_series = (m_media_type m = Series \<and> ev_watched item \<noteq> []);
          episodes = (if is_series then (case evidence_show item of None \<Rightarrow> [] | Some sid \<Rightarrow> regular_released today sid db) else []);
          seen_part = watched_prefix item episodes;
          counted = (if seen_part = [] then int (watched_count item) else int (length seen_part))
      in (seen_part, counted,
          if is_series then catalogue_fresh m \<and> episodes \<noteq> [] \<and> counted = int (length episodes)
          else m_media_type m = Movie \<and> 0 < watched_count item))"

definition import_title :: "datetime \<Rightarrow> date \<Rightarrow> int \<Rightarrow> bool \<Rightarrow> int set \<Rightarrow> int \<times> title_evidence \<Rightarrow> import_result \<Rightarrow> import_result result" where
  "import_title now today user initial_import existing found ir =
     (case found of (mid, item) \<Rightarrow>
        if mid \<in> existing then Inr ir
        else case title_progress today (ir_db ir) item of (seen_part, counted, whole) \<Rightarrow>
          and_then (fill_gaps now user item seen_part (watch_event_table (ir_db ir))) (\<lambda>events.
            Inr \<lparr>ir_db = (ir_db ir)\<lparr>watch_event_table := events, entry_table := entry_table (ir_db ir) @
                   [imported_entry now initial_import (next_id te_id (entry_table (ir_db ir))) user item counted whole]\<rparr>,
                 ir_added = ir_added ir @ [mid]\<rparr>))"

definition import_tracking_history :: "datetime \<Rightarrow> date \<Rightarrow> int \<Rightarrow> bool \<Rightarrow> db \<Rightarrow> import_result result" where
  "import_tracking_history now today user initial_import db =
     fold_result (import_title now today user initial_import (te_media_id ` set (filter (\<lambda>e. te_user_id e = user) (entry_table db))))
       (gather_evidence db user) \<lparr>ir_db = drop_deleted user db, ir_added = []\<rparr>"

section \<open>What an import may do\<close>

text \<open>Evidence is kept per title, and never of a deleted one.\<close>

definition evidence_ok :: "int set \<Rightarrow> evidence \<Rightarrow> bool" where
  "evidence_ok gone ev \<longleftrightarrow>
     distinct (map fst ev) \<and> (\<forall>k item. map_of ev k = Some item \<longrightarrow> k \<notin> gone \<and> m_id (ev_media item) = k)"

lemma alter_evidence_ok:
  assumes "evidence_ok gone ev" "m_id title \<notin> gone" "\<And>item. ev_media (f item) = ev_media item"
  shows "evidence_ok gone (alter_evidence title f ev)"
proof -
  have "m_id (ev_media (f (dict_get ev (m_id title) (no_evidence title)))) = m_id title"
    using assms(1,3) by (cases "map_of ev (m_id title)") (auto simp: dict_get_def no_evidence_def evidence_ok_def)
  then show ?thesis using assms
    by (simp add: evidence_ok_def alter_evidence_def map_of_dict_alter dict_alter_def distinct_dict_set)
qed

lemma note_media [simp]:
  "ev_media (note_play w m item) = ev_media item" "ev_media (note_score r item) = ev_media item"
  by (auto simp: note_play_def note_score_def Let_def split: option.splits)

lemma living_root_kept: "living_root db user mid = Some (m, title) \<Longrightarrow> m_id title \<notin> deleted_titles db user"
  by (auto simp: living_root_def split: option.splits if_splits)

lemma fold_evidence_ok:
  assumes "\<And>x ev. evidence_ok gone ev \<Longrightarrow> evidence_ok gone (f x ev)" "evidence_ok gone ev"
  shows "evidence_ok gone (fold f xs ev)"
  using assms(2) by (induction xs arbitrary: ev) (auto intro: assms(1))

lemma gather_evidence_ok: "evidence_ok (deleted_titles db user) (gather_evidence db user)"
proof -
  let ?ok = "evidence_ok (deleted_titles db user)"
  have plays: "?ok (gather_play db user w ev)" if "?ok ev" for w ev
    using that by (auto simp: gather_play_def intro!: alter_evidence_ok dest: living_root_kept split: option.splits)
  have positions: "?ok (gather_position db user p ev)" if "?ok ev" for p ev
    using that by (auto simp: gather_position_def intro!: alter_evidence_ok dest: living_root_kept split: option.splits)
  have scores: "?ok (gather_score db user r ev)" if "?ok ev" for r ev
    using that by (auto simp: gather_score_def intro!: alter_evidence_ok split: option.splits)
  have "?ok []" by (simp add: evidence_ok_def)
  from fold_evidence_ok [OF scores fold_evidence_ok [OF positions fold_evidence_ok [OF plays this]]]
  show ?thesis by (simp add: gather_evidence_def)
qed

lemma imported_entry_fields [simp]:
  "te_user_id (imported_entry now initial_import eid user item n whole) = user"
  "te_media_id (imported_entry now initial_import eid user item n whole) = m_id (ev_media item)"
  by (simp_all add: imported_entry_def Let_def mark_status_change_def new_entry_def)

lemma import_title_effect:
  assumes "import_title now today user initial_import existing (mid, item) ir = Inr ir'"
  shows "(ir' = ir \<and> mid \<in> existing) \<or> (mid \<notin> existing \<and> ir_added ir' = ir_added ir @ [mid] \<and>
    (\<exists>e. entry_table (ir_db ir') = entry_table (ir_db ir) @ [e] \<and> te_user_id e = user \<and> te_media_id e = m_id (ev_media item)))"
proof (cases "mid \<in> existing")
  case True
  then show ?thesis using assms by (simp add: import_title_def)
next
  case False
  obtain seen_part counted whole where p: "title_progress today (ir_db ir) item = (seen_part, counted, whole)" by (rule prod_cases3)
  let ?e = "imported_entry now initial_import (next_id te_id (entry_table (ir_db ir))) user item counted whole"
  obtain events where events: "fill_gaps now user item seen_part (watch_event_table (ir_db ir)) = Inr events"
    using assms False p by (cases "fill_gaps now user item seen_part (watch_event_table (ir_db ir))") (simp_all add: import_title_def)
  have ir': "\<lparr>ir_db = (ir_db ir)\<lparr>watch_event_table := events, entry_table := entry_table (ir_db ir) @ [?e]\<rparr>,
      ir_added = ir_added ir @ [mid]\<rparr> = ir'"
    using assms False p events by (simp add: import_title_def)
  have "ir_added ir' = ir_added ir @ [mid]" "entry_table (ir_db ir') = entry_table (ir_db ir) @ [?e]"
    unfolding ir' [symmetric] by simp_all
  moreover have "te_user_id ?e = user" "te_media_id ?e = m_id (ev_media item)" by (rule imported_entry_fields)+
  ultimately show ?thesis using False by blast
qed

lemma import_titles_effect:
  assumes "fold_result (import_title now today user initial_import existing) ev ir = Inr ir'"
    and "distinct (map fst ev)" "\<And>k item. (k, item) \<in> set ev \<Longrightarrow> m_id (ev_media item) = k"
  shows "\<exists>new. entry_table (ir_db ir') = entry_table (ir_db ir) @ new \<and> ir_added ir' = ir_added ir @ map te_media_id new
    \<and> distinct (map te_media_id new) \<and> te_media_id ` set new = fst ` set ev - existing \<and> (\<forall>e \<in> set new. te_user_id e = user)"
  using assms
proof (induction ev arbitrary: ir)
  case Nil
  then show ?case by (intro exI [of _ "[]"]) simp
next
  case (Cons x ev)
  obtain mid item where x: "x = (mid, item)" by (cases x)
  from Cons.prems(1) obtain ir1 where ir1: "import_title now today user initial_import existing (mid, item) ir = Inr ir1"
    and rest: "fold_result (import_title now today user initial_import existing) ev ir1 = Inr ir'"
    by (auto simp: x and_then_def split: sum.splits)
  have "distinct (map fst ev)" "\<And>k item. (k, item) \<in> set ev \<Longrightarrow> m_id (ev_media item) = k" using Cons.prems(2,3) by simp_all
  from Cons.IH [OF rest this] obtain new where new: "entry_table (ir_db ir') = entry_table (ir_db ir1) @ new"
    "ir_added ir' = ir_added ir1 @ map te_media_id new" "distinct (map te_media_id new)" "te_media_id ` set new = fst ` set ev - existing"
    "\<forall>e \<in> set new. te_user_id e = user" by blast
  from import_title_effect [OF ir1] show ?case
  proof (elim disjE conjE exE)
    assume "ir1 = ir" "mid \<in> existing"
    then show ?thesis using new by (intro exI [of _ new]) (auto simp: x)
  next
    fix e assume e: "mid \<notin> existing" "ir_added ir1 = ir_added ir @ [mid]" "entry_table (ir_db ir1) = entry_table (ir_db ir) @ [e]"
      "te_user_id e = user" "te_media_id e = m_id (ev_media item)"
    have mid: "m_id (ev_media item) = mid" using Cons.prems(3) [of mid item] by (simp add: x)
    have "mid \<notin> fst ` set ev" using Cons.prems(2) by (simp add: x)
    then show ?thesis using new e mid by (intro exI [of _ "e # new"]) (auto simp: x)
  qed
qed

lemma import_effect:
  assumes "import_tracking_history now today user initial_import db = Inr ir"
  shows "(\<exists>new. entry_table (ir_db ir) = entry_table db @ new \<and> ir_added ir = map te_media_id new \<and> distinct (ir_added ir)
      \<and> (\<forall>e \<in> set new. te_user_id e = user \<and> te_media_id e \<notin> deleted_titles db user
           \<and> \<not> (\<exists>x \<in> set (entry_table db). te_user_id x = user \<and> te_media_id x = te_media_id e))
      \<and> set (ir_added ir) = fst ` set (gather_evidence db user) - te_media_id ` {e \<in> set (entry_table db). te_user_id e = user})"
proof -
  have ok: "distinct (map fst (gather_evidence db user))"
    and item: "\<And>k item. (k, item) \<in> set (gather_evidence db user) \<Longrightarrow> k \<notin> deleted_titles db user \<and> m_id (ev_media item) = k"
    using gather_evidence_ok [of db user] by (auto simp: evidence_ok_def)
  from import_titles_effect [OF assms [unfolded import_tracking_history_def] ok] item
  obtain new where new: "entry_table (ir_db ir) = entry_table (drop_deleted user db) @ new" "ir_added ir = map te_media_id new"
    "distinct (map te_media_id new)" "\<forall>e \<in> set new. te_user_id e = user"
    "te_media_id ` set new = fst ` set (gather_evidence db user) - te_media_id ` set (filter (\<lambda>e. te_user_id e = user) (entry_table db))"
    by auto
  have "te_media_id e \<notin> deleted_titles db user \<and> \<not> (\<exists>x \<in> set (entry_table db). te_user_id x = user \<and> te_media_id x = te_media_id e)"
    if "e \<in> set new" for e
  proof -
    have "te_media_id e \<in> fst ` set (gather_evidence db user) - te_media_id ` set (filter (\<lambda>e. te_user_id e = user) (entry_table db))"
      using that new(5) by blast
    then obtain k found where "(k, found) \<in> set (gather_evidence db user)" "k = te_media_id e"
      and fresh: "te_media_id e \<notin> te_media_id ` set (filter (\<lambda>e. te_user_id e = user) (entry_table db))" by fastforce
    then have "te_media_id e \<notin> deleted_titles db user" using item by blast
    moreover have "\<not> (\<exists>x \<in> set (entry_table db). te_user_id x = user \<and> te_media_id x = te_media_id e)"
      using fresh by (auto simp: image_iff)
    ultimately show ?thesis ..
  qed
  then show ?thesis using new by (intro exI [of _ new]) (simp add: drop_deleted_def)
qed

text \<open>C23: An import only adds entries: what is tracked stays as it is, each title that has evidence and is not tracked yet gets
  exactly one entry, and a deleted title gets none.\<close>

theorem import_only_adds_living_titles:
  assumes "import_tracking_history now today user initial_import db = Inr ir"
  shows "(\<exists>new. entry_table (ir_db ir) = entry_table db @ new \<and> ir_added ir = map te_media_id new \<and> distinct (ir_added ir)
      \<and> (\<forall>e \<in> set new. te_user_id e = user \<and> te_media_id e \<notin> deleted_titles db user
           \<and> \<not> (\<exists>x \<in> set (entry_table db). te_user_id x = user \<and> te_media_id x = te_media_id e))
      \<and> set (ir_added ir) = fst ` set (gather_evidence db user) - te_media_id ` {e \<in> set (entry_table db). te_user_id e = user})"
  using import_effect [OF assms] .

text \<open>Film 1 was watched, film 2 was watched and then deleted, film 3 is tracked already.\<close>

definition sample_monday :: date where
  "sample_monday = Date 2024 6 3"

definition sample_seen :: "int \<Rightarrow> watch_event" where
  "sample_seen n = new_watch_event n 1 n None True 0"

definition sample_import_db :: db where
  "sample_import_db = empty_db\<lparr>media_table := map (\<lambda>n. new_media n Movie ''Film'' (Some n) 0) [1, 2, 3],
     watch_event_table := map sample_seen [1, 2, 3], entry_table := [new_entry 1 1 3 0],
     deletion_table := [\<lparr>td_id = 1, td_user_id = 1, td_media_id = 2, td_deleted_at = 0, td_pending_connections = []\<rparr>]\<rparr>"

lemma sample_import:
  "(case import_tracking_history 0 sample_monday 1 True sample_import_db of Inl _ \<Rightarrow> False
    | Inr ir \<Rightarrow> ir_added ir = [1] \<and> map te_status (entry_table (ir_db ir)) = [''planning'', ''completed'']
        \<and> map we_media_id (watch_event_table (ir_db ir)) = [1, 3])"
  by code_simp

theorem import_only_adds_living_titles_witness:
  "\<exists>ir. import_tracking_history 0 sample_monday 1 True sample_import_db = Inr ir \<and> ir_added ir = [1]
     \<and> distinct (ir_added ir) \<and> (\<exists>new. entry_table (ir_db ir) = entry_table sample_import_db @ new)"
proof -
  obtain ir where ir: "import_tracking_history 0 sample_monday 1 True sample_import_db = Inr ir" "ir_added ir = [1]"
    using sample_import by (cases "import_tracking_history 0 sample_monday 1 True sample_import_db") simp_all
  then show ?thesis using import_only_adds_living_titles [OF ir(1)] by blast
qed

end
