(* ===== verification/Activity.thy ===== *)
theory Activity
  imports StreamSnapshot
begin

text \<open>
  The activity feed (\<open>core/activity.py\<close>, with the rebuilding of imported cards of \<open>core/streaming_activity.py\<close> and
  \<open>core/streaming_evidence.py\<close>): one card per title and window of 24 hours, which says what changed over the window.
  A payload is a JSON dictionary; its lists of seasons and of identifiers hold integers.
\<close>

section \<open>Payloads\<close>

definition hours :: "int \<Rightarrow> int" where
  "hours n = minutes (60 * n)"

definition ms_clock :: "datetime \<Rightarrow> datetime" where
  "ms_clock now = now div 1000 * 1000"

definition int_items :: "pyval \<Rightarrow> int list" where
  "int_items v = List.map_filter as_int (list_or_empty v)"

definition int_list :: "int set \<Rightarrow> pyval" where
  "int_list ns = VList (map VInt (sorted_list_of_set ns))"

text \<open>\<open>datetime.fromisoformat\<close> of a stored time, which is compared with naive times only.\<close>

definition stored_time :: "pyval \<Rightarrow> datetime result" where
  "stored_time v =
     (case as_str v of
        None \<Rightarrow> Inl TypeError
      | Some s \<Rightarrow> (case parse_datetime s of
            None \<Rightarrow> Inl ValueError
          | Some (t, None) \<Rightarrow> Inr t
          | Some (_, Some _) \<Rightarrow> Inl TypeError))"

definition suppress_initial_import_rating :: "datetime \<Rightarrow> tracked_entry \<Rightarrow> bool" where
  "suppress_initial_import_rating now e \<longleftrightarrow>
     te_status e = ''completed'' \<and> (case te_initial_import_completed_at e of None \<Rightarrow> False | Some t \<Rightarrow> t \<le> now \<and> now < t + 7 * us_per_day)"

definition has_activity_event :: "string \<Rightarrow> pydict \<Rightarrow> bool" where
  "has_activity_event status details \<longleftrightarrow>
     (truthy (get details ''status_changed'') \<and> (status \<noteq> ''watching'' \<or> get details ''started_watching'' = VBool True))
     \<or> truthy (get details ''rating_changed'') \<or> truthy (get details ''episodes_watched'') \<or> truthy (get details ''finished_seasons'')"

definition or_flag :: "string \<Rightarrow> pydict \<Rightarrow> pydict \<Rightarrow> pydict" where
  "or_flag k previous details = dict_set k (VBool (truthy (get details k) \<or> truthy (get previous k))) details"

definition merge_activity_payload :: "pydict \<Rightarrow> pydict \<Rightarrow> pydict result" where
  "merge_activity_payload newer previous =
     and_then (to_int (dict_get newer ''episodes_watched'' (VInt 0))) (\<lambda>a.
     and_then (to_int (dict_get previous ''episodes_watched'' (VInt 0))) (\<lambda>b.
       let rated = map_of newer ''rating_start_score'' \<noteq> None;
           c1 = dict_set ''episodes_watched'' (VInt (a + b)) newer;
           c2 = dict_set ''finished_seasons''
             (int_list (set (int_items (get newer ''finished_seasons'')) \<union> set (int_items (get previous ''finished_seasons'')))) c1;
           c3 = (if map_of newer ''status_start'' = None then or_flag ''status_changed'' previous c2 else c2);
           c4 = (if rated then c3 else or_flag ''rating_changed'' previous c3);
           c5 = (if \<not> rated \<and> (map_of newer ''rating_first'' \<noteq> None \<or> map_of previous ''rating_first'' \<noteq> None)
                 then or_flag ''rating_first'' previous c4 else c4);
           c6 = (if \<not> rated \<and> get previous ''previous_score'' \<noteq> VNone then dict_set ''previous_score'' (get previous ''previous_score'') c5 else c5);
           c7 = (if get c6 ''progress'' = VNone \<and> get previous ''progress'' \<noteq> VNone then dict_set ''progress'' (get previous ''progress'') c6 else c6)
       in Inr (if \<not> truthy (get c7 ''position'') \<and> truthy (get previous ''position'') then dict_set ''position'' (get previous ''position'') c7 else c7)))"

text \<open>A change of status: the card remembers the status its window began with.\<close>

definition record_status_details :: "string \<Rightarrow> bool \<Rightarrow> string option \<Rightarrow> bool option \<Rightarrow> pydict \<Rightarrow> pydict" where
  "record_status_details status status_changed previous_status first_watching details =
     (if \<not> status_changed then dict_set ''status_changed'' (VBool (truthy (get details ''status_changed''))) details
      else
        let d1 = (if map_of details ''status_start'' = None then dict_set ''status_start'' (opt_str previous_status) details else details);
            d2 = dict_set ''status_changed'' (VBool (get d1 ''status_start'' \<noteq> VStr status)) d1
        in if status = ''watching''
           then dict_set ''started_watching'' (VBool (truthy (get d2 ''started_watching'')
                  \<or> (case first_watching of None \<Rightarrow> previous_status = None | Some b \<Rightarrow> b))) d2
           else d2)"

section \<open>Ratings on a card\<close>

definition rating_activity_fields :: "string list" where
  "rating_activity_fields = [''rating_changed'', ''rating_first'', ''rating_start_score'', ''rating_first_score'', ''previous_score'', ''first_rated_at'']"

definition drop_rating :: "pydict \<Rightarrow> pydict" where
  "drop_rating d = filter (\<lambda>(k, v). k \<notin> set rating_activity_fields) d"

definition only_rating :: "pydict \<Rightarrow> pydict" where
  "only_rating d = filter (\<lambda>(k, v). k \<in> set rating_activity_fields) d"

definition drop_base_rating :: "pydict \<Rightarrow> pydict" where
  "drop_base_rating d =
     (if map_of d ''streaming_base'' = None then d
      else dict_set ''streaming_base'' (VDict (drop_rating (snapshot_dict d ''streaming_base''))) d)"

definition cards_of :: "db \<Rightarrow> int \<Rightarrow> int \<Rightarrow> tracking_activity list" where
  "cards_of db user mid = filter (\<lambda>r. ta_user_id r = user \<and> ta_media_id r = mid) (activity_table db)"

definition recent_card :: "int \<Rightarrow> int \<Rightarrow> datetime \<Rightarrow> datetime \<Rightarrow> tracking_activity \<Rightarrow> bool" where
  "recent_card user mid since now r \<longleftrightarrow> ta_user_id r = user \<and> ta_media_id r = mid \<and> since \<le> ta_created_at r \<and> ta_created_at r \<le> now"

definition clear_card_rating :: "tracking_activity \<Rightarrow> tracking_activity" where
  "clear_card_rating r = r\<lparr>ta_score := None, ta_payload := drop_base_rating (drop_rating (ta_payload r))\<rparr>"

definition shows_action :: "tracking_activity \<Rightarrow> bool" where
  "shows_action r \<longleftrightarrow> has_activity_event (ta_status r) (ta_payload r)"

definition clear_recent_rating_activity :: "int \<Rightarrow> int \<Rightarrow> datetime \<Rightarrow> db \<Rightarrow> db" where
  "clear_recent_rating_activity user mid now db =
     (let recent = recent_card user mid (now - 7 * us_per_day) now in
      db\<lparr>activity_table := filter (\<lambda>r. recent r \<longrightarrow> shows_action r) (map (\<lambda>r. if recent r then clear_card_rating r else r) (activity_table db))\<rparr>)"

text \<open>A correction of a fresh rating stays on the card of that rating.\<close>

definition original_rating :: "db \<Rightarrow> int \<Rightarrow> int \<Rightarrow> datetime \<Rightarrow> tracking_activity option" where
  "original_rating db user mid now =
     max_by (\<lambda>r. case as_str (get (ta_payload r) ''first_rated_at'') of None \<Rightarrow> [] | Some s \<Rightarrow> s)
       (filter (\<lambda>r. recent_card user mid (now - hours 72) now r \<and> truthy (get (ta_payload r) ''first_rated_at'')) (activity_table db))"

definition correct_rating :: "rat \<Rightarrow> tracking_activity \<Rightarrow> tracking_activity" where
  "correct_rating score r =
     r\<lparr>ta_score := Some score,
       ta_payload := dict_pop ''previous_score'' (dict_set ''rating_first'' (VBool True) (dict_set ''rating_changed'' (VBool True) (ta_payload r)))\<rparr>"

definition prepare_rating_activity ::
  "int \<Rightarrow> int \<Rightarrow> string \<Rightarrow> rat option \<Rightarrow> rat option \<Rightarrow> bool \<Rightarrow> datetime \<Rightarrow> db \<Rightarrow> (bool \<times> tracking_activity option \<times> db) result" where
  "prepare_rating_activity user mid status score previous_score rating_changed now db =
     (if \<not> rating_changed then Inr (False, None, db)
      else case score of
          None \<Rightarrow> Inr (False, None, clear_recent_rating_activity user mid now db)
        | Some sc \<Rightarrow>
          if previous_score = None then Inr (True, None, db)
          else case original_rating db user mid now of
              None \<Rightarrow> Inr (True, None, db)
            | Some r \<Rightarrow>
              and_then (stored_time (get (ta_payload r) ''first_rated_at'')) (\<lambda>begun.
                if begun \<le> now \<and> now < begun + hours (if status \<in> {''completed'', ''dropped''} then 72 else 24)
                then Inr (False, Some (correct_rating sc r),
                       db\<lparr>activity_table := update_where (\<lambda>x. ta_id x = ta_id r) (correct_rating sc) (activity_table db)\<rparr>)
                else Inr (True, None, db)))"

definition record_rating_details :: "bool \<Rightarrow> rat option \<Rightarrow> rat option \<Rightarrow> datetime \<Rightarrow> pydict \<Rightarrow> pydict" where
  "record_rating_details rating_changed previous_score score now details =
     (if \<not> rating_changed then dict_set ''rating_changed'' (VBool (truthy (get details ''rating_changed''))) details
      else case previous_score of
          None \<Rightarrow> dict_merge (drop_rating details)
            [(''rating_start_score'', VNone), (''rating_first'', VBool True), (''rating_changed'', VBool True),
             (''first_rated_at'', VStr (datetime_isoformat now))]
        | Some p \<Rightarrow>
          let d1 = (if get details ''rating_start_score'' = VNone
                    then dict_set ''rating_start_score'' (dict_get details ''previous_score'' (VFloat p)) details else details);
              start_score = get d1 ''rating_start_score''; changed = \<not> py_eq start_score (opt_float score);
              d2 = dict_set ''rating_first'' (VBool False) (dict_set ''rating_changed'' (VBool changed) d1)
          in if changed then dict_set ''previous_score'' start_score d2 else dict_pop ''previous_score'' d2)"

section \<open>Episodes and seasons\<close>

definition media_data :: "media \<Rightarrow> pydict" where
  "media_data m = (case m_tmdb_data m of None \<Rightarrow> [] | Some d \<Rightarrow> d)"

definition imported_release :: "media \<Rightarrow> bool" where
  "imported_release e \<longleftrightarrow> get (media_data e) ''tracking_import_released'' = VBool True"

definition catalogue_identity :: "media \<Rightarrow> media \<Rightarrow> int option" where
  "catalogue_identity m e =
     (if dict_get (media_data m) ''tracking_catalogue_provider'' (VStr ''tmdb'') = VStr ''tvdb'' then m_tvdb_id e else m_tmdb_id e)"

definition in_activity_catalogue :: "date \<Rightarrow> media \<Rightarrow> int \<Rightarrow> media \<Rightarrow> bool" where
  "in_activity_catalogue today m sid e \<longleftrightarrow>
     m_show_id e = Some sid \<and> m_media_type e = Episode \<and> (case m_season_number e of None \<Rightarrow> False | Some s \<Rightarrow> 0 < s)
     \<and> ((case m_release_date e of None \<Rightarrow> False | Some r \<Rightarrow> r \<le> isoformat today) \<or> imported_release e)
     \<and> (get (media_data m) ''tracking_episode_ids'' = VNone
        \<or> catalogue_identity m e \<in> Some ` set (int_items (get (media_data m) ''tracking_episode_ids'')) \<or> imported_release e)"

definition expected_count :: "pydict \<Rightarrow> (int \<times> int) result" where
  "expected_count season =
     and_then (to_int (dict_get season ''season_number'' (VInt 0))) (\<lambda>n.
     and_then (to_int (dict_get season ''episode_count'' (VInt 0))) (\<lambda>k. Inr (n, k)))"

text \<open>The episodes of a series, and how many each season should have.\<close>

definition series_activity_catalog :: "date \<Rightarrow> db \<Rightarrow> media \<Rightarrow> (media list \<times> (int \<times> int) list) result" where
  "series_activity_catalog today db m =
     (case find (names_show m) (show_table db) of
        None \<Rightarrow> Inr ([], [])
      | Some s \<Rightarrow>
        and_then (map_result expected_count (dict_rows (get (media_data m) ''seasons''))) (\<lambda>counts.
          Inr (sort_key episode_before (filter (in_activity_catalogue today m (s_id s)) (media_table db)), rev counts)))"

definition in_season :: "int \<Rightarrow> media \<Rightarrow> bool" where
  "in_season n e \<longleftrightarrow> m_season_number e = Some n"

definition finished_watched_seasons :: "media list \<Rightarrow> (int \<times> int) list \<Rightarrow> media list \<Rightarrow> int list" where
  "finished_watched_seasons episodes expected watched =
     (let count = (\<lambda>n es. int (length (filter (in_season n) es))) in
      sorted_list_of_set (set (filter (\<lambda>n. 0 < n \<and> 0 < dict_get expected n 0
          \<and> count n episodes = dict_get expected n 0 \<and> count n watched = dict_get expected n 0)
        (List.map_filter m_season_number watched))))"

definition position_label :: "media \<Rightarrow> string" where
  "position_label e = ''S'' @ py_str (opt_int (m_season_number e)) @ ''E'' @ py_str (opt_int (m_episode_number e))"

definition in_ids :: "int set \<Rightarrow> media \<Rightarrow> bool" where
  "in_ids ids e \<longleftrightarrow> m_id e \<in> ids"

definition series_activity_details :: "date \<Rightarrow> db \<Rightarrow> media \<Rightarrow> int \<Rightarrow> int option \<Rightarrow> (pyval \<times> int list) result" where
  "series_activity_details today db m progress user =
     (if m_media_type m \<noteq> Series \<or> progress \<le> 0 then Inr (VNone, [])
      else and_then (series_activity_catalog today db m) (\<lambda>(episodes, expected).
        let watched = (case user of
                None \<Rightarrow> take (nat progress) episodes
              | Some u \<Rightarrow> filter (in_ids (watched_episodes db u episodes)) episodes)
        in Inr (if watched = [] then (VNone, [])
                else (VStr (position_label (last watched)), finished_watched_seasons episodes expected watched))))"

text \<open>What was watched between two values of the progress.\<close>

definition series_activity_span :: "date \<Rightarrow> db \<Rightarrow> media \<Rightarrow> int \<Rightarrow> int \<Rightarrow> (pyval \<times> pyval \<times> int list) result" where
  "series_activity_span today db m start stop =
     (if m_media_type m \<noteq> Series \<or> stop \<le> start then Inr (VNone, VNone, [])
      else and_then (series_activity_catalog today db m) (\<lambda>(episodes, expected).
        let finished = (\<lambda>n. finished_watched_seasons episodes expected (take (nat n) episodes)) in
        Inr (if int (length episodes) \<le> start \<or> int (length episodes) < stop then (VNone, VNone, [])
             else (VStr (position_label (episodes ! nat start)), VStr (position_label (episodes ! nat (stop - 1))),
                   filter (\<lambda>n. n \<notin> set (finished start)) (finished stop)))))"

section \<open>The card of a window\<close>

definition activity_window_start :: "tracking_activity \<Rightarrow> datetime result" where
  "activity_window_start r =
     (let v = get (ta_payload r) ''window_started_at''
      in if truthy v then stored_time v else Inr (midnight (date_of (ta_created_at r))))"

definition latest_card :: "int \<Rightarrow> int \<Rightarrow> datetime \<Rightarrow> db \<Rightarrow> tracking_activity option" where
  "latest_card user mid now db =
     max_by (\<lambda>r. (ta_created_at r, ta_id r))
       (filter (\<lambda>r. now - hours 24 < ta_created_at r \<and> ta_created_at r \<le> now) (cards_of db user mid))"

definition active_activity_card :: "int \<Rightarrow> int \<Rightarrow> datetime \<Rightarrow> db \<Rightarrow> tracking_activity option result" where
  "active_activity_card user mid now db =
     (case latest_card user mid now db of
        None \<Rightarrow> Inr None
      | Some r \<Rightarrow> and_then (activity_window_start r) (\<lambda>start.
          Inr (if start \<le> now \<and> now < start + hours 24 then Some r else None)))"

text \<open>The window is named by its start; a card without one keeps the name of its day.\<close>

definition set_activity_window :: "tracking_activity option \<Rightarrow> datetime \<Rightarrow> pydict \<Rightarrow> pydict result" where
  "set_activity_window row now details =
     (if map_of details ''window_started_at'' \<noteq> None then Inr details
      else and_then (case row of None \<Rightarrow> Inr now | Some r \<Rightarrow> activity_window_start r) (\<lambda>start.
        Inr (dict_set ''window_key'' (VStr (if row = None then datetime_isoformat start else isoformat (date_of start)))
          (dict_set ''window_started_at'' (VStr (datetime_isoformat start)) details))))"

definition local_activity_details :: "tracking_activity option \<Rightarrow> pydict" where
  "local_activity_details row =
     (let details = (case row of None \<Rightarrow> [] | Some r \<Rightarrow> ta_payload r) in
      if map_of details ''streaming_base'' = None then details
      else dict_merge (drop_rating (snapshot_dict details ''streaming_base'')) (only_rating details))"

section \<open>Cards that hold imported events\<close>

definition activity_event_order :: "pydict \<Rightarrow> string \<times> int" where
  "activity_event_order event =
     (let key = text_of (get event ''key'') in
      (text_of (get event ''date''),
       if key \<in> {''finish'', ''status''} then 3 else if starts_with ''season:'' key then 2 else if key = ''start'' then 0 else 1))"

definition parse_position :: "string \<Rightarrow> (int \<times> int) option" where
  "parse_position s =
     (case s of
        [] \<Rightarrow> None
      | c # r \<Rightarrow>
        let season = takeWhile is_digit r; rest = dropWhile is_digit r in
        if c = CHR ''S'' \<and> season \<noteq> [] \<and> rest \<noteq> [] \<and> hd rest = CHR ''E'' \<and> isdigit (tl rest)
        then Some (int (nat_of_digits season), int (nat_of_digits (tl rest))) else None)"

definition span_positions :: "pydict \<Rightarrow> pyval list" where
  "span_positions details =
     (let events = map (dict_or_empty \<circ> snd) (snapshot_dict details ''streaming_events''); original = snapshot_dict details ''streaming_base'' in
      map (\<lambda>e. get e ''position'') (filter (\<lambda>e. truthy (get e ''episodes_watched'')) events)
      @ (if truthy (get original ''episodes_watched'') then [get original ''position_start'', get original ''position''] else []))"

definition span_label :: "int \<times> int \<Rightarrow> pyval" where
  "span_label p = VStr (''S'' @ show_int (fst p) @ ''E'' @ show_int (snd p))"

definition streaming_episode_span :: "pydict \<Rightarrow> (pyval \<times> pyval) option" where
  "streaming_episode_span details =
     (let numbered = List.map_filter (\<lambda>v. case as_str v of None \<Rightarrow> None | Some s \<Rightarrow> parse_position s) (span_positions details) in
      if numbered = [] then None else Some (span_label (Min (set numbered)), span_label (Max (set numbered))))"

definition event_count :: "pydict \<Rightarrow> int result" where
  "event_count e = (case as_int (dict_get e ''episodes_watched'' (VInt 0)) of None \<Rightarrow> Inl TypeError | Some n \<Rightarrow> Inr n)"

definition copy_key :: "pydict \<Rightarrow> string \<Rightarrow> pydict \<Rightarrow> pydict" where
  "copy_key source k d = (case map_of source k of None \<Rightarrow> d | Some v \<Rightarrow> dict_set k v d)"

definition copy_event_key :: "pydict \<Rightarrow> string \<Rightarrow> pydict \<Rightarrow> pydict" where
  "copy_event_key event k d = (if get event k = VNone then d else dict_set k (get event k) d)"

definition rebuild_base :: "pydict \<Rightarrow> pydict list \<Rightarrow> pydict result" where
  "rebuild_base details events =
     (let raw = snapshot_dict details ''streaming_base'';
          b1 = dict_set ''streaming_base'' (VDict raw)
            (dict_set ''streaming_events'' (VDict (snapshot_dict details ''streaming_events'')) (drop_rating raw));
          b2 = copy_key details ''streaming_base_status'' (copy_key details ''streaming_base_at'' b1);
          places = get b2 ''episode_positions'' in
      and_then (to_int (py_or (get b2 ''episodes_watched'') (VInt 0))) (\<lambda>own.
      and_then (map_result event_count events) (\<lambda>counts.
        Inr (dict_set ''finished_seasons''
          (int_list (set (int_items (get b2 ''finished_seasons'')) \<union> \<Union> (set (map (\<lambda>e. set (int_items (get e ''finished_seasons''))) events))))
          (dict_set ''episodes_watched''
            (VInt (if places = VNone then max own (sum_list counts)
                   else int (card (set (list_or_empty places) \<union>
                     set (filter truthy (map (\<lambda>e. get e ''position'') (filter (\<lambda>e. truthy (get e ''episodes_watched'')) events))))))) b2)))))"

definition rebuild_card :: "tracking_activity \<Rightarrow> tracking_activity result" where
  "rebuild_card r =
     (let details = ta_payload r;
          events = sort_key activity_event_order (map (dict_or_empty \<circ> snd) (snapshot_dict details ''streaming_events'')) in
      and_then (rebuild_base details events) (\<lambda>b1.
      and_then (if truthy (get details ''streaming_base_at'') then and_then (stored_time (get details ''streaming_base_at'')) (\<lambda>t. Inr (Some t))
                else Inr None) (\<lambda>base_at.
      and_then (map_result (\<lambda>e. stored_time (get e ''date'')) events) (\<lambda>times.
        let b2 = fold (\<lambda>e. copy_event_key e ''started_watching'' \<circ> copy_event_key e ''status_changed'' \<circ> copy_event_key e ''position'') events b1;
            b3 = (case streaming_episode_span b2 of None \<Rightarrow> b2
                  | Some (first_one, last_one) \<Rightarrow> dict_set ''position'' last_one (dict_set ''position_start'' first_one b2));
            b4 = (if truthy (get details ''window_started_at'') then copy_key details ''window_started_at'' b3 else b3);
            all_times = times @ (case base_at of None \<Rightarrow> [] | Some t \<Rightarrow> [t]);
            own = (case base_at of None \<Rightarrow> False | Some t \<Rightarrow> times = [] \<or> last times \<le> t)
        in Inr (r\<lparr>ta_status := (if own then text_of (get details ''streaming_base_status'')
                                else if events = [] then ta_status r else text_of (get (last events) ''status'')),
                  ta_created_at := (if all_times = [] then ta_created_at r else ms_clock (fold max (tl all_times) (hd all_times))),
                  ta_payload := dict_merge b4 (only_rating details)\<rparr>)))))"

text \<open>A change of the viewer's own on a card that holds imported events becomes the new base of the card.\<close>

definition retain_local_activity ::
  "tracking_activity \<Rightarrow> pydict \<Rightarrow> string \<Rightarrow> rat option \<Rightarrow> datetime \<Rightarrow> tracking_activity option result" where
  "retain_local_activity r details status score now =
     (if map_of (ta_payload r) ''streaming_base'' = None then Inr None
      else and_then (rebuild_card (r\<lparr>ta_score := score,
             ta_payload := dict_merge (dict_merge (drop_rating (ta_payload r)) (only_rating details))
               [(''streaming_base'', VDict details), (''streaming_base_at'', VStr (datetime_isoformat now)),
                (''streaming_base_status'', VStr status)]\<rparr>)) (\<lambda>x. Inr (Some x)))"

section \<open>Writing the card\<close>

definition set_card :: "tracking_activity \<Rightarrow> db \<Rightarrow> db" where
  "set_card r db = db\<lparr>activity_table := update_where (\<lambda>x. ta_id x = ta_id r) (\<lambda>_. r) (activity_table db)\<rparr>"

definition delete_card :: "tracking_activity option \<Rightarrow> db \<Rightarrow> db" where
  "delete_card row db =
     (case row of None \<Rightarrow> db | Some r \<Rightarrow> db\<lparr>activity_table := filter (\<lambda>x. ta_id x \<noteq> ta_id r) (activity_table db)\<rparr>)"

definition new_card :: "db \<Rightarrow> int \<Rightarrow> int \<Rightarrow> string \<Rightarrow> rat option \<Rightarrow> pydict \<Rightarrow> datetime \<Rightarrow> tracking_activity" where
  "new_card db user mid status score details now =
     \<lparr>ta_id = next_id ta_id (activity_table db), ta_user_id = user, ta_media_id = mid, ta_status = status, ta_score = score,
      ta_payload = details, ta_created_at = ms_clock now\<rparr>"

text \<open>Once an imported status has changed, ratings of the title belong to ordinary cards.\<close>

definition end_import_window :: "datetime \<Rightarrow> int \<Rightarrow> int \<Rightarrow> db \<Rightarrow> db" where
  "end_import_window now user mid db =
     db\<lparr>entry_table := update_where (\<lambda>e. te_user_id e = user \<and> te_media_id e = mid)
       (touch_entry now (\<lambda>e. e\<lparr>te_initial_import_completed_at := None\<rparr>)) (entry_table db)\<rparr>"

definition put_card ::
  "datetime \<Rightarrow> int \<Rightarrow> int \<Rightarrow> string \<Rightarrow> rat option \<Rightarrow> bool \<Rightarrow> tracking_activity option \<Rightarrow> pydict \<Rightarrow> db \<Rightarrow> db result" where
  "put_card now user mid status score status_changed row details db =
     and_then (case row of None \<Rightarrow> Inr None | Some r \<Rightarrow> retain_local_activity r details status score now) (\<lambda>retained.
       Inr (case retained of
              Some r \<Rightarrow>
                if \<not> shows_action r then delete_card row db
                else if status_changed then end_import_window now user mid (set_card r db) else set_card r db
            | None \<Rightarrow>
                if \<not> has_activity_event status details then delete_card row db
                else
                  let db1 = (case row of
                      None \<Rightarrow> db\<lparr>activity_table := activity_table db @ [new_card db user mid status score details now]\<rparr>
                    | Some r \<Rightarrow> set_card (r\<lparr>ta_status := status, ta_score := score, ta_payload := details, ta_created_at := ms_clock now\<rparr>) db)
                  in if status_changed then end_import_window now user mid db1 else db1))"

text \<open>What a caller says happened.\<close>

record activity_change =
  ac_status :: string
  ac_score :: "rat option"
  ac_status_changed :: bool
  ac_rating_changed :: bool
  ac_previous_status :: "string option"
  ac_first_watching :: "bool option"
  ac_previous_score :: "rat option"

definition finish_details :: "datetime \<Rightarrow> activity_change \<Rightarrow> bool \<Rightarrow> pydict \<Rightarrow> pydict" where
  "finish_details now ac rated details =
     record_rating_details rated (ac_previous_score ac) (ac_score ac) now
       (record_status_details (ac_status ac) (ac_status_changed ac) (ac_previous_status ac) (ac_first_watching ac) details)"

section \<open>Progress\<close>

text \<open>The progress the window began with; a card that only counts gives it as a difference.\<close>

definition progress_baseline :: "int \<Rightarrow> pydict \<Rightarrow> int result" where
  "progress_baseline previous_progress details =
     (if get details ''progress_start'' \<noteq> VNone then to_int (get details ''progress_start'')
      else and_then (to_int (py_or (get details ''episodes_watched'') (VInt 0))) (\<lambda>count.
        if get details ''progress'' \<noteq> VNone \<and> count \<noteq> 0
        then and_then (to_int (get details ''progress'')) (\<lambda>stop. Inr (max 0 (stop - count)))
        else Inr previous_progress))"

definition start_watched ::
  "media list \<Rightarrow> int set option \<Rightarrow> int \<Rightarrow> bool \<Rightarrow> pydict \<Rightarrow> int set" where
  "start_watched episodes previous_ids baseline carded details =
     (let ids = map m_id episodes in
      (if get details ''watched_start_ids'' = VNone
       then set (let previous = filter (\<lambda>i. case previous_ids of None \<Rightarrow> True | Some s \<Rightarrow> i \<in> s) ids
                 in if carded then take (nat baseline) previous else previous)
       else set (int_items (get details ''watched_start_ids''))) \<inter> set ids)"

definition exact_details ::
  "media list \<Rightarrow> (int \<times> int) list \<Rightarrow> int set \<Rightarrow> int set \<Rightarrow> pydict \<Rightarrow> pydict" where
  "exact_details episodes expected start_ids seen_ids details =
     (let current = seen_ids \<inter> m_id ` set episodes; new = filter (in_ids (current - start_ids)) episodes;
          count = max 0 (int (card current) - int (card start_ids)); named = new \<noteq> [] \<and> count \<noteq> 0;
          finished = (\<lambda>ids. finished_watched_seasons episodes expected (filter (in_ids ids) episodes))
      in dict_merge details
           [(''watched_start_ids'', int_list start_ids), (''episodes_watched'', VInt count),
            (''position_start'', if named then VStr (position_label (hd new)) else VNone),
            (''position'', if named then VStr (position_label (last new)) else VNone),
            (''episode_positions'', VList (map (VStr \<circ> position_label) new)),
            (''finished_seasons'', int_list (set (finished current) - set (finished start_ids)))])"

definition span_details :: "pyval \<times> pyval \<times> int list \<Rightarrow> pydict \<Rightarrow> pydict" where
  "span_details found details =
     dict_merge details [(''position_start'', fst found), (''position'', fst (snd found)), (''finished_seasons'', VList (map VInt (snd (snd found))))]"

definition progress_details ::
  "date \<Rightarrow> int \<Rightarrow> media \<Rightarrow> int \<Rightarrow> int set option \<Rightarrow> int set option \<Rightarrow> bool \<Rightarrow> int \<Rightarrow> pydict \<Rightarrow> db \<Rightarrow> pydict result" where
  "progress_details today user m progress previous_ids seen_ids carded baseline details db =
     (let d1 = dict_merge details
        [(''episodes_watched'', VInt (max 0 (progress - baseline))), (''progress_start'', VInt baseline), (''progress'', VInt progress)] in
      if seen_ids \<noteq> None \<or> map_of d1 ''watched_start_ids'' \<noteq> None
      then and_then (series_activity_catalog today db m) (\<lambda>(episodes, expected).
        Inr (exact_details episodes expected (start_watched episodes previous_ids baseline carded d1)
          (case seen_ids of None \<Rightarrow> watched_episodes db user episodes | Some ids \<Rightarrow> ids) d1))
      else and_then (series_activity_span today db m baseline progress) (\<lambda>found. Inr (span_details found d1)))"

definition record_progress_activity ::
  "datetime \<Rightarrow> date \<Rightarrow> int \<Rightarrow> media \<Rightarrow> int \<Rightarrow> int \<Rightarrow> int set option \<Rightarrow> int set option \<Rightarrow> activity_change \<Rightarrow> db \<Rightarrow> db result" where
  "record_progress_activity now today user m previous_progress progress previous_ids seen_ids ac db =
     and_then (prepare_rating_activity user (m_id m) (ac_status ac) (ac_score ac) (ac_previous_score ac) (ac_rating_changed ac) now db) (\<lambda>(rated, _, db1).
     and_then (active_activity_card user (m_id m) now db1) (\<lambda>row.
     and_then (set_activity_window row now (local_activity_details row)) (\<lambda>d0.
     and_then (progress_baseline previous_progress d0) (\<lambda>baseline.
     and_then (progress_details today user m progress previous_ids seen_ids (row \<noteq> None) baseline d0 db1) (\<lambda>d1.
       put_card now user (m_id m) (ac_status ac) (ac_score ac) (ac_status_changed ac) row (finish_details now ac rated d1) db1)))))"

section \<open>Everything else that happens to a title\<close>

record daily_change = activity_change +
  dc_episodes :: int
  dc_progress :: "int option"
  dc_position :: "string option"
  dc_seasons :: "int list"

definition daily_details :: "daily_change \<Rightarrow> pydict \<Rightarrow> pydict" where
  "daily_details dc d0 =
     (let d1 = (case dc_progress dc of None \<Rightarrow> d0 | Some p \<Rightarrow> dict_set ''progress'' (VInt p) d0);
          d2 = (case dc_position dc of None \<Rightarrow> d1 | Some p \<Rightarrow> dict_set ''position'' (VStr p) d1)
      in dict_set ''finished_seasons'' (int_list (set (int_items (get d2 ''finished_seasons'')) \<union> set (dc_seasons dc))) d2)"

definition record_daily_activity :: "datetime \<Rightarrow> int \<Rightarrow> int \<Rightarrow> daily_change \<Rightarrow> db \<Rightarrow> db result" where
  "record_daily_activity now user mid dc db =
     and_then (prepare_rating_activity user mid (ac_status dc) (ac_score dc) (ac_previous_score dc) (ac_rating_changed dc) now db) (\<lambda>(rated, _, db1).
       if ac_rating_changed dc \<and> \<not> rated \<and> \<not> ac_status_changed dc \<and> dc_episodes dc = 0 \<and> dc_seasons dc = [] then Inr db1
       else
         and_then (active_activity_card user mid now db1) (\<lambda>row.
         and_then (merge_activity_payload (local_activity_details row) [(''episodes_watched'', VInt (max 0 (dc_episodes dc)))]) (\<lambda>merged.
         and_then (set_activity_window row now merged) (\<lambda>d0.
           put_card now user mid (ac_status dc) (ac_score dc) (ac_status_changed dc) row
             (finish_details now (activity_change.truncate dc) rated (daily_details dc d0)) db1))))"

section \<open>Plays that are taken away\<close>

definition recorded_positions :: "string list \<Rightarrow> pydict \<Rightarrow> pyval list option result" where
  "recorded_positions names details =
     (let stored = get details ''episode_positions''; final = get details ''position''; begun = py_or (get details ''position_start'') final in
      if stored \<noteq> VNone then Inr (Some (list_or_empty stored))
      else if \<not> truthy (get details ''episodes_watched'') then Inr None
      else if begun \<in> VStr ` set names \<and> final \<in> VStr ` set names
      then let all = map VStr names; i = length (takeWhile (\<lambda>v. v \<noteq> begun) all); j = length (takeWhile (\<lambda>v. v \<noteq> final) all)
           in Inr (Some (drop i (take (Suc j) all)))
      else if get details ''progress'' = VNone then Inr None
      else and_then (to_int (get details ''progress'')) (\<lambda>stop.
           and_then (to_int (get details ''episodes_watched'')) (\<lambda>count.
             Inr (Some (map VStr (drop (nat (stop - count)) (take (nat stop) names)))))))"

text \<open>\<open>un_positions\<close> labels every episode, \<open>un_watched\<close> those that are still watched.\<close>

record unwatched =
  un_positions :: "string list"
  un_watched :: "string set"
  un_seasons :: "int set"
  un_complete :: bool
  un_any :: bool

definition unwatched_of :: "media list \<Rightarrow> int set \<Rightarrow> int set \<Rightarrow> unwatched" where
  "unwatched_of episodes seen_ids removed_ids =
     \<lparr>un_positions = map position_label episodes, un_watched = position_label ` set (filter (in_ids seen_ids) episodes),
      un_seasons = set (List.map_filter m_season_number (filter (in_ids removed_ids) episodes)),
      un_complete = (episodes \<noteq> [] \<and> list_all (in_ids seen_ids) episodes), un_any = (seen_ids \<noteq> {})\<rparr>"

definition drop_seasons :: "unwatched \<Rightarrow> pydict \<Rightarrow> pydict" where
  "drop_seasons u d =
     dict_set ''finished_seasons'' (VList (filter (\<lambda>v. v \<notin> VInt ` un_seasons u) (list_or_empty (get d ''finished_seasons'')))) d"

definition trim_payload :: "unwatched \<Rightarrow> string \<Rightarrow> pydict \<Rightarrow> pydict result" where
  "trim_payload u status payload =
     and_then (recorded_positions (un_positions u) payload) (\<lambda>recorded.
     and_then (if recorded = None then Inr 0 else to_int (py_or (get payload ''episodes_watched'') (VInt 0))) (\<lambda>count.
       let remaining = filter (\<lambda>v. v \<in> VStr ` un_watched u) (case recorded of None \<Rightarrow> [] | Some xs \<Rightarrow> xs);
           d1 = (case recorded of
               Some _ \<Rightarrow> dict_merge payload
                 [(''episode_positions'', VList remaining), (''episodes_watched'', VInt (min (int (length remaining)) count)),
                  (''position_start'', if remaining = [] then VNone else hd remaining),
                  (''position'', if remaining = [] then VNone else last remaining)]
             | None \<Rightarrow> if un_any u then payload else dict_set ''episodes_watched'' (VInt 0) payload);
           d2 = drop_seasons u d1;
           d3 = (if \<not> un_complete u \<and> status = ''completed'' then dict_set ''status_changed'' (VBool False) d2 else d2);
           d4 = (if un_any u then d3 else dict_set ''started_watching'' (VBool False) d3)
       in Inr (if \<not> un_any u \<and> status = ''watching'' then dict_set ''status_changed'' (VBool False) d4 else d4)))"

definition event_stands :: "unwatched \<Rightarrow> string \<times> pyval \<Rightarrow> bool" where
  "event_stands u item \<longleftrightarrow>
     (let event = dict_or_empty (snd item) in
      (\<not> truthy (get event ''episodes_watched'') \<or> get event ''position'' \<in> VStr ` un_watched u)
      \<and> list_all (\<lambda>v. v \<notin> VInt ` un_seasons u) (list_or_empty (get event ''finished_seasons''))
      \<and> (fst item = ''finish'' \<longrightarrow> un_complete u) \<and> (fst item = ''start'' \<longrightarrow> un_any u))"

definition unwatch_imported :: "unwatched \<Rightarrow> tracking_activity \<Rightarrow> tracking_activity result" where
  "unwatch_imported u r =
     (let details = ta_payload r; base_status = dict_get details ''streaming_base_status'' (VStr (ta_status r)) in
      and_then (trim_payload u (text_of base_status) (snapshot_dict details ''streaming_base'')) (\<lambda>base.
        let d1 = dict_set ''streaming_events'' (VDict (filter (event_stands u) (snapshot_dict details ''streaming_events'')))
              (dict_set ''streaming_base'' (VDict base) details);
            d2 = (if \<not> un_complete u \<and> get details ''streaming_base_status'' = VStr ''completed''
                  then dict_set ''streaming_base_status'' (VStr ''watching'') d1 else d1)
        in rebuild_card (r\<lparr>ta_payload := d2,
             ta_status := (if ta_status r = ''completed'' \<and> \<not> un_complete u then ''watching'' else ta_status r)\<rparr>)))"

definition unwatch_card :: "unwatched \<Rightarrow> tracking_activity \<Rightarrow> tracking_activity result" where
  "unwatch_card u r =
     (if map_of (ta_payload r) ''streaming_events'' \<noteq> None then unwatch_imported u r
      else and_then (trim_payload u (ta_status r) (ta_payload r)) (\<lambda>d. Inr (r\<lparr>ta_payload := d\<rparr>)))"

definition reconcile_unwatched_activity :: "int \<Rightarrow> media \<Rightarrow> media list \<Rightarrow> int set \<Rightarrow> int set \<Rightarrow> db \<Rightarrow> db result" where
  "reconcile_unwatched_activity user m episodes seen_ids removed_ids db =
     (let mine = (\<lambda>r. ta_user_id r = user \<and> ta_media_id r = m_id m) in
      and_then (map_result (\<lambda>r. if mine r then unwatch_card (unwatched_of episodes seen_ids removed_ids) r else Inr r) (activity_table db)) (\<lambda>rows.
        Inr (db\<lparr>activity_table := filter (\<lambda>r. mine r \<longrightarrow> shows_action r) rows\<rparr>)))"

section \<open>Events of an import\<close>

text \<open>The cards of a title, oldest first, by their identifiers; new ones come last.\<close>

record importing =
  im_db :: db
  im_rows :: "int list"
  im_touched :: "int list"

definition card_with :: "db \<Rightarrow> int \<Rightarrow> tracking_activity option" where
  "card_with db cid = find (\<lambda>r. ta_id r = cid) (activity_table db)"

definition import_rows :: "importing \<Rightarrow> tracking_activity list" where
  "import_rows im = List.map_filter (card_with (im_db im)) (im_rows im)"

definition holds_event :: "string \<Rightarrow> tracking_activity \<Rightarrow> bool" where
  "holds_event key r \<longleftrightarrow> map_of (snapshot_dict (ta_payload r) ''streaming_events'') key \<noteq> None"

definition without_event :: "string \<Rightarrow> tracking_activity \<Rightarrow> tracking_activity" where
  "without_event key r =
     r\<lparr>ta_payload := dict_set ''streaming_events'' (VDict (dict_pop key (snapshot_dict (ta_payload r) ''streaming_events''))) (ta_payload r)\<rparr>"

text \<open>The last card whose window contains the moment.\<close>

fun window_card :: "datetime \<Rightarrow> tracking_activity list \<Rightarrow> tracking_activity option result" where
  "window_card now [] = Inr None"
| "window_card now (r # rs) =
     and_then (activity_window_start r) (\<lambda>start. if start \<le> now \<and> now < start + hours 24 then Inr (Some r) else window_card now rs)"

definition import_base :: "tracking_activity \<Rightarrow> pydict result" where
  "import_base r =
     (let details = ta_payload r in
      if map_of details ''streaming_base'' \<noteq> None then Inr details
      else and_then (activity_window_start r) (\<lambda>start.
        Inr (dict_merge details
          [(''streaming_base'', VDict details), (''streaming_base_at'', VStr (datetime_isoformat (ta_created_at r))),
           (''streaming_base_status'', VStr (ta_status r)), (''window_started_at'', VStr (datetime_isoformat start))])))"

definition put_event :: "int \<Rightarrow> int \<Rightarrow> string \<Rightarrow> pydict \<Rightarrow> importing \<Rightarrow> importing result" where
  "put_event user mid key event im =
     and_then (stored_time (get event ''date'')) (\<lambda>now.
     and_then (window_card now (rev (import_rows im))) (\<lambda>found.
       let db = im_db im; fresh = new_card db user mid (text_of (get event ''status'')) None
             [(''window_started_at'', VStr (datetime_isoformat now)), (''streaming_base'', VDict [])] now;
           r = (case found of Some x \<Rightarrow> x | None \<Rightarrow> fresh);
           db1 = (case found of Some _ \<Rightarrow> db | None \<Rightarrow> db\<lparr>activity_table := activity_table db @ [fresh]\<rparr>)
       in and_then (import_base r) (\<lambda>details.
          and_then (rebuild_card (r\<lparr>ta_payload := dict_set ''streaming_events''
              (VDict (dict_set key (VDict event) (snapshot_dict details ''streaming_events''))) details\<rparr>)) (\<lambda>x.
            Inr \<lparr>im_db = set_card x db1, im_rows = (if found = None then im_rows im @ [ta_id r] else im_rows im),
                 im_touched = im_touched im @ [ta_id r]\<rparr>))))"

text \<open>An event that is known keeps its card unless it turns out to be older.\<close>

definition import_event :: "int \<Rightarrow> int \<Rightarrow> pydict \<Rightarrow> importing \<Rightarrow> importing result" where
  "import_event user mid event im =
     (let key = text_of (get event ''key'') in
      case find (holds_event key) (import_rows im) of
        None \<Rightarrow> put_event user mid key event im
      | Some r \<Rightarrow>
        if text_of (get (dict_or_empty (get (snapshot_dict (ta_payload r) ''streaming_events'') key)) ''date'') \<le> text_of (get event ''date'')
        then Inr (im\<lparr>im_touched := im_touched im @ [ta_id r]\<rparr>)
        else and_then (rebuild_card (without_event key r)) (\<lambda>x. put_event user mid key event (im\<lparr>im_db := set_card x (im_db im)\<rparr>)))"

definition rate_latest :: "rat option \<Rightarrow> rat option \<Rightarrow> importing \<Rightarrow> db" where
  "rate_latest score previous_score im =
     (case max_by ta_created_at (filter shows_action (List.map_filter (card_with (im_db im)) (im_touched im))) of
        None \<Rightarrow> im_db im
      | Some r \<Rightarrow>
        if score = None \<or> score = previous_score then im_db im
        else set_card (r\<lparr>ta_score := score,
               ta_payload := record_rating_details True previous_score score (ta_created_at r) (ta_payload r)\<rparr>) (im_db im))"

definition record_streaming_activity :: "int \<Rightarrow> int \<Rightarrow> pydict list \<Rightarrow> rat option \<Rightarrow> rat option \<Rightarrow> db \<Rightarrow> db result" where
  "record_streaming_activity user mid events score previous_score db =
     and_then (fold_result (import_event user mid) events
         \<lparr>im_db = db, im_rows = map ta_id (sort_key (\<lambda>r. (ta_created_at r, ta_id r)) (cards_of db user mid)), im_touched = []\<rparr>) (\<lambda>im.
       let db1 = rate_latest score previous_score im in
       Inr (db1\<lparr>activity_table := filter (\<lambda>r. ta_id r \<in> set (im_rows im) \<and> map_of (ta_payload r) ''streaming_events'' \<noteq> None
         \<longrightarrow> shows_action r) (activity_table db1)\<rparr>))"

end
