(* ===== verification/SnapshotObservation.thy ===== *)
theory SnapshotObservation
  imports SnapshotRules HistoryImport Activity
begin

text \<open>
  What a snapshot of a streaming account does to the tracked lists: \<open>observe_stream_snapshot\<close> of \<open>core/tracking_snapshot.py\<close>
  after the snapshot was read, with the rating prompt of \<open>core/web_push.py\<close>.  It runs outside the collection of a round; a
  round that is being applied answers \<open>playback_allowed\<close>.  Sets are walked in ascending order; rows are compared as values.
\<close>

section \<open>The observation and what it changes\<close>

record observing =
  og_now :: datetime
  og_today :: date
  og_round :: "reconciliation option"
  og_conn :: connection
  og_feed :: stream_feed
  og_previous :: pydict
  og_prior_at :: "datetime option"
  og_mappings :: pydict
  og_numbers :: "int set"
  og_dismissed :: "int set"
  og_existing :: "int set"
  og_imported :: "int set"
  og_first :: bool
  og_active :: "(string \<times> pydict) list"
  og_done :: "pydict list"
  og_auto :: bool

record observed_world =
  ow_db :: db
  ow_changed :: "int set"
  ow_outbound :: pydict
  ow_inferred :: "int set"
  ow_accepted :: "pydict list"

definition og_user :: "observing \<Rightarrow> int" where
  "og_user og = c_user_id (og_conn og)"

definition og_source :: "observing \<Rightarrow> string" where
  "og_source og = c_type (og_conn og) @ '':'' @ show_int (c_id (og_conn og))"

definition og_watched :: "observing \<Rightarrow> pydict list" where
  "og_watched og = (if fd_sync_watched (og_feed og) then fd_watched (og_feed og) else [])"

definition og_completed :: "observing \<Rightarrow> pydict list" where
  "og_completed og = og_watched og @ og_done og"

definition row_dict :: "pydict \<Rightarrow> (string \<times> pydict) list" where
  "row_dict d = map (\<lambda>(k, v). (k, dict_or_empty v)) d"

definition og_old_active :: "observing \<Rightarrow> (string \<times> pydict) list" where
  "og_old_active og = row_dict (snapshot_dict (og_previous og) ''progress'')"

text \<open>The titles the snapshot speaks of.\<close>

definition known_title :: "observing \<Rightarrow> db \<Rightarrow> pyval \<Rightarrow> pyval \<Rightarrow> media option" where
  "known_title og db v kind =
     (case as_int v of
        None \<Rightarrow> None
      | Some t \<Rightarrow> if t \<in> og_numbers og then last_row (\<lambda>m. m_tmdb_id m = Some t \<and> m_media_type m \<in> {Movie, Series}
            \<and> VStr (media_type_value (m_media_type m)) = kind) (media_table db)
          else None)"

definition snapshot_title :: "observing \<Rightarrow> db \<Rightarrow> pydict \<Rightarrow> media option" where
  "snapshot_title og db row = known_title og db (get (og_mappings og) (py_str (get row ''content_id''))) (get row ''content_type'')"

definition og_allowed :: "observing \<Rightarrow> int \<Rightarrow> pydict \<Rightarrow> bool option result" where
  "og_allowed og mid row = playback_allowed (og_round og) (og_user og) (c_id (og_conn og)) mid row"

definition og_baseline :: "observing \<Rightarrow> db \<Rightarrow> stream_baseline option" where
  "og_baseline og db = stream_baseline_of db (c_id (og_conn og))"

definition og_approved :: "observing \<Rightarrow> db \<Rightarrow> bool" where
  "og_approved og db \<longleftrightarrow> (case og_baseline og db of None \<Rightarrow> False | Some b \<Rightarrow> sb_approved b)"

definition og_entry :: "observing \<Rightarrow> db \<Rightarrow> int \<Rightarrow> tracked_entry option" where
  "og_entry og db mid = entry_row db (og_user og) mid"

definition waiting_review :: "observing \<Rightarrow> db \<Rightarrow> int \<Rightarrow> string set \<Rightarrow> bool" where
  "waiting_review og db mid kinds \<longleftrightarrow>
     list_ex (\<lambda>r. sr_user_id r = og_user og \<and> sr_media_id r = Some mid \<and> sr_state r = ''pending'' \<and> sr_kind r \<in> kinds) (review_table db)"

definition snapshot_review :: "observing \<Rightarrow> db \<Rightarrow> int \<Rightarrow> string \<Rightarrow> string \<Rightarrow> string \<Rightarrow> string \<Rightarrow> string \<Rightarrow> sync_review" where
  "snapshot_review og db mid kind state previous proposed text_shown =
     (new_review db (og_now og) (og_user og) kind None text_shown)
       \<lparr>sr_media_id := Some mid, sr_connection_id := Some (c_id (og_conn og)), sr_state := state,
        sr_previous_status := Some previous, sr_proposed_status := Some proposed\<rparr>"

section \<open>The first snapshot\<close>

definition first_message :: "observing \<Rightarrow> nat \<Rightarrow> string" where
  "first_message og imported =
     c_name (og_conn og) @ '': imported '' @ show_int (int imported) @ '' tracked entries, observed '' @
     show_int (int (length (fd_library (og_feed og)))) @ '' library items and '' @ show_int (int (length (fd_watched (og_feed og)))) @
     '' watch records. Review your lists and any conflicts before approving outbound synchronization. An empty first snapshot removes nothing.''"

definition open_baseline :: "observing \<Rightarrow> nat \<Rightarrow> db \<Rightarrow> db" where
  "open_baseline og imported db =
     (let cid = c_id (og_conn og); user = og_user og;
          db1 = (if og_baseline og db = None
            then db\<lparr>stream_baseline_table := stream_baseline_table db @
              [\<lparr>sb_connection_id = cid, sb_user_id = user, sb_snapshot = [], sb_approved = False, sb_observed_at = og_now og\<rparr>]\<rparr>
            else db\<lparr>stream_baseline_table := update_where (\<lambda>b. sb_connection_id b = cid)
              (\<lambda>b. b\<lparr>sb_snapshot := [], sb_approved := False\<rparr>) (stream_baseline_table db)\<rparr>);
          db2 = (if fd_fresh (og_feed og)
            then db1\<lparr>review_table := filter (\<lambda>r. \<not> (sr_user_id r = user \<and> sr_connection_id r = Some cid
              \<and> sr_kind r = ''initial_import'' \<and> sr_state r = ''pending'')) (review_table db1)\<rparr>
            else db1)
      in add_review ((new_review db2 (og_now og) user ''initial_import'' None (first_message og imported))\<lparr>sr_connection_id := Some cid\<rparr>) db2)"

text \<open>A resume that disagrees with a status the viewer already has is left to the viewer.\<close>

definition first_disagreement :: "observing \<Rightarrow> string \<times> pydict \<Rightarrow> db \<Rightarrow> db result" where
  "first_disagreement og item db =
     (case snapshot_title og db (snd item) of
        None \<Rightarrow> Inr db
      | Some m \<Rightarrow>
        if m_id m \<notin> og_existing og then Inr db
        else and_then (og_allowed og (m_id m) []) (\<lambda>allowed.
          case og_entry og db (m_id m) of
            None \<Rightarrow> if allowed \<noteq> None then Inr db else Inl (ProviderError ''NoResultFound'')
          | Some e \<Rightarrow>
            let proposed = observed_status (Some (te_status e)) False True in
            Inr (if allowed \<noteq> None \<or> proposed = te_status e
                   \<or> list_ex (\<lambda>r. sr_user_id r = og_user og \<and> sr_connection_id r = Some (c_id (og_conn og)) \<and> sr_media_id r = Some (m_id m)
                        \<and> sr_kind r = ''conflict'' \<and> sr_state r = ''pending'') (review_table db)
                 then db
                 else add_review (snapshot_review og db (m_id m) ''conflict'' ''pending'' (te_status e) proposed
                        (c_name (og_conn og) @ '': imported playback disagrees with your existing status. Your local value was kept; choose the correct status before exporting.'')) db)))"

section \<open>A title that is no longer being watched\<close>

definition stopped_status :: "media \<Rightarrow> string" where
  "stopped_status m = (if m_media_type m = Movie then ''dropped'' else ''paused'')"

definition stop_entry :: "observing \<Rightarrow> media \<Rightarrow> tracked_entry \<Rightarrow> tracked_entry" where
  "stop_entry og m x =
     mark_status_change (og_now og) (og_source og) None
       (x\<lparr>te_status := stopped_status m, te_progress := (if m_media_type m = Movie then 0 else te_progress x)\<rparr>)"

definition status_activity :: "string \<Rightarrow> rat option \<Rightarrow> bool \<Rightarrow> string option \<Rightarrow> bool option \<Rightarrow> daily_change" where
  "status_activity status score changed previous first_watching =
     \<lparr>ac_status = status, ac_score = score, ac_status_changed = changed, ac_rating_changed = False, ac_previous_status = previous,
      ac_first_watching = first_watching, ac_previous_score = None, dc_episodes = 0, dc_progress = None, dc_position = None, dc_seasons = []\<rparr>"

text \<open>A change of the viewer that is newer than what was known of the account makes it a conflict.\<close>

definition stop_title ::
  "observing \<Rightarrow> (bool \<Rightarrow> string) \<Rightarrow> datetime option \<Rightarrow> datetime option \<Rightarrow> bool option \<Rightarrow> media \<Rightarrow> tracked_entry \<Rightarrow> observed_world \<Rightarrow> observed_world result" where
  "stop_title og message changed_at observed_at allowed m e w =
     (let db = ow_db w; conflict = older observed_at changed_at \<and> allowed \<noteq> Some True;
          auto = og_auto og \<and> \<not> conflict \<and> og_approved og db;
          db1 = add_review (snapshot_review og db (m_id m) (if conflict then ''conflict'' else ''playback_removed'')
                  (if auto then ''confirmed'' else ''pending'') (te_status e) (stopped_status m) (message conflict)) db in
      if conflict then Inr (w\<lparr>ow_db := db1\<rparr>)
      else
        and_then (queue_dismissals (og_now og) (og_conn og) m (update_entry (og_now og) (te_id e) (stop_entry og m) db1)) (\<lambda>db2.
        and_then (if auto
                  then and_then (effective_score (te_rating_mode e) (te_manual_score e) (te_season_scores e)) (\<lambda>score.
                    record_daily_activity (og_now og) (og_user og) (m_id m) (status_activity (stopped_status m) score True (Some (te_status e)) None) db2)
                  else Inr db2) (\<lambda>db3.
          Inr (w\<lparr>ow_db := db3, ow_changed := insert (m_id m) (ow_changed w)\<rparr>))))"

definition removed_message :: "observing \<Rightarrow> media \<Rightarrow> bool \<Rightarrow> string" where
  "removed_message og m conflict =
     c_name (og_conn og) @ '': playback disappeared without a matching completion. '' @
     (if conflict then ''A newer local edit was preserved; choose the correct status.''
      else ''Marked '' @ stopped_status m @ ''. Review the change or add a rating.'')"

definition hidden_message :: "observing \<Rightarrow> media \<Rightarrow> bool \<Rightarrow> string" where
  "hidden_message og m conflict =
     (if conflict then c_name (og_conn og) @ '': Continue Watching dismissal disagrees with a newer local edit; the local value was kept for review.''
      else c_name (og_conn og) @ '': Continue Watching item was dismissed. Marked '' @ stopped_status m @ ''; review the change.'')"

text \<open>A position that was there and is not any more, unless it was finished or its absence is the delay of a write of ours.\<close>

definition removed_positions :: "observing \<Rightarrow> (string \<times> pydict) list" where
  "removed_positions og =
     (if \<not> og_first og \<and> fd_sync_playback (og_feed og) \<and> (c_push_playback (og_conn og) \<or> c_type (og_conn og) \<in> {''nuvio'', ''stremio''})
      then filter (\<lambda>(key, _). map_of (og_active og) key = None) (og_old_active og) else [])"

definition pending_write_keys :: "observing \<Rightarrow> db \<Rightarrow> string set" where
  "pending_write_keys og db =
     (\<lambda>a. py_str (get (sa_payload a) ''content_id'')) ` set (filter (\<lambda>a. sa_connection_id a = c_id (og_conn og) \<and> sa_state a = ''pending''
       \<and> sa_action a \<in> {''restore'', ''upsert''} \<and> truthy (get (sa_payload a) ''content_id'')) (stream_action_table db))"

definition remove_position :: "observing \<Rightarrow> string set \<Rightarrow> string \<times> pydict \<Rightarrow> observed_world \<Rightarrow> observed_world result" where
  "remove_position og writes item w =
     (case item of (key, old) \<Rightarrow>
        let db = ow_db w in
        if completed_progress old (og_completed og) then Inr (w\<lparr>ow_outbound := dict_pop key (ow_outbound w)\<rparr>)
        else if map_of (ow_outbound w) key \<noteq> None \<or> key \<in> writes then Inr w
        else case known_title og db (get (og_mappings og) key) (get old ''content_type'') of
            None \<Rightarrow> Inr w
          | Some m \<Rightarrow>
            and_then (og_allowed og (m_id m) []) (\<lambda>allowed.
              case og_entry og db (m_id m) of
                None \<Rightarrow> Inr w
              | Some e \<Rightarrow>
                if allowed = Some False \<or> te_status e = ''completed''
                   \<or> c_type (og_conn og) \<in> {''nuvio'', ''stremio''} \<and> te_status e \<noteq> ''watching''
                   \<or> waiting_review og db (m_id m) {''playback_removed'', ''conflict''} \<and> allowed \<noteq> Some True
                then Inr w
                else stop_title og (removed_message og m) (status_changed_at e) (map_option sb_observed_at (og_baseline og db)) allowed m e w))"

text \<open>A title that a Nuvio profile has dismissed; \<open>held\<close> are the changes of the viewer before this snapshot.\<close>

definition dismiss_title :: "observing \<Rightarrow> (int \<Rightarrow> datetime option option) \<Rightarrow> int \<Rightarrow> observed_world \<Rightarrow> observed_world result" where
  "dismiss_title og held number w =
     (let db = ow_db w in
      case opt_or (known_title og db (VInt number) (VStr ''series'')) (known_title og db (VInt number) (VStr ''movie'')) of
        None \<Rightarrow> Inr w
      | Some m \<Rightarrow>
        and_then (og_allowed og (m_id m) []) (\<lambda>allowed.
          case og_entry og db (m_id m) of
            None \<Rightarrow> Inr w
          | Some e \<Rightarrow>
            if allowed = Some False \<or> te_status e \<noteq> ''watching''
               \<or> waiting_review og db (m_id m) {''playback_removed'', ''conflict''} \<and> allowed \<noteq> Some True
            then Inr w
            else stop_title og (hidden_message og m) (case held (m_id m) of None \<Rightarrow> status_changed_at e | Some t \<Rightarrow> t) (og_prior_at og) allowed m e w))"

definition dismiss_titles :: "observing \<Rightarrow> (int \<Rightarrow> datetime option option) \<Rightarrow> observed_world \<Rightarrow> observed_world result" where
  "dismiss_titles og held w =
     (if \<not> og_first og \<and> c_type (og_conn og) = ''nuvio'' \<and> (fd_sync_playback (og_feed og) \<or> fd_sync_watched (og_feed og))
      then fold_result (dismiss_title og held) (sorted_list_of_set (og_dismissed og)) w else Inr w)"

section \<open>What is new\<close>

definition fresh_watch :: "observing \<Rightarrow> pydict \<Rightarrow> bool" where
  "fresh_watch og row \<longleftrightarrow>
     VStr (watch_key row) \<notin> set (list_or_empty (get (og_previous og) ''watched''))
     \<or> watch_key row \<in> watch_key ` set (old_watched (og_previous og))
       \<and> watch_observation row \<notin> watch_observation ` set (old_watched (og_previous og))"

definition new_done :: "observing \<Rightarrow> pydict list" where
  "new_done og = filter (\<lambda>row. VStr (watch_key row) \<notin> set (list_or_empty (get (og_previous og) ''progress_completed''))) (og_done og)"

text \<open>A play replaces a finished position of the same episode.\<close>

definition new_completed :: "observing \<Rightarrow> pydict list \<Rightarrow> pydict list" where
  "new_completed og plays = map snd (foldl (\<lambda>d row. dict_set (watch_key row) row d) [] (new_done og @ plays))"

text \<open>A row that shows what we wrote acknowledges the write; any row ends the wait for it.\<close>

definition echoed_keys :: "observing \<Rightarrow> pydict \<Rightarrow> string set" where
  "echoed_keys og outbound =
     (if fd_sync_playback (og_feed og)
      then fst ` set (filter (\<lambda>(key, row). get outbound key \<noteq> VNone \<and> same_playback row (dict_or_empty (get outbound key))) (og_active og))
      else {})"

definition still_outbound :: "observing \<Rightarrow> pydict \<Rightarrow> pydict" where
  "still_outbound og outbound =
     (if fd_sync_playback (og_feed og) then filter (\<lambda>(key, v). v = VNone \<or> map_of (og_active og) key = None) outbound else outbound)"

definition changed_positions :: "observing \<Rightarrow> string set \<Rightarrow> (string \<times> pydict) list" where
  "changed_positions og echoed =
     (if fd_sync_playback (og_feed og)
      then filter (\<lambda>(key, row). key \<notin> echoed \<and>
        (case filled_row (map_of (og_old_active og) key) of None \<Rightarrow> True
         | Some old \<Rightarrow> \<not> (same_playback old row \<and> py_eq (get old ''last_watched'') (get row ''last_watched'')))) (og_active og)
      else [])"

text \<open>A Nuvio row without a clock of its own takes the advancing time of viewing.\<close>

definition dated_position :: "observing \<Rightarrow> string \<times> pydict \<Rightarrow> (string \<times> pydict) result" where
  "dated_position og item =
     (case item of (key, row) \<Rightarrow>
        if c_type (og_conn og) \<noteq> ''nuvio'' then Inr (key, row)
        else and_then (provider_changed_at [(''updated_at'', get row ''updated_at''), (''modified_at'', get row ''modified_at'')]) (\<lambda>own.
          if own \<noteq> None then Inr (key, row)
          else
            let old = (case map_of (og_old_active og) (py_str (get row ''content_id'')) of None \<Rightarrow> [] | Some r \<Rightarrow> r) in
            and_then (provider_changed_at [(''last_watched'', get row ''last_watched'')]) (\<lambda>current_time.
            and_then (provider_changed_at [(''last_watched'', get old ''last_watched'')]) (\<lambda>previous_time.
              Inr (key, case current_time of
                  Some t \<Rightarrow> if previous_time = None \<or> older previous_time current_time
                            then dict_set ''updated_at'' (VStr (datetime_isoformat t @ ''Z'')) row else row
                | None \<Rightarrow> row)))))"

text \<open>The rows of every title, in the order in which titles appear.\<close>

definition rows_by_title :: "observing \<Rightarrow> db \<Rightarrow> pydict list \<Rightarrow> (int \<times> pydict list) list" where
  "rows_by_title og db rows =
     foldl (\<lambda>d row. case snapshot_title og db row of None \<Rightarrow> d | Some m \<Rightarrow> dict_alter (m_id m) [] (\<lambda>rs. rs @ [row]) d) [] rows"

text \<open>The row that speaks for a title: its newest resume, or its newest play.\<close>

definition row_rank :: "pydict \<Rightarrow> (datetime \<times> rank) result" where
  "row_rank row = and_then (provider_changed_at row) (\<lambda>t. Inr (case t of None \<Rightarrow> -62135596800000000 | Some u \<Rightarrow> u, playback_rank row))"

definition leading_row :: "pydict list \<Rightarrow> pydict list \<Rightarrow> pydict option result" where
  "leading_row resumed rows =
     (let resumes = filter (\<lambda>row. list_ex (\<lambda>c. py_eq (get row ''content_id'') (get c ''content_id'')) rows) resumed;
          candidates = (if resumes = [] then rows else resumes) in
      and_then (map_result row_rank candidates) (\<lambda>ranks. Inr (map_option fst (max_by snd (zip candidates ranks)))))"

section \<open>A row that cannot be ordered\<close>

text \<open>Three bytes of UTF-8.\<close>

definition arrow_text :: string where
  "arrow_text = '' '' @ [CHR 0xE2, CHR 0x86, CHR 0x92] @ '' ''"

definition stamp_text :: "datetime option \<Rightarrow> string" where
  "stamp_text t = (case t of None \<Rightarrow> ''unknown'' | Some u \<Rightarrow> datetime_isoformat u @ ''Z'')"

definition stamp_json :: "datetime option \<Rightarrow> pyval" where
  "stamp_json t = (case t of None \<Rightarrow> VNone | Some u \<Rightarrow> VStr (datetime_isoformat u @ ''Z''))"

definition position_changes :: "pydict \<Rightarrow> pydict \<Rightarrow> pyval" where
  "position_changes old row =
     VList (map (\<lambda>f. VDict [(''field'', VStr f), (''previous'', get old f), (''proposed'', get row f)])
       (filter (\<lambda>f. \<not> py_eq (get old f) (get row f)) [''season'', ''episode'', ''position'', ''duration'']))"

definition unordered_message :: "observing \<Rightarrow> string \<Rightarrow> string \<Rightarrow> datetime option \<Rightarrow> datetime option \<Rightarrow> string" where
  "unordered_message og previous proposed changed_at provider_at =
     c_name (og_conn og) @ '': proposes '' @ previous @ arrow_text @ proposed @
     ''. Playback timing cannot be ordered against another recent change. Current change: '' @ stamp_text changed_at @
     ''; provider change: '' @ stamp_text provider_at @ ''. Your current value was preserved.''"

definition report_unordered ::
  "observing \<Rightarrow> media \<Rightarrow> tracked_entry \<Rightarrow> string \<Rightarrow> pydict \<Rightarrow> datetime option \<Rightarrow> db \<Rightarrow> db" where
  "report_unordered og m e proposed row provider_at db =
     (let old = (case map_of (og_old_active og) (py_str (get row ''content_id'')) of None \<Rightarrow> [] | Some r \<Rightarrow> r);
          changed_at = status_changed_at e in
      if proposed = te_status e \<and> (te_status_source e = Some ''local'' \<or> old = [] \<or> same_playback old row) then db
      else add_review ((snapshot_review og db (m_id m) ''conflict'' ''pending'' (te_status e) proposed
              (unordered_message og (te_status e) proposed changed_at provider_at))
            \<lparr>sr_payload := [(''changes'', position_changes old row), (''local_changed_at'', stamp_json changed_at),
               (''provider_changed_at'', stamp_json provider_at),
               (''previous_observed_at'', stamp_json (map_option sb_observed_at (og_baseline og db)))]\<rparr>) db)"

section \<open>A row that is applied\<close>

definition rating_prompt :: "db \<Rightarrow> datetime \<Rightarrow> int \<Rightarrow> media \<Rightarrow> string \<Rightarrow> sync_review" where
  "rating_prompt db now user m source =
     (new_review db now user ''rating_needed'' (Some source) (m_title m @ '' completed. Rate now!''))
       \<lparr>sr_media_id := Some (m_id m), sr_state := ''confirmed'', sr_proposed_status := Some ''completed'', sr_priority := ''low'',
        sr_payload := [(''push_state'', VStr ''pending''), (''delivered_subscription_ids'', VList [])]\<rparr>"

definition open_prompt :: "int \<Rightarrow> int \<Rightarrow> sync_review \<Rightarrow> bool" where
  "open_prompt user mid r \<longleftrightarrow>
     sr_user_id r = user \<and> sr_media_id r = Some mid \<and> sr_kind r = ''rating_needed'' \<and> sr_dismissed_at r = None"

definition queue_sync_completion_rating :: "datetime \<Rightarrow> int \<Rightarrow> media \<Rightarrow> tracked_entry \<Rightarrow> string \<Rightarrow> db \<Rightarrow> db result" where
  "queue_sync_completion_rating now user m e source db =
     (if te_status e \<noteq> ''completed'' then Inr db
      else and_then (effective_score (te_rating_mode e) (te_manual_score e) (te_season_scores e)) (\<lambda>score.
        Inr (if score \<noteq> None
               \<or> list_ex (open_prompt user (m_id m)) (review_table db)
             then db else add_review (rating_prompt db now user m source) db)))"

text \<open>A score answers every open prompt of the title; the code reads its own clock (\<open>utcnow\<close>).\<close>

definition resolve_rating_prompts :: "datetime \<Rightarrow> int \<Rightarrow> int \<Rightarrow> db \<Rightarrow> db" where
  "resolve_rating_prompts now user mid db =
     db\<lparr>review_table := update_where (open_prompt user mid)
       (\<lambda>r. r\<lparr>sr_dismissed_at := Some now, sr_payload := dict_set ''push_state'' (VStr ''rated'') (sr_payload r)\<rparr>) (review_table db)\<rparr>"

text \<open>The dates of an entry whose status changed; those the viewer changed while the round ran stay.\<close>

definition new_dates :: "observing \<Rightarrow> bool \<Rightarrow> string \<Rightarrow> string \<Rightarrow> tracked_entry \<Rightarrow> date option \<times> date option" where
  "new_dates og newly previous proposed e =
     (let kept = changed_local_fields (og_round og) (og_user og) e;
          (start, finish) = default_dates (Some previous) proposed (te_start_date e) (te_finish_date e) (og_today og);
          start' = (if newly \<and> proposed = ''watching'' \<and> start = None then Some (og_today og) else start);
          finish' = (if newly \<and> proposed = ''completed'' \<and> finish = None then Some (og_today og) else finish)
      in (if ''start_date'' \<in> kept then te_start_date e else start', if ''finish_date'' \<in> kept then te_finish_date e else finish'))"

definition accept_entry :: "observing \<Rightarrow> media \<Rightarrow> bool \<Rightarrow> string \<Rightarrow> string \<Rightarrow> datetime option \<Rightarrow> tracked_entry \<Rightarrow> tracked_entry" where
  "accept_entry og m newly previous proposed provider_at x =
     (mark_status_change (og_now og) (og_source og) provider_at
        (x\<lparr>te_status := proposed,
           te_progress := (if m_media_type m = Movie then (if proposed = ''completed'' then 1 else 0) else te_progress x)\<rparr>))
       \<lparr>te_start_date := fst (new_dates og newly previous proposed x), te_finish_date := snd (new_dates og newly previous proposed x)\<rparr>"

text \<open>The card of the change: progress for a series, the change of status for a film.\<close>

definition record_change ::
  "observing \<Rightarrow> media \<Rightarrow> bool \<Rightarrow> tracked_entry \<Rightarrow> tracked_entry \<Rightarrow> db \<Rightarrow> db result" where
  "record_change og m newly e0 e db =
     (let status_changed = te_status e \<noteq> te_status e0; progress_changed = te_progress e \<noteq> te_progress e0;
          previous = (if newly then None else Some (te_status e0));
          first_watching = newly \<or> te_start_date e0 = None \<and> te_status e0 \<noteq> ''watching'' in
      if \<not> (status_changed \<or> progress_changed \<or> newly) then Inr db
      else and_then (effective_score (te_rating_mode e) (te_manual_score e) (te_season_scores e)) (\<lambda>score.
        if m_media_type m = Series
        then record_progress_activity (og_now og) (og_today og) (og_user og) m (if newly then 0 else te_progress e0) (te_progress e) None None
          \<lparr>ac_status = te_status e, ac_score = score,
           ac_status_changed = (status_changed \<or> newly) \<and> \<not> (progress_changed \<or> newly \<and> 0 < te_progress e),
           ac_rating_changed = False, ac_previous_status = previous, ac_first_watching = Some first_watching, ac_previous_score = None\<rparr> db
        else record_daily_activity (og_now og) (og_user og) (m_id m)
          (status_activity (te_status e) score (status_changed \<or> newly) previous (Some first_watching)) db))"

definition replayed_sources :: "observing \<Rightarrow> (int \<Rightarrow> string set option) option" where
  "replayed_sources og = map_option round_playback (replaying (og_round og) (og_user og))"

definition accept_title ::
  "observing \<Rightarrow> pydict list \<Rightarrow> pydict list \<Rightarrow> media \<Rightarrow> bool \<Rightarrow> tracked_entry \<Rightarrow> string \<Rightarrow> pydict list \<Rightarrow> pydict \<Rightarrow>
   observed_world \<Rightarrow> observed_world result" where
  "accept_title og plays resumed m newly e0 proposed rows row w =
     (let mine = (if fd_sync_watched (og_feed og) then filter (\<lambda>item. item \<in> set plays) rows else []) in
      and_then (provider_changed_at row) (\<lambda>provider_at.
        let db1 = update_entry (og_now og) (te_id e0) (accept_entry og m newly (te_status e0) proposed provider_at) (ow_db w);
            e = (case og_entry og db1 (m_id m) of None \<Rightarrow> e0 | Some x \<Rightarrow> x);
            differs = te_status e \<noteq> te_status e0 \<or> newly; moved = differs \<or> te_progress e \<noteq> te_progress e0 in
        and_then (if te_status e \<in> {''planning'', ''paused'', ''dropped'', ''completed''} \<and> differs
                  then queue_dismissals (og_now og) (og_conn og) m db1 else Inr db1) (\<lambda>db2.
        and_then (record_change og m newly e0 e db2) (\<lambda>db3.
        and_then (if row \<in> set resumed \<and> og_approved og db3
                  then queue_progress_update (og_now og) (replayed_sources og) (og_conn og) m row db3 else Inr db3) (\<lambda>db4.
        and_then (if te_status e = ''completed'' \<and> differs
                  then queue_sync_completion_rating (og_now og) (og_user og) m e (c_type (og_conn og)) db4 else Inr db4) (\<lambda>db5.
          Inr (w\<lparr>ow_db := db5, ow_accepted := ow_accepted w @ mine,
                 ow_changed := (if mine \<noteq> [] \<or> moved then insert (m_id m) (ow_changed w) else ow_changed w)\<rparr>)))))))"

section \<open>Observing the titles\<close>

text \<open>Every finished row and the leading one prove episodes, in this order.\<close>

definition prove_rows ::
  "observing \<Rightarrow> media \<Rightarrow> tracked_entry \<Rightarrow> pydict list \<Rightarrow> pydict list \<Rightarrow> bool \<times> observed_world \<Rightarrow> (bool \<times> observed_world) result" where
  "prove_rows og m e finished rows acc =
     fold_result (\<lambda>row (_, w).
       and_then (apply_series_observation (og_now og) (og_today og) (og_user og) m e row (row \<in> set finished) (ow_db w)) (\<lambda>se.
         Inr (se_complete se, w\<lparr>ow_db := se_db se,
           ow_inferred := (if fd_sync_watched (og_feed og) then ow_inferred w \<union> set (se_added se) else ow_inferred w)\<rparr>))) rows acc"

definition observe_entry ::
  "observing \<Rightarrow> pydict list \<Rightarrow> pydict list \<Rightarrow> pydict list \<Rightarrow> media \<Rightarrow> tracked_entry \<Rightarrow> bool option \<Rightarrow> pydict list \<Rightarrow> pydict \<Rightarrow>
   observed_world \<Rightarrow> observed_world result" where
  "observe_entry og plays finished resumed m e allowed rows row w =
     and_then (provider_changed_at row) (\<lambda>provider_at.
       let known = (m_id m \<in> og_existing og);
           order = observation_ordering (ow_db w) (og_conn og) m e (map_option sb_observed_at (og_baseline og (ow_db w))) known allowed row provider_at in
       if order = Outdated then Inr w
       else and_then (if m_media_type m = Series \<and> order = Apply
                      then prove_rows og m e finished (filter (\<lambda>item. item \<in> set finished) rows @ [row]) (False, w)
                      else Inr (m_media_type m = Movie \<and> row \<in> set finished, w)) (\<lambda>(whole, w1).
         let proposed = observed_status (Some (te_status e)) whole True in
         if order = Unordered then Inr (w1\<lparr>ow_db := report_unordered og m e proposed row provider_at (ow_db w1)\<rparr>)
         else accept_title og plays resumed m (\<not> known) e proposed rows row w1))"

definition observe_rows ::
  "observing \<Rightarrow> pydict list \<Rightarrow> pydict list \<Rightarrow> pydict list \<Rightarrow> int \<times> pydict list \<Rightarrow> observed_world \<Rightarrow> observed_world result" where
  "observe_rows og plays finished resumed item w =
     (case item of (mid, rows0) \<Rightarrow>
        and_then (filter_result (\<lambda>row. and_then (og_allowed og mid row) (\<lambda>a. Inr (a \<noteq> Some False))) rows0) (\<lambda>rows.
          if rows = [] then Inr w
          else and_then (leading_row resumed rows) (\<lambda>found.
            case found of
              None \<Rightarrow> Inr w
            | Some row \<Rightarrow>
              let db = ow_db w in
              (case snapshot_title og db row of
                 None \<Rightarrow> Inr w
               | Some m \<Rightarrow>
                 if m_id m \<in> deleted_titles db (og_user og) then Inr w
                 else and_then (og_allowed og (m_id m) []) (\<lambda>allowed.
                   case og_entry og db (m_id m) of
                     None \<Rightarrow> Inr w
                   | Some e \<Rightarrow>
                     if allowed = Some False \<or> waiting_review og db (m_id m) {''conflict'', ''playback_removed''} \<and> allowed \<noteq> Some True
                     then Inr w
                     else observe_entry og plays finished resumed m e allowed rows row w)))))"

text \<open>Old reviews that offer no choice are retired.\<close>

definition mentions :: "string \<Rightarrow> string \<Rightarrow> bool" where
  "mentions part s \<longleftrightarrow> list_ex (\<lambda>i. starts_with part (drop i s)) [0..<Suc (length s)]"

definition is_redundant :: "observing \<Rightarrow> db \<Rightarrow> sync_review \<Rightarrow> bool" where
  "is_redundant og db r \<longleftrightarrow>
     sr_connection_id r = Some (c_id (og_conn og)) \<and> sr_state r = ''pending'' \<and> sr_kind r = ''conflict''
     \<and> sr_previous_status r \<noteq> None \<and> sr_previous_status r = sr_proposed_status r
     \<and> list_ex (\<lambda>e. te_user_id e = sr_user_id r \<and> Some (te_media_id e) = sr_media_id r \<and> Some (te_status e) = sr_proposed_status r) (entry_table db)
     \<and> sr_payload r = [] \<and> mentions ''playback timing cannot be ordered'' (sr_message r)"

definition retire_redundant :: "observing \<Rightarrow> db \<Rightarrow> db" where
  "retire_redundant og db =
     db\<lparr>review_table := update_where (is_redundant og db)
       (\<lambda>r. r\<lparr>sr_state := ''corrected'', sr_dismissed_at := milliseconds (Some (og_now og))\<rparr>) (review_table db)\<rparr>"

record delta =
  de_active :: "(string \<times> pydict) list"
  de_world :: observed_world

definition observe_delta :: "observing \<Rightarrow> observed_world \<Rightarrow> delta result" where
  "observe_delta og w0 =
     (if og_first og \<and> replaying (og_round og) (og_user og) = None then Inr \<lparr>de_active = og_active og, de_world = w0\<rparr>
      else
        let db = retire_redundant og (ow_db w0); echoed = echoed_keys og (ow_outbound w0) in
        and_then (current_watch_rows db (og_conn og) (og_imported og) (filter (fresh_watch og) (og_watched og))) (\<lambda>plays.
        and_then (map_result (dated_position og) (changed_positions og echoed)) (\<lambda>changed.
          let finished = new_completed og plays; resumed = map snd changed in
          and_then (fold_result (observe_rows og plays finished resumed) (rows_by_title og db (finished @ resumed))
              (w0\<lparr>ow_db := db, ow_outbound := still_outbound og (ow_outbound w0)\<rparr>)) (\<lambda>w.
            Inr \<lparr>de_active = dict_merge (og_active og) changed, de_world = w\<rparr>))))"

section \<open>The snapshot that is stored\<close>

definition deleted_keys :: "observing \<Rightarrow> db \<Rightarrow> string set" where
  "deleted_keys og db =
     fst ` set (filter (\<lambda>(key, v). list_ex (\<lambda>kind. case known_title og db v (VStr kind) of None \<Rightarrow> False
         | Some m \<Rightarrow> m_id m \<in> deleted_titles db (og_user og)) [''movie'', ''series'']) (og_mappings og))"

definition kept_rows :: "string set \<Rightarrow> pydict list \<Rightarrow> pydict list" where
  "kept_rows gone rows = filter (\<lambda>row. py_str (get row ''content_id'') \<notin> gone) rows"

definition kept_resume :: "observing \<Rightarrow> (string \<times> pydict) list \<Rightarrow> pydict" where
  "kept_resume og active =
     filter (\<lambda>(key, _). map_of active key = None)
       (dict_merge (snapshot_dict (og_previous og) ''resume'')
         (map (\<lambda>(key, row). (key, VDict row)) (filter (\<lambda>(_, row). \<not> completed_progress row (og_completed og)) (removed_positions og))))"

definition key_list :: "pydict list \<Rightarrow> pyval" where
  "key_list rows = VList (map VStr (sorted_list_of_set (watch_key ` set rows)))"

definition row_list :: "pydict list \<Rightarrow> pyval" where
  "row_list rows = VList (map VDict rows)"

definition stored_records :: "observing \<Rightarrow> string set \<Rightarrow> pydict" where
  "stored_records og gone =
     (let fd = og_feed og; previous = snapshot_dict (og_previous og) ''records'' in
      [(''library'', row_list (fd_library fd)),
       (''watched'', if fd_sync_watched fd then row_list (kept_rows gone (fd_watched fd)) else VList (list_or_empty (get previous ''watched''))),
       (''progress'', if fd_sync_playback fd then row_list (kept_rows gone (fd_progress fd)) else VList (list_or_empty (get previous ''progress'')))])"

definition stored_snapshot :: "observing \<Rightarrow> hidden_reading \<Rightarrow> string set \<Rightarrow> (string \<times> pydict) list \<Rightarrow> pydict \<Rightarrow> pydict \<Rightarrow> pydict" where
  "stored_snapshot og h gone active outbound base =
     (let fd = og_feed og; living = filter (\<lambda>(key, _). key \<notin> gone) in
      dict_merge base
        [(''library'', VList (map VStr (sorted_list_of_set ((\<lambda>row. py_str (get row ''content_id'')) ` set (fd_library fd))))),
         (''progress'', VDict (living (map (\<lambda>(key, row). (key, VDict row)) active))), (''mappings'', VDict (og_mappings og)),
         (''resume'', VDict (living (kept_resume og active))), (''outbound'', VDict (if og_first og then [] else outbound)),
         (''nuvio_visibility'', VDict (hr_visibility h)), (''cw_visibility_echo'', VDict (hr_echoes h)),
         (''watched'', if fd_sync_watched fd then key_list (og_watched og) else VList (list_or_empty (get (og_previous og) ''watched''))),
         (''progress_completed'', if fd_sync_playback fd then key_list (og_done og)
            else VList (list_or_empty (get (og_previous og) ''progress_completed''))),
         (''records'', VDict (stored_records og gone))])"

definition store_snapshot :: "observing \<Rightarrow> hidden_reading \<Rightarrow> (string \<times> pydict) list \<Rightarrow> pydict \<Rightarrow> db \<Rightarrow> db" where
  "store_snapshot og h active outbound db =
     db\<lparr>stream_baseline_table := update_where (\<lambda>b. sb_connection_id b = c_id (og_conn og))
       (\<lambda>b. b\<lparr>sb_snapshot := stored_snapshot og h (deleted_keys og db) active outbound (sb_snapshot b),
              sb_observed_at := ms_clock (og_now og)\<rparr>) (stream_baseline_table db)\<rparr>"

section \<open>Plays that go on to other accounts, and plays that left\<close>

record observed_result =
  or_db :: db
  or_changed :: "int set"
  or_removed :: "int set"
  or_propagated :: "int set"

text \<open>The titles whose rows left the snapshot, but for those that wait to be marked as watched.\<close>

definition left_media :: "observing \<Rightarrow> db \<Rightarrow> int list" where
  "left_media og db =
     (let here = watch_key ` set (og_watched og);
          media = snd ` set (media_ids_for_watch_rows db (og_mappings og) (filter (\<lambda>row. watch_key row \<notin> here) (old_watched (og_previous og))))
      in sorted_list_of_set (media - wi_media_id ` set (filter (\<lambda>i. wi_connection_id i = c_id (og_conn og)
           \<and> wi_state i = ''pending'' \<and> wi_desired_watched i) (watch_intent_table db))))"

text \<open>Plays recorded since the last observation are newer than the absence.\<close>

definition remove_plays :: "observing \<Rightarrow> int \<Rightarrow> db \<times> int set \<Rightarrow> db \<times> int set" where
  "remove_plays og mid acc =
     (case acc of (db, removed) \<Rightarrow>
        let events = filter (\<lambda>e. we_user_id e = og_user og \<and> we_media_id e = mid) (watch_event_table db) in
        if (case og_prior_at og of None \<Rightarrow> True | Some t \<Rightarrow> list_ex (\<lambda>e. t < we_created_at e) events) \<or> \<not> list_ex we_completed events
        then acc else (delete_events (og_user og) mid db, insert mid removed))"

definition shows_of :: "db \<Rightarrow> int set \<Rightarrow> int set" where
  "shows_of db mids =
     set (List.map_filter (\<lambda>m. if m_id m \<in> mids \<and> m_media_type m = Episode \<and> m_show_id m \<noteq> Some 0 then m_show_id m else None) (media_table db))"

definition recount_show :: "observing \<Rightarrow> int \<Rightarrow> db \<Rightarrow> db" where
  "recount_show og sid db =
     (case find (\<lambda>s. s_id s = sid) (show_table db) of
        None \<Rightarrow> db
      | Some s \<Rightarrow> (case known_title og db (opt_int (s_tmdb_id s)) (VStr ''series'') of
            None \<Rightarrow> db
          | Some m \<Rightarrow> (case og_entry og db (m_id m) of
                None \<Rightarrow> db
              | Some e \<Rightarrow> update_entry (og_now og) (te_id e) (\<lambda>x. x\<lparr>te_progress := int (remaining_episodes db (og_user og) sid)\<rparr>) db)))"

definition withdraw_plays :: "observing \<Rightarrow> int set option \<Rightarrow> db \<Rightarrow> db \<times> int set" where
  "withdraw_plays og removed db =
     (case removed of
        None \<Rightarrow> (db, {})
      | Some known \<Rightarrow>
        if \<not> fd_sync_watched (og_feed og) \<or> \<not> c_push_watched (og_conn og) \<or> replaying (og_round og) (og_user og) \<noteq> None then (db, known)
        else case fold (remove_plays og) (left_media og db) (db, known) of (db1, gone) \<Rightarrow>
          (fold (recount_show og) (sorted_list_of_set (shows_of db1 gone)) db1, gone))"

text \<open>Accepted plays go on only while they stand in the history.\<close>

definition propagated_plays :: "observing \<Rightarrow> observed_world \<Rightarrow> db \<Rightarrow> int set" where
  "propagated_plays og w db =
     (snd ` set (media_ids_for_watch_rows db (og_mappings og) (ow_accepted w)) \<union> ow_inferred w)
     \<inter> we_media_id ` set (filter (\<lambda>e. we_user_id e = og_user og \<and> we_completed e) (watch_event_table db))"

section \<open>The whole observation\<close>

definition int_mappings :: "pydict \<Rightarrow> pydict result" where
  "int_mappings ids =
     map_result (\<lambda>(k, v). and_then (to_int v) (\<lambda>n. Inr (k, VInt n))) (filter (\<lambda>(_, v). v \<noteq> VNone) ids)"

definition observing_of ::
  "datetime \<Rightarrow> date \<Rightarrow> reconciliation option \<Rightarrow> connection \<Rightarrow> stream_feed \<Rightarrow> stream_baseline option \<Rightarrow> pydict \<Rightarrow> int set \<Rightarrow> int set \<Rightarrow> int set \<Rightarrow> db \<Rightarrow> observing" where
  "observing_of now today current conn fd prior ids dismissed existing imported db =
     (let previous = (if fd_fresh fd then [] else baseline_snapshot prior);
          og = \<lparr>og_now = now, og_today = today, og_round = current, og_conn = conn, og_feed = fd, og_previous = previous,
            og_prior_at = (if fd_fresh fd then None else map_option sb_observed_at prior),
            og_mappings = dict_merge (snapshot_dict previous ''mappings'') ids, og_numbers = {}, og_dismissed = dismissed,
            og_existing = existing, og_imported = imported, og_first = (fd_fresh fd \<or> prior = None),
            og_active = (if fd_sync_playback fd then active_rows (fd_progress fd) else row_dict (snapshot_dict previous ''progress'')),
            og_done = (if fd_sync_playback fd then completed_rows (fd_progress fd) else []),
            og_auto = list_ex (\<lambda>p. tp_user_id p = c_user_id conn \<and> tp_auto_confirm p) (preference_table db)\<rparr>
      in og\<lparr>og_numbers := set (List.map_filter as_int (map snd (fd_ids fd))) \<union> dismissed
             \<union> set (List.map_filter (\<lambda>(key, _). as_int (get (og_mappings og) key)) (removed_positions og))\<rparr>)"

definition observe_lists :: "observing \<Rightarrow> hidden_reading \<Rightarrow> nat \<Rightarrow> db \<Rightarrow> (observed_world \<times> db) result" where
  "observe_lists og h imported db =
     (let db1 = (if og_first og then open_baseline og imported db else db);
          held = (\<lambda>mid. map_option status_changed_at (og_entry og db1 mid)) in
      and_then (if og_first og then fold_result (first_disagreement og) (og_active og) db1 else Inr db1) (\<lambda>db2.
      and_then (fold_result (remove_position og (pending_write_keys og db2)) (removed_positions og)
          \<lparr>ow_db = db2, ow_changed = og_imported og, ow_outbound = snapshot_dict (og_previous og) ''outbound'', ow_inferred = {}, ow_accepted = []\<rparr>) (\<lambda>w1.
      and_then (observe_delta og w1) (\<lambda>de.
      and_then (dismiss_titles og held (de_world de)) (\<lambda>w2.
        Inr (w2, store_snapshot og h (de_active de) (ow_outbound w2) (ow_db w2)))))))"

definition observe_stream_snapshot ::
  "datetime \<Rightarrow> date \<Rightarrow> reconciliation option \<Rightarrow> connection \<Rightarrow> stream_feed \<Rightarrow> int set option \<Rightarrow> db \<Rightarrow> observed_result result" where
  "observe_stream_snapshot now today current conn feed removed db =
     (let prior = stream_baseline_of db (c_id conn); user = c_user_id conn in
      and_then (materialize prior feed) (\<lambda>found.
        case found of
          None \<Rightarrow> Inr \<lparr>or_db = db, or_changed = {}, or_removed = (case removed of None \<Rightarrow> {} | Some r \<Rightarrow> r), or_propagated = {}\<rparr>
        | Some fd \<Rightarrow>
          and_then (snapshot_fence prior fd) (\<lambda>_.
          let previous = (if fd_fresh fd then [] else baseline_snapshot prior);
              mappings = dict_merge (snapshot_dict previous ''mappings'') (fd_ids fd); h = read_visibility conn previous mappings fd in
          and_then (release_rewatched_deletions conn (fd_watched fd) (fd_progress fd) mappings db) (\<lambda>db1.
          and_then (import_tracking_history now today user (fd_fresh fd \<or> prior = None) db1) (\<lambda>ir.
          and_then (int_mappings (fd_ids fd)) (\<lambda>ids.
            let existing = te_media_id ` set (filter (\<lambda>e. te_user_id e = user) (entry_table db1));
                og = observing_of now today current conn fd prior ids (hr_dismissed h) existing (set (ir_added ir)) db;
                passes_on = \<not> og_first og \<and> og_approved og (ir_db ir) in
            and_then (observe_lists og h (length (ir_added ir)) (ir_db ir)) (\<lambda>(w, db2).
              let (db3, gone) = (if passes_on then withdraw_plays og removed db2 else (db2, case removed of None \<Rightarrow> {} | Some r \<Rightarrow> r)) in
              Inr \<lparr>or_db = db3, or_changed = ow_changed w \<union> (gone - (case removed of None \<Rightarrow> {} | Some r \<Rightarrow> r)), or_removed = gone,
                   or_propagated = (if passes_on then propagated_plays og w db3 else {})\<rparr>)))))))"

end
