(* ===== verification/SnapshotLists.thy ===== *)
theory SnapshotLists
  imports SnapshotObservation
begin

text \<open>
  What a snapshot may do to the tracked lists (\<open>core/tracking_snapshot.py\<close>): the first one removes nothing, a position that
  is missing stops a title only when nothing else explains its absence, and what the viewer did outranks older evidence.
\<close>

section \<open>The first snapshot\<close>

lemma import_title_frame:
  assumes "import_title now today user initial_import existing (mid, item) ir = Inr ir'"
  shows "\<exists>ev es. ir_db ir' = (ir_db ir)\<lparr>watch_event_table := ev, entry_table := es\<rparr>"
proof (cases "mid \<in> existing")
  case True
  then have "ir_db ir' = (ir_db ir)\<lparr>watch_event_table := watch_event_table (ir_db ir), entry_table := entry_table (ir_db ir)\<rparr>"
    using assms by (simp add: import_title_def)
  then show ?thesis by blast
next
  case False
  obtain seen_part counted whole where p: "title_progress today (ir_db ir) item = (seen_part, counted, whole)" by (rule prod_cases3)
  let ?e = "imported_entry now initial_import (next_id te_id (entry_table (ir_db ir))) user item counted whole"
  obtain events where events: "fill_gaps now user item seen_part (watch_event_table (ir_db ir)) = Inr events"
    using assms False p by (cases "fill_gaps now user item seen_part (watch_event_table (ir_db ir))") (simp_all add: import_title_def)
  have ir': "\<lparr>ir_db = (ir_db ir)\<lparr>watch_event_table := events, entry_table := entry_table (ir_db ir) @ [?e]\<rparr>,
      ir_added = ir_added ir @ [mid]\<rparr> = ir'"
    using assms False p events by (simp add: import_title_def)
  have "ir_db ir' = (ir_db ir)\<lparr>watch_event_table := events, entry_table := entry_table (ir_db ir) @ [?e]\<rparr>"
    unfolding ir' [symmetric] by simp
  then show ?thesis by blast
qed

lemma import_frame:
  assumes "import_tracking_history now today user initial_import db = Inr ir"
  shows "stream_action_table (ir_db ir) = stream_action_table db"
proof -
  let ?P = "\<lambda>x. stream_action_table (ir_db x) = stream_action_table db"
  have step: "?P x'" if here: "?P x" and run: "import_title now today user initial_import existing (a, b) x = Inr x'"
    for existing a b x x'
    using import_title_frame [OF run] here by (elim exE) simp
  have start: "?P \<lparr>ir_db = drop_deleted user db, ir_added = []\<rparr>" by (simp add: drop_deleted_def)
  show ?thesis
    using fold_result_invariant [OF assms [unfolded import_tracking_history_def], of ?P, OF start] step by (metis surj_pair)
qed

lemma release_frame:
  assumes "release_rewatched_deletions conn watched progress mappings db = Inr db'"
  shows "entry_table db' = entry_table db \<and> stream_action_table db' = stream_action_table db"
  using assms
  by (cases "map_result (released_title db (c_user_id conn) mappings) (watched @ progress)")
     (auto simp: release_rewatched_deletions_def release_titles_def)

lemma unread_round_allows:
  "replaying (og_round og) (og_user og) = None \<Longrightarrow> og_allowed og mid row = Inr None"
  by (simp add: og_allowed_def playback_allowed_def)

lemma open_baseline_frame:
  "entry_table (open_baseline og n db) = entry_table db" "stream_action_table (open_baseline og n db) = stream_action_table db"
  by (simp_all add: open_baseline_def add_review_def Let_def)

lemma first_disagreement_frame:
  assumes "first_disagreement og item db = Inr db'" "replaying (og_round og) (og_user og) = None"
  shows "entry_table db' = entry_table db \<and> stream_action_table db' = stream_action_table db"
proof (cases "snapshot_title og db (snd item)")
  case None
  then show ?thesis using assms(1) by (simp add: first_disagreement_def)
next
  case (Some m)
  show ?thesis
  proof (cases "m_id m \<in> og_existing og \<and> og_entry og db (m_id m) \<noteq> None")
    case True
    then obtain e where "og_entry og db (m_id m) = Some e" by blast
    then show ?thesis using assms(1) Some True
      by (simp add: first_disagreement_def unread_round_allows [OF assms(2)] Let_def add_review_def split: if_splits) auto
  next
    case False
    then show ?thesis using assms(1) Some
      by (cases "m_id m \<in> og_existing og") (simp_all add: first_disagreement_def unread_round_allows [OF assms(2)])
  qed
qed

lemma first_lists:
  assumes "observe_lists og h n db = Inr (w, db')" "og_first og" "replaying (og_round og) (og_user og) = None"
  shows "entry_table db' = entry_table db \<and> stream_action_table db' = stream_action_table db"
proof -
  let ?db1 = "open_baseline og n db"
  obtain db2 where folded: "fold_result (first_disagreement og) (og_active og) ?db1 = Inr db2"
    using assms by (cases "fold_result (first_disagreement og) (og_active og) ?db1") (simp_all add: observe_lists_def Let_def)
  have kept: "entry_table db2 = entry_table ?db1 \<and> stream_action_table db2 = stream_action_table ?db1"
    using fold_result_invariant [OF folded, of "\<lambda>x. entry_table x = entry_table ?db1 \<and> stream_action_table x = stream_action_table ?db1"]
      first_disagreement_frame [OF _ assms(3)] by (metis (no_types, lifting))
  have "db' = store_snapshot og h (og_active og) (ow_outbound w) db2"
    using assms folded by (auto simp: observe_lists_def Let_def removed_positions_def observe_delta_def dismiss_titles_def)
  then show ?thesis using kept by (simp add: store_snapshot_def open_baseline_frame)
qed

lemma materialize_fresh:
  "materialize prior feed = Inr found \<Longrightarrow> found = Some fd \<Longrightarrow> fd_fresh fd = fd_fresh feed"
  by (auto simp: materialize_def split: if_splits pyval.splits option.splits)

lemma import_frame_entries:
  assumes "import_tracking_history now today user initial_import db = Inr ir"
  shows "\<exists>new. entry_table (ir_db ir) = entry_table db @ new
    \<and> (\<forall>e \<in> set new. te_user_id e = user \<and> \<not> (\<exists>x \<in> set (entry_table db). te_user_id x = user \<and> te_media_id x = te_media_id e))"
  using import_effect [OF assms] by blast


definition sample_empty_feed :: stream_feed where
  "sample_empty_feed = \<lparr>fd_library = [], fd_watched = [], fd_progress = [], fd_ids = [], fd_complete = True, fd_touched = None,
     fd_sync_playback = True, fd_sync_watched = True, fd_fresh = True, fd_started = None, fd_visibility = None\<rparr>"

lemma sample_first:
  "(case observe_stream_snapshot 0 sample_monday None sample_pull sample_empty_feed None sample_import_db of Inl _ \<Rightarrow> False
    | Inr r \<Rightarrow> map te_status (entry_table (or_db r)) = [''planning'', ''completed''])"
  by code_simp


section \<open>A position that is missing\<close>

text \<open>The statuses of all entries; neither a queued action nor a card of the feed changes one.\<close>

definition entry_statuses :: "db \<Rightarrow> (int \<times> string) list" where
  "entry_statuses db = map (\<lambda>e. (te_id e, te_status e)) (entry_table db)"

lemma touch_entry_status: "te_id (f e) = te_id e \<Longrightarrow> te_id (touch_entry now f e) = te_id e"
    "te_status (touch_entry now f e) = te_status (f e)"
  by (auto simp: touch_entry_def Let_def)

lemma entries_coalesce: "coalesce now user cid mid kind payload db = Inr db' \<Longrightarrow> entry_table db' = entry_table db"
  by (auto simp: coalesce_def and_then_Inr_iff add_stream_action_def update_stream_action_def split: option.splits)

lemma entries_resume_dismissals: "entry_table (fold (queue_resume_dismissal now user m conn) rs db) = entry_table db"
  by (induction rs arbitrary: db) (auto simp: queue_resume_dismissal_def add_stream_action_def)

lemma entries_dismissal: "queue_dismissal now user m vis conn db = Inr db' \<Longrightarrow> entry_table db' = entry_table db"
  by (auto simp: queue_dismissal_def queue_nuvio_dismissal_def queue_stremio_title_def Let_def and_then_Inr_iff entries_resume_dismissals
      split: if_splits option.splits list.splits dest: entries_coalesce)

lemma entries_dismissals:
  assumes "queue_dismissals now conn m db = Inr db'" shows "entry_table db' = entry_table db"
proof -
  have "entry_table b = entry_table a" if "fold_result (queue_dismissal now u m vis) cs a = Inr b" for u vis cs a b
    by (rule fold_result_invariant [OF that, of "\<lambda>x. entry_table x = entry_table a"]) (auto dest: entries_dismissal)
  then show ?thesis using assms by (auto simp: queue_dismissals_def queue_title_dismissals_def split: if_splits)
qed

lemma statuses_import_window: "entry_statuses (end_import_window now user mid db) = entry_statuses db"
  by (auto simp: entry_statuses_def end_import_window_def update_where_def touch_entry_status)

lemma statuses_cards:
  "entry_statuses (set_card r db) = entry_statuses db" "entry_statuses (delete_card row db) = entry_statuses db"
  "entry_statuses (db\<lparr>activity_table := cs\<rparr>) = entry_statuses db"
  by (simp_all add: entry_statuses_def set_card_def delete_card_def split: option.split)

lemma statuses_put_card:
  "put_card now user mid status score changed row details db = Inr db' \<Longrightarrow> entry_statuses db' = entry_statuses db"
  by (auto simp: put_card_def and_then_Inr_iff Let_def statuses_cards statuses_import_window split: if_splits option.splits)

lemma statuses_daily:
  assumes "record_daily_activity now user mid dc db = Inr db'" "\<not> ac_rating_changed dc"
  shows "entry_statuses db' = entry_statuses db"
  using assms by (auto simp: record_daily_activity_def prepare_rating_activity_def and_then_Inr_iff split: prod.splits if_splits dest: statuses_put_card)

lemma statuses_stop:
  "entry_statuses (update_entry now eid (stop_entry og m) db)
     = map (\<lambda>(i, s). if i = eid then (i, stopped_status m) else (i, s)) (entry_statuses db)"
  by (simp add: entry_statuses_def update_entry_def update_where_def touch_entry_status stop_entry_def mark_status_change_def)

lemma stop_title_statuses:
  assumes "stop_title og message changed_at observed_at allowed m e w = Inr w'"
    and "entry_statuses (ow_db w') \<noteq> entry_statuses (ow_db w)"
  shows "(\<not> older observed_at changed_at \<or> allowed = Some True)
    \<and> entry_statuses (ow_db w') = map (\<lambda>(i, s). if i = te_id e then (i, stopped_status m) else (i, s)) (entry_statuses (ow_db w))"
proof -
  have added: "entry_statuses (add_review r db) = entry_statuses db" for r db by (simp add: entry_statuses_def add_review_def)
  have quiet: "\<not> ac_rating_changed (status_activity st sc ch pr fw)" for st sc ch pr fw by (simp add: status_activity_def)
  show ?thesis
  proof (cases "older observed_at changed_at \<and> allowed \<noteq> Some True")
    case True
    then have "entry_statuses (ow_db w') = entry_statuses (ow_db w)"
      using assms(1) by (auto simp: stop_title_def Let_def added)
    then show ?thesis using assms(2) by simp
  next
    case False
    then obtain rv db2 db3 auto where
      queued: "queue_dismissals (og_now og) (og_conn og) m (update_entry (og_now og) (te_id e) (stop_entry og m) (add_review rv (ow_db w))) = Inr db2"
      and recorded: "(if auto then and_then (effective_score (te_rating_mode e) (te_manual_score e) (te_season_scores e)) (\<lambda>score.
          record_daily_activity (og_now og) (og_user og) (m_id m) (status_activity (stopped_status m) score True (Some (te_status e)) None) db2)
        else Inr db2) = Inr db3"
      and w': "ow_db w' = db3"
      using assms(1) unfolding stop_title_def Let_def and_then_Inr_iff if_not_P [OF False] by fastforce
    have "entry_statuses db3 = entry_statuses db2"
      using recorded statuses_daily quiet by (cases auto) (auto simp: and_then_Inr_iff)
    also have "\<dots> = entry_statuses (update_entry (og_now og) (te_id e) (stop_entry og m) (add_review rv (ow_db w)))"
      using entries_dismissals [OF queued] by (simp add: entry_statuses_def)
    finally show ?thesis using False by (simp add: w' statuses_stop added)
  qed
qed

text \<open>C6: A position that is missing from a snapshot changes the status of a title only when nothing explains its absence (it was
  not finished and no write of ours waits for it), the title is not completed (and being watched, on the accounts that report
  removals by themselves), no review waits and no newer change of the viewer exists unless the round decided; then it pauses the
  series or drops the film, and no other entry.\<close>

theorem missing_position_stops_title:
  assumes "remove_position og writes (key, old) w = Inr w'" and "entry_statuses (ow_db w') \<noteq> entry_statuses (ow_db w)"
  shows "\<not> completed_progress old (og_completed og) \<and> map_of (ow_outbound w) key = None \<and> key \<notin> writes
    \<and> (\<exists>m e allowed. known_title og (ow_db w) (get (og_mappings og) key) (get old ''content_type'') = Some m
         \<and> og_entry og (ow_db w) (m_id m) = Some e \<and> og_allowed og (m_id m) [] = Inr allowed \<and> allowed \<noteq> Some False
         \<and> te_status e \<noteq> ''completed'' \<and> (c_type (og_conn og) \<in> {''nuvio'', ''stremio''} \<longrightarrow> te_status e = ''watching'')
         \<and> (allowed = Some True \<or> \<not> waiting_review og (ow_db w) (m_id m) {''playback_removed'', ''conflict''}
              \<and> \<not> older (map_option sb_observed_at (og_baseline og (ow_db w))) (status_changed_at e))
         \<and> entry_statuses (ow_db w')
           = map (\<lambda>(i, s). if i = te_id e then (i, stopped_status m) else (i, s)) (entry_statuses (ow_db w)))"
proof -
  have explained: "\<not> completed_progress old (og_completed og)" "map_of (ow_outbound w) key = None" "key \<notin> writes"
    using assms by (auto simp: remove_position_def Let_def split: if_splits)
  then obtain m where m: "known_title og (ow_db w) (get (og_mappings og) key) (get old ''content_type'') = Some m"
    using assms by (cases "known_title og (ow_db w) (get (og_mappings og) key) (get old ''content_type'')")
      (auto simp: remove_position_def Let_def)
  obtain allowed where allowed: "og_allowed og (m_id m) [] = Inr allowed"
    using assms(1) explained m by (auto simp: remove_position_def Let_def and_then_Inr_iff)
  obtain e where e: "og_entry og (ow_db w) (m_id m) = Some e"
    using assms explained m allowed by (cases "og_entry og (ow_db w) (m_id m)") (auto simp: remove_position_def Let_def)
  let ?skip = "allowed = Some False \<or> te_status e = ''completed''
     \<or> c_type (og_conn og) \<in> {''nuvio'', ''stremio''} \<and> te_status e \<noteq> ''watching''
     \<or> waiting_review og (ow_db w) (m_id m) {''playback_removed'', ''conflict''} \<and> allowed \<noteq> Some True"
  have run: "(if ?skip then Inr w else stop_title og (removed_message og m) (status_changed_at e)
      (map_option sb_observed_at (og_baseline og (ow_db w))) allowed m e w) = Inr w'"
    using assms(1) explained m allowed e by (simp add: remove_position_def Let_def)
  have skip: "\<not> ?skip"
  proof
    assume ?skip
    from run [unfolded if_P [OF this]] assms(2) show False by simp
  qed
  from stop_title_statuses [OF run [unfolded if_not_P [OF skip]] assms(2)] skip explained m allowed e
  show ?thesis by blast
qed

text \<open>A film that was being watched; its resume is gone from the account.\<close>

definition sample_lost_resume :: pydict where
  "sample_lost_resume = [(''content_id'', VStr ''tt1''), (''content_type'', VStr ''movie''), (''position'', VInt 5), (''duration'', VInt 100)]"

definition sample_lists_db :: db where
  "sample_lists_db = empty_db\<lparr>media_table := [new_media 3 Movie ''Film'' (Some 3) 0],
     entry_table := [(new_entry 1 1 3 0)\<lparr>te_status := ''watching''\<rparr>]\<rparr>"

definition sample_observing :: observing where
  "sample_observing = \<lparr>og_now = 9, og_today = sample_monday, og_round = None, og_conn = sample_pull, og_feed = sample_empty_feed,
     og_previous = [(''progress'', VDict [(''tt1'', VDict sample_lost_resume)])], og_prior_at = Some 5, og_mappings = [(''tt1'', VInt 3)],
     og_numbers = {3}, og_dismissed = {}, og_existing = {3}, og_imported = {}, og_first = False, og_active = [], og_done = [], og_auto = False\<rparr>"

definition sample_world :: observed_world where
  "sample_world = \<lparr>ow_db = sample_lists_db, ow_changed = {}, ow_outbound = [], ow_inferred = {}, ow_accepted = []\<rparr>"

lemma sample_removed:
  "removed_positions sample_observing = [(''tt1'', sample_lost_resume)]"
  "(case remove_position sample_observing {} (''tt1'', sample_lost_resume) sample_world of Inl _ \<Rightarrow> False
    | Inr w \<Rightarrow> entry_statuses (ow_db w) = [(1, ''dropped'')])"
  "entry_statuses (ow_db sample_world) = [(1, ''watching'')]"
  by code_simp+

theorem missing_position_stops_title_witness:
  "\<exists>w'. remove_position sample_observing {} (''tt1'', sample_lost_resume) sample_world = Inr w'
     \<and> entry_statuses (ow_db w') = [(1, ''dropped'')] \<and> \<not> completed_progress sample_lost_resume (og_completed sample_observing)"
proof -
  obtain w' where w': "remove_position sample_observing {} (''tt1'', sample_lost_resume) sample_world = Inr w'"
    and gone: "entry_statuses (ow_db w') = [(1, ''dropped'')]"
    using sample_removed(2) by (cases "remove_position sample_observing {} (''tt1'', sample_lost_resume) sample_world") simp_all
  have "entry_statuses (ow_db w') \<noteq> entry_statuses (ow_db sample_world)" by (simp add: gone sample_removed(3))
  from conjunct1 [OF missing_position_stops_title [OF w' this]] show ?thesis using w' gone by (intro exI [of _ w'] conjI)
qed

section \<open>A title that is observed\<close>

lemma filter_result_subset: "filter_result P rows = Inr kept_ones \<Longrightarrow> set kept_ones \<subseteq> set rows"
  by (auto simp: filter_result_def and_then_Inr_iff elim!: in_set_zipE)

lemma unordered_lists:
  "entry_table (report_unordered og m e proposed row t db) = entry_table db"
  "watch_event_table (report_unordered og m e proposed row t db) = watch_event_table db"
  by (simp_all add: report_unordered_def add_review_def Let_def)

lemma observe_entry_order:
  assumes "observe_entry og plays finished resumed m e allowed rows row w = Inr w'" and "provider_changed_at row = Inr t"
    and "entry_table (ow_db w') \<noteq> entry_table (ow_db w) \<or> watch_event_table (ow_db w') \<noteq> watch_event_table (ow_db w)"
  shows "observation_ordering (ow_db w) (og_conn og) m e (map_option sb_observed_at (og_baseline og (ow_db w)))
    (m_id m \<in> og_existing og) allowed row t = Apply"
proof (rule ccontr)
  let ?order = "observation_ordering (ow_db w) (og_conn og) m e (map_option sb_observed_at (og_baseline og (ow_db w)))
    (m_id m \<in> og_existing og) allowed row t"
  assume other: "?order \<noteq> Apply"
  show False
  proof (cases ?order)
    case Outdated
    then have "w' = w" using assms(1,2) by (simp add: observe_entry_def Let_def)
    then show False using assms(3) by simp
  next
    case Unordered
    then obtain proposed where "w' = w\<lparr>ow_db := report_unordered og m e proposed row t (ow_db w)\<rparr>"
      using assms(1,2) by (auto simp: observe_entry_def Let_def)
    then show False using assms(3) by (simp add: unordered_lists)
  qed (use other in simp)
qed


definition sample_shown :: pydict where
  "sample_shown = dict_set ''last_watched'' (VInt 1717149600) sample_lost_resume"

lemma sample_observed:
  "(case observe_rows sample_observing [] [] [sample_shown] (3, [sample_shown]) sample_world of Inl _ \<Rightarrow> False
    | Inr w \<Rightarrow> map te_status_source (entry_table (ow_db w)) = [Some ''nuvio:4''])"
  "map te_status_source (entry_table (ow_db sample_world)) = [None]"
  "leading_row [sample_shown] [sample_shown] = Inr (Some sample_shown)"
  by code_simp+


section \<open>Prompts for a score\<close>

text \<open>A completion asks for a score once: nothing is asked while a prompt is open, and a score closes it.\<close>

lemma completion_prompts_once:
  assumes "queue_sync_completion_rating now user m e source db = Inr db'"
    and "length (filter (open_prompt user (m_id m)) (review_table db)) \<le> 1"
  shows "length (filter (open_prompt user (m_id m)) (review_table db')) \<le> 1"
proof (cases "list_ex (open_prompt user (m_id m)) (review_table db)")
  case True
  then have "db' = db" using assms(1) by (auto simp: queue_sync_completion_rating_def and_then_Inr_iff split: if_splits)
  then show ?thesis using assms(2) by simp
next
  case False
  then have none: "filter (open_prompt user (m_id m)) (review_table db) = []" by (auto simp: list_ex_iff filter_empty_conv)
  have "db' = db \<or> review_table db' = review_table db @ [rating_prompt db now user m source]"
    using assms(1) by (auto simp: queue_sync_completion_rating_def and_then_Inr_iff add_review_def split: if_splits)
  then show ?thesis using none by auto
qed

lemma score_closes_prompts: "filter (open_prompt user mid) (review_table (resolve_rating_prompts now user mid db)) = []"
proof -
  have closed: "\<not> open_prompt user mid (r\<lparr>sr_dismissed_at := Some now, sr_payload := p\<rparr>)" for r p by (simp add: open_prompt_def)
  have "filter (open_prompt user mid) (update_where (open_prompt user mid)
      (\<lambda>r. r\<lparr>sr_dismissed_at := Some now, sr_payload := dict_set ''push_state'' (VStr ''rated'') (sr_payload r)\<rparr>) rs) = []" for rs
    by (induction rs) (simp_all add: update_where_def closed)
  then show ?thesis by (simp add: resolve_rating_prompts_def)
qed

end
