(* ===== verification/ActivityCards.thy ===== *)
theory ActivityCards
  imports Activity
begin

text \<open>
  What the feed shows (\<open>core/activity.py\<close>): every card has something to say, and what is taken back within the window of a
  card leaves no trace.
\<close>

section \<open>Times that were stored\<close>

lemma parse_clock_naive:
  assumes "us < 86400000000"
  shows "parse_clock (time_text us) = Some (us, None)"
proof -
  obtain fs where fs: "parse_duration (time_text us) = Some (fs, us)" "in_clock fs"
    using parse_duration_time_text [OF assms] by blast
  have "split_at c (time_text us) = None" if "c \<notin> set (time_text us)" for c
    using split_once_none [OF that] by (simp add: split_at_def)
  then show ?thesis using not_in_time_text [of us] by (simp add: parse_clock_def fs)
qed

lemma parse_datetime_isoformat:
  assumes "valid_datetime t"
  shows "parse_datetime (datetime_isoformat t) = Some (t, None)"
proof -
  let ?n = "nat (t div us_per_day + epoch_ordinal)"
  have n: "1 \<le> ?n" "?n \<le> 3652059" using assms by (auto simp: valid_datetime_def le_nat_iff nat_le_iff)
  have valid: "valid_date (date_of t)" using fromordinal_valid [OF n] by (simp add: date_of_def)
  have "int (toordinal (date_of t)) = t div us_per_day + epoch_ordinal"
    using toordinal_fromordinal(1) [OF n(1)] assms by (simp add: date_of_def valid_datetime_def)
  then have mid: "midnight (date_of t) = t div us_per_day * us_per_day" by (simp add: midnight_def)
  have r: "0 \<le> t mod us_per_day" "t mod us_per_day < 86400000000" by (simp_all add: us_per_day_def)
  then have "parse_clock (time_text (nat (t mod us_per_day))) = Some (nat (t mod us_per_day), None)"
    by (intro parse_clock_naive) simp
  moreover have "time_text (nat (t mod us_per_day)) \<noteq> []" by (simp add: time_text_def two_digits_def Let_def)
  moreover have "date_length (datetime_isoformat t) = Some 10"
    using date_length_isoformat [of "''T'' @ time_text (nat (t mod us_per_day))"] by (simp add: datetime_isoformat_def)
  ultimately show ?thesis
    using r(1) fromisoformat_isoformat [OF valid]
    by (simp add: parse_datetime_def datetime_isoformat_def mid)
qed

lemma stored_time_isoformat [simp]:
  "valid_datetime t \<Longrightarrow> stored_time (VStr (datetime_isoformat t)) = Inr t"
  by (simp add: stored_time_def parse_datetime_isoformat)

lemma isoformat_filled [simp]: "datetime_isoformat t \<noteq> []"
  by (simp add: datetime_isoformat_def)

section \<open>Every card shows an action\<close>

definition cards_show_actions :: "db \<Rightarrow> bool" where
  "cards_show_actions db \<longleftrightarrow> (\<forall>r \<in> set (activity_table db). shows_action r)"

lemma updated_card: "r \<in> set (update_where P f xs) \<Longrightarrow> (\<exists>x \<in> set xs. P x \<and> r = f x) \<or> r \<in> set xs"
  by (auto simp: update_where_def split: if_splits)

lemma correct_rating_shows: "shows_action (correct_rating sc r)"
  by (simp add: shows_action_def has_activity_event_def correct_rating_def get_dict_set get_dict_pop)

lemma prepare_rating_shows:
  assumes "prepare_rating_activity user mid status score previous changed now db = Inr (rated, found, db')" "cards_show_actions db"
  shows "cards_show_actions db'"
proof -
  have "cards_show_actions (clear_recent_rating_activity user mid now db)"
    using assms(2) by (auto simp: cards_show_actions_def clear_recent_rating_activity_def Let_def recent_card_def clear_card_rating_def)
  moreover have "cards_show_actions (db\<lparr>activity_table := update_where P (correct_rating sc) (activity_table db)\<rparr>)" for P sc
    using assms(2) updated_card [of _ P "correct_rating sc" "activity_table db"] correct_rating_shows
    by (fastforce simp: cards_show_actions_def)
  ultimately show ?thesis
    using assms by (auto simp: prepare_rating_activity_def and_then_def split: if_splits option.splits sum.splits)
qed

lemma set_card_shows: "cards_show_actions db \<Longrightarrow> shows_action r \<Longrightarrow> cards_show_actions (set_card r db)"
  using updated_card [of _ _ "\<lambda>_. r" "activity_table db"] by (fastforce simp: cards_show_actions_def set_card_def)

lemma delete_card_shows: "cards_show_actions db \<Longrightarrow> cards_show_actions (delete_card row db)"
  by (auto simp: cards_show_actions_def delete_card_def split: option.split)

lemma end_import_window_cards [simp]: "activity_table (end_import_window now user mid db) = activity_table db"
  by (simp add: end_import_window_def)

lemma end_import_window_shows [simp]: "cards_show_actions (end_import_window now user mid db) = cards_show_actions db"
  by (simp add: cards_show_actions_def)

lemma put_card_shows:
  assumes "put_card now user mid status score changed row details db = Inr db'" "cards_show_actions db"
  shows "cards_show_actions db'"
proof -
  have new: "cards_show_actions (db\<lparr>activity_table := activity_table db @ [new_card db user mid status score details now]\<rparr>)"
    if "has_activity_event status details"
    using that assms(2) by (auto simp: cards_show_actions_def new_card_def shows_action_def)
  have upd: "cards_show_actions (set_card (r\<lparr>ta_status := status, ta_score := score, ta_payload := details, ta_created_at := ms_clock now\<rparr>) db)"
    if "has_activity_event status details" for r
    by (rule set_card_shows [OF assms(2)]) (simp add: shows_action_def that)
  show ?thesis
    using assms new upd set_card_shows [OF assms(2)] delete_card_shows [OF assms(2)]
    by (auto simp: put_card_def and_then_def Let_def split: if_splits option.splits sum.splits)
qed

lemma record_progress_shows:
  assumes "record_progress_activity now today user m prev progress previous_ids seen_ids ac db = Inr db'" "cards_show_actions db"
  shows "cards_show_actions db'"
  using assms(1)
  by (auto simp: record_progress_activity_def and_then_def split: sum.splits prod.splits
      dest!: put_card_shows prepare_rating_shows [OF _ assms(2)])

lemma record_daily_shows:
  assumes "record_daily_activity now user mid dc db = Inr db'" "cards_show_actions db"
  shows "cards_show_actions db'"
  using assms(1)
  by (auto simp: record_daily_activity_def and_then_def split: sum.splits prod.splits if_splits
      dest!: put_card_shows prepare_rating_shows [OF _ assms(2)])

lemma map_result_source: "map_result f xs = Inr ys \<Longrightarrow> y \<in> set ys \<Longrightarrow> \<exists>x \<in> set xs. f x = Inr y"
  by (induction xs arbitrary: ys) (auto simp: and_then_def split: sum.splits)

lemma rebuild_card_owner:
  "rebuild_card r = Inr r' \<Longrightarrow> ta_user_id r' = ta_user_id r \<and> ta_media_id r' = ta_media_id r \<and> ta_id r' = ta_id r"
  by (auto simp: rebuild_card_def Let_def and_then_def split: sum.splits)

lemma unwatch_card_owner: "unwatch_card u r = Inr r' \<Longrightarrow> ta_user_id r' = ta_user_id r \<and> ta_media_id r' = ta_media_id r"
  by (auto simp: unwatch_card_def unwatch_imported_def Let_def and_then_def split: sum.splits if_splits dest!: rebuild_card_owner)

lemma reconcile_unwatched_shows:
  assumes "reconcile_unwatched_activity user m episodes seen_ids removed_ids db = Inr db'" "cards_show_actions db"
  shows "cards_show_actions db'"
proof -
  let ?mine = "\<lambda>r. ta_user_id r = user \<and> ta_media_id r = m_id m"
  let ?step = "\<lambda>r. if ?mine r then unwatch_card (unwatched_of episodes seen_ids removed_ids) r else Inr r"
  obtain rows where rows: "map_result ?step (activity_table db) = Inr rows"
    and db': "db' = db\<lparr>activity_table := filter (\<lambda>r. ?mine r \<longrightarrow> shows_action r) rows\<rparr>"
    using assms(1) by (auto simp: reconcile_unwatched_activity_def and_then_def split: sum.splits)
  have "shows_action r" if "r \<in> set rows" "\<not> ?mine r" for r
  proof -
    from map_result_source [OF rows that(1)] obtain x where x: "x \<in> set (activity_table db)" "?step x = Inr r" by blast
    then have "r = x" using that(2) unwatch_card_owner by (auto split: if_splits)
    then show ?thesis using x assms(2) by (simp add: cards_show_actions_def)
  qed
  then show ?thesis by (auto simp: cards_show_actions_def db')
qed

text \<open>C25: A card never stands without something to show: recording progress, any other change of a title, the removal of
  a rating or of plays keeps the feed free of cards without a qualifying action.\<close>

theorem feed_shows_actions:
  assumes "\<forall>r \<in> set (activity_table db). shows_action r"
    and "record_progress_activity now today user m prev progress previous_ids seen_ids ac db = Inr db'
      \<or> record_daily_activity now user mid dc db = Inr db' \<or> clear_recent_rating_activity user mid now db = db'
      \<or> reconcile_unwatched_activity user m episodes left_ids removed_ids db = Inr db'"
  shows "\<forall>r \<in> set (activity_table db'). shows_action r"
proof -
  have "cards_show_actions db" using assms(1) by (simp add: cards_show_actions_def)
  moreover have "cards_show_actions (clear_recent_rating_activity user mid now db)"
    using assms(1) by (auto simp: cards_show_actions_def clear_recent_rating_activity_def Let_def recent_card_def clear_card_rating_def)
  ultimately have "cards_show_actions db'"
    using assms(2) record_progress_shows record_daily_shows reconcile_unwatched_shows by metis
  then show ?thesis by (simp add: cards_show_actions_def)
qed

section \<open>What is taken back\<close>

lemma dict_merge_simps [simp]: "dict_merge a [] = a" "dict_merge a ((k, v) # b) = dict_merge (dict_set k v a) b"
  by (simp_all add: dict_merge_def)

lemma max_by_simps [simp]: "max_by f [] = None" "max_by f [x] = Some x"
  by (simp_all add: max_by_def)

lemma no_recent_card:
  assumes "\<forall>r \<in> set (activity_table db). ta_user_id r = user \<and> ta_media_id r = mid \<longrightarrow> ta_created_at r \<le> now - hours 24"
    and "now \<le> later"
  shows "filter (\<lambda>r. later - hours 24 < ta_created_at r \<and> ta_created_at r \<le> later) (cards_of db user mid) = []"
  using assms by (fastforce simp: cards_of_def filter_empty_conv)

lemma active_card_none:
  assumes "\<forall>r \<in> set (activity_table db). ta_user_id r = user \<and> ta_media_id r = mid \<longrightarrow> ta_created_at r \<le> now - hours 24"
  shows "active_activity_card user mid now db = Inr None"
  unfolding active_activity_card_def latest_card_def no_recent_card [OF assms order.refl] by simp

lemma active_card_again:
  fixes db db1 :: db
  assumes quiet: "\<forall>r \<in> set (activity_table db). ta_user_id r = user \<and> ta_media_id r = mid \<longrightarrow> ta_created_at r \<le> now - hours 24"
    and later: "valid_datetime now" "now \<le> later" "later < ms_clock now + hours 24"
    and c: "activity_table db1 = activity_table db @ [c]" "ta_user_id c = user" "ta_media_id c = mid" "ta_created_at c = ms_clock now"
      "get (ta_payload c) ''window_started_at'' = VStr (datetime_isoformat now)"
  shows "active_activity_card user mid later db1 = Inr (Some c)"
proof -
  have ms: "ms_clock now \<le> now" by (simp add: ms_clock_def minus_mod_eq_div_mult [symmetric])
  have "cards_of db1 user mid = cards_of db user mid @ [c]" using c by (simp add: cards_of_def)
  then have "latest_card user mid later db1 = Some c"
    using no_recent_card [OF quiet later(2)] ms later c by (simp add: latest_card_def)
  moreover have "activity_window_start c = Inr now" using c later by (simp add: activity_window_start_def)
  ultimately show ?thesis using later ms by (simp add: active_activity_card_def)
qed

lemma delete_new_card:
  assumes "activity_table db1 = activity_table db @ [c]" "ta_id c = next_id ta_id (activity_table db)"
  shows "activity_table (delete_card (Some c) db1) = activity_table db"
proof -
  have "filter (\<lambda>x. ta_id x \<noteq> ta_id c) (activity_table db) = activity_table db"
    using next_id_not_in [of ta_id "activity_table db"] assms(2) by (intro filter_True) (auto simp: image_iff)
  then show ?thesis using assms by (simp add: delete_card_def)
qed

lemma put_new_card:
  assumes "put_card now user mid status score changed None details db = Inr db1" "has_activity_event status details"
  shows "activity_table db1 = activity_table db @ [new_card db user mid status score details now]"
  using assms by (auto simp: put_card_def Let_def split: if_splits)

lemma put_gone_card:
  assumes "put_card now user mid status score changed (Some r) details db = Inr db1" "\<not> has_activity_event status details"
    and "map_of (ta_payload r) ''streaming_base'' = None"
  shows "db1 = delete_card (Some r) db"
  using assms by (simp add: put_card_def retain_local_activity_def)

lemma prepare_no_rating [simp]:
  "prepare_rating_activity user mid status score previous False now db = Inr (False, None, db)"
  by (simp add: prepare_rating_activity_def)

text \<open>The progress of a card that was just opened.\<close>

definition opened_details :: "datetime \<Rightarrow> pydict" where
  "opened_details now = [(''window_started_at'', VStr (datetime_isoformat now)), (''window_key'', VStr (datetime_isoformat now))]"

lemma set_window_new: "set_activity_window None now [] = Inr (opened_details now)"
  by (simp add: set_activity_window_def opened_details_def)

lemma get_opened:
  "k \<noteq> ''window_started_at'' \<Longrightarrow> k \<noteq> ''window_key'' \<Longrightarrow> map_of (opened_details now) k = None"
  by (simp add: opened_details_def)

lemma get_opened_details:
  "get (opened_details now) k = (if k = ''window_started_at'' \<or> k = ''window_key'' then VStr (datetime_isoformat now) else VNone)"
  by (simp add: opened_details_def get_def dict_get_def)

lemma get_finish_quiet:
  assumes "\<not> ac_status_changed ac"
  shows "get (finish_details now ac False d) k =
    (if k = ''rating_changed'' \<or> k = ''status_changed'' then VBool (truthy (get d k)) else get d k)"
  using assms by (simp add: finish_details_def record_rating_details_def record_status_details_def get_dict_set)

lemma keys_finish_quiet:
  assumes "\<not> ac_status_changed ac"
  shows "map_of (finish_details now ac False d) k = None \<longleftrightarrow> map_of d k = None \<and> k \<noteq> ''rating_changed'' \<and> k \<noteq> ''status_changed''"
  using assms by (simp add: finish_details_def record_rating_details_def record_status_details_def)

definition counted_details :: "int \<Rightarrow> int \<Rightarrow> pydict \<Rightarrow> pydict" where
  "counted_details baseline progress details =
     dict_merge details [(''episodes_watched'', VInt (max 0 (progress - baseline))), (''progress_start'', VInt baseline), (''progress'', VInt progress)]"

lemma progress_details_span:
  assumes "progress_details today user m progress previous_ids None carded baseline details db = Inr d" "map_of details ''watched_start_ids'' = None"
  shows "\<exists>found. series_activity_span today db m baseline progress = Inr found \<and> d = span_details found (counted_details baseline progress details)"
  using assms by (auto simp: progress_details_def counted_details_def and_then_def split: sum.splits)

lemma get_span_details:
  "get (span_details found d) k =
     (if k = ''finished_seasons'' then VList (map VInt (snd (snd found))) else if k = ''position'' then fst (snd found)
      else if k = ''position_start'' then fst found else get d k)"
  by (simp add: span_details_def get_dict_set)

lemma get_counted_details:
  "get (counted_details baseline progress d) k =
     (if k = ''progress'' then VInt progress else if k = ''progress_start'' then VInt baseline
      else if k = ''episodes_watched'' then VInt (max 0 (progress - baseline)) else get d k)"
  by (simp add: counted_details_def get_dict_set)

lemma keys_span_counted:
  "map_of (span_details found (counted_details baseline progress d)) k = None \<longleftrightarrow>
     map_of d k = None \<and> k \<notin> {''finished_seasons'', ''position'', ''position_start'', ''progress'', ''progress_start'', ''episodes_watched''}"
  by (auto simp: span_details_def counted_details_def)


definition quiet_change :: activity_change where
  "quiet_change = \<lparr>ac_status = ''watching'', ac_score = None, ac_status_changed = False, ac_rating_changed = False,
     ac_previous_status = None, ac_first_watching = None, ac_previous_score = None\<rparr>"

definition sample_show :: media where
  "sample_show = new_media 7 Series ''Show'' None 0"

definition sample_day :: date where
  "sample_day = date_of 0"

lemma sample_fields:
  "ac_status quiet_change = ''watching''" "ac_score quiet_change = None" "\<not> ac_status_changed quiet_change"
  "\<not> ac_rating_changed quiet_change" "m_id sample_show = 7" "activity_table empty_db = []" "show_table empty_db = []"
  by (simp_all add: quiet_change_def sample_show_def new_media_def empty_db_def)

lemma sample_valid: "valid_datetime 0"
  by (simp add: valid_datetime_def epoch_ordinal_def)

lemma sample_catalog: "show_table db = [] \<Longrightarrow> series_activity_catalog today db m = Inr ([], [])"
  by (simp add: series_activity_catalog_def)

lemma sample_opened:
  "\<exists>d. record_progress_activity 0 sample_day 1 sample_show 0 2 None None quiet_change empty_db
     = Inr (empty_db\<lparr>activity_table := [new_card empty_db 1 7 ''watching'' None d 0]\<rparr>)
   \<and> get d ''window_started_at'' = VStr (datetime_isoformat 0) \<and> map_of d ''streaming_base'' = None
   \<and> map_of d ''watched_start_ids'' = None \<and> get d ''progress_start'' = VInt 0"
proof -
  let ?d = "finish_details 0 quiet_change False (span_details (VNone, VNone, []) (counted_details 0 2 (opened_details 0)))"
  have q: "\<not> ac_status_changed quiet_change" by (simp add: quiet_change_def)
  have pd: "progress_details sample_day 1 sample_show 2 None None False 0 (opened_details 0) empty_db
      = Inr (span_details (VNone, VNone, []) (counted_details 0 2 (opened_details 0)))"
    by (simp add: progress_details_def counted_details_def series_activity_span_def sample_show_def new_media_def
        sample_catalog empty_db_def get_opened)
  have base: "progress_baseline 0 (opened_details 0) = Inr 0"
    by (simp add: progress_baseline_def get_opened_details to_int_def py_or_def)
  have "has_activity_event ''watching'' ?d"
    by (simp add: has_activity_event_def get_finish_quiet [OF q] get_span_details get_counted_details)
  then have "record_progress_activity 0 sample_day 1 sample_show 0 2 None None quiet_change empty_db
     = Inr (empty_db\<lparr>activity_table := [new_card empty_db 1 7 ''watching'' None ?d 0]\<rparr>)"
    by (simp add: record_progress_activity_def pd base active_card_none local_activity_details_def set_window_new put_card_def
        sample_fields)
  moreover have "get ?d ''window_started_at'' = VStr (datetime_isoformat 0)" "get ?d ''progress_start'' = VInt 0"
    by (simp_all add: get_finish_quiet [OF q] get_span_details get_counted_details get_opened_details)
  moreover have "map_of ?d ''streaming_base'' = None" "map_of ?d ''watched_start_ids'' = None"
    by (simp_all add: keys_finish_quiet [OF q] keys_span_counted get_opened)
  ultimately show ?thesis by blast
qed

lemma sample_closed:
  assumes "db1 = empty_db\<lparr>activity_table := [new_card empty_db 1 7 ''watching'' None d 0]\<rparr>"
    "get d ''window_started_at'' = VStr (datetime_isoformat 0)" "map_of d ''streaming_base'' = None"
    "map_of d ''watched_start_ids'' = None" "get d ''progress_start'' = VInt 0"
  shows "\<exists>db2. record_progress_activity (hours 1) sample_day 1 sample_show 2 0 None None quiet_change db1 = Inr db2"
proof -
  let ?c = "new_card empty_db 1 7 ''watching'' None d 0"
  have row: "active_activity_card 1 7 (hours 1) db1 = Inr (Some ?c)"
    using assms(2) sample_valid
    by (intro active_card_again [of empty_db 1 7 0]) (simp_all add: assms(1) empty_db_def new_card_def hours_def minutes_def ms_clock_def)
  have win: "set_activity_window (Some ?c) (hours 1) d = Inr d"
    using assms(2) by (auto simp: set_activity_window_def get_def dict_get_def split: option.splits)
  have base: "progress_baseline 2 d = Inr 0" using assms(5) by (simp add: progress_baseline_def to_int_def)
  have pd: "progress_details sample_day 1 sample_show 0 None None True 0 d db1 = Inr (span_details (VNone, VNone, []) (counted_details 0 0 d))"
    using assms(4) by (simp add: progress_details_def counted_details_def series_activity_span_def)
  have local: "local_activity_details (Some ?c) = d" using assms(3) by (simp add: local_activity_details_def new_card_def)
  show ?thesis
    using row win base pd local assms(3)
    by (simp add: record_progress_activity_def sample_fields put_card_def retain_local_activity_def new_card_def)
qed


theorem feed_shows_actions_witness:
  "\<exists>db1. record_progress_activity 0 sample_day 1 sample_show 0 2 None None quiet_change empty_db = Inr db1
     \<and> activity_table db1 \<noteq> [] \<and> (\<forall>r \<in> set (activity_table db1). shows_action r)"
proof -
  obtain d where d: "record_progress_activity 0 sample_day 1 sample_show 0 2 None None quiet_change empty_db
     = Inr (empty_db\<lparr>activity_table := [new_card empty_db 1 7 ''watching'' None d 0]\<rparr>)"
    using sample_opened by blast
  let ?db1 = "empty_db\<lparr>activity_table := [new_card empty_db 1 7 ''watching'' None d 0]\<rparr>"
  have empty: "\<forall>r \<in> set (activity_table empty_db). shows_action r" by (simp add: sample_fields)
  have all: "\<forall>r \<in> set (activity_table ?db1). shows_action r" by (rule feed_shows_actions [OF empty disjI1 [OF d]])
  have shown: "activity_table ?db1 \<noteq> []" by simp
  show ?thesis by (rule exI [of _ ?db1]) (intro conjI d shown all)
qed

end
